(* ===== verification/Prelude.thy ===== *)
theory Prelude
  imports Complex_Main "HOL-Library.AList" "HOL-Library.Char_ord" "HOL-Library.List_Lexorder"
    "HOL-Library.Product_Lexorder"
begin

section \<open>Shared vocabulary of the development\<close>

text \<open>
  What the Python of src/src/exitspec uses everywhere and the component theories share:
  aware and naive datetimes, text normalisation (\<open>str.strip\<close>, \<open>str.split\<close>), the
  identifier patterns, JSON payloads and the digests over them, dictionaries as association
  lists in insertion order, and a state-and-error combinator in which a raised exception keeps
  the mutations made before it.

  Text is \<open>string\<close>: one \<open>char\<close> per code point, so the model speaks about texts whose code
  points are below 256. Digests are parameters (\<open>hasher\<close>): \<open>rfc8785\<close> is a third-party
  package and \<open>hashlib\<close> a compression function whose only use here is to name a payload.
\<close>

named_theorems clock_simps "unfolding of clock readings and instants"
named_theorems flow_simps "one-step rules of the state-and-error combinators"
named_theorems dict_simps "dictionaries as association lists"

subsection \<open>Datetimes\<close>

text \<open>
  A naive datetime has wall-clock microseconds only; an aware one has its UTC instant in
  microseconds and its offset in minutes. Python orders and equates aware datetimes by the
  instant. A clock is read at most once per modelled operation; its reading is an argument.
\<close>

datatype py_datetime = Naive int | Aware int int

fun dt_aware :: "py_datetime \<Rightarrow> bool" where
  "dt_aware (Naive t) = False"
| "dt_aware (Aware t off) = True"

fun instant :: "py_datetime \<Rightarrow> int" where
  "instant (Naive t) = t"
| "instant (Aware t off) = t"

fun dt_utc :: "py_datetime \<Rightarrow> bool" where
  "dt_utc (Naive t) = False"
| "dt_utc (Aware t off) = (off = 0)"

definition dt_eq :: "py_datetime \<Rightarrow> py_datetime \<Rightarrow> bool" where
  "dt_eq a b \<longleftrightarrow> dt_aware a = dt_aware b \<and> instant a = instant b"

lemma dt_utc_aware [simp]: "dt_utc d \<Longrightarrow> dt_aware d"
  by (cases d) auto

lemma dt_eq_refl [simp]: "dt_eq d d"
  by (simp add: dt_eq_def)

lemma dt_eq_sym: "dt_eq a b \<Longrightarrow> dt_eq b a"
  by (simp add: dt_eq_def)

lemma dt_eq_utc: "dt_utc a \<Longrightarrow> dt_utc b \<Longrightarrow> dt_eq a b \<longleftrightarrow> a = b"
  by (cases a; cases b) (auto simp: dt_eq_def)

text \<open>What calling the injected clock yields: an exception, a value that is no datetime, or one.\<close>

datatype clock_value = ClockRaises | ClockOther | ClockAt py_datetime

subsection \<open>State and errors\<close>

text \<open>
  A method that mutates \<open>self\<close> and may raise is a function from the state to the state it
  leaves behind and either the exception or the result. Unlike a transaction, an exception keeps
  whatever was assigned before it.
\<close>

type_synonym ('s, 'e, 'a) action = "'s \<Rightarrow> 's \<times> ('e + 'a)"

definition ret :: "'a \<Rightarrow> ('s, 'e, 'a) action" where
  "ret a = (\<lambda>s. (s, Inr a))"

definition raise :: "'e \<Rightarrow> ('s, 'e, 'a) action" where
  "raise e = (\<lambda>s. (s, Inl e))"

definition modify :: "('s \<Rightarrow> 's) \<Rightarrow> ('s, 'e, unit) action" where
  "modify f = (\<lambda>s. (f s, Inr ()))"

definition demand :: "('s \<Rightarrow> bool) \<Rightarrow> 'e \<Rightarrow> ('s, 'e, unit) action" where
  "demand P e = (\<lambda>s. (s, if P s then Inr () else Inl e))"

definition seq :: "('s, 'e, 'a) action \<Rightarrow> ('a \<Rightarrow> ('s, 'e, 'b) action) \<Rightarrow> ('s, 'e, 'b) action" where
  "seq m k = (\<lambda>s. case m s of (s', Inl e) \<Rightarrow> (s', Inl e) | (s', Inr a) \<Rightarrow> k a s')"

definition branch :: "('s \<Rightarrow> bool) \<Rightarrow> ('s, 'e, 'a) action \<Rightarrow> ('s, 'e, 'a) action \<Rightarrow> ('s, 'e, 'a) action" where
  "branch P m n = (\<lambda>s. if P s then m s else n s)"

lemma ret_apply [simp, flow_simps]: "ret a s = (s, Inr a)"
  by (simp add: ret_def)

lemma raise_apply [simp, flow_simps]: "raise e s = (s, Inl e)"
  by (simp add: raise_def)

lemma modify_apply [simp, flow_simps]: "modify f s = (f s, Inr ())"
  by (simp add: modify_def)

lemma demand_apply [flow_simps]: "demand P e s = (s, if P s then Inr () else Inl e)"
  by (simp add: demand_def)

lemma branch_apply [flow_simps]: "branch P m n s = (if P s then m s else n s)"
  by (simp add: branch_def)

lemma seq_apply [flow_simps]:
  "seq m k s = (case m s of (s', Inl e) \<Rightarrow> (s', Inl e) | (s', Inr a) \<Rightarrow> k a s')"
  by (simp add: seq_def)

text \<open>An invariant that every part keeps is kept by the composition, errors included.\<close>

definition keeps :: "('s \<Rightarrow> bool) \<Rightarrow> ('s, 'e, 'a) action \<Rightarrow> bool" where
  "keeps I m \<longleftrightarrow> (\<forall>s. I s \<longrightarrow> I (fst (m s)))"

lemma keepsI [intro]: "(\<And>s. I s \<Longrightarrow> I (fst (m s))) \<Longrightarrow> keeps I m"
  by (simp add: keeps_def)

lemma keepsD: "keeps I m \<Longrightarrow> I s \<Longrightarrow> I (fst (m s))"
  by (simp add: keeps_def)

lemma keeps_seq: "keeps I m \<Longrightarrow> (\<And>a. keeps I (k a)) \<Longrightarrow> keeps I (seq m k)"
  by (fastforce simp: keeps_def seq_def split: prod.splits sum.splits)

lemma keeps_branch: "keeps I m \<Longrightarrow> keeps I n \<Longrightarrow> keeps I (branch P m n)"
  by (auto simp: keeps_def branch_def)

lemma keeps_ret [simp]: "keeps I (ret a)" and keeps_raise [simp]: "keeps I (raise e)"
  and keeps_demand [simp]: "keeps I (demand P e)"
  by (auto simp: keeps_def demand_def)

subsection \<open>Guard sequences\<close>

text \<open>
  A run of \<open>if bad: raise E\<close> statements is a list of pairs (condition that is refused, error),
  and what it raises is the error of the first condition that holds.
\<close>

fun first_error :: "(bool \<times> 'e) list \<Rightarrow> 'e option" where
  "first_error [] = None"
| "first_error ((bad, e) # rest) = (if bad then Some e else first_error rest)"

lemma first_error_None_iff: "first_error gs = None \<longleftrightarrow> (\<forall>g \<in> set gs. \<not> fst g)"
  by (induction gs rule: first_error.induct) auto

lemma first_error_append:
  "first_error (xs @ ys) = (case first_error xs of None \<Rightarrow> first_error ys | Some e \<Rightarrow> Some e)"
  by (induction xs rule: first_error.induct) auto

lemma first_error_SomeD: "first_error gs = Some e \<Longrightarrow> (True, e) \<in> set gs"
  by (induction gs rule: first_error.induct) (auto split: if_splits)

definition checked :: "(bool \<times> 'e) list \<Rightarrow> 'a \<Rightarrow> 'e + 'a" where
  "checked gs a = (case first_error gs of Some e \<Rightarrow> Inl e | None \<Rightarrow> Inr a)"

lemma checked_Inr_iff: "checked gs a = Inr b \<longleftrightarrow> first_error gs = None \<and> b = a"
  by (auto simp: checked_def split: option.splits)

subsection \<open>Text\<close>

text \<open>The characters \<open>str.strip\<close> and \<open>str.split\<close> treat as white space, below code point 256.\<close>

definition py_space :: "char \<Rightarrow> bool" where
  "py_space c \<longleftrightarrow> (let n = (of_char c :: nat) in
     9 \<le> n \<and> n \<le> 13 \<or> 28 \<le> n \<and> n \<le> 32 \<or> n = 133 \<or> n = 160)"

definition py_strip :: "string \<Rightarrow> string" where
  "py_strip s = rev (dropWhile py_space (rev (dropWhile py_space s)))"

definition starts_with :: "string \<Rightarrow> string \<Rightarrow> bool" where
  "starts_with p s \<longleftrightarrow> take (length p) s = p"

definition ends_with :: "string \<Rightarrow> string \<Rightarrow> bool" where
  "ends_with p s \<longleftrightarrow> starts_with (rev p) (rev s)"

text \<open>\<open>str.split(sep)\<close> for a one-character separator: never empty, empty parts kept.\<close>

fun split_at :: "char \<Rightarrow> string \<Rightarrow> string list" where
  "split_at c [] = [[]]"
| "split_at c (x # xs) = (if x = c then [] # split_at c xs
     else (case split_at c xs of [] \<Rightarrow> [[x]] | y # ys \<Rightarrow> (x # y) # ys))"

lemma split_at_nonempty [simp]: "split_at c s \<noteq> []"
  by (induction s) (auto split: list.splits)

fun join_with :: "char \<Rightarrow> string list \<Rightarrow> string" where
  "join_with c [] = []"
| "join_with c [x] = x"
| "join_with c (x # y # ys) = x @ c # join_with c (y # ys)"

lemma join_split: "join_with c (split_at c s) = s"
proof (induction s)
  case Nil
  then show ?case by simp
next
  case (Cons x xs)
  obtain y ys where "split_at c xs = y # ys"
    by (cases "split_at c xs") auto
  with Cons show ?case by (cases ys) auto
qed

text \<open>\<open>sep.join(parts)\<close>\<close>

fun join_str :: "string \<Rightarrow> string list \<Rightarrow> string" where
  "join_str sep [] = []"
| "join_str sep [x] = x"
| "join_str sep (x # y # ys) = x @ sep @ join_str sep (y # ys)"

text \<open>\<open>str.lower\<close> of one character below code point 256.\<close>

definition lower_char :: "char \<Rightarrow> char" where
  "lower_char c = (let n = (of_char c :: nat) in
     if 65 \<le> n \<and> n \<le> 90 \<or> 192 \<le> n \<and> n \<le> 222 \<and> n \<noteq> 215 then char_of (n + 32) else c)"

text \<open>A text field with \<open>min_length=1\<close> and \<open>max_length=n\<close>.\<close>

definition text_within :: "nat \<Rightarrow> string \<Rightarrow> bool" where
  "text_within n t \<longleftrightarrow> 1 \<le> length t \<and> length t \<le> n"

text \<open>An optional text that Python's \<open>if text:\<close> takes as true.\<close>

definition truthy :: "string option \<Rightarrow> bool" where
  "truthy t \<longleftrightarrow> t \<noteq> None \<and> t \<noteq> Some []"

lemma dropWhile_hd: "dropWhile P xs = y # ys \<Longrightarrow> \<not> P y"
  by (induction xs) (auto split: if_splits)

lemma dropWhile_id: "(xs \<noteq> [] \<Longrightarrow> \<not> P (hd xs)) \<Longrightarrow> dropWhile P xs = xs"
  by (cases xs) auto

lemma py_strip_Nil [simp]: "py_strip [] = []"
  by (simp add: py_strip_def)

lemma hd_rev_dropWhile:
  "dropWhile P (rev xs) \<noteq> [] \<Longrightarrow> hd (rev (dropWhile P (rev xs))) = hd xs"
proof (induction xs)
  case Nil
  then show ?case by simp
next
  case (Cons x xs)
  show ?case
  proof (cases "dropWhile P (rev xs) = []")
    case True
    with Cons.prems show ?thesis
      by (auto simp: dropWhile_append split: if_splits)
  next
    case False
    then have "dropWhile P (rev (x # xs)) = dropWhile P (rev xs) @ [x]"
      by (auto simp: dropWhile_append)
    then show ?thesis by simp
  qed
qed

text \<open>Normalisation is a projection: normalising a normalised text changes nothing.\<close>

lemma py_strip_idem [simp]: "py_strip (py_strip s) = py_strip s"
proof (cases "dropWhile py_space (rev (dropWhile py_space s)) = []")
  case True
  then have "py_strip s = []" by (simp only: py_strip_def rev.simps)
  then show ?thesis by simp
next
  case False
  let ?a = "dropWhile py_space s"
  let ?b = "dropWhile py_space (rev ?a)"
  have "?a \<noteq> []" using False by (metis dropWhile.simps(1) rev.simps(1))
  then have "\<not> py_space (hd ?a)" by (metis dropWhile_hd list.collapse)
  moreover have "hd (rev ?b) = hd ?a" using False by (rule hd_rev_dropWhile)
  ultimately have "dropWhile py_space (rev ?b) = rev ?b"
    by (auto intro: dropWhile_id)
  moreover have "dropWhile py_space ?b = ?b" using False
    by (auto intro: dropWhile_id dest: hd_dropWhile)
  ultimately show ?thesis by (simp add: py_strip_def)
qed

lemma length_py_strip: "length (py_strip s) \<le> length s"
  unfolding py_strip_def length_rev
  by (metis length_dropWhile_le length_rev order_trans)

subsection \<open>Identifier patterns\<close>

definition lower_hex :: "char \<Rightarrow> bool" where
  "lower_hex c \<longleftrightarrow> (CHR ''0'' \<le> c \<and> c \<le> CHR ''9'') \<or> (CHR ''a'' \<le> c \<and> c \<le> CHR ''f'')"

definition is_digit :: "char \<Rightarrow> bool" where
  "is_digit c \<longleftrightarrow> CHR ''0'' \<le> c \<and> c \<le> CHR ''9''"

definition is_lower :: "char \<Rightarrow> bool" where
  "is_lower c \<longleftrightarrow> CHR ''a'' \<le> c \<and> c \<le> CHR ''z''"

definition is_upper :: "char \<Rightarrow> bool" where
  "is_upper c \<longleftrightarrow> CHR ''A'' \<le> c \<and> c \<le> CHR ''Z''"

definition lower_alnum :: "char \<Rightarrow> bool" where
  "lower_alnum c \<longleftrightarrow> is_lower c \<or> is_digit c"

text \<open>\<open>[a-f0-9]{n}\<close>, and the SHA-256 pattern \<open>^[a-f0-9]{64}$\<close>.\<close>

definition hex_text :: "nat \<Rightarrow> string \<Rightarrow> bool" where
  "hex_text n s \<longleftrightarrow> length s = n \<and> list_all lower_hex s"

definition is_sha256 :: "string \<Rightarrow> bool" where
  "is_sha256 s \<longleftrightarrow> hex_text 64 s"

text \<open>\<open>^poc_[a-z0-9][a-z0-9_-]{2,63}$\<close>\<close>

definition poc_id_ok :: "string \<Rightarrow> bool" where
  "poc_id_ok s \<longleftrightarrow> starts_with ''poc_'' s \<and>
     (case drop 4 s of [] \<Rightarrow> False
      | c # rest \<Rightarrow> lower_alnum c \<and> 2 \<le> length rest \<and> length rest \<le> 63 \<and>
          list_all (\<lambda>d. lower_alnum d \<or> d = CHR ''_'' \<or> d = CHR ''-'') rest)"

text \<open>\<open>^[a-z][a-z0-9-]{2,63}$\<close>\<close>

definition contract_id_ok :: "string \<Rightarrow> bool" where
  "contract_id_ok s \<longleftrightarrow> (case s of [] \<Rightarrow> False
     | c # rest \<Rightarrow> is_lower c \<and> 2 \<le> length rest \<and> length rest \<le> 63 \<and>
         list_all (\<lambda>d. lower_alnum d \<or> d = CHR ''-'') rest)"

text \<open>\<open>^cnf_[a-f0-9]{64}$\<close>\<close>

definition confirmation_id_ok :: "string \<Rightarrow> bool" where
  "confirmation_id_ok s \<longleftrightarrow> starts_with ''cnf_'' s \<and> hex_text 64 (drop 4 s)"

subsection \<open>Payloads and digests\<close>

datatype json = JNull | JBool bool | JInt int | JFloat real | JStr string | JArr "json list"
  | JObj "(string \<times> json) list"

definition json_opt :: "('a \<Rightarrow> json) \<Rightarrow> 'a option \<Rightarrow> json" where
  "json_opt f x = (case x of None \<Rightarrow> JNull | Some a \<Rightarrow> f a)"

text \<open>
  \<open>json_sha d p\<close> is \<open>sha256(d + canonical_json_bytes(p)).hexdigest()\<close>, and \<open>text_sha d t\<close> is
  \<open>sha256(d + t.encode("utf-8")).hexdigest()\<close>. \<open>hex_hasher\<close> states what \<open>hexdigest\<close> documents.
  \<open>injective_on\<close> states that no two of a set of payloads collide.
\<close>

record hasher =
  json_sha :: "string \<Rightarrow> json \<Rightarrow> string"
  text_sha :: "string \<Rightarrow> string \<Rightarrow> string"

definition hex_hasher :: "hasher \<Rightarrow> bool" where
  "hex_hasher h \<longleftrightarrow> (\<forall>d p. is_sha256 (json_sha h d p)) \<and> (\<forall>d t. is_sha256 (text_sha h d t))"

text \<open>A concrete hasher for evaluated examples: a checksum of the payload written as 64 hex digits.\<close>

fun str_code :: "string \<Rightarrow> nat" where
  "str_code [] = 0"
| "str_code (c # cs) = 1 + of_char c + 257 * str_code cs"

definition hex_char :: "nat \<Rightarrow> char" where
  "hex_char n = ''0123456789abcdef'' ! (n mod 16)"

fun hex_digits :: "nat \<Rightarrow> nat \<Rightarrow> string" where
  "hex_digits 0 n = []"
| "hex_digits (Suc w) n = hex_char n # hex_digits w (n div 16)"

fun json_code :: "json \<Rightarrow> nat" where
  "json_code JNull = 0"
| "json_code (JBool b) = (if b then 1 else 2)"
| "json_code (JInt i) = (if i < 0 then 3 + 9 * nat (- i) else 4 + 9 * nat i)"
| "json_code (JFloat x) = 8"
| "json_code (JStr s) = 5 + 9 * str_code s"
| "json_code (JArr xs) = 6 + 9 * foldr (\<lambda>x n. 1 + json_code x + 257 * n) xs 0"
| "json_code (JObj kvs) = 7 + 9 * foldr (\<lambda>kv n. 1 + str_code (fst kv) + 3 * json_code (snd kv) + 257 * n) kvs 0"

definition sample_hasher :: hasher where
  "sample_hasher = \<lparr>json_sha = (\<lambda>d p. hex_digits 64 (str_code d + 7 * json_code p)),
     text_sha = (\<lambda>d t. hex_digits 64 (str_code d + 7 * str_code t))\<rparr>"

lemma lower_hex_hex_char: "lower_hex (hex_char n)"
proof -
  have "list_all lower_hex ''0123456789abcdef''"
    by code_simp
  moreover have "n mod 16 < length ''0123456789abcdef''" by simp
  ultimately show ?thesis unfolding hex_char_def by (rule list_all_length [THEN iffD1, rule_format])
qed

lemma hex_text_hex_digits: "hex_text w (hex_digits w n)"
  by (induction w n rule: hex_digits.induct) (auto simp: hex_text_def lower_hex_hex_char)

lemma hex_sample_hasher: "hex_hasher sample_hasher"
  by (simp add: hex_hasher_def sample_hasher_def is_sha256_def hex_text_hex_digits)

text \<open>A hasher that answers every payload with the same digest, for examples where no two payloads meet.\<close>

definition flat_hasher :: hasher where
  "flat_hasher = \<lparr>json_sha = (\<lambda>d p. replicate 64 (CHR ''0'')), text_sha = (\<lambda>d t. replicate 64 (CHR ''0''))\<rparr>"

lemma hex_flat_hasher: "hex_hasher flat_hasher"
  by (simp add: hex_hasher_def flat_hasher_def is_sha256_def hex_text_def list_all_iff lower_hex_def)

lemma hex_hasher_nonempty: "hex_hasher h \<Longrightarrow> json_sha h d p \<noteq> []" "hex_hasher h \<Longrightarrow> text_sha h d t \<noteq> []"
  unfolding hex_hasher_def is_sha256_def hex_text_def by (metis length_0_conv zero_neq_numeral)+

text \<open>A hasher that names a one-field payload by its field, for examples that are evaluated step by step.\<close>

definition key_hasher :: hasher where
  "key_hasher = \<lparr>json_sha = (\<lambda>d p. case p of JObj [(f, JStr t)] \<Rightarrow> t | _ \<Rightarrow> replicate 64 (CHR ''0'')),
     text_sha = (\<lambda>d t. t)\<rparr>"

subsection \<open>Decimal text of a count\<close>

fun show_nat :: "nat \<Rightarrow> string" where
  "show_nat n = (if n < 10 then [char_of (48 + n)] else show_nat (n div 10) @ [char_of (48 + n mod 10)])"

declare show_nat.simps [simp del]

subsection \<open>Dictionaries in insertion order\<close>

text \<open>
  A Python dict whose order matters is an association list with distinct keys;
  \<open>AList.update k v d\<close> is \<open>d[k] = v\<close> (in place when the key is present, at the end when not).
\<close>

lemma update_new: "k \<notin> fst ` set d \<Longrightarrow> AList.update k v d = d @ [(k, v)]"
  by (induction d) auto

lemma map_of_NoneD: "map_of d k = None \<Longrightarrow> k \<notin> fst ` set d"
  by (simp add: map_of_eq_None_iff)

lemma map_of_update [dict_simps, simp]: "map_of (AList.update k v d) k' = (if k' = k then Some v else map_of d k')"
  by (simp add: update_conv')

lemma length_update: "length (AList.update k v d) = (if k \<in> fst ` set d then length d else Suc (length d))"
  by (induction d) auto

lemma length_update_new [dict_simps]: "map_of d k = None \<Longrightarrow> length (AList.update k v d) = Suc (length d)"
  by (simp add: length_update map_of_eq_None_iff)

lemma set_update_new: "map_of d k = None \<Longrightarrow> set (AList.update k v d) = insert (k, v) (set d)"
  by (simp add: update_new map_of_eq_None_iff)

lemma distinct_map_of_iff: "distinct (map fst d) \<Longrightarrow> map_of d k = Some v \<longleftrightarrow> (k, v) \<in> set d"
  by (simp add: map_of_eq_Some_iff)

lemma update_not_Nil [simp]: "AList.update k v d \<noteq> []"
  by (cases d) (auto split: prod.splits)

section \<open>Characters by their bits\<close>

text \<open>Equations by which the character classes evaluate quickly.\<close>

definition letter_bits :: "bool \<Rightarrow> bool \<Rightarrow> bool \<Rightarrow> bool \<Rightarrow> bool \<Rightarrow> bool" where
  "letter_bits b0 b1 b2 b3 b4 = (if b4 then (if b3 then (if b2 then False else if b1 then \<not> b0 else True) else True)
     else if b3 then True else if b2 then True else if b1 then True else b0)"

lemma is_upper_bits [code]: "is_upper (Char b0 b1 b2 b3 b4 b5 b6 b7) = (if b7 then False else if b6 then if b5 then False else letter_bits b0 b1 b2 b3 b4 else False)"
  by (simp add: is_upper_def less_eq_char_def letter_bits_def)

lemma is_lower_bits [code]: "is_lower (Char b0 b1 b2 b3 b4 b5 b6 b7) = (if b7 then False else if b6 then if b5 then letter_bits b0 b1 b2 b3 b4 else False else False)"
  by (simp add: is_lower_def less_eq_char_def letter_bits_def)

lemma is_digit_bits [code]: "is_digit (Char b0 b1 b2 b3 b4 b5 b6 b7) = (if b7 then False else if b6 then False else if b5 then
     if b4 then if b3 then if b2 then False else \<not> b1 else True else False else False)"
  by (simp add: is_digit_def less_eq_char_def)

lemma lower_char_bits [code]: "lower_char (Char b0 b1 b2 b3 b4 b5 b6 b7) = (if b6 then if b5 then Char b0 b1 b2 b3 b4 b5 b6 b7
     else if (if b7 then (if b4 then if b3 then if b2 then if b1 then \<not> b0 else True else True else if b2 then if b1 then \<not> b0 else True else True else True) else letter_bits b0 b1 b2 b3 b4)
       then Char b0 b1 b2 b3 b4 True b6 b7 else Char b0 b1 b2 b3 b4 b5 b6 b7 else Char b0 b1 b2 b3 b4 b5 b6 b7)"
  by (cases b0; cases b1; cases b2; cases b3; cases b4; cases b5; cases b6; cases b7; simp add: lower_char_def letter_bits_def Let_def char_of_def bit_iff_odd)

lemma py_space_bits [code]: "py_space (Char b0 b1 b2 b3 b4 b5 b6 b7) = (if b6 then False
     else if b5 then if b4 then False else if b3 then False else if b2 then False else if b1 then False else \<not> b0
     else if b4 then if b7 then False else if b3 then b2 else False
     else if b7 then if b3 then False else if b2 then if b1 then False else b0 else False
     else if b3 then if b2 then \<not> b1 else if b1 then True else b0 else False)"
  by (cases b0; cases b1; cases b2; cases b3; cases b4; cases b5; cases b6; cases b7; simp add: py_space_def)

end
