(* ===== verification/Replay.thy ===== *)
theory Replay
  imports Prelude
begin

section \<open>Interfaces: invariants over operations, and idempotent replay\<close>

text \<open>
  Every stateful service of the program takes an idempotency key with each write, remembers the
  digest of the request it accepted under that key, answers a repeated request from memory and
  refuses a different request under the same key. The contract is stated once here as locales;
  each component interprets them on its own state and operations.

  \<open>step\<close> is any operation of the service, its result dropped. \<open>exec k q env s\<close> is the keyed
  write: key, request, environment (clock readings, fresh identifiers, what other services
  answer), state. \<open>seen s k\<close> is the fingerprint remembered for the key.
\<close>

subsection \<open>Invariants over sequences of operations\<close>

locale invariant_system =
  fixes step :: "'o \<Rightarrow> 's \<Rightarrow> 's"
    and inv :: "'s \<Rightarrow> bool"
  assumes inv_step: "inv s \<Longrightarrow> inv (step c s)"
begin

lemma inv_run: "inv s \<Longrightarrow> inv (fold step cs s)"
  by (induction cs arbitrary: s) (auto intro: inv_step)

text \<open>A fact that each operation keeps under the invariant is kept by every sequence.\<close>

lemma run_keeps:
  assumes "\<And>t c. inv t \<Longrightarrow> P t \<Longrightarrow> P (step c t)" and "inv s" and "P s"
  shows "P (fold step cs s)"
proof -
  have "inv (fold step cs s) \<and> P (fold step cs s)"
    using assms(2,3)
    by (induction cs arbitrary: s) (auto intro: assms(1) inv_step)
  then show ?thesis ..
qed

end

subsection \<open>Idempotent replay\<close>

locale replay_service = invariant_system step inv
  for step :: "'o \<Rightarrow> 's \<Rightarrow> 's" and inv :: "'s \<Rightarrow> bool" +
  fixes exec :: "'k \<Rightarrow> 'q \<Rightarrow> 'env \<Rightarrow> 's \<Rightarrow> 's \<times> ('e + 'r)"
    and ok :: "'q \<Rightarrow> bool"
    and fp :: "'q \<Rightarrow> 'f"
    and seen :: "'s \<Rightarrow> 'k \<Rightarrow> 'f option"
    and replay :: "'s \<Rightarrow> 'k \<Rightarrow> 'r"
    and conflict :: 'e
  assumes exec_inv: "inv s \<Longrightarrow> inv (fst (exec k q env s))"
    and exec_ok: "exec k q env s = (s', Inr r) \<Longrightarrow> ok q"
    and exec_first: "inv s \<Longrightarrow> seen s k = None \<Longrightarrow> exec k q env s = (s', Inr r) \<Longrightarrow> seen s' k = Some (fp q)"
    and exec_replay: "inv s \<Longrightarrow> ok q \<Longrightarrow> seen s k = Some (fp q) \<Longrightarrow> exec k q env s = (s, Inr (replay s k))"
    and exec_conflict: "inv s \<Longrightarrow> ok q \<Longrightarrow> seen s k = Some f \<Longrightarrow> f \<noteq> fp q \<Longrightarrow> exec k q env s = (s, Inl conflict)"
    and seen_step: "inv s \<Longrightarrow> seen s k = Some f \<Longrightarrow> seen (step c s) k = Some f"
begin

lemma exec_success:
  assumes "inv s" and "exec k q env s = (s', Inr r)"
  shows "inv s' \<and> ok q \<and> seen s' k = Some (fp q)"
proof -
  have okq: "ok q" using assms(2) by (rule exec_ok)
  have inv': "inv s'" using exec_inv [OF assms(1), of k q env] assms(2) by simp
  have "seen s' k = Some (fp q)"
  proof (cases "seen s k")
    case None
    then show ?thesis using assms by (intro exec_first)
  next
    case (Some f)
    show ?thesis
    proof (cases "f = fp q")
      case True
      with Some assms okq exec_replay [of s q k env] show ?thesis by simp
    next
      case False
      with Some assms okq exec_conflict [of s q k f env] show ?thesis by simp
    qed
  qed
  with inv' okq show ?thesis by simp
qed

lemma seen_run:
  assumes "inv s" and "seen s k = Some f"
  shows "seen (fold step cs s) k = Some f"
  by (rule run_keeps [where P = "\<lambda>t. seen t k = Some f"]) (auto intro: seen_step assms)

text \<open>
  After an accepted write, whatever operations come in between, the same request under the same
  key changes nothing and is answered from memory, and another request is refused.
\<close>

lemma replay_after:
  assumes "inv s" and "exec k q env s = (s1, Inr r)"
  shows "exec k q env' (fold step cs s1) = (fold step cs s1, Inr (replay (fold step cs s1) k))"
  using exec_success [OF assms]
  by (auto intro!: exec_replay seen_run inv_run)

lemma conflict_after:
  assumes "inv s" and "exec k q env s = (s1, Inr r)" and "ok q'" and "fp q' \<noteq> fp q"
  shows "exec k q' env' (fold step cs s1) = (fold step cs s1, Inl conflict)"
proof -
  have "inv s1" "seen s1 k = Some (fp q)" using exec_success [OF assms(1,2)] by auto
  then have "inv (fold step cs s1)" "seen (fold step cs s1) k = Some (fp q)"
    by (auto intro: inv_run seen_run)
  with assms(3,4) show ?thesis
    by (intro exec_conflict [where f = "fp q"]) auto
qed

end

text \<open>Where the remembered answer itself is immutable, the replay is the first result, marked.\<close>

locale stable_replay_service = replay_service step inv exec ok fp seen replay conflict
  for step :: "'o \<Rightarrow> 's \<Rightarrow> 's" and inv :: "'s \<Rightarrow> bool"
    and exec :: "'k \<Rightarrow> 'q \<Rightarrow> 'env \<Rightarrow> 's \<Rightarrow> 's \<times> ('e + 'r)"
    and ok :: "'q \<Rightarrow> bool" and fp :: "'q \<Rightarrow> 'f"
    and seen :: "'s \<Rightarrow> 'k \<Rightarrow> 'f option" and replay :: "'s \<Rightarrow> 'k \<Rightarrow> 'r" and conflict :: 'e +
  fixes mark :: "'r \<Rightarrow> 'r"
  assumes replay_step: "inv s \<Longrightarrow> seen s k = Some f \<Longrightarrow> replay (step c s) k = replay s k"
    and replay_first: "inv s \<Longrightarrow> seen s k = None \<Longrightarrow> exec k q env s = (s', Inr r) \<Longrightarrow> replay s' k = mark r"
    and replay_marked: "inv s \<Longrightarrow> seen s k = Some f \<Longrightarrow> mark (replay s k) = replay s k"
begin

lemma replay_run:
  assumes "inv s" and "seen s k = Some f"
  shows "replay (fold step cs s) k = replay s k"
proof -
  have "seen (fold step cs s) k = Some f \<and> replay (fold step cs s) k = replay s k"
    by (rule run_keeps [where P = "\<lambda>t. seen t k = Some f \<and> replay t k = replay s k"])
       (auto intro: seen_step simp: replay_step assms)
  then show ?thesis ..
qed

lemma same_answer_after:
  assumes "inv s" and "exec k q env s = (s1, Inr r)"
  shows "exec k q env' (fold step cs s1) = (fold step cs s1, Inr (mark r))"
proof -
  have s1: "inv s1" "ok q" "seen s1 k = Some (fp q)" using exec_success [OF assms] by auto
  have "replay s1 k = mark r"
  proof (cases "seen s k")
    case None
    then show ?thesis using assms by (intro replay_first)
  next
    case (Some f)
    have "f = fp q"
      using Some assms s1(2) exec_conflict [of s q k f env] by fastforce
    with Some assms s1(2) exec_replay [of s q k env] have "s1 = s" "r = replay s k" by auto
    with Some assms(1) replay_marked [of s k f] show ?thesis by simp
  qed
  with s1 replay_run [of s1 k "fp q" cs] replay_after [OF assms, of env' cs] show ?thesis
    by simp
qed

text \<open>Any acceptable request with the same fingerprint is answered alike.\<close>

lemma same_answer_alike:
  assumes "inv s" and "exec k q env s = (s1, Inr r)" and "ok q'" and "fp q' = fp q"
  shows "exec k q' env' (fold step cs s1) = (fold step cs s1, Inr (mark r))"
proof -
  have "exec k q env' (fold step cs s1) = (fold step cs s1, Inr (mark r))" using assms(1,2) by (rule same_answer_after)
  moreover have s1: "inv s1" "ok q" "seen s1 k = Some (fp q)" using exec_success [OF assms(1,2)] by auto
  then have "inv (fold step cs s1)" "seen (fold step cs s1) k = Some (fp q)" by (auto intro: inv_run seen_run)
  ultimately show ?thesis
    using exec_replay [of "fold step cs s1" q k env'] exec_replay [of "fold step cs s1" q' k env'] assms(3,4) s1(2) by simp
qed

end

subsection \<open>A port with final answers, and a client behind it\<close>

text \<open>
  A component asks another one through a port: \<open>answer k s\<close> is what the owner in state \<open>s\<close> says
  about \<open>k\<close>. A final answer never changes again.
\<close>

locale terminal_port = invariant_system step inv
  for step :: "'o \<Rightarrow> 's \<Rightarrow> 's" and inv :: "'s \<Rightarrow> bool" +
  fixes answer :: "'k \<Rightarrow> 's \<Rightarrow> 'a" and final :: "'a \<Rightarrow> bool"
  assumes final_step: "inv s \<Longrightarrow> final (answer k s) \<Longrightarrow> answer k (step c s) = answer k s"
begin

lemma final_run: "inv s \<Longrightarrow> final (answer k s) \<Longrightarrow> answer k (fold step cs s) = answer k s"
  by (rule run_keeps [where P = "\<lambda>t. answer k t = answer k s"]) (simp_all add: final_step)

end

text \<open>The two run together: an operation of the owner, or one of the client that asks through the port.\<close>

fun joint_step :: "('o \<Rightarrow> 's \<Rightarrow> 's) \<Rightarrow> ('k \<Rightarrow> 's \<Rightarrow> 'a) \<Rightarrow> ('q \<Rightarrow> ('k \<Rightarrow> 'a) \<Rightarrow> 't \<Rightarrow> 't) \<Rightarrow> 'o + 'q \<Rightarrow> 's \<times> 't \<Rightarrow> 's \<times> 't" where
  "joint_step step answer use (Inl c) (s, t) = (step c s, t)"
| "joint_step step answer use (Inr q) (s, t) = (s, use q (\<lambda>k. answer k s) t)"

locale guarded_client = terminal_port step inv answer final
  for step :: "'o \<Rightarrow> 's \<Rightarrow> 's" and inv :: "'s \<Rightarrow> bool" and answer :: "'k \<Rightarrow> 's \<Rightarrow> 'a" and final :: "'a \<Rightarrow> bool" +
  fixes use :: "'q \<Rightarrow> ('k \<Rightarrow> 'a) \<Rightarrow> 't \<Rightarrow> 't" and view :: "'k \<Rightarrow> 't \<Rightarrow> 'v"
  assumes use_final: "final (port k) \<Longrightarrow> view k (use q port t) = view k t"
begin

lemma joint_owner: "fst (fold (joint_step step answer use) cs (s, t)) = fold step (concat (map (case_sum (\<lambda>c. [c]) (\<lambda>q. [])) cs)) s"
proof (induction cs arbitrary: s t)
  case (Cons c cs)
  then show ?case by (cases c) simp_all
qed simp

text \<open>Once the answer about \<open>k\<close> is final, what the client holds of \<open>k\<close> stays as it is.\<close>

lemma view_frozen: "inv s \<Longrightarrow> final (answer k s) \<Longrightarrow> view k (snd (fold (joint_step step answer use) cs (s, t))) = view k t"
proof (induction cs arbitrary: s t)
  case (Cons c cs)
  show ?case
  proof (cases c)
    case (Inl a)
    then show ?thesis using Cons inv_step [of s a] final_step [of s k a] by simp
  next
    case (Inr q)
    then show ?thesis using Cons use_final [of "\<lambda>k. answer k s" k q t] by simp
  qed
qed simp

end

end
