(* ===== verification/Zoom_Session.thy ===== *)
theory Zoom_Session
  imports Replay
begin

section \<open>The Zoom session state machine (zoom_session_runtime.py)\<close>

text \<open>
  One capture session around the RTMS decoder: it starts, listens, survives interruptions,
  stops exactly once, hands the ordered transcript to processing and ends with a draft or a
  failure. \<open>zoom_rec\<close> is \<open>_SessionRecord\<close>; its dicts are association lists in insertion order.
  Each public method is one definition over \<open>zoom_mutate\<close>, and an exception leaves the record
  as the code leaves it, with the assignments made before the raise.
\<close>

subsection \<open>States, failures, segments\<close>

datatype zoom_state = Z_STARTING | Z_LISTENING | Z_INTERRUPTED | Z_RECONNECTING | Z_PROCESSING
  | Z_DRAFT_READY | Z_FAILED

datatype zoom_next_action = WAIT_FOR_START | WAIT_FOR_STOP | RECONNECT_STREAM | PROCESS_TRANSCRIPT
  | REVIEW_DRAFT | RECOVER_OR_RESTART

datatype zoom_failure = Z_INVALID_REQUEST | Z_INVALID_TRANSITION | Z_IDEMPOTENCY_CONFLICT
  | Z_DUPLICATE_CONFLICT | Z_NO_TRANSCRIPT | Z_RECONNECT_FAILED | Z_TIMEOUT | Z_PROCESSING_FAILED
  | Z_PROCESSING_RESULT_CONFLICT

text \<open>\<open>ZoomSessionError(code)\<close>, or a pydantic validation error raised by a model constructor.\<close>

datatype zoom_exc = ZoomSessionError zoom_failure | ZoomValidationError

record zoom_provenance =
  zp_source_classification :: string
  zp_fixture_sha256 :: string
  zp_capture_plan_sha256 :: string
  zp_setup_attestation_sha256 :: string
  zp_runtime_plan_sha256 :: string
  zp_packet_sha256 :: string

record zoom_segment =
  seg_id :: string
  seg_packet_sha256 :: string
  seg_arrival_index :: int
  seg_provider_timestamp :: int
  seg_start_time :: int
  seg_end_time :: int
  seg_duration :: int
  seg_language :: string
  seg_speaker :: string
  seg_text :: string
  seg_provenance :: zoom_provenance

definition provenance_json :: "zoom_provenance \<Rightarrow> json" where
  "provenance_json p = JObj [
     (''source_classification'', JStr (zp_source_classification p)),
     (''fixture_sha256'', JStr (zp_fixture_sha256 p)),
     (''capture_plan_sha256'', JStr (zp_capture_plan_sha256 p)),
     (''setup_attestation_sha256'', JStr (zp_setup_attestation_sha256 p)),
     (''runtime_plan_sha256'', JStr (zp_runtime_plan_sha256 p)),
     (''packet_sha256'', JStr (zp_packet_sha256 p))]"

text \<open>\<open>model_dump(mode="json")\<close> of a segment, split at the two fields that name the delivery.\<close>

definition segment_identity_fields :: "zoom_segment \<Rightarrow> (string \<times> json) list" where
  "segment_identity_fields g = [
     (''segment_id'', JStr (seg_id g)),
     (''arrival_index'', JInt (seg_arrival_index g))]"

definition segment_content_fields :: "zoom_segment \<Rightarrow> (string \<times> json) list" where
  "segment_content_fields g = [
     (''schema_version'', JStr ''exitspec.zoom-rtms-decoder/1.0''),
     (''packet_sha256'', JStr (seg_packet_sha256 g)),
     (''provider_timestamp_millisecond'', JInt (seg_provider_timestamp g)),
     (''start_time_millisecond'', JInt (seg_start_time g)),
     (''end_time_millisecond'', JInt (seg_end_time g)),
     (''duration_millisecond'', JInt (seg_duration g)),
     (''language'', JStr (seg_language g)),
     (''speaker_pseudonym'', JStr (seg_speaker g)),
     (''text'', JStr (seg_text g)),
     (''ordering_metadata'', JArr [JStr ''arrival_index'', JStr ''provider_timestamp_millisecond'',
        JStr ''start_time_millisecond'', JStr ''end_time_millisecond'']),
     (''provenance'', provenance_json (seg_provenance g)),
     (''text_authority'', JStr ''UNTRUSTED_SOURCE_ONLY''),
     (''review_state'', JStr ''NEEDS_REVIEW''),
     (''may_confirm_contract'', JBool False),
     (''may_freeze_contract'', JBool False),
     (''may_start_measurement'', JBool False),
     (''may_assign_verdict'', JBool False)]"

definition segment_json :: "zoom_segment \<Rightarrow> json" where
  "segment_json g = JObj (segment_identity_fields g @ segment_content_fields g)"

definition zoom_operation_domain :: string where
  "zoom_operation_domain = ''exitspec-zoom-session-operation-v1'' @ [CHR 0x00]"

definition zoom_segment_domain :: string where
  "zoom_segment_domain = ''exitspec-zoom-session-segment-v1'' @ [CHR 0x00]"

definition zoom_processing_domain :: string where
  "zoom_processing_domain = ''exitspec-zoom-session-processing-v1'' @ [CHR 0x00]"

definition zoom_segment_fingerprint :: "hasher \<Rightarrow> zoom_segment \<Rightarrow> string" where
  "zoom_segment_fingerprint h g = json_sha h zoom_segment_domain (segment_json g)"

definition zoom_content_fingerprint :: "hasher \<Rightarrow> zoom_segment \<Rightarrow> string" where
  "zoom_content_fingerprint h g = json_sha h zoom_segment_domain (JObj (segment_content_fields g))"

text \<open>\<open>^zoomsess_[a-f0-9]{64}$\<close> and \<open>^[A-Za-z0-9][A-Za-z0-9._:-]{7,199}$\<close>\<close>

definition zoom_session_id_ok :: "string \<Rightarrow> bool" where
  "zoom_session_id_ok s \<longleftrightarrow> starts_with ''zoomsess_'' s \<and> hex_text 64 (drop 9 s)"

definition zoom_key_ok :: "string \<Rightarrow> bool" where
  "zoom_key_ok s \<longleftrightarrow> (case s of [] \<Rightarrow> False
     | c # rest \<Rightarrow> (is_upper c \<or> lower_alnum c) \<and> 7 \<le> length rest \<and> length rest \<le> 199 \<and>
         list_all (\<lambda>d. is_upper d \<or> lower_alnum d \<or> d \<in> {CHR ''.'', CHR ''_'', CHR '':'', CHR ''-''}) rest)"

subsection \<open>Snapshots, results, the session record\<close>

record zoom_snapshot =
  sn_session_id :: string
  sn_state :: zoom_state
  sn_next_action :: zoom_next_action
  sn_segment_count :: nat
  sn_duplicate_count :: nat
  sn_reconnect_count :: nat
  sn_stop_received :: bool
  sn_finalization_count :: nat
  sn_input_sha256 :: "string option"
  sn_result_sha256 :: "string option"
  sn_failure_code :: "zoom_failure option"
  sn_created_at :: int
  sn_updated_at :: int

record zoom_result =
  zr_session :: zoom_snapshot
  zr_idempotent_replay :: bool
  zr_duplicate_suppressed :: bool

record zoom_op_record =
  zo_action :: string
  zo_request_sha256 :: string
  zo_result :: zoom_result

record zoom_rec =
  zs_session_id :: string
  zs_created_at :: int
  zs_updated_at :: int
  zs_state :: zoom_state
  zs_segments :: "(string \<times> zoom_segment) list"
  zs_packets :: "(string \<times> string) list"
  zs_duplicate_count :: nat
  zs_reconnect_count :: nat
  zs_stop_received :: bool
  zs_finalization_count :: nat
  zs_input_sha256 :: "string option"
  zs_result_sha256 :: "string option"
  zs_failure_code :: "zoom_failure option"
  zs_operations :: "(string \<times> zoom_op_record) list"

type_synonym 'a zoom_act = "(zoom_rec, zoom_exc, 'a) action"

fun expected_action :: "zoom_state \<Rightarrow> zoom_next_action" where
  "expected_action Z_STARTING = WAIT_FOR_START"
| "expected_action Z_LISTENING = WAIT_FOR_STOP"
| "expected_action Z_INTERRUPTED = RECONNECT_STREAM"
| "expected_action Z_RECONNECTING = RECONNECT_STREAM"
| "expected_action Z_PROCESSING = PROCESS_TRANSCRIPT"
| "expected_action Z_DRAFT_READY = REVIEW_DRAFT"
| "expected_action Z_FAILED = RECOVER_OR_RESTART"

definition MAX_SESSION_SEGMENTS :: nat where "MAX_SESSION_SEGMENTS = 256"
definition MAX_DUPLICATE_DELIVERIES :: nat where "MAX_DUPLICATE_DELIVERIES = 4096"
definition MAX_RECONNECTS :: nat where "MAX_RECONNECTS = 64"

text \<open>The field constraints of \<open>ZoomSessionSnapshot\<close>, then its validator \<open>require_state_projection\<close>.\<close>

definition zoom_snapshot_fields_ok :: "zoom_snapshot \<Rightarrow> bool" where
  "zoom_snapshot_fields_ok p \<longleftrightarrow>
     zoom_session_id_ok (sn_session_id p) \<and>
     sn_segment_count p \<le> MAX_SESSION_SEGMENTS \<and>
     sn_duplicate_count p \<le> MAX_DUPLICATE_DELIVERIES \<and>
     sn_reconnect_count p \<le> MAX_RECONNECTS \<and>
     sn_finalization_count p \<in> {0, 1} \<and>
     (case sn_input_sha256 p of None \<Rightarrow> True | Some d \<Rightarrow> is_sha256 d) \<and>
     (case sn_result_sha256 p of None \<Rightarrow> True | Some d \<Rightarrow> is_sha256 d)"

definition zoom_state_projection_ok :: "zoom_snapshot \<Rightarrow> bool" where
  "zoom_state_projection_ok p \<longleftrightarrow> first_error [
     (sn_updated_at p < sn_created_at p, ()),
     (sn_next_action p \<noteq> expected_action (sn_state p), ()),
     (sn_state p \<in> {Z_PROCESSING, Z_DRAFT_READY} \<and>
        (\<not> sn_stop_received p \<or> sn_finalization_count p \<noteq> 1 \<or> sn_segment_count p < 1 \<or>
         sn_input_sha256 p = None \<or> sn_failure_code p \<noteq> None), ()),
     (sn_state p = Z_DRAFT_READY \<and> sn_result_sha256 p = None, ()),
     (sn_state p \<noteq> Z_DRAFT_READY \<and> sn_result_sha256 p \<noteq> None, ()),
     (sn_state p = Z_FAILED \<and> sn_failure_code p = None, ()),
     (sn_state p \<noteq> Z_FAILED \<and> sn_failure_code p \<noteq> None, ()),
     (sn_finalization_count p = 1 \<and> \<not> sn_stop_received p, ())] = None"

definition zoom_projection :: "zoom_rec \<Rightarrow> zoom_snapshot" where
  "zoom_projection r = \<lparr>
     sn_session_id = zs_session_id r, sn_state = zs_state r,
     sn_next_action = expected_action (zs_state r),
     sn_segment_count = length (zs_segments r),
     sn_duplicate_count = zs_duplicate_count r,
     sn_reconnect_count = zs_reconnect_count r,
     sn_stop_received = zs_stop_received r,
     sn_finalization_count = zs_finalization_count r,
     sn_input_sha256 = zs_input_sha256 r,
     sn_result_sha256 = zs_result_sha256 r,
     sn_failure_code = zs_failure_code r,
     sn_created_at = zs_created_at r, sn_updated_at = zs_updated_at r\<rparr>"

text \<open>\<open>_snapshot_locked\<close>: the model constructor refuses a projection its validators refuse.\<close>

definition zoom_snapshot_of :: "zoom_rec \<Rightarrow> zoom_exc + zoom_snapshot" where
  "zoom_snapshot_of r = (let p = zoom_projection r in
     if zoom_snapshot_fields_ok p \<and> zoom_state_projection_ok p then Inr p else Inl ZoomValidationError)"

subsection \<open>Clock, ordering, transcript digest\<close>

fun zoom_read_clock :: "clock_value \<Rightarrow> zoom_exc + int" where
  "zoom_read_clock ClockRaises = Inl (ZoomSessionError Z_INVALID_REQUEST)"
| "zoom_read_clock ClockOther = Inl (ZoomSessionError Z_INVALID_REQUEST)"
| "zoom_read_clock (ClockAt (Naive t)) = Inl (ZoomSessionError Z_INVALID_REQUEST)"
| "zoom_read_clock (ClockAt (Aware t off)) = Inr t"

definition zoom_segment_key :: "zoom_segment \<Rightarrow> int \<times> int \<times> int \<times> int \<times> string" where
  "zoom_segment_key g = (seg_provider_timestamp g, seg_start_time g, seg_end_time g,
     seg_arrival_index g, seg_id g)"

definition zoom_ordered_segments :: "zoom_rec \<Rightarrow> zoom_segment list" where
  "zoom_ordered_segments r = sort_key zoom_segment_key (map snd (zs_segments r))"

definition zoom_transcript_sha :: "hasher \<Rightarrow> zoom_rec \<Rightarrow> string" where
  "zoom_transcript_sha h r = json_sha h zoom_processing_domain (JObj [
     (''session_id'', JStr (zs_session_id r)),
     (''segments'', JArr (map segment_json (zoom_ordered_segments r)))])"

text \<open>\<open>_touch\<close> and \<open>_require_state\<close>\<close>

definition zoom_touch :: "clock_value \<Rightarrow> unit zoom_act" where
  "zoom_touch clk = (\<lambda>r. case zoom_read_clock clk of
     Inl e \<Rightarrow> (r, Inl e)
   | Inr now \<Rightarrow> if now < zs_updated_at r then (r, Inl (ZoomSessionError Z_INVALID_REQUEST))
       else (r\<lparr>zs_updated_at := now\<rparr>, Inr ()))"

definition zoom_require :: "zoom_state set \<Rightarrow> unit zoom_act" where
  "zoom_require S = demand (\<lambda>r. zs_state r \<in> S) (ZoomSessionError Z_INVALID_TRANSITION)"

definition zoom_goto :: "zoom_state \<Rightarrow> unit zoom_act" where
  "zoom_goto st = modify (\<lambda>r. r\<lparr>zs_state := st\<rparr>)"

subsection \<open>The mutations\<close>

definition zoom_mark_listening_m :: "clock_value \<Rightarrow> bool zoom_act" where
  "zoom_mark_listening_m clk = branch (\<lambda>r. zs_state r = Z_LISTENING) (ret True)
     (seq (zoom_require {Z_STARTING}) (\<lambda>_.
      seq (zoom_touch clk) (\<lambda>_.
      seq (zoom_goto Z_LISTENING) (\<lambda>_. ret False))))"

definition zoom_capturing :: "zoom_state set" where
  "zoom_capturing = {Z_LISTENING, Z_INTERRUPTED, Z_RECONNECTING}"

text \<open>A delivery whose packet is already known: compare contents, then count it.\<close>

definition zoom_redeliver :: "hasher \<Rightarrow> clock_value \<Rightarrow> zoom_segment \<Rightarrow> string \<Rightarrow> bool zoom_act" where
  "zoom_redeliver h clk g prior_id =
     seq (demand (\<lambda>r. case map_of (zs_segments r) prior_id of None \<Rightarrow> False
            | Some prior \<Rightarrow> zoom_content_fingerprint h prior = zoom_content_fingerprint h g)
          (ZoomSessionError Z_DUPLICATE_CONFLICT)) (\<lambda>_.
     branch (\<lambda>r. zs_stop_received r \<or> zs_state r = Z_FAILED) (ret True)
       (seq (zoom_require zoom_capturing) (\<lambda>_.
        seq (modify (\<lambda>r. r\<lparr>zs_duplicate_count := zs_duplicate_count r + 1\<rparr>)) (\<lambda>_.
        seq (zoom_touch clk) (\<lambda>_. ret True)))))"

definition zoom_append_new :: "clock_value \<Rightarrow> zoom_segment \<Rightarrow> bool zoom_act" where
  "zoom_append_new clk g =
     seq (zoom_require zoom_capturing) (\<lambda>_.
     seq (demand (\<lambda>r. map_of (zs_segments r) (seg_id g) = None)
           (ZoomSessionError Z_DUPLICATE_CONFLICT)) (\<lambda>_.
     seq (demand (\<lambda>r. length (zs_segments r) < MAX_SESSION_SEGMENTS)
           (ZoomSessionError Z_INVALID_TRANSITION)) (\<lambda>_.
     seq (modify (\<lambda>r. r\<lparr>zs_segments := AList.update (seg_id g) g (zs_segments r),
                        zs_packets := AList.update (seg_packet_sha256 g) (seg_id g) (zs_packets r)\<rparr>)) (\<lambda>_.
     seq (zoom_touch clk) (\<lambda>_. ret False)))))"

definition zoom_append_m :: "hasher \<Rightarrow> clock_value \<Rightarrow> zoom_segment \<Rightarrow> bool zoom_act" where
  "zoom_append_m h clk g = (\<lambda>r. case map_of (zs_packets r) (seg_packet_sha256 g) of
     Some prior_id \<Rightarrow> zoom_redeliver h clk g prior_id r
   | None \<Rightarrow> zoom_append_new clk g r)"

definition zoom_interrupt_m :: "clock_value \<Rightarrow> bool zoom_act" where
  "zoom_interrupt_m clk = branch (\<lambda>r. zs_state r \<in> {Z_INTERRUPTED, Z_RECONNECTING}) (ret True)
     (seq (zoom_require {Z_LISTENING}) (\<lambda>_.
      seq (zoom_touch clk) (\<lambda>_.
      seq (zoom_goto Z_INTERRUPTED) (\<lambda>_. ret False))))"

definition zoom_begin_reconnect_m :: "clock_value \<Rightarrow> bool zoom_act" where
  "zoom_begin_reconnect_m clk = branch (\<lambda>r. zs_state r = Z_RECONNECTING) (ret True)
     (seq (zoom_require {Z_INTERRUPTED}) (\<lambda>_.
      seq (zoom_touch clk) (\<lambda>_.
      seq (zoom_goto Z_RECONNECTING) (\<lambda>_. ret False))))"

definition zoom_mark_reconnected_m :: "clock_value \<Rightarrow> bool zoom_act" where
  "zoom_mark_reconnected_m clk = branch (\<lambda>r. zs_state r = Z_LISTENING) (ret True)
     (seq (zoom_require {Z_RECONNECTING}) (\<lambda>_.
      seq (zoom_touch clk) (\<lambda>_.
      seq (modify (\<lambda>r. r\<lparr>zs_reconnect_count := zs_reconnect_count r + 1\<rparr>)) (\<lambda>_.
      seq (zoom_goto Z_LISTENING) (\<lambda>_. ret False)))))"

definition zoom_fail_m :: "clock_value \<Rightarrow> zoom_failure \<Rightarrow> bool zoom_act" where
  "zoom_fail_m clk code = branch (\<lambda>r. zs_state r = Z_FAILED) (ret True)
     (branch (\<lambda>r. zs_state r = Z_DRAFT_READY) (ret True)
       (seq (zoom_touch clk) (\<lambda>_.
        seq (zoom_goto Z_FAILED) (\<lambda>_.
        seq (modify (\<lambda>r. r\<lparr>zs_failure_code := Some code\<rparr>)) (\<lambda>_. ret False)))))"

definition zoom_reconnect_failed_m :: "clock_value \<Rightarrow> bool zoom_act" where
  "zoom_reconnect_failed_m clk = branch (\<lambda>r. zs_state r = Z_FAILED) (ret True)
     (seq (zoom_require {Z_INTERRUPTED, Z_RECONNECTING}) (\<lambda>_. zoom_fail_m clk Z_RECONNECT_FAILED))"

definition zoom_stop_m :: "hasher \<Rightarrow> clock_value \<Rightarrow> bool zoom_act" where
  "zoom_stop_m h clk = branch (\<lambda>r. zs_stop_received r \<or> zs_state r = Z_FAILED) (ret True)
     (seq (zoom_require zoom_capturing) (\<lambda>_.
      seq (zoom_touch clk) (\<lambda>_.
      seq (modify (\<lambda>r. r\<lparr>zs_stop_received := True, zs_finalization_count := 1\<rparr>)) (\<lambda>_.
      branch (\<lambda>r. zs_segments r = [])
        (seq (zoom_goto Z_FAILED) (\<lambda>_.
         seq (modify (\<lambda>r. r\<lparr>zs_failure_code := Some Z_NO_TRANSCRIPT\<rparr>)) (\<lambda>_. ret False)))
        (seq (modify (\<lambda>r. r\<lparr>zs_input_sha256 := Some (zoom_transcript_sha h r)\<rparr>)) (\<lambda>_.
         seq (zoom_goto Z_PROCESSING) (\<lambda>_. ret False)))))))"

text \<open>\<open>processing_input\<close>: the ordered transcript, released only after the stop and unchanged since.\<close>

definition zoom_processing_input :: "hasher \<Rightarrow> (string \<times> zoom_segment list) zoom_act" where
  "zoom_processing_input h =
     seq (demand (\<lambda>r. zs_state r \<in> {Z_PROCESSING, Z_DRAFT_READY} \<and> zs_input_sha256 r \<noteq> None \<and>
           zs_stop_received r) (ZoomSessionError Z_INVALID_TRANSITION)) (\<lambda>_.
     seq (demand (\<lambda>r. zs_input_sha256 r = Some (zoom_transcript_sha h r))
           (ZoomSessionError Z_DUPLICATE_CONFLICT)) (\<lambda>_.
     (\<lambda>r. ret (zoom_transcript_sha h r, zoom_ordered_segments r) r)))"

definition zoom_processing_succeeded_m :: "hasher \<Rightarrow> clock_value \<Rightarrow> string \<Rightarrow> bool zoom_act" where
  "zoom_processing_succeeded_m h clk result =
     branch (\<lambda>r. zs_state r = Z_DRAFT_READY)
       (seq (demand (\<lambda>r. zs_result_sha256 r = Some result)
              (ZoomSessionError Z_PROCESSING_RESULT_CONFLICT)) (\<lambda>_. ret True))
       (seq (zoom_require {Z_PROCESSING}) (\<lambda>_.
        seq (zoom_processing_input h) (\<lambda>_.
        seq (zoom_touch clk) (\<lambda>_.
        seq (modify (\<lambda>r. r\<lparr>zs_result_sha256 := Some result\<rparr>)) (\<lambda>_.
        seq (zoom_goto Z_DRAFT_READY) (\<lambda>_. ret False))))))"

definition zoom_processing_failed_m :: "clock_value \<Rightarrow> bool zoom_act" where
  "zoom_processing_failed_m clk = branch (\<lambda>r. zs_state r = Z_DRAFT_READY) (ret True)
     (seq (zoom_require {Z_PROCESSING}) (\<lambda>_. zoom_fail_m clk Z_PROCESSING_FAILED))"

subsection \<open>Idempotent execution\<close>

definition zoom_key_sha :: "hasher \<Rightarrow> string \<Rightarrow> string" where
  "zoom_key_sha h key = json_sha h zoom_operation_domain (JObj [(''idempotency_key'', JStr key)])"

definition zoom_request_sha :: "hasher \<Rightarrow> string \<Rightarrow> (string \<times> json) list \<Rightarrow> string" where
  "zoom_request_sha h name payload = json_sha h zoom_operation_domain
     (JObj [(''action'', JStr name), (''payload'', JObj payload)])"

text \<open>\<open>_mutate\<close>: replay or conflict under a known key; else mutate, snapshot, remember.\<close>

definition zoom_mutate :: "hasher \<Rightarrow> string \<Rightarrow> (string \<times> json) list \<Rightarrow> string \<Rightarrow> bool zoom_act \<Rightarrow> zoom_result zoom_act" where
  "zoom_mutate h name payload key mutation = (\<lambda>r.
     if \<not> zoom_key_ok key then (r, Inl (ZoomSessionError Z_INVALID_REQUEST))
     else (case map_of (zs_operations r) (zoom_key_sha h key) of
       Some prior \<Rightarrow>
         if zo_action prior \<noteq> name \<or> zo_request_sha256 prior \<noteq> zoom_request_sha h name payload
         then (r, Inl (ZoomSessionError Z_IDEMPOTENCY_CONFLICT))
         else (r, Inr ((zo_result prior)\<lparr>zr_idempotent_replay := True\<rparr>))
     | None \<Rightarrow> (case mutation r of
         (r1, Inl e) \<Rightarrow> (r1, Inl e)
       | (r1, Inr suppressed) \<Rightarrow> (case zoom_snapshot_of r1 of
           Inl e \<Rightarrow> (r1, Inl e)
         | Inr snap \<Rightarrow> (let result = \<lparr>zr_session = snap, zr_idempotent_replay = False,
                 zr_duplicate_suppressed = suppressed\<rparr> in
             (r1\<lparr>zs_operations := AList.update (zoom_key_sha h key)
                   \<lparr>zo_action = name, zo_request_sha256 = zoom_request_sha h name payload,
                    zo_result = result\<rparr> (zs_operations r1)\<rparr>, Inr result))))))"

definition zoom_session_payload :: "zoom_rec \<Rightarrow> (string \<times> json) list" where
  "zoom_session_payload r = [(''session_id'', JStr (zs_session_id r))]"

definition zoom_mark_listening :: "hasher \<Rightarrow> clock_value \<Rightarrow> string \<Rightarrow> zoom_result zoom_act" where
  "zoom_mark_listening h clk key = (\<lambda>r. zoom_mutate h ''STARTED'' (zoom_session_payload r) key
     (zoom_mark_listening_m clk) r)"

definition zoom_append_payload :: "hasher \<Rightarrow> zoom_segment \<Rightarrow> zoom_rec \<Rightarrow> (string \<times> json) list" where
  "zoom_append_payload h g r = (''segment_fingerprint_sha256'', JStr (zoom_segment_fingerprint h g)) #
     zoom_session_payload r"

definition zoom_append_transcript :: "hasher \<Rightarrow> clock_value \<Rightarrow> zoom_segment \<Rightarrow> string \<Rightarrow> zoom_result zoom_act" where
  "zoom_append_transcript h clk g key = (\<lambda>r. zoom_mutate h ''TRANSCRIPT'' (zoom_append_payload h g r) key
     (zoom_append_m h clk g) r)"

definition zoom_interrupt :: "hasher \<Rightarrow> clock_value \<Rightarrow> string \<Rightarrow> zoom_result zoom_act" where
  "zoom_interrupt h clk key = (\<lambda>r. zoom_mutate h ''INTERRUPTED'' (zoom_session_payload r) key
     (zoom_interrupt_m clk) r)"

definition zoom_begin_reconnect :: "hasher \<Rightarrow> clock_value \<Rightarrow> string \<Rightarrow> zoom_result zoom_act" where
  "zoom_begin_reconnect h clk key = (\<lambda>r. zoom_mutate h ''RECONNECTING'' (zoom_session_payload r) key
     (zoom_begin_reconnect_m clk) r)"

definition zoom_mark_reconnected :: "hasher \<Rightarrow> clock_value \<Rightarrow> string \<Rightarrow> zoom_result zoom_act" where
  "zoom_mark_reconnected h clk key = (\<lambda>r. zoom_mutate h ''RECONNECTED'' (zoom_session_payload r) key
     (zoom_mark_reconnected_m clk) r)"

definition zoom_reconnect_failed :: "hasher \<Rightarrow> clock_value \<Rightarrow> string \<Rightarrow> zoom_result zoom_act" where
  "zoom_reconnect_failed h clk key = (\<lambda>r. zoom_mutate h ''RECONNECT_FAILED'' (zoom_session_payload r) key
     (zoom_reconnect_failed_m clk) r)"

definition zoom_stop :: "hasher \<Rightarrow> clock_value \<Rightarrow> string \<Rightarrow> zoom_result zoom_act" where
  "zoom_stop h clk key = (\<lambda>r. zoom_mutate h ''STOPPED'' (zoom_session_payload r) key
     (zoom_stop_m h clk) r)"

definition zoom_timeout :: "hasher \<Rightarrow> clock_value \<Rightarrow> string \<Rightarrow> zoom_result zoom_act" where
  "zoom_timeout h clk key = (\<lambda>r. zoom_mutate h ''TIMEOUT'' (zoom_session_payload r) key
     (zoom_fail_m clk Z_TIMEOUT) r)"

definition zoom_processing_succeeded :: "hasher \<Rightarrow> clock_value \<Rightarrow> string \<Rightarrow> string \<Rightarrow> zoom_result zoom_act" where
  "zoom_processing_succeeded h clk result key = (\<lambda>r.
     if \<not> is_sha256 result then (r, Inl (ZoomSessionError Z_INVALID_REQUEST))
     else zoom_mutate h ''PROCESSING_SUCCEEDED''
       ((''result_sha256'', JStr result) # zoom_session_payload r) key
       (zoom_processing_succeeded_m h clk result) r)"

definition zoom_processing_failed :: "hasher \<Rightarrow> clock_value \<Rightarrow> string \<Rightarrow> zoom_result zoom_act" where
  "zoom_processing_failed h clk key = (\<lambda>r. zoom_mutate h ''PROCESSING_FAILED'' (zoom_session_payload r) key
     (zoom_processing_failed_m clk) r)"

subsection \<open>Construction, checkpoint, recovery\<close>

definition zoom_blank :: "string \<Rightarrow> int \<Rightarrow> int \<Rightarrow> zoom_rec" where
  "zoom_blank sid created updated = \<lparr>zs_session_id = sid, zs_created_at = created, zs_updated_at = updated,
     zs_state = Z_STARTING, zs_segments = [], zs_packets = [], zs_duplicate_count = 0,
     zs_reconnect_count = 0, zs_stop_received = False, zs_finalization_count = 0,
     zs_input_sha256 = None, zs_result_sha256 = None, zs_failure_code = None, zs_operations = []\<rparr>"

definition zoom_new :: "string \<Rightarrow> clock_value \<Rightarrow> zoom_exc + zoom_rec" where
  "zoom_new sid clk =
     (if \<not> zoom_session_id_ok sid then Inl (ZoomSessionError Z_INVALID_REQUEST)
      else (case zoom_read_clock clk of Inl e \<Rightarrow> Inl e | Inr now \<Rightarrow> Inr (zoom_blank sid now now)))"

record zoom_checkpoint =
  cp_session_id :: string
  cp_state :: zoom_state
  cp_created_at :: int
  cp_updated_at :: int
  cp_segments :: "zoom_segment list"
  cp_duplicate_count :: nat
  cp_reconnect_count :: nat
  cp_stop_received :: bool
  cp_finalization_count :: nat
  cp_input_sha256 :: "string option"
  cp_result_sha256 :: "string option"
  cp_failure_code :: "zoom_failure option"
  cp_operations :: "(string \<times> zoom_op_record) list"

definition zoom_checkpoint_of :: "zoom_rec \<Rightarrow> zoom_checkpoint" where
  "zoom_checkpoint_of r = \<lparr>
     cp_session_id = zs_session_id r, cp_state = zs_state r, cp_created_at = zs_created_at r,
     cp_updated_at = zs_updated_at r, cp_segments = zoom_ordered_segments r,
     cp_duplicate_count = zs_duplicate_count r, cp_reconnect_count = zs_reconnect_count r,
     cp_stop_received = zs_stop_received r, cp_finalization_count = zs_finalization_count r,
     cp_input_sha256 = zs_input_sha256 r, cp_result_sha256 = zs_result_sha256 r,
     cp_failure_code = zs_failure_code r, cp_operations = zs_operations r\<rparr>"

text \<open>The loop of \<open>recover\<close> over the checkpoint's segments.\<close>

fun zoom_restore_segments :: "zoom_segment list \<Rightarrow> zoom_rec \<Rightarrow> zoom_exc + zoom_rec" where
  "zoom_restore_segments [] r = Inr r"
| "zoom_restore_segments (g # gs) r =
     (case map_of (zs_packets r) (seg_packet_sha256 g) of
        Some prior_id \<Rightarrow> if prior_id \<noteq> seg_id g then Inl (ZoomSessionError Z_DUPLICATE_CONFLICT)
          else zoom_restore_segments gs
            (r\<lparr>zs_segments := AList.update (seg_id g) g (zs_segments r),
               zs_packets := AList.update (seg_packet_sha256 g) (seg_id g) (zs_packets r)\<rparr>)
      | None \<Rightarrow> zoom_restore_segments gs
            (r\<lparr>zs_segments := AList.update (seg_id g) g (zs_segments r),
               zs_packets := AList.update (seg_packet_sha256 g) (seg_id g) (zs_packets r)\<rparr>))"

text \<open>\<open>_validate_recovered_record\<close>\<close>

definition zoom_validate_recovered :: "hasher \<Rightarrow> zoom_rec \<Rightarrow> zoom_exc option" where
  "zoom_validate_recovered h r = (case zoom_snapshot_of r of
     Inl e \<Rightarrow> Some e
   | Inr snap \<Rightarrow> first_error [
       (zs_input_sha256 r \<noteq> None \<and> zs_input_sha256 r \<noteq> Some (zoom_transcript_sha h r),
          ZoomSessionError Z_DUPLICATE_CONFLICT),
       (list_ex (\<lambda>(k, op). \<not> is_sha256 k \<or>
            sn_session_id (zr_session (zo_result op)) \<noteq> sn_session_id snap) (zs_operations r),
          ZoomSessionError Z_INVALID_REQUEST)])"

definition zoom_recover :: "hasher \<Rightarrow> zoom_checkpoint \<Rightarrow> clock_value \<Rightarrow> zoom_exc + zoom_rec" where
  "zoom_recover h cp clk = (case zoom_new (cp_session_id cp) clk of Inl e \<Rightarrow> Inl e | Inr _ \<Rightarrow>
     if cp_updated_at cp < cp_created_at cp then Inl (ZoomSessionError Z_INVALID_REQUEST)
     else if MAX_SESSION_SEGMENTS < length (cp_segments cp) then Inl (ZoomSessionError Z_INVALID_REQUEST)
     else (case zoom_restore_segments (cp_segments cp)
         ((zoom_blank (cp_session_id cp) (cp_created_at cp) (cp_updated_at cp))\<lparr>
            zs_state := cp_state cp, zs_duplicate_count := cp_duplicate_count cp,
            zs_reconnect_count := cp_reconnect_count cp, zs_stop_received := cp_stop_received cp,
            zs_finalization_count := cp_finalization_count cp,
            zs_input_sha256 := cp_input_sha256 cp, zs_result_sha256 := cp_result_sha256 cp,
            zs_failure_code := cp_failure_code cp,
            zs_operations := fold (\<lambda>(k, op) d. AList.update k op d) (cp_operations cp) []\<rparr>) of
         Inl e \<Rightarrow> Inl e
       | Inr r \<Rightarrow> (case zoom_validate_recovered h r of Some e \<Rightarrow> Inl e | None \<Rightarrow> Inr r)))"

definition new_zoom_session_id :: "hasher \<Rightarrow> string \<Rightarrow> zoom_exc + string" where
  "new_zoom_session_id h seed =
     (if seed = [] \<or> 256 < length seed then Inl (ZoomSessionError Z_INVALID_REQUEST)
      else Inr (''zoomsess_'' @ json_sha h (''exitspec-zoom-session-v1'' @ [CHR 0x00])
             (JObj [(''seed'', JStr seed)])))"

end
