(* ===== verification/Zoom_Session_Laws.thy ===== *)
theory Zoom_Session_Laws
  imports Zoom_Session
begin

section \<open>What the Zoom session state machine guarantees\<close>

text \<open>
  The public writes as one operation type, the invariant of the session record, its
  preservation by every write (failed writes included), and what follows: snapshots, exactly-once
  finalisation, terminal states, idempotent replay, checkpoint and recovery.
\<close>

subsection \<open>The writes as operations\<close>

datatype zoom_request = MarkListening | AppendTranscript zoom_segment | Interrupt | BeginReconnect
  | MarkReconnected | ReconnectFailed | Stop | Timeout | ProcessingSucceeded string | ProcessingFailed

fun zoom_exec :: "hasher \<Rightarrow> string \<Rightarrow> zoom_request \<Rightarrow> clock_value \<Rightarrow> zoom_result zoom_act" where
  "zoom_exec h k MarkListening clk = zoom_mark_listening h clk k"
| "zoom_exec h k (AppendTranscript g) clk = zoom_append_transcript h clk g k"
| "zoom_exec h k Interrupt clk = zoom_interrupt h clk k"
| "zoom_exec h k BeginReconnect clk = zoom_begin_reconnect h clk k"
| "zoom_exec h k MarkReconnected clk = zoom_mark_reconnected h clk k"
| "zoom_exec h k ReconnectFailed clk = zoom_reconnect_failed h clk k"
| "zoom_exec h k Stop clk = zoom_stop h clk k"
| "zoom_exec h k Timeout clk = zoom_timeout h clk k"
| "zoom_exec h k (ProcessingSucceeded d) clk = zoom_processing_succeeded h clk d k"
| "zoom_exec h k ProcessingFailed clk = zoom_processing_failed h clk k"

type_synonym zoom_op = "string \<times> zoom_request \<times> clock_value"

definition zoom_step :: "hasher \<Rightarrow> zoom_op \<Rightarrow> zoom_rec \<Rightarrow> zoom_rec" where
  "zoom_step h c r = (case c of (k, q, clk) \<Rightarrow> fst (zoom_exec h k q clk r))"

fun zoom_request_ok :: "zoom_request \<Rightarrow> bool" where
  "zoom_request_ok (ProcessingSucceeded d) = is_sha256 d"
| "zoom_request_ok q = True"

fun zoom_request_name :: "zoom_request \<Rightarrow> string" where
  "zoom_request_name MarkListening = ''STARTED''"
| "zoom_request_name (AppendTranscript g) = ''TRANSCRIPT''"
| "zoom_request_name Interrupt = ''INTERRUPTED''"
| "zoom_request_name BeginReconnect = ''RECONNECTING''"
| "zoom_request_name MarkReconnected = ''RECONNECTED''"
| "zoom_request_name ReconnectFailed = ''RECONNECT_FAILED''"
| "zoom_request_name Stop = ''STOPPED''"
| "zoom_request_name Timeout = ''TIMEOUT''"
| "zoom_request_name (ProcessingSucceeded d) = ''PROCESSING_SUCCEEDED''"
| "zoom_request_name ProcessingFailed = ''PROCESSING_FAILED''"

fun zoom_request_payload :: "hasher \<Rightarrow> zoom_request \<Rightarrow> string \<Rightarrow> (string \<times> json) list" where
  "zoom_request_payload h (AppendTranscript g) sid =
     [(''segment_fingerprint_sha256'', JStr (zoom_segment_fingerprint h g)), (''session_id'', JStr sid)]"
| "zoom_request_payload h (ProcessingSucceeded d) sid =
     [(''result_sha256'', JStr d), (''session_id'', JStr sid)]"
| "zoom_request_payload h q sid = [(''session_id'', JStr sid)]"

fun zoom_mutation :: "hasher \<Rightarrow> zoom_request \<Rightarrow> clock_value \<Rightarrow> bool zoom_act" where
  "zoom_mutation h MarkListening clk = zoom_mark_listening_m clk"
| "zoom_mutation h (AppendTranscript g) clk = zoom_append_m h clk g"
| "zoom_mutation h Interrupt clk = zoom_interrupt_m clk"
| "zoom_mutation h BeginReconnect clk = zoom_begin_reconnect_m clk"
| "zoom_mutation h MarkReconnected clk = zoom_mark_reconnected_m clk"
| "zoom_mutation h ReconnectFailed clk = zoom_reconnect_failed_m clk"
| "zoom_mutation h Stop clk = zoom_stop_m h clk"
| "zoom_mutation h Timeout clk = zoom_fail_m clk Z_TIMEOUT"
| "zoom_mutation h (ProcessingSucceeded d) clk = zoom_processing_succeeded_m h clk d"
| "zoom_mutation h ProcessingFailed clk = zoom_processing_failed_m clk"

lemmas zoom_method_defs = zoom_mark_listening_def zoom_append_transcript_def zoom_interrupt_def
  zoom_begin_reconnect_def zoom_mark_reconnected_def zoom_reconnect_failed_def zoom_stop_def
  zoom_timeout_def zoom_processing_succeeded_def zoom_processing_failed_def
  zoom_session_payload_def zoom_append_payload_def

lemma zoom_exec_mutate:
  "zoom_exec h k q clk r = (if \<not> zoom_request_ok q then (r, Inl (ZoomSessionError Z_INVALID_REQUEST))
     else zoom_mutate h (zoom_request_name q) (zoom_request_payload h q (zs_session_id r)) k
       (zoom_mutation h q clk) r)"
  by (cases q) (simp_all add: zoom_method_defs)

lemmas zoom_mutation_defs = zoom_mark_listening_m_def zoom_append_m_def zoom_interrupt_m_def
  zoom_begin_reconnect_m_def zoom_mark_reconnected_m_def zoom_reconnect_failed_m_def zoom_stop_m_def
  zoom_fail_m_def zoom_processing_succeeded_m_def zoom_processing_failed_m_def
  zoom_redeliver_def zoom_append_new_def zoom_require_def zoom_goto_def zoom_touch_def
  zoom_processing_input_def zoom_capturing_def

subsection \<open>The invariant\<close>

text \<open>The two dicts name each other: every stored segment is found by its packet and back.\<close>

definition zoom_book_ok :: "(string \<times> zoom_segment) list \<Rightarrow> (string \<times> string) list \<Rightarrow> bool" where
  "zoom_book_ok segs pks \<longleftrightarrow>
     distinct (map fst segs) \<and> distinct (map fst pks) \<and> length segs \<le> MAX_SESSION_SEGMENTS \<and>
     (\<forall>i g. map_of segs i = Some g \<longrightarrow> seg_id g = i \<and> map_of pks (seg_packet_sha256 g) = Some i) \<and>
     (\<forall>p i. map_of pks p = Some i \<longrightarrow> (\<exists>g. map_of segs i = Some g \<and> seg_packet_sha256 g = p))"

text \<open>How the state, the stop, the transcript digest, the result and the failure agree.\<close>

definition zoom_phase_ok :: "hasher \<Rightarrow> zoom_rec \<Rightarrow> bool" where
  "zoom_phase_ok h r \<longleftrightarrow>
     (zs_finalization_count r = (if zs_stop_received r then 1 else 0)) \<and>
     (zs_stop_received r \<longrightarrow> zs_state r \<in> {Z_PROCESSING, Z_DRAFT_READY, Z_FAILED}) \<and>
     (zs_state r \<in> {Z_PROCESSING, Z_DRAFT_READY} \<longrightarrow> zs_stop_received r \<and> zs_segments r \<noteq> [] \<and>
        zs_input_sha256 r = Some (zoom_transcript_sha h r)) \<and>
     (zs_input_sha256 r \<in> {None, Some (zoom_transcript_sha h r)}) \<and>
     (\<not> zs_stop_received r \<longrightarrow> zs_input_sha256 r = None) \<and>
     ((zs_result_sha256 r \<noteq> None) = (zs_state r = Z_DRAFT_READY)) \<and>
     (zs_result_sha256 r = None \<or> is_sha256 (the (zs_result_sha256 r))) \<and>
     ((zs_failure_code r \<noteq> None) = (zs_state r = Z_FAILED))"

definition zoom_ops_ok :: "hasher \<Rightarrow> zoom_rec \<Rightarrow> bool" where
  "zoom_ops_ok h r \<longleftrightarrow> distinct (map fst (zs_operations r)) \<and>
     (\<forall>k op. map_of (zs_operations r) k = Some op \<longrightarrow> (\<exists>key. k = zoom_key_sha h key) \<and>
        sn_session_id (zr_session (zo_result op)) = zs_session_id r \<and>
        \<not> zr_idempotent_replay (zo_result op))"

definition zoom_core_ok :: "hasher \<Rightarrow> zoom_rec \<Rightarrow> bool" where
  "zoom_core_ok h r \<longleftrightarrow> zs_created_at r \<le> zs_updated_at r \<and>
     zoom_book_ok (zs_segments r) (zs_packets r) \<and> zoom_phase_ok h r"

definition zoom_inv :: "hasher \<Rightarrow> string \<Rightarrow> zoom_rec \<Rightarrow> bool" where
  "zoom_inv h sid r \<longleftrightarrow> zoom_session_id_ok sid \<and> zs_session_id r = sid \<and> zoom_core_ok h r \<and> zoom_ops_ok h r"

text \<open>The transcript digest reads the session identifier and the segments only.\<close>

lemma zoom_transcript_frame [simp]:
  "zoom_transcript_sha h (r\<lparr>zs_state := st\<rparr>) = zoom_transcript_sha h r"
  "zoom_transcript_sha h (r\<lparr>zs_updated_at := t\<rparr>) = zoom_transcript_sha h r"
  "zoom_transcript_sha h (r\<lparr>zs_duplicate_count := n\<rparr>) = zoom_transcript_sha h r"
  "zoom_transcript_sha h (r\<lparr>zs_reconnect_count := n\<rparr>) = zoom_transcript_sha h r"
  "zoom_transcript_sha h (r\<lparr>zs_stop_received := b\<rparr>) = zoom_transcript_sha h r"
  "zoom_transcript_sha h (r\<lparr>zs_finalization_count := n\<rparr>) = zoom_transcript_sha h r"
  "zoom_transcript_sha h (r\<lparr>zs_input_sha256 := d\<rparr>) = zoom_transcript_sha h r"
  "zoom_transcript_sha h (r\<lparr>zs_result_sha256 := d\<rparr>) = zoom_transcript_sha h r"
  "zoom_transcript_sha h (r\<lparr>zs_failure_code := f\<rparr>) = zoom_transcript_sha h r"
  "zoom_transcript_sha h (r\<lparr>zs_operations := ops\<rparr>) = zoom_transcript_sha h r"
  by (simp_all add: zoom_transcript_sha_def zoom_ordered_segments_def)

lemma zoom_book_append:
  assumes "zoom_book_ok segs pks" and "map_of segs (seg_id g) = None"
    and "map_of pks (seg_packet_sha256 g) = None" and "length segs < MAX_SESSION_SEGMENTS"
  shows "zoom_book_ok (AList.update (seg_id g) g segs) (AList.update (seg_packet_sha256 g) (seg_id g) pks)"
  using assms
  by (fastforce simp: zoom_book_ok_def distinct_update length_update_new split: if_splits)

lemma zoom_read_clock_cases:
  obtains (failed) "zoom_read_clock clk = Inl (ZoomSessionError Z_INVALID_REQUEST)"
    | (read) now where "zoom_read_clock clk = Inr now"
  by (cases clk rule: zoom_read_clock.cases) auto

text \<open>The effects the mutations are made of, each under the condition the code establishes first.\<close>

lemma zoom_core_touch: "zoom_core_ok h r \<Longrightarrow> zs_updated_at r \<le> now \<Longrightarrow> zoom_core_ok h (r\<lparr>zs_updated_at := now\<rparr>)"
  by (simp add: zoom_core_ok_def zoom_phase_ok_def)

lemma zoom_core_counts:
  "zoom_core_ok h (r\<lparr>zs_duplicate_count := n\<rparr>) = zoom_core_ok h r"
  "zoom_core_ok h (r\<lparr>zs_reconnect_count := n\<rparr>) = zoom_core_ok h r"
  "zoom_core_ok h (r\<lparr>zs_operations := ops\<rparr>) = zoom_core_ok h r"
  by (simp_all add: zoom_core_ok_def zoom_phase_ok_def)

lemma zoom_core_capture:
  "zoom_core_ok h r \<Longrightarrow> zs_state r \<in> {Z_STARTING, Z_LISTENING, Z_INTERRUPTED, Z_RECONNECTING} \<Longrightarrow>
   st \<in> zoom_capturing \<Longrightarrow> zoom_core_ok h (r\<lparr>zs_state := st\<rparr>)"
  by (cases "zs_state r") (auto simp: zoom_core_ok_def zoom_phase_ok_def zoom_capturing_def)

lemma zoom_core_fail:
  "zoom_core_ok h r \<Longrightarrow> zs_state r \<noteq> Z_DRAFT_READY \<Longrightarrow>
   zoom_core_ok h (r\<lparr>zs_state := Z_FAILED, zs_failure_code := Some code\<rparr>)"
  by (auto simp: zoom_core_ok_def zoom_phase_ok_def)

lemma zoom_core_stop_empty:
  "zoom_core_ok h r \<Longrightarrow> zs_state r \<in> zoom_capturing \<Longrightarrow>
   zoom_core_ok h (r\<lparr>zs_stop_received := True, zs_finalization_count := 1, zs_state := Z_FAILED,
     zs_failure_code := Some code\<rparr>)"
  by (auto simp: zoom_core_ok_def zoom_phase_ok_def zoom_capturing_def)

lemma zoom_core_stop:
  "zoom_core_ok h r \<Longrightarrow> zs_state r \<in> zoom_capturing \<Longrightarrow> zs_segments r \<noteq> [] \<Longrightarrow>
   zoom_core_ok h (r\<lparr>zs_stop_received := True, zs_finalization_count := 1,
     zs_input_sha256 := Some (zoom_transcript_sha h r), zs_state := Z_PROCESSING\<rparr>)"
  by (auto simp: zoom_core_ok_def zoom_phase_ok_def zoom_capturing_def)

lemma zoom_core_draft:
  "zoom_core_ok h r \<Longrightarrow> zs_state r = Z_PROCESSING \<Longrightarrow> is_sha256 d \<Longrightarrow>
   zoom_core_ok h (r\<lparr>zs_result_sha256 := Some d, zs_state := Z_DRAFT_READY\<rparr>)"
  by (simp add: zoom_core_ok_def zoom_phase_ok_def)

lemma zoom_capturing_open:
  assumes "zoom_core_ok h r" and "zs_state r \<in> zoom_capturing"
  shows "\<not> zs_stop_received r" and "zs_input_sha256 r = None"
    and "zs_result_sha256 r = None" and "zs_failure_code r = None"
  using assms
  by (cases "zs_state r"; simp add: zoom_core_ok_def zoom_phase_ok_def zoom_capturing_def)+

lemma zoom_core_append:
  assumes core: "zoom_core_ok h r" and st: "zs_state r \<in> zoom_capturing"
    and new: "map_of (zs_segments r) (seg_id g) = None" "map_of (zs_packets r) (seg_packet_sha256 g) = None"
    and room: "length (zs_segments r) < MAX_SESSION_SEGMENTS"
  shows "zoom_core_ok h (r\<lparr>zs_segments := AList.update (seg_id g) g (zs_segments r),
     zs_packets := AList.update (seg_packet_sha256 g) (seg_id g) (zs_packets r)\<rparr>)"
proof -
  have "zoom_book_ok (zs_segments r) (zs_packets r)" using core by (simp add: zoom_core_ok_def)
  then have "zoom_book_ok (AList.update (seg_id g) g (zs_segments r))
      (AList.update (seg_packet_sha256 g) (seg_id g) (zs_packets r))"
    using new room by (rule zoom_book_append)
  moreover have "zs_state r \<notin> {Z_PROCESSING, Z_DRAFT_READY, Z_FAILED}"
    using st by (auto simp: zoom_capturing_def)
  ultimately show ?thesis
    using core zoom_capturing_open [OF core st]
    by (simp add: zoom_core_ok_def zoom_phase_ok_def)
qed

lemmas zoom_core_effects = zoom_core_touch zoom_core_counts zoom_core_capture zoom_core_fail
  zoom_core_stop_empty zoom_core_stop zoom_core_draft zoom_core_append

text \<open>A touch either refuses and changes nothing or sets a later time.\<close>

lemma zoom_touch_cases:
  obtains (refused) "zoom_touch clk r = (r, Inl (ZoomSessionError Z_INVALID_REQUEST))"
    | (touched) now where "zs_updated_at r \<le> now" "zoom_read_clock clk = Inr now"
        "zoom_touch clk r = (r\<lparr>zs_updated_at := now\<rparr>, Inr ())"
proof (cases "zoom_read_clock clk")
  case (Inl e)
  then have "e = ZoomSessionError Z_INVALID_REQUEST" by (cases clk rule: zoom_read_clock.cases) auto
  with Inl show ?thesis by (intro refused) (simp add: zoom_touch_def)
next
  case (Inr now)
  then show ?thesis
    by (cases "now < zs_updated_at r") (auto simp: zoom_touch_def intro: refused touched [of now])
qed

lemmas zoom_flow = flow_simps zoom_require_def zoom_goto_def

lemma zoom_core_redeliver: "zoom_core_ok h r \<Longrightarrow> zoom_core_ok h (fst (zoom_redeliver h clk g i r))"
  by (cases clk "r\<lparr>zs_duplicate_count := Suc (zs_duplicate_count r)\<rparr>" rule: zoom_touch_cases)
     (auto simp: zoom_redeliver_def zoom_flow zoom_core_counts intro!: zoom_core_touch split: option.splits)

lemma zoom_core_append_m: "zoom_core_ok h r \<Longrightarrow> zoom_core_ok h (fst (zoom_append_m h clk g r))"
proof (cases "map_of (zs_packets r) (seg_packet_sha256 g)")
  case None
  assume core: "zoom_core_ok h r"
  let ?r = "r\<lparr>zs_segments := AList.update (seg_id g) g (zs_segments r),
     zs_packets := AList.update (seg_packet_sha256 g) (seg_id g) (zs_packets r)\<rparr>"
  show ?thesis using core None
    by (cases clk ?r rule: zoom_touch_cases)
       (auto simp: zoom_append_m_def zoom_append_new_def zoom_flow
          intro!: zoom_core_touch zoom_core_append)
qed (simp add: zoom_append_m_def zoom_core_redeliver)

lemma zoom_core_moves:
  assumes "zoom_core_ok h r"
  shows "zoom_core_ok h (fst (zoom_mark_listening_m clk r))"
    and "zoom_core_ok h (fst (zoom_interrupt_m clk r))"
    and "zoom_core_ok h (fst (zoom_begin_reconnect_m clk r))"
    and "zoom_core_ok h (fst (zoom_mark_reconnected_m clk r))"
  using assms
  by (cases clk r rule: zoom_touch_cases;
      auto simp: zoom_mark_listening_m_def zoom_interrupt_m_def zoom_begin_reconnect_m_def
        zoom_mark_reconnected_m_def zoom_flow zoom_capturing_def zoom_core_counts
        intro!: zoom_core_touch zoom_core_capture)+

lemma zoom_core_fail_m: "zoom_core_ok h r \<Longrightarrow> zoom_core_ok h (fst (zoom_fail_m clk code r))"
proof (cases clk r rule: zoom_touch_cases)
  case (touched now)
  assume core: "zoom_core_ok h r"
  show ?thesis
    using touched zoom_core_fail [OF zoom_core_touch [OF core touched(1)], of code] core
    by (simp add: zoom_fail_m_def zoom_flow)
qed (simp add: zoom_fail_m_def zoom_flow)

lemma zoom_core_reconnect_failed: "zoom_core_ok h r \<Longrightarrow> zoom_core_ok h (fst (zoom_reconnect_failed_m clk r))"
  by (simp add: zoom_reconnect_failed_m_def zoom_flow zoom_core_fail_m)

lemma zoom_core_processing_failed: "zoom_core_ok h r \<Longrightarrow> zoom_core_ok h (fst (zoom_processing_failed_m clk r))"
  by (simp add: zoom_processing_failed_m_def zoom_flow zoom_core_fail_m)

lemma zoom_core_stop_m: "zoom_core_ok h r \<Longrightarrow> zoom_core_ok h (fst (zoom_stop_m h clk r))"
proof (cases clk r rule: zoom_touch_cases)
  case (touched now)
  assume core: "zoom_core_ok h r"
  let ?r = "r\<lparr>zs_updated_at := now\<rparr>"
  have "zoom_core_ok h ?r" using core touched(1) by (rule zoom_core_touch)
  then show ?thesis
    using touched core zoom_core_stop_empty [of h ?r Z_NO_TRANSCRIPT] zoom_core_stop [of h ?r]
    by (simp add: zoom_stop_m_def zoom_flow)
qed (simp add: zoom_stop_m_def zoom_flow)

text \<open>After the stop the released transcript is the one the digest was taken of.\<close>

lemma zoom_processing_input_ready:
  assumes "zoom_core_ok h r" and "zs_state r \<in> {Z_PROCESSING, Z_DRAFT_READY}"
  shows "zoom_processing_input h r = (r, Inr (zoom_transcript_sha h r, zoom_ordered_segments r))"
  using assms
  by (cases "zs_state r") (simp_all add: zoom_processing_input_def zoom_flow zoom_core_ok_def zoom_phase_ok_def)

lemma zoom_core_processing_succeeded:
  assumes core: "zoom_core_ok h r" and d: "is_sha256 d"
  shows "zoom_core_ok h (fst (zoom_processing_succeeded_m h clk d r))"
proof (cases "zs_state r = Z_PROCESSING")
  case True
  then have input: "zoom_processing_input h r = (r, Inr (zoom_transcript_sha h r, zoom_ordered_segments r))"
    using core by (intro zoom_processing_input_ready) auto
  show ?thesis
  proof (cases clk r rule: zoom_touch_cases)
    case refused
    then show ?thesis using core True input by (simp add: zoom_processing_succeeded_m_def zoom_flow)
  next
    case (touched now)
    then show ?thesis using True input zoom_core_draft [OF zoom_core_touch [OF core touched(1)] _ d]
      by (simp add: zoom_processing_succeeded_m_def zoom_flow)
  qed
qed (use core in \<open>simp add: zoom_processing_succeeded_m_def zoom_flow\<close>)

lemma zoom_core_mutation:
  "zoom_core_ok h r \<Longrightarrow> zoom_request_ok q \<Longrightarrow> zoom_core_ok h (fst (zoom_mutation h q clk r))"
  by (cases q) (simp_all add: zoom_core_moves zoom_core_append_m zoom_core_stop_m zoom_core_fail_m
      zoom_core_reconnect_failed zoom_core_processing_failed zoom_core_processing_succeeded)

subsection \<open>What no mutation touches\<close>

lemma zoom_mutation_frame:
  "zs_operations (fst (zoom_mutation h q clk r)) = zs_operations r \<and>
   zs_session_id (fst (zoom_mutation h q clk r)) = zs_session_id r \<and>
   zs_created_at (fst (zoom_mutation h q clk r)) = zs_created_at r \<and>
   zs_reconnect_count r \<le> zs_reconnect_count (fst (zoom_mutation h q clk r)) \<and>
   zs_duplicate_count r \<le> zs_duplicate_count (fst (zoom_mutation h q clk r)) \<and>
   zs_updated_at r \<le> zs_updated_at (fst (zoom_mutation h q clk r))"
  by (cases q; cases clk rule: zoom_read_clock.cases)
     (simp_all add: zoom_mutation_defs flow_simps split: option.splits)

lemma zoom_mutation_terminal:
  assumes "zoom_core_ok h r" and "zs_state r \<in> {Z_FAILED, Z_DRAFT_READY}"
  shows "fst (zoom_mutation h q clk r) = r"
proof -
  have "zs_state r = Z_DRAFT_READY \<longrightarrow> zs_stop_received r"
    using assms(1) by (simp add: zoom_core_ok_def zoom_phase_ok_def)
  then show ?thesis using assms(2)
    by (cases q) (auto simp: zoom_mutation_defs flow_simps split: option.splits)
qed

lemma zoom_mutation_after_stop:
  assumes "zoom_core_ok h r" and "zs_stop_received r"
  shows "zs_segments (fst (zoom_mutation h q clk r)) = zs_segments r \<and>
   zs_packets (fst (zoom_mutation h q clk r)) = zs_packets r \<and>
   zs_input_sha256 (fst (zoom_mutation h q clk r)) = zs_input_sha256 r \<and>
   zs_stop_received (fst (zoom_mutation h q clk r))"
proof -
  have "zs_state r \<in> {Z_PROCESSING, Z_DRAFT_READY, Z_FAILED}"
    using assms by (simp add: zoom_core_ok_def zoom_phase_ok_def)
  then have "zs_state r \<notin> zoom_capturing" and "zs_state r \<noteq> Z_STARTING"
    by (auto simp: zoom_capturing_def)
  then show ?thesis using assms(2)
    by (cases q; cases clk rule: zoom_read_clock.cases)
       (simp_all add: zoom_mutation_defs flow_simps split: option.splits)
qed

subsection \<open>One write\<close>

text \<open>
  A write either leaves the record alone (refused before the mutation, or answered from memory),
  or fails in the mutation or in the snapshot, or is accepted and remembered.
\<close>

definition zoom_op_of :: "hasher \<Rightarrow> zoom_request \<Rightarrow> string \<Rightarrow> zoom_result \<Rightarrow> zoom_op_record" where
  "zoom_op_of h q sid res = \<lparr>zo_action = zoom_request_name q,
     zo_request_sha256 = zoom_request_sha h (zoom_request_name q) (zoom_request_payload h q sid),
     zo_result = res\<rparr>"

lemma zoom_snapshot_of_Inr: "zoom_snapshot_of r = Inr p \<Longrightarrow> p = zoom_projection r"
  by (auto simp: zoom_snapshot_of_def Let_def split: if_splits)

lemma zoom_exec_cases:
  fixes h :: hasher and k :: string and q :: zoom_request and clk :: clock_value and r :: zoom_rec
  obtains (idle) out where "zoom_exec h k q clk r = (r, out)"
      "\<And>res. out = Inr res \<Longrightarrow> zoom_request_ok q \<and> zoom_key_ok k \<and>
         map_of (zs_operations r) (zoom_key_sha h k) \<noteq> None"
    | (failed) e where "zoom_request_ok q" "zoom_key_ok k" "map_of (zs_operations r) (zoom_key_sha h k) = None"
        "zoom_exec h k q clk r = (fst (zoom_mutation h q clk r), Inl e)"
    | (accepted) b where "zoom_request_ok q" "zoom_key_ok k" "map_of (zs_operations r) (zoom_key_sha h k) = None"
        "snd (zoom_mutation h q clk r) = Inr b"
        "zoom_snapshot_of (fst (zoom_mutation h q clk r)) = Inr (zoom_projection (fst (zoom_mutation h q clk r)))"
        "zoom_exec h k q clk r = (let r1 = fst (zoom_mutation h q clk r);
            res = \<lparr>zr_session = zoom_projection r1, zr_idempotent_replay = False, zr_duplicate_suppressed = b\<rparr>
          in (r1\<lparr>zs_operations := AList.update (zoom_key_sha h k) (zoom_op_of h q (zs_session_id r) res)
                 (zs_operations r1)\<rparr>, Inr res))"
proof (cases "zoom_request_ok q \<and> zoom_key_ok k")
  case False
  then show ?thesis by (intro idle [of "snd (zoom_exec h k q clk r)"]) (auto simp: zoom_exec_mutate zoom_mutate_def split: if_splits)
next
  case True
  then have ok: "zoom_request_ok q" "zoom_key_ok k" by auto
  show ?thesis
  proof (cases "map_of (zs_operations r) (zoom_key_sha h k)")
    case (Some prior)
    with ok show ?thesis by (intro idle [of "snd (zoom_exec h k q clk r)"]) (auto simp: zoom_exec_mutate zoom_mutate_def split: if_splits)
  next
    case None
    obtain r1 out where m: "zoom_mutation h q clk r = (r1, out)" by (cases "zoom_mutation h q clk r")
    show ?thesis
    proof (cases out)
      case (Inl e)
      with ok None m show ?thesis by (intro failed [of e]) (simp_all add: zoom_exec_mutate zoom_mutate_def)
    next
      case (Inr b)
      show ?thesis
      proof (cases "zoom_snapshot_of r1")
        case (Inl e)
        with ok None m Inr show ?thesis
          by (intro failed [of e]) (simp_all add: zoom_exec_mutate zoom_mutate_def)
      next
        case (Inr snap)
        with \<open>out = Inr b\<close> ok None m zoom_snapshot_of_Inr [OF Inr] show ?thesis
          by (intro accepted [of b]) (simp_all add: zoom_exec_mutate zoom_mutate_def zoom_op_of_def Let_def)
      qed
    qed
  qed
qed

lemma zoom_ops_frame:
  "zs_operations r' = zs_operations r \<Longrightarrow> zs_session_id r' = zs_session_id r \<Longrightarrow> zoom_ops_ok h r' = zoom_ops_ok h r"
  by (simp add: zoom_ops_ok_def)

lemma zoom_ops_remember:
  assumes "zoom_ops_ok h r" and "map_of (zs_operations r) (zoom_key_sha h k) = None"
    and "sn_session_id (zr_session res) = zs_session_id r" and "\<not> zr_idempotent_replay res"
  shows "zoom_ops_ok h (r\<lparr>zs_operations := AList.update (zoom_key_sha h k) (zoom_op_of h q sid res) (zs_operations r)\<rparr>)"
  using assms by (auto simp: zoom_ops_ok_def distinct_update zoom_op_of_def)

lemma zoom_inv_exec: "zoom_inv h sid r \<Longrightarrow> zoom_inv h sid (fst (zoom_exec h k q clk r))"
proof (cases rule: zoom_exec_cases [of h k q clk r])
  case (failed e)
  assume "zoom_inv h sid r"
  with failed zoom_mutation_frame [of h q clk r] zoom_ops_frame [of "fst (zoom_mutation h q clk r)" r h]
  show ?thesis by (simp add: zoom_inv_def zoom_core_mutation)
next
  case (accepted b)
  let ?r1 = "fst (zoom_mutation h q clk r)"
  assume inv: "zoom_inv h sid r"
  note frame = zoom_mutation_frame [of h q clk r]
  have ops: "zoom_ops_ok h ?r1" using inv frame zoom_ops_frame [of ?r1 r h] by (simp add: zoom_inv_def)
  have core: "zoom_core_ok h ?r1" using inv accepted(1) by (simp add: zoom_inv_def zoom_core_mutation)
  show ?thesis using inv accepted frame core zoom_ops_remember [OF ops]
    by (simp add: zoom_inv_def Let_def zoom_core_counts zoom_projection_def)
qed simp

lemma zoom_inv_step: "zoom_inv h sid r \<Longrightarrow> zoom_inv h sid (zoom_step h c r)"
  by (auto simp: zoom_step_def zoom_inv_exec split: prod.splits)

lemma zoom_inv_new: "zoom_new sid clk = Inr r \<Longrightarrow> zoom_inv h sid r"
  by (auto simp: zoom_new_def zoom_blank_def zoom_inv_def zoom_core_ok_def zoom_phase_ok_def
      zoom_book_ok_def zoom_ops_ok_def split: if_splits sum.splits)

subsection \<open>Interpretation: the replay contract\<close>

definition zoom_fp :: "hasher \<Rightarrow> string \<Rightarrow> zoom_request \<Rightarrow> string \<times> string" where
  "zoom_fp h sid q = (zoom_request_name q,
     zoom_request_sha h (zoom_request_name q) (zoom_request_payload h q sid))"

definition zoom_seen :: "hasher \<Rightarrow> zoom_rec \<Rightarrow> string \<Rightarrow> (string \<times> string) option" where
  "zoom_seen h r k = (if zoom_key_ok k
     then map_option (\<lambda>op. (zo_action op, zo_request_sha256 op)) (map_of (zs_operations r) (zoom_key_sha h k))
     else None)"

definition zoom_mark :: "zoom_result \<Rightarrow> zoom_result" where
  "zoom_mark res = res\<lparr>zr_idempotent_replay := True\<rparr>"

definition zoom_replay :: "hasher \<Rightarrow> zoom_rec \<Rightarrow> string \<Rightarrow> zoom_result" where
  "zoom_replay h r k = zoom_mark (zo_result (the (map_of (zs_operations r) (zoom_key_sha h k))))"

lemma zoom_exec_known:
  assumes "zoom_request_ok q" and "zoom_seen h r k = Some f"
  shows "zoom_exec h k q clk r = (r, if f = zoom_fp h (zs_session_id r) q then Inr (zoom_replay h r k)
     else Inl (ZoomSessionError Z_IDEMPOTENCY_CONFLICT))"
  using assms
  by (auto simp: zoom_seen_def zoom_exec_mutate zoom_mutate_def zoom_fp_def zoom_replay_def zoom_mark_def
      split: if_splits)

lemma zoom_ops_step:
  assumes "map_of (zs_operations r) d = Some op"
  shows "map_of (zs_operations (zoom_step h c r)) d = Some op"
proof (cases c)
  case (fields k q clk)
  show ?thesis
    using assms zoom_mutation_frame [of h q clk r]
    by (cases rule: zoom_exec_cases [of h k q clk r]) (auto simp: fields zoom_step_def Let_def)
qed

interpretation zoom: stable_replay_service "zoom_step h" "zoom_inv h sid" "zoom_exec h" zoom_request_ok
  "zoom_fp h sid" "zoom_seen h" "zoom_replay h" "ZoomSessionError Z_IDEMPOTENCY_CONFLICT" zoom_mark
  for h :: hasher and sid :: string
proof unfold_locales
  fix s :: zoom_rec and s' k q env r f c
  show "zoom_inv h sid s \<Longrightarrow> zoom_inv h sid (zoom_step h c s)" by (rule zoom_inv_step)
  show "zoom_inv h sid s \<Longrightarrow> zoom_inv h sid (fst (zoom_exec h k q env s))" by (rule zoom_inv_exec)
  show "zoom_exec h k q env s = (s', Inr r) \<Longrightarrow> zoom_request_ok q"
    by (cases rule: zoom_exec_cases [of h k q env s]) auto
  show "zoom_inv h sid s \<Longrightarrow> zoom_request_ok q \<Longrightarrow> zoom_seen h s k = Some (zoom_fp h sid q) \<Longrightarrow>
      zoom_exec h k q env s = (s, Inr (zoom_replay h s k))"
    by (simp add: zoom_exec_known zoom_inv_def)
  show "zoom_inv h sid s \<Longrightarrow> zoom_request_ok q \<Longrightarrow> zoom_seen h s k = Some f \<Longrightarrow> f \<noteq> zoom_fp h sid q \<Longrightarrow>
      zoom_exec h k q env s = (s, Inl (ZoomSessionError Z_IDEMPOTENCY_CONFLICT))"
    by (simp add: zoom_exec_known zoom_inv_def)
  show "zoom_inv h sid s \<Longrightarrow> zoom_seen h s k = None \<Longrightarrow> zoom_exec h k q env s = (s', Inr r) \<Longrightarrow>
      zoom_seen h s' k = Some (zoom_fp h sid q)"
    by (cases rule: zoom_exec_cases [of h k q env s])
       (auto simp: zoom_seen_def zoom_inv_def Let_def zoom_op_of_def zoom_fp_def)
  show "zoom_inv h sid s \<Longrightarrow> zoom_seen h s k = Some f \<Longrightarrow> zoom_seen h (zoom_step h c s) k = Some f"
    by (auto simp: zoom_seen_def zoom_ops_step split: if_splits)
  show "zoom_inv h sid s \<Longrightarrow> zoom_seen h s k = Some f \<Longrightarrow> zoom_replay h (zoom_step h c s) k = zoom_replay h s k"
    by (auto simp: zoom_seen_def zoom_replay_def zoom_ops_step split: if_splits)
  show "zoom_inv h sid s \<Longrightarrow> zoom_seen h s k = None \<Longrightarrow> zoom_exec h k q env s = (s', Inr r) \<Longrightarrow>
      zoom_replay h s' k = zoom_mark r"
    by (cases rule: zoom_exec_cases [of h k q env s])
       (auto simp: zoom_seen_def zoom_replay_def Let_def zoom_op_of_def)
  show "zoom_inv h sid s \<Longrightarrow> zoom_seen h s k = Some f \<Longrightarrow> zoom_mark (zoom_replay h s k) = zoom_replay h s k"
    by (simp add: zoom_replay_def zoom_mark_def)
qed

subsection \<open>Snapshots\<close>

lemma zoom_snapshot_inv:
  assumes "zoom_inv h sid r" and "hex_hasher h"
  shows "zoom_snapshot_of r = (if zs_duplicate_count r \<le> MAX_DUPLICATE_DELIVERIES \<and> zs_reconnect_count r \<le> MAX_RECONNECTS
     then Inr (zoom_projection r) else Inl ZoomValidationError)"
proof -
  have core: "zoom_core_ok h r" and sid: "zoom_session_id_ok (zs_session_id r)"
    using assms(1) by (auto simp: zoom_inv_def)
  have shas: "case zs_input_sha256 r of None \<Rightarrow> True | Some d \<Rightarrow> is_sha256 d"
      "case zs_result_sha256 r of None \<Rightarrow> True | Some d \<Rightarrow> is_sha256 d"
    using core assms(2)
    by (auto simp: zoom_core_ok_def zoom_phase_ok_def hex_hasher_def zoom_transcript_sha_def split: option.splits)
  have "length (zs_segments r) \<le> MAX_SESSION_SEGMENTS"
    using core by (simp add: zoom_core_ok_def zoom_book_ok_def)
  moreover have "zs_finalization_count r \<in> {0, 1}"
    using core by (simp add: zoom_core_ok_def zoom_phase_ok_def)
  ultimately have fields: "zoom_snapshot_fields_ok (zoom_projection r) \<longleftrightarrow>
      zs_duplicate_count r \<le> MAX_DUPLICATE_DELIVERIES \<and> zs_reconnect_count r \<le> MAX_RECONNECTS"
    using sid shas by (simp add: zoom_snapshot_fields_ok_def zoom_projection_def)
  have "zoom_state_projection_ok (zoom_projection r)"
    using core
    by (cases "zs_state r")
       (simp_all add: zoom_core_ok_def zoom_phase_ok_def zoom_state_projection_ok_def zoom_projection_def
          Suc_le_eq)
  with fields show ?thesis by (simp add: zoom_snapshot_of_def Let_def)
qed

lemma zoom_reached:
  assumes "zoom_new sid clk = Inr r0"
  shows "zoom_inv h sid (fold (zoom_step h) ops r0)"
  by (rule zoom.inv_run) (rule zoom_inv_new [OF assms])

subsection \<open>Runs after the stop, and terminal states\<close>

lemma zoom_step_core:
  obtains "zoom_step h c r = r" | q clk where "zoom_request_ok q"
    "zoom_step h c r = (fst (zoom_mutation h q clk r))\<lparr>zs_operations := zs_operations (zoom_step h c r)\<rparr>"
proof (cases c)
  case (fields k q clk)
  show ?thesis
  proof (cases rule: zoom_exec_cases [of h k q clk r])
    case (idle out)
    then show ?thesis by (intro that(1)) (simp add: fields zoom_step_def)
  next
    case (failed e)
    then show ?thesis by (intro that(2) [of q clk]) (simp_all add: fields zoom_step_def)
  next
    case (accepted b)
    then show ?thesis by (intro that(2) [of q clk]) (simp_all add: fields zoom_step_def Let_def)
  qed
qed

definition zoom_stopped_with :: "zoom_rec \<Rightarrow> zoom_rec \<Rightarrow> bool" where
  "zoom_stopped_with r t \<longleftrightarrow> zs_stop_received t \<and> zs_segments t = zs_segments r \<and>
     zs_packets t = zs_packets r \<and> zs_input_sha256 t = zs_input_sha256 r \<and> zs_session_id t = zs_session_id r"

lemma zoom_stopped_step:
  assumes "zoom_core_ok h t" and "zoom_stopped_with r t"
  shows "zoom_stopped_with r (zoom_step h c t)"
proof (cases rule: zoom_step_core [of h c t])
  case 1
  with assms show ?thesis by simp
next
  case (2 q clk)
  have "zs_stop_received t" using assms(2) by (simp add: zoom_stopped_with_def)
  note after = zoom_mutation_after_stop [OF assms(1) this, of q clk]
  have "zoom_stopped_with r ((fst (zoom_mutation h q clk t))\<lparr>zs_operations := zs_operations (zoom_step h c t)\<rparr>)"
    using after assms(2) zoom_mutation_frame [of h q clk t] by (simp add: zoom_stopped_with_def)
  then show ?thesis using 2(2) by simp
qed

lemma zoom_stopped_run:
  assumes "zoom_inv h sid r" and "zs_stop_received r"
  shows "zoom_stopped_with r (fold (zoom_step h) ops r)"
proof (rule zoom.run_keeps [where P = "zoom_stopped_with r"])
  show "zoom_inv h sid r" by (rule assms(1))
  show "zoom_stopped_with r r" using assms(2) by (simp add: zoom_stopped_with_def)
qed (simp add: zoom_inv_def zoom_stopped_step)

definition zoom_same_but_ops :: "zoom_rec \<Rightarrow> zoom_rec \<Rightarrow> bool" where
  "zoom_same_but_ops r t \<longleftrightarrow> t = r\<lparr>zs_operations := zs_operations t\<rparr>"

lemma zoom_terminal_step:
  assumes "zoom_core_ok h t" and "zs_state r \<in> {Z_FAILED, Z_DRAFT_READY}" and "zoom_same_but_ops r t"
  shows "zoom_same_but_ops r (zoom_step h c t)"
proof (cases rule: zoom_step_core [of h c t])
  case 1
  with assms show ?thesis by simp
next
  case (2 q clk)
  have "zs_state t = zs_state r"
    using assms(3) unfolding zoom_same_but_ops_def by (metis zoom_rec.select_convs(4) zoom_rec.surjective zoom_rec.update_convs(14))
  then have "fst (zoom_mutation h q clk t) = t" using assms by (intro zoom_mutation_terminal) auto
  with 2(2) assms(3) show ?thesis
    unfolding zoom_same_but_ops_def
    by (metis (no_types, lifting) zoom_rec.surjective zoom_rec.update_convs(14))
qed

lemma zoom_terminal_run:
  assumes "zoom_inv h sid r" and "zs_state r \<in> {Z_FAILED, Z_DRAFT_READY}"
  shows "zoom_same_but_ops r (fold (zoom_step h) ops r)"
proof (rule zoom.run_keeps [where P = "zoom_same_but_ops r"])
  show "zoom_inv h sid r" by (rule assms(1))
  show "zoom_same_but_ops r r" by (simp add: zoom_same_but_ops_def)
qed (use assms(2) in \<open>simp add: zoom_inv_def zoom_terminal_step\<close>)

text \<open>Counters only grow, whatever is called.\<close>

lemma zoom_step_counts:
  "zs_reconnect_count r \<le> zs_reconnect_count (zoom_step h c r) \<and>
   zs_duplicate_count r \<le> zs_duplicate_count (zoom_step h c r)"
proof (cases rule: zoom_step_core [of h c r])
  case (2 q clk)
  have "zs_reconnect_count (zoom_step h c r) = zs_reconnect_count (fst (zoom_mutation h q clk r))"
    by (subst 2(2)) simp
  moreover have "zs_duplicate_count (zoom_step h c r) = zs_duplicate_count (fst (zoom_mutation h q clk r))"
    by (subst 2(2)) simp
  ultimately show ?thesis using zoom_mutation_frame [of h q clk r] by simp
qed simp

lemma zoom_run_counts: "zs_reconnect_count r \<le> zs_reconnect_count (fold (zoom_step h) ops r)"
proof (induction ops arbitrary: r)
  case (Cons c ops)
  from Cons.IH [of "zoom_step h c r"] zoom_step_counts [of r h c] show ?case by simp
qed simp

lemma zoom_snapshot_too_many:
  "MAX_RECONNECTS < zs_reconnect_count r \<Longrightarrow> zoom_snapshot_of r = Inl ZoomValidationError"
  by (simp add: zoom_snapshot_of_def zoom_snapshot_fields_ok_def zoom_projection_def Let_def)

subsection \<open>Checkpoint and recovery\<close>

lemma zoom_ordered_segments_set:
  "set (zoom_ordered_segments r) = snd ` set (zs_segments r)"
  by (simp add: zoom_ordered_segments_def)

lemma zoom_book_entries:
  assumes "zoom_book_ok segs pks"
  shows "\<And>i g. (i, g) \<in> set segs \<Longrightarrow> seg_id g = i \<and> map_of pks (seg_packet_sha256 g) = Some i"
    and "\<And>p i. (p, i) \<in> set pks \<Longrightarrow> \<exists>g. (i, g) \<in> set segs \<and> seg_packet_sha256 g = p"
proof -
  have d: "distinct (map fst segs)" "distinct (map fst pks)" using assms by (simp_all add: zoom_book_ok_def)
  show "\<And>i g. (i, g) \<in> set segs \<Longrightarrow> seg_id g = i \<and> map_of pks (seg_packet_sha256 g) = Some i"
    using assms d(1) by (simp add: zoom_book_ok_def)
  show "\<And>p i. (p, i) \<in> set pks \<Longrightarrow> \<exists>g. (i, g) \<in> set segs \<and> seg_packet_sha256 g = p"
    using assms d by (simp add: zoom_book_ok_def)
qed

lemma zoom_book_segments:
  assumes book: "zoom_book_ok segs pks"
  shows "distinct (map (seg_id \<circ> snd) segs)" and "distinct (map (seg_packet_sha256 \<circ> snd) segs)"
    and "map (\<lambda>g. (seg_id g, g)) (map snd segs) = segs"
proof -
  note ids = zoom_book_entries(1) [OF book]
  have d: "distinct (map fst segs)" using book by (simp add: zoom_book_ok_def)
  have "map (seg_id \<circ> snd) segs = map fst segs" using ids by auto
  with d show "distinct (map (seg_id \<circ> snd) segs)" by metis
  show "map (\<lambda>g. (seg_id g, g)) (map snd segs) = segs" using ids by (auto intro!: map_idI)
  have "inj_on (seg_packet_sha256 \<circ> snd) (set segs)"
  proof (rule inj_onI)
    fix x y
    assume xy: "x \<in> set segs" "y \<in> set segs" "(seg_packet_sha256 \<circ> snd) x = (seg_packet_sha256 \<circ> snd) y"
    then have "Some (fst x) = Some (fst y)"
      using ids [of "fst x" "snd x"] ids [of "fst y" "snd y"] by simp
    with xy(1,2) d show "x = y" by (metis option.inject eq_key_imp_eq_value prod.collapse)
  qed
  moreover have "distinct segs" using d by (simp add: distinct_map)
  ultimately show "distinct (map (seg_packet_sha256 \<circ> snd) segs)" by (simp add: distinct_map)
qed

text \<open>Restoring segments with distinct identifiers and packets appends them one by one.\<close>

lemma zoom_restore_distinct:
  assumes "distinct (map seg_id gs)" and "distinct (map seg_packet_sha256 gs)"
    and "\<forall>g \<in> set gs. seg_id g \<notin> fst ` set (zs_segments r) \<and> seg_packet_sha256 g \<notin> fst ` set (zs_packets r)"
  shows "zoom_restore_segments gs r = Inr (r\<lparr>
     zs_segments := zs_segments r @ map (\<lambda>g. (seg_id g, g)) gs,
     zs_packets := zs_packets r @ map (\<lambda>g. (seg_packet_sha256 g, seg_id g)) gs\<rparr>)"
  using assms
proof (induction gs arbitrary: r)
  case (Cons g gs)
  then have new: "seg_id g \<notin> fst ` set (zs_segments r)" "seg_packet_sha256 g \<notin> fst ` set (zs_packets r)"
    by auto
  let ?r = "r\<lparr>zs_segments := zs_segments r @ [(seg_id g, g)],
    zs_packets := zs_packets r @ [(seg_packet_sha256 g, seg_id g)]\<rparr>"
  have "zoom_restore_segments (g # gs) r = zoom_restore_segments gs ?r"
    using new iffD2 [OF map_of_eq_None_iff new(2)] by (simp add: update_new)
  also have "\<dots> = Inr (?r\<lparr>zs_segments := zs_segments ?r @ map (\<lambda>g. (seg_id g, g)) gs,
      zs_packets := zs_packets ?r @ map (\<lambda>g. (seg_packet_sha256 g, seg_id g)) gs\<rparr>)"
    using Cons.prems by (intro Cons.IH) (auto simp: image_iff)
  finally show ?case by simp
qed simp

lemma zoom_fold_update_distinct:
  "distinct (map fst (d @ ops)) \<Longrightarrow> fold (\<lambda>(k, op) d. AList.update k op d) ops d = d @ ops"
proof (induction ops arbitrary: d)
  case (Cons c ops)
  then show ?case by (cases c) (simp add: update_new image_iff)
qed simp

text \<open>The record with its dicts rebuilt in the checkpoint's order.\<close>

definition zoom_reindexed :: "zoom_rec \<Rightarrow> zoom_rec" where
  "zoom_reindexed r = r\<lparr>
     zs_segments := map (\<lambda>g. (seg_id g, g)) (zoom_ordered_segments r),
     zs_packets := map (\<lambda>g. (seg_packet_sha256 g, seg_id g)) (zoom_ordered_segments r)\<rparr>"

lemma distinct_map_sort_key: "distinct (map f (sort_key k xs)) = distinct (map f xs)"
  by (simp add: distinct_map)

lemma zoom_ordered_segments_distinct:
  assumes "zoom_book_ok (zs_segments r) (zs_packets r)"
  shows "distinct (map seg_id (zoom_ordered_segments r))"
    and "distinct (map seg_packet_sha256 (zoom_ordered_segments r))"
  using zoom_book_segments(1,2) [OF assms]
  by (simp_all add: zoom_ordered_segments_def distinct_map_sort_key)

lemma zoom_reindexed_lookup:
  assumes book: "zoom_book_ok (zs_segments r) (zs_packets r)"
  shows "map_of (zs_segments (zoom_reindexed r)) = map_of (zs_segments r)"
    and "map_of (zs_packets (zoom_reindexed r)) = map_of (zs_packets r)"
proof -
  note distinct = zoom_ordered_segments_distinct [OF book]
  note entries = zoom_book_entries [OF book]
  have d: "distinct (map fst (zs_segments r))" "distinct (map fst (zs_packets r))"
    using book by (simp_all add: zoom_book_ok_def)
  have "set (map (\<lambda>g. (seg_id g, g)) (zoom_ordered_segments r)) = set (map (\<lambda>g. (seg_id g, g)) (map snd (zs_segments r)))"
    by (simp add: zoom_ordered_segments_set image_image)
  then have "set (zs_segments (zoom_reindexed r)) = set (zs_segments r)"
    unfolding zoom_book_segments(3) [OF book] by (simp add: zoom_reindexed_def)
  then show "map_of (zs_segments (zoom_reindexed r)) = map_of (zs_segments r)"
    using distinct(1) d(1) by (subst map_of_inject_set) (simp_all add: zoom_reindexed_def o_def)
  have "set (zs_packets (zoom_reindexed r)) = (\<lambda>(i, g). (seg_packet_sha256 g, seg_id g)) ` set (zs_segments r)"
    by (simp add: zoom_reindexed_def zoom_ordered_segments_set image_image case_prod_unfold)
  also have "\<dots> = set (zs_packets r)"
  proof (rule set_eqI)
    fix x
    show "x \<in> (\<lambda>(i, g). (seg_packet_sha256 g, seg_id g)) ` set (zs_segments r) \<longleftrightarrow> x \<in> set (zs_packets r)"
    proof
      assume "x \<in> (\<lambda>(i, g). (seg_packet_sha256 g, seg_id g)) ` set (zs_segments r)"
      then obtain i g where "(i, g) \<in> set (zs_segments r)" "x = (seg_packet_sha256 g, seg_id g)" by auto
      with entries(1) show "x \<in> set (zs_packets r)" by (auto dest: map_of_SomeD)
    next
      assume "x \<in> set (zs_packets r)"
      then obtain g where "(snd x, g) \<in> set (zs_segments r)" "seg_packet_sha256 g = fst x"
        using entries(2) [of "fst x" "snd x"] by auto
      with entries(1) [of "snd x" g] show "x \<in> (\<lambda>(i, g). (seg_packet_sha256 g, seg_id g)) ` set (zs_segments r)"
        by (auto simp: image_iff intro!: bexI [of _ "(snd x, g)"])
    qed
  qed
  finally show "map_of (zs_packets (zoom_reindexed r)) = map_of (zs_packets r)"
    using distinct(2) d(2) by (subst map_of_inject_set) (simp_all add: zoom_reindexed_def o_def)
qed

lemma zoom_reindexed_same:
  assumes "zoom_book_ok (zs_segments r) (zs_packets r)"
  shows "zoom_ordered_segments (zoom_reindexed r) = zoom_ordered_segments r"
    and "zoom_transcript_sha h (zoom_reindexed r) = zoom_transcript_sha h r"
    and "zoom_projection (zoom_reindexed r) = zoom_projection r"
proof -
  have "sorted (map zoom_segment_key (zoom_ordered_segments r))"
    by (simp add: zoom_ordered_segments_def)
  then show ordered: "zoom_ordered_segments (zoom_reindexed r) = zoom_ordered_segments r"
    unfolding zoom_ordered_segments_def [of "zoom_reindexed r"]
    by (simp add: zoom_reindexed_def o_def sort_key_id_if_sorted)
  then show "zoom_transcript_sha h (zoom_reindexed r) = zoom_transcript_sha h r"
    unfolding zoom_transcript_sha_def by (simp add: zoom_reindexed_def)
  show "zoom_projection (zoom_reindexed r) = zoom_projection r"
    by (simp add: zoom_projection_def zoom_reindexed_def zoom_ordered_segments_def)
qed

lemma zoom_recover_inv:
  assumes inv: "zoom_inv h sid r" and hex: "hex_hasher h" and snap: "zoom_snapshot_of r = Inr p"
  shows "zoom_recover h (zoom_checkpoint_of r) (ClockAt (Aware t off)) = Inr (zoom_reindexed r)"
proof -
  have core: "zoom_core_ok h r" and ops: "zoom_ops_ok h r" and sid: "zoom_session_id_ok (zs_session_id r)"
    using inv by (auto simp: zoom_inv_def)
  have book: "zoom_book_ok (zs_segments r) (zs_packets r)" and times: "zs_created_at r \<le> zs_updated_at r"
    using core by (simp_all add: zoom_core_ok_def)
  have len: "length (zoom_ordered_segments r) \<le> MAX_SESSION_SEGMENTS"
    using book by (simp add: zoom_book_ok_def zoom_ordered_segments_def)
  have "zoom_snapshot_of (zoom_reindexed r) = zoom_snapshot_of r"
    unfolding zoom_snapshot_of_def zoom_reindexed_same(3) [OF book] ..
  with snap have snap': "zoom_snapshot_of (zoom_reindexed r) = Inr (zoom_projection r)"
    using zoom_snapshot_of_Inr [OF snap] by simp
  have "\<not> list_ex (\<lambda>(k, op). \<not> is_sha256 k \<or> sn_session_id (zr_session (zo_result op)) \<noteq> zs_session_id r) (zs_operations r)"
    using ops hex by (fastforce simp: list_ex_iff zoom_ops_ok_def zoom_key_sha_def hex_hasher_def)
  moreover have "zs_input_sha256 r \<in> {None, Some (zoom_transcript_sha h r)}"
    using core by (simp add: zoom_core_ok_def zoom_phase_ok_def)
  ultimately have valid: "zoom_validate_recovered h (zoom_reindexed r) = None"
    using snap' zoom_reindexed_same(2) [OF book, of h]
    by (auto simp: zoom_validate_recovered_def zoom_projection_def zoom_reindexed_def)
  have ops_eq: "fold (\<lambda>(k, op) d. AList.update k op d) (zs_operations r) [] = zs_operations r"
    using zoom_fold_update_distinct [of "[]" "zs_operations r"] ops by (simp add: zoom_ops_ok_def)
  have "zoom_restore_segments (zoom_ordered_segments r) ((zoom_blank (zs_session_id r) (zs_created_at r) (zs_updated_at r))\<lparr>
      zs_state := zs_state r, zs_duplicate_count := zs_duplicate_count r,
      zs_reconnect_count := zs_reconnect_count r, zs_stop_received := zs_stop_received r,
      zs_finalization_count := zs_finalization_count r, zs_input_sha256 := zs_input_sha256 r,
      zs_result_sha256 := zs_result_sha256 r, zs_failure_code := zs_failure_code r,
      zs_operations := zs_operations r\<rparr>) = Inr (zoom_reindexed r)"
    using zoom_ordered_segments_distinct [OF book]
    by (subst zoom_restore_distinct) (simp_all add: zoom_blank_def zoom_reindexed_def)
  with valid ops_eq sid times len show ?thesis
    by (simp add: zoom_recover_def zoom_checkpoint_of_def zoom_new_def)
qed

subsection \<open>The guarantees\<close>

definition zoom_demo_id :: string where
  "zoom_demo_id = ''zoomsess_'' @ replicate 64 (CHR ''a'')"

definition zoom_demo_clock :: "int \<Rightarrow> clock_value" where
  "zoom_demo_clock t = ClockAt (Aware t 0)"

definition zoom_demo_segment :: zoom_segment where
  "zoom_demo_segment = \<lparr>seg_id = ''zoomsegment_1'', seg_packet_sha256 = ''p1'', seg_arrival_index = 1,
     seg_provider_timestamp = 5, seg_start_time = 5, seg_end_time = 9, seg_duration = 4,
     seg_language = ''en'', seg_speaker = ''SPEAKER_1'', seg_text = ''hi'',
     seg_provenance = \<lparr>zp_source_classification = ''PRIVATE_SYNTHETIC_RUNTIME'', zp_fixture_sha256 = '''',
       zp_capture_plan_sha256 = '''', zp_setup_attestation_sha256 = '''', zp_runtime_plan_sha256 = '''',
       zp_packet_sha256 = ''p1''\<rparr>\<rparr>"

definition zoom_demo :: zoom_rec where
  "zoom_demo = zoom_blank zoom_demo_id 0 0"

lemma zoom_demo_id_ok: "zoom_session_id_ok zoom_demo_id"
  by code_simp

lemma zoom_demo_new: "zoom_new zoom_demo_id (zoom_demo_clock 0) = Inr zoom_demo"
  by (simp add: zoom_new_def zoom_demo_id_ok zoom_demo_clock_def zoom_demo_def)

lemma zoom_demo_key_ok: "zoom_key_ok ''key-0001''" "zoom_key_ok ''key-0002''"
  by code_simp+

text \<open>
  C29. A session record reached by any sequence of writes, failed ones included, projects to a
  valid snapshot exactly when its two delivery counters are within the snapshot's bounds: the
  cross-field rules of \<open>require_state_projection\<close> never fail on a reachable record.
\<close>
theorem zoom_snapshot_reachable:
  assumes "zoom_new sid clk = Inr r0" and "hex_hasher h"
  shows "zoom_snapshot_of (fold (zoom_step h) ops r0) =
    (if zs_duplicate_count (fold (zoom_step h) ops r0) \<le> MAX_DUPLICATE_DELIVERIES \<and>
        zs_reconnect_count (fold (zoom_step h) ops r0) \<le> MAX_RECONNECTS
     then Inr (zoom_projection (fold (zoom_step h) ops r0)) else Inl ZoomValidationError)"
  by (rule zoom_snapshot_inv [OF zoom_reached [OF assms(1)] assms(2)])

theorem zoom_snapshot_reachable_witness:
  "zoom_snapshot_of (fold (zoom_step flat_hasher) [] zoom_demo) = Inr (zoom_projection zoom_demo)"
  using zoom_snapshot_reachable [OF zoom_demo_new hex_flat_hasher, of "[]"]
  by (simp add: zoom_demo_def zoom_blank_def)

text \<open>
  After an accepted write, whatever writes follow, repeating the same request under the same
  key leaves the session unchanged and returns the first result marked as a replay, and any
  other well-formed request under that key is refused without effect.
\<close>
theorem zoom_write_replayed:
  assumes "zoom_new sid clk0 = Inr r0" and "r = fold (zoom_step h) before r0"
    and "zoom_exec h k q clk r = (r1, Inr res)" and "r2 = fold (zoom_step h) after r1"
  shows "zoom_exec h k q clk' r2 = (r2, Inr (res\<lparr>zr_idempotent_replay := True\<rparr>)) \<and>
    (zoom_request_ok q' \<and> zoom_fp h sid q' \<noteq> zoom_fp h sid q \<longrightarrow>
       zoom_exec h k q' clk' r2 = (r2, Inl (ZoomSessionError Z_IDEMPOTENCY_CONFLICT)))"
proof -
  have "zoom_inv h sid r" unfolding assms(2) by (rule zoom_reached [OF assms(1)])
  then show ?thesis
    using zoom.same_answer_after [of h sid r k q clk r1 res] zoom.conflict_after [of h sid r k q clk r1 res] assms(3)
    unfolding assms(4) zoom_mark_def by blast
qed

theorem zoom_write_replayed_witness:
  "\<exists>r1 res. zoom_exec flat_hasher ''key-0001'' MarkListening (zoom_demo_clock 1) zoom_demo = (r1, Inr res) \<and>
     zoom_exec flat_hasher ''key-0001'' MarkListening ClockRaises r1 = (r1, Inr (res\<lparr>zr_idempotent_replay := True\<rparr>))"
proof -
  obtain r1 res where run: "zoom_exec flat_hasher ''key-0001'' MarkListening (zoom_demo_clock 1) zoom_demo = (r1, Inr res)"
    by (simp add: zoom_mark_listening_def zoom_mutate_def zoom_demo_key_ok zoom_demo_def zoom_blank_def
        zoom_mark_listening_m_def zoom_touch_def zoom_flow zoom_demo_clock_def zoom_snapshot_of_def
        zoom_snapshot_fields_ok_def zoom_state_projection_ok_def zoom_projection_def zoom_demo_id_ok
        MAX_SESSION_SEGMENTS_def Let_def)
  then show ?thesis
    using zoom_write_replayed [OF zoom_demo_new, of zoom_demo flat_hasher "[]" "''key-0001''" MarkListening
        "zoom_demo_clock 1" r1 res r1 "[]" ClockRaises] by auto
qed

text \<open>
  C28. A session is finalised once: after the stop no write changes the segments, the transcript
  digest or the stop itself, and as long as the session is processing or has its draft the
  transcript released to processing is the one digested at the stop.
\<close>
theorem zoom_finalized_once:
  assumes "zoom_new sid clk = Inr r0" and "r = fold (zoom_step h) before r0" and "zs_stop_received r"
    and "r' = fold (zoom_step h) after r"
  shows "zs_segments r' = zs_segments r \<and> zs_input_sha256 r' = zs_input_sha256 r \<and>
    zs_stop_received r' \<and> zs_finalization_count r' = 1 \<and>
    (zs_state r' \<in> {Z_PROCESSING, Z_DRAFT_READY} \<longrightarrow>
       zoom_processing_input h r' = (r', Inr (the (zs_input_sha256 r), zoom_ordered_segments r)))"
proof -
  have inv: "zoom_inv h sid r" unfolding assms(2) by (rule zoom_reached [OF assms(1)])
  have inv': "zoom_inv h sid r'" unfolding assms(4) by (rule zoom.inv_run [OF inv])
  have stopped: "zoom_stopped_with r r'" unfolding assms(4) by (rule zoom_stopped_run [OF inv assms(3)])
  have core: "zoom_core_ok h r'" using inv' by (simp add: zoom_inv_def)
  have input: "zs_state r' \<in> {Z_PROCESSING, Z_DRAFT_READY} \<Longrightarrow> zs_input_sha256 r' = Some (zoom_transcript_sha h r')"
    using core by (simp add: zoom_core_ok_def zoom_phase_ok_def)
  have "zs_finalization_count r' = (if zs_stop_received r' then 1 else 0)"
    using core by (simp add: zoom_core_ok_def zoom_phase_ok_def)
  with stopped zoom_processing_input_ready [OF core] input show ?thesis
    by (auto simp: zoom_stopped_with_def zoom_ordered_segments_def)
qed

text \<open>A session that listened and stopped before any transcript arrived.\<close>

definition zoom_demo_listening :: zoom_rec where
  "zoom_demo_listening = zoom_step key_hasher (''key-0001'', MarkListening, zoom_demo_clock 1) zoom_demo"

definition zoom_demo_stopped :: zoom_rec where
  "zoom_demo_stopped = zoom_step key_hasher (''key-0002'', Stop, zoom_demo_clock 3) zoom_demo_listening"

lemmas zoom_demo_eval = zoom_step_def zoom_mutate_def zoom_demo_key_ok zoom_touch_def zoom_flow
  zoom_demo_clock_def zoom_snapshot_of_def zoom_snapshot_fields_ok_def zoom_state_projection_ok_def
  zoom_projection_def zoom_demo_id_ok MAX_SESSION_SEGMENTS_def Let_def zoom_key_sha_def key_hasher_def

lemma zoom_demo_listening_state: "zs_state zoom_demo_listening = Z_LISTENING"
  "zs_segments zoom_demo_listening = []" "zs_updated_at zoom_demo_listening = 1"
  "map_of (zs_operations zoom_demo_listening) ''key-0002'' = None"
  "zs_session_id zoom_demo_listening = zoom_demo_id" "zs_stop_received zoom_demo_listening = False"
  by (simp_all add: zoom_demo_listening_def zoom_demo_def zoom_blank_def zoom_mark_listening_def
      zoom_mark_listening_m_def zoom_demo_eval)

lemma zoom_demo_stopped_state: "zs_stop_received zoom_demo_stopped" "zs_state zoom_demo_stopped = Z_FAILED"
  by (simp_all add: zoom_demo_stopped_def zoom_demo_listening_state zoom_stop_def zoom_stop_m_def
      zoom_capturing_def zoom_demo_eval split: sum.splits prod.splits)

theorem zoom_finalized_once_witness:
  "zs_segments (zoom_step key_hasher (''key-0003'', Timeout, zoom_demo_clock 4) zoom_demo_stopped) =
     zs_segments zoom_demo_stopped"
  using zoom_finalized_once [OF zoom_demo_new _ _ refl, of zoom_demo_stopped key_hasher
      "[(''key-0001'', MarkListening, zoom_demo_clock 1), (''key-0002'', Stop, zoom_demo_clock 3)]"
      "[(''key-0003'', Timeout, zoom_demo_clock 4)]"]
  by (simp add: zoom_demo_stopped_def [symmetric] zoom_demo_listening_def [symmetric] zoom_demo_stopped_state)

text \<open>
  A session that failed or has its draft is over: whatever is called afterwards, no field of
  its record changes except the memory of answered requests.
\<close>

theorem zoom_terminal_absorbing:
  assumes "zoom_new sid clk = Inr r0" and "r = fold (zoom_step h) before r0"
    and "zs_state r \<in> {Z_FAILED, Z_DRAFT_READY}" and "r' = fold (zoom_step h) after r"
  shows "r' = r\<lparr>zs_operations := zs_operations r'\<rparr>"
proof -
  have "zoom_inv h sid r" unfolding assms(2) by (rule zoom_reached [OF assms(1)])
  then show ?thesis
    using zoom_terminal_run [of h sid r after] assms(3) unfolding assms(4) zoom_same_but_ops_def by blast
qed

theorem zoom_terminal_absorbing_witness:
  "zs_state (zoom_step key_hasher (''key-0003'', MarkListening, zoom_demo_clock 4) zoom_demo_stopped) = Z_FAILED"
proof -
  let ?t = "zoom_step key_hasher (''key-0003'', MarkListening, zoom_demo_clock 4) zoom_demo_stopped"
  have "?t = zoom_demo_stopped\<lparr>zs_operations := zs_operations ?t\<rparr>"
    by (rule zoom_terminal_absorbing [OF zoom_demo_new, of _ key_hasher
      "[(''key-0001'', MarkListening, zoom_demo_clock 1), (''key-0002'', Stop, zoom_demo_clock 3)]" _
      "[(''key-0003'', MarkListening, zoom_demo_clock 4)]"])
      (simp_all add: zoom_demo_stopped_def [symmetric] zoom_demo_listening_def [symmetric] zoom_demo_stopped_state)
  then have "zs_state ?t = zs_state (zoom_demo_stopped\<lparr>zs_operations := zs_operations ?t\<rparr>)" by (rule arg_cong)
  then show ?thesis by (simp add: zoom_demo_stopped_state)
qed

text \<open>
  C31. Recovering a session from its own checkpoint rebuilds it: for every reachable record that
  still has a valid snapshot, recovery succeeds at any aware clock reading, and the recovered
  record agrees with the original in every field and every dict lookup.
\<close>
theorem zoom_recover_checkpoint:
  assumes "zoom_new sid clk = Inr r0" and "r = fold (zoom_step h) ops r0" and "hex_hasher h"
    and "zoom_snapshot_of r = Inr p"
  shows "\<exists>r'. zoom_recover h (zoom_checkpoint_of r) (ClockAt (Aware t off)) = Inr r' \<and>
    map_of (zs_segments r') = map_of (zs_segments r) \<and> map_of (zs_packets r') = map_of (zs_packets r) \<and>
    r' = r\<lparr>zs_segments := zs_segments r', zs_packets := zs_packets r'\<rparr>"
proof -
  have inv: "zoom_inv h sid r" unfolding assms(2) by (rule zoom_reached [OF assms(1)])
  then have book: "zoom_book_ok (zs_segments r) (zs_packets r)"
    by (simp add: zoom_inv_def zoom_core_ok_def)
  show ?thesis
    using zoom_recover_inv [OF inv assms(3,4), of t off] zoom_reindexed_lookup [OF book]
    by (intro exI [of _ "zoom_reindexed r"]) (simp add: zoom_reindexed_def)
qed

theorem zoom_recover_checkpoint_witness:
  "\<exists>r'. zoom_recover flat_hasher (zoom_checkpoint_of zoom_demo) (zoom_demo_clock 9) = Inr r' \<and>
     zs_state r' = Z_STARTING"
proof -
  have "zoom_snapshot_of zoom_demo = Inr (zoom_projection zoom_demo)"
    by (simp add: zoom_demo_eval zoom_demo_def zoom_blank_def)
  from zoom_recover_checkpoint [OF zoom_demo_new _ hex_flat_hasher this, of "[]" 9 0]
  obtain r' where run: "zoom_recover flat_hasher (zoom_checkpoint_of zoom_demo) (ClockAt (Aware 9 0)) = Inr r'"
    and r': "r' = zoom_demo\<lparr>zs_segments := zs_segments r', zs_packets := zs_packets r'\<rparr>" by auto
  from r' have "zs_state r' = zs_state (zoom_demo\<lparr>zs_segments := zs_segments r', zs_packets := zs_packets r'\<rparr>)"
    by (rule arg_cong)
  with run show ?thesis by (simp add: zoom_demo_clock_def zoom_demo_def zoom_blank_def)
qed

text \<open>A record that still captures has a valid snapshot while its counters are within bounds.\<close>

lemma zoom_snapshot_capturing:
  assumes "zoom_inv h sid r" and "zs_state r \<in> zoom_capturing"
    and "zs_duplicate_count r \<le> MAX_DUPLICATE_DELIVERIES" and "zs_reconnect_count r \<le> MAX_RECONNECTS"
  shows "zoom_snapshot_of r = Inr (zoom_projection r)"
proof -
  have core: "zoom_core_ok h r" and sid: "zoom_session_id_ok (zs_session_id r)"
    using assms(1) by (auto simp: zoom_inv_def)
  have state: "zs_state r \<in> {Z_LISTENING, Z_INTERRUPTED, Z_RECONNECTING}"
    using assms(2) by (simp add: zoom_capturing_def)
  then have "\<not> zs_stop_received r" using core by (auto simp: zoom_core_ok_def zoom_phase_ok_def)
  with core state sid assms(3,4) show ?thesis
    by (auto simp: zoom_core_ok_def zoom_phase_ok_def zoom_book_ok_def zoom_snapshot_of_def
        zoom_snapshot_fields_ok_def zoom_state_projection_ok_def zoom_projection_def Let_def)
qed

text \<open>
  A transcript delivered with a clock reading earlier than the last update is refused, yet
  its segment stays stored: repeating the delivery under the same key with a good clock is then
  reported as a suppressed duplicate, and the segment is the one the refused call left behind.
\<close>
theorem zoom_append_clock_regression:
  assumes "zoom_new sid clk = Inr r0" and "r = fold (zoom_step h) ops r0"
    and "zs_state r \<in> zoom_capturing" and "zoom_key_ok k" and "map_of (zs_operations r) (zoom_key_sha h k) = None"
    and "map_of (zs_packets r) (seg_packet_sha256 g) = None" and "map_of (zs_segments r) (seg_id g) = None"
    and "length (zs_segments r) < MAX_SESSION_SEGMENTS"
    and "zs_duplicate_count r < MAX_DUPLICATE_DELIVERIES" and "zs_reconnect_count r \<le> MAX_RECONNECTS"
    and "early < zs_updated_at r" and "zs_updated_at r \<le> late"
  shows "\<exists>r1 r2 res.
    zoom_exec h k (AppendTranscript g) (ClockAt (Aware early off)) r = (r1, Inl (ZoomSessionError Z_INVALID_REQUEST)) \<and>
    zs_segments r1 = zs_segments r @ [(seg_id g, g)] \<and>
    zoom_exec h k (AppendTranscript g) (ClockAt (Aware late off')) r1 = (r2, Inr res) \<and>
    zr_duplicate_suppressed res \<and> \<not> zr_idempotent_replay res \<and> zs_segments r2 = zs_segments r1"
proof -
  let ?q = "AppendTranscript g"
  let ?r1 = "r\<lparr>zs_segments := AList.update (seg_id g) g (zs_segments r),
    zs_packets := AList.update (seg_packet_sha256 g) (seg_id g) (zs_packets r)\<rparr>"
  let ?m2 = "?r1\<lparr>zs_duplicate_count := zs_duplicate_count r + 1, zs_updated_at := late\<rparr>"
  have inv: "zoom_inv h sid r" unfolding assms(2) by (rule zoom_reached [OF assms(1)])
  have open1: "\<not> zs_stop_received r" "zs_state r \<noteq> Z_FAILED"
    using inv assms(3) zoom_capturing_open [of h r] by (auto simp: zoom_inv_def zoom_capturing_def)
  have m1: "zoom_mutation h ?q (ClockAt (Aware early off)) r = (?r1, Inl (ZoomSessionError Z_INVALID_REQUEST))"
    using assms(3,6,7,8,11) by (simp add: zoom_append_m_def zoom_append_new_def zoom_touch_def zoom_flow)
  then have run1: "zoom_exec h k ?q (ClockAt (Aware early off)) r = (?r1, Inl (ZoomSessionError Z_INVALID_REQUEST))"
    using assms(4,5) by (simp add: zoom_exec_mutate zoom_mutate_def del: zoom_exec.simps zoom_mutation.simps)
  have inv1: "zoom_inv h sid ?r1" using zoom_inv_exec [OF inv, of k ?q "ClockAt (Aware early off)"] run1 by simp
  have m2: "zoom_mutation h ?q (ClockAt (Aware late off')) ?r1 = (?m2, Inr True)"
    using assms(3,12) open1 by (simp add: zoom_append_m_def zoom_redeliver_def zoom_touch_def zoom_flow)
  have "zoom_inv h sid ?m2"
    using inv1 zoom_core_mutation [of h ?r1 ?q "ClockAt (Aware late off')"] m2 zoom_ops_frame [of ?m2 ?r1 h]
    by (simp add: zoom_inv_def)
  then have snap: "zoom_snapshot_of ?m2 = Inr (zoom_projection ?m2)"
    using assms(3,9,10) by (intro zoom_snapshot_capturing) auto
  obtain ops' where "zoom_exec h k ?q (ClockAt (Aware late off')) ?r1 = (?m2\<lparr>zs_operations := ops'\<rparr>,
      Inr \<lparr>zr_session = zoom_projection ?m2, zr_idempotent_replay = False, zr_duplicate_suppressed = True\<rparr>)"
    using zoom_exec_mutate [of h k ?q "ClockAt (Aware late off')" ?r1] m2 snap assms(4,5)
    by (simp add: zoom_mutate_def Let_def del: zoom_exec.simps zoom_mutation.simps)
  moreover have "zs_segments ?r1 = zs_segments r @ [(seg_id g, g)]"
    using update_new [OF map_of_NoneD [OF assms(7)], of g] by simp
  ultimately show ?thesis using run1 by (intro exI conjI) (assumption | simp)+
qed

theorem zoom_append_clock_regression_witness:
  "\<exists>r1. zoom_exec key_hasher ''key-0002'' (AppendTranscript zoom_demo_segment) (zoom_demo_clock 0)
      zoom_demo_listening = (r1, Inl (ZoomSessionError Z_INVALID_REQUEST)) \<and> zs_segments r1 \<noteq> []"
proof -
  have counts: "zs_duplicate_count zoom_demo_listening = 0" "zs_reconnect_count zoom_demo_listening = 0"
    "zs_packets zoom_demo_listening = []"
    by (simp_all add: zoom_demo_listening_def zoom_demo_def zoom_blank_def zoom_mark_listening_def
      zoom_mark_listening_m_def zoom_demo_eval)
  have fresh: "map_of (zs_operations zoom_demo_listening) (zoom_key_sha key_hasher ''key-0002'') = None"
    using zoom_demo_listening_state by (simp add: key_hasher_def zoom_key_sha_def)
  have "zoom_demo_listening = fold (zoom_step key_hasher) [(''key-0001'', MarkListening, zoom_demo_clock 1)] zoom_demo"
    by (simp add: zoom_demo_listening_def)
  from zoom_append_clock_regression [OF zoom_demo_new this _ zoom_demo_key_ok(2) fresh, of zoom_demo_segment 0 1 0 0]
  show ?thesis
    using zoom_demo_listening_state counts
    by (auto simp: zoom_demo_clock_def zoom_capturing_def MAX_SESSION_SEGMENTS_def
        MAX_DUPLICATE_DELIVERIES_def simp del: zoom_exec.simps)
qed

text \<open>
  The reconnect counter of the record is not bounded the way the snapshot bounds it: the
  sixty-fifth reconnect raises a validation error after the session has gone back to listening,
  and from then on no call ever gets a snapshot of the session again.
\<close>
theorem zoom_reconnect_limit:
  assumes "zs_state r = Z_RECONNECTING" and "zs_reconnect_count r = MAX_RECONNECTS"
    and "zoom_key_ok k" and "map_of (zs_operations r) (zoom_key_sha h k) = None" and "zs_updated_at r \<le> t"
  shows "\<exists>r1. zoom_exec h k MarkReconnected (ClockAt (Aware t off)) r = (r1, Inl ZoomValidationError) \<and>
    zs_state r1 = Z_LISTENING \<and> zs_reconnect_count r1 = 65 \<and>
    zoom_snapshot_of (fold (zoom_step h) ops r1) = Inl ZoomValidationError"
proof -
  let ?r1 = "r\<lparr>zs_updated_at := t, zs_reconnect_count := 65, zs_state := Z_LISTENING\<rparr>"
  have m: "zoom_mutation h MarkReconnected (ClockAt (Aware t off)) r = (?r1, Inr False)"
    using assms(1,2,5) by (simp add: zoom_mark_reconnected_m_def zoom_touch_def zoom_flow MAX_RECONNECTS_def)
  have snap: "zoom_snapshot_of (fold (zoom_step h) ops ?r1) = Inl ZoomValidationError" for ops
    using zoom_run_counts [of ?r1 h ops] by (intro zoom_snapshot_too_many) (simp add: MAX_RECONNECTS_def)
  from snap [of "[]"] m assms(3,4)
  have "zoom_exec h k MarkReconnected (ClockAt (Aware t off)) r = (?r1, Inl ZoomValidationError)"
    by (simp add: zoom_exec_mutate zoom_mutate_def del: zoom_exec.simps zoom_mutation.simps)
  with snap show ?thesis by (intro exI [of _ ?r1]) (simp del: zoom_exec.simps)
qed

theorem zoom_reconnect_limit_witness:
  "\<exists>r1. zoom_exec flat_hasher ''key-0001'' MarkReconnected (zoom_demo_clock 1)
     (zoom_demo\<lparr>zs_state := Z_RECONNECTING, zs_reconnect_count := 64\<rparr>) = (r1, Inl ZoomValidationError) \<and>
     zs_state r1 = Z_LISTENING"
  using zoom_reconnect_limit [of "zoom_demo\<lparr>zs_state := Z_RECONNECTING, zs_reconnect_count := 64\<rparr>"
      "''key-0001''" flat_hasher 1 0 "[]"]
  by (auto simp: zoom_demo_def zoom_blank_def MAX_RECONNECTS_def zoom_demo_key_ok zoom_demo_clock_def
      simp del: zoom_exec.simps)

end
