(* ===== verification/Verdicts.thy ===== *)
theory Verdicts
  imports Prelude
begin

section \<open>The verdict engine (statistics.py, verdicts.py and its models in models.py)\<close>

text \<open>
  A measured proportion is judged against an approved rule: the Wilson lower bound of the
  observed rate has to reach the threshold. Floats are modelled as reals (rounding is not), and
  \<open>NormalDist().inv_cdf\<close> is the argument \<open>inv_cdf\<close>: of it the proofs use only that a quantile
  above one half is positive. Verdict reasons keep their text, or the numbers it is formatted from.
\<close>

subsection \<open>Models\<close>

datatype verdict_status = V_PASS | V_FAIL | V_BLOCKED | V_NOT_PROVEN

datatype comparison_operator = OP_GTE | OP_LTE | OP_GT | OP_LT | OP_EQ

record source_reference =
  src_speaker :: string
  src_quote :: string
  src_location :: string

record proportion_rule =
  pr_operator :: comparison_operator
  pr_threshold :: real
  pr_minimum_samples :: int
  pr_confidence_level :: real

definition proportion_rule_ok :: "proportion_rule \<Rightarrow> bool" where
  "proportion_rule_ok r \<longleftrightarrow> 0 \<le> pr_threshold r \<and> pr_threshold r \<le> 1 \<and> 0 < pr_minimum_samples r \<and>
     0 < pr_confidence_level r \<and> pr_confidence_level r < 1 \<and> pr_operator r = OP_GTE"

record criterion =
  cr_id :: string
  cr_title :: string
  cr_must_have :: bool
  cr_source :: "source_reference option"
  cr_human_added :: bool
  cr_normalized_claim :: string
  cr_metric :: string
  cr_unit :: string
  cr_aggregation :: string
  cr_rule :: proportion_rule
  cr_workload_slice :: string
  cr_adapter :: string
  cr_adapter_version :: string
  cr_owner :: string
  cr_evidence_policy :: string
  cr_approved :: bool

text \<open>\<open>^[A-Z][A-Z0-9-]{2,63}$\<close>\<close>

definition criterion_id_ok :: "string \<Rightarrow> bool" where
  "criterion_id_ok s \<longleftrightarrow> (case s of [] \<Rightarrow> False
     | c # rest \<Rightarrow> is_upper c \<and> 2 \<le> length rest \<and> length rest \<le> 63 \<and>
         list_all (\<lambda>d. is_upper d \<or> is_digit d \<or> d = CHR ''-'') rest)"

definition source_reference_ok :: "source_reference \<Rightarrow> bool" where
  "source_reference_ok s \<longleftrightarrow> src_speaker s \<noteq> [] \<and> src_quote s \<noteq> [] \<and> src_location s \<noteq> []"

definition criterion_ok :: "criterion \<Rightarrow> bool" where
  "criterion_ok c \<longleftrightarrow> criterion_id_ok (cr_id c) \<and>
     list_all (\<lambda>t. t \<noteq> []) [cr_title c, cr_normalized_claim c, cr_unit c, cr_aggregation c,
       cr_workload_slice c, cr_adapter c, cr_adapter_version c, cr_owner c, cr_evidence_policy c] \<and>
     cr_metric c = ''exact_tool_selection_rate'' \<and> proportion_rule_ok (cr_rule c) \<and>
     (case cr_source c of None \<Rightarrow> cr_human_added c | Some s \<Rightarrow> source_reference_ok s)"

record measurement =
  pm_criterion_id :: string
  pm_sample_count :: int
  pm_success_count :: int
  pm_evidence_refs :: "string list"
  pm_external_blocked_reason :: "string option"
  pm_internal_error :: "string option"
  pm_metadata_complete :: bool
  pm_workload_hash_matches :: bool
  pm_artifact_integrity_valid :: bool

definition measurement_ok :: "measurement \<Rightarrow> bool" where
  "measurement_ok m \<longleftrightarrow> pm_criterion_id m \<noteq> [] \<and> 0 \<le> pm_sample_count m \<and>
     0 \<le> pm_success_count m \<and> pm_success_count m \<le> pm_sample_count m"

datatype verdict_reason = ReasonText string
  | ReasonBelow real real
  | ReasonMeets real real real real
  | ReasonInconclusive real real real real

record criterion_verdict =
  cv_criterion_id :: string
  cv_verdict :: verdict_status
  cv_observed_rate :: "real option"
  cv_threshold :: real
  cv_sample_count :: int
  cv_confidence_lower_bound :: "real option"
  cv_evidence_refs :: "string list"
  cv_calculation_version :: string
  cv_reason :: verdict_reason
  cv_limitations :: "string list"

definition unit_interval :: "real \<Rightarrow> bool" where
  "unit_interval x \<longleftrightarrow> 0 \<le> x \<and> x \<le> 1"

text \<open>The field constraints of \<open>CriterionVerdict\<close>.\<close>

definition criterion_verdict_ok :: "criterion_verdict \<Rightarrow> bool" where
  "criterion_verdict_ok v \<longleftrightarrow> cv_criterion_id v \<noteq> [] \<and>
     (case cv_observed_rate v of None \<Rightarrow> True | Some x \<Rightarrow> unit_interval x) \<and>
     unit_interval (cv_threshold v) \<and> 0 \<le> cv_sample_count v \<and>
     (case cv_confidence_lower_bound v of None \<Rightarrow> True | Some x \<Rightarrow> unit_interval x) \<and>
     cv_calculation_version v \<noteq> [] \<and> cv_reason v \<noteq> ReasonText []"

subsection \<open>Statistics\<close>

definition CALCULATION_VERSION :: string where
  "CALCULATION_VERSION = ''wilson-two-sided-v1''"

datatype verdict_error = MeasurementMismatch | SampleCountNotPositive | SuccessCountOutOfRange
  | ConfidenceOutOfRange | ZeroDivision | VerdictInvalid

definition wilson_interval :: "(real \<Rightarrow> real) \<Rightarrow> int \<Rightarrow> int \<Rightarrow> real \<Rightarrow> verdict_error + real \<times> real" where
  "wilson_interval inv_cdf success_count sample_count confidence_level = (
     if sample_count \<le> 0 then Inl SampleCountNotPositive
     else if success_count < 0 \<or> success_count > sample_count then Inl SuccessCountOutOfRange
     else if \<not> (0 < confidence_level \<and> confidence_level < 1) then Inl ConfidenceOutOfRange
     else (let n = real_of_int sample_count;
               proportion = real_of_int success_count / n;
               z = inv_cdf (1 / 2 + confidence_level / 2);
               z_squared = z * z;
               denominator = 1 + z_squared / n;
               center = (proportion + z_squared / (2 * n)) / denominator;
               margin = z * sqrt ((proportion * (1 - proportion) + z_squared / (4 * n)) / n) / denominator
           in Inr (max 0 (center - margin), min 1 (center + margin))))"

definition wilson_lower_bound :: "(real \<Rightarrow> real) \<Rightarrow> int \<Rightarrow> int \<Rightarrow> real \<Rightarrow> verdict_error + real" where
  "wilson_lower_bound inv_cdf success_count sample_count confidence_level =
     map_sum id fst (wilson_interval inv_cdf success_count sample_count confidence_level)"

subsection \<open>One criterion\<close>

definition build_verdict :: "criterion_verdict \<Rightarrow> verdict_error + criterion_verdict" where
  "build_verdict v = (if criterion_verdict_ok v then Inr v else Inl VerdictInvalid)"

text \<open>The \<open>common\<close> keyword arguments, completed by a verdict, a reason and its limitations.\<close>

definition plain_verdict :: "criterion \<Rightarrow> measurement \<Rightarrow> verdict_status \<Rightarrow> verdict_reason \<Rightarrow> string list \<Rightarrow> criterion_verdict" where
  "plain_verdict c m status reason limits = \<lparr>
     cv_criterion_id = cr_id c, cv_verdict = status, cv_observed_rate = None,
     cv_threshold = pr_threshold (cr_rule c), cv_sample_count = pm_sample_count m,
     cv_confidence_lower_bound = None, cv_evidence_refs = pm_evidence_refs m,
     cv_calculation_version = CALCULATION_VERSION, cv_reason = reason, cv_limitations = limits\<rparr>"

definition enriched_verdict :: "criterion \<Rightarrow> measurement \<Rightarrow> real \<Rightarrow> real \<Rightarrow> verdict_status \<Rightarrow> verdict_reason \<Rightarrow> string list \<Rightarrow> criterion_verdict" where
  "enriched_verdict c m rate lower status reason limits =
     (plain_verdict c m status reason limits)\<lparr>cv_observed_rate := Some rate, cv_confidence_lower_bound := Some lower\<rparr>"

definition invalid_reasons :: "measurement \<Rightarrow> string list" where
  "invalid_reasons m =
     (if pm_metadata_complete m then [] else [''required run metadata is missing'']) @
     (if pm_workload_hash_matches m then [] else [''fixture hash does not match the approved workload'']) @
     (if pm_artifact_integrity_valid m then [] else [''evidence artifact integrity check failed''])"

definition show_int :: "int \<Rightarrow> string" where
  "show_int i = (if i < 0 then CHR ''-'' # show_nat (nat (- i)) else show_nat (nat i))"

definition evaluate_proportion_criterion :: "(real \<Rightarrow> real) \<Rightarrow> criterion \<Rightarrow> measurement \<Rightarrow> verdict_error + criterion_verdict" where
  "evaluate_proportion_criterion inv_cdf c m = (let rule = cr_rule c in
     if pm_criterion_id m \<noteq> cr_id c then Inl MeasurementMismatch
     else if truthy (pm_external_blocked_reason m) then
       build_verdict (plain_verdict c m V_BLOCKED (ReasonText (the (pm_external_blocked_reason m)))
         [''Execution did not complete because of an external block.''])
     else if truthy (pm_internal_error m) then
       build_verdict (plain_verdict c m V_NOT_PROVEN
         (ReasonText (''Measurement adapter failed internally: '' @ the (pm_internal_error m)))
         [''An ExitSpec software failure is not evidence that the target system failed.''])
     else if pm_sample_count m > 0 \<and> pm_evidence_refs m = [] then
       build_verdict (plain_verdict c m V_NOT_PROVEN
         (ReasonText ''Measured samples have no evidence references; the claim is not proven.'')
         [''Missing evidence never passes.''])
     else if invalid_reasons m \<noteq> [] then
       build_verdict (plain_verdict c m V_NOT_PROVEN
         (ReasonText (''Evidence cannot establish the claim because '' @ join_str ''; '' (invalid_reasons m) @ ''.''))
         [''Correct the evidence issue and execute the approved plan again.''])
     else if pm_sample_count m < pr_minimum_samples rule then
       build_verdict (plain_verdict c m V_NOT_PROVEN
         (ReasonText (''Only '' @ show_int (pm_sample_count m) @
            '' valid samples were collected; the approved minimum is '' @ show_int (pr_minimum_samples rule) @ ''.''))
         [''Missing evidence never passes.''])
     else if pm_sample_count m = 0 then Inl ZeroDivision
     else (let rate = real_of_int (pm_success_count m) / real_of_int (pm_sample_count m) in
       case wilson_lower_bound inv_cdf (pm_success_count m) (pm_sample_count m) (pr_confidence_level rule) of
         Inl e \<Rightarrow> Inl e
       | Inr lower \<Rightarrow>
           if rate < pr_threshold rule then
             build_verdict (enriched_verdict c m rate lower V_FAIL (ReasonBelow rate (pr_threshold rule)) [])
           else if lower \<ge> pr_threshold rule then
             build_verdict (enriched_verdict c m rate lower V_PASS
               (ReasonMeets rate (pr_confidence_level rule) lower (pr_threshold rule))
               [''This establishes the approved fixture criterion, not universal production quality.''])
           else
             build_verdict (enriched_verdict c m rate lower V_NOT_PROVEN
               (ReasonInconclusive rate (pr_confidence_level rule) lower (pr_threshold rule))
               [''The result is statistically inconclusive under the approved rule.''])))"

subsection \<open>All criteria\<close>

record overall_verdict =
  ov_verdict :: verdict_status
  ov_must_have_criterion_ids :: "string list"
  ov_reason :: string

definition verdict_by_criterion :: "criterion_verdict list \<Rightarrow> (string \<times> criterion_verdict) list" where
  "verdict_by_criterion vs = fold (\<lambda>v d. AList.update (cv_criterion_id v) v d) vs []"

definition must_have_ids :: "criterion list \<Rightarrow> string list" where
  "must_have_ids cs = map cr_id (filter cr_must_have cs)"

definition aggregate_overall_verdict :: "criterion list \<Rightarrow> criterion_verdict list \<Rightarrow> overall_verdict" where
  "aggregate_overall_verdict cs vs = (let
       verdicts = verdict_by_criterion vs;
       ids = must_have_ids cs;
       missing = filter (\<lambda>i. map_of verdicts i = None) ids;
       statuses = map (\<lambda>i. cv_verdict (the (map_of verdicts i))) ids
     in if missing \<noteq> [] then \<lparr>ov_verdict = V_NOT_PROVEN, ov_must_have_criterion_ids = ids,
           ov_reason = ''Missing terminal verdicts for must-have criteria: '' @ join_str '', '' missing\<rparr>
        else if V_FAIL \<in> set statuses then \<lparr>ov_verdict = V_FAIL, ov_must_have_criterion_ids = ids,
           ov_reason = ''At least one must-have criterion failed with sufficient evidence.''\<rparr>
        else if V_BLOCKED \<in> set statuses then \<lparr>ov_verdict = V_BLOCKED, ov_must_have_criterion_ids = ids,
           ov_reason = ''No must-have criterion failed, but an external condition blocked execution.''\<rparr>
        else if V_NOT_PROVEN \<in> set statuses then \<lparr>ov_verdict = V_NOT_PROVEN, ov_must_have_criterion_ids = ids,
           ov_reason = ''No must-have criterion failed, but at least one cannot be validly established.''\<rparr>
        else \<lparr>ov_verdict = V_PASS, ov_must_have_criterion_ids = ids,
           ov_reason = ''Every must-have criterion passed under its approved rule.''\<rparr>)"

end
