(* ===== verification/Contracts.thy ===== *)
theory Contracts
  imports Verdicts
begin

section \<open>The contract lifecycle (contracts.py, confirmations.py, POCContract in models.py)\<close>

text \<open>
  A POC contract is drafted, reviewed, approved by its owners, confirmed by the customer and
  frozen under a digest of its canonical payload; a frozen contract is only ever revised into a
  new draft. Criteria are the proportion criteria of the verdict engine, capability criteria (the
  fields a contract rule reads, the rest as their dumped payload), and criteria of another kind,
  of which contracts read the identifier and the approval; the routing SLO kinds, whose contracts
  have binding rules of their own, are not modelled. A \<open>datetime\<close> is dumped as the pair of its
  instant and offset, where the code writes the ISO text of the same.
\<close>

subsection \<open>Models\<close>

datatype contract_status = C_DRAFT | C_IN_REVIEW | C_APPROVED | C_FROZEN | C_SUPERSEDED

record target_system =
  ts_provider :: string
  ts_endpoint_class :: string
  ts_model :: string

record workload_reference =
  wl_fixture_path :: string
  wl_sha256 :: string

record capability_criterion =
  cap_id :: string
  cap_must_have :: bool
  cap_poc_id :: string
  cap_planning_item_id :: string
  cap_proposal_id :: string
  cap_a4_plan_id :: string
  cap_a4_plan_version :: int
  cap_a4_plan_sha256 :: string
  cap_approved :: bool
  cap_other_fields :: "(string \<times> json) list"

datatype contract_criterion = Proportion criterion
  | Capability capability_criterion
  | OtherKind (other_kind: string) (other_id: string) (other_approved: bool) (other_fields: "(string \<times> json) list")

fun criterion_id :: "contract_criterion \<Rightarrow> string" where
  "criterion_id (Proportion c) = cr_id c"
| "criterion_id (Capability c) = cap_id c"
| "criterion_id (OtherKind k i a p) = i"

fun criterion_approved :: "contract_criterion \<Rightarrow> bool" where
  "criterion_approved (Proportion c) = cr_approved c"
| "criterion_approved (Capability c) = cap_approved c"
| "criterion_approved (OtherKind k i a p) = a"

fun with_approved :: "bool \<Rightarrow> contract_criterion \<Rightarrow> contract_criterion" where
  "with_approved b (Proportion c) = Proportion (c\<lparr>cr_approved := b\<rparr>)"
| "with_approved b (Capability c) = Capability (c\<lparr>cap_approved := b\<rparr>)"
| "with_approved b (OtherKind k i a p) = OtherKind k i b p"

fun contract_criterion_ok :: "contract_criterion \<Rightarrow> bool" where
  "contract_criterion_ok (Proportion c) = criterion_ok c"
| "contract_criterion_ok (Capability c) = (criterion_id_ok (cap_id c) \<and> poc_id_ok (cap_poc_id c) \<and>
     is_sha256 (cap_a4_plan_sha256 c) \<and> 1 \<le> cap_a4_plan_version c)"
| "contract_criterion_ok (OtherKind k i a p) = (k \<noteq> ''capability_v1'' \<and> criterion_id_ok i)"

record poc_contract =
  pc_id :: string
  pc_version :: string
  pc_status :: contract_status
  pc_created_at :: py_datetime
  pc_approved_at :: "py_datetime option"
  pc_frozen_at :: "py_datetime option"
  pc_customer :: string
  pc_use_case :: string
  pc_target_system :: target_system
  pc_workload :: workload_reference
  pc_criteria :: "contract_criterion list"
  pc_owners :: "string list"
  pc_non_goals :: "string list"
  pc_evidence_retention_policy :: string
  pc_parent_version :: "string option"
  pc_confirmation_id :: "string option"
  pc_canonical_hash :: "string option"

subsection \<open>Validation\<close>

definition target_system_ok :: "target_system \<Rightarrow> bool" where
  "target_system_ok t \<longleftrightarrow> ts_provider t \<noteq> [] \<and> ts_endpoint_class t \<noteq> [] \<and> ts_model t \<noteq> []"

definition workload_ok :: "workload_reference \<Rightarrow> bool" where
  "workload_ok w \<longleftrightarrow> wl_fixture_path w \<noteq> [] \<and> is_sha256 (wl_sha256 w)"

text \<open>The field constraints of \<open>POCContract\<close> and \<open>require_unique_criterion_ids\<close>.\<close>

definition contract_fields_ok :: "poc_contract \<Rightarrow> bool" where
  "contract_fields_ok c \<longleftrightarrow> contract_id_ok (pc_id c) \<and> pc_version c \<noteq> [] \<and> pc_customer c \<noteq> [] \<and>
     pc_use_case c \<noteq> [] \<and> target_system_ok (pc_target_system c) \<and> workload_ok (pc_workload c) \<and>
     pc_criteria c \<noteq> [] \<and> list_all contract_criterion_ok (pc_criteria c) \<and> pc_owners c \<noteq> [] \<and>
     pc_evidence_retention_policy c \<noteq> [] \<and>
     (case pc_confirmation_id c of None \<Rightarrow> True | Some i \<Rightarrow> confirmation_id_ok i) \<and>
     (case pc_canonical_hash c of None \<Rightarrow> True | Some d \<Rightarrow> is_sha256 d)"

definition unique_criterion_ids :: "poc_contract \<Rightarrow> bool" where
  "unique_criterion_ids c \<longleftrightarrow> distinct (map criterion_id (pc_criteria c))"

definition lifecycle_ok :: "poc_contract \<Rightarrow> bool" where
  "lifecycle_ok c \<longleftrightarrow> first_error [
     (pc_status c \<in> {C_APPROVED, C_FROZEN} \<and> filter (\<lambda>x. \<not> criterion_approved x) (pc_criteria c) \<noteq> [], ()),
     (pc_status c = C_FROZEN \<and> pc_frozen_at c = None, ()),
     (pc_status c \<noteq> C_FROZEN \<and> pc_confirmation_id c \<noteq> None, ())] = None"

fun capability_criteria :: "contract_criterion list \<Rightarrow> capability_criterion list" where
  "capability_criteria [] = []"
| "capability_criteria (Capability c # cs) = c # capability_criteria cs"
| "capability_criteria (x # cs) = capability_criteria cs"

definition plan_binding :: "capability_criterion \<Rightarrow> string \<times> int \<times> string" where
  "plan_binding c = (cap_a4_plan_id c, cap_a4_plan_version c, cap_a4_plan_sha256 c)"

definition capability_bindings_ok :: "poc_contract \<Rightarrow> bool" where
  "capability_bindings_ok c = (let caps = capability_criteria (pc_criteria c) in
     caps = [] \<or> first_error [
       (length caps \<noteq> length (pc_criteria c), ()),
       (\<not> distinct (map cap_proposal_id caps), ()),
       (\<not> distinct (map cap_planning_item_id caps), ()),
       (length (remdups (map plan_binding caps)) \<noteq> 1, ()),
       (length (remdups (map cap_poc_id caps)) \<noteq> 1, ())] = None)"

definition contract_ok :: "poc_contract \<Rightarrow> bool" where
  "contract_ok c \<longleftrightarrow> contract_fields_ok c \<and> unique_criterion_ids c \<and> lifecycle_ok c \<and> capability_bindings_ok c"

subsection \<open>Dumped payloads\<close>

definition datetime_json :: "py_datetime \<Rightarrow> json" where
  "datetime_json d = (case d of Naive t \<Rightarrow> JArr [JInt t] | Aware t off \<Rightarrow> JArr [JInt t, JInt off])"

definition strings_json :: "string list \<Rightarrow> json" where
  "strings_json xs = JArr (map JStr xs)"

definition status_json :: "contract_status \<Rightarrow> json" where
  "status_json s = JStr (case s of C_DRAFT \<Rightarrow> ''DRAFT'' | C_IN_REVIEW \<Rightarrow> ''IN_REVIEW'' | C_APPROVED \<Rightarrow> ''APPROVED''
     | C_FROZEN \<Rightarrow> ''FROZEN'' | C_SUPERSEDED \<Rightarrow> ''SUPERSEDED'')"

definition target_json :: "target_system \<Rightarrow> json" where
  "target_json t = JObj [(''provider'', JStr (ts_provider t)), (''endpoint_class'', JStr (ts_endpoint_class t)),
     (''model'', JStr (ts_model t))]"

definition workload_json :: "workload_reference \<Rightarrow> json" where
  "workload_json w = JObj [(''fixture_path'', JStr (wl_fixture_path w)), (''sha256'', JStr (wl_sha256 w))]"

definition source_json :: "source_reference \<Rightarrow> json" where
  "source_json s = JObj [(''speaker'', JStr (src_speaker s)), (''quote'', JStr (src_quote s)),
     (''location'', JStr (src_location s))]"

definition operator_json :: "comparison_operator \<Rightarrow> json" where
  "operator_json p = JStr (case p of OP_GTE \<Rightarrow> ''gte'' | OP_LTE \<Rightarrow> ''lte'' | OP_GT \<Rightarrow> ''gt'' | OP_LT \<Rightarrow> ''lt'' | OP_EQ \<Rightarrow> ''eq'')"

definition rule_json :: "proportion_rule \<Rightarrow> json" where
  "rule_json r = JObj [(''operator'', operator_json (pr_operator r)), (''threshold'', JFloat (pr_threshold r)),
     (''minimum_samples'', JInt (pr_minimum_samples r)), (''confidence_level'', JFloat (pr_confidence_level r)),
     (''confidence_method'', JStr ''wilson_two_sided_lower_bound'')]"

fun criterion_json :: "contract_criterion \<Rightarrow> json" where
  "criterion_json (Proportion c) = JObj [
     (''id'', JStr (cr_id c)), (''title'', JStr (cr_title c)), (''must_have'', JBool (cr_must_have c)),
     (''source'', json_opt source_json (cr_source c)), (''human_added'', JBool (cr_human_added c)),
     (''normalized_claim'', JStr (cr_normalized_claim c)), (''metric'', JStr (cr_metric c)),
     (''unit'', JStr (cr_unit c)), (''aggregation'', JStr (cr_aggregation c)), (''rule'', rule_json (cr_rule c)),
     (''workload_slice'', JStr (cr_workload_slice c)), (''adapter'', JStr (cr_adapter c)),
     (''adapter_version'', JStr (cr_adapter_version c)), (''owner'', JStr (cr_owner c)),
     (''evidence_policy'', JStr (cr_evidence_policy c)), (''approved'', JBool (cr_approved c))]"
| "criterion_json (Capability c) = JObj ([
     (''criterion_type'', JStr ''capability_v1''), (''id'', JStr (cap_id c)), (''must_have'', JBool (cap_must_have c)),
     (''poc_id'', JStr (cap_poc_id c)), (''planning_item_id'', JStr (cap_planning_item_id c)),
     (''proposal_id'', JStr (cap_proposal_id c)), (''a4_plan_id'', JStr (cap_a4_plan_id c)),
     (''a4_plan_version'', JInt (cap_a4_plan_version c)), (''a4_plan_sha256'', JStr (cap_a4_plan_sha256 c)),
     (''approved'', JBool (cap_approved c))] @ cap_other_fields c)"
| "criterion_json (OtherKind k i a p) = JObj ([
     (''criterion_type'', JStr k), (''id'', JStr i), (''approved'', JBool a)] @ p)"

text \<open>The agreement fields, in the order of \<open>_CONFIRMATION_PAYLOAD_FIELDS\<close>, and all dumped fields.\<close>

definition agreement_fields :: "poc_contract \<Rightarrow> (string \<times> json) list" where
  "agreement_fields c = [
     (''id'', JStr (pc_id c)), (''version'', JStr (pc_version c)), (''customer'', JStr (pc_customer c)),
     (''use_case'', JStr (pc_use_case c)), (''target_system'', target_json (pc_target_system c)),
     (''workload'', workload_json (pc_workload c)), (''criteria'', JArr (map criterion_json (pc_criteria c))),
     (''owners'', strings_json (pc_owners c)), (''non_goals'', strings_json (pc_non_goals c)),
     (''evidence_retention_policy'', JStr (pc_evidence_retention_policy c))]"

definition canonical_contract_payload :: "poc_contract \<Rightarrow> json" where
  "canonical_contract_payload c = JObj (agreement_fields c @ [
     (''status'', status_json (pc_status c)), (''created_at'', datetime_json (pc_created_at c)),
     (''approved_at'', json_opt datetime_json (pc_approved_at c)),
     (''frozen_at'', json_opt datetime_json (pc_frozen_at c)),
     (''parent_version'', json_opt JStr (pc_parent_version c)),
     (''confirmation_id'', json_opt JStr (pc_confirmation_id c))])"

definition contract_digest :: "hasher \<Rightarrow> poc_contract \<Rightarrow> string" where
  "contract_digest h c = json_sha h [] (canonical_contract_payload c)"

definition verify_contract_digest :: "hasher \<Rightarrow> poc_contract \<Rightarrow> bool" where
  "verify_contract_digest h c \<longleftrightarrow> truthy (pc_canonical_hash c) \<and> pc_canonical_hash c = Some (contract_digest h c)"

subsection \<open>Customer confirmations\<close>

datatype confirmation_decision = CONFIRM | REQUEST_CHANGES

record contract_confirmation =
  cc_confirmation_id :: string
  cc_idempotency_key :: string
  cc_contract_id :: string
  cc_contract_version :: string
  cc_contract_fingerprint :: string
  cc_confirmer_identity :: string
  cc_decision :: confirmation_decision
  cc_agreement_acknowledged :: bool
  cc_decided_at :: py_datetime
  cc_rationale :: string

definition contract_confirmation_ok :: "contract_confirmation \<Rightarrow> bool" where
  "contract_confirmation_ok r \<longleftrightarrow> confirmation_id_ok (cc_confirmation_id r) \<and>
     1 \<le> length (cc_idempotency_key r) \<and> length (cc_idempotency_key r) \<le> 200 \<and>
     contract_id_ok (cc_contract_id r) \<and> cc_contract_version r \<noteq> [] \<and>
     is_sha256 (cc_contract_fingerprint r) \<and> cc_confirmer_identity r \<noteq> [] \<and> cc_rationale r \<noteq> []"

definition canonical_confirmation_payload :: "poc_contract \<Rightarrow> json" where
  "canonical_confirmation_payload c = JObj (agreement_fields c)"

definition FINGERPRINT_DOMAIN :: string where
  "FINGERPRINT_DOMAIN = ''exitspec-contract-confirmation-v1'' @ [CHR 0x00]"

definition OPERATION_DOMAIN :: string where
  "OPERATION_DOMAIN = ''exitspec-confirmation-operation-v1'' @ [CHR 0x00]"

definition contract_confirmation_fingerprint :: "hasher \<Rightarrow> poc_contract \<Rightarrow> string" where
  "contract_confirmation_fingerprint h c = json_sha h FINGERPRINT_DOMAIN (canonical_confirmation_payload c)"

definition confirmation_operation_id :: "hasher \<Rightarrow> string \<Rightarrow> string \<Rightarrow> string \<Rightarrow> string" where
  "confirmation_operation_id h contract_id contract_version key = ''cnf_'' @ json_sha h OPERATION_DOMAIN (JObj [
     (''contract_id'', JStr contract_id), (''contract_version'', JStr contract_version), (''idempotency_key'', JStr key)])"

datatype contract_error = UseFreezeContract | FrozenNotMutated | IllegalTransition contract_status contract_status
  | ContractInvalid | NotApproved | ConfirmationRequired | ChangesRequested | NotAcknowledged
  | OtherContract | FingerprintMismatch | ConfirmationNotAccepted | AcknowledgementRequired
  | KeyAlreadyBound | ConfirmationInvalid

definition require_affirmative_confirmation :: "hasher \<Rightarrow> poc_contract \<Rightarrow> contract_confirmation \<Rightarrow> contract_error option" where
  "require_affirmative_confirmation h c r = first_error [
     (cc_decision r \<noteq> CONFIRM, ChangesRequested),
     (\<not> cc_agreement_acknowledged r, NotAcknowledged),
     (cc_contract_id r \<noteq> pc_id c \<or> cc_contract_version r \<noteq> pc_version c, OtherContract),
     (cc_contract_fingerprint r \<noteq> contract_confirmation_fingerprint h c, FingerprintMismatch)]"

definition confirmation_matches_contract :: "hasher \<Rightarrow> poc_contract \<Rightarrow> contract_confirmation \<Rightarrow> bool" where
  "confirmation_matches_contract h c r \<longleftrightarrow> cc_decision r = CONFIRM \<and> cc_agreement_acknowledged r \<and>
     cc_contract_id r = pc_id c \<and> cc_contract_version r = pc_version c \<and>
     cc_contract_fingerprint r = contract_confirmation_fingerprint h c"

text \<open>The record a decision should produce: \<open>expected_fields\<close> with a decision time.\<close>

definition expected_confirmation ::
  "hasher \<Rightarrow> poc_contract \<Rightarrow> string \<Rightarrow> confirmation_decision \<Rightarrow> bool \<Rightarrow> string \<Rightarrow> string \<Rightarrow> py_datetime \<Rightarrow> contract_confirmation" where
  "expected_confirmation h c identity decision ack rationale key now = \<lparr>
     cc_confirmation_id = confirmation_operation_id h (pc_id c) (pc_version c) key,
     cc_idempotency_key = key, cc_contract_id = pc_id c, cc_contract_version = pc_version c,
     cc_contract_fingerprint = contract_confirmation_fingerprint h c,
     cc_confirmer_identity = identity, cc_decision = decision, cc_agreement_acknowledged = ack,
     cc_decided_at = now, cc_rationale = rationale\<rparr>"

definition record_confirmation ::
  "hasher \<Rightarrow> poc_contract \<Rightarrow> string \<Rightarrow> confirmation_decision \<Rightarrow> bool \<Rightarrow> string \<Rightarrow> string \<Rightarrow> py_datetime \<Rightarrow>
    contract_confirmation option \<Rightarrow> contract_error + contract_confirmation" where
  "record_confirmation h c identity decision ack rationale key now existing = (
     if pc_status c \<noteq> C_APPROVED then Inl ConfirmationNotAccepted
     else if decision = CONFIRM \<and> \<not> ack then Inl AcknowledgementRequired
     else (case existing of
       Some r \<Rightarrow> if r\<lparr>cc_decided_at := now\<rparr> \<noteq> expected_confirmation h c identity decision ack rationale key now
         then Inl KeyAlreadyBound else Inr r
     | None \<Rightarrow> (let r = expected_confirmation h c identity decision ack rationale key now in
         if contract_confirmation_ok r then Inr r else Inl ConfirmationInvalid)))"

subsection \<open>Lifecycle operations\<close>

fun allowed_transitions :: "contract_status \<Rightarrow> contract_status set" where
  "allowed_transitions C_DRAFT = {C_IN_REVIEW}"
| "allowed_transitions C_IN_REVIEW = {C_APPROVED}"
| "allowed_transitions C_APPROVED = {}"
| "allowed_transitions C_FROZEN = {}"
| "allowed_transitions C_SUPERSEDED = {}"

text \<open>\<open>_validated_copy\<close>: the updated payload is validated as a new contract.\<close>

definition validated :: "poc_contract \<Rightarrow> contract_error + poc_contract" where
  "validated c = (if contract_ok c then Inr c else Inl ContractInvalid)"

definition transition_contract :: "poc_contract \<Rightarrow> contract_status \<Rightarrow> py_datetime \<Rightarrow> contract_error + poc_contract" where
  "transition_contract c target now = (
     if target = C_FROZEN then Inl UseFreezeContract
     else if pc_status c = C_FROZEN \<and> target = C_SUPERSEDED then Inl FrozenNotMutated
     else if target \<notin> allowed_transitions (pc_status c) then Inl (IllegalTransition (pc_status c) target)
     else if target = C_APPROVED then validated (c\<lparr>pc_status := target, pc_approved_at := Some now\<rparr>)
     else validated (c\<lparr>pc_status := target\<rparr>))"

text \<open>The two validated copies both freezes end with: without the digest, then with it.\<close>

definition freeze_with :: "hasher \<Rightarrow> poc_contract \<Rightarrow> string option \<Rightarrow> py_datetime \<Rightarrow> contract_error + poc_contract" where
  "freeze_with h c confirmation_id now =
     (case validated (c\<lparr>pc_status := C_FROZEN, pc_frozen_at := Some now, pc_confirmation_id := confirmation_id,
        pc_canonical_hash := None\<rparr>) of
        Inl e \<Rightarrow> Inl e
      | Inr f \<Rightarrow> validated (f\<lparr>pc_canonical_hash := Some (contract_digest h f)\<rparr>))"

definition freeze_contract :: "hasher \<Rightarrow> poc_contract \<Rightarrow> py_datetime \<Rightarrow> contract_error + poc_contract" where
  "freeze_contract h c now = (if pc_status c \<noteq> C_APPROVED then Inl NotApproved else freeze_with h c None now)"

definition freeze_confirmed_contract ::
  "hasher \<Rightarrow> poc_contract \<Rightarrow> contract_confirmation option \<Rightarrow> py_datetime \<Rightarrow> contract_error + poc_contract" where
  "freeze_confirmed_contract h c confirmation now = (
     if pc_status c \<noteq> C_APPROVED then Inl NotApproved
     else (case confirmation of None \<Rightarrow> Inl ConfirmationRequired
       | Some r \<Rightarrow> (case require_affirmative_confirmation h c r of Some e \<Rightarrow> Inl e
         | None \<Rightarrow> freeze_with h c (Some (cc_confirmation_id r)) now)))"

definition revise_contract :: "poc_contract \<Rightarrow> string \<Rightarrow> string \<Rightarrow> py_datetime \<Rightarrow> contract_error + poc_contract" where
  "revise_contract c new_id new_version now = validated (c\<lparr>pc_id := new_id, pc_version := new_version,
     pc_status := C_DRAFT, pc_created_at := now, pc_approved_at := None, pc_frozen_at := None,
     pc_confirmation_id := None, pc_criteria := map (with_approved False) (pc_criteria c),
     pc_parent_version := Some (pc_id c @ ''@'' @ pc_version c), pc_canonical_hash := None\<rparr>)"

end
