(* ===== verification/Verdicts_Laws.thy ===== *)
theory Verdicts_Laws
  imports Verdicts
begin

section \<open>Laws of the verdict engine\<close>

subsection \<open>The Wilson interval\<close>

text \<open>
  The end points are the two roots of the score equation: at a true rate \<open>t\<close>, the squared
  distance from the observed proportion \<open>p\<close> against \<open>z\<close> squared times the variance of the mean.
\<close>

definition score_gap :: "real \<Rightarrow> real \<Rightarrow> real \<Rightarrow> real \<Rightarrow> real" where
  "score_gap z n p t = (p - t)\<^sup>2 - z\<^sup>2 / n * (t * (1 - t))"

definition wilson_center :: "real \<Rightarrow> real \<Rightarrow> real \<Rightarrow> real" where
  "wilson_center z n p = (p + z * z / (2 * n)) / (1 + z * z / n)"

definition wilson_margin :: "real \<Rightarrow> real \<Rightarrow> real \<Rightarrow> real" where
  "wilson_margin z n p = z * sqrt ((p * (1 - p) + z * z / (4 * n)) / n) / (1 + z * z / n)"

lemma wilson_margin_nonneg: "0 \<le> z \<Longrightarrow> 0 < n \<Longrightarrow> 0 \<le> p \<Longrightarrow> p \<le> 1 \<Longrightarrow> 0 \<le> wilson_margin z n p"
  by (simp add: wilson_margin_def)

lemma wilson_factor:
  assumes "0 < n" and "0 \<le> p" and "p \<le> 1"
  shows "(1 + z\<^sup>2 / n) * ((t - (wilson_center z n p - wilson_margin z n p)) *
    (t - (wilson_center z n p + wilson_margin z n p))) = score_gap z n p t"
proof -
  let ?d = "1 + z\<^sup>2 / n"
  have d: "?d > 0" using assms(1) by (simp add: add_pos_nonneg)
  have nz: "n * n + n * z\<^sup>2 > 0" "n + z\<^sup>2 > 0"
    using assms(1) by (auto intro!: add_pos_nonneg)
  have "0 \<le> (p * (1 - p) + z * z / (4 * n)) / n" using assms by simp
  then have m2: "(wilson_margin z n p)\<^sup>2 = z\<^sup>2 * ((p * (1 - p) + z\<^sup>2 / (4 * n)) / n) / ?d\<^sup>2"
    by (simp add: wilson_margin_def power_mult_distrib power_divide power2_eq_square [of z, symmetric])
  have c: "wilson_center z n p * ?d = p + z\<^sup>2 / (2 * n)"
    using d by (simp add: wilson_center_def power2_eq_square)
  have c2: "(wilson_center z n p)\<^sup>2 * ?d\<^sup>2 = (p + z\<^sup>2 / (2 * n))\<^sup>2"
    unfolding c [symmetric] by (simp add: power_mult_distrib)
  have m2': "(wilson_margin z n p)\<^sup>2 * ?d\<^sup>2 = z\<^sup>2 * ((p * (1 - p) + z\<^sup>2 / (4 * n)) / n)"
    using d by (simp add: m2)
  have "((wilson_center z n p)\<^sup>2 - (wilson_margin z n p)\<^sup>2) * ?d\<^sup>2 =
      (p + z\<^sup>2 / (2 * n))\<^sup>2 - z\<^sup>2 * ((p * (1 - p) + z\<^sup>2 / (4 * n)) / n)"
    by (simp only: left_diff_distrib c2 m2')
  also have "\<dots> = p\<^sup>2 * ?d" using assms(1) by (simp add: field_simps power2_eq_square)
  finally have prod: "((wilson_center z n p)\<^sup>2 - (wilson_margin z n p)\<^sup>2) * ?d = p\<^sup>2"
    using d by (simp add: power2_eq_square [of ?d] mult.assoc [symmetric])
  have "?d * ((t - (wilson_center z n p - wilson_margin z n p)) * (t - (wilson_center z n p + wilson_margin z n p))) =
      ?d * t\<^sup>2 - 2 * t * (wilson_center z n p * ?d) +
      ((wilson_center z n p)\<^sup>2 - (wilson_margin z n p)\<^sup>2) * ?d"
    by (simp add: algebra_simps power2_eq_square)
  also have "\<dots> = score_gap z n p t"
    unfolding c prod score_gap_def using assms(1) by (simp add: field_simps power2_eq_square)
  finally show ?thesis .
qed

lemma wilson_bounds:
  assumes "0 < n" and "0 \<le> p" and "p \<le> 1" and "0 \<le> z"
  shows "0 \<le> wilson_center z n p - wilson_margin z n p"
    and "wilson_center z n p - wilson_margin z n p \<le> p"
    and "p \<le> wilson_center z n p + wilson_margin z n p"
    and "wilson_center z n p + wilson_margin z n p \<le> 1"
proof -
  let ?lo = "wilson_center z n p - wilson_margin z n p" and ?hi = "wilson_center z n p + wilson_margin z n p"
  let ?d = "1 + z\<^sup>2 / n"
  have d: "?d > 0" using assms(1) by (simp add: add_pos_nonneg)
  have le: "?lo \<le> ?hi" using wilson_margin_nonneg [OF assms(4,1,2,3)] by simp
  have "?d * ((p - ?lo) * (p - ?hi)) \<le> 0"
    unfolding wilson_factor [OF assms(1-3)] using assms by (simp add: score_gap_def)
  then have "(p - ?lo) * (p - ?hi) \<le> 0" using d by (simp add: mult_le_0_iff)
  then show "?lo \<le> p" "p \<le> ?hi" using le by (auto simp: mult_le_0_iff)
  have "?d * ((0 - ?lo) * (0 - ?hi)) \<ge> 0"
    unfolding wilson_factor [OF assms(1-3)] by (simp add: score_gap_def)
  then have "(0 - ?lo) * (0 - ?hi) \<ge> 0" using d by (simp only: zero_le_mult_iff) linarith
  then have "?lo * ?hi \<ge> 0" by (simp only: diff_0 minus_mult_minus)
  moreover have "?hi > 0 \<or> ?hi = 0 \<and> ?lo \<le> 0" using \<open>p \<le> ?hi\<close> assms(2) le by linarith
  moreover have "?lo + ?hi \<ge> 0" using assms by (simp add: wilson_center_def)
  ultimately show "0 \<le> ?lo" by (auto simp: zero_le_mult_iff)
  have "?d * ((1 - ?lo) * (1 - ?hi)) \<ge> 0"
    unfolding wilson_factor [OF assms(1-3)] by (simp add: score_gap_def)
  then have "(1 - ?lo) * (1 - ?hi) \<ge> 0" using d by (simp only: zero_le_mult_iff) linarith
  moreover have "?lo + ?hi \<le> 2"
  proof -
    have "wilson_center z n p \<le> 1"
    proof -
      have "0 \<le> z * z / n" using assms by simp
      moreover have "z * z / (2 * n) = (z * z / n) / 2" by simp
      ultimately have "p + z * z / (2 * n) \<le> 1 + z * z / n" using assms(3) by linarith
      with d show ?thesis by (simp add: wilson_center_def power2_eq_square)
    qed
    then show ?thesis by simp
  qed
  ultimately show "?hi \<le> 1" using \<open>?lo \<le> p\<close> assms(3) by (auto simp: zero_le_mult_iff)
qed

lemma wilson_lower_iff:
  assumes "0 < n" and "0 \<le> p" and "p \<le> 1" and "0 < z" and "0 \<le> t" and "t < 1"
  shows "t \<le> wilson_center z n p - wilson_margin z n p \<longleftrightarrow> t \<le> p \<and> 0 \<le> score_gap z n p t"
proof -
  let ?lo = "wilson_center z n p - wilson_margin z n p" and ?hi = "wilson_center z n p + wilson_margin z n p"
  let ?d = "1 + z\<^sup>2 / n"
  have d: "?d > 0" using assms(1) by (simp add: add_pos_nonneg)
  note b = wilson_bounds [OF assms(1-3) less_imp_le [OF assms(4)]]
  have gap: "0 \<le> score_gap z n p t \<longleftrightarrow> 0 \<le> (t - ?lo) * (t - ?hi)"
    unfolding wilson_factor [OF assms(1-3), symmetric] using d by (simp add: zero_le_mult_iff)
  show ?thesis
  proof
    assume "t \<le> ?lo"
    then show "t \<le> p \<and> 0 \<le> score_gap z n p t" using b unfolding gap by (auto simp: zero_le_mult_iff)
  next
    assume t: "t \<le> p \<and> 0 \<le> score_gap z n p t"
    show "t \<le> ?lo"
    proof (rule ccontr)
      assume "\<not> t \<le> ?lo"
      with t have "?hi \<le> t" unfolding gap by (auto simp: zero_le_mult_iff)
      then have "t = p" using t b(3) by linarith
      with t have "z\<^sup>2 / n * (p * (1 - p)) \<le> 0" by (simp add: score_gap_def)
      moreover have "z\<^sup>2 / n > 0" using assms(1,4) by simp
      ultimately have "p * (1 - p) \<le> 0" by (simp only: mult_le_0_iff) linarith
      with assms(2,6) \<open>t = p\<close> have "p = 0" by (auto simp: mult_le_0_iff)
      with \<open>t = p\<close> b(1) \<open>\<not> t \<le> ?lo\<close> show False by simp
    qed
  qed
qed

lemma wilson_lower_lt_one:
  assumes "0 < n" and "0 \<le> p" and "p \<le> 1" and "0 < z"
  shows "wilson_center z n p - wilson_margin z n p < 1"
proof (rule ccontr)
  let ?lo = "wilson_center z n p - wilson_margin z n p" and ?hi = "wilson_center z n p + wilson_margin z n p"
  assume "\<not> ?lo < 1"
  then have "wilson_margin z n p \<le> 0" "p = 1"
    using wilson_bounds [OF assms(1-3) less_imp_le [OF assms(4)]] assms(3) by linarith+
  have "0 < z * z / (4 * n) / n" using assms(1,4) by simp
  then have "0 < wilson_margin z n 1" using assms(1,4) by (simp add: wilson_margin_def add_pos_nonneg)
  with \<open>wilson_margin z n p \<le> 0\<close> \<open>p = 1\<close> show False by simp
qed

subsection \<open>Evaluating one criterion\<close>

text \<open>What \<open>statistics.NormalDist\<close> documents of the quantile function, as far as it is used.\<close>

definition positive_quantiles :: "(real \<Rightarrow> real) \<Rightarrow> bool" where
  "positive_quantiles inv_cdf \<longleftrightarrow> (\<forall>q. 1 / 2 < q \<longrightarrow> q < 1 \<longrightarrow> 0 < inv_cdf q)"

definition rate_of :: "measurement \<Rightarrow> real" where
  "rate_of m = real_of_int (pm_success_count m) / real_of_int (pm_sample_count m)"

definition z_of :: "(real \<Rightarrow> real) \<Rightarrow> criterion \<Rightarrow> real" where
  "z_of inv_cdf c = inv_cdf (1 / 2 + pr_confidence_level (cr_rule c) / 2)"

text \<open>Whether the measurement may be judged at all: nothing blocked it, it has evidence, and enough of it.\<close>

definition judgeable :: "criterion \<Rightarrow> measurement \<Rightarrow> bool" where
  "judgeable c m \<longleftrightarrow> \<not> truthy (pm_external_blocked_reason m) \<and> \<not> truthy (pm_internal_error m) \<and>
     pm_evidence_refs m \<noteq> [] \<and> pm_metadata_complete m \<and> pm_workload_hash_matches m \<and>
     pm_artifact_integrity_valid m \<and> pr_minimum_samples (cr_rule c) \<le> pm_sample_count m"

definition lower_of :: "(real \<Rightarrow> real) \<Rightarrow> criterion \<Rightarrow> measurement \<Rightarrow> real" where
  "lower_of inv_cdf c m = wilson_center (z_of inv_cdf c) (real_of_int (pm_sample_count m)) (rate_of m) -
     wilson_margin (z_of inv_cdf c) (real_of_int (pm_sample_count m)) (rate_of m)"

text \<open>The verdict an approved criterion should get, as a table.\<close>

definition expected_status :: "(real \<Rightarrow> real) \<Rightarrow> criterion \<Rightarrow> measurement \<Rightarrow> verdict_status" where
  "expected_status inv_cdf c m =
     (if truthy (pm_external_blocked_reason m) then V_BLOCKED
      else if \<not> judgeable c m then V_NOT_PROVEN
      else if rate_of m < pr_threshold (cr_rule c) then V_FAIL
      else if lower_of inv_cdf c m \<ge> pr_threshold (cr_rule c) then V_PASS
      else V_NOT_PROVEN)"

definition approved_measurement :: "(real \<Rightarrow> real) \<Rightarrow> criterion \<Rightarrow> measurement \<Rightarrow> bool" where
  "approved_measurement inv_cdf c m \<longleftrightarrow> criterion_ok c \<and> measurement_ok m \<and>
     pm_criterion_id m = cr_id c \<and> positive_quantiles inv_cdf"

lemma rule_facts:
  assumes "criterion_ok c"
  shows "0 \<le> pr_threshold (cr_rule c)" "pr_threshold (cr_rule c) \<le> 1" "0 < pr_minimum_samples (cr_rule c)"
  "0 < pr_confidence_level (cr_rule c)" "pr_confidence_level (cr_rule c) < 1"
  using assms by (simp_all add: criterion_ok_def proportion_rule_ok_def)

lemma z_pos: "positive_quantiles inv_cdf \<Longrightarrow> criterion_ok c \<Longrightarrow> 0 < z_of inv_cdf c"
  using rule_facts [of c] by (simp add: positive_quantiles_def z_of_def)

lemma rate_unit: "measurement_ok m \<Longrightarrow> 0 < pm_sample_count m \<Longrightarrow> 0 \<le> rate_of m \<and> rate_of m \<le> 1"
  by (simp add: measurement_ok_def rate_of_def)

lemma lower_bound:
  assumes am: "approved_measurement inv_cdf c m" and "0 < pm_sample_count m"
  shows "wilson_lower_bound inv_cdf (pm_success_count m) (pm_sample_count m) (pr_confidence_level (cr_rule c)) =
    Inr (lower_of inv_cdf c m)"
  using assms(2) rule_facts [of c] rate_unit [of m] am
    wilson_bounds [OF _ _ _ less_imp_le [OF z_pos], of "real_of_int (pm_sample_count m)" "rate_of m" inv_cdf c]
  by (simp add: approved_measurement_def) (simp add: wilson_lower_bound_def wilson_interval_def Let_def measurement_ok_def lower_of_def
      wilson_center_def wilson_margin_def z_of_def rate_of_def)

lemma lower_unit: "approved_measurement inv_cdf c m \<Longrightarrow> 0 < pm_sample_count m \<Longrightarrow> 0 \<le> lower_of inv_cdf c m \<and> lower_of inv_cdf c m \<le> rate_of m"
  using wilson_bounds [OF _ _ _ less_imp_le [OF z_pos], of "real_of_int (pm_sample_count m)" "rate_of m" inv_cdf c] rate_unit [of m]
  by (simp add: lower_of_def approved_measurement_def)

lemma plain_ok: "approved_measurement inv_cdf c m \<Longrightarrow> reason \<noteq> ReasonText [] \<Longrightarrow>
    build_verdict (plain_verdict c m status reason limits) = Inr (plain_verdict c m status reason limits)"
  using rule_facts [of c]
  by (simp add: approved_measurement_def build_verdict_def criterion_verdict_ok_def plain_verdict_def criterion_ok_def criterion_id_ok_def
      unit_interval_def measurement_ok_def CALCULATION_VERSION_def split: list.splits)

lemma enriched_ok:
  assumes am: "approved_measurement inv_cdf c m" and "reason \<noteq> ReasonText []" and "0 < pm_sample_count m"
  shows "build_verdict (enriched_verdict c m (rate_of m) (lower_of inv_cdf c m) status reason limits) =
    Inr (enriched_verdict c m (rate_of m) (lower_of inv_cdf c m) status reason limits)"
  using plain_ok [OF am assms(2), of status limits] rate_unit [of m] lower_unit [OF am] assms(3) am
  by (simp add: approved_measurement_def build_verdict_def criterion_verdict_ok_def enriched_verdict_def plain_verdict_def
      unit_interval_def split: if_splits)

lemma evaluate_status:
  fixes c :: criterion
  assumes am: "approved_measurement inv_cdf c m"
  obtains v where "evaluate_proportion_criterion inv_cdf c m = Inr v"
    and "cv_verdict v = expected_status inv_cdf c m" and "criterion_verdict_ok v"
    and "cv_criterion_id v = cr_id c" and "cv_evidence_refs v = pm_evidence_refs m"
proof -
  have rule_facts: "0 < pr_minimum_samples (cr_rule c)" and same_id: "pm_criterion_id m = cr_id c"
    and measurement: "measurement_ok m" using am rule_facts [of c] by (simp_all add: approved_measurement_def)
  have built: "\<exists>v. build_verdict w = Inr v \<and> cv_verdict v = s \<and> criterion_verdict_ok v \<and>
      cv_criterion_id v = cr_id c \<and> cv_evidence_refs v = pm_evidence_refs m"
    if "build_verdict w = Inr w" "cv_verdict w = s" "cv_criterion_id w = cr_id c" "cv_evidence_refs w = pm_evidence_refs m" for w s
    using that by (auto simp: build_verdict_def split: if_splits)
  have plain: "\<exists>v. build_verdict (plain_verdict c m s reason limits) = Inr v \<and> cv_verdict v = s \<and> criterion_verdict_ok v \<and>
      cv_criterion_id v = cr_id c \<and> cv_evidence_refs v = pm_evidence_refs m"
    if "reason \<noteq> ReasonText []" for s reason limits
    by (rule built [OF plain_ok [OF am that]]) (simp_all add: plain_verdict_def)
  have enriched: "\<exists>v. build_verdict (enriched_verdict c m (rate_of m) (lower_of inv_cdf c m) s reason limits) = Inr v \<and>
      cv_verdict v = s \<and> criterion_verdict_ok v \<and> cv_criterion_id v = cr_id c \<and> cv_evidence_refs v = pm_evidence_refs m"
    if "reason \<noteq> ReasonText []" "0 < pm_sample_count m" for s reason limits
    by (rule built [OF enriched_ok [OF am that]]) (simp_all add: enriched_verdict_def plain_verdict_def)
  have reasons: "invalid_reasons m \<noteq> [] \<longleftrightarrow> \<not> (pm_metadata_complete m \<and> pm_workload_hash_matches m \<and> pm_artifact_integrity_valid m)"
    by (simp add: invalid_reasons_def)
  have blocked: "truthy t \<Longrightarrow> ReasonText (the t) \<noteq> ReasonText []" for t by (auto simp: truthy_def)
  have "\<exists>v. evaluate_proportion_criterion inv_cdf c m = Inr v \<and> cv_verdict v = expected_status inv_cdf c m \<and>
      criterion_verdict_ok v \<and> cv_criterion_id v = cr_id c \<and> cv_evidence_refs v = pm_evidence_refs m"
  proof (cases "judgeable c m")
    case True
    then have "0 < pm_sample_count m" using rule_facts by (simp add: judgeable_def)
    note pos = this
    note enriched' = enriched [OF _ pos]
    have "evaluate_proportion_criterion inv_cdf c m = (let rate = rate_of m; lower = lower_of inv_cdf c m in
       if rate < pr_threshold (cr_rule c) then
         build_verdict (enriched_verdict c m rate lower V_FAIL (ReasonBelow rate (pr_threshold (cr_rule c))) [])
       else if lower \<ge> pr_threshold (cr_rule c) then
         build_verdict (enriched_verdict c m rate lower V_PASS
           (ReasonMeets rate (pr_confidence_level (cr_rule c)) lower (pr_threshold (cr_rule c)))
           [''This establishes the approved fixture criterion, not universal production quality.''])
       else build_verdict (enriched_verdict c m rate lower V_NOT_PROVEN
           (ReasonInconclusive rate (pr_confidence_level (cr_rule c)) lower (pr_threshold (cr_rule c)))
           [''The result is statistically inconclusive under the approved rule.'']))"
      using True pos lower_bound [OF am pos] same_id reasons
      by (simp add: evaluate_proportion_criterion_def judgeable_def Let_def rate_of_def)
    moreover have "\<not> truthy (pm_external_blocked_reason m)" using True by (simp add: judgeable_def)
    ultimately show ?thesis
      using True by (simp add: expected_status_def Let_def enriched')
  next
    case False
    show ?thesis
    proof (cases "truthy (pm_external_blocked_reason m)")
      case True
      with same_id blocked [OF True] show ?thesis
        by (simp add: evaluate_proportion_criterion_def expected_status_def plain)
    next
      case open_run: False
      note simps = evaluate_proportion_criterion_def Let_def same_id open_run
      have "0 \<le> pm_sample_count m" using measurement by (simp add: measurement_ok_def)
      with False open_run rule_facts reasons consider "truthy (pm_internal_error m)"
        | "\<not> truthy (pm_internal_error m)" "0 < pm_sample_count m \<and> pm_evidence_refs m = []"
        | "\<not> truthy (pm_internal_error m)" "\<not> (0 < pm_sample_count m \<and> pm_evidence_refs m = [])" "invalid_reasons m \<noteq> []"
        | "\<not> truthy (pm_internal_error m)" "\<not> (0 < pm_sample_count m \<and> pm_evidence_refs m = [])" "invalid_reasons m = []"
            "pm_sample_count m < pr_minimum_samples (cr_rule c)"
        unfolding judgeable_def by force
      then have "\<exists>reason limits. reason \<noteq> ReasonText [] \<and>
        evaluate_proportion_criterion inv_cdf c m = build_verdict (plain_verdict c m V_NOT_PROVEN reason limits)"
        by cases (simp only: simps simp_thms if_True if_False, blast)+
      then obtain reason limits where "reason \<noteq> ReasonText []"
        and "evaluate_proportion_criterion inv_cdf c m = build_verdict (plain_verdict c m V_NOT_PROVEN reason limits)"
        by blast
      with plain [of reason V_NOT_PROVEN limits] False open_run show ?thesis by (simp add: expected_status_def)
    qed
  qed
  with that show thesis by blast
qed

subsection \<open>Properties of the verdict\<close>

text \<open>
  Every valid measurement of a valid criterion with its identifier gets a verdict, never an
  exception; the verdict satisfies its model's field constraints, carries the criterion and the
  evidence of the measurement, and its status is the one of the decision table.
\<close>

theorem evaluate_total:
  assumes "criterion_ok c" and "measurement_ok m" and "pm_criterion_id m = cr_id c" and "positive_quantiles inv_cdf"
  shows "\<exists>v. evaluate_proportion_criterion inv_cdf c m = Inr v \<and> criterion_verdict_ok v \<and>
    cv_verdict v = expected_status inv_cdf c m \<and> cv_criterion_id v = cr_id c \<and>
    cv_evidence_refs v = pm_evidence_refs m"
proof -
  have "approved_measurement inv_cdf c m" using assms by (simp add: approved_measurement_def)
  then show ?thesis by (rule evaluate_status) blast
qed

text \<open>A fixture: two-thirds confidence whose quantile is 2, sixteen samples, all or most of them right.\<close>

definition demo_rule :: "real \<Rightarrow> proportion_rule" where
  "demo_rule t = \<lparr>pr_operator = OP_GTE, pr_threshold = t, pr_minimum_samples = 10, pr_confidence_level = 2 / 3\<rparr>"

definition demo_criterion :: "real \<Rightarrow> criterion" where
  "demo_criterion t = \<lparr>cr_id = ''TOOL-1'', cr_title = ''t'', cr_must_have = True, cr_source = None,
     cr_human_added = True, cr_normalized_claim = ''c'', cr_metric = ''exact_tool_selection_rate'',
     cr_unit = ''u'', cr_aggregation = ''a'', cr_rule = demo_rule t, cr_workload_slice = ''w'',
     cr_adapter = ''a'', cr_adapter_version = ''1'', cr_owner = ''o'', cr_evidence_policy = ''e'', cr_approved = True\<rparr>"

definition demo_measurement :: "int \<Rightarrow> measurement" where
  "demo_measurement s = \<lparr>pm_criterion_id = ''TOOL-1'', pm_sample_count = 16, pm_success_count = s,
     pm_evidence_refs = [''e1''], pm_external_blocked_reason = None, pm_internal_error = None,
     pm_metadata_complete = True, pm_workload_hash_matches = True, pm_artifact_integrity_valid = True\<rparr>"

lemma demo_criterion_ok: "0 \<le> t \<Longrightarrow> t \<le> 1 \<Longrightarrow> criterion_ok (demo_criterion t)"
  by (simp add: criterion_ok_def demo_criterion_def criterion_id_ok_def is_upper_def is_digit_def
      demo_rule_def proportion_rule_ok_def)

lemma demo_measurement_ok: "0 \<le> s \<Longrightarrow> s \<le> 16 \<Longrightarrow> measurement_ok (demo_measurement s)"
  by (simp add: measurement_ok_def demo_measurement_def)

lemma demo_same_id: "pm_criterion_id (demo_measurement s) = cr_id (demo_criterion t)"
  by (simp add: demo_measurement_def demo_criterion_def)

lemma demo_quantiles: "positive_quantiles (\<lambda>q. 2)"
  by (simp add: positive_quantiles_def)

lemma demo_judgeable: "judgeable (demo_criterion t) (demo_measurement s)"
  by (simp add: judgeable_def demo_criterion_def demo_measurement_def demo_rule_def truthy_def)

theorem evaluate_total_witness:
  "\<exists>v. evaluate_proportion_criterion (\<lambda>q. 2) (demo_criterion (1 / 2)) (demo_measurement 4) = Inr v \<and>
     cv_verdict v = V_FAIL"
  using evaluate_total [OF demo_criterion_ok demo_measurement_ok demo_same_id demo_quantiles, of "1 / 2" 4] demo_judgeable [of "1 / 2" 4]
  by (auto simp: expected_status_def rate_of_def demo_measurement_def demo_criterion_def demo_rule_def truthy_def)

text \<open>What the two branches behind a PASS amount to.\<close>

lemma pass_status_iff:
  assumes "approved_measurement inv_cdf c m"
  shows "expected_status inv_cdf c m = V_PASS \<longleftrightarrow> judgeable c m \<and> pr_threshold (cr_rule c) < 1 \<and>
    pr_threshold (cr_rule c) \<le> rate_of m \<and>
    0 \<le> score_gap (z_of inv_cdf c) (real_of_int (pm_sample_count m)) (rate_of m) (pr_threshold (cr_rule c))"
proof (cases "judgeable c m")
  case True
  have c: "criterion_ok c" and m: "measurement_ok m" and z: "0 < z_of inv_cdf c"
    using assms z_pos by (simp_all add: approved_measurement_def)
  have n: "0 < pm_sample_count m" using True rule_facts(3) [OF c] by (simp add: judgeable_def)
  then have rate: "0 \<le> rate_of m" "rate_of m \<le> 1" using rate_unit [OF m] by simp_all
  have n': "0 < real_of_int (pm_sample_count m)" using n by simp
  note iff = wilson_lower_iff [OF n' rate z rule_facts(1) [OF c]]
  note lt = wilson_lower_lt_one [OF n' rate z]
  have "expected_status inv_cdf c m = V_PASS \<longleftrightarrow> pr_threshold (cr_rule c) \<le> rate_of m \<and> pr_threshold (cr_rule c) \<le> lower_of inv_cdf c m"
    using True by (auto simp: expected_status_def judgeable_def)
  also have "\<dots> \<longleftrightarrow> pr_threshold (cr_rule c) < 1 \<and> pr_threshold (cr_rule c) \<le> rate_of m \<and>
    0 \<le> score_gap (z_of inv_cdf c) (real_of_int (pm_sample_count m)) (rate_of m) (pr_threshold (cr_rule c))"
  proof (cases "pr_threshold (cr_rule c) < 1")
    case True
    then show ?thesis using iff by (auto simp: lower_of_def)
  next
    case False
    then show ?thesis using lt by (auto simp: lower_of_def)
  qed
  finally show ?thesis using True by blast
qed (auto simp: expected_status_def judgeable_def)

lemma evaluate_pass_status:
  assumes "approved_measurement inv_cdf c m"
  shows "(\<exists>v. evaluate_proportion_criterion inv_cdf c m = Inr v \<and> cv_verdict v = s) \<longleftrightarrow> expected_status inv_cdf c m = s"
  by (rule evaluate_status [OF assms]) auto

text \<open>
  C1. A criterion passes exactly when nothing blocked or broke the measurement, its evidence is
  there, bound and large enough, the observed rate reaches the threshold, and the two-sided score
  test rejects the threshold itself as the true rate; a threshold of one can never be passed.
\<close>
theorem evaluate_pass_iff:
  assumes "criterion_ok c" and "measurement_ok m" and "pm_criterion_id m = cr_id c" and "positive_quantiles inv_cdf"
  shows "(\<exists>v. evaluate_proportion_criterion inv_cdf c m = Inr v \<and> cv_verdict v = V_PASS) \<longleftrightarrow>
    judgeable c m \<and> pr_threshold (cr_rule c) < 1 \<and> pr_threshold (cr_rule c) \<le> rate_of m \<and>
    0 \<le> score_gap (z_of inv_cdf c) (real_of_int (pm_sample_count m)) (rate_of m) (pr_threshold (cr_rule c))"
proof -
  have "approved_measurement inv_cdf c m" using assms by (simp add: approved_measurement_def)
  then show ?thesis by (simp only: evaluate_pass_status pass_status_iff)
qed

theorem evaluate_pass_iff_witness:
  "\<exists>v. evaluate_proportion_criterion (\<lambda>q. 2) (demo_criterion (1 / 2)) (demo_measurement 15) = Inr v \<and>
     cv_verdict v = V_PASS"
  by (subst evaluate_pass_iff [OF demo_criterion_ok demo_measurement_ok demo_same_id demo_quantiles])
     (simp_all add: demo_judgeable, simp_all add: demo_criterion_def demo_rule_def rate_of_def
        demo_measurement_def score_gap_def z_of_def power2_eq_square)

text \<open>
  More successes never cost a PASS: if a measurement passes, the same measurement with a
  larger success count passes too.
\<close>
theorem evaluate_pass_monotone:
  assumes "criterion_ok c" and "measurement_ok m" and "pm_criterion_id m = cr_id c" and "positive_quantiles inv_cdf"
    and "evaluate_proportion_criterion inv_cdf c m = Inr v" and "cv_verdict v = V_PASS"
    and "pm_success_count m \<le> s" and "s \<le> pm_sample_count m"
  shows "\<exists>v'. evaluate_proportion_criterion inv_cdf c (m\<lparr>pm_success_count := s\<rparr>) = Inr v' \<and> cv_verdict v' = V_PASS"
proof -
  let ?m = "m\<lparr>pm_success_count := s\<rparr>" and ?t = "pr_threshold (cr_rule c)"
  have am: "approved_measurement inv_cdf c m" and am': "approved_measurement inv_cdf c ?m"
    using assms by (auto simp: approved_measurement_def measurement_ok_def)
  have "expected_status inv_cdf c m = V_PASS" using evaluate_pass_status [OF am] assms(5,6) by blast
  then have pass: "judgeable c m" "?t < 1" "?t \<le> rate_of m"
      "0 \<le> score_gap (z_of inv_cdf c) (real_of_int (pm_sample_count m)) (rate_of m) ?t"
    by (simp_all add: pass_status_iff [OF am])
  have "0 < pm_sample_count m" using pass(1) rule_facts(3) [OF assms(1)] by (simp add: judgeable_def)
  then have rate: "rate_of m \<le> rate_of ?m" using assms(7) by (simp add: rate_of_def divide_right_mono)
  then have "(rate_of m - ?t)\<^sup>2 \<le> (rate_of ?m - ?t)\<^sup>2" using pass(3) by (intro power_mono) auto
  then have "expected_status inv_cdf c ?m = V_PASS"
    using pass rate order_trans [OF _ \<open>(rate_of m - ?t)\<^sup>2 \<le> (rate_of ?m - ?t)\<^sup>2\<close>]
    unfolding pass_status_iff [OF am'] score_gap_def by (simp add: judgeable_def)
  then show ?thesis using evaluate_pass_status [OF am'] by blast
qed

theorem evaluate_pass_monotone_witness:
  "\<exists>v. evaluate_proportion_criterion (\<lambda>q. 2) (demo_criterion (1 / 2)) (demo_measurement 16) = Inr v \<and> cv_verdict v = V_PASS"
proof -
  have "approved_measurement (\<lambda>q. 2) (demo_criterion (1 / 2)) (demo_measurement 15)"
    using demo_criterion_ok [of "1 / 2"] demo_measurement_ok [of 15] demo_same_id [of 15 "1 / 2"] demo_quantiles
    by (simp add: approved_measurement_def)
  then have "\<exists>v. evaluate_proportion_criterion (\<lambda>q. 2) (demo_criterion (1 / 2)) (demo_measurement 15) = Inr v \<and> cv_verdict v = V_PASS"
    by (subst evaluate_pass_status, assumption, subst pass_status_iff, assumption)
       (simp_all add: demo_judgeable, simp_all add: demo_criterion_def demo_rule_def rate_of_def
        demo_measurement_def score_gap_def z_of_def power2_eq_square)
  then obtain v where v: "evaluate_proportion_criterion (\<lambda>q. 2) (demo_criterion (1 / 2)) (demo_measurement 15) = Inr v"
    "cv_verdict v = V_PASS" by blast
  have "demo_measurement 16 = (demo_measurement 15)\<lparr>pm_success_count := 16\<rparr>" by (simp add: demo_measurement_def)
  with evaluate_pass_monotone [OF demo_criterion_ok demo_measurement_ok demo_same_id demo_quantiles v, of 16]
  show ?thesis by (simp add: demo_measurement_def)
qed

subsection \<open>Properties of the aggregate\<close>

text \<open>The verdict a criterion ends with: the last one recorded for it.\<close>

definition last_verdict :: "criterion_verdict list \<Rightarrow> string \<Rightarrow> criterion_verdict option" where
  "last_verdict vs i = find (\<lambda>v. cv_criterion_id v = i) (rev vs)"

lemma verdict_by_criterion_snoc:
  "verdict_by_criterion (vs @ [v]) = AList.update (cv_criterion_id v) v (verdict_by_criterion vs)"
  by (simp add: verdict_by_criterion_def)

lemma verdict_by_criterion_lookup: "map_of (verdict_by_criterion vs) i = last_verdict vs i"
proof (induction vs rule: rev_induct)
  case Nil
  then show ?case by (simp add: verdict_by_criterion_def last_verdict_def)
next
  case (snoc v vs)
  then show ?case by (auto simp: verdict_by_criterion_snoc last_verdict_def)
qed

lemma find_SomeD: "find P xs = Some x \<Longrightarrow> P x \<and> x \<in> set xs"
  by (metis find_Some_iff nth_mem)

lemma last_verdictD: "last_verdict vs i = Some v \<Longrightarrow> v \<in> set vs \<and> cv_criterion_id v = i"
  by (auto simp: last_verdict_def dest: find_SomeD)

definition has_status :: "criterion_verdict list \<Rightarrow> verdict_status \<Rightarrow> string \<Rightarrow> bool" where
  "has_status vs s i \<longleftrightarrow> map_option cv_verdict (last_verdict vs i) = Some s"

lemma has_status_exhaust:
  "last_verdict vs i = None \<or> has_status vs V_FAIL i \<or> has_status vs V_BLOCKED i \<or> has_status vs V_NOT_PROVEN i \<or> has_status vs V_PASS i"
  by (cases "last_verdict vs i") (auto simp: has_status_def intro: verdict_status.exhaust)

lemma has_status_unique: "has_status vs s i \<Longrightarrow> has_status vs s' i \<Longrightarrow> s = s'"
  by (auto simp: has_status_def)

lemma aggregate_statuses:
  assumes "\<forall>i \<in> set ids. last_verdict vs i \<noteq> None"
  shows "s \<in> set (map (\<lambda>i. cv_verdict (the (map_of (verdict_by_criterion vs) i))) ids) \<longleftrightarrow> (\<exists>i \<in> set ids. has_status vs s i)"
proof -
  have "s = cv_verdict (the (map_of (verdict_by_criterion vs) i)) \<longleftrightarrow> has_status vs s i" if "i \<in> set ids" for i
    using assms that by (auto simp: verdict_by_criterion_lookup has_status_def)
  then show ?thesis by (auto simp only: set_map image_iff)
qed

lemma aggregate_pass_iff:
  "ov_verdict (aggregate_overall_verdict cs vs) = V_PASS \<longleftrightarrow> (\<forall>i \<in> set (must_have_ids cs). has_status vs V_PASS i)"
  and aggregate_fail_iff:
  "ov_verdict (aggregate_overall_verdict cs vs) = V_FAIL \<longleftrightarrow>
     (\<forall>i \<in> set (must_have_ids cs). last_verdict vs i \<noteq> None) \<and> (\<exists>i \<in> set (must_have_ids cs). has_status vs V_FAIL i)"
  and aggregate_blocked_iff:
  "ov_verdict (aggregate_overall_verdict cs vs) = V_BLOCKED \<longleftrightarrow>
     (\<forall>i \<in> set (must_have_ids cs). last_verdict vs i \<noteq> None \<and> \<not> has_status vs V_FAIL i) \<and>
     (\<exists>i \<in> set (must_have_ids cs). has_status vs V_BLOCKED i)"
proof -
  let ?ids = "must_have_ids cs"
  have missing: "filter (\<lambda>i. map_of (verdict_by_criterion vs) i = None) ?ids \<noteq> [] \<longleftrightarrow> (\<exists>i \<in> set ?ids. last_verdict vs i = None)"
    by (auto simp: verdict_by_criterion_lookup filter_empty_conv)
  have absent: "ov_verdict (aggregate_overall_verdict cs vs) = V_NOT_PROVEN" if "\<exists>i \<in> set ?ids. last_verdict vs i = None"
    using that unfolding missing [symmetric] by (simp add: aggregate_overall_verdict_def Let_def)
  have present: "ov_verdict (aggregate_overall_verdict cs vs) =
      (if \<exists>i \<in> set ?ids. has_status vs V_FAIL i then V_FAIL
       else if \<exists>i \<in> set ?ids. has_status vs V_BLOCKED i then V_BLOCKED
       else if \<exists>i \<in> set ?ids. has_status vs V_NOT_PROVEN i then V_NOT_PROVEN else V_PASS)"
    if present: "\<forall>i \<in> set ?ids. last_verdict vs i \<noteq> None"
  proof -
    from present missing have "filter (\<lambda>i. map_of (verdict_by_criterion vs) i = None) ?ids = []" by auto
    then show ?thesis
      unfolding aggregate_overall_verdict_def Let_def aggregate_statuses [OF present] by simp
  qed
  have none: "last_verdict vs i = None \<Longrightarrow> \<not> has_status vs s i" for i s by (simp add: has_status_def)
  have unique: "has_status vs s i \<Longrightarrow> has_status vs s' i \<Longrightarrow> s = s'" for s s' i by (rule has_status_unique)
  have not_pass: "has_status vs V_PASS i \<Longrightarrow> \<not> has_status vs V_FAIL i \<and> \<not> has_status vs V_BLOCKED i \<and> \<not> has_status vs V_NOT_PROVEN i" for i
    using unique by blast
  note any = has_status_exhaust [of vs]
  show "ov_verdict (aggregate_overall_verdict cs vs) = V_PASS \<longleftrightarrow> (\<forall>i \<in> set ?ids. has_status vs V_PASS i)"
  proof (cases "\<exists>i \<in> set ?ids. last_verdict vs i = None")
    case True
    then show ?thesis using absent [OF True] none by (simp, blast)
  next
    case False
    then show ?thesis using present any not_pass by (simp, blast)
  qed
  show "ov_verdict (aggregate_overall_verdict cs vs) = V_FAIL \<longleftrightarrow>
     (\<forall>i \<in> set ?ids. last_verdict vs i \<noteq> None) \<and> (\<exists>i \<in> set ?ids. has_status vs V_FAIL i)"
  proof (cases "\<exists>i \<in> set ?ids. last_verdict vs i = None")
    case True
    then show ?thesis using absent [OF True] by auto
  next
    case False
    then show ?thesis using present by simp
  qed
  show "ov_verdict (aggregate_overall_verdict cs vs) = V_BLOCKED \<longleftrightarrow>
     (\<forall>i \<in> set ?ids. last_verdict vs i \<noteq> None \<and> \<not> has_status vs V_FAIL i) \<and> (\<exists>i \<in> set ?ids. has_status vs V_BLOCKED i)"
  proof (cases "\<exists>i \<in> set ?ids. last_verdict vs i = None")
    case True
    then show ?thesis using absent [OF True] by auto
  next
    case False
    then show ?thesis using present by simp
  qed
qed

text \<open>
  The overall verdict is non-compensatory, with an explicit precedence over the last verdict
  recorded for each must-have criterion: it passes exactly when all of them passed; it fails
  exactly when all are there and one failed; it is blocked exactly when all are there, none failed
  and one was blocked; anything else is not proven. Optional criteria have no influence.
\<close>
theorem aggregate_precedence:
  "ov_verdict (aggregate_overall_verdict cs vs) =
    (if \<forall>i \<in> set (must_have_ids cs). has_status vs V_PASS i then V_PASS
     else if (\<forall>i \<in> set (must_have_ids cs). last_verdict vs i \<noteq> None) \<and> (\<exists>i \<in> set (must_have_ids cs). has_status vs V_FAIL i) then V_FAIL
     else if (\<forall>i \<in> set (must_have_ids cs). last_verdict vs i \<noteq> None \<and> \<not> has_status vs V_FAIL i) \<and>
        (\<exists>i \<in> set (must_have_ids cs). has_status vs V_BLOCKED i) then V_BLOCKED
     else V_NOT_PROVEN)"
  unfolding aggregate_pass_iff [symmetric] aggregate_fail_iff [symmetric] aggregate_blocked_iff [symmetric]
  by (cases "ov_verdict (aggregate_overall_verdict cs vs)") simp_all

definition demo_verdict :: "string \<Rightarrow> verdict_status \<Rightarrow> criterion_verdict" where
  "demo_verdict i s = \<lparr>cv_criterion_id = i, cv_verdict = s, cv_observed_rate = None, cv_threshold = 1 / 2,
     cv_sample_count = 16, cv_confidence_lower_bound = None, cv_evidence_refs = [''e1''],
     cv_calculation_version = CALCULATION_VERSION, cv_reason = ReasonText ''r'', cv_limitations = []\<rparr>"

theorem aggregate_precedence_witness:
  "ov_verdict (aggregate_overall_verdict [demo_criterion (1 / 2)] [demo_verdict ''TOOL-1'' V_PASS, demo_verdict ''TOOL-1'' V_FAIL]) = V_FAIL"
  unfolding aggregate_precedence
  by (simp add: must_have_ids_def demo_criterion_def has_status_def last_verdict_def demo_verdict_def)

text \<open>
  C2. An overall PASS is earned: when the verdicts were computed by the engine from valid
  measurements of the contract's criteria, every must-have criterion has a measurement with its
  evidence, enough samples, a rate at or above its threshold and a score test that rejects it.
\<close>
theorem overall_pass_sound:
  assumes "\<forall>c \<in> set cs. criterion_ok c" and "distinct (map cr_id cs)" and "positive_quantiles inv_cdf"
    and "\<forall>v \<in> set vs. \<exists>c \<in> set cs. \<exists>m. measurement_ok m \<and> evaluate_proportion_criterion inv_cdf c m = Inr v"
    and "ov_verdict (aggregate_overall_verdict cs vs) = V_PASS" and "c \<in> set cs" and "cr_must_have c"
  shows "\<exists>m. measurement_ok m \<and> pm_criterion_id m = cr_id c \<and> judgeable c m \<and>
    pr_threshold (cr_rule c) \<le> rate_of m \<and>
    0 \<le> score_gap (z_of inv_cdf c) (real_of_int (pm_sample_count m)) (rate_of m) (pr_threshold (cr_rule c))"
proof -
  have "cr_id c \<in> set (must_have_ids cs)" using assms(6,7) by (auto simp: must_have_ids_def)
  then have "has_status vs V_PASS (cr_id c)" using assms(5) by (simp add: aggregate_pass_iff)
  then obtain v where v: "last_verdict vs (cr_id c) = Some v" "cv_verdict v = V_PASS" by (auto simp: has_status_def)
  then obtain c' m where c': "c' \<in> set cs" and m: "measurement_ok m" and run: "evaluate_proportion_criterion inv_cdf c' m = Inr v"
    using assms(4) last_verdictD [OF v(1)] by blast
  have id: "pm_criterion_id m = cr_id c'" using run by (auto simp: evaluate_proportion_criterion_def Let_def split: if_splits)
  have am: "approved_measurement inv_cdf c' m" using assms(1,3) c' m id by (simp add: approved_measurement_def)
  from evaluate_status [OF am] run have "cv_criterion_id v = cr_id c'" by (metis sum.inject(2))
  then have "c' = c" using assms(2,6) c' last_verdictD [OF v(1)] by (metis eq_key_imp_eq_value distinct_map inj_onD)
  then show ?thesis
    using m id am pass_status_iff [OF am] evaluate_pass_status [OF am, of V_PASS] run v(2) by blast
qed

theorem overall_pass_sound_witness:
  "\<exists>m. judgeable (demo_criterion (1 / 2)) m \<and> 1 / 2 \<le> rate_of m"
proof -
  have am: "approved_measurement (\<lambda>q. 2) (demo_criterion (1 / 2)) (demo_measurement 15)"
    using demo_criterion_ok [of "1 / 2"] demo_measurement_ok [of 15] demo_same_id [of 15 "1 / 2"] demo_quantiles
    by (simp add: approved_measurement_def)
  have "expected_status (\<lambda>q. 2) (demo_criterion (1 / 2)) (demo_measurement 15) = V_PASS"
    by (subst pass_status_iff [OF am])
       (simp_all add: demo_judgeable, simp_all add: demo_criterion_def demo_rule_def rate_of_def
        demo_measurement_def score_gap_def z_of_def power2_eq_square)
  with evaluate_status [OF am] obtain v where v: "evaluate_proportion_criterion (\<lambda>q. 2) (demo_criterion (1 / 2)) (demo_measurement 15) = Inr v"
    "cv_verdict v = V_PASS" "cv_criterion_id v = cr_id (demo_criterion (1 / 2))" by metis
  have "ov_verdict (aggregate_overall_verdict [demo_criterion (1 / 2)] [v]) = V_PASS"
    using v by (simp add: aggregate_pass_iff must_have_ids_def has_status_def last_verdict_def)
  from overall_pass_sound [OF _ _ demo_quantiles _ this, of "demo_criterion (1 / 2)"]
  obtain m where "judgeable (demo_criterion (1 / 2)) m \<and> pr_threshold (cr_rule (demo_criterion (1 / 2))) \<le> rate_of m"
    using v(1) demo_criterion_ok [of "1 / 2"] demo_measurement_ok [of 15]
    by (fastforce simp: demo_criterion_def)
  then show ?thesis by (auto simp: demo_criterion_def demo_rule_def)
qed

end
