(* ===== verification/Contracts_Laws.thy ===== *)
theory Contracts_Laws
  imports Contracts Replay Verdicts_Laws
begin

section \<open>Laws of the contract lifecycle\<close>

text \<open>
  The lifecycle as a machine over one contract lineage, its invariant, and what the digests and
  confirmations of a frozen contract bind. Where a law compares contents through digests, its
  conclusion names the alternative: two payloads with the same digest.
\<close>

subsection \<open>Canonical payloads determine contracts\<close>

lemma json_opt_inj: "(\<And>x y. f x = f y \<Longrightarrow> x = y) \<Longrightarrow> (\<And>x. f x \<noteq> JNull) \<Longrightarrow> json_opt f a = json_opt f b \<Longrightarrow> a = b"
  by (cases a; cases b) (simp_all add: json_opt_def, metis+)

lemma json_opt_JStr_inj [simp]: "json_opt JStr a = json_opt JStr b \<longleftrightarrow> a = b"
  by (auto intro: json_opt_inj [of JStr])

lemma datetime_json_inj [simp]: "datetime_json a = datetime_json b \<longleftrightarrow> a = b"
  by (auto simp: datetime_json_def split: py_datetime.splits)

lemma json_opt_datetime_inj [simp]: "json_opt datetime_json a = json_opt datetime_json b \<longleftrightarrow> a = b"
  by (auto intro: json_opt_inj [of datetime_json] simp: datetime_json_def split: py_datetime.splits)

lemma strings_json_inj [simp]: "strings_json a = strings_json b \<longleftrightarrow> a = b"
  by (auto simp: strings_json_def inj_map_eq_map inj_def)

lemma status_json_inj [simp]: "status_json a = status_json b \<longleftrightarrow> a = b"
  by (cases a; cases b) (simp_all add: status_json_def)

lemma target_json_inj [simp]: "target_json a = target_json b \<longleftrightarrow> a = b"
  by (auto simp: target_json_def intro: target_system.equality)

lemma workload_json_inj [simp]: "workload_json a = workload_json b \<longleftrightarrow> a = b"
  by (auto simp: workload_json_def intro: workload_reference.equality)

lemma source_json_inj [simp]: "json_opt source_json a = json_opt source_json b \<longleftrightarrow> a = b"
  by (auto intro!: json_opt_inj [of source_json] source_reference.equality simp: source_json_def)

lemma operator_json_inj [simp]: "operator_json a = operator_json b \<longleftrightarrow> a = b"
  by (cases a; cases b) (simp_all add: operator_json_def)

lemma rule_json_inj [simp]: "rule_json a = rule_json b \<longleftrightarrow> a = b"
  by (auto simp: rule_json_def intro: proportion_rule.equality)

lemma criterion_json_inj:
  assumes "contract_criterion_ok a" and "contract_criterion_ok b" and "criterion_json a = criterion_json b"
  shows "a = b"
  using assms
  by (cases a; cases b) (simp_all add: criterion.equality capability_criterion.equality)

lemma criteria_json_inj:
  assumes "list_all contract_criterion_ok xs" and "list_all contract_criterion_ok ys"
    and "map criterion_json xs = map criterion_json ys"
  shows "xs = ys"
  using assms
proof (induction xs arbitrary: ys)
  case (Cons x xs)
  then obtain y zs where "ys = y # zs" by (cases ys) auto
  with Cons show ?case by (simp add: criterion_json_inj)
qed simp

text \<open>Two contracts with the same agreement fields say the same to the customer.\<close>

definition same_agreement :: "poc_contract \<Rightarrow> poc_contract \<Rightarrow> bool" where
  "same_agreement a b \<longleftrightarrow> pc_id a = pc_id b \<and> pc_version a = pc_version b \<and> pc_customer a = pc_customer b \<and>
     pc_use_case a = pc_use_case b \<and> pc_target_system a = pc_target_system b \<and> pc_workload a = pc_workload b \<and>
     pc_criteria a = pc_criteria b \<and> pc_owners a = pc_owners b \<and> pc_non_goals a = pc_non_goals b \<and>
     pc_evidence_retention_policy a = pc_evidence_retention_policy b"

lemma contract_ok_criteria: "contract_ok c \<Longrightarrow> list_all contract_criterion_ok (pc_criteria c)"
  by (simp add: contract_ok_def contract_fields_ok_def)

lemma agreement_fields_inj:
  assumes "contract_ok a" and "contract_ok b"
  shows "agreement_fields a = agreement_fields b \<longleftrightarrow> same_agreement a b"
  using criteria_json_inj [OF contract_ok_criteria contract_ok_criteria, OF assms]
  by (auto simp: agreement_fields_def same_agreement_def)

lemma canonical_payload_inj:
  assumes "contract_ok a" and "contract_ok b" and "canonical_contract_payload a = canonical_contract_payload b"
    and "pc_canonical_hash a = pc_canonical_hash b"
  shows "a = b"
proof -
  have "length (agreement_fields a) = length (agreement_fields b)" by (simp add: agreement_fields_def)
  with assms(3) have "agreement_fields a = agreement_fields b" by (simp add: canonical_contract_payload_def)
  then have "same_agreement a b" using agreement_fields_inj [OF assms(1,2)] by simp
  with assms(3,4) show ?thesis
    by (intro poc_contract.equality) (simp_all add: same_agreement_def canonical_contract_payload_def)
qed

lemma contract_digest_ignores_hash [simp]: "contract_digest h (c\<lparr>pc_canonical_hash := x\<rparr>) = contract_digest h c"
  by (simp add: contract_digest_def canonical_contract_payload_def agreement_fields_def)

subsection \<open>One operation\<close>

lemma validated_Inr: "validated c = Inr d \<longleftrightarrow> contract_ok c \<and> d = c"
  by (auto simp: validated_def)

lemma criterion_ok_approval [simp]: "criterion_ok (c\<lparr>cr_approved := b\<rparr>) = criterion_ok c"
  by (simp add: criterion_ok_def split: option.splits)

lemma freeze_with_Inr:
  assumes "freeze_with h c i now = Inr f"
  shows "f = c\<lparr>pc_status := C_FROZEN, pc_frozen_at := Some now, pc_confirmation_id := i,
    pc_canonical_hash := Some (contract_digest h f)\<rparr>" and "contract_ok f"
  using assms by (auto simp: freeze_with_def validated_Inr split: sum.splits)

lemma freeze_with_frozen:
  assumes "freeze_with h c i now = Inr f"
  shows "pc_status f = C_FROZEN" and "pc_canonical_hash f = Some (contract_digest h f)"
    and "pc_confirmation_id f = i" and "pc_frozen_at f = Some now" and "same_agreement f c"
  by (subst freeze_with_Inr(1) [OF assms]; simp add: same_agreement_def)+

datatype contract_op = Transition contract_status py_datetime | Freeze py_datetime
  | FreezeConfirmed "contract_confirmation option" py_datetime | Revise string string py_datetime

fun contract_exec :: "hasher \<Rightarrow> contract_op \<Rightarrow> poc_contract \<Rightarrow> contract_error + poc_contract" where
  "contract_exec h (Transition s now) c = transition_contract c s now"
| "contract_exec h (Freeze now) c = freeze_contract h c now"
| "contract_exec h (FreezeConfirmed r now) c = freeze_confirmed_contract h c r now"
| "contract_exec h (Revise i v now) c = revise_contract c i v now"

text \<open>An operation that raises leaves the caller with the contract it had.\<close>

definition contract_step :: "hasher \<Rightarrow> contract_op \<Rightarrow> poc_contract \<Rightarrow> poc_contract" where
  "contract_step h p c = (case contract_exec h p c of Inl e \<Rightarrow> c | Inr d \<Rightarrow> d)"

text \<open>
  The invariant of a lineage: the contract is valid; frozen means confirmed by a digest that
  verifies; anything else carries no digest and no confirmation; \<open>SUPERSEDED\<close> is never reached.
\<close>

definition contract_inv :: "hasher \<Rightarrow> poc_contract \<Rightarrow> bool" where
  "contract_inv h c \<longleftrightarrow> contract_ok c \<and> pc_status c \<noteq> C_SUPERSEDED \<and>
     (if pc_status c = C_FROZEN then pc_canonical_hash c = Some (contract_digest h c)
      else pc_canonical_hash c = None)"

lemma contract_exec_inv: "contract_inv h c \<Longrightarrow> contract_exec h p c = Inr d \<Longrightarrow> contract_inv h d"
proof (induction p)
  case (Transition s now)
  then have "s \<in> {C_IN_REVIEW, C_APPROVED}" "pc_status c \<noteq> C_FROZEN"
    by (cases "pc_status c"; auto simp: transition_contract_def split: if_splits)+
  with Transition show ?case
    by (auto simp: transition_contract_def contract_inv_def validated_Inr split: if_splits)
next
  case (Freeze now)
  then have "freeze_with h c None now = Inr d" by (auto simp: freeze_contract_def split: if_splits)
  from freeze_with_Inr(2) [OF this] freeze_with_frozen [OF this] show ?case by (simp add: contract_inv_def)
next
  case (FreezeConfirmed r now)
  then obtain i where "freeze_with h c i now = Inr d"
    by (auto simp: freeze_confirmed_contract_def split: if_splits option.splits)
  from freeze_with_Inr(2) [OF this] freeze_with_frozen [OF this] show ?case by (simp add: contract_inv_def)
next
  case (Revise i v now)
  then show ?case by (auto simp: revise_contract_def validated_Inr contract_inv_def)
qed

lemma contract_inv_step: "contract_inv h c \<Longrightarrow> contract_inv h (contract_step h p c)"
  by (auto simp: contract_step_def contract_exec_inv split: sum.splits)

interpretation contract: invariant_system "contract_step h" "contract_inv h" for h
  by unfold_locales (rule contract_inv_step)

text \<open>A new draft: valid, with neither approval nor confirmation nor digest.\<close>

definition contract_born :: "poc_contract \<Rightarrow> bool" where
  "contract_born c \<longleftrightarrow> contract_ok c \<and> pc_status c = C_DRAFT \<and> pc_canonical_hash c = None"

lemma contract_inv_born: "contract_born c \<Longrightarrow> contract_inv h c"
  by (simp add: contract_born_def contract_inv_def)

lemma contract_approved_criteria:
  assumes "contract_ok c" and "pc_status c \<in> {C_APPROVED, C_FROZEN}"
  shows "list_all criterion_approved (pc_criteria c)"
  using assms by (auto simp: contract_ok_def lifecycle_ok_def filter_empty_conv list_all_iff split: if_splits)

lemma contract_digest_nonempty: "hex_hasher h \<Longrightarrow> contract_digest h c \<noteq> []"
  by (simp add: contract_digest_def hex_hasher_nonempty)

lemma same_agreement_fields: "same_agreement a b \<Longrightarrow> agreement_fields a = agreement_fields b"
  by (simp add: same_agreement_def agreement_fields_def)

lemma same_agreement_fingerprint:
  "same_agreement a b \<Longrightarrow> contract_confirmation_fingerprint h a = contract_confirmation_fingerprint h b"
  by (simp add: contract_confirmation_fingerprint_def canonical_confirmation_payload_def same_agreement_fields)

lemma same_agreement_matches:
  "same_agreement a b \<Longrightarrow> confirmation_matches_contract h a r = confirmation_matches_contract h b r"
  using same_agreement_fingerprint [of a b h] by (simp add: confirmation_matches_contract_def same_agreement_def)

text \<open>The guard of the freeze refuses exactly the confirmations that do not match.\<close>

lemma require_affirmative_iff:
  "require_affirmative_confirmation h c r = None \<longleftrightarrow> confirmation_matches_contract h c r"
  by (auto simp: require_affirmative_confirmation_def confirmation_matches_contract_def)

lemma freeze_confirmed_Inr:
  assumes "freeze_confirmed_contract h c r now = Inr f"
  obtains q where "r = Some q" and "pc_status c = C_APPROVED" and "confirmation_matches_contract h c q"
    and "freeze_with h c (Some (cc_confirmation_id q)) now = Inr f"
  using assms
  by (auto simp: freeze_confirmed_contract_def require_affirmative_iff [symmetric] split: if_splits option.splits)

text \<open>On a valid approved contract nothing but the confirmation can stop the freeze.\<close>

lemma lifecycle_frozen:
  assumes "contract_ok c" and "pc_status c = C_APPROVED" and "confirmation_id_ok i"
  shows "contract_ok (c\<lparr>pc_status := C_FROZEN, pc_frozen_at := Some now, pc_confirmation_id := Some i, pc_canonical_hash := None\<rparr>)"
  using assms
  by (simp add: contract_ok_def contract_fields_ok_def unique_criterion_ids_def lifecycle_ok_def capability_bindings_ok_def
      split: if_split_asm)

lemma contract_ok_hash:
  "contract_ok c \<Longrightarrow> is_sha256 d \<Longrightarrow> contract_ok (c\<lparr>pc_canonical_hash := Some d\<rparr>)"
  by (simp add: contract_ok_def contract_fields_ok_def unique_criterion_ids_def lifecycle_ok_def capability_bindings_ok_def)

lemma freeze_with_succeeds:
  assumes "contract_ok c" and "pc_status c = C_APPROVED" and "confirmation_id_ok i" and "hex_hasher h"
  shows "\<exists>f. freeze_with h c (Some i) now = Inr f"
proof -
  let ?f = "c\<lparr>pc_status := C_FROZEN, pc_frozen_at := Some now, pc_confirmation_id := Some i, pc_canonical_hash := None\<rparr>"
  have "is_sha256 (contract_digest h ?f)" using assms(4) by (simp add: contract_digest_def hex_hasher_def)
  from lifecycle_frozen [OF assms(1-3), of now] contract_ok_hash [OF lifecycle_frozen [OF assms(1-3), of now] this]
  show ?thesis by (simp add: freeze_with_def validated_def del: poc_contract.update_convs)
qed

subsection \<open>A contract to evaluate on\<close>

definition demo_contract :: "contract_status \<Rightarrow> poc_contract" where
  "demo_contract s = \<lparr>pc_id = ''acme-poc'', pc_version = ''1'', pc_status = s, pc_created_at = Aware 0 0,
     pc_approved_at = None, pc_frozen_at = None, pc_customer = ''Acme'', pc_use_case = ''tools'',
     pc_target_system = \<lparr>ts_provider = ''p'', ts_endpoint_class = ''e'', ts_model = ''m''\<rparr>,
     pc_workload = \<lparr>wl_fixture_path = ''f'', wl_sha256 = replicate 64 (CHR ''0'')\<rparr>,
     pc_criteria = [Proportion (demo_criterion (1 / 2))], pc_owners = [''o''], pc_non_goals = [],
     pc_evidence_retention_policy = ''r'', pc_parent_version = None, pc_confirmation_id = None,
     pc_canonical_hash = None\<rparr>"

lemma demo_contract_ok: "s \<noteq> C_FROZEN \<Longrightarrow> contract_ok (demo_contract s)"
  using demo_criterion_ok [of "1 / 2"]
  by (simp add: contract_ok_def demo_contract_def contract_fields_ok_def contract_id_ok_def is_lower_def lower_alnum_def
      is_digit_def target_system_ok_def workload_ok_def is_sha256_def hex_text_def lower_hex_def list_all_iff
      unique_criterion_ids_def lifecycle_ok_def capability_bindings_ok_def Let_def)
    (simp add: demo_criterion_def)

definition demo_confirmation :: "hasher \<Rightarrow> contract_confirmation" where
  "demo_confirmation h = expected_confirmation h (demo_contract C_APPROVED) ''Ann'' CONFIRM True ''fine'' ''key-1'' (Aware 1 0)"

lemma demo_confirmation_matches: "confirmation_matches_contract h (demo_contract C_APPROVED) (demo_confirmation h)"
  by (simp add: confirmation_matches_contract_def demo_confirmation_def expected_confirmation_def)

lemma operation_id_ok: "hex_hasher h \<Longrightarrow> confirmation_id_ok (confirmation_operation_id h i v k)"
  by (simp add: hex_hasher_def confirmation_id_ok_def confirmation_operation_id_def starts_with_def is_sha256_def)

lemma demo_freeze: "\<exists>f. freeze_confirmed_contract flat_hasher (demo_contract C_APPROVED) (Some (demo_confirmation flat_hasher)) now = Inr f"
proof -
  have "confirmation_id_ok (cc_confirmation_id (demo_confirmation flat_hasher))"
    using operation_id_ok [OF hex_flat_hasher] by (simp add: demo_confirmation_def expected_confirmation_def)
  with freeze_with_succeeds [OF demo_contract_ok _ _ hex_flat_hasher, of C_APPROVED] show ?thesis
    using demo_confirmation_matches [of flat_hasher]
    by (simp add: freeze_confirmed_contract_def require_affirmative_iff [symmetric]) (simp add: demo_contract_def)
qed

subsection \<open>Properties of the lifecycle\<close>

text \<open>
  C7. Along any lineage that starts as a new draft, whatever operations are tried, the contract
  stays valid; it is frozen only with every criterion approved, a freeze time and a digest that
  verifies, and before that it carries neither a digest nor a customer confirmation.
\<close>
theorem contract_lineage:
  assumes "contract_born c0" and "c = fold (contract_step h) ops c0" and "hex_hasher h"
  shows "contract_ok c \<and>
    (if pc_status c = C_FROZEN
     then verify_contract_digest h c \<and> pc_frozen_at c \<noteq> None \<and> list_all criterion_approved (pc_criteria c)
     else pc_canonical_hash c = None \<and> pc_confirmation_id c = None)"
proof -
  have inv: "contract_inv h c"
    unfolding assms(2) by (rule contract.inv_run [OF contract_inv_born [OF assms(1)]])
  then have ok: "contract_ok c" by (simp add: contract_inv_def)
  then have "lifecycle_ok c" by (simp add: contract_ok_def)
  then show ?thesis
    using inv ok contract_approved_criteria [OF ok] contract_digest_nonempty [OF assms(3), of c]
    by (auto simp: contract_inv_def lifecycle_ok_def verify_contract_digest_def truthy_def split: if_splits)
qed

theorem contract_lineage_witness:
  "pc_confirmation_id (fold (contract_step flat_hasher) [Transition C_IN_REVIEW (Aware 1 0)] (demo_contract C_DRAFT)) = None"
proof -
  have born: "contract_born (demo_contract C_DRAFT)"
    using demo_contract_ok [of C_DRAFT] by (simp add: contract_born_def) (simp add: demo_contract_def)
  have "pc_status (contract_step flat_hasher (Transition C_IN_REVIEW (Aware 1 0)) (demo_contract C_DRAFT)) \<noteq> C_FROZEN"
    by (simp add: contract_step_def transition_contract_def validated_def demo_contract_def)
  then show ?thesis
    using contract_lineage [OF born refl hex_flat_hasher, of "[Transition C_IN_REVIEW (Aware 1 0)]"] by simp
qed

text \<open>
  The confirmed freeze is authorised by the customer: when it succeeds, the contract was
  approved, the confirmation says CONFIRM with the agreement acknowledged and its fingerprint is
  that of the frozen contract, whose agreement is word for word the approved one, and the frozen
  contract names the confirmation and carries its own digest.
\<close>
theorem freeze_confirmed_authorised:
  assumes "freeze_confirmed_contract h c (Some r) now = Inr f"
  shows "pc_status c = C_APPROVED \<and> pc_status f = C_FROZEN \<and> pc_confirmation_id f = Some (cc_confirmation_id r) \<and>
    confirmation_matches_contract h f r \<and> same_agreement f c \<and>
    pc_canonical_hash f = Some (contract_digest h f) \<and> list_all criterion_approved (pc_criteria f)"
  using assms
proof (rule freeze_confirmed_Inr)
  fix q
  assume "Some r = Some q" and c: "pc_status c = C_APPROVED" "confirmation_matches_contract h c q"
    and run: "freeze_with h c (Some (cc_confirmation_id q)) now = Inr f"
  then show ?thesis
    using freeze_with_frozen [OF run] freeze_with_Inr(2) [OF run] contract_approved_criteria [of f]
      same_agreement_matches [of f c h r] by simp
qed

theorem freeze_confirmed_authorised_witness:
  "\<exists>f. freeze_confirmed_contract flat_hasher (demo_contract C_APPROVED) (Some (demo_confirmation flat_hasher)) (Aware 2 0) = Inr f \<and>
     pc_status f = C_FROZEN"
  using demo_freeze [of "Aware 2 0"] freeze_confirmed_authorised [of flat_hasher "demo_contract C_APPROVED" "demo_confirmation flat_hasher" "Aware 2 0"]
  by blast

text \<open>
  A valid approved contract can be frozen exactly with a confirmation that matches it: no
  other confirmation, and no missing one, gets past the guard, and nothing else is in the way.
\<close>
theorem freeze_confirmed_iff:
  assumes "contract_ok c" and "pc_status c = C_APPROVED" and "hex_hasher h"
    and "\<forall>q. r = Some q \<longrightarrow> confirmation_id_ok (cc_confirmation_id q)"
  shows "(\<exists>f. freeze_confirmed_contract h c r now = Inr f) \<longleftrightarrow> (\<exists>q. r = Some q \<and> confirmation_matches_contract h c q)"
proof
  assume "\<exists>f. freeze_confirmed_contract h c r now = Inr f"
  then show "\<exists>q. r = Some q \<and> confirmation_matches_contract h c q" by (blast elim: freeze_confirmed_Inr)
next
  assume "\<exists>q. r = Some q \<and> confirmation_matches_contract h c q"
  then obtain q where "r = Some q" and "require_affirmative_confirmation h c q = None"
    by (auto simp: require_affirmative_iff)
  with freeze_with_succeeds [OF assms(1,2) _ assms(3), of "cc_confirmation_id q" now] assms(2,4)
  show "\<exists>f. freeze_confirmed_contract h c r now = Inr f" by (simp add: freeze_confirmed_contract_def)
qed

theorem freeze_confirmed_iff_witness:
  "\<not> (\<exists>f. freeze_confirmed_contract flat_hasher (demo_contract C_APPROVED) None (Aware 2 0) = Inr f)"
  using freeze_confirmed_iff [OF demo_contract_ok _ hex_flat_hasher, of C_APPROVED None "Aware 2 0"]
  by (simp add: demo_contract_def)

text \<open>
  Nothing happens to a frozen contract: every transition and every freeze of it is refused,
  so that the only contract that can be made from it is a revision, which is a new draft.
\<close>
theorem frozen_is_final:
  assumes "pc_status c = C_FROZEN" and "contract_exec h p c = Inr d"
  shows "\<exists>i v now. p = Revise i v now \<and> pc_status d = C_DRAFT \<and> pc_canonical_hash d = None \<and>
    pc_confirmation_id d = None \<and> pc_parent_version d = Some (pc_id c @ ''@'' @ pc_version c)"
  using assms
  by (cases p) (auto simp: transition_contract_def freeze_contract_def freeze_confirmed_contract_def
      revise_contract_def validated_Inr split: if_splits)

theorem frozen_is_final_witness:
  "\<exists>c d. pc_status c = C_FROZEN \<and> contract_exec flat_hasher (Revise ''acme-poc'' ''2'' (Aware 3 0)) c = Inr d \<and> pc_status d = C_DRAFT"
proof -
  obtain f where f: "freeze_confirmed_contract flat_hasher (demo_contract C_APPROVED) (Some (demo_confirmation flat_hasher)) (Aware 2 0) = Inr f"
    using demo_freeze by blast
  then obtain i where "freeze_with flat_hasher (demo_contract C_APPROVED) i (Aware 2 0) = Inr f"
    by (blast elim: freeze_confirmed_Inr)
  note shape = freeze_with_Inr(1) [OF this] freeze_with_frozen(1) [OF this]
  have "contract_ok ((demo_contract C_DRAFT)\<lparr>pc_version := ''2'', pc_created_at := Aware 3 0,
      pc_criteria := map (with_approved False) (pc_criteria (demo_contract C_DRAFT)), pc_parent_version := Some ''acme-poc@1''\<rparr>)"
    using demo_contract_ok [of C_DRAFT]
    by (simp add: contract_ok_def contract_fields_ok_def unique_criterion_ids_def lifecycle_ok_def capability_bindings_ok_def)
      (simp add: demo_contract_def)
  then have run: "\<exists>d. contract_exec flat_hasher (Revise ''acme-poc'' ''2'' (Aware 3 0)) f = Inr d"
    by (subst shape(1)) (simp add: revise_contract_def validated_def demo_contract_def)
  with shape(2) frozen_is_final [OF shape(2)] show ?thesis by blast
qed

subsection \<open>What digests and confirmations bind\<close>

text \<open>
  The digest is tamper evident: two valid contracts whose stored digests verify and are equal
  are the same contract in every field, or their own two payloads differ and have one digest.
\<close>
theorem contract_digest_binds:
  assumes "contract_ok a" and "contract_ok b" and "verify_contract_digest h a" and "verify_contract_digest h b"
    and "pc_canonical_hash a = pc_canonical_hash b"
  shows "a = b \<or> canonical_contract_payload a \<noteq> canonical_contract_payload b \<and> contract_digest h a = contract_digest h b"
  using canonical_payload_inj [OF assms(1,2) _ assms(5)] assms(3-5)
  by (auto simp: verify_contract_digest_def)

theorem contract_digest_binds_witness:
  "\<exists>f. contract_ok f \<and> verify_contract_digest flat_hasher f"
proof -
  obtain f where run: "freeze_confirmed_contract flat_hasher (demo_contract C_APPROVED) (Some (demo_confirmation flat_hasher)) (Aware 2 0) = Inr f"
    using demo_freeze by blast
  then obtain i where frz: "freeze_with flat_hasher (demo_contract C_APPROVED) i (Aware 2 0) = Inr f"
    by (blast elim: freeze_confirmed_Inr)
  have "contract_ok f" "verify_contract_digest flat_hasher f"
    using freeze_with_Inr(2) [OF frz] freeze_with_frozen(2) [OF frz] contract_digest_nonempty [OF hex_flat_hasher]
    by (simp_all add: verify_contract_digest_def truthy_def)
  with contract_digest_binds [of f f flat_hasher] show ?thesis by blast
qed



text \<open>
  Recording a decision is idempotent and the record does what it says: repeating the call with
  the stored record returns that record whatever the clock says, changing who decided, what or why
  under the same key is refused, and the record authorises the freeze exactly when it confirms.
\<close>
theorem record_confirmation_replay:
  assumes "record_confirmation h c identity decision ack rationale key now None = Inr r"
  shows "record_confirmation h c identity decision ack rationale key now' (Some r) = Inr r \<and>
    ((identity', decision', rationale') \<noteq> (identity, decision, rationale) \<and> \<not> (decision' = CONFIRM \<and> \<not> ack) \<longrightarrow>
      record_confirmation h c identity' decision' ack rationale' key now' (Some r) = Inl KeyAlreadyBound) \<and>
    (confirmation_matches_contract h c r \<longleftrightarrow> decision = CONFIRM)"
  using assms
  by (auto simp: record_confirmation_def expected_confirmation_def confirmation_matches_contract_def Let_def split: if_splits)

theorem record_confirmation_replay_witness:
  "record_confirmation flat_hasher (demo_contract C_APPROVED) ''Ann'' CONFIRM True ''fine'' ''key-1'' (Aware 9 0)
     (Some (demo_confirmation flat_hasher)) = Inr (demo_confirmation flat_hasher)"
proof -
  have "contract_confirmation_ok (demo_confirmation flat_hasher)"
    using operation_id_ok [OF hex_flat_hasher] demo_contract_ok [of C_APPROVED] hex_flat_hasher
    by (simp add: contract_confirmation_ok_def demo_confirmation_def expected_confirmation_def contract_ok_def
        contract_fields_ok_def contract_confirmation_fingerprint_def hex_hasher_def)
  then have "record_confirmation flat_hasher (demo_contract C_APPROVED) ''Ann'' CONFIRM True ''fine'' ''key-1'' (Aware 1 0) None =
      Inr (demo_confirmation flat_hasher)"
    by (simp add: record_confirmation_def demo_confirmation_def [symmetric])
      (simp add: demo_contract_def)
  from record_confirmation_replay [OF this] show ?thesis by blast
qed

end
