(* ===== verification/Closure.thy ===== *)
theory Closure
  imports Replay Verdicts
begin

section \<open>Human closure of a POC (workspace_closure.py)\<close>

text \<open>
  One human decision ends a POC: a handoff bound to its Evidence Pack, or a stop bound to the
  pack or to the receipt of a blocked run. \<open>closure_service\<close> is the state of
  \<open>ProcessLocalPOCClosureService\<close>; the evidence resolver, the clock and the identifier factory
  are what a call is given (\<open>closure_env\<close>). Each locked section is one step, so that
  \<open>run_if_open\<close> is its two sections \<open>closure_begin\<close> and \<open>closure_end\<close> with the mutation between.
\<close>

subsection \<open>Bindings, requests, records\<close>

datatype closure_decision = HANDOFF_COMPLETED | POC_STOPPED

record evidence_binding =
  eb_poc_id :: string
  eb_contract_id :: string
  eb_contract_version :: string
  eb_contract_hash :: string
  eb_run_id :: string
  eb_verdict :: verdict_status
  eb_evidence_pack_url :: string
  eb_evidence_pack_sha256 :: string

record run_receipt_binding =
  rb_poc_id :: string
  rb_contract_id :: string
  rb_contract_version :: string
  rb_contract_hash :: string
  rb_operation_id :: string
  rb_runner_run_id :: string
  rb_runner_input_digest :: string
  rb_run_status :: string
  rb_reason_code :: string
  rb_terminal_at :: py_datetime
  rb_run_receipt_sha256 :: string

datatype terminal_binding = EvidenceBinding evidence_binding | RunReceiptBinding run_receipt_binding

text \<open>\<open>^prun_[a-f0-9]{32}$\<close>, \<open>^run_[a-f0-9]{32}$\<close>, \<open>^poccl_[a-f0-9]{32}$\<close>\<close>

definition prefixed_hex32 :: "string \<Rightarrow> string \<Rightarrow> bool" where
  "prefixed_hex32 p s \<longleftrightarrow> starts_with p s \<and> hex_text 32 (drop (length p) s)"

definition local_evidence_pack_url :: "string \<Rightarrow> bool" where
  "local_evidence_pack_url url \<longleftrightarrow> \<not> (\<not> starts_with ''/artifacts/'' url \<or>
     \<not> ends_with ''/decision-packet.html'' url \<or> CHR 0x5C \<in> set url \<or> CHR ''?'' \<in> set url \<or>
     CHR ''#'' \<in> set url \<or>
     list_ex (\<lambda>part. part \<in> {'''', ''.'', ''..''}) (drop 2 (split_at (CHR ''/'') url)))"

definition evidence_binding_ok :: "evidence_binding \<Rightarrow> bool" where
  "evidence_binding_ok b \<longleftrightarrow> poc_id_ok (eb_poc_id b) \<and> text_within 160 (eb_contract_id b) \<and>
     text_within 100 (eb_contract_version b) \<and> is_sha256 (eb_contract_hash b) \<and>
     text_within 200 (eb_run_id b) \<and> text_within 500 (eb_evidence_pack_url b) \<and>
     is_sha256 (eb_evidence_pack_sha256 b) \<and> local_evidence_pack_url (eb_evidence_pack_url b)"

definition run_receipt_binding_ok :: "run_receipt_binding \<Rightarrow> bool" where
  "run_receipt_binding_ok b \<longleftrightarrow> poc_id_ok (rb_poc_id b) \<and> text_within 160 (rb_contract_id b) \<and>
     text_within 100 (rb_contract_version b) \<and> is_sha256 (rb_contract_hash b) \<and>
     prefixed_hex32 ''prun_'' (rb_operation_id b) \<and> prefixed_hex32 ''run_'' (rb_runner_run_id b) \<and>
     is_sha256 (rb_runner_input_digest b) \<and> rb_run_status b = ''BLOCKED'' \<and>
     text_within 200 (rb_reason_code b) \<and> is_sha256 (rb_run_receipt_sha256 b) \<and> dt_aware (rb_terminal_at b)"

fun terminal_binding_ok :: "terminal_binding \<Rightarrow> bool" where
  "terminal_binding_ok (EvidenceBinding b) = evidence_binding_ok b"
| "terminal_binding_ok (RunReceiptBinding b) = run_receipt_binding_ok b"

fun binding_poc_id :: "terminal_binding \<Rightarrow> string" where
  "binding_poc_id (EvidenceBinding b) = eb_poc_id b"
| "binding_poc_id (RunReceiptBinding b) = rb_poc_id b"

record closure_request =
  cq_decision :: closure_decision
  cq_decided_by :: string
  cq_rationale :: string
  cq_evidence_binding :: "evidence_binding option"
  cq_terminal_run_binding :: "run_receipt_binding option"

text \<open>The request model: trimmed non-blank texts, and exactly one binding.\<close>

definition make_closure_request ::
  "closure_decision \<Rightarrow> string \<Rightarrow> string \<Rightarrow> evidence_binding option \<Rightarrow> run_receipt_binding option \<Rightarrow> closure_request option" where
  "make_closure_request d by_whom why eb rb = (
     if py_strip by_whom = [] \<or> py_strip why = [] then None
     else if \<not> text_within 160 (py_strip by_whom) \<or> \<not> text_within 2000 (py_strip why) then None
     else if (eb = None) = (rb = None) then None
     else Some \<lparr>cq_decision = d, cq_decided_by = py_strip by_whom, cq_rationale = py_strip why,
       cq_evidence_binding = eb, cq_terminal_run_binding = rb\<rparr>)"

definition closure_request_ok :: "closure_request \<Rightarrow> bool" where
  "closure_request_ok q \<longleftrightarrow> text_within 160 (cq_decided_by q) \<and> text_within 2000 (cq_rationale q) \<and>
     py_strip (cq_decided_by q) = cq_decided_by q \<and> py_strip (cq_rationale q) = cq_rationale q \<and>
     (cq_evidence_binding q = None) \<noteq> (cq_terminal_run_binding q = None) \<and>
     (case cq_evidence_binding q of None \<Rightarrow> True | Some b \<Rightarrow> evidence_binding_ok b) \<and>
     (case cq_terminal_run_binding q of None \<Rightarrow> True | Some b \<Rightarrow> run_receipt_binding_ok b)"

definition request_binding :: "closure_request \<Rightarrow> terminal_binding option" where
  "request_binding q = (case cq_evidence_binding q of Some b \<Rightarrow> Some (EvidenceBinding b)
     | None \<Rightarrow> map_option RunReceiptBinding (cq_terminal_run_binding q))"

record closure_record =
  cr_closure_id :: string
  cr_poc_id :: string
  cr_decision :: closure_decision
  cr_decided_by :: string
  cr_rationale :: string
  cr_recorded_at :: py_datetime
  cr_evidence_binding :: "evidence_binding option"
  cr_terminal_run_binding :: "run_receipt_binding option"
  cr_evidence_binding_sha256 :: string

definition closure_record_ok :: "closure_record \<Rightarrow> bool" where
  "closure_record_ok r \<longleftrightarrow> prefixed_hex32 ''poccl_'' (cr_closure_id r) \<and> poc_id_ok (cr_poc_id r) \<and>
     is_sha256 (cr_evidence_binding_sha256 r) \<and> dt_aware (cr_recorded_at r) \<and>
     (cr_evidence_binding r = None) \<noteq> (cr_terminal_run_binding r = None)"

record closure_result =
  cl_closure :: closure_record
  cl_idempotent_replay :: bool

record closure_key_record =
  ck_request_sha256 :: string
  ck_poc_id :: string

datatype closure_error = ClosureValueError | BindingMismatch | ClosureIdempotencyConflict | ClosureConflict
  | CapacityExceeded | EvidenceUnavailable | ClosureValidationError | ClosureCallbackError | ClosureKeyError

subsection \<open>Digests\<close>

definition verdict_json :: "verdict_status \<Rightarrow> json" where
  "verdict_json v = JStr (case v of V_PASS \<Rightarrow> ''PASS'' | V_FAIL \<Rightarrow> ''FAIL'' | V_BLOCKED \<Rightarrow> ''BLOCKED''
     | V_NOT_PROVEN \<Rightarrow> ''NOT_PROVEN'')"

definition closure_time_json :: "py_datetime \<Rightarrow> json" where
  "closure_time_json d = (case d of Naive t \<Rightarrow> JArr [JInt t] | Aware t off \<Rightarrow> JArr [JInt t, JInt off])"

definition evidence_binding_json :: "evidence_binding \<Rightarrow> json" where
  "evidence_binding_json b = JObj [
     (''poc_id'', JStr (eb_poc_id b)), (''contract_id'', JStr (eb_contract_id b)),
     (''contract_version'', JStr (eb_contract_version b)), (''contract_hash'', JStr (eb_contract_hash b)),
     (''run_id'', JStr (eb_run_id b)), (''verdict'', verdict_json (eb_verdict b)),
     (''evidence_pack_url'', JStr (eb_evidence_pack_url b)),
     (''evidence_pack_sha256'', JStr (eb_evidence_pack_sha256 b))]"

definition run_receipt_binding_json :: "run_receipt_binding \<Rightarrow> json" where
  "run_receipt_binding_json b = JObj [
     (''poc_id'', JStr (rb_poc_id b)), (''contract_id'', JStr (rb_contract_id b)),
     (''contract_version'', JStr (rb_contract_version b)), (''contract_hash'', JStr (rb_contract_hash b)),
     (''operation_id'', JStr (rb_operation_id b)), (''runner_run_id'', JStr (rb_runner_run_id b)),
     (''runner_input_digest'', JStr (rb_runner_input_digest b)), (''run_status'', JStr (rb_run_status b)),
     (''reason_code'', JStr (rb_reason_code b)), (''terminal_at'', closure_time_json (rb_terminal_at b)),
     (''run_receipt_sha256'', JStr (rb_run_receipt_sha256 b))]"

definition evidence_binding_domain :: string where
  "evidence_binding_domain = ''exitspec-terminal-evidence-binding-v1'' @ [CHR 0x00]"

definition run_binding_domain :: string where
  "run_binding_domain = ''exitspec-terminal-run-binding-v1'' @ [CHR 0x00]"

fun binding_digest :: "hasher \<Rightarrow> terminal_binding \<Rightarrow> string" where
  "binding_digest h (EvidenceBinding b) = json_sha h evidence_binding_domain (evidence_binding_json b)"
| "binding_digest h (RunReceiptBinding b) = json_sha h run_binding_domain (run_receipt_binding_json b)"

definition closure_decision_json :: "closure_decision \<Rightarrow> json" where
  "closure_decision_json d = JStr (case d of HANDOFF_COMPLETED \<Rightarrow> ''HANDOFF_COMPLETED'' | POC_STOPPED \<Rightarrow> ''POC_STOPPED'')"

definition closure_request_digest :: "hasher \<Rightarrow> string \<Rightarrow> closure_request \<Rightarrow> string" where
  "closure_request_digest h poc q = json_sha h (''exitspec-human-poc-closure-request-v1'' @ [CHR 0x00]) (JObj [
     (''poc_id'', JStr poc), (''request'', JObj [
        (''decision'', closure_decision_json (cq_decision q)), (''decided_by'', JStr (cq_decided_by q)),
        (''rationale'', JStr (cq_rationale q)),
        (''evidence_binding'', json_opt evidence_binding_json (cq_evidence_binding q)),
        (''terminal_run_binding'', json_opt run_receipt_binding_json (cq_terminal_run_binding q))])])"

definition closure_key_ok :: "string \<Rightarrow> bool" where
  "closure_key_ok k \<longleftrightarrow> \<not> (k = [] \<or> k \<noteq> py_strip k \<or> 200 < length k)"

definition closure_key_digest :: "hasher \<Rightarrow> string \<Rightarrow> string" where
  "closure_key_digest h k = text_sha h (''exitspec-human-poc-closure-idempotency-v1'' @ [CHR 0x00]) k"

subsection \<open>The service\<close>

record closure_service =
  cs_max_records :: nat
  cs_closures :: "(string \<times> closure_record) list"
  cs_idempotency :: "(string \<times> closure_key_record) list"
  cs_active :: "(string \<times> nat) list"

definition closure_new :: "nat \<Rightarrow> closure_error + closure_service" where
  "closure_new max_records = (if \<not> (1 \<le> max_records \<and> max_records \<le> 10000) then Inl ClosureValueError
     else Inr \<lparr>cs_max_records = max_records, cs_closures = [], cs_idempotency = [], cs_active = []\<rparr>)"

text \<open>What the resolver, the clock and the identifier factory answer to one call.\<close>

datatype resolver_answer = ResolverRaises | NoBinding | InvalidBinding | Resolved terminal_binding

record closure_env =
  ce_answer :: resolver_answer
  ce_clock :: clock_value
  ce_closure_id :: "string option"

type_synonym 'a closure_act = "(closure_service, closure_error, 'a) action"

text \<open>What the checks against the authority end with: the binding that authorises the closure.\<close>

definition closure_authority :: "hasher \<Rightarrow> closure_request \<Rightarrow> terminal_binding \<Rightarrow> resolver_answer \<Rightarrow> closure_error + terminal_binding" where
  "closure_authority h q requested answer = (case answer of
     ResolverRaises \<Rightarrow> Inl ClosureCallbackError
   | NoBinding \<Rightarrow> Inl EvidenceUnavailable
   | InvalidBinding \<Rightarrow> Inl EvidenceUnavailable
   | Resolved auth \<Rightarrow>
       if cq_decision q = HANDOFF_COMPLETED \<and> (case auth of EvidenceBinding b \<Rightarrow> False | RunReceiptBinding b \<Rightarrow> True)
       then Inl EvidenceUnavailable
       else if binding_digest h auth \<noteq> binding_digest h requested then Inl BindingMismatch
       else Inr auth)"

definition closure_receipt :: "hasher \<Rightarrow> string \<Rightarrow> closure_request \<Rightarrow> terminal_binding \<Rightarrow> string \<Rightarrow> py_datetime \<Rightarrow> closure_record" where
  "closure_receipt h poc q auth cid now = \<lparr>cr_closure_id = cid, cr_poc_id = poc, cr_decision = cq_decision q,
     cr_decided_by = cq_decided_by q, cr_rationale = cq_rationale q, cr_recorded_at = now,
     cr_evidence_binding = (case auth of EvidenceBinding b \<Rightarrow> Some b | RunReceiptBinding b \<Rightarrow> None),
     cr_terminal_run_binding = (case auth of EvidenceBinding b \<Rightarrow> None | RunReceiptBinding b \<Rightarrow> Some b),
     cr_evidence_binding_sha256 = binding_digest h auth\<rparr>"

text \<open>The clock, then the factory, then the validated receipt.\<close>

definition closure_make :: "hasher \<Rightarrow> string \<Rightarrow> closure_request \<Rightarrow> terminal_binding \<Rightarrow> closure_env \<Rightarrow> closure_error + closure_record" where
  "closure_make h poc q auth env = (case ce_clock env of
     ClockRaises \<Rightarrow> Inl ClosureCallbackError
   | ClockOther \<Rightarrow> (case ce_closure_id env of None \<Rightarrow> Inl ClosureCallbackError | Some cid \<Rightarrow> Inl ClosureValidationError)
   | ClockAt now \<Rightarrow> (case ce_closure_id env of None \<Rightarrow> Inl ClosureCallbackError
       | Some cid \<Rightarrow> (let r = closure_receipt h poc q auth cid now in
           if closure_record_ok r then Inr r else Inl ClosureValidationError)))"

definition closure_record_m :: "hasher \<Rightarrow> string \<Rightarrow> closure_request \<Rightarrow> string \<Rightarrow> closure_env \<Rightarrow> closure_result closure_act" where
  "closure_record_m h poc q key env = (\<lambda>s. case request_binding q of
     None \<Rightarrow> (s, Inl ClosureValueError)
   | Some requested \<Rightarrow>
     if binding_poc_id requested \<noteq> poc then (s, Inl BindingMismatch)
     else if \<not> closure_key_ok key then (s, Inl ClosureValueError)
     else (case map_of (cs_idempotency s) (closure_key_digest h key) of
       Some prior \<Rightarrow>
         if ck_poc_id prior \<noteq> poc \<or> ck_request_sha256 prior \<noteq> closure_request_digest h poc q
         then (s, Inl ClosureIdempotencyConflict)
         else (case map_of (cs_closures s) poc of None \<Rightarrow> (s, Inl ClosureKeyError)
           | Some r \<Rightarrow> (s, Inr \<lparr>cl_closure = r, cl_idempotent_replay = True\<rparr>))
     | None \<Rightarrow>
         if map_of (cs_closures s) poc \<noteq> None then (s, Inl ClosureConflict)
         else if (case map_of (cs_active s) poc of None \<Rightarrow> 0 | Some n \<Rightarrow> n) > 0 then (s, Inl ClosureConflict)
         else if cs_max_records s \<le> length (cs_closures s) then (s, Inl CapacityExceeded)
         else (case closure_authority h q requested (ce_answer env) of Inl e \<Rightarrow> (s, Inl e)
           | Inr auth \<Rightarrow> (case closure_make h poc q auth env of Inl e \<Rightarrow> (s, Inl e)
             | Inr r \<Rightarrow> (s\<lparr>cs_closures := AList.update poc r (cs_closures s),
                 cs_idempotency := AList.update (closure_key_digest h key)
                   \<lparr>ck_request_sha256 = closure_request_digest h poc q, ck_poc_id = poc\<rparr> (cs_idempotency s)\<rparr>,
                 Inr \<lparr>cl_closure = r, cl_idempotent_replay = False\<rparr>)))))"

definition closure_begin :: "string \<Rightarrow> unit closure_act" where
  "closure_begin poc = (\<lambda>s. if map_of (cs_closures s) poc \<noteq> None then (s, Inl ClosureConflict)
     else (s\<lparr>cs_active := AList.update poc ((case map_of (cs_active s) poc of None \<Rightarrow> 0 | Some n \<Rightarrow> n) + 1) (cs_active s)\<rparr>, Inr ()))"

definition closure_end :: "string \<Rightarrow> unit closure_act" where
  "closure_end poc = (\<lambda>s. case map_of (cs_active s) poc of None \<Rightarrow> (s, Inl ClosureKeyError)
     | Some n \<Rightarrow> if n - 1 = 0 then (s\<lparr>cs_active := AList.delete poc (cs_active s)\<rparr>, Inr ())
         else (s\<lparr>cs_active := AList.update poc (n - 1) (cs_active s)\<rparr>, Inr ()))"

definition closure_get :: "string \<Rightarrow> closure_service \<Rightarrow> closure_record option" where
  "closure_get poc s = map_of (cs_closures s) poc"

definition closure_records :: "closure_service \<Rightarrow> closure_record list" where
  "closure_records s = map snd (sort_key fst (cs_closures s))"

end
