(* ===== verification/Closure_Laws.thy ===== *)
theory Closure_Laws
  imports Closure
begin

section \<open>Laws of the closure service\<close>

subsection \<open>The service as a machine\<close>

datatype closure_op = RecordClosure string string closure_request closure_env
  | BeginMutation string | EndMutation string

fun closure_step :: "hasher \<Rightarrow> closure_op \<Rightarrow> closure_service \<Rightarrow> closure_service" where
  "closure_step h (RecordClosure key poc q env) s = fst (closure_record_m h poc q key env s)"
| "closure_step h (BeginMutation poc) s = fst (closure_begin poc s)"
| "closure_step h (EndMutation poc) s = fst (closure_end poc s)"

definition closure_entry_ok :: "closure_service \<Rightarrow> string \<Rightarrow> closure_record \<Rightarrow> bool" where
  "closure_entry_ok s poc r \<longleftrightarrow> closure_record_ok r \<and> cr_poc_id r = poc \<and>
     (cr_decision r = HANDOFF_COMPLETED \<longrightarrow> cr_evidence_binding r \<noteq> None) \<and> map_of (cs_active s) poc = None"

definition closure_inv :: "closure_service \<Rightarrow> bool" where
  "closure_inv s \<longleftrightarrow> length (cs_closures s) \<le> cs_max_records s \<and> distinct (map fst (cs_closures s)) \<and>
     (\<forall>poc r. map_of (cs_closures s) poc = Some r \<longrightarrow> closure_entry_ok s poc r) \<and>
     (\<forall>k e. map_of (cs_idempotency s) k = Some e \<longrightarrow> map_of (cs_closures s) (ck_poc_id e) \<noteq> None) \<and>
     (\<forall>poc n. map_of (cs_active s) poc = Some n \<longrightarrow> 0 < n)"

lemma closure_authority_Inr:
  "closure_authority h q b answer = Inr auth \<Longrightarrow> binding_digest h auth = binding_digest h b \<and>
    (cq_decision q = HANDOFF_COMPLETED \<longrightarrow> (\<exists>e. auth = EvidenceBinding e)) \<and> answer = Resolved auth"
  by (auto simp: closure_authority_def split: resolver_answer.splits if_splits terminal_binding.splits)

lemma closure_make_Inr:
  assumes "closure_make h poc q auth env = Inr r"
  obtains cid now where "ce_clock env = ClockAt now" and "ce_closure_id env = Some cid"
    and "r = closure_receipt h poc q auth cid now" and "closure_record_ok r"
  using assms by (auto simp: closure_make_def Let_def split: clock_value.splits option.splits if_splits)

text \<open>
  What one recording does: nothing with an answer of any kind, a replay of the stored receipt, or
  the new receipt of an open POC without mutation in flight, authorised by the resolver.
\<close>

lemma closure_record_cases:
  fixes h :: hasher and poc key :: string and q :: closure_request and env :: closure_env and s :: closure_service
  obtains (refused) e where "closure_record_m h poc q key env s = (s, Inl e)"
    | (replayed) b prior r where "request_binding q = Some b" "binding_poc_id b = poc" "closure_key_ok key"
        "map_of (cs_idempotency s) (closure_key_digest h key) = Some prior"
        "ck_poc_id prior = poc" "ck_request_sha256 prior = closure_request_digest h poc q"
        "map_of (cs_closures s) poc = Some r"
        "closure_record_m h poc q key env s = (s, Inr \<lparr>cl_closure = r, cl_idempotent_replay = True\<rparr>)"
    | (recorded) b auth r where "request_binding q = Some b" "binding_poc_id b = poc" "closure_key_ok key"
        "map_of (cs_idempotency s) (closure_key_digest h key) = None" "map_of (cs_closures s) poc = None"
        "(case map_of (cs_active s) poc of None \<Rightarrow> 0 | Some n \<Rightarrow> n) = 0"
        "length (cs_closures s) < cs_max_records s"
        "closure_authority h q b (ce_answer env) = Inr auth" "closure_make h poc q auth env = Inr r"
        "closure_record_m h poc q key env s = (s\<lparr>cs_closures := AList.update poc r (cs_closures s),
           cs_idempotency := AList.update (closure_key_digest h key)
             \<lparr>ck_request_sha256 = closure_request_digest h poc q, ck_poc_id = poc\<rparr> (cs_idempotency s)\<rparr>,
           Inr \<lparr>cl_closure = r, cl_idempotent_replay = False\<rparr>)"
proof (cases "request_binding q")
  case None
  then show ?thesis by (intro refused) (simp add: closure_record_m_def)
next
  case (Some b)
  note binding = this
  show ?thesis
  proof (cases "binding_poc_id b = poc \<and> closure_key_ok key")
    case False
    then show ?thesis using binding by (intro refused [of "if binding_poc_id b = poc then ClosureValueError else BindingMismatch"])
      (auto simp: closure_record_m_def)
  next
    case True
    note start = True
    show ?thesis
    proof (cases "map_of (cs_idempotency s) (closure_key_digest h key)")
      case (Some prior)
      show ?thesis
      proof (cases "ck_poc_id prior = poc \<and> ck_request_sha256 prior = closure_request_digest h poc q \<and> map_of (cs_closures s) poc \<noteq> None")
        case True
        then obtain r where "map_of (cs_closures s) poc = Some r" by auto
        with True Some start binding show ?thesis by (intro replayed [of b prior r]) (simp_all add: closure_record_m_def)
      next
        case False
        with Some start binding show ?thesis
          by (intro refused [of "if ck_poc_id prior \<noteq> poc \<or> ck_request_sha256 prior \<noteq> closure_request_digest h poc q
              then ClosureIdempotencyConflict else ClosureKeyError"]) (auto simp: closure_record_m_def)
      qed
    next
      case None
      show ?thesis
      proof (cases "map_of (cs_closures s) poc \<noteq> None \<or> (case map_of (cs_active s) poc of None \<Rightarrow> 0 | Some n \<Rightarrow> n) > 0 \<or>
          cs_max_records s \<le> length (cs_closures s)")
        case True
        with None start binding show ?thesis
          by (intro refused [of "if map_of (cs_closures s) poc \<noteq> None \<or> (case map_of (cs_active s) poc of None \<Rightarrow> 0 | Some n \<Rightarrow> n) > 0
              then ClosureConflict else CapacityExceeded"]) (auto simp: closure_record_m_def)
      next
        case False
        show ?thesis
        proof (cases "closure_authority h q b (ce_answer env)")
          case (Inl e)
          with False None start binding show ?thesis by (intro refused [of e]) (simp add: closure_record_m_def)
        next
          case (Inr auth)
          note authority = this
          show ?thesis
          proof (cases "closure_make h poc q auth env")
            case (Inl e)
            with authority False None start binding show ?thesis
              by (intro refused [of e]) (simp add: closure_record_m_def)
          next
            case (Inr r)
            with authority False None start binding show ?thesis
              by (intro recorded [of b auth r]) (simp_all add: closure_record_m_def)
          qed
        qed
      qed
    qed
  qed
qed

lemma closure_receipt_simps [simp]:
  "cr_poc_id (closure_receipt h poc q auth cid now) = poc"
  "cr_decision (closure_receipt h poc q auth cid now) = cq_decision q"
  "cr_evidence_binding_sha256 (closure_receipt h poc q auth cid now) = binding_digest h auth"
  by (simp_all add: closure_receipt_def)

lemma closure_inv_record: "closure_inv s \<Longrightarrow> closure_inv (fst (closure_record_m h poc q key env s))"
proof (cases rule: closure_record_cases [of h poc q key env s])
  case (recorded b auth r)
  assume inv: "closure_inv s"
  let ?s = "fst (closure_record_m h poc q key env s)"
  have idle: "map_of (cs_active s) poc = None"
    using inv recorded(6) by (cases "map_of (cs_active s) poc") (auto simp: closure_inv_def)
  obtain cid now where r: "r = closure_receipt h poc q auth cid now" "closure_record_ok r"
    using recorded(9) by (rule closure_make_Inr)
  have "cq_decision q = HANDOFF_COMPLETED \<Longrightarrow> cr_evidence_binding r \<noteq> None"
    using closure_authority_Inr [OF recorded(8)] r(1) by (auto simp: closure_receipt_def)
  with r idle have new: "closure_entry_ok ?s poc r" using recorded(10) by (simp add: closure_entry_ok_def)
  have old: "closure_entry_ok ?s p x" if "map_of (cs_closures s) p = Some x" for p x
    using inv that recorded(10) by (simp add: closure_inv_def closure_entry_ok_def)
  have keys: "map_of (cs_closures ?s) (ck_poc_id e) \<noteq> None" if "map_of (cs_idempotency ?s) k = Some e" for k e
    using inv that recorded(10) by (auto simp: closure_inv_def split: if_splits)
  have entries: "closure_entry_ok ?s p x" if "map_of (cs_closures ?s) p = Some x" for p x
    using that new old recorded(10) by (auto split: if_splits)
  have "length (cs_closures ?s) \<le> cs_max_records ?s" "distinct (map fst (cs_closures ?s))" "cs_active ?s = cs_active s"
    using inv recorded(5,7,10) by (simp_all add: closure_inv_def length_update_new distinct_update)
  with keys entries inv show ?thesis unfolding closure_inv_def by auto
qed simp_all

lemma closure_inv_begin: "closure_inv s \<Longrightarrow> closure_inv (fst (closure_begin poc s))"
  by (auto simp: closure_begin_def closure_inv_def closure_entry_ok_def)

lemma closure_inv_end: "closure_inv s \<Longrightarrow> closure_inv (fst (closure_end poc s))"
  by (auto simp: closure_end_def closure_inv_def closure_entry_ok_def delete_conv' split: option.splits)

lemma closure_inv_step: "closure_inv s \<Longrightarrow> closure_inv (closure_step h c s)"
  by (cases c) (simp_all add: closure_inv_record closure_inv_begin closure_inv_end)

lemma closure_inv_new: "closure_new m = Inr s \<Longrightarrow> closure_inv s"
  by (auto simp: closure_new_def closure_inv_def split: if_splits)

text \<open>A receipt, once stored, stays; so does the memory of its key.\<close>

lemma closure_step_closures:
  assumes "map_of (cs_closures s) poc = Some r"
  shows "map_of (cs_closures (closure_step h c s)) poc = Some r"
proof (cases c)
  case (RecordClosure key p q env)
  then show ?thesis using assms by (cases rule: closure_record_cases [of h p q key env s]) auto
qed (use assms in \<open>auto simp: closure_begin_def closure_end_def split: option.splits\<close>)

lemma closure_step_keys:
  assumes "map_of (cs_idempotency s) k = Some e"
  shows "map_of (cs_idempotency (closure_step h c s)) k = Some e"
proof (cases c)
  case (RecordClosure key p q env)
  then show ?thesis using assms by (cases rule: closure_record_cases [of h p q key env s]) auto
qed (use assms in \<open>auto simp: closure_begin_def closure_end_def split: option.splits\<close>)

subsection \<open>Interpretation: the replay contract\<close>

fun closure_exec :: "hasher \<Rightarrow> string \<Rightarrow> string \<times> closure_request \<Rightarrow> closure_env \<Rightarrow> closure_result closure_act" where
  "closure_exec h key (poc, q) env = closure_record_m h poc q key env"

fun closure_ask_ok :: "string \<times> closure_request \<Rightarrow> bool" where
  "closure_ask_ok (poc, q) = (\<exists>b. request_binding q = Some b \<and> binding_poc_id b = poc)"

fun closure_fp :: "hasher \<Rightarrow> string \<times> closure_request \<Rightarrow> string \<times> string" where
  "closure_fp h (poc, q) = (poc, closure_request_digest h poc q)"

definition closure_seen :: "hasher \<Rightarrow> closure_service \<Rightarrow> string \<Rightarrow> (string \<times> string) option" where
  "closure_seen h s k = (if closure_key_ok k
     then map_option (\<lambda>e. (ck_poc_id e, ck_request_sha256 e)) (map_of (cs_idempotency s) (closure_key_digest h k)) else None)"

definition closure_replay :: "hasher \<Rightarrow> closure_service \<Rightarrow> string \<Rightarrow> closure_result" where
  "closure_replay h s k = \<lparr>cl_closure = the (map_of (cs_closures s)
     (ck_poc_id (the (map_of (cs_idempotency s) (closure_key_digest h k))))), cl_idempotent_replay = True\<rparr>"

definition closure_mark :: "closure_result \<Rightarrow> closure_result" where
  "closure_mark r = r\<lparr>cl_idempotent_replay := True\<rparr>"

lemma closure_seen_Some:
  "closure_seen h s k = Some f \<longleftrightarrow> closure_key_ok k \<and>
    (\<exists>e. map_of (cs_idempotency s) (closure_key_digest h k) = Some e \<and> f = (ck_poc_id e, ck_request_sha256 e))"
  by (auto simp: closure_seen_def)

interpretation closing: stable_replay_service "closure_step h" closure_inv "closure_exec h" closure_ask_ok
  "closure_fp h" "closure_seen h" "closure_replay h" ClosureIdempotencyConflict closure_mark for h
proof
  fix s k and q :: "string \<times> closure_request" and env s' r c f
  obtain p x where q: "q = (p, x)" by (cases q)
  show "closure_inv s \<Longrightarrow> closure_inv (closure_step h c s)" by (rule closure_inv_step)
  show "closure_inv s \<Longrightarrow> closure_inv (fst (closure_exec h k q env s))" by (simp add: q closure_inv_record)
  show "closure_exec h k q env s = (s', Inr r) \<Longrightarrow> closure_ask_ok q"
    unfolding q by (cases rule: closure_record_cases [of h p x k env s]) auto
  show "closure_seen h s k = None \<Longrightarrow> closure_exec h k q env s = (s', Inr r) \<Longrightarrow> closure_seen h s' k = Some (closure_fp h q)"
    unfolding q by (cases rule: closure_record_cases [of h p x k env s]) (auto simp: closure_seen_def)
  show "closure_inv s \<Longrightarrow> closure_ask_ok q \<Longrightarrow> closure_seen h s k = Some (closure_fp h q) \<Longrightarrow>
      closure_exec h k q env s = (s, Inr (closure_replay h s k))"
    unfolding q closure_seen_Some by (fastforce simp: closure_inv_def closure_record_m_def closure_replay_def)
  show "closure_ask_ok q \<Longrightarrow> closure_seen h s k = Some f \<Longrightarrow> f \<noteq> closure_fp h q \<Longrightarrow>
      closure_exec h k q env s = (s, Inl ClosureIdempotencyConflict)"
    unfolding q closure_seen_Some by (auto simp: closure_record_m_def split: if_splits)
  show "closure_seen h s k = Some f \<Longrightarrow> closure_seen h (closure_step h c s) k = Some f"
    unfolding closure_seen_Some using closure_step_keys by blast
  show "closure_inv s \<Longrightarrow> closure_seen h s k = Some f \<Longrightarrow> closure_replay h (closure_step h c s) k = closure_replay h s k"
    unfolding closure_seen_Some using closure_step_keys [of s "closure_key_digest h k" _ h c] closure_step_closures [of s _ _ h c]
    by (fastforce simp: closure_inv_def closure_replay_def)
  show "closure_seen h s k = None \<Longrightarrow> closure_exec h k q env s = (s', Inr r) \<Longrightarrow> closure_replay h s' k = closure_mark r"
    unfolding q by (cases rule: closure_record_cases [of h p x k env s]) (auto simp: closure_seen_def closure_replay_def closure_mark_def)
  show "closure_mark (closure_replay h s k) = closure_replay h s k" by (simp add: closure_mark_def closure_replay_def)
qed

lemma closure_reached: "closure_new m = Inr s0 \<Longrightarrow> closure_inv (fold (closure_step h) ops s0)"
  by (rule closing.inv_run [OF closure_inv_new])

lemma closure_run_closures:
  assumes "closure_inv s" and "map_of (cs_closures s) poc = Some r"
  shows "map_of (cs_closures (fold (closure_step h) ops s)) poc = Some r"
  by (rule closing.run_keeps [where P = "\<lambda>t. map_of (cs_closures t) poc = Some r"])
     (auto intro: closure_step_closures assms)

text \<open>The request model builds only requests that satisfy their own constraints.\<close>

lemma make_closure_request_ok:
  "make_closure_request d by_whom why eb rb = Some q \<Longrightarrow> (case eb of None \<Rightarrow> True | Some b \<Rightarrow> evidence_binding_ok b) \<Longrightarrow>
    (case rb of None \<Rightarrow> True | Some b \<Rightarrow> run_receipt_binding_ok b) \<Longrightarrow> closure_request_ok q"
  by (auto simp: make_closure_request_def closure_request_ok_def split: if_splits)

subsection \<open>A closure to evaluate on\<close>

definition demo_evidence :: evidence_binding where
  "demo_evidence = \<lparr>eb_poc_id = ''poc_abc'', eb_contract_id = ''c'', eb_contract_version = ''1'',
     eb_contract_hash = replicate 64 (CHR ''0''), eb_run_id = ''r'', eb_verdict = V_PASS,
     eb_evidence_pack_url = ''/artifacts/x/decision-packet.html'', eb_evidence_pack_sha256 = replicate 64 (CHR ''0'')\<rparr>"

definition demo_closing :: closure_request where
  "demo_closing = \<lparr>cq_decision = HANDOFF_COMPLETED, cq_decided_by = ''Ann'', cq_rationale = ''done'',
     cq_evidence_binding = Some demo_evidence, cq_terminal_run_binding = None\<rparr>"

definition demo_closure_id :: string where
  "demo_closure_id = ''poccl_'' @ replicate 32 (CHR ''a'')"

definition demo_closing_env :: closure_env where
  "demo_closing_env = \<lparr>ce_answer = Resolved (EvidenceBinding demo_evidence), ce_clock = ClockAt (Aware 5 0),
     ce_closure_id = Some demo_closure_id\<rparr>"

definition demo_service :: closure_service where
  "demo_service = \<lparr>cs_max_records = 8, cs_closures = [], cs_idempotency = [], cs_active = []\<rparr>"

lemma demo_evidence_ok: "evidence_binding_ok demo_evidence"
  by code_simp

lemma demo_service_new: "closure_new 8 = Inr demo_service"
  by (simp add: closure_new_def demo_service_def)

lemma demo_closing_binding: "request_binding demo_closing = Some (EvidenceBinding demo_evidence)"
  by (simp add: request_binding_def demo_closing_def)

lemma demo_closure_ids: "prefixed_hex32 ''poccl_'' demo_closure_id" "poc_id_ok ''poc_abc''"
  "closure_key_ok ''key-1''"
  by code_simp+

lemma demo_closing_run:
  obtains s' r where "closure_record_m flat_hasher ''poc_abc'' demo_closing ''key-1'' demo_closing_env demo_service =
      (s', Inr \<lparr>cl_closure = r, cl_idempotent_replay = False\<rparr>)" and "map_of (cs_closures s') ''poc_abc'' = Some r"
    and "cr_decision r = HANDOFF_COMPLETED"
proof -
  have "is_sha256 (json_sha flat_hasher d p)" for d p using hex_flat_hasher by (simp add: hex_hasher_def)
  then have ok: "closure_record_ok (closure_receipt flat_hasher ''poc_abc'' demo_closing (EvidenceBinding demo_evidence)
      demo_closure_id (Aware 5 0))"
    using demo_closure_ids by (simp add: closure_record_ok_def closure_receipt_def)
  then have make: "closure_make flat_hasher ''poc_abc'' demo_closing (EvidenceBinding demo_evidence) demo_closing_env =
      Inr (closure_receipt flat_hasher ''poc_abc'' demo_closing (EvidenceBinding demo_evidence) demo_closure_id (Aware 5 0))"
    by (simp add: closure_make_def demo_closing_env_def)
  have authority: "closure_authority flat_hasher demo_closing (EvidenceBinding demo_evidence) (ce_answer demo_closing_env) =
      Inr (EvidenceBinding demo_evidence)"
    by (simp add: closure_authority_def demo_closing_env_def)
  have "binding_poc_id (EvidenceBinding demo_evidence) = ''poc_abc''" by (simp add: demo_evidence_def)
  with make authority demo_closure_ids(3)
  have run: "closure_record_m flat_hasher ''poc_abc'' demo_closing ''key-1'' demo_closing_env demo_service =
      (demo_service\<lparr>cs_closures := [(''poc_abc'', closure_receipt flat_hasher ''poc_abc'' demo_closing
          (EvidenceBinding demo_evidence) demo_closure_id (Aware 5 0))],
        cs_idempotency := [(closure_key_digest flat_hasher ''key-1'',
          \<lparr>ck_request_sha256 = closure_request_digest flat_hasher ''poc_abc'' demo_closing, ck_poc_id = ''poc_abc''\<rparr>)]\<rparr>,
       Inr \<lparr>cl_closure = closure_receipt flat_hasher ''poc_abc'' demo_closing (EvidenceBinding demo_evidence)
          demo_closure_id (Aware 5 0), cl_idempotent_replay = False\<rparr>)"
    by (simp add: closure_record_m_def demo_closing_binding demo_service_def)
  have "cq_decision demo_closing = HANDOFF_COMPLETED" by (simp add: demo_closing_def)
  then show thesis by (intro that [OF run]) simp_all
qed

subsection \<open>Properties of the closure\<close>

text \<open>
  C27. Closure and mutation exclude each other. In every reachable state of the service, a POC with
  a receipt has no mutation in flight and admits none, then and ever after, and its receipt never
  changes; while a mutation of a POC is in flight, no closure of it can be recorded.
\<close>
theorem closure_excludes_mutation:
  assumes "closure_new m = Inr s0" and "s = fold (closure_step h) ops s0"
  shows "(\<forall>r. map_of (cs_closures s) poc = Some r \<longrightarrow> map_of (cs_active s) poc = None \<and>
      (let t = fold (closure_step h) later s in map_of (cs_closures t) poc = Some r \<and>
         closure_begin poc t = (t, Inl ClosureConflict))) \<and>
    (\<forall>n. map_of (cs_active s) poc = Some n \<longrightarrow> (\<exists>e. closure_record_m h poc q key env s = (s, Inl e)))"
proof -
  have inv: "closure_inv s" unfolding assms(2) by (rule closure_reached [OF assms(1)])
  have "\<exists>e. closure_record_m h poc q key env s = (s, Inl e)" if n: "map_of (cs_active s) poc = Some n" for n
  proof -
    have "0 < n" using inv n by (simp add: closure_inv_def)
    moreover have "map_of (cs_closures s) poc = None"
      using inv n by (cases "map_of (cs_closures s) poc") (simp_all add: closure_inv_def closure_entry_ok_def)
    ultimately show ?thesis using n by (cases rule: closure_record_cases [of h poc q key env s]) auto
  qed
  moreover have "map_of (cs_active s) poc = None" if "map_of (cs_closures s) poc = Some r" for r
    using inv that by (simp add: closure_inv_def closure_entry_ok_def)
  moreover have "closure_begin poc t = (t, Inl ClosureConflict)" if "map_of (cs_closures t) poc = Some r" for t r
    using that by (simp add: closure_begin_def)
  ultimately show ?thesis
    using closure_run_closures [OF inv] unfolding Let_def by blast
qed

theorem closure_excludes_mutation_witness:
  "\<exists>s. fst (closure_begin ''poc_abc'' demo_service) = s \<and>
     (\<exists>e. closure_record_m flat_hasher ''poc_abc'' demo_closing ''key-1'' demo_closing_env s = (s, Inl e))"
  using closure_excludes_mutation [OF demo_service_new, of "fst (closure_begin ''poc_abc'' demo_service)" flat_hasher
      "[BeginMutation ''poc_abc'']" "''poc_abc''"]
  by (simp add: closure_begin_def demo_service_def)

text \<open>
  A recorded closure is authorised: the POC was open, the resolver produced a binding whose
  digest is that of the binding the human reviewed, the receipt carries this binding, its digest,
  the decision and who took it, and a handoff is bound to an Evidence Pack, never to a run receipt.
\<close>
theorem closure_record_authorised:
  assumes "closure_record_m h poc q key env s = (s', Inr res)" and "\<not> cl_idempotent_replay res"
  shows "\<exists>b auth. request_binding q = Some b \<and> binding_poc_id b = poc \<and> ce_answer env = Resolved auth \<and>
    binding_digest h auth = binding_digest h b \<and> map_of (cs_closures s) poc = None \<and>
    map_of (cs_closures s') poc = Some (cl_closure res) \<and>
    cr_poc_id (cl_closure res) = poc \<and> cr_decision (cl_closure res) = cq_decision q \<and>
    cr_decided_by (cl_closure res) = cq_decided_by q \<and>
    cr_evidence_binding_sha256 (cl_closure res) = binding_digest h b \<and>
    (cq_decision q = HANDOFF_COMPLETED \<longrightarrow>
      (\<exists>e. auth = EvidenceBinding e \<and> cr_evidence_binding (cl_closure res) = Some e))"
proof (cases rule: closure_record_cases [of h poc q key env s])
  case (recorded b auth r)
  obtain cid now where r: "r = closure_receipt h poc q auth cid now"
    using recorded(9) by (rule closure_make_Inr)
  note auth = closure_authority_Inr [OF recorded(8)]
  have res: "cl_closure res = r" "map_of (cs_closures s') poc = Some r" using recorded(10) assms(1) by auto
  show ?thesis
    using recorded(1,2,5) auth res by (intro exI [of _ b] exI [of _ auth]) (auto simp: r closure_receipt_def)
qed (use assms in auto)

theorem closure_record_authorised_witness:
  "\<exists>s' res. closure_record_m flat_hasher ''poc_abc'' demo_closing ''key-1'' demo_closing_env demo_service = (s', Inr res) \<and>
     cr_evidence_binding (cl_closure res) = Some demo_evidence"
proof (rule demo_closing_run)
  fix s' r
  assume run: "closure_record_m flat_hasher ''poc_abc'' demo_closing ''key-1'' demo_closing_env demo_service =
      (s', Inr \<lparr>cl_closure = r, cl_idempotent_replay = False\<rparr>)"
  from closure_record_authorised [OF run] have "cr_evidence_binding r = Some demo_evidence"
    by (auto simp: demo_closing_env_def demo_closing_def)
  with run show ?thesis by simp
qed

text \<open>
  Closing is idempotent: once a request was answered, whatever is recorded, begun or ended
  after it, the same request under the same key changes nothing and returns the same receipt as a
  replay, and any other well-formed request under that key is refused.
\<close>
theorem closure_replayed:
  assumes "closure_new m = Inr s0" and "s = fold (closure_step h) before s0"
    and "closure_record_m h poc q key env s = (s1, Inr res)" and "s2 = fold (closure_step h) after s1"
  shows "closure_record_m h poc q key env' s2 = (s2, Inr (res\<lparr>cl_idempotent_replay := True\<rparr>)) \<and>
    (\<forall>b. request_binding q' = Some b \<longrightarrow> binding_poc_id b = poc' \<longrightarrow>
       (poc', closure_request_digest h poc' q') \<noteq> (poc, closure_request_digest h poc q) \<longrightarrow>
       closure_record_m h poc' q' key env' s2 = (s2, Inl ClosureIdempotencyConflict))"
proof -
  have inv: "closure_inv s" unfolding assms(2) by (rule closure_reached [OF assms(1)])
  have run: "closure_exec h key (poc, q) env s = (s1, Inr res)" using assms(3) by simp
  from closing.same_answer_after [OF inv run, of env' after] closing.conflict_after [OF inv run, of "(poc', q')" env' after]
  show ?thesis unfolding assms(4) by (auto simp: closure_mark_def)
qed

theorem closure_replayed_witness:
  "\<exists>s1 res. closure_record_m flat_hasher ''poc_abc'' demo_closing ''key-1'' demo_closing_env demo_service = (s1, Inr res) \<and>
     closure_record_m flat_hasher ''poc_abc'' demo_closing ''key-1'' (demo_closing_env\<lparr>ce_answer := NoBinding\<rparr>) s1 =
       (s1, Inr (res\<lparr>cl_idempotent_replay := True\<rparr>))"
proof (rule demo_closing_run)
  fix s' r
  assume run: "closure_record_m flat_hasher ''poc_abc'' demo_closing ''key-1'' demo_closing_env demo_service =
      (s', Inr \<lparr>cl_closure = r, cl_idempotent_replay = False\<rparr>)"
  from closure_replayed [OF demo_service_new _ this, of "[]" s' "[]"] run show ?thesis by auto
qed

end
