(* ===== verification/Confirmation_Store.thy ===== *)
theory Confirmation_Store
  imports Replay Contracts
begin

section \<open>The confirmation store (confirmation_store.py)\<close>

text \<open>
  Customer decisions are taken through invitations whose review token is stored as a digest only.
  \<open>store\<close> is the state of \<open>InMemoryConfirmationStore\<close>, the reference adapter of the
  \<open>ConfirmationStore\<close> port: dicts that are only looked up are maps, the invitations, which are
  also iterated, an association list. Values built by a dataclass satisfy its \<open>__post_init__\<close>,
  modelled as a predicate; the checks of Python types are the types of the model.
\<close>

subsection \<open>Field checks\<close>

definition non_empty_ok :: "string \<Rightarrow> bool" where
  "non_empty_ok t \<longleftrightarrow> py_strip t \<noteq> [] \<and> CHR 0x00 \<notin> set t"

definition bounded_non_empty_ok :: "string \<Rightarrow> bool" where
  "bounded_non_empty_ok t \<longleftrightarrow> non_empty_ok t \<and> length t \<le> 256"

definition optional_bounded_ok :: "string option \<Rightarrow> bool" where
  "optional_bounded_ok t \<longleftrightarrow> (case t of None \<Rightarrow> True | Some x \<Rightarrow> bounded_non_empty_ok x)"

text \<open>\<open>[a-z0-9]+(?:-[a-z0-9]+)*\<close>\<close>

definition slug_ok :: "string \<Rightarrow> bool" where
  "slug_ok s \<longleftrightarrow> list_all (\<lambda>p. p \<noteq> [] \<and> list_all lower_alnum p) (split_at (CHR ''-'') s)"

definition event_id_ok :: "string \<Rightarrow> bool" where
  "event_id_ok s \<longleftrightarrow> length s \<le> 64 \<and> starts_with ''audit-'' s \<and> slug_ok (drop 6 s)"

definition invitation_id_ok :: "string \<Rightarrow> bool" where
  "invitation_id_ok s \<longleftrightarrow> length s \<le> 64 \<and> starts_with ''review-'' s \<and> slug_ok (drop 7 s)"

definition optional_invitation_id_ok :: "string option \<Rightarrow> bool" where
  "optional_invitation_id_ok t \<longleftrightarrow> (case t of None \<Rightarrow> True | Some x \<Rightarrow> invitation_id_ok x)"

definition optional_trace_id_ok :: "string option \<Rightarrow> bool" where
  "optional_trace_id_ok t \<longleftrightarrow> (case t of None \<Rightarrow> True | Some x \<Rightarrow> hex_text 32 x)"

definition machine_reason_ok :: "string \<Rightarrow> bool" where
  "machine_reason_ok s \<longleftrightarrow> (case s of [] \<Rightarrow> False
     | c # rest \<Rightarrow> is_upper c \<and> length rest \<le> 63 \<and> list_all (\<lambda>d. is_upper d \<or> is_digit d \<or> d = CHR ''_'') rest)"

definition adapter_version_ok :: "string \<Rightarrow> bool" where
  "adapter_version_ok s \<longleftrightarrow> (let parts = split_at (CHR ''.'') s in
     length parts \<le> 3 \<and> list_all (\<lambda>p. 1 \<le> length p \<and> length p \<le> 4 \<and> list_all is_digit p) parts)"

subsection \<open>Safe metadata\<close>

datatype store_error = StoreValueError | InvitationIdentityConflict | TokenDigestConflict | InvitationNotFound
  | InvitationExpired | InvitationConsumed | ContractBindingMismatch | IdempotencyConflict
  | DecisionAlreadyRecorded | StoreKeyError

definition metadata_value_ok :: "string \<Rightarrow> string \<Rightarrow> bool" where
  "metadata_value_ok k v \<longleftrightarrow> v \<noteq> [] \<and> length v \<le> 64 \<and>
     (if k = ''schema_version'' then v = ''1''
      else if k = ''adapter_name'' then v \<in> {''memory'', ''sqlite'', ''postgresql''}
      else k = ''adapter_version'' \<and> adapter_version_ok v)"

definition metadata_key_ok :: "string \<Rightarrow> bool" where
  "metadata_key_ok k \<longleftrightarrow> k \<in> {''schema_version'', ''adapter_name'', ''adapter_version''}"

text \<open>The loop over the pairs, with the keys seen so far.\<close>

fun metadata_scan :: "string list \<Rightarrow> (string \<times> string) list \<Rightarrow> bool" where
  "metadata_scan seen [] = True"
| "metadata_scan seen ((k, v) # rest) = (if \<not> metadata_key_ok k \<or> k \<in> set seen then False
     else if \<not> metadata_value_ok k v then False else metadata_scan (k # seen) rest)"

definition canonical_safe_metadata :: "(string \<times> string) list \<Rightarrow> store_error + (string \<times> string) list" where
  "canonical_safe_metadata value = (
     if value = [] then Inl StoreValueError
     else if \<not> metadata_scan [] value then Inl StoreValueError
     else if map_of value ''schema_version'' \<noteq> Some ''1'' then Inl StoreValueError
     else Inr (sort value))"

subsection \<open>Audit events\<close>

datatype revocation_reason = R_MANUAL | R_REISSUED | R_CONTRACT_SUPERSEDED | R_SECURITY_RESPONSE

definition revocation_text :: "revocation_reason \<Rightarrow> string" where
  "revocation_text r = (case r of R_MANUAL \<Rightarrow> ''MANUAL'' | R_REISSUED \<Rightarrow> ''REISSUED''
     | R_CONTRACT_SUPERSEDED \<Rightarrow> ''CONTRACT_SUPERSEDED'' | R_SECURITY_RESPONSE \<Rightarrow> ''SECURITY_RESPONSE'')"

datatype audit_event_type = INVITATION_ISSUED | INVITATION_REVOKED | INVITATION_REISSUED | INVITATION_REJECTED
  | DECISION_RECORDED | DECISION_REPLAYED | DECISION_REJECTED | EVENT_CONTRACT_SUPERSEDED

datatype audit_outcome = SUCCEEDED | REPLAYED | REJECTED

datatype reason_policy = REASON_ABSENT | REASON_REVOCATION | REASON_REISSUED | REASON_MACHINE | REASON_SUPERSEDED

fun audit_event_rule :: "audit_event_type \<Rightarrow> audit_outcome \<times> bool \<times> bool \<times> reason_policy" where
  "audit_event_rule INVITATION_ISSUED = (SUCCEEDED, True, False, REASON_ABSENT)"
| "audit_event_rule INVITATION_REVOKED = (SUCCEEDED, True, False, REASON_REVOCATION)"
| "audit_event_rule INVITATION_REISSUED = (SUCCEEDED, True, False, REASON_REISSUED)"
| "audit_event_rule INVITATION_REJECTED = (REJECTED, True, False, REASON_MACHINE)"
| "audit_event_rule DECISION_RECORDED = (SUCCEEDED, True, True, REASON_ABSENT)"
| "audit_event_rule DECISION_REPLAYED = (REPLAYED, True, True, REASON_ABSENT)"
| "audit_event_rule DECISION_REJECTED = (REJECTED, True, False, REASON_MACHINE)"
| "audit_event_rule EVENT_CONTRACT_SUPERSEDED = (SUCCEEDED, False, False, REASON_SUPERSEDED)"

fun reason_valid :: "reason_policy \<Rightarrow> string option \<Rightarrow> bool" where
  "reason_valid REASON_ABSENT r = (r = None)"
| "reason_valid REASON_MACHINE r = (r \<noteq> None)"
| "reason_valid REASON_REVOCATION r = (r \<in> Some ` revocation_text `
     {R_MANUAL, R_REISSUED, R_CONTRACT_SUPERSEDED, R_SECURITY_RESPONSE})"
| "reason_valid REASON_REISSUED r = (r = Some (revocation_text R_REISSUED))"
| "reason_valid REASON_SUPERSEDED r = (r = Some (revocation_text R_CONTRACT_SUPERSEDED))"

definition audit_event_invariants ::
  "audit_event_type \<Rightarrow> audit_outcome \<Rightarrow> string option \<Rightarrow> string option \<Rightarrow> string option \<Rightarrow> bool" where
  "audit_event_invariants ty outcome invitation confirmation reason = (case audit_event_rule ty of
     (expected, inv_required, conf_required, policy) \<Rightarrow> first_error [
       (outcome \<noteq> expected, ()),
       ((invitation \<noteq> None) \<noteq> inv_required, ()),
       ((confirmation \<noteq> None) \<noteq> conf_required, ()),
       (\<not> reason_valid policy reason, ())] = None)"

subsection \<open>Records and commands\<close>

datatype token_digest = TokenDigest string
datatype operation_digest = OperationDigest string
datatype key_digest = IdempotencyKeyDigest string
datatype request_digest = RequestDigest string

record contract_binding =
  bd_contract_id :: string
  bd_contract_version :: string
  bd_fingerprint :: string

definition contract_binding_ok :: "contract_binding \<Rightarrow> bool" where
  "contract_binding_ok b \<longleftrightarrow> non_empty_ok (bd_contract_id b) \<and> non_empty_ok (bd_contract_version b) \<and>
     is_sha256 (bd_fingerprint b)"

record invitation =
  iv_invitation_id :: string
  iv_binding :: contract_binding
  iv_token_digest :: token_digest
  iv_token_digest_version :: string
  iv_intended_organization_id :: string
  iv_issued_by_subject :: string
  iv_issued_at :: py_datetime
  iv_expires_at :: py_datetime

definition invitation_ok :: "invitation \<Rightarrow> bool" where
  "invitation_ok i \<longleftrightarrow> invitation_id_ok (iv_invitation_id i) \<and> non_empty_ok (iv_token_digest_version i) \<and>
     non_empty_ok (iv_intended_organization_id i) \<and> non_empty_ok (iv_issued_by_subject i) \<and>
     dt_utc (iv_issued_at i) \<and> dt_utc (iv_expires_at i) \<and> instant (iv_issued_at i) < instant (iv_expires_at i)"

definition revocation_fields_ok :: "string \<Rightarrow> py_datetime \<Rightarrow> string \<Rightarrow> bool" where
  "revocation_fields_ok i revoked_at subject \<longleftrightarrow> invitation_id_ok i \<and> dt_utc revoked_at \<and> bounded_non_empty_ok subject"

record reissue_invitation =
  re_previous_invitation_id :: string
  re_previous_token_digest :: token_digest
  re_replacement :: invitation
  re_revoked_at :: py_datetime
  re_revoked_by_subject :: string

definition reissue_ok :: "reissue_invitation \<Rightarrow> bool" where
  "reissue_ok r \<longleftrightarrow> first_error [
     (\<not> invitation_id_ok (re_previous_invitation_id r), ()),
     (\<not> dt_utc (re_revoked_at r), ()),
     (\<not> bounded_non_empty_ok (re_revoked_by_subject r), ()),
     (\<not> dt_eq (iv_issued_at (re_replacement r)) (re_revoked_at r), ()),
     (iv_invitation_id (re_replacement r) = re_previous_invitation_id r, ()),
     (iv_token_digest (re_replacement r) = re_previous_token_digest r, ())] = None"

record audit_event =
  ae_event_id :: string
  ae_event_sequence :: int
  ae_event_type :: audit_event_type
  ae_occurred_at :: py_datetime
  ae_binding :: contract_binding
  ae_outcome :: audit_outcome
  ae_invitation_id :: "string option"
  ae_confirmation_id :: "string option"
  ae_actor_issuer :: "string option"
  ae_actor_subject :: "string option"
  ae_actor_organization_id :: "string option"
  ae_reason_code :: "string option"
  ae_trace_id :: "string option"
  ae_safe_metadata :: "(string \<times> string) list"

text \<open>\<open>__post_init__\<close>: all checks, then the metadata is replaced by its canonical form.\<close>

definition make_audit_event :: "audit_event \<Rightarrow> store_error + audit_event" where
  "make_audit_event e = (case first_error [
     (\<not> event_id_ok (ae_event_id e), StoreValueError),
     (ae_event_sequence e < 1, StoreValueError),
     (\<not> dt_utc (ae_occurred_at e), StoreValueError),
     (\<not> optional_invitation_id_ok (ae_invitation_id e), StoreValueError),
     ((case ae_confirmation_id e of None \<Rightarrow> False | Some i \<Rightarrow> \<not> confirmation_id_ok i), StoreValueError),
     (\<not> optional_bounded_ok (ae_actor_issuer e), StoreValueError),
     (\<not> optional_bounded_ok (ae_actor_subject e), StoreValueError),
     (\<not> optional_bounded_ok (ae_actor_organization_id e), StoreValueError),
     ((ae_actor_issuer e \<noteq> None) \<noteq> (ae_actor_subject e \<noteq> None), StoreValueError),
     (ae_actor_organization_id e \<noteq> None \<and> ae_actor_issuer e = None, StoreValueError),
     ((case ae_reason_code e of None \<Rightarrow> False | Some r \<Rightarrow> \<not> machine_reason_ok r), StoreValueError),
     (\<not> optional_trace_id_ok (ae_trace_id e), StoreValueError),
     (\<not> audit_event_invariants (ae_event_type e) (ae_outcome e) (ae_invitation_id e)
          (ae_confirmation_id e) (ae_reason_code e), StoreValueError)] of
     Some err \<Rightarrow> Inl err
   | None \<Rightarrow> (case canonical_safe_metadata (ae_safe_metadata e) of
       Inl err \<Rightarrow> Inl err
     | Inr m \<Rightarrow> Inr (e\<lparr>ae_safe_metadata := m\<rparr>)))"

record record_decision_command =
  rd_operation_digest :: operation_digest
  rd_idempotency_key_digest :: key_digest
  rd_request_digest :: request_digest
  rd_token_digest :: token_digest
  rd_confirmation_id :: string
  rd_invitation_id :: string
  rd_binding :: contract_binding
  rd_reviewer_issuer :: string
  rd_reviewer_subject :: string
  rd_reviewer_organization_id :: string
  rd_reviewer_display_name :: string
  rd_decision :: confirmation_decision
  rd_agreement_acknowledged :: bool
  rd_rationale :: string
  rd_decided_at :: py_datetime

definition record_decision_ok :: "record_decision_command \<Rightarrow> bool" where
  "record_decision_ok c \<longleftrightarrow> confirmation_id_ok (rd_confirmation_id c) \<and> invitation_id_ok (rd_invitation_id c) \<and>
     contract_binding_ok (rd_binding c) \<and>
     non_empty_ok (rd_reviewer_issuer c) \<and> non_empty_ok (rd_reviewer_subject c) \<and>
     non_empty_ok (rd_reviewer_organization_id c) \<and> non_empty_ok (rd_reviewer_display_name c) \<and>
     CHR 0x00 \<notin> set (rd_rationale c) \<and> dt_utc (rd_decided_at c)"

record decision_record =
  dr_confirmation_id :: string
  dr_invitation_id :: string
  dr_binding :: contract_binding
  dr_reviewer_issuer :: string
  dr_reviewer_subject :: string
  dr_reviewer_organization_id :: string
  dr_reviewer_display_name :: string
  dr_decision :: confirmation_decision
  dr_agreement_acknowledged :: bool
  dr_rationale :: string
  dr_decided_at :: py_datetime
  dr_request_digest :: request_digest

text \<open>\<open>_validate_decision_payload\<close>\<close>

definition decision_payload_ok :: "confirmation_decision \<Rightarrow> bool \<Rightarrow> string \<Rightarrow> bool" where
  "decision_payload_ok d ack rationale \<longleftrightarrow> first_error [
     (CHR 0x00 \<in> set rationale, ()),
     (2000 < length rationale, ()),
     (d = CONFIRM \<and> \<not> ack, ()),
     (d = REQUEST_CHANGES \<and> py_strip rationale = [], ())] = None"

definition decision_record_ok :: "decision_record \<Rightarrow> bool" where
  "decision_record_ok d \<longleftrightarrow> confirmation_id_ok (dr_confirmation_id d) \<and> invitation_id_ok (dr_invitation_id d) \<and>
     non_empty_ok (dr_reviewer_issuer d) \<and> non_empty_ok (dr_reviewer_subject d) \<and>
     non_empty_ok (dr_reviewer_organization_id d) \<and> non_empty_ok (dr_reviewer_display_name d) \<and>
     decision_payload_ok (dr_decision d) (dr_agreement_acknowledged d) (dr_rationale d) \<and> dt_utc (dr_decided_at d)"

record operation_record =
  op_operation_digest :: operation_digest
  op_contract_id :: string
  op_contract_version :: string
  op_idempotency_key_digest :: key_digest
  op_request_digest :: request_digest
  op_confirmation_id :: string
  op_created_at :: py_datetime

definition operation_record_ok :: "operation_record \<Rightarrow> bool" where
  "operation_record_ok r \<longleftrightarrow> non_empty_ok (op_contract_id r) \<and> non_empty_ok (op_contract_version r) \<and>
     confirmation_id_ok (op_confirmation_id r) \<and> dt_utc (op_created_at r)"

record decision_write =
  dw_decision :: decision_record
  dw_replayed :: bool

subsection \<open>The in-memory store\<close>

record store =
  st_invitations :: "(string \<times> invitation) list"
  st_token_owner :: "token_digest \<rightharpoonup> string"
  st_bindings :: "string \<times> string \<rightharpoonup> contract_binding"
  st_decisions :: "contract_binding \<rightharpoonup> decision_record"
  st_decisions_by_id :: "string \<rightharpoonup> decision_record"
  st_operations :: "operation_digest \<rightharpoonup> operation_record"
  st_operation_by_key :: "string \<times> string \<times> key_digest \<rightharpoonup> operation_digest"

type_synonym 'a store_act = "(store, store_error, 'a) action"

definition empty_store :: store where
  "empty_store = \<lparr>st_invitations = [], st_token_owner = (\<lambda>t. None), st_bindings = (\<lambda>v. None),
     st_decisions = (\<lambda>b. None), st_decisions_by_id = (\<lambda>i. None), st_operations = (\<lambda>o'. None),
     st_operation_by_key = (\<lambda>k. None)\<rparr>"

definition version_of :: "contract_binding \<Rightarrow> string \<times> string" where
  "version_of b = (bd_contract_id b, bd_contract_version b)"

definition consistent_binding :: "store \<Rightarrow> contract_binding \<Rightarrow> bool" where
  "consistent_binding s b \<longleftrightarrow> (case st_bindings s (version_of b) of None \<Rightarrow> True | Some x \<Rightarrow> x = b)"

definition issue_invitation :: "invitation \<Rightarrow> invitation store_act" where
  "issue_invitation i = (\<lambda>s. case map_of (st_invitations s) (iv_invitation_id i) of
     Some existing \<Rightarrow> if existing = i then (s, Inr existing) else (s, Inl InvitationIdentityConflict)
   | None \<Rightarrow>
       if st_token_owner s (iv_token_digest i) \<noteq> None then (s, Inl TokenDigestConflict)
       else if \<not> consistent_binding s (iv_binding i) then (s, Inl ContractBindingMismatch)
       else (s\<lparr>st_invitations := AList.update (iv_invitation_id i) i (st_invitations s),
               st_token_owner := (st_token_owner s)(iv_token_digest i \<mapsto> iv_invitation_id i),
               st_bindings := (st_bindings s)(version_of (iv_binding i) \<mapsto> iv_binding i)\<rparr>, Inr i))"

definition get_invitation :: "string \<Rightarrow> store \<Rightarrow> invitation option" where
  "get_invitation i s = map_of (st_invitations s) i"

text \<open>The loop keeps the last match.\<close>

definition invitation_for_digest :: "store \<Rightarrow> token_digest \<Rightarrow> invitation option" where
  "invitation_for_digest s t = fold (\<lambda>(k, i) matched. if iv_token_digest i = t then Some i else matched) (st_invitations s) None"

definition invitation_expired :: "invitation \<Rightarrow> py_datetime \<Rightarrow> bool" where
  "invitation_expired i now \<longleftrightarrow> instant now \<ge> instant (iv_expires_at i)"

definition resolve_invitation :: "token_digest \<Rightarrow> py_datetime \<Rightarrow> store \<Rightarrow> store_error + invitation option" where
  "resolve_invitation t now s = (if \<not> dt_utc now then Inl StoreValueError
     else (case invitation_for_digest s t of None \<Rightarrow> Inr None
       | Some i \<Rightarrow> if st_decisions s (iv_binding i) \<noteq> None then Inl InvitationConsumed
           else if invitation_expired i now then Inl InvitationExpired
           else Inr (Some i)))"

definition operation_key :: "record_decision_command \<Rightarrow> string \<times> string \<times> key_digest" where
  "operation_key c = (bd_contract_id (rd_binding c), bd_contract_version (rd_binding c), rd_idempotency_key_digest c)"

definition same_request :: "decision_record \<Rightarrow> record_decision_command \<Rightarrow> bool" where
  "same_request d c \<longleftrightarrow> dr_invitation_id d = rd_invitation_id c \<and> dr_binding d = rd_binding c \<and>
     dr_reviewer_issuer d = rd_reviewer_issuer c \<and> dr_reviewer_subject d = rd_reviewer_subject c \<and>
     dr_reviewer_organization_id d = rd_reviewer_organization_id c \<and> dr_decision d = rd_decision c \<and>
     dr_agreement_acknowledged d = rd_agreement_acknowledged c \<and> dr_rationale d = rd_rationale c \<and>
     dr_request_digest d = rd_request_digest c"

definition replay_or_conflict :: "record_decision_command \<Rightarrow> operation_record \<Rightarrow> store \<Rightarrow> store_error + decision_write" where
  "replay_or_conflict c r s = (case st_decisions_by_id s (op_confirmation_id r) of
     None \<Rightarrow> Inl StoreKeyError
   | Some d \<Rightarrow> (case map_of (st_invitations s) (dr_invitation_id d) of
       None \<Rightarrow> Inl StoreKeyError
     | Some i \<Rightarrow>
         if \<not> (op_contract_id r = bd_contract_id (rd_binding c) \<and> op_contract_version r = bd_contract_version (rd_binding c) \<and>
              op_idempotency_key_digest r = rd_idempotency_key_digest c \<and> op_request_digest r = rd_request_digest c) \<or>
            iv_token_digest i \<noteq> rd_token_digest c \<or> \<not> same_request d c
         then Inl IdempotencyConflict
         else Inr \<lparr>dw_decision = d, dw_replayed = True\<rparr>))"

definition decision_from_command :: "record_decision_command \<Rightarrow> decision_record" where
  "decision_from_command c = \<lparr>dr_confirmation_id = rd_confirmation_id c, dr_invitation_id = rd_invitation_id c,
     dr_binding = rd_binding c, dr_reviewer_issuer = rd_reviewer_issuer c,
     dr_reviewer_subject = rd_reviewer_subject c, dr_reviewer_organization_id = rd_reviewer_organization_id c,
     dr_reviewer_display_name = rd_reviewer_display_name c, dr_decision = rd_decision c,
     dr_agreement_acknowledged = rd_agreement_acknowledged c, dr_rationale = rd_rationale c,
     dr_decided_at = rd_decided_at c, dr_request_digest = rd_request_digest c\<rparr>"

definition operation_from_command :: "record_decision_command \<Rightarrow> operation_record" where
  "operation_from_command c = \<lparr>op_operation_digest = rd_operation_digest c, op_contract_id = bd_contract_id (rd_binding c),
     op_contract_version = bd_contract_version (rd_binding c), op_idempotency_key_digest = rd_idempotency_key_digest c,
     op_request_digest = rd_request_digest c, op_confirmation_id = rd_confirmation_id c, op_created_at = rd_decided_at c\<rparr>"

text \<open>The guards of a first write against the invitation of its token, in order.\<close>

definition first_write_error :: "record_decision_command \<Rightarrow> invitation option \<Rightarrow> store \<Rightarrow> store_error option" where
  "first_write_error c matched s = (case matched of None \<Rightarrow> Some InvitationNotFound
     | Some i \<Rightarrow> first_error [
         (iv_invitation_id i \<noteq> rd_invitation_id c, InvitationNotFound),
         (invitation_expired i (rd_decided_at c), InvitationExpired),
         (\<not> consistent_binding s (rd_binding c), ContractBindingMismatch),
         (iv_binding i \<noteq> rd_binding c, ContractBindingMismatch),
         (iv_intended_organization_id i \<noteq> rd_reviewer_organization_id c, ContractBindingMismatch),
         (st_decisions s (rd_binding c) \<noteq> None, DecisionAlreadyRecorded),
         (st_decisions_by_id s (rd_confirmation_id c) \<noteq> None, DecisionAlreadyRecorded),
         (\<not> decision_payload_ok (rd_decision c) (rd_agreement_acknowledged c) (rd_rationale c), StoreValueError),
         (\<not> decision_record_ok (decision_from_command c), StoreValueError),
         (\<not> operation_record_ok (operation_from_command c), StoreValueError)])"

definition record_decision :: "record_decision_command \<Rightarrow> decision_write store_act" where
  "record_decision c = (\<lambda>s. case st_operations s (rd_operation_digest c) of
     Some r \<Rightarrow> (s, replay_or_conflict c r s)
   | None \<Rightarrow>
       if st_operation_by_key s (operation_key c) \<noteq> None then (s, Inl IdempotencyConflict)
       else (case first_write_error c (invitation_for_digest s (rd_token_digest c)) s of
         Some e \<Rightarrow> (s, Inl e)
       | None \<Rightarrow> (s\<lparr>st_decisions := (st_decisions s)(rd_binding c \<mapsto> decision_from_command c),
             st_decisions_by_id := (st_decisions_by_id s)(rd_confirmation_id c \<mapsto> decision_from_command c),
             st_operations := (st_operations s)(rd_operation_digest c \<mapsto> operation_from_command c),
             st_operation_by_key := (st_operation_by_key s)(operation_key c \<mapsto> rd_operation_digest c),
             st_bindings := (st_bindings s)(version_of (rd_binding c) \<mapsto> rd_binding c)\<rparr>,
           Inr \<lparr>dw_decision = decision_from_command c, dw_replayed = False\<rparr>)))"

definition get_decision :: "contract_binding \<Rightarrow> store \<Rightarrow> decision_record option" where
  "get_decision b s = st_decisions s b"

record audit_query =
  aq_binding :: contract_binding
  aq_invitation_id :: "string option"
  aq_confirmation_id :: "string option"
  aq_after_sequence :: int
  aq_limit :: int

definition audit_query_ok :: "audit_query \<Rightarrow> bool" where
  "audit_query_ok q \<longleftrightarrow> optional_invitation_id_ok (aq_invitation_id q) \<and>
     (case aq_confirmation_id q of None \<Rightarrow> True | Some i \<Rightarrow> confirmation_id_ok i) \<and>
     0 \<le> aq_after_sequence q \<and> 1 \<le> aq_limit q \<and> aq_limit q \<le> 500"

end
