(* ===== verification/Confirmation_Store_Laws.thy ===== *)
theory Confirmation_Store_Laws
  imports Confirmation_Store "HOL-Library.Multiset"
begin

section \<open>Laws of the confirmation store\<close>

subsection \<open>The store as a machine\<close>

datatype store_op = IssueInvitation invitation | RecordDecision record_decision_command

fun store_step :: "store_op \<Rightarrow> store \<Rightarrow> store" where
  "store_step (IssueInvitation i) s = fst (issue_invitation i s)"
| "store_step (RecordDecision c) s = fst (record_decision c s)"

text \<open>Invitations are indexed by identity and by token, and agree with the bindings of their versions.\<close>

definition store_invitations_ok :: "store \<Rightarrow> bool" where
  "store_invitations_ok s \<longleftrightarrow> distinct (map fst (st_invitations s)) \<and>
     (\<forall>k i. map_of (st_invitations s) k = Some i \<longrightarrow> iv_invitation_id i = k \<and>
        st_token_owner s (iv_token_digest i) = Some k \<and>
        st_bindings s (version_of (iv_binding i)) = Some (iv_binding i)) \<and>
     (\<forall>t k. st_token_owner s t = Some k \<longrightarrow> (\<exists>i. map_of (st_invitations s) k = Some i \<and> iv_token_digest i = t))"

text \<open>A decision was taken through an unexpired invitation of the same binding and organisation.\<close>

definition decision_backed :: "store \<Rightarrow> decision_record \<Rightarrow> bool" where
  "decision_backed s d \<longleftrightarrow> decision_record_ok d \<and>
     st_bindings s (version_of (dr_binding d)) = Some (dr_binding d) \<and>
     (\<exists>i. map_of (st_invitations s) (dr_invitation_id d) = Some i \<and> iv_binding i = dr_binding d \<and>
        iv_intended_organization_id i = dr_reviewer_organization_id d \<and> \<not> invitation_expired i (dr_decided_at d))"

definition store_decisions_ok :: "store \<Rightarrow> bool" where
  "store_decisions_ok s \<longleftrightarrow>
     (\<forall>b d. st_decisions s b = Some d \<longrightarrow> dr_binding d = b \<and> st_decisions_by_id s (dr_confirmation_id d) = Some d \<and>
        decision_backed s d) \<and>
     (\<forall>c d. st_decisions_by_id s c = Some d \<longrightarrow> dr_confirmation_id d = c \<and> st_decisions s (dr_binding d) = Some d)"

definition operation_backed :: "store \<Rightarrow> operation_record \<Rightarrow> bool" where
  "operation_backed s r \<longleftrightarrow> (\<exists>d. st_decisions_by_id s (op_confirmation_id r) = Some d \<and>
     dr_request_digest d = op_request_digest r \<and> op_contract_id r = bd_contract_id (dr_binding d) \<and>
     op_contract_version r = bd_contract_version (dr_binding d))"

definition store_operations_ok :: "store \<Rightarrow> bool" where
  "store_operations_ok s \<longleftrightarrow>
     (\<forall>k r. st_operations s k = Some r \<longrightarrow> op_operation_digest r = k \<and> operation_backed s r \<and>
        st_operation_by_key s (op_contract_id r, op_contract_version r, op_idempotency_key_digest r) = Some k) \<and>
     (\<forall>x k. st_operation_by_key s x = Some k \<longrightarrow> (\<exists>r. st_operations s k = Some r \<and>
        x = (op_contract_id r, op_contract_version r, op_idempotency_key_digest r)))"

definition store_inv :: "store \<Rightarrow> bool" where
  "store_inv s \<longleftrightarrow> store_invitations_ok s \<and> store_decisions_ok s \<and> store_operations_ok s"

lemma store_inv_empty: "store_inv empty_store"
  by (simp add: store_inv_def store_invitations_ok_def store_decisions_ok_def store_operations_ok_def empty_store_def)

subsection \<open>Finding an invitation by its token\<close>

lemma invitation_for_digest_Some:
  "fold (\<lambda>(k, i) matched. if iv_token_digest i = t then Some i else matched) xs None = Some i \<Longrightarrow>
    \<exists>k. (k, i) \<in> set xs \<and> iv_token_digest i = t"
  by (induction xs rule: rev_induct) (auto split: if_splits)

lemma invitation_for_digest_None:
  "fold (\<lambda>(k, i) matched. if iv_token_digest i = t then Some i else matched) xs None = None \<longleftrightarrow>
    (\<forall>(k, i) \<in> set xs. iv_token_digest i \<noteq> t)"
  by (induction xs rule: rev_induct) (auto split: if_splits)

text \<open>The search agrees with the token index.\<close>

lemma invitation_for_digest_iff:
  assumes "store_invitations_ok s"
  shows "invitation_for_digest s t = Some i \<longleftrightarrow>
    map_of (st_invitations s) (iv_invitation_id i) = Some i \<and> iv_token_digest i = t"
proof
  assume "invitation_for_digest s t = Some i"
  then obtain k where "(k, i) \<in> set (st_invitations s)" "iv_token_digest i = t"
    unfolding invitation_for_digest_def by (blast dest: invitation_for_digest_Some)
  then show "map_of (st_invitations s) (iv_invitation_id i) = Some i \<and> iv_token_digest i = t"
    using assms unfolding store_invitations_ok_def by (metis distinct_map_of_iff)
next
  assume i: "map_of (st_invitations s) (iv_invitation_id i) = Some i \<and> iv_token_digest i = t"
  then obtain j where j: "invitation_for_digest s t = Some j"
    unfolding invitation_for_digest_def using invitation_for_digest_None [of t "st_invitations s"]
    by (cases "fold (\<lambda>(k, i) matched. if iv_token_digest i = t then Some i else matched) (st_invitations s) None")
       (auto dest: map_of_SomeD)
  then obtain k where "(k, j) \<in> set (st_invitations s)" "iv_token_digest j = t"
    unfolding invitation_for_digest_def by (blast dest: invitation_for_digest_Some)
  then have "map_of (st_invitations s) k = Some j" using assms by (simp add: store_invitations_ok_def distinct_map_of_iff)
  with i \<open>iv_token_digest j = t\<close> assms have "j = i"
    unfolding store_invitations_ok_def by (metis option.inject)
  with j show "invitation_for_digest s t = Some i" by simp
qed

subsection \<open>Issuing\<close>

lemma issue_cases:
  fixes i :: invitation and s :: store
  obtains (refused) e where "issue_invitation i s = (s, Inl e)"
    | (replayed) "issue_invitation i s = (s, Inr i)" "map_of (st_invitations s) (iv_invitation_id i) = Some i"
    | (issued) "map_of (st_invitations s) (iv_invitation_id i) = None" "st_token_owner s (iv_token_digest i) = None"
        "consistent_binding s (iv_binding i)"
        "issue_invitation i s = (s\<lparr>st_invitations := AList.update (iv_invitation_id i) i (st_invitations s),
           st_token_owner := (st_token_owner s)(iv_token_digest i \<mapsto> iv_invitation_id i),
           st_bindings := (st_bindings s)(version_of (iv_binding i) \<mapsto> iv_binding i)\<rparr>, Inr i)"
proof (cases "map_of (st_invitations s) (iv_invitation_id i)")
  case (Some j)
  then show ?thesis
    by (cases "j = i") (auto intro: replayed refused [of InvitationIdentityConflict] simp: issue_invitation_def)
next
  case None
  show ?thesis
  proof (cases "st_token_owner s (iv_token_digest i) = None \<and> consistent_binding s (iv_binding i)")
    case True
    with None show ?thesis by (intro issued) (simp_all add: issue_invitation_def)
  next
    case False
    with None show ?thesis
      by (intro refused [of "if st_token_owner s (iv_token_digest i) \<noteq> None then TokenDigestConflict else ContractBindingMismatch"])
         (auto simp: issue_invitation_def)
  qed
qed

lemma consistent_binding_update:
  "consistent_binding s b \<Longrightarrow> st_bindings s v = Some x \<Longrightarrow> ((st_bindings s)(version_of b \<mapsto> b)) v = Some x"
  by (auto simp: consistent_binding_def)

lemma store_inv_issue: "store_inv s \<Longrightarrow> store_inv (fst (issue_invitation i s))"
proof (cases rule: issue_cases [of i s])
  case issued
  assume inv: "store_inv s"
  let ?s = "fst (issue_invitation i s)"
  note keep = consistent_binding_update [OF issued(3)]
  have s: "st_decisions ?s = st_decisions s" "st_decisions_by_id ?s = st_decisions_by_id s"
    "st_operations ?s = st_operations s" "st_operation_by_key ?s = st_operation_by_key s"
    "st_bindings ?s = (st_bindings s)(version_of (iv_binding i) \<mapsto> iv_binding i)"
    "st_invitations ?s = AList.update (iv_invitation_id i) i (st_invitations s)"
    "st_token_owner ?s = (st_token_owner s)(iv_token_digest i \<mapsto> iv_invitation_id i)"
    using issued(4) by simp_all
  have "operation_backed ?s r = operation_backed s r" for r by (simp add: operation_backed_def s)
  then have ops: "store_operations_ok ?s" using inv by (simp add: store_inv_def store_operations_ok_def s)
  have "decision_backed ?s d" if "decision_backed s d" for d
    using that keep issued(1) unfolding decision_backed_def s by auto
  then have decs: "store_decisions_ok ?s" using inv by (simp add: store_inv_def store_decisions_ok_def s)
  have "iv_invitation_id j = k \<and> st_token_owner ?s (iv_token_digest j) = Some k \<and>
      st_bindings ?s (version_of (iv_binding j)) = Some (iv_binding j)"
    if "map_of (st_invitations ?s) k = Some j" for k j
  proof (cases "k = iv_invitation_id i")
    case True
    with that have "j = i" by (simp add: s)
    with True show ?thesis unfolding s by simp
  next
    case False
    with that have j: "map_of (st_invitations s) k = Some j" by (simp add: s)
    then have old: "iv_invitation_id j = k" "st_token_owner s (iv_token_digest j) = Some k"
      "st_bindings s (version_of (iv_binding j)) = Some (iv_binding j)"
      using inv by (simp_all add: store_inv_def store_invitations_ok_def)
    with issued(2) have "iv_token_digest j \<noteq> iv_token_digest i" by auto
    with old keep show ?thesis by (simp add: s)
  qed
  moreover have "\<exists>j. map_of (st_invitations ?s) k = Some j \<and> iv_token_digest j = t"
    if "st_token_owner ?s t = Some k" for t k
  proof (cases "t = iv_token_digest i")
    case True
    with that show ?thesis by (simp add: s)
  next
    case False
    with that have "st_token_owner s t = Some k" by (simp add: s)
    then obtain j where "map_of (st_invitations s) k = Some j" "iv_token_digest j = t"
      using inv unfolding store_inv_def store_invitations_ok_def by blast
    with issued(1) show ?thesis by (auto simp: s)
  qed
  moreover have "distinct (map fst (st_invitations ?s))"
    using inv by (simp add: store_inv_def store_invitations_ok_def s distinct_update)
  ultimately have "store_invitations_ok ?s" unfolding store_invitations_ok_def by blast
  with ops decs show ?thesis by (simp add: store_inv_def)
qed simp_all

subsection \<open>Recording\<close>

lemma first_write_None:
  "first_write_error c m s = None \<longleftrightarrow> (\<exists>i. m = Some i \<and> iv_invitation_id i = rd_invitation_id c \<and>
     \<not> invitation_expired i (rd_decided_at c) \<and> consistent_binding s (rd_binding c) \<and> iv_binding i = rd_binding c \<and>
     iv_intended_organization_id i = rd_reviewer_organization_id c \<and> st_decisions s (rd_binding c) = None \<and>
     st_decisions_by_id s (rd_confirmation_id c) = None \<and>
     decision_payload_ok (rd_decision c) (rd_agreement_acknowledged c) (rd_rationale c) \<and>
     decision_record_ok (decision_from_command c) \<and> operation_record_ok (operation_from_command c))"
  by (auto simp: first_write_error_def split: option.splits if_splits)

lemma decision_from_command_simps [simp]:
  "dr_confirmation_id (decision_from_command c) = rd_confirmation_id c"
  "dr_invitation_id (decision_from_command c) = rd_invitation_id c"
  "dr_binding (decision_from_command c) = rd_binding c"
  "dr_request_digest (decision_from_command c) = rd_request_digest c"
  "dr_reviewer_organization_id (decision_from_command c) = rd_reviewer_organization_id c"
  "dr_decided_at (decision_from_command c) = rd_decided_at c"
  by (simp_all add: decision_from_command_def)

lemma operation_from_command_simps [simp]:
  "op_operation_digest (operation_from_command c) = rd_operation_digest c"
  "op_confirmation_id (operation_from_command c) = rd_confirmation_id c"
  "op_request_digest (operation_from_command c) = rd_request_digest c"
  "op_contract_id (operation_from_command c) = bd_contract_id (rd_binding c)"
  "op_contract_version (operation_from_command c) = bd_contract_version (rd_binding c)"
  "op_idempotency_key_digest (operation_from_command c) = rd_idempotency_key_digest c"
  by (simp_all add: operation_from_command_def)

definition recorded_store :: "record_decision_command \<Rightarrow> store \<Rightarrow> store" where
  "recorded_store c s = s\<lparr>st_decisions := (st_decisions s)(rd_binding c \<mapsto> decision_from_command c),
     st_decisions_by_id := (st_decisions_by_id s)(rd_confirmation_id c \<mapsto> decision_from_command c),
     st_operations := (st_operations s)(rd_operation_digest c \<mapsto> operation_from_command c),
     st_operation_by_key := (st_operation_by_key s)(operation_key c \<mapsto> rd_operation_digest c),
     st_bindings := (st_bindings s)(version_of (rd_binding c) \<mapsto> rd_binding c)\<rparr>"

lemma record_cases:
  fixes c :: record_decision_command and s :: store
  obtains (known) r where "st_operations s (rd_operation_digest c) = Some r"
        "record_decision c s = (s, replay_or_conflict c r s)"
    | (refused) e where "st_operations s (rd_operation_digest c) = None" "record_decision c s = (s, Inl e)"
    | (recorded) i where "st_operations s (rd_operation_digest c) = None" "st_operation_by_key s (operation_key c) = None"
        "invitation_for_digest s (rd_token_digest c) = Some i" "first_write_error c (Some i) s = None"
        "record_decision c s = (recorded_store c s, Inr \<lparr>dw_decision = decision_from_command c, dw_replayed = False\<rparr>)"
proof (cases "st_operations s (rd_operation_digest c)")
  case (Some r)
  then show ?thesis by (intro known [of r]) (simp_all add: record_decision_def)
next
  case None
  show ?thesis
  proof (cases "st_operation_by_key s (operation_key c)")
    case (Some k)
    with None show ?thesis by (intro refused [of IdempotencyConflict]) (simp_all add: record_decision_def)
  next
    case unused: None
    show ?thesis
    proof (cases "first_write_error c (invitation_for_digest s (rd_token_digest c)) s")
      case (Some e)
      with None unused show ?thesis by (intro refused [of e]) (simp_all add: record_decision_def)
    next
      case ok: None
      then obtain i where "invitation_for_digest s (rd_token_digest c) = Some i" by (auto simp: first_write_None)
      with None unused ok show ?thesis by (intro recorded [of i]) (simp_all add: record_decision_def recorded_store_def)
    qed
  qed
qed

lemma recorded_store_simps [simp]:
  "st_invitations (recorded_store c s) = st_invitations s"
  "st_token_owner (recorded_store c s) = st_token_owner s"
  "st_bindings (recorded_store c s) = (st_bindings s)(version_of (rd_binding c) \<mapsto> rd_binding c)"
  "st_decisions (recorded_store c s) = (st_decisions s)(rd_binding c \<mapsto> decision_from_command c)"
  "st_decisions_by_id (recorded_store c s) = (st_decisions_by_id s)(rd_confirmation_id c \<mapsto> decision_from_command c)"
  "st_operations (recorded_store c s) = (st_operations s)(rd_operation_digest c \<mapsto> operation_from_command c)"
  "st_operation_by_key (recorded_store c s) = (st_operation_by_key s)(operation_key c \<mapsto> rd_operation_digest c)"
  by (simp_all add: recorded_store_def)

lemma store_inv_recorded:
  assumes inv: "store_inv s" and fresh: "st_operations s (rd_operation_digest c) = None"
    "st_operation_by_key s (operation_key c) = None"
    and found: "invitation_for_digest s (rd_token_digest c) = Some i" and ok: "first_write_error c (Some i) s = None"
  shows "store_inv (recorded_store c s)"
proof -
  let ?s = "recorded_store c s" and ?d = "decision_from_command c"
  have i: "map_of (st_invitations s) (iv_invitation_id i) = Some i"
    using inv found by (simp add: store_inv_def invitation_for_digest_iff)
  have g: "iv_invitation_id i = rd_invitation_id c" "\<not> invitation_expired i (rd_decided_at c)"
    "consistent_binding s (rd_binding c)" "iv_binding i = rd_binding c"
    "iv_intended_organization_id i = rd_reviewer_organization_id c" "st_decisions s (rd_binding c) = None"
    "st_decisions_by_id s (rd_confirmation_id c) = None" "decision_record_ok ?d"
    using ok by (simp_all add: first_write_None)
  note keep = consistent_binding_update [OF g(3)]
  have invs: "store_invitations_ok ?s"
    using inv keep unfolding store_inv_def store_invitations_ok_def recorded_store_simps by blast
  have "decision_backed ?s ?d" using g i by (simp add: decision_backed_def)
  moreover have "decision_backed ?s d" if "decision_backed s d" for d
    using that keep unfolding decision_backed_def by simp
  moreover have "dr_confirmation_id d \<noteq> rd_confirmation_id c" if "st_decisions s b = Some d" for b d
    using inv g(7) that unfolding store_inv_def store_decisions_ok_def by (metis option.distinct(1))
  moreover have "dr_binding d \<noteq> rd_binding c" if "st_decisions_by_id s n = Some d" for n d
    using inv g(6) that unfolding store_inv_def store_decisions_ok_def by (metis option.distinct(1))
  ultimately have decs: "store_decisions_ok ?s"
    using inv unfolding store_inv_def store_decisions_ok_def by auto
  have "st_operation_by_key ?s (op_contract_id r, op_contract_version r, op_idempotency_key_digest r) = Some k \<and>
      op_operation_digest r = k" if "st_operations ?s k = Some r" for k r
  proof (cases "k = rd_operation_digest c")
    case True
    with that show ?thesis by (auto simp: operation_key_def)
  next
    case False
    with that have old: "st_operation_by_key s (op_contract_id r, op_contract_version r, op_idempotency_key_digest r) = Some k"
      "op_operation_digest r = k" using inv by (simp_all add: store_inv_def store_operations_ok_def)
    with fresh(2) have "(op_contract_id r, op_contract_version r, op_idempotency_key_digest r) \<noteq> operation_key c" by auto
    with old show ?thesis by simp
  qed
  moreover have "\<exists>r. st_operations ?s k = Some r \<and> x = (op_contract_id r, op_contract_version r, op_idempotency_key_digest r)"
    if "st_operation_by_key ?s x = Some k" for x k
  proof (cases "x = operation_key c")
    case True
    with that show ?thesis by (auto simp: operation_key_def)
  next
    case False
    with that have "st_operation_by_key s x = Some k" by simp
    then obtain r where "st_operations s k = Some r" "x = (op_contract_id r, op_contract_version r, op_idempotency_key_digest r)"
      using inv unfolding store_inv_def store_operations_ok_def by blast
    with fresh(1) show ?thesis by (intro exI [of _ r]) auto
  qed
  moreover have "operation_backed ?s r" if "st_operations ?s k = Some r" for k r
  proof (cases "k = rd_operation_digest c")
    case True
    with that show ?thesis by (auto simp: operation_backed_def)
  next
    case False
    with that have "operation_backed s r" using inv by (simp add: store_inv_def store_operations_ok_def)
    then show ?thesis using g(7) unfolding operation_backed_def by auto
  qed
  ultimately have "store_operations_ok ?s" unfolding store_operations_ok_def by blast
  with invs decs show ?thesis by (simp add: store_inv_def)
qed

lemma store_inv_record: "store_inv s \<Longrightarrow> store_inv (fst (record_decision c s))"
  by (cases rule: record_cases [of s c]) (auto intro: store_inv_recorded)

lemma store_inv_step: "store_inv s \<Longrightarrow> store_inv (store_step c s)"
  by (cases c) (simp_all add: store_inv_issue store_inv_record)

text \<open>What is stored stays stored: invitations, decisions, and the memory of operations.\<close>

lemma store_step_keeps:
  assumes "store_inv s"
  shows "map_of (st_invitations s) k = Some i \<Longrightarrow> map_of (st_invitations (store_step c s)) k = Some i"
    and "st_decisions s b = Some d \<Longrightarrow> st_decisions (store_step c s) b = Some d"
    and "st_decisions_by_id s n = Some d \<Longrightarrow> st_decisions_by_id (store_step c s) n = Some d"
    and "st_operations s x = Some r \<Longrightarrow> st_operations (store_step c s) x = Some r"
proof -
  have "map_of (st_invitations s) k = Some i \<longrightarrow> map_of (st_invitations (store_step c s)) k = Some i"
    "st_decisions s b = Some d \<longrightarrow> st_decisions (store_step c s) b = Some d"
    "st_decisions_by_id s n = Some d \<longrightarrow> st_decisions_by_id (store_step c s) n = Some d"
    "st_operations s x = Some r \<longrightarrow> st_operations (store_step c s) x = Some r"
  proof (induction c)
    case (IssueInvitation j)
    { case 1 show ?case by (cases rule: issue_cases [of j s]) auto }
    { case 2 show ?case by (cases rule: issue_cases [of j s]) auto }
    { case 3 show ?case by (cases rule: issue_cases [of j s]) auto }
    { case 4 show ?case by (cases rule: issue_cases [of j s]) auto }
  next
    case (RecordDecision q)
    { case 1 show ?case by (cases rule: record_cases [of s q]) auto }
    { case 2 show ?case by (cases rule: record_cases [of s q]) (auto simp: first_write_None) }
    { case 3 show ?case by (cases rule: record_cases [of s q]) (auto simp: first_write_None) }
    { case 4 show ?case by (cases rule: record_cases [of s q]) auto }
  qed
  then show "map_of (st_invitations s) k = Some i \<Longrightarrow> map_of (st_invitations (store_step c s)) k = Some i"
    "st_decisions s b = Some d \<Longrightarrow> st_decisions (store_step c s) b = Some d"
    "st_decisions_by_id s n = Some d \<Longrightarrow> st_decisions_by_id (store_step c s) n = Some d"
    "st_operations s x = Some r \<Longrightarrow> st_operations (store_step c s) x = Some r" by blast+
qed

subsection \<open>Interpretation: the replay contract\<close>

text \<open>
  A logical decision is its operation digest and the request fields that a replay compares; the
  confirmation identifier, the display name and the decision time are circumstances of one attempt.
\<close>

type_synonym decision_env = "string \<times> string \<times> py_datetime"

fun decision_attempt :: "operation_digest \<Rightarrow> record_decision_command \<Rightarrow> decision_env \<Rightarrow> record_decision_command" where
  "decision_attempt k c (cid, name, now) = c\<lparr>rd_operation_digest := k, rd_confirmation_id := cid,
     rd_reviewer_display_name := name, rd_decided_at := now\<rparr>"

definition decision_exec :: "operation_digest \<Rightarrow> record_decision_command \<Rightarrow> decision_env \<Rightarrow> decision_write store_act" where
  "decision_exec k c env = record_decision (decision_attempt k c env)"

definition decision_fp where
  "decision_fp c = (rd_idempotency_key_digest c, rd_token_digest c, rd_invitation_id c, rd_binding c,
     (rd_reviewer_issuer c, rd_reviewer_subject c, rd_reviewer_organization_id c),
     (rd_decision c, rd_agreement_acknowledged c, rd_rationale c, rd_request_digest c))"

definition known_fp where
  "known_fp s r = (let d = the (st_decisions_by_id s (op_confirmation_id r)) in
     (op_idempotency_key_digest r, iv_token_digest (the (map_of (st_invitations s) (dr_invitation_id d))),
      dr_invitation_id d, dr_binding d,
      (dr_reviewer_issuer d, dr_reviewer_subject d, dr_reviewer_organization_id d),
      (dr_decision d, dr_agreement_acknowledged d, dr_rationale d, dr_request_digest d)))"

definition decision_seen where
  "decision_seen s k = map_option (known_fp s) (st_operations s k)"

definition decision_replay :: "store \<Rightarrow> operation_digest \<Rightarrow> decision_write" where
  "decision_replay s k = \<lparr>dw_decision = the (st_decisions_by_id s (op_confirmation_id (the (st_operations s k)))),
     dw_replayed = True\<rparr>"

definition decision_mark :: "decision_write \<Rightarrow> decision_write" where
  "decision_mark w = w\<lparr>dw_replayed := True\<rparr>"

lemma decision_attempt_simps [simp]:
  "rd_operation_digest (decision_attempt k c env) = k"
  "rd_binding (decision_attempt k c env) = rd_binding c"
  "rd_token_digest (decision_attempt k c env) = rd_token_digest c"
  "operation_key (decision_attempt k c env) = operation_key c"
  "decision_fp (decision_attempt k c env) = decision_fp c"
  by (cases env; simp add: operation_key_def decision_fp_def)+

text \<open>An operation that is known has its decision and its invitation.\<close>

lemma operation_known:
  assumes "store_inv s" and "st_operations s k = Some r"
  obtains d i where "st_decisions_by_id s (op_confirmation_id r) = Some d"
    and "map_of (st_invitations s) (dr_invitation_id d) = Some i" and "dr_request_digest d = op_request_digest r"
    and "op_contract_id r = bd_contract_id (dr_binding d)" and "op_contract_version r = bd_contract_version (dr_binding d)"
proof -
  have "operation_backed s r" using assms by (simp add: store_inv_def store_operations_ok_def)
  then obtain d where d: "st_decisions_by_id s (op_confirmation_id r) = Some d" "dr_request_digest d = op_request_digest r"
    "op_contract_id r = bd_contract_id (dr_binding d)" "op_contract_version r = bd_contract_version (dr_binding d)"
    by (auto simp: operation_backed_def)
  then have "decision_backed s d" using assms(1) unfolding store_inv_def store_decisions_ok_def by blast
  with d that show thesis by (auto simp: decision_backed_def)
qed

lemma replay_or_conflict_known:
  assumes "store_inv s" and "st_operations s k = Some r"
  shows "replay_or_conflict c r s = (if known_fp s r = decision_fp c then Inr (decision_replay s k) else Inl IdempotencyConflict)"
proof (rule operation_known [OF assms])
  fix d i
  assume d: "st_decisions_by_id s (op_confirmation_id r) = Some d" "map_of (st_invitations s) (dr_invitation_id d) = Some i"
    "dr_request_digest d = op_request_digest r" "op_contract_id r = bd_contract_id (dr_binding d)"
    "op_contract_version r = bd_contract_version (dr_binding d)"
  have "(op_contract_id r = bd_contract_id (rd_binding c) \<and> op_contract_version r = bd_contract_version (rd_binding c) \<and>
      op_idempotency_key_digest r = rd_idempotency_key_digest c \<and> op_request_digest r = rd_request_digest c) \<and>
      iv_token_digest i = rd_token_digest c \<and> same_request d c \<longleftrightarrow> known_fp s r = decision_fp c"
    using d by (auto simp: known_fp_def decision_fp_def same_request_def Let_def)
  then show ?thesis using d assms(2)
    by (auto simp: replay_or_conflict_def decision_replay_def)
qed

lemma known_fp_step:
  assumes "store_inv s" and "st_operations s k = Some r"
  shows "known_fp (store_step c s) r = known_fp s r" and "decision_replay (store_step c s) k = decision_replay s k"
proof -
  from operation_known [OF assms] obtain d i where d: "st_decisions_by_id s (op_confirmation_id r) = Some d"
    "map_of (st_invitations s) (dr_invitation_id d) = Some i" by metis
  note keeps = store_step_keeps [OF assms(1), where c = c]
  have "st_decisions_by_id (store_step c s) (op_confirmation_id r) = Some d"
    "map_of (st_invitations (store_step c s)) (dr_invitation_id d) = Some i" "st_operations (store_step c s) k = Some r"
    using d assms(2) by (auto intro: keeps simp del: map_of_eq_Some_iff)
  with d assms(2) show "known_fp (store_step c s) r = known_fp s r" "decision_replay (store_step c s) k = decision_replay s k"
    by (simp_all add: known_fp_def decision_replay_def Let_def)
qed

lemma recorded_seen:
  assumes inv: "store_inv s" and "invitation_for_digest s (rd_token_digest c) = Some i"
    and "first_write_error c (Some i) s = None"
  shows "decision_seen (recorded_store c s) (rd_operation_digest c) = Some (decision_fp c)"
    and "decision_replay (recorded_store c s) (rd_operation_digest c) = \<lparr>dw_decision = decision_from_command c, dw_replayed = True\<rparr>"
proof -
  have i: "map_of (st_invitations s) (iv_invitation_id i) = Some i" "iv_token_digest i = rd_token_digest c"
    using inv assms(2) by (simp_all add: store_inv_def invitation_for_digest_iff)
  moreover have "iv_invitation_id i = rd_invitation_id c" using assms(3) by (simp add: first_write_None)
  ultimately show "decision_seen (recorded_store c s) (rd_operation_digest c) = Some (decision_fp c)"
    by (simp add: decision_seen_def known_fp_def decision_fp_def Let_def) (simp add: decision_from_command_def)
  show "decision_replay (recorded_store c s) (rd_operation_digest c) = \<lparr>dw_decision = decision_from_command c, dw_replayed = True\<rparr>"
    by (simp add: decision_replay_def)
qed

interpretation deciding: stable_replay_service store_step store_inv decision_exec "\<lambda>c. True" decision_fp
  decision_seen decision_replay IdempotencyConflict decision_mark
proof
  fix s k q env s' r c f
  show "store_inv s \<Longrightarrow> store_inv (store_step c s)" by (rule store_inv_step)
  show "store_inv s \<Longrightarrow> store_inv (fst (decision_exec k q env s))" by (simp add: decision_exec_def store_inv_record)
  show "store_inv s \<Longrightarrow> decision_seen s k = None \<Longrightarrow> decision_exec k q env s = (s', Inr r) \<Longrightarrow> decision_seen s' k = Some (decision_fp q)"
    unfolding decision_exec_def
    by (cases rule: record_cases [of s "decision_attempt k q env"])
       (use recorded_seen [of s "decision_attempt k q env"] in \<open>auto simp: decision_seen_def\<close>)
  show "store_inv s \<Longrightarrow> decision_seen s k = Some (decision_fp q) \<Longrightarrow> decision_exec k q env s = (s, Inr (decision_replay s k))"
    using replay_or_conflict_known [of s k _ "decision_attempt k q env"]
    by (auto simp: decision_seen_def decision_exec_def record_decision_def)
  show "store_inv s \<Longrightarrow> decision_seen s k = Some f \<Longrightarrow> f \<noteq> decision_fp q \<Longrightarrow> decision_exec k q env s = (s, Inl IdempotencyConflict)"
    using replay_or_conflict_known [of s k _ "decision_attempt k q env"]
    by (auto simp: decision_seen_def decision_exec_def record_decision_def)
  show "store_inv s \<Longrightarrow> decision_seen s k = Some f \<Longrightarrow> decision_seen (store_step c s) k = Some f"
    using known_fp_step(1) store_step_keeps(4) by (fastforce simp: decision_seen_def)
  show "store_inv s \<Longrightarrow> decision_seen s k = Some f \<Longrightarrow> decision_replay (store_step c s) k = decision_replay s k"
    using known_fp_step(2) by (fastforce simp: decision_seen_def)
  show "store_inv s \<Longrightarrow> decision_seen s k = None \<Longrightarrow> decision_exec k q env s = (s', Inr r) \<Longrightarrow> decision_replay s' k = decision_mark r"
    unfolding decision_exec_def
    by (cases rule: record_cases [of s "decision_attempt k q env"])
       (use recorded_seen [of s "decision_attempt k q env"] in \<open>auto simp: decision_seen_def decision_mark_def\<close>)
  show "decision_mark (decision_replay s k) = decision_replay s k" by (simp add: decision_mark_def decision_replay_def)
qed simp

lemma store_reached: "store_inv (fold store_step ops empty_store)"
  by (rule deciding.inv_run [OF store_inv_empty])

lemma store_run_decisions:
  assumes "store_inv s" and "st_decisions s b = Some d"
  shows "st_decisions (fold store_step ops s) b = Some d"
  by (rule deciding.run_keeps [where P = "\<lambda>t. st_decisions t b = Some d"]) (auto intro: store_step_keeps(2) assms)

lemma store_run_invitations:
  assumes "store_inv s" and "map_of (st_invitations s) k = Some i"
  shows "map_of (st_invitations (fold store_step ops s)) k = Some i"
  by (rule deciding.run_keeps [where P = "\<lambda>t. map_of (st_invitations t) k = Some i"])
     (auto intro: store_step_keeps(1) assms simp del: map_of_eq_Some_iff)

subsection \<open>Safe metadata and audit events\<close>

lemma metadata_scan_iff:
  "metadata_scan seen xs \<longleftrightarrow> distinct (map fst xs) \<and> set (map fst xs) \<inter> set seen = {} \<and>
     (\<forall>(k, v) \<in> set xs. metadata_key_ok k \<and> metadata_value_ok k v)"
  by (induction seen xs rule: metadata_scan.induct) auto

lemma metadata_perm:
  assumes "mset xs = mset ys"
  shows "canonical_safe_metadata xs = canonical_safe_metadata ys"
proof -
  have set: "set xs = set ys" and "mset (map fst xs) = mset (map fst ys)"
    using assms by (auto dest: mset_eq_setD)
  then have "distinct (map fst xs) = distinct (map fst ys)" by (metis mset_eq_imp_distinct_iff)
  moreover have "metadata_scan [] xs \<Longrightarrow> map_of xs = map_of ys"
    using set calculation by (auto simp: metadata_scan_iff map_of_inject_set)
  moreover have "xs = [] \<longleftrightarrow> ys = []" using set by auto
  moreover have "sort xs = sort ys" using assms by (metis properties_for_sort mset_sort sorted_sort)
  ultimately show ?thesis using set by (auto simp: canonical_safe_metadata_def metadata_scan_iff)
qed

subsection \<open>A store to evaluate on\<close>

definition demo_binding :: contract_binding where
  "demo_binding = \<lparr>bd_contract_id = ''acme-poc'', bd_contract_version = ''1'', bd_fingerprint = replicate 64 (CHR ''0'')\<rparr>"

definition demo_invitation :: invitation where
  "demo_invitation = \<lparr>iv_invitation_id = ''review-1'', iv_binding = demo_binding, iv_token_digest = TokenDigest ''t'',
     iv_token_digest_version = ''v1'', iv_intended_organization_id = ''acme'', iv_issued_by_subject = ''ops'',
     iv_issued_at = Aware 0 0, iv_expires_at = Aware 100 0\<rparr>"

definition demo_decision_id :: string where
  "demo_decision_id = ''cnf_'' @ replicate 64 (CHR ''0'')"

definition demo_command :: record_decision_command where
  "demo_command = \<lparr>rd_operation_digest = OperationDigest ''o'', rd_idempotency_key_digest = IdempotencyKeyDigest ''k'',
     rd_request_digest = RequestDigest ''q'', rd_token_digest = TokenDigest ''t'', rd_confirmation_id = demo_decision_id,
     rd_invitation_id = ''review-1'', rd_binding = demo_binding, rd_reviewer_issuer = ''iss'', rd_reviewer_subject = ''sub'',
     rd_reviewer_organization_id = ''acme'', rd_reviewer_display_name = ''Ann'', rd_decision = CONFIRM,
     rd_agreement_acknowledged = True, rd_rationale = ''fine'', rd_decided_at = Aware 5 0\<rparr>"

definition demo_store :: store where
  "demo_store = fold store_step [IssueInvitation demo_invitation] empty_store"

lemma demo_payload: "confirmation_id_ok demo_decision_id" "non_empty_ok ''acme''" "non_empty_ok ''iss''" "non_empty_ok ''sub''"
  "non_empty_ok ''Ann''" "non_empty_ok ''acme-poc''" "non_empty_ok ''1''" "invitation_id_ok ''review-1''"
  "decision_payload_ok CONFIRM True ''fine''"
  by code_simp+

lemma demo_store_lookup:
  "st_operations demo_store = (\<lambda>k. None)" "st_operation_by_key demo_store = (\<lambda>k. None)"
  "st_decisions demo_store = (\<lambda>b. None)" "st_decisions_by_id demo_store = (\<lambda>b. None)"
  "st_invitations demo_store = [(''review-1'', demo_invitation)]"
  "st_bindings demo_store (version_of demo_binding) = Some demo_binding"
  "st_token_owner demo_store (TokenDigest ''t'') = Some ''review-1''"
  by (simp_all add: demo_store_def issue_invitation_def empty_store_def consistent_binding_def)
     (simp_all add: demo_invitation_def)

lemma demo_command_accepted:
  "record_decision demo_command demo_store =
     (recorded_store demo_command demo_store, Inr \<lparr>dw_decision = decision_from_command demo_command, dw_replayed = False\<rparr>)"
proof -
  have found: "invitation_for_digest demo_store (rd_token_digest demo_command) = Some demo_invitation"
    by (simp add: invitation_for_digest_def demo_store_lookup) (simp add: demo_invitation_def demo_command_def)
  have "first_write_error demo_command (Some demo_invitation) demo_store = None"
    unfolding first_write_None
    by (simp add: demo_command_def demo_invitation_def demo_store_lookup invitation_expired_def consistent_binding_def
        demo_payload decision_record_ok_def operation_record_ok_def decision_from_command_def operation_from_command_def)
       (simp add: demo_payload demo_binding_def)
  then show ?thesis by (simp add: record_decision_def demo_store_lookup found recorded_store_def)
qed

subsection \<open>Properties of the store\<close>

text \<open>
  C13. A contract version gets at most one terminal decision: in every reachable store two decisions
  whose bindings share the contract id and version are the same decision of the same fingerprint,
  and no later operation replaces or removes it.
\<close>
theorem one_decision_per_version:
  assumes "s = fold store_step ops empty_store" and "st_decisions s b = Some d" and "st_decisions s b' = Some d'"
    and "version_of b = version_of b'"
  shows "b = b' \<and> d = d' \<and> get_decision b (fold store_step later s) = Some d"
proof -
  have inv: "store_inv s" unfolding assms(1) by (rule store_reached)
  then have "decision_backed s d" "dr_binding d = b" "decision_backed s d'" "dr_binding d' = b'"
    using assms(2,3) by (auto simp: store_inv_def store_decisions_ok_def)
  with assms(4) have "b = b'" by (simp add: decision_backed_def)
  with store_run_decisions [OF inv assms(2), of later] assms(2,3) show ?thesis by (simp add: get_decision_def)
qed

theorem one_decision_per_version_witness:
  "get_decision demo_binding (store_step (RecordDecision demo_command) demo_store) = Some (decision_from_command demo_command)"
proof -
  have "store_step (RecordDecision demo_command) demo_store =
      fold store_step [IssueInvitation demo_invitation, RecordDecision demo_command] empty_store"
    by (simp add: demo_store_def)
  moreover have "rd_binding demo_command = demo_binding" by (simp add: demo_command_def)
  then have "st_decisions (store_step (RecordDecision demo_command) demo_store) demo_binding = Some (decision_from_command demo_command)"
    by (simp add: demo_command_accepted)
  ultimately show ?thesis using one_decision_per_version [where later = "[]"] by fastforce
qed

text \<open>
  C14. A newly recorded decision is authorised: the presented token digest is that of a stored
  invitation with the command's identifier, binding and organisation, not expired at decision
  time; no decision existed for the binding; a confirmation is acknowledged and a change request
  gives a reason; and the decision is what the store returns for the binding from then on.
\<close>
theorem decision_authorised:
  assumes "s = fold store_step ops empty_store" and "record_decision c s = (s', Inr w)" and "\<not> dw_replayed w"
  shows "\<exists>i. get_invitation (rd_invitation_id c) s = Some i \<and> iv_token_digest i = rd_token_digest c \<and>
    iv_binding i = rd_binding c \<and> iv_intended_organization_id i = rd_reviewer_organization_id c \<and>
    instant (rd_decided_at c) < instant (iv_expires_at i) \<and> get_decision (rd_binding c) s = None \<and>
    (rd_decision c = CONFIRM \<longrightarrow> rd_agreement_acknowledged c) \<and>
    (rd_decision c = REQUEST_CHANGES \<longrightarrow> py_strip (rd_rationale c) \<noteq> []) \<and>
    dw_decision w = decision_from_command c \<and>
    get_decision (rd_binding c) (fold store_step later s') = Some (dw_decision w)"
proof -
  have inv: "store_inv s" unfolding assms(1) by (rule store_reached)
  show ?thesis
  proof (cases rule: record_cases [of s c])
    case (known r)
    with assms(2,3) replay_or_conflict_known [OF inv known(1), of c] show ?thesis
      by (auto simp: decision_replay_def split: if_splits)
  next
    case (recorded i)
    have i: "map_of (st_invitations s) (iv_invitation_id i) = Some i" "iv_token_digest i = rd_token_digest c"
      using inv recorded(3) by (simp_all add: store_inv_def invitation_for_digest_iff)
    have s': "s' = recorded_store c s" "dw_decision w = decision_from_command c" using recorded(5) assms(2) by auto
    have "store_inv s'" using store_inv_record [OF inv, of c] assms(2) by simp
    then have "get_decision (rd_binding c) (fold store_step later s') = Some (dw_decision w)"
      unfolding get_decision_def by (rule store_run_decisions) (simp add: s')
    with i s' recorded(4) show ?thesis
      by (auto simp: first_write_None get_invitation_def get_decision_def invitation_expired_def decision_payload_ok_def
          split: if_splits)
  qed (use assms in simp)
qed

theorem decision_authorised_witness:
  "\<exists>s' w. record_decision demo_command demo_store = (s', Inr w) \<and> get_invitation ''review-1'' demo_store \<noteq> None"
  using decision_authorised [OF demo_store_def demo_command_accepted, of "[]"] demo_command_accepted
  by (auto simp: demo_command_def)

text \<open>
  A decision is recorded once: repeating it under its operation digest, whatever the clock,
  the display name and the fresh confirmation identifier are then and whatever happened since,
  leaves the store alone and returns the original record as a replay; a request that differs in
  a compared field is refused as a conflict.
\<close>
theorem decision_replayed:
  assumes "s = fold store_step before empty_store" and "decision_exec k c env s = (s1, Inr w)"
    and "s2 = fold store_step after s1"
  shows "decision_exec k c env' s2 = (s2, Inr (w\<lparr>dw_replayed := True\<rparr>)) \<and>
    (decision_fp c' \<noteq> decision_fp c \<longrightarrow> decision_exec k c' env' s2 = (s2, Inl IdempotencyConflict))"
proof -
  have inv: "store_inv s" unfolding assms(1) by (rule store_reached)
  from deciding.same_answer_after [OF inv assms(2)] deciding.conflict_after [OF inv assms(2)]
  show ?thesis unfolding assms(3) decision_mark_def by blast
qed

theorem decision_replayed_witness:
  "decision_exec (OperationDigest ''o'') demo_command (''other'', ''Bob'', Aware 99 0) (recorded_store demo_command demo_store) =
     (recorded_store demo_command demo_store, Inr \<lparr>dw_decision = decision_from_command demo_command, dw_replayed = True\<rparr>)"
proof -
  have "decision_attempt (OperationDigest ''o'') demo_command (demo_decision_id, ''Ann'', Aware 5 0) = demo_command"
    by (simp add: demo_command_def)
  then have "decision_exec (OperationDigest ''o'') demo_command (demo_decision_id, ''Ann'', Aware 5 0) demo_store =
      (recorded_store demo_command demo_store, Inr \<lparr>dw_decision = decision_from_command demo_command, dw_replayed = False\<rparr>)"
    using demo_command_accepted by (simp add: decision_exec_def)
  from decision_replayed [OF demo_store_def this, of _ "[]" "(''other'', ''Bob'', Aware 99 0)"] show ?thesis by simp
qed

text \<open>
  A review capability lives from issue to decision or expiry: at a UTC time a token resolves to
  an invitation exactly when this invitation is stored under it, its binding is undecided and it
  has not expired; once its binding is decided, resolving it fails as consumed for ever.
\<close>

theorem capability_life:
  assumes "s = fold store_step ops empty_store" and "dt_utc now"
  shows "(resolve_invitation t now s = Inr (Some i) \<longleftrightarrow> get_invitation (iv_invitation_id i) s = Some i \<and>
      iv_token_digest i = t \<and> get_decision (iv_binding i) s = None \<and> instant now < instant (iv_expires_at i)) \<and>
    (get_invitation (iv_invitation_id i) s = Some i \<and> iv_token_digest i = t \<and> get_decision (iv_binding i) s \<noteq> None \<longrightarrow>
      resolve_invitation t now (fold store_step later s) = Inl InvitationConsumed)"
proof -
  have inv: "store_inv s" unfolding assms(1) by (rule store_reached)
  have invs: "store_invitations_ok s" using inv by (simp add: store_inv_def)
  have "resolve_invitation t now s = Inr (Some i) \<longleftrightarrow> invitation_for_digest s t = Some i \<and>
      st_decisions s (iv_binding i) = None \<and> \<not> invitation_expired i now"
    using assms(2) by (auto simp: resolve_invitation_def split: option.splits)
  then have first: "resolve_invitation t now s = Inr (Some i) \<longleftrightarrow> get_invitation (iv_invitation_id i) s = Some i \<and>
      iv_token_digest i = t \<and> get_decision (iv_binding i) s = None \<and> instant now < instant (iv_expires_at i)"
    by (auto simp: invitation_for_digest_iff [OF invs] get_invitation_def get_decision_def invitation_expired_def)
  have "resolve_invitation t now (fold store_step later s) = Inl InvitationConsumed"
    if i: "map_of (st_invitations s) (iv_invitation_id i) = Some i" "iv_token_digest i = t"
      and d: "st_decisions s (iv_binding i) = Some d" for d
  proof -
    have "store_invitations_ok (fold store_step later s)"
      using deciding.inv_run [OF inv, of later] by (simp add: store_inv_def)
    then have "invitation_for_digest (fold store_step later s) t = Some i"
      using store_run_invitations [OF inv i(1), of later] i(2) by (simp add: invitation_for_digest_iff)
    with store_run_decisions [OF inv d, of later] assms(2) show ?thesis by (simp add: resolve_invitation_def)
  qed
  with first show ?thesis by (auto simp: get_invitation_def get_decision_def)
qed

theorem capability_life_witness:
  "resolve_invitation (TokenDigest ''t'') (Aware 7 0) demo_store = Inr (Some demo_invitation)"
  using capability_life [OF demo_store_def, of "Aware 7 0" "TokenDigest ''t''" demo_invitation]
  by (simp add: get_invitation_def get_decision_def demo_store_lookup) (simp add: demo_invitation_def)

text \<open>
  The safe metadata of an audit event has one canonical form: what it is built to is sorted,
  names each allowed field at most once, is its own canonical form, and is reached from the same
  pairs in any order.
\<close>
theorem safe_metadata_canonical:
  assumes "canonical_safe_metadata xs = Inr m"
  shows "sorted m \<and> distinct (map fst m) \<and> (\<forall>(k, v) \<in> set m. metadata_key_ok k \<and> metadata_value_ok k v) \<and>
    canonical_safe_metadata m = Inr m \<and> (mset ys = mset xs \<longrightarrow> canonical_safe_metadata ys = Inr m)"
proof -
  have m: "m = sort xs" "metadata_scan [] xs" using assms by (auto simp: canonical_safe_metadata_def split: if_splits)
  have "mset m = mset xs" by (simp add: m)
  then have "canonical_safe_metadata m = Inr m" using metadata_perm assms by metis
  moreover have "distinct (map fst m)" using m by (metis \<open>mset m = mset xs\<close> metadata_scan_iff mset_eq_imp_distinct_iff mset_map)
  ultimately show ?thesis using m metadata_perm [of ys xs] assms by (auto simp: metadata_scan_iff)
qed

theorem safe_metadata_canonical_witness:
  "canonical_safe_metadata [(''schema_version'', ''1''), (''adapter_name'', ''sqlite'')] =
     canonical_safe_metadata [(''adapter_name'', ''sqlite''), (''schema_version'', ''1'')]"
proof -
  have "canonical_safe_metadata [(''schema_version'', ''1''), (''adapter_name'', ''sqlite'')] =
      Inr (sort [(''schema_version'', ''1''), (''adapter_name'', ''sqlite'')])"
    by (simp add: canonical_safe_metadata_def metadata_key_ok_def metadata_value_ok_def)
  from safe_metadata_canonical [OF this, of "[(''adapter_name'', ''sqlite''), (''schema_version'', ''1'')]"] this
  show ?thesis by (simp del: sort_key_simps)
qed

end
