(* ===== verification/Workspace.thy ===== *)
theory Workspace
  imports Contracts
begin

section \<open>The POC workspace projections (workspace.py)\<close>

text \<open>
  The dashboard owns no authority: from the facts the domain services report about a POC it derives
  the phase, the next human action, what blocks it and the evidence summary, and orders the POCs.
  Every branch and message of \<open>_state_blockers\<close> and \<open>_derive_action\<close> is a branch here.
\<close>

subsection \<open>Models\<close>

datatype archive_state = ARCHIVE_ACTIVE | ARCHIVE_COMPLETED | ARCHIVE_ARCHIVED

datatype workspace_phase = DEFINE | PROVE | DECIDE

datatype source_type = SRC_EMAIL | SRC_MEETING_TRANSCRIPT | SRC_NOTE | SRC_DOCUMENT | SRC_EXISTING_CONTRACT

datatype dashboard_filter = FILTER_ACTIVE | FILTER_NEEDS_ATTENTION | FILTER_COMPLETED

datatype workspace_action = ADD_SOURCE | REVIEW_PROPOSALS | DEFINE_CRITERIA | PREPARE_AGREEMENT
  | CREATE_CUSTOMER_REVIEW | WAIT_FOR_CUSTOMER | START_REVISION | FREEZE_CONFIRMED_CONTRACT | RUN_POC
  | SELECT_EXTERNAL_EVIDENCE | WAIT_FOR_PROOF | RERUN_POC | REVIEW_EVIDENCE | RECORD_DECISION_HANDOFF
  | RESOLVE_BLOCKER | NO_ACTION

datatype evidence_state = NOT_RUN | EVIDENCE verdict_status

datatype run_status = RUN_QUEUED | RUN_VALIDATING | RUN_RUNNING | RUN_AGGREGATING | RUN_COMPLETED
  | RUN_BLOCKED | RUN_FAILED_INTERNAL | RUN_CANCELLED

record registry_entry =
  re_poc_id :: string
  re_display_name :: string
  re_customer_label :: string
  re_use_case :: string
  re_owner :: string
  re_created_at :: py_datetime
  re_updated_at :: py_datetime
  re_archive_state :: archive_state

definition text_between :: "nat \<Rightarrow> nat \<Rightarrow> string \<Rightarrow> bool" where
  "text_between lo hi t \<longleftrightarrow> lo \<le> length t \<and> length t \<le> hi"

definition registry_entry_ok :: "registry_entry \<Rightarrow> bool" where
  "registry_entry_ok r \<longleftrightarrow> poc_id_ok (re_poc_id r) \<and> text_between 1 160 (re_display_name r) \<and>
     text_between 1 160 (re_customer_label r) \<and> text_between 1 500 (re_use_case r) \<and>
     text_between 1 160 (re_owner r) \<and> dt_aware (re_created_at r) \<and> dt_aware (re_updated_at r) \<and>
     \<not> instant (re_updated_at r) < instant (re_created_at r)"

record workflow_facts =
  wf_state_available :: bool
  wf_source_count :: nat
  wf_source_types :: "source_type list"
  wf_current_proposal_count :: nat
  wf_pending_draft_count :: nat
  wf_kept_proposal_count :: nat
  wf_defined_criterion_count :: nat
  wf_approved_criterion_count :: nat
  wf_active_contract_id :: "string option"
  wf_active_contract_version :: "string option"
  wf_contract_status :: "contract_status option"
  wf_customer_review_issued :: bool
  wf_customer_decision :: "confirmation_decision option"
  wf_confirmation_matches :: "bool option"
  wf_revision_requested :: bool
  wf_run_status :: "run_status option"
  wf_verdict :: "verdict_status option"
  wf_verdict_reason :: "string option"
  wf_evidence_pack_url :: "string option"
  wf_action_since :: "py_datetime option"

definition workflow_facts_ok :: "workflow_facts \<Rightarrow> bool" where
  "workflow_facts_ok f \<longleftrightarrow>
     (case wf_active_contract_id f of None \<Rightarrow> True | Some i \<Rightarrow> contract_id_ok i) \<and>
     (case wf_active_contract_version f of None \<Rightarrow> True | Some v \<Rightarrow> text_between 1 100 v) \<and>
     (case wf_evidence_pack_url f of None \<Rightarrow> True | Some u \<Rightarrow> length u \<le> 500) \<and>
     distinct (wf_source_types f) \<and>
     (case wf_action_since f of None \<Rightarrow> True | Some d \<Rightarrow> dt_aware d) \<and>
     wf_defined_criterion_count f \<le> wf_kept_proposal_count f"

text \<open>\<open>POCWorkflowFacts(state_available=False)\<close>\<close>

definition unavailable_facts :: workflow_facts where
  "unavailable_facts = \<lparr>wf_state_available = False, wf_source_count = 0, wf_source_types = [],
     wf_current_proposal_count = 0, wf_pending_draft_count = 0, wf_kept_proposal_count = 0,
     wf_defined_criterion_count = 0, wf_approved_criterion_count = 0, wf_active_contract_id = None,
     wf_active_contract_version = None, wf_contract_status = None, wf_customer_review_issued = False,
     wf_customer_decision = None, wf_confirmation_matches = None, wf_revision_requested = False,
     wf_run_status = None, wf_verdict = None, wf_verdict_reason = None, wf_evidence_pack_url = None,
     wf_action_since = None\<rparr>"

record source_summary =
  ss_count :: nat
  ss_types :: "source_type list"
  ss_label :: string

record workspace_blocker =
  wb_code :: string
  wb_message :: string

record evidence_summary =
  es_status :: evidence_state
  es_reason :: "string option"
  es_report_url :: "string option"

record poc_projection =
  pp_poc_id :: string
  pp_display_name :: string
  pp_customer_label :: string
  pp_use_case :: string
  pp_owner :: string
  pp_created_at :: py_datetime
  pp_updated_at :: py_datetime
  pp_archive_state :: archive_state
  pp_active_contract_id :: "string option"
  pp_active_contract_version :: "string option"
  pp_source_summary :: source_summary
  pp_current_proposal_count :: nat
  pp_derived_phase :: workspace_phase
  pp_next_action :: workspace_action
  pp_next_human_action :: string
  pp_blockers :: "workspace_blocker list"
  pp_evidence :: evidence_summary
  pp_attention_required :: bool
  pp_action_since :: py_datetime

record dashboard =
  db_selected_filter :: dashboard_filter
  db_available_filters :: "dashboard_filter list"
  db_continue_working :: "poc_projection option"
  db_pocs :: "poc_projection list"

datatype workspace_error = UnknownPocs "string list" | DuplicateRegistryId

subsection \<open>Blockers\<close>

definition in_progress_run_states :: "run_status set" where
  "in_progress_run_states = {RUN_QUEUED, RUN_VALIDATING, RUN_RUNNING, RUN_AGGREGATING}"

definition terminal_run_states :: "run_status set" where
  "terminal_run_states = {RUN_COMPLETED, RUN_BLOCKED, RUN_FAILED_INTERNAL, RUN_CANCELLED}"

definition wait_actions :: "workspace_action set" where
  "wait_actions = {WAIT_FOR_CUSTOMER, WAIT_FOR_PROOF, NO_ACTION}"

definition blocker :: "string \<Rightarrow> string \<Rightarrow> workspace_blocker" where
  "blocker code message = \<lparr>wb_code = code, wb_message = message\<rparr>"

text \<open>A run of \<open>if condition: add(code, message)\<close>.\<close>

fun collect :: "(bool \<times> 'b) list \<Rightarrow> 'b list" where
  "collect [] = []"
| "collect ((c, b) # rest) = (if c then b # collect rest else collect rest)"

definition contract_identity_missing :: "workflow_facts \<Rightarrow> bool" where
  "contract_identity_missing f \<longleftrightarrow> wf_active_contract_id f = None \<or> wf_active_contract_version f = None \<or>
     wf_contract_status f = None"

definition contract_identity_present :: "workflow_facts \<Rightarrow> bool" where
  "contract_identity_present f \<longleftrightarrow> wf_active_contract_id f \<noteq> None \<or> wf_active_contract_version f \<noteq> None \<or>
     wf_contract_status f \<noteq> None"

definition customer_state_exists :: "workflow_facts \<Rightarrow> bool" where
  "customer_state_exists f \<longleftrightarrow> wf_customer_review_issued f \<or> wf_customer_decision f \<noteq> None \<or>
     wf_confirmation_matches f \<noteq> None"

text \<open>The checks of \<open>_state_blockers\<close> in their order, each with what it adds.\<close>

definition fact_checks :: "workflow_facts \<Rightarrow> (bool \<times> workspace_blocker) list" where
  "fact_checks f = [
       (wf_source_count f = 0 \<and> wf_source_types f \<noteq> [] \<or> wf_source_count f < length (wf_source_types f),
          blocker ''source_summary_inconsistent'' ''Source summary is inconsistent. Review the POC state.''),
       (contract_identity_present f \<and> contract_identity_missing f,
          blocker ''contract_identity_incomplete'' ''The active agreement identity is incomplete. Review the POC state.''),
       (customer_state_exists f \<and> contract_identity_missing f,
          blocker ''customer_state_without_contract'' ''Customer review state is not bound to an active agreement.''),
       (wf_confirmation_matches f \<noteq> None \<and> wf_customer_decision f = None,
          blocker ''confirmation_match_without_decision'' ''Confirmation binding state has no customer decision.''),
       (wf_customer_decision f \<noteq> None \<and> \<not> wf_customer_review_issued f,
          blocker ''decision_without_review'' ''Customer decision has no issued review record.''),
       (wf_customer_decision f = Some CONFIRM \<and> wf_confirmation_matches f \<noteq> Some True,
          blocker ''confirmation_binding_mismatch'' ''Customer confirmation does not match the active agreement version.''),
       (wf_contract_status f = Some C_FROZEN \<and> wf_customer_decision f \<noteq> Some CONFIRM,
          blocker ''frozen_without_confirmation'' ''The frozen agreement has no matching affirmative customer decision.''),
       (wf_revision_requested f \<and> wf_contract_status f = Some C_FROZEN,
          blocker ''revision_conflicts_with_frozen_contract'' ''A requested revision cannot mutate the frozen agreement.''),
       (wf_contract_status f = Some C_FROZEN \<and> wf_pending_draft_count f > 0,
          blocker ''pending_drafts_with_frozen_contract'' ''Pending proposals cannot belong to the frozen agreement.''),
       (wf_contract_status f = Some C_SUPERSEDED,
          blocker ''active_contract_superseded'' ''The active agreement points to a superseded version.''),
       (wf_contract_status f \<in> {Some C_APPROVED, Some C_FROZEN} \<and> wf_approved_criterion_count f = 0,
          blocker ''approved_contract_without_criteria'' ''The approved agreement has no approved executable requirement.''),
       (wf_run_status f \<noteq> None \<and> wf_contract_status f \<noteq> Some C_FROZEN,
          blocker ''run_without_frozen_contract'' ''Proof state is not bound to a frozen agreement.''),
       (wf_verdict f \<noteq> None \<and> wf_run_status f \<notin> Some ` terminal_run_states,
          blocker ''verdict_without_terminal_run'' ''Evidence verdict is not bound to a terminal proof run.''),
       (wf_evidence_pack_url f \<noteq> None \<and> wf_verdict f = None,
          blocker ''evidence_pack_without_verdict'' ''Evidence Pack is not bound to a terminal verdict.''),
       (wf_verdict f \<noteq> None \<and> wf_evidence_pack_url f = None,
          blocker ''verdict_without_evidence_pack'' ''The terminal verdict has no inspectable Evidence Pack.''),
       (case wf_evidence_pack_url f of None \<Rightarrow> False | Some u \<Rightarrow> \<not> starts_with ''/artifacts/'' u,
          blocker ''evidence_pack_url_invalid'' ''Evidence Pack URL is outside the artifact boundary.''),
       (wf_run_status f \<in> {Some RUN_COMPLETED, Some RUN_BLOCKED, Some RUN_FAILED_INTERNAL} \<and> wf_verdict f = None,
          blocker ''terminal_run_without_verdict'' ''The terminal proof run has no deterministic verdict.''),
       (wf_verdict f \<noteq> None \<and> \<not> truthy (wf_verdict_reason f),
          blocker ''verdict_reason_missing'' ''The evidence verdict has no inspectable reason.''),
       (wf_run_status f = Some RUN_BLOCKED \<and> wf_verdict f \<noteq> None \<and> wf_verdict f \<noteq> Some V_BLOCKED,
          blocker ''blocked_run_verdict_mismatch'' ''A blocked proof run must retain a BLOCKED verdict.''),
       (wf_run_status f = Some RUN_FAILED_INTERNAL \<and> wf_verdict f \<noteq> None \<and> wf_verdict f \<noteq> Some V_NOT_PROVEN,
          blocker ''internal_failure_verdict_mismatch'' ''An internal execution failure cannot become a customer FAIL or PASS.'')]"

definition state_blockers :: "workflow_facts \<Rightarrow> workspace_blocker list" where
  "state_blockers f = (if \<not> wf_state_available f then
       [blocker ''workspace_state_unavailable'' ''POC state is unavailable. Reload before making a decision.'']
     else collect (fact_checks f))"

subsection \<open>Summaries\<close>

fun source_type_value :: "source_type \<Rightarrow> string" where
  "source_type_value SRC_EMAIL = ''email''"
| "source_type_value SRC_MEETING_TRANSCRIPT = ''meeting_transcript''"
| "source_type_value SRC_NOTE = ''note''"
| "source_type_value SRC_DOCUMENT = ''document''"
| "source_type_value SRC_EXISTING_CONTRACT = ''existing_contract''"

fun source_type_label :: "source_type \<Rightarrow> string" where
  "source_type_label SRC_EMAIL = ''Email''"
| "source_type_label SRC_MEETING_TRANSCRIPT = ''Meeting transcript''"
| "source_type_label SRC_NOTE = ''Note''"
| "source_type_label SRC_DOCUMENT = ''Document''"
| "source_type_label SRC_EXISTING_CONTRACT = ''Existing contract''"

definition source_summary_of :: "workflow_facts \<Rightarrow> source_summary" where
  "source_summary_of f = (let
       types = sort_key source_type_value (wf_source_types f);
       names = join_str '' + '' (map source_type_label types);
       suffix = (if wf_source_count f = 1 then ''source'' else ''sources'');
       counted = show_nat (wf_source_count f) @ '' '' @ suffix
     in \<lparr>ss_count = wf_source_count f, ss_types = types,
         ss_label = (if wf_source_count f = 0 then ''No source''
           else if names \<noteq> [] then counted @ [CHR '' '', CHR 0xB7, CHR '' ''] @ names else counted)\<rparr>)"

definition evidence_summary_of :: "workflow_facts \<Rightarrow> evidence_summary" where
  "evidence_summary_of f = (case wf_verdict f of
     None \<Rightarrow> \<lparr>es_status = NOT_RUN, es_reason = None, es_report_url = None\<rparr>
   | Some v \<Rightarrow> \<lparr>es_status = EVIDENCE v, es_reason = wf_verdict_reason f, es_report_url = wf_evidence_pack_url f\<rparr>)"

subsection \<open>The next action\<close>

definition verdict_action :: "verdict_status \<Rightarrow> workspace_phase \<times> workspace_action \<times> string" where
  "verdict_action v = (
     if v = V_PASS then (DECIDE, RECORD_DECISION_HANDOFF,
       ''Record the human decision and complete the Evidence Pack handoff. PASS is not authorization.'')
     else if v = V_FAIL then (DECIDE, RECORD_DECISION_HANDOFF,
       ''Record whether the human handoff is complete or the POC is stopped; FAIL is evidence, not authorization.'')
     else if v = V_BLOCKED then (DECIDE, RECORD_DECISION_HANDOFF,
       ''Record the human decision to stop or hand off the BLOCKED Evidence Pack; rerunning remains a separate action.'')
     else (DECIDE, RECORD_DECISION_HANDOFF,
       ''Record the human decision to stop or hand off the NOT_PROVEN Evidence Pack; no success claim is authorized.''))"

definition plural :: "nat \<Rightarrow> string" where
  "plural n = (if n = 1 then '''' else ''s'')"

definition derive_action :: "registry_entry \<Rightarrow> workflow_facts \<Rightarrow> workspace_phase \<times> workspace_action \<times> string" where
  "derive_action r f = (
     if re_archive_state r = ARCHIVE_ARCHIVED then (DECIDE, NO_ACTION, ''This POC is archived.'')
     else if re_archive_state r = ARCHIVE_COMPLETED then
       (DECIDE, NO_ACTION, ''POC closed after an explicit human decision and Evidence Pack handoff.'')
     else if wf_verdict f \<noteq> None then verdict_action (the (wf_verdict f))
     else if wf_contract_status f = Some C_FROZEN then
       (if wf_run_status f \<in> Some ` in_progress_run_states then
          (PROVE, WAIT_FOR_PROOF, ''Wait for the current proof run to finish.'')
        else if wf_run_status f \<in> {Some RUN_CANCELLED, Some RUN_FAILED_INTERNAL} then
          (PROVE, RERUN_POC, ''Resolve the execution issue, then rerun this POC.'')
        else (PROVE, RUN_POC, ''Run this POC against the frozen agreement.''))
     else if wf_revision_requested f \<or> wf_customer_decision f = Some REQUEST_CHANGES then
       (DEFINE, START_REVISION, ''Revise the customer-requested agreement.'')
     else if wf_contract_status f = Some C_APPROVED then
       (if wf_customer_decision f = Some CONFIRM then (DEFINE, FREEZE_CONFIRMED_CONTRACT, ''Freeze confirmed contract.'')
        else if wf_customer_review_issued f then
          (DEFINE, WAIT_FOR_CUSTOMER, ''Wait for the customer decision on this exact version.'')
        else (DEFINE, CREATE_CUSTOMER_REVIEW, ''Create the customer review for this agreement.''))
     else if wf_pending_draft_count f > 0 then
       (DEFINE, REVIEW_PROPOSALS, ''Review '' @ show_nat (wf_pending_draft_count f) @ '' requirement proposal'' @
          plural (wf_pending_draft_count f) @ ''.'')
     else if wf_defined_criterion_count f < wf_kept_proposal_count f then
       (DEFINE, DEFINE_CRITERIA, ''Define acceptance criteria for '' @
          show_nat (wf_kept_proposal_count f - wf_defined_criterion_count f) @ '' kept proposal'' @
          plural (wf_kept_proposal_count f - wf_defined_criterion_count f) @ ''.'')
     else if wf_contract_status f \<in> {Some C_DRAFT, Some C_IN_REVIEW} then
       (DEFINE, PREPARE_AGREEMENT, ''Complete internal review and prepare the agreement.'')
     else if wf_approved_criterion_count f > 0 then
       (DEFINE, PREPARE_AGREEMENT, ''Prepare the customer-visible agreement.'')
     else if wf_defined_criterion_count f > 0 then
       (DEFINE, PREPARE_AGREEMENT, ''Prepare an agreement from '' @ show_nat (wf_defined_criterion_count f) @
          '' defined acceptance '' @ (if wf_defined_criterion_count f = 1 then ''criterion'' else ''criteria'') @ ''.'')
     else if wf_source_count f > 0 then
       (DEFINE, PREPARE_AGREEMENT, ''Define an executable requirement from the reviewed source.'')
     else (DEFINE, ADD_SOURCE, ''Add a source to begin defining the POC.''))"

subsection \<open>Projecting one POC\<close>

definition project_blockers :: "registry_entry \<Rightarrow> workflow_facts \<Rightarrow> workspace_blocker list" where
  "project_blockers r f = state_blockers f @ collect [
     (case wf_action_since f of None \<Rightarrow> False | Some d \<Rightarrow> instant d < instant (re_created_at r),
        blocker ''action_timestamp_invalid'' ''The next-action timestamp predates this POC.''),
     (re_archive_state r = ARCHIVE_COMPLETED \<and> wf_verdict f = None,
        blocker ''completed_without_verdict'' ''The completed POC has no terminal evidence verdict.'')]"

definition projected_action :: "registry_entry \<Rightarrow> workflow_facts \<Rightarrow> workspace_phase \<times> workspace_action \<times> string" where
  "projected_action r f = (case project_blockers r f of
     b # bs \<Rightarrow> (DEFINE, RESOLVE_BLOCKER, wb_message b)
   | [] \<Rightarrow> derive_action r f)"

definition project_poc :: "registry_entry \<Rightarrow> workflow_facts \<Rightarrow> poc_projection" where
  "project_poc r f = (case projected_action r f of (phase, next_action, message) \<Rightarrow> \<lparr>
     pp_poc_id = re_poc_id r, pp_display_name = re_display_name r, pp_customer_label = re_customer_label r,
     pp_use_case = re_use_case r, pp_owner = re_owner r, pp_created_at = re_created_at r,
     pp_updated_at = re_updated_at r, pp_archive_state = re_archive_state r,
     pp_active_contract_id = wf_active_contract_id f, pp_active_contract_version = wf_active_contract_version f,
     pp_source_summary = source_summary_of f, pp_current_proposal_count = wf_current_proposal_count f,
     pp_derived_phase = phase, pp_next_action = next_action, pp_next_human_action = message,
     pp_blockers = project_blockers r f, pp_evidence = evidence_summary_of f,
     pp_attention_required = (project_blockers r f \<noteq> [] \<or> next_action \<notin> wait_actions),
     pp_action_since = (case wf_action_since f of None \<Rightarrow> re_updated_at r | Some d \<Rightarrow> d)\<rparr>)"

subsection \<open>The registry and the dashboard\<close>

text \<open>The constructor: entries by identifier, refused when one comes twice, kept in sorted order.\<close>

fun index_entries :: "registry_entry list \<Rightarrow> (string \<times> registry_entry) list \<Rightarrow> workspace_error + (string \<times> registry_entry) list" where
  "index_entries [] d = Inr d"
| "index_entries (r # rs) d = (if map_of d (re_poc_id r) \<noteq> None then Inl DuplicateRegistryId
     else index_entries rs (AList.update (re_poc_id r) r d))"

definition new_registry :: "registry_entry list \<Rightarrow> workspace_error + (string \<times> registry_entry) list" where
  "new_registry rs = map_sum id (sort_key fst) (index_entries rs [])"

definition registry_ids :: "(string \<times> registry_entry) list \<Rightarrow> string list" where
  "registry_ids reg = map fst reg"

definition registry_records :: "(string \<times> registry_entry) list \<Rightarrow> registry_entry list" where
  "registry_records reg = map snd reg"

definition dashboard_key :: "string option \<Rightarrow> poc_projection \<Rightarrow> nat \<times> nat \<times> int \<times> string" where
  "dashboard_key owner p = (if owner \<noteq> None \<and> Some (pp_owner p) = owner then 0 else 1,
     if pp_attention_required p then 0 else 1, instant (pp_action_since p), pp_poc_id p)"

definition apply_filter :: "poc_projection list \<Rightarrow> dashboard_filter \<Rightarrow> poc_projection list" where
  "apply_filter ps flt = (case flt of
     FILTER_ACTIVE \<Rightarrow> filter (\<lambda>p. pp_archive_state p = ARCHIVE_ACTIVE) ps
   | FILTER_NEEDS_ATTENTION \<Rightarrow> filter (\<lambda>p. pp_archive_state p = ARCHIVE_ACTIVE \<and> pp_attention_required p) ps
   | FILTER_COMPLETED \<Rightarrow> filter (\<lambda>p. pp_archive_state p = ARCHIVE_COMPLETED) ps)"

definition dashboard_filters :: "dashboard_filter list" where
  "dashboard_filters = [FILTER_ACTIVE, FILTER_NEEDS_ATTENTION, FILTER_COMPLETED]"

definition projected_registry :: "(string \<times> registry_entry) list \<Rightarrow> (string \<times> workflow_facts) list \<Rightarrow> poc_projection list" where
  "projected_registry reg facts = map (\<lambda>r. project_poc r
     (case map_of facts (re_poc_id r) of None \<Rightarrow> unavailable_facts | Some f \<Rightarrow> f)) (registry_records reg)"

definition project_dashboard ::
  "(string \<times> registry_entry) list \<Rightarrow> (string \<times> workflow_facts) list \<Rightarrow> string option \<Rightarrow> dashboard_filter \<Rightarrow> workspace_error + dashboard" where
  "project_dashboard reg facts owner flt = (let unknown = sort (filter (\<lambda>i. i \<notin> set (registry_ids reg)) (remdups (map fst facts))) in
     if unknown \<noteq> [] then Inl (UnknownPocs unknown)
     else (let ordered = sort_key (dashboard_key owner) (projected_registry reg facts);
               active = filter (\<lambda>p. pp_archive_state p = ARCHIVE_ACTIVE) ordered
       in Inr \<lparr>db_selected_filter = flt, db_available_filters = dashboard_filters,
            db_continue_working = (case active of [] \<Rightarrow> None | p # ps \<Rightarrow> Some p),
            db_pocs = apply_filter ordered flt\<rparr>))"

end
