(* ===== verification/Workspace_Laws.thy ===== *)
theory Workspace_Laws
  imports Workspace "HOL-Library.Multiset"
begin

section \<open>Laws of the workspace projections\<close>

subsection \<open>Blockers\<close>

lemma collect_Nil_iff: "collect gs = [] \<longleftrightarrow> (\<forall>g \<in> set gs. \<not> fst g)"
  by (induction gs rule: collect.induct) auto

lemma unblocked_iff:
  "project_blockers r f = [] \<longleftrightarrow> state_blockers f = [] \<and>
     \<not> (case wf_action_since f of None \<Rightarrow> False | Some d \<Rightarrow> instant d < instant (re_created_at r)) \<and>
     \<not> (re_archive_state r = ARCHIVE_COMPLETED \<and> wf_verdict f = None)"
  by (simp add: project_blockers_def collect_Nil_iff)

text \<open>What the facts of a POC without blockers satisfy.\<close>

lemma state_unblockedD:
  assumes "state_blockers f = []"
  shows "wf_state_available f"
    and "\<not> (contract_identity_present f \<and> contract_identity_missing f)"
    and "\<not> (customer_state_exists f \<and> contract_identity_missing f)"
    and "\<not> (wf_customer_decision f \<noteq> None \<and> \<not> wf_customer_review_issued f)"
    and "wf_customer_decision f = Some CONFIRM \<Longrightarrow> wf_confirmation_matches f = Some True"
    and "wf_contract_status f = Some C_FROZEN \<Longrightarrow> wf_customer_decision f = Some CONFIRM"
    and "wf_contract_status f = Some C_FROZEN \<Longrightarrow> \<not> wf_revision_requested f \<and> wf_pending_draft_count f = 0"
    and "wf_contract_status f \<in> {Some C_APPROVED, Some C_FROZEN} \<Longrightarrow> 0 < wf_approved_criterion_count f"
    and "wf_run_status f \<noteq> None \<Longrightarrow> wf_contract_status f = Some C_FROZEN"
    and "wf_verdict f \<noteq> None \<Longrightarrow> wf_run_status f \<in> Some ` terminal_run_states"
    and "wf_verdict f \<noteq> None \<Longrightarrow> \<exists>u. wf_evidence_pack_url f = Some u \<and> starts_with ''/artifacts/'' u"
    and "wf_verdict f \<noteq> None \<Longrightarrow> truthy (wf_verdict_reason f)"
    and "wf_verdict f = None \<Longrightarrow> wf_run_status f \<notin> {Some RUN_COMPLETED, Some RUN_BLOCKED, Some RUN_FAILED_INTERNAL}"
    and "wf_verdict f \<noteq> None \<Longrightarrow> wf_run_status f = Some RUN_BLOCKED \<Longrightarrow> wf_verdict f = Some V_BLOCKED"
    and "wf_verdict f \<noteq> None \<Longrightarrow> wf_run_status f = Some RUN_FAILED_INTERNAL \<Longrightarrow> wf_verdict f = Some V_NOT_PROVEN"
proof -
  have av: "wf_state_available f" and "collect (fact_checks f) = []"
    using assms by (auto simp: state_blockers_def split: if_splits)
  then have all: "list_all (\<lambda>g. \<not> fst g) (fact_checks f)" by (simp add: collect_Nil_iff list_all_iff)
  show "wf_state_available f" by (rule av)
  note all = all [unfolded fact_checks_def list.pred_inject fst_conv]
  show "\<not> (contract_identity_present f \<and> contract_identity_missing f)"
    "\<not> (customer_state_exists f \<and> contract_identity_missing f)"
    "\<not> (wf_customer_decision f \<noteq> None \<and> \<not> wf_customer_review_issued f)"
    "wf_customer_decision f = Some CONFIRM \<Longrightarrow> wf_confirmation_matches f = Some True"
    "wf_contract_status f = Some C_FROZEN \<Longrightarrow> wf_customer_decision f = Some CONFIRM"
    "wf_contract_status f = Some C_FROZEN \<Longrightarrow> \<not> wf_revision_requested f \<and> wf_pending_draft_count f = 0"
    "wf_contract_status f \<in> {Some C_APPROVED, Some C_FROZEN} \<Longrightarrow> 0 < wf_approved_criterion_count f"
    "wf_run_status f \<noteq> None \<Longrightarrow> wf_contract_status f = Some C_FROZEN"
    "wf_verdict f \<noteq> None \<Longrightarrow> wf_run_status f \<in> Some ` terminal_run_states"
    "wf_verdict f \<noteq> None \<Longrightarrow> truthy (wf_verdict_reason f)"
    "wf_verdict f = None \<Longrightarrow> wf_run_status f \<notin> {Some RUN_COMPLETED, Some RUN_BLOCKED, Some RUN_FAILED_INTERNAL}"
    "wf_verdict f \<noteq> None \<Longrightarrow> wf_run_status f = Some RUN_BLOCKED \<Longrightarrow> wf_verdict f = Some V_BLOCKED"
    "wf_verdict f \<noteq> None \<Longrightarrow> wf_run_status f = Some RUN_FAILED_INTERNAL \<Longrightarrow> wf_verdict f = Some V_NOT_PROVEN"
    by - (insert all, (elim conjE, simp only: not_imp de_Morgan_conj not_not, (blast | simp))+)
  show "wf_verdict f \<noteq> None \<Longrightarrow> \<exists>u. wf_evidence_pack_url f = Some u \<and> starts_with ''/artifacts/'' u"
    using all by (cases "wf_evidence_pack_url f") simp_all
qed

subsection \<open>Actions\<close>

lemma projected_action_blocked: "project_blockers r f = b # bs \<Longrightarrow> projected_action r f = (DEFINE, RESOLVE_BLOCKER, wb_message b)"
  by (simp add: projected_action_def)

lemma projected_action_free: "project_blockers r f = [] \<Longrightarrow> projected_action r f = derive_action r f"
  by (simp add: projected_action_def)

lemma project_poc_simps [simp]:
  "pp_next_action (project_poc r f) = fst (snd (projected_action r f))"
  "pp_derived_phase (project_poc r f) = fst (projected_action r f)"
  "pp_next_human_action (project_poc r f) = snd (snd (projected_action r f))"
  "pp_blockers (project_poc r f) = project_blockers r f"
  "pp_archive_state (project_poc r f) = re_archive_state r"
  "pp_poc_id (project_poc r f) = re_poc_id r"
  by (simp_all add: project_poc_def split: prod.splits)

text \<open>When each of the actions with authority is derived.\<close>

lemma derive_freeze_iff:
  "fst (snd (derive_action r f)) = FREEZE_CONFIRMED_CONTRACT \<longleftrightarrow> re_archive_state r = ARCHIVE_ACTIVE \<and>
     wf_verdict f = None \<and> wf_contract_status f = Some C_APPROVED \<and> wf_customer_decision f = Some CONFIRM \<and>
     \<not> wf_revision_requested f"
  by (cases "re_archive_state r") (simp_all add: derive_action_def verdict_action_def)

lemma derive_run_iff:
  "fst (snd (derive_action r f)) = RUN_POC \<longleftrightarrow> re_archive_state r = ARCHIVE_ACTIVE \<and>
     wf_verdict f = None \<and> wf_contract_status f = Some C_FROZEN \<and>
     wf_run_status f \<notin> Some ` in_progress_run_states \<and> wf_run_status f \<notin> {Some RUN_CANCELLED, Some RUN_FAILED_INTERNAL}"
  by (cases "re_archive_state r") (simp_all add: derive_action_def verdict_action_def)

lemma derive_rerun_iff:
  "fst (snd (derive_action r f)) = RERUN_POC \<longleftrightarrow> re_archive_state r = ARCHIVE_ACTIVE \<and>
     wf_verdict f = None \<and> wf_contract_status f = Some C_FROZEN \<and> wf_run_status f \<in> {Some RUN_CANCELLED, Some RUN_FAILED_INTERNAL}"
  by (cases "re_archive_state r") (auto simp: derive_action_def verdict_action_def in_progress_run_states_def)

lemma derive_handoff_iff:
  "fst (snd (derive_action r f)) = RECORD_DECISION_HANDOFF \<longleftrightarrow> re_archive_state r = ARCHIVE_ACTIVE \<and> wf_verdict f \<noteq> None"
  by (cases "re_archive_state r") (simp_all add: derive_action_def verdict_action_def)

lemma derive_not_blocked: "fst (snd (derive_action r f)) \<noteq> RESOLVE_BLOCKER"
  by (simp add: derive_action_def verdict_action_def)

lemma action_free:
  assumes "fst (snd (projected_action r f)) = a" and "a \<noteq> RESOLVE_BLOCKER"
  shows "project_blockers r f = [] \<and> fst (snd (derive_action r f)) = a"
  using assms by (cases "project_blockers r f") (simp_all add: projected_action_def)

lemma identity_present:
  "\<not> (contract_identity_present f \<and> contract_identity_missing f) \<Longrightarrow> wf_contract_status f \<noteq> None \<Longrightarrow>
    wf_active_contract_id f \<noteq> None \<and> wf_active_contract_version f \<noteq> None"
  by (auto simp: contract_identity_present_def contract_identity_missing_def)

subsection \<open>A POC to evaluate on\<close>

definition demo_entry :: registry_entry where
  "demo_entry = \<lparr>re_poc_id = ''poc_abc'', re_display_name = ''A'', re_customer_label = ''C'', re_use_case = ''U'',
     re_owner = ''ann'', re_created_at = Aware 0 0, re_updated_at = Aware 1 0, re_archive_state = ARCHIVE_ACTIVE\<rparr>"

definition demo_facts :: workflow_facts where
  "demo_facts = unavailable_facts\<lparr>wf_state_available := True, wf_source_count := 1, wf_source_types := [SRC_EMAIL],
     wf_kept_proposal_count := 1, wf_defined_criterion_count := 1, wf_approved_criterion_count := 1,
     wf_active_contract_id := Some ''acme-poc'', wf_active_contract_version := Some ''1'',
     wf_contract_status := Some C_FROZEN, wf_customer_review_issued := True,
     wf_customer_decision := Some CONFIRM, wf_confirmation_matches := Some True\<rparr>"

definition demo_verdict_facts :: "run_status \<Rightarrow> verdict_status \<Rightarrow> workflow_facts" where
  "demo_verdict_facts s v = demo_facts\<lparr>wf_run_status := Some s, wf_verdict := Some v, wf_verdict_reason := Some ''r'',
     wf_evidence_pack_url := Some ''/artifacts/x''\<rparr>"

lemmas demo_workspace = demo_facts_def demo_verdict_facts_def demo_entry_def unavailable_facts_def
  projected_action_def project_blockers_def state_blockers_def fact_checks_def contract_identity_present_def
  contract_identity_missing_def customer_state_exists_def terminal_run_states_def truthy_def starts_with_def
  derive_action_def verdict_action_def in_progress_run_states_def

subsection \<open>Properties of the projection\<close>

text \<open>
  C15. The dashboard asks for the freeze or for the run of a POC only with the customer behind it:
  the POC is active and unblocked, its agreement has identity, version and approved criteria, the
  customer was given a review and confirmed this very agreement, nothing was revised, no verdict
  exists; the freeze is of an approved contract, the run of a frozen one that never ran.
\<close>
theorem freeze_and_run_authorised:
  assumes "pp_next_action (project_poc r f) \<in> {FREEZE_CONFIRMED_CONTRACT, RUN_POC}"
  shows "pp_blockers (project_poc r f) = [] \<and> re_archive_state r = ARCHIVE_ACTIVE \<and>
    wf_active_contract_id f \<noteq> None \<and> wf_active_contract_version f \<noteq> None \<and> 0 < wf_approved_criterion_count f \<and>
    wf_customer_review_issued f \<and> wf_customer_decision f = Some CONFIRM \<and> wf_confirmation_matches f = Some True \<and>
    \<not> wf_revision_requested f \<and> wf_verdict f = None \<and> wf_run_status f = None \<and>
    wf_contract_status f = (if pp_next_action (project_poc r f) = RUN_POC then Some C_FROZEN else Some C_APPROVED)"
proof -
  obtain a where a: "fst (snd (projected_action r f)) = a" "a \<in> {FREEZE_CONFIRMED_CONTRACT, RUN_POC}"
    using assms by simp
  then have free: "project_blockers r f = []" "fst (snd (derive_action r f)) = a"
    using action_free [OF a(1)] by auto
  then have "state_blockers f = []" by (simp add: unblocked_iff)
  note facts = state_unblockedD [OF this]
  have "wf_run_status f = None" if "a = RUN_POC"
  proof (cases "wf_run_status f")
    case (Some x)
    then show ?thesis using that free(2) facts(13) derive_run_iff [of r f] by (cases x) (auto simp: in_progress_run_states_def)
  qed
  moreover have "wf_run_status f = None" if "a = FREEZE_CONFIRMED_CONTRACT"
    using that free(2) facts(9) derive_freeze_iff [of r f] by (cases "wf_run_status f") auto
  moreover have "wf_contract_status f = (if a = RUN_POC then Some C_FROZEN else Some C_APPROVED)"
      "re_archive_state r = ARCHIVE_ACTIVE" "wf_verdict f = None"
      "wf_customer_decision f = Some CONFIRM" "\<not> wf_revision_requested f"
    using a(2) free(2) derive_freeze_iff [of r f] derive_run_iff [of r f] facts(6,7) by auto
  ultimately show ?thesis
    using a free(1) facts(4,5,8) identity_present [OF facts(2)] by auto
qed

theorem freeze_and_run_authorised_witness:
  "pp_next_action (project_poc demo_entry demo_facts) = RUN_POC \<and> wf_confirmation_matches demo_facts = Some True"
proof -
  have run: "pp_next_action (project_poc demo_entry demo_facts) = RUN_POC" by (simp add: demo_workspace)
  then show ?thesis using freeze_and_run_authorised [of demo_entry demo_facts] by simp
qed

text \<open>
  The human decision is asked for exactly when an unblocked active POC has a verdict, and then
  the verdict is inspectable: it has a reason, an Evidence Pack inside the artifact boundary, a
  frozen confirmed agreement and a terminal run, where a blocked run has the verdict BLOCKED and
  an internal failure the verdict NOT_PROVEN; a PASS is never called an authorisation.
\<close>
theorem handoff_inspectable:
  "pp_next_action (project_poc r f) = RECORD_DECISION_HANDOFF \<longleftrightarrow>
     pp_blockers (project_poc r f) = [] \<and> re_archive_state r = ARCHIVE_ACTIVE \<and> (\<exists>v u why s. wf_verdict f = Some v \<and>
       wf_verdict_reason f = Some why \<and> why \<noteq> [] \<and> wf_evidence_pack_url f = Some u \<and> starts_with ''/artifacts/'' u \<and>
       wf_run_status f = Some s \<and> s \<in> terminal_run_states \<and> wf_contract_status f = Some C_FROZEN \<and>
       wf_customer_decision f = Some CONFIRM \<and> wf_confirmation_matches f = Some True \<and>
       (s = RUN_BLOCKED \<longrightarrow> v = V_BLOCKED) \<and> (s = RUN_FAILED_INTERNAL \<longrightarrow> v = V_NOT_PROVEN))"
proof
  assume "pp_next_action (project_poc r f) = RECORD_DECISION_HANDOFF"
  then have free: "project_blockers r f = []" "fst (snd (derive_action r f)) = RECORD_DECISION_HANDOFF"
    using action_free [of r f RECORD_DECISION_HANDOFF] by simp_all
  then have "state_blockers f = []" by (simp add: unblocked_iff)
  note facts = state_unblockedD [OF this]
  obtain v where v: "wf_verdict f = Some v" "re_archive_state r = ARCHIVE_ACTIVE"
    using free(2) by (auto simp: derive_handoff_iff)
  moreover obtain s where "wf_run_status f = Some s" "s \<in> terminal_run_states" using facts(10) v by auto
  moreover obtain u where "wf_evidence_pack_url f = Some u" "starts_with ''/artifacts/'' u" using facts(11) v by auto
  moreover obtain why where "wf_verdict_reason f = Some why" "why \<noteq> []" using facts(12) v by (auto simp: truthy_def)
  ultimately show "pp_blockers (project_poc r f) = [] \<and> re_archive_state r = ARCHIVE_ACTIVE \<and> (\<exists>v u why s. wf_verdict f = Some v \<and>
       wf_verdict_reason f = Some why \<and> why \<noteq> [] \<and> wf_evidence_pack_url f = Some u \<and> starts_with ''/artifacts/'' u \<and>
       wf_run_status f = Some s \<and> s \<in> terminal_run_states \<and> wf_contract_status f = Some C_FROZEN \<and>
       wf_customer_decision f = Some CONFIRM \<and> wf_confirmation_matches f = Some True \<and>
       (s = RUN_BLOCKED \<longrightarrow> v = V_BLOCKED) \<and> (s = RUN_FAILED_INTERNAL \<longrightarrow> v = V_NOT_PROVEN))"
    using free(1) facts(5,6,9,14,15) by auto
qed (auto simp: projected_action_free derive_handoff_iff)

theorem handoff_inspectable_witness:
  "pp_next_action (project_poc demo_entry (demo_verdict_facts RUN_COMPLETED V_PASS)) = RECORD_DECISION_HANDOFF"
  unfolding handoff_inspectable by (simp add: demo_workspace)

text \<open>
  Two branches of the projection read against each other. The rerun branch for an internal
  failure is never shown: a rerun is asked for only after a cancelled run. And a cancelled run may
  carry any verdict: with PASS the projection shows no blocker and asks for the handoff.
\<close>

theorem rerun_and_cancelled:
  "(pp_next_action (project_poc r f) = RERUN_POC \<longrightarrow> wf_run_status f = Some RUN_CANCELLED) \<and>
    pp_blockers (project_poc demo_entry (demo_verdict_facts RUN_CANCELLED V_PASS)) = [] \<and>
    pp_next_action (project_poc demo_entry (demo_verdict_facts RUN_CANCELLED V_PASS)) = RECORD_DECISION_HANDOFF"
proof -
  have "wf_run_status f = Some RUN_CANCELLED" if rerun: "fst (snd (projected_action r f)) = RERUN_POC"
  proof -
    have free: "project_blockers r f = []" "fst (snd (derive_action r f)) = RERUN_POC"
      using action_free [OF rerun] by simp_all
    then have "state_blockers f = []" by (simp add: unblocked_iff)
    from state_unblockedD(13) [OF this] free(2) show ?thesis by (auto simp: derive_rerun_iff)
  qed
  then show ?thesis by (simp add: demo_workspace)
qed

theorem rerun_and_cancelled_witness:
  "wf_run_status (demo_facts\<lparr>wf_run_status := Some RUN_CANCELLED\<rparr>) = Some RUN_CANCELLED \<and>
     pp_next_action (project_poc demo_entry (demo_facts\<lparr>wf_run_status := Some RUN_CANCELLED\<rparr>)) = RERUN_POC"
proof -
  have "pp_next_action (project_poc demo_entry (demo_facts\<lparr>wf_run_status := Some RUN_CANCELLED\<rparr>)) = RERUN_POC"
    by (simp add: demo_workspace)
  then show ?thesis using rerun_and_cancelled [of demo_entry "demo_facts\<lparr>wf_run_status := Some RUN_CANCELLED\<rparr>"] by blast
qed

subsection \<open>Properties of the registry and the dashboard\<close>

lemma index_entries_Inr:
  "index_entries rs d = Inr d' \<Longrightarrow> distinct (map re_poc_id rs) \<and> set (map re_poc_id rs) \<inter> fst ` set d = {} \<and>
    d' = d @ map (\<lambda>r. (re_poc_id r, r)) rs"
proof (induction rs d rule: index_entries.induct)
  case (2 r rs d)
  then have new: "re_poc_id r \<notin> fst ` set d" by (auto simp: map_of_eq_None_iff split: if_splits)
  with 2 show ?case by (auto simp: update_new map_of_eq_None_iff split: if_splits)
qed simp

lemma index_entries_distinct:
  "distinct (map re_poc_id rs) \<Longrightarrow> set (map re_poc_id rs) \<inter> fst ` set d = {} \<Longrightarrow> \<exists>d'. index_entries rs d = Inr d'"
proof (induction rs d rule: index_entries.induct)
  case (2 r rs d)
  then have "re_poc_id r \<notin> fst ` set d" by auto
  with 2 show ?case by (auto simp: update_new map_of_eq_None_iff)
qed simp

text \<open>
  The registry is built exactly from entries with distinct identifiers, holds each of them
  under its identifier and lists them in identifier order, whatever order they came in.
\<close>
theorem registry_sorted:
  "((\<exists>reg. new_registry rs = Inr reg) \<longleftrightarrow> distinct (map re_poc_id rs)) \<and>
   (\<forall>reg. new_registry rs = Inr reg \<longrightarrow> sorted (registry_ids reg) \<and> mset (registry_records reg) = mset rs \<and>
      (\<forall>r \<in> set rs. map_of reg (re_poc_id r) = Some r))"
proof -
  have "(\<exists>reg. new_registry rs = Inr reg) \<longleftrightarrow> distinct (map re_poc_id rs)"
    using index_entries_distinct [of rs "[]"] index_entries_Inr [of rs "[]"]
    by (cases "index_entries rs []") (auto simp: new_registry_def)
  moreover have "sorted (registry_ids reg) \<and> mset (registry_records reg) = mset rs \<and>
      (\<forall>r \<in> set rs. map_of reg (re_poc_id r) = Some r)" if "new_registry rs = Inr reg" for reg
  proof -
    from that obtain d where "index_entries rs [] = Inr d" and reg: "reg = sort_key fst d"
      by (cases "index_entries rs []") (auto simp: new_registry_def)
    from index_entries_Inr [OF this(1)] have d: "distinct (map re_poc_id rs)" "d = map (\<lambda>r. (re_poc_id r, r)) rs" by auto
    have m: "mset (map f (sort_key k xs)) = mset (map f xs)" for f :: "string \<times> registry_entry \<Rightarrow> 'z" and k :: "_ \<Rightarrow> string" and xs
      by simp
    have "mset (registry_records reg) = mset rs"
      unfolding registry_records_def reg m by (simp add: d o_def)
    moreover have "mset (map fst reg) = mset (map re_poc_id rs)"
      unfolding reg m by (simp add: d o_def)
    then have "distinct (map fst reg)" using d(1) by (metis mset_eq_imp_distinct_iff)
    then have "\<forall>r \<in> set rs. map_of reg (re_poc_id r) = Some r" by (auto simp: reg d)
    ultimately show ?thesis by (simp add: reg registry_ids_def)
  qed
  ultimately show ?thesis by blast
qed

theorem registry_sorted_witness:
  "\<exists>reg. new_registry [demo_entry] = Inr reg \<and> map_of reg ''poc_abc'' = Some demo_entry"
  using registry_sorted [of "[demo_entry]"] by (auto simp: demo_entry_def)

definition visible :: "dashboard_filter \<Rightarrow> poc_projection \<Rightarrow> bool" where
  "visible flt p = (case flt of FILTER_ACTIVE \<Rightarrow> pp_archive_state p = ARCHIVE_ACTIVE
     | FILTER_NEEDS_ATTENTION \<Rightarrow> pp_archive_state p = ARCHIVE_ACTIVE \<and> pp_attention_required p
     | FILTER_COMPLETED \<Rightarrow> pp_archive_state p = ARCHIVE_COMPLETED)"

lemma apply_filter_visible: "apply_filter ps flt = filter (visible flt) ps"
  by (cases flt) (auto simp: apply_filter_def visible_def intro!: filter_cong)

text \<open>
  The dashboard loses and invents nothing: when it is built, it shows exactly the projections
  of the registered POCs that the filter selects, in the order of owner, attention, waiting time
  and identifier; the POC to continue with is an active one that no other active one precedes, and
  it is missing only when no POC is active.
\<close>
theorem dashboard_complete:
  assumes "project_dashboard reg facts owner flt = Inr d"
  shows "mset (db_pocs d) = mset (filter (visible flt) (projected_registry reg facts)) \<and>
    sorted (map (dashboard_key owner) (db_pocs d)) \<and>
    (case db_continue_working d of
       None \<Rightarrow> \<forall>p \<in> set (projected_registry reg facts). pp_archive_state p \<noteq> ARCHIVE_ACTIVE
     | Some p \<Rightarrow> p \<in> set (projected_registry reg facts) \<and> pp_archive_state p = ARCHIVE_ACTIVE \<and>
         (\<forall>q \<in> set (projected_registry reg facts). pp_archive_state q = ARCHIVE_ACTIVE \<longrightarrow>
            dashboard_key owner p \<le> dashboard_key owner q))"
proof -
  let ?ps = "projected_registry reg facts"
  let ?o = "sort_key (dashboard_key owner) ?ps"
  let ?a = "filter (\<lambda>p. pp_archive_state p = ARCHIVE_ACTIVE) ?o"
  have d: "db_pocs d = filter (visible flt) ?o" "db_continue_working d = (case ?a of [] \<Rightarrow> None | p # ps \<Rightarrow> Some p)"
    using assms by (auto simp: project_dashboard_def Let_def apply_filter_visible split: if_splits)
  have sorted: "sorted (map (dashboard_key owner) (filter P ?o))" for P
    by (rule sorted_filter) simp
  have members: "set ?a = {p \<in> set ?ps. pp_archive_state p = ARCHIVE_ACTIVE}" by auto
  have "case ?a of [] \<Rightarrow> \<forall>p \<in> set ?ps. pp_archive_state p \<noteq> ARCHIVE_ACTIVE
     | p # ps \<Rightarrow> p \<in> set ?ps \<and> pp_archive_state p = ARCHIVE_ACTIVE \<and>
         (\<forall>q \<in> set ?ps. pp_archive_state q = ARCHIVE_ACTIVE \<longrightarrow> dashboard_key owner p \<le> dashboard_key owner q)"
  proof (cases ?a)
    case Nil
    then show ?thesis using members by auto
  next
    case (Cons p ps)
    then have "sorted (map (dashboard_key owner) (p # ps))" using sorted by metis
    then have "\<forall>q \<in> set (p # ps). dashboard_key owner p \<le> dashboard_key owner q" by auto
    with Cons members show ?thesis by auto
  qed
  moreover have "mset (db_pocs d) = mset (filter (visible flt) ?ps)" unfolding d(1) mset_filter mset_sort ..
  ultimately show ?thesis using d sorted by (auto split: list.splits)
qed

theorem dashboard_complete_witness:
  "\<exists>d. project_dashboard [(''poc_abc'', demo_entry)] [] None FILTER_ACTIVE = Inr d \<and>
     db_pocs d = [project_poc demo_entry unavailable_facts]"
proof -
  have "\<exists>d. project_dashboard [(''poc_abc'', demo_entry)] [] None FILTER_ACTIVE = Inr d"
    by (simp add: project_dashboard_def Let_def)
  then obtain d where d: "project_dashboard [(''poc_abc'', demo_entry)] [] None FILTER_ACTIVE = Inr d" by blast
  have "projected_registry [(''poc_abc'', demo_entry)] [] = [project_poc demo_entry unavailable_facts]"
    by (simp add: projected_registry_def registry_records_def)
  with dashboard_complete [OF d] have "mset (db_pocs d) = {#project_poc demo_entry unavailable_facts#}"
    by (simp add: visible_def demo_entry_def)
  with d show ?thesis by (simp add: mset_single_iff_right)
qed

end
