(* ===== verification/Probe.thy ===== *)
theory Probe
  imports Prelude
begin

section \<open>The latency probe and its evidence envelope (performance_probe.py)\<close>

text \<open>
  A probe sends a bounded number of requests and keeps one terminal record per request. This
  theory holds the configuration with its bounds, the manifest that fixes the workload, the
  records, one attempt, the assembly of a run and the validator that a run has to pass before
  anything is concluded from it.

  What is not under src/ is the argument \<open>codec\<close>: the canonical bytes of \<open>rfc8785.dumps\<close>
  (\<open>None\<close> where it raises), \<open>hashlib.sha256\<close> and \<open>urllib.parse.urlsplit\<close> with its \<open>port\<close>
  (\<open>None\<close> where they raise). Nothing is assumed about them in the definitions. A timeout in
  seconds is a real number. What \<open>_consume_openai_sse\<close> makes of the bytes of the event stream,
  raising or returning two instants, enters an attempt as part of the scripted answer of the
  transport, as do the readings of the monotonic clock; Event_Stream says what it is.
\<close>

subsection \<open>Bounds, identities, errors\<close>

definition PROBE_SCHEMA_VERSION :: string where
  "PROBE_SCHEMA_VERSION = ''exitspec.performance-probe.v1''"

definition PROBE_SCHEMA_VERSION_V2 :: string where
  "PROBE_SCHEMA_VERSION_V2 = ''exitspec.performance-probe.v2''"

definition FIRST_TOKEN_DEFINITION :: string where
  "FIRST_TOKEN_DEFINITION = ''first_nonempty_choices_delta_content_v1''"

abbreviation MAX_REQUEST_COUNT :: int where "MAX_REQUEST_COUNT \<equiv> 1000"
abbreviation MAX_WARMUP_COUNT :: int where "MAX_WARMUP_COUNT \<equiv> 100"
abbreviation MAX_CONCURRENCY :: int where "MAX_CONCURRENCY \<equiv> 32"
abbreviation MAX_TOKENS :: int where "MAX_TOKENS \<equiv> 2048"
abbreviation MAX_STREAM_BYTES :: int where "MAX_STREAM_BYTES \<equiv> 1048576"

datatype probe_error = ProbeConfigurationError string | ProbeEvidenceError string | CanonicalizationError

text \<open>\<open>[A-Za-z0-9][A-Za-z0-9._-]{0,127}\Z\<close>, \<open>run_[0-9a-f]{32}\Z\<close>; the SHA-256 pattern is \<open>is_sha256\<close>.\<close>

definition prompt_id_ok :: "string \<Rightarrow> bool" where
  "prompt_id_ok s \<longleftrightarrow> (case s of [] \<Rightarrow> False
     | c # rest \<Rightarrow> (is_upper c \<or> lower_alnum c) \<and> length rest \<le> 127 \<and>
         list_all (\<lambda>d. is_upper d \<or> lower_alnum d \<or> d \<in> set ''._-'') rest)"

definition execution_id_ok :: "string \<Rightarrow> bool" where
  "execution_id_ok s \<longleftrightarrow> starts_with ''run_'' s \<and> hex_text 32 (drop 4 s)"

record url_parts =
  url_scheme :: string
  url_hostname :: "string option"
  url_username :: "string option"
  url_password :: "string option"
  url_path :: string
  url_query :: string
  url_fragment :: string

record codec =
  canonical_json :: "json \<Rightarrow> string option"
  sha256_hex :: "string \<Rightarrow> string"
  url_split :: "string \<Rightarrow> url_parts option"

definition canonical_sha :: "codec \<Rightarrow> json \<Rightarrow> string option" where
  "canonical_sha k p = map_option (sha256_hex k) (canonical_json k p)"

subsection \<open>Prompts, policy, configuration\<close>

record synthetic_prompt =
  sp_prompt_id :: string
  sp_content :: string

definition synthetic_prompt_ok :: "synthetic_prompt \<Rightarrow> bool" where
  "synthetic_prompt_ok p \<longleftrightarrow> prompt_id_ok (sp_prompt_id p) \<and> py_strip (sp_content p) \<noteq> [] \<and>
     length (sp_content p) \<le> 32768"

record measurement_policy =
  mp_schema_version :: string
  mp_policy_sha256 :: string
  mp_calculation_version :: string
  mp_measured_phases :: "string list"
  mp_exact_attempts :: int
  mp_warmups_included :: bool
  mp_preflight_included :: bool
  mp_retries :: int
  mp_latency_population :: string
  mp_latency_failed_attempts :: string
  mp_reliability_numerator :: string
  mp_reliability_denominator :: string
  mp_external_error_outcomes :: "string list"
  mp_invalid_terminal_outcomes :: "string list"
  mp_invalid_record_conditions :: "string list"
  mp_integrity_mismatch_disposition :: string
  mp_invalid_evidence_disposition :: string

definition EXTERNAL_ERRORS :: "string list" where
  "EXTERNAL_ERRORS = [''HTTP_ERROR'', ''TIMEOUT'', ''PROTOCOL_ERROR'', ''TRANSPORT_ERROR'']"

definition measurement_policy_ok :: "measurement_policy \<Rightarrow> bool" where
  "measurement_policy_ok p \<longleftrightarrow>
     mp_schema_version p = ''exitspec.measurement-population.v1'' \<and>
     is_sha256 (mp_policy_sha256 p) \<and>
     mp_calculation_version p = ''exitspec.performance-verdicts.v2'' \<and>
     mp_measured_phases p = [''MEASURED''] \<and>
     1 \<le> mp_exact_attempts p \<and> mp_exact_attempts p \<le> MAX_REQUEST_COUNT \<and>
     \<not> mp_warmups_included p \<and> \<not> mp_preflight_included p \<and> mp_retries p = 0 \<and>
     mp_latency_population p = ''successful_measured_attempts_with_valid_ttft'' \<and>
     mp_latency_failed_attempts p = ''excluded_from_latency_counted_in_reliability'' \<and>
     mp_reliability_numerator p = ''external_error_outcomes'' \<and>
     mp_reliability_denominator p = ''all_measured_attempts'' \<and>
     mp_external_error_outcomes p = EXTERNAL_ERRORS \<and>
     mp_invalid_terminal_outcomes p = [''CANCELLED'', ''INTERNAL_ERROR''] \<and>
     mp_invalid_record_conditions p = [''MISSING_RECORD'', ''DUPLICATE_RECORD'', ''EXTRA_RECORD''] \<and>
     mp_integrity_mismatch_disposition p = ''NOT_PROVEN'' \<and>
     mp_invalid_evidence_disposition p = ''NOT_PROVEN''"

definition json_strs :: "string list \<Rightarrow> json" where
  "json_strs ss = JArr (map JStr ss)"

definition policy_payload :: "measurement_policy \<Rightarrow> json" where
  "policy_payload p = JObj [
     (''calculation_version'', JStr (mp_calculation_version p)),
     (''external_error_outcomes'', json_strs (mp_external_error_outcomes p)),
     (''invalid_evidence_disposition'', JStr (mp_invalid_evidence_disposition p)),
     (''invalid_record_conditions'', json_strs (mp_invalid_record_conditions p)),
     (''invalid_terminal_outcomes'', json_strs (mp_invalid_terminal_outcomes p)),
     (''integrity_mismatch_disposition'', JStr (mp_integrity_mismatch_disposition p)),
     (''latency_failed_attempts'', JStr (mp_latency_failed_attempts p)),
     (''latency_population'', JStr (mp_latency_population p)),
     (''measured_population'', JObj [
        (''exact_attempts'', JInt (mp_exact_attempts p)),
        (''phases'', json_strs (mp_measured_phases p)),
        (''preflight_included'', JBool (mp_preflight_included p)),
        (''retries'', JInt (mp_retries p)),
        (''warmups_included'', JBool (mp_warmups_included p))]),
     (''policy_sha256'', JStr (mp_policy_sha256 p)),
     (''reliability_denominator'', JStr (mp_reliability_denominator p)),
     (''reliability_numerator'', JStr (mp_reliability_numerator p)),
     (''schema_version'', JStr (mp_schema_version p))]"

record probe_config =
  pc_endpoint :: string
  pc_model :: string
  pc_request_count :: int
  pc_concurrency :: int
  pc_warmup_count :: int
  pc_timeout_seconds :: real
  pc_max_tokens :: int
  pc_max_stream_bytes :: int
  pc_measurement_policy :: "measurement_policy option"

definition endpoint_parts_ok :: "url_parts \<Rightarrow> bool" where
  "endpoint_parts_ok u \<longleftrightarrow> url_scheme u \<in> {''http'', ''https''} \<and> truthy (url_hostname u) \<and>
     url_username u = None \<and> url_password u = None \<and> url_query u = [] \<and> url_fragment u = [] \<and>
     ends_with ''/chat/completions'' (url_path u) \<and>
     \<not> (url_scheme u = ''http'' \<and>
        url_hostname u \<notin> {Some ''127.0.0.1'', Some ''::1'', Some ''localhost''})"

definition endpoint_error :: "codec \<Rightarrow> string \<Rightarrow> string option" where
  "endpoint_error k endpoint = (
     if endpoint \<noteq> py_strip endpoint then Some ''endpoint is invalid.''
     else (case url_split k endpoint of
       None \<Rightarrow> Some ''endpoint is invalid.''
     | Some u \<Rightarrow> if endpoint_parts_ok u then None
         else Some ''endpoint must be a credential-free chat-completions URL; plain HTTP is loopback-only.''))"

definition out_of_range :: "string \<Rightarrow> string" where
  "out_of_range name = name @ '' is outside the allowed range.''"

definition bounded :: "int \<Rightarrow> int \<Rightarrow> int \<Rightarrow> bool" where
  "bounded v lo hi \<longleftrightarrow> lo \<le> v \<and> v \<le> hi"

text \<open>\<open>math.ceil(count / concurrency)\<close> for a positive concurrency.\<close>

definition batches :: "int \<Rightarrow> int \<Rightarrow> int" where
  "batches count concurrency = (count + concurrency - 1) div concurrency"

text \<open>\<open>ProbeConfig.__post_init__\<close>: the message of the error it raises.\<close>

definition probe_config_error :: "codec \<Rightarrow> probe_config \<Rightarrow> string option" where
  "probe_config_error k c = (case endpoint_error k (pc_endpoint c) of Some e \<Rightarrow> Some e
   | None \<Rightarrow> first_error [
      (py_strip (pc_model c) = [] \<or> pc_model c \<noteq> py_strip (pc_model c) \<or> length (pc_model c) > 512, ''model is invalid.''),
      (\<not> bounded (pc_request_count c) 1 MAX_REQUEST_COUNT, out_of_range ''request_count''),
      (\<not> bounded (pc_concurrency c) 1 MAX_CONCURRENCY, out_of_range ''concurrency''),
      (pc_concurrency c > pc_request_count c, ''concurrency cannot exceed request_count.''),
      (\<not> bounded (pc_warmup_count c) 0 MAX_WARMUP_COUNT, out_of_range ''warmup_count''),
      (\<not> (0 < pc_timeout_seconds c \<and> pc_timeout_seconds c \<le> 60), out_of_range ''timeout_seconds''),
      (\<not> bounded (pc_max_tokens c) 1 MAX_TOKENS, out_of_range ''max_tokens''),
      (\<not> bounded (pc_max_stream_bytes c) 1 MAX_STREAM_BYTES, out_of_range ''max_stream_bytes''),
      (pc_measurement_policy c \<noteq> None \<and> mp_exact_attempts (the (pc_measurement_policy c)) \<noteq> pc_request_count c,
         ''Measurement policy attempts must match request_count.''),
      (real_of_int (batches (pc_warmup_count c) (pc_concurrency c) + batches (pc_request_count c) (pc_concurrency c))
           * pc_timeout_seconds c > 900,
         ''Worst-case run duration exceeds the 15-minute safety budget.'')])"

subsection \<open>Manifest, records, run\<close>

record prompt_descriptor =
  pd_prompt_id :: string
  pd_sha256 :: string

definition descriptor_payload :: "prompt_descriptor \<Rightarrow> json" where
  "descriptor_payload d = JObj [(''prompt_id'', JStr (pd_prompt_id d)), (''sha256'', JStr (pd_sha256 d))]"

definition descriptor_ok :: "prompt_descriptor \<Rightarrow> bool" where
  "descriptor_ok d \<longleftrightarrow> prompt_id_ok (pd_prompt_id d) \<and> is_sha256 (pd_sha256 d)"

record probe_manifest =
  mf_schema_version :: string
  mf_manifest_sha256 :: string
  mf_endpoint :: string
  mf_model :: string
  mf_request_count :: int
  mf_concurrency :: int
  mf_warmup_count :: int
  mf_timeout_seconds :: real
  mf_max_tokens :: int
  mf_max_stream_bytes :: int
  mf_first_token_definition :: string
  mf_warmup_included :: bool
  mf_prompts :: "prompt_descriptor list"
  mf_prompt_set_sha256 :: string
  mf_measurement_policy :: "measurement_policy option"

text \<open>\<open>to_dict\<close>, with the field \<open>manifest_sha256\<close> (\<open>manifest_payload\<close>) or popped (\<open>manifest_identity\<close>).\<close>

definition manifest_fields :: "probe_manifest \<Rightarrow> (string \<times> json) list \<Rightarrow> json" where
  "manifest_fields m sha = JObj ([
     (''concurrency'', JInt (mf_concurrency m)),
     (''endpoint'', JStr (mf_endpoint m)),
     (''first_token_definition'', JStr (mf_first_token_definition m))] @ sha @ [
     (''max_stream_bytes'', JInt (mf_max_stream_bytes m)),
     (''max_tokens'', JInt (mf_max_tokens m)),
     (''model'', JStr (mf_model m)),
     (''prompt_set_sha256'', JStr (mf_prompt_set_sha256 m)),
     (''prompts'', JArr (map descriptor_payload (mf_prompts m))),
     (''request_count'', JInt (mf_request_count m)),
     (''schema_version'', JStr (mf_schema_version m)),
     (''timeout_seconds'', JFloat (mf_timeout_seconds m)),
     (''warmup_count'', JInt (mf_warmup_count m)),
     (''warmup_included_in_measurement'', JBool (mf_warmup_included m))] @
     (case mf_measurement_policy m of None \<Rightarrow> [] | Some p \<Rightarrow> [(''measurement_policy'', policy_payload p)]))"

definition manifest_payload :: "probe_manifest \<Rightarrow> json" where
  "manifest_payload m = manifest_fields m [(''manifest_sha256'', JStr (mf_manifest_sha256 m))]"

definition manifest_identity :: "probe_manifest \<Rightarrow> json" where
  "manifest_identity m = manifest_fields m []"

datatype probe_phase = WARMUP | MEASURED

datatype probe_outcome = SUCCESS | HTTP_ERROR | TIMEOUT | PROTOCOL_ERROR | TRANSPORT_ERROR
  | INTERNAL_ERROR | CANCELLED

fun phase_value :: "probe_phase \<Rightarrow> string" where
  "phase_value WARMUP = ''WARMUP''"
| "phase_value MEASURED = ''MEASURED''"

fun outcome_value :: "probe_outcome \<Rightarrow> string" where
  "outcome_value SUCCESS = ''SUCCESS''"
| "outcome_value HTTP_ERROR = ''HTTP_ERROR''"
| "outcome_value TIMEOUT = ''TIMEOUT''"
| "outcome_value PROTOCOL_ERROR = ''PROTOCOL_ERROR''"
| "outcome_value TRANSPORT_ERROR = ''TRANSPORT_ERROR''"
| "outcome_value INTERNAL_ERROR = ''INTERNAL_ERROR''"
| "outcome_value CANCELLED = ''CANCELLED''"

text \<open>
  A dataclass does not check its annotations: a record that was not built by the probe may carry
  a plain text, or anything else, where an enum member belongs. \<open>is\<close> tells them apart, \<open>.value\<close>
  and \<open>==\<close> do not.
\<close>

datatype 'm loose = Member 'm | PlainText string | Foreign

record probe_record =
  rc_schema_version :: string
  rc_execution_id :: string
  rc_manifest_sha256 :: string
  rc_request_id :: string
  rc_phase :: "probe_phase loose"
  rc_ordinal :: int
  rc_included :: bool
  rc_prompt_id :: string
  rc_prompt_sha256 :: string
  rc_outcome :: "probe_outcome loose"
  rc_http_status :: "int option"
  rc_ttft_ns :: "int option"
  rc_duration_ns :: int

record probe_run =
  run_execution_id :: string
  run_manifest :: probe_manifest
  run_records_sha256 :: string
  run_records :: "probe_record list"

text \<open>The canonical bytes of a record; \<open>None\<close> where \<open>.value\<close> or the encoder raises.\<close>

definition record_text :: "codec \<Rightarrow> probe_record \<Rightarrow> string option" where
  "record_text k r = (case (rc_outcome r, rc_phase r) of
     (Member outcome, Member phase) \<Rightarrow> canonical_json k (JObj [
       (''duration_ns'', JInt (rc_duration_ns r)),
       (''execution_id'', JStr (rc_execution_id r)),
       (''http_status'', json_opt JInt (rc_http_status r)),
       (''included_in_measurement'', JBool (rc_included r)),
       (''manifest_sha256'', JStr (rc_manifest_sha256 r)),
       (''ordinal'', JInt (rc_ordinal r)),
       (''outcome'', JStr (outcome_value outcome)),
       (''phase'', JStr (phase_value phase)),
       (''prompt_id'', JStr (rc_prompt_id r)),
       (''prompt_sha256'', JStr (rc_prompt_sha256 r)),
       (''request_id'', JStr (rc_request_id r)),
       (''schema_version'', JStr (rc_schema_version r)),
       (''ttft_ns'', json_opt JInt (rc_ttft_ns r))])
   | _ \<Rightarrow> None)"

definition record_sort_key :: "probe_record \<Rightarrow> int \<times> int" where
  "record_sort_key r = (if rc_phase r = Member WARMUP then 0 else 1, rc_ordinal r)"

definition records_jsonl :: "codec \<Rightarrow> probe_record list \<Rightarrow> string option" where
  "records_jsonl k rs = (let texts = map (record_text k) (sort_key record_sort_key rs) in
     if None \<in> set texts then None else Some (join_with (CHR 10) (map the texts)))"

definition records_sha256 :: "codec \<Rightarrow> probe_record list \<Rightarrow> string option" where
  "records_sha256 k rs = map_option (sha256_hex k) (records_jsonl k rs)"

text \<open>\<open>f"{prefix}-{ordinal:05d}"\<close>\<close>

definition pad5 :: "nat \<Rightarrow> string" where
  "pad5 n = replicate (5 - length (show_nat n)) (CHR ''0'') @ show_nat n"

definition request_id :: "probe_phase \<Rightarrow> int \<Rightarrow> string" where
  "request_id phase ordinal = (if phase = WARMUP then ''warmup'' else ''measured'') @ ''-'' @ pad5 (nat ordinal)"

subsection \<open>Validation of a run\<close>

definition manifest_config :: "probe_manifest \<Rightarrow> probe_config" where
  "manifest_config m = \<lparr>pc_endpoint = mf_endpoint m, pc_model = mf_model m,
     pc_request_count = mf_request_count m, pc_concurrency = mf_concurrency m,
     pc_warmup_count = mf_warmup_count m, pc_timeout_seconds = mf_timeout_seconds m,
     pc_max_tokens = mf_max_tokens m, pc_max_stream_bytes = mf_max_stream_bytes m,
     pc_measurement_policy = mf_measurement_policy m\<rparr>"

definition schema_for :: "measurement_policy option \<Rightarrow> string" where
  "schema_for p = (if p = None then PROBE_SCHEMA_VERSION else PROBE_SCHEMA_VERSION_V2)"

definition manifest_error :: "codec \<Rightarrow> probe_manifest \<Rightarrow> probe_error option" where
  "manifest_error k m = (
     if mf_schema_version m \<notin> {PROBE_SCHEMA_VERSION, PROBE_SCHEMA_VERSION_V2} \<or>
        mf_first_token_definition m \<noteq> FIRST_TOKEN_DEFINITION \<or> mf_warmup_included m
     then Some (ProbeEvidenceError ''Manifest measurement semantics are invalid.'')
     else if probe_config_error k (manifest_config m) \<noteq> None
     then Some (ProbeEvidenceError ''Manifest workload bounds are invalid.'')
     else if mf_schema_version m \<noteq> schema_for (mf_measurement_policy m)
     then Some (ProbeEvidenceError ''Manifest schema does not match its measurement policy.'')
     else if list_ex (\<lambda>d. \<not> descriptor_ok d) (mf_prompts m)
     then Some (ProbeEvidenceError ''Manifest prompt descriptor is invalid.'')
     else if mf_prompts m = [] then Some (ProbeEvidenceError ''Manifest prompt set is empty.'')
     else (case canonical_sha k (JArr (map descriptor_payload (mf_prompts m))) of
       None \<Rightarrow> Some CanonicalizationError
     | Some prompts_sha \<Rightarrow>
         if mf_prompt_set_sha256 m \<noteq> prompts_sha
         then Some (ProbeEvidenceError ''Manifest prompt-set hash is invalid.'')
         else (case canonical_sha k (manifest_identity m) of
           None \<Rightarrow> Some CanonicalizationError
         | Some sha \<Rightarrow> if mf_manifest_sha256 m \<noteq> sha
             then Some (ProbeEvidenceError ''Manifest hash is invalid.'') else None)))"

text \<open>The dict \<open>expected\<close>; its keys are distinct (\<open>distinct_expected\<close>).\<close>

definition expected_phase :: "probe_phase \<Rightarrow> int \<Rightarrow> bool \<Rightarrow> (string \<times> probe_phase \<times> int \<times> bool) list" where
  "expected_phase phase count included = map (\<lambda>i. (request_id phase i, phase, i, included)) [1..count]"

definition expected_records :: "probe_manifest \<Rightarrow> (string \<times> probe_phase \<times> int \<times> bool) list" where
  "expected_records m = expected_phase WARMUP (mf_warmup_count m) False @
     expected_phase MEASURED (mf_request_count m) True"

definition status_ok :: "int \<Rightarrow> bool" where
  "status_ok s \<longleftrightarrow> 200 \<le> s \<and> s \<le> 299"

definition no_status_or_ok :: "int option \<Rightarrow> bool" where
  "no_status_or_ok s \<longleftrightarrow> (case s of None \<Rightarrow> True | Some n \<Rightarrow> status_ok n)"

text \<open>\<open>_validate_terminal_record\<close>: the message it raises.\<close>

definition terminal_record_error :: "probe_record \<Rightarrow> string option" where
  "terminal_record_error r = (let status = rc_http_status r in
     if rc_duration_ns r < 0 then Some ''Record duration is invalid.''
     else if rc_outcome r = Member SUCCESS then
       (if status = None \<or> \<not> no_status_or_ok status \<or>
           (case rc_ttft_ns r of None \<Rightarrow> True | Some t \<Rightarrow> \<not> (0 \<le> t \<and> t \<le> rc_duration_ns r))
        then Some ''Successful record is malformed.'' else None)
     else if rc_ttft_ns r \<noteq> None then Some ''Failed record cannot carry TTFT.''
     else (case rc_outcome r of
       Member HTTP_ERROR \<Rightarrow>
         if status = None \<or> no_status_or_ok status \<or> \<not> (100 \<le> the status \<and> the status \<le> 599)
         then Some ''HTTP error record is malformed.'' else None
     | Member TIMEOUT \<Rightarrow> if status \<noteq> None then Some ''Timeout record is malformed.'' else None
     | Member PROTOCOL_ERROR \<Rightarrow>
         if \<not> no_status_or_ok status then Some ''Protocol error record is malformed.'' else None
     | Member TRANSPORT_ERROR \<Rightarrow>
         if \<not> no_status_or_ok status then Some ''Transport error record is malformed.'' else None
     | Member INTERNAL_ERROR \<Rightarrow>
         if \<not> no_status_or_ok status then Some ''Internal error record is malformed.'' else None
     | Member CANCELLED \<Rightarrow> if status \<noteq> None then Some ''Cancelled record is malformed.'' else None
     | _ \<Rightarrow> Some ''Record outcome is invalid.''))"

text \<open>One turn of the loop over the records: what it raises, given the identifiers seen before.\<close>

definition prompt_for :: "'a list \<Rightarrow> int \<Rightarrow> 'a" where
  "prompt_for prompts ordinal = prompts ! nat ((ordinal - 1) mod int (length prompts))"

definition record_error :: "probe_manifest \<Rightarrow> string \<Rightarrow> string set \<Rightarrow> string option \<Rightarrow> probe_record \<Rightarrow> string option" where
  "record_error m execution seen observed r = (
     if rc_request_id r \<in> seen then Some ''Duplicate request record.''
     else if \<not> execution_id_ok (rc_execution_id r) then Some ''Record execution identity is invalid.''
     else if observed \<noteq> None \<and> Some (rc_execution_id r) \<noteq> observed then Some ''Records mix multiple executions.''
     else if rc_execution_id r \<noteq> execution then Some ''Record execution identity is unexpected.''
     else (case map_of (expected_records m) (rc_request_id r) of
       None \<Rightarrow> Some ''Unexpected request record.''
     | Some (phase, ordinal, included) \<Rightarrow>
         if rc_schema_version r \<noteq> mf_schema_version m \<or> rc_manifest_sha256 r \<noteq> mf_manifest_sha256 m \<or>
            rc_phase r \<noteq> Member phase \<or> rc_ordinal r \<noteq> ordinal \<or> rc_included r \<noteq> included
         then Some ''Record identity does not match manifest.''
         else if rc_prompt_id r \<noteq> pd_prompt_id (prompt_for (mf_prompts m) ordinal) \<or>
            rc_prompt_sha256 r \<noteq> pd_sha256 (prompt_for (mf_prompts m) ordinal)
         then Some ''Record prompt does not match manifest.''
         else terminal_record_error r))"

fun scan_records :: "probe_manifest \<Rightarrow> string \<Rightarrow> string set \<Rightarrow> string option \<Rightarrow> probe_record list \<Rightarrow> string + string set" where
  "scan_records m execution seen observed [] = Inr seen"
| "scan_records m execution seen observed (r # rs) = (case record_error m execution seen observed r of
     Some e \<Rightarrow> Inl e
   | None \<Rightarrow> scan_records m execution (insert (rc_request_id r) seen) (Some (rc_execution_id r)) rs)"

definition validate_probe_records :: "codec \<Rightarrow> probe_manifest \<Rightarrow> probe_record list \<Rightarrow> string \<Rightarrow> probe_error option" where
  "validate_probe_records k m records execution = (
     if \<not> execution_id_ok execution
     then Some (ProbeEvidenceError ''Expected execution identity is invalid.'')
     else (case manifest_error k m of Some e \<Rightarrow> Some e
     | None \<Rightarrow> (case scan_records m execution {} None records of
         Inl e \<Rightarrow> Some (ProbeEvidenceError e)
       | Inr seen \<Rightarrow>
           if seen \<noteq> set (map fst (expected_records m))
           then Some (ProbeEvidenceError ''One or more terminal records are missing.'')
           else if canonical_json k (manifest_payload m) = None \<or> None \<in> set (map (record_text k) records)
           then Some (ProbeEvidenceError ''Probe artifacts are not valid JSON.'')
           else None)))"

definition validate_probe_run :: "codec \<Rightarrow> probe_run \<Rightarrow> probe_error option" where
  "validate_probe_run k run = (
     if \<not> execution_id_ok (run_execution_id run)
     then Some (ProbeEvidenceError ''Probe run execution identity is invalid.'')
     else (case validate_probe_records k (run_manifest run) (run_records run) (run_execution_id run) of
       Some e \<Rightarrow> Some e
     | None \<Rightarrow>
         if \<not> is_sha256 (run_records_sha256 run)
         then Some (ProbeEvidenceError ''Probe record artifact hash is invalid.'')
         else (case records_sha256 k (run_records run) of
           None \<Rightarrow> Some CanonicalizationError
         | Some sha \<Rightarrow> if run_records_sha256 run \<noteq> sha
             then Some (ProbeEvidenceError ''Probe record artifact hash is invalid.'') else None)))"

subsection \<open>Building the manifest\<close>

definition normalize_prompts :: "synthetic_prompt list \<Rightarrow> probe_error + synthetic_prompt list" where
  "normalize_prompts prompts = (
     if prompts = [] \<or> length prompts > 10000
     then Inl (ProbeConfigurationError ''Prompt count is outside the allowed range.'')
     else if \<not> distinct (map sp_prompt_id prompts)
     then Inl (ProbeConfigurationError ''Prompt identifiers must be unique.'')
     else Inr prompts)"

definition prompt_descriptor_of :: "codec \<Rightarrow> synthetic_prompt \<Rightarrow> prompt_descriptor" where
  "prompt_descriptor_of k p = \<lparr>pd_prompt_id = sp_prompt_id p, pd_sha256 = sha256_hex k (sp_content p)\<rparr>"

definition build_manifest :: "codec \<Rightarrow> probe_config \<Rightarrow> synthetic_prompt list \<Rightarrow> probe_error + probe_manifest" where
  "build_manifest k c prompts = (case normalize_prompts prompts of Inl e \<Rightarrow> Inl e
   | Inr normalized \<Rightarrow> (let descriptors = map (prompt_descriptor_of k) normalized in
       case canonical_sha k (JArr (map descriptor_payload descriptors)) of
         None \<Rightarrow> Inl CanonicalizationError
       | Some prompts_sha \<Rightarrow> (let m = \<lparr>
             mf_schema_version = schema_for (pc_measurement_policy c), mf_manifest_sha256 = [],
             mf_endpoint = pc_endpoint c, mf_model = pc_model c,
             mf_request_count = pc_request_count c, mf_concurrency = pc_concurrency c,
             mf_warmup_count = pc_warmup_count c, mf_timeout_seconds = pc_timeout_seconds c,
             mf_max_tokens = pc_max_tokens c, mf_max_stream_bytes = pc_max_stream_bytes c,
             mf_first_token_definition = FIRST_TOKEN_DEFINITION, mf_warmup_included = False,
             mf_prompts = descriptors, mf_prompt_set_sha256 = prompts_sha,
             mf_measurement_policy = pc_measurement_policy c\<rparr> in
           case canonical_sha k (manifest_identity m) of
             None \<Rightarrow> Inl CanonicalizationError
           | Some sha \<Rightarrow> Inr (m\<lparr>mf_manifest_sha256 := sha\<rparr>))))"

end
