(* ===== verification/Performance.thy ===== *)
theory Performance
  imports Probe Verdicts
begin

section \<open>The performance verdict (performance_verdicts.py, performance_population.py, models.py)\<close>

text \<open>
  A performance criterion has two rules that do not compensate each other: the nearest-rank p95
  of the time to first token over the successful measured requests, and the error rate over all
  measured requests. This theory holds the criterion models, the measurement extracted from a
  probe run and the verdict.

  The thresholds are Python floats that the code reads as exact decimals
  (\<open>Decimal(str(x))\<close>); they are reals here, and the decimal products are exact because the
  operands have fewer digits than the context's 28. Only the reported error rate is a quotient
  that the code rounds to 28 digits. Reasons formatted from numbers keep the numbers.
\<close>

subsection \<open>Criteria\<close>

datatype limit_operator = LT | LTE

record ttft_rule =
  tr_operator :: limit_operator
  tr_threshold :: real
  tr_minimum_successful_samples :: int

definition ttft_rule_ok :: "ttft_rule \<Rightarrow> bool" where
  "ttft_rule_ok r \<longleftrightarrow> 0 < tr_threshold r \<and> tr_threshold r \<le> 60000 \<and>
     0 < tr_minimum_successful_samples r \<and> tr_minimum_successful_samples r \<le> 1000"

record error_rate_rule =
  er_threshold :: real
  er_minimum_attempts :: int

definition error_rate_rule_ok :: "error_rate_rule \<Rightarrow> bool" where
  "error_rate_rule_ok r \<longleftrightarrow> 0 < er_threshold r \<and> er_threshold r < 1 \<and>
     0 < er_minimum_attempts r \<and> er_minimum_attempts r \<le> 1000"

text \<open>
  The fields of \<open>MeasurementPopulationPolicyV1\<close> and its parts; all but the number of attempts are
  literals, or tuples whose validators leave one value.
\<close>

record population_policy =
  pp_schema_version :: string
  pp_calculation_version :: string
  pp_phases :: "string list"
  pp_exact_attempts :: int
  pp_warmups_included :: bool
  pp_preflight_included :: bool
  pp_retries :: int
  pp_population :: string
  pp_failed_attempts :: string
  pp_numerator :: string
  pp_denominator :: string
  pp_outcomes :: "string list"
  pp_terminal_outcomes :: "string list"
  pp_record_conditions :: "string list"
  pp_integrity_mismatch :: string
  pp_disposition :: string

definition population_policy_ok :: "population_policy \<Rightarrow> bool" where
  "population_policy_ok p \<longleftrightarrow>
     pp_schema_version p = ''exitspec.measurement-population.v1'' \<and>
     pp_calculation_version p = ''exitspec.performance-verdicts.v2'' \<and>
     pp_phases p = [''MEASURED''] \<and> 0 < pp_exact_attempts p \<and> pp_exact_attempts p \<le> 1000 \<and>
     \<not> pp_warmups_included p \<and> \<not> pp_preflight_included p \<and> pp_retries p = 0 \<and>
     pp_population p = ''successful_measured_attempts_with_valid_ttft'' \<and>
     pp_failed_attempts p = ''excluded_from_latency_counted_in_reliability'' \<and>
     pp_numerator p = ''external_error_outcomes'' \<and> pp_denominator p = ''all_measured_attempts'' \<and>
     pp_outcomes p = EXTERNAL_ERRORS \<and>
     pp_terminal_outcomes p = [''CANCELLED'', ''INTERNAL_ERROR''] \<and>
     pp_record_conditions p = [''MISSING_RECORD'', ''DUPLICATE_RECORD'', ''EXTRA_RECORD''] \<and>
     pp_integrity_mismatch p = ''NOT_PROVEN'' \<and> pp_disposition p = ''NOT_PROVEN''"

text \<open>\<open>InferencePerformanceCriterion\<close>, with a population policy in its V2 form.\<close>

record performance_criterion =
  pf_id :: string
  pf_title :: string
  pf_source :: "source_reference option"
  pf_human_added :: bool
  pf_normalized_claim :: string
  pf_ttft_p95 :: ttft_rule
  pf_error_rate :: error_rate_rule
  pf_workload_slice :: string
  pf_adapter :: string
  pf_adapter_version :: string
  pf_owner :: string
  pf_evidence_policy :: string
  pf_approved :: bool
  pf_measurement_policy :: "population_policy option"

definition performance_criterion_ok :: "performance_criterion \<Rightarrow> bool" where
  "performance_criterion_ok c \<longleftrightarrow> criterion_id_ok (pf_id c) \<and>
     list_all (\<lambda>t. t \<noteq> []) [pf_title c, pf_normalized_claim c, pf_workload_slice c, pf_adapter c,
       pf_adapter_version c, pf_owner c, pf_evidence_policy c] \<and>
     ttft_rule_ok (pf_ttft_p95 c) \<and> error_rate_rule_ok (pf_error_rate c) \<and>
     (case pf_source c of None \<Rightarrow> pf_human_added c | Some s \<Rightarrow> source_reference_ok s) \<and>
     tr_minimum_successful_samples (pf_ttft_p95 c) \<le> er_minimum_attempts (pf_error_rate c) \<and>
     (case pf_measurement_policy c of None \<Rightarrow> True
      | Some p \<Rightarrow> population_policy_ok p \<and> pp_exact_attempts p = er_minimum_attempts (pf_error_rate c))"

definition population_payload :: "population_policy \<Rightarrow> json" where
  "population_payload p = JObj [
     (''schema_version'', JStr (pp_schema_version p)),
     (''calculation_version'', JStr (pp_calculation_version p)),
     (''measured_population'', JObj [
        (''phases'', json_strs (pp_phases p)), (''exact_attempts'', JInt (pp_exact_attempts p)),
        (''warmups_included'', JBool (pp_warmups_included p)),
        (''preflight_included'', JBool (pp_preflight_included p)), (''retries'', JInt (pp_retries p))]),
     (''latency_population'', JObj [
        (''population'', JStr (pp_population p)), (''failed_attempts'', JStr (pp_failed_attempts p))]),
     (''reliability'', JObj [
        (''numerator'', JStr (pp_numerator p)), (''denominator'', JStr (pp_denominator p)),
        (''outcomes'', json_strs (pp_outcomes p))]),
     (''invalid_evidence'', JObj [
        (''terminal_outcomes'', json_strs (pp_terminal_outcomes p)),
        (''record_conditions'', json_strs (pp_record_conditions p)),
        (''integrity_mismatch'', JStr (pp_integrity_mismatch p)),
        (''disposition'', JStr (pp_disposition p))])]"

definition project_measurement_policy :: "codec \<Rightarrow> population_policy \<Rightarrow> probe_error + measurement_policy" where
  "project_measurement_policy k p = (case canonical_sha k (population_payload p) of
     None \<Rightarrow> Inl CanonicalizationError
   | Some sha \<Rightarrow> (let m = \<lparr>mp_schema_version = pp_schema_version p, mp_policy_sha256 = sha,
         mp_calculation_version = pp_calculation_version p, mp_measured_phases = pp_phases p,
         mp_exact_attempts = pp_exact_attempts p, mp_warmups_included = pp_warmups_included p,
         mp_preflight_included = pp_preflight_included p, mp_retries = pp_retries p,
         mp_latency_population = pp_population p, mp_latency_failed_attempts = pp_failed_attempts p,
         mp_reliability_numerator = pp_numerator p, mp_reliability_denominator = pp_denominator p,
         mp_external_error_outcomes = pp_outcomes p, mp_invalid_terminal_outcomes = pp_terminal_outcomes p,
         mp_invalid_record_conditions = pp_record_conditions p,
         mp_integrity_mismatch_disposition = pp_integrity_mismatch p,
         mp_invalid_evidence_disposition = pp_disposition p\<rparr> in
       if measurement_policy_ok m then Inr m
       else Inl (ProbeConfigurationError ''Measurement population projection is unsupported.'')))"

subsection \<open>Measurement\<close>

record outcome_counts =
  oc_success :: nat
  oc_http_error :: nat
  oc_timeout :: nat
  oc_protocol_error :: nat
  oc_transport_error :: nat
  oc_cancelled :: nat
  oc_internal_error :: nat

record performance_measurement =
  me_attempted :: nat
  me_successful :: nat
  me_errors :: nat
  me_p95_ttft_ns :: "int option"
  me_evidence_issue :: "string option"
  me_outcome_counts :: outcome_counts

definition nearest_rank_p95_ns :: "int list \<Rightarrow> string + int" where
  "nearest_rank_p95_ns values = (let ordered = sort values in
     if ordered = [] then Inl ''At least one successful TTFT value is required.''
     else if list_ex (\<lambda>v. v < 0) ordered then Inl ''Every TTFT value must be a non-negative integer.''
     else Inr (ordered ! ((95 * length ordered + 99) div 100 - 1)))"

text \<open>\<open>_enum_value\<close> of the phase and \<open>_outcome_value\<close>: a member and its plain text look the same.\<close>

fun loose_text :: "('m \<Rightarrow> string) \<Rightarrow> 'm loose \<Rightarrow> string option" where
  "loose_text f (Member m) = Some (f m)"
| "loose_text f (PlainText t) = Some t"
| "loose_text f Foreign = None"

definition outcome_text :: "probe_record \<Rightarrow> string option" where
  "outcome_text r = loose_text outcome_value (rc_outcome r)"

text \<open>\<open>_measured_records\<close>: the measured records up to the first record that is out of order.\<close>

fun measured_records :: "probe_record list \<Rightarrow> probe_record list \<times> string option" where
  "measured_records [] = ([], None)"
| "measured_records (r # rs) = (
     if loose_text phase_value (rc_phase r) = Some ''WARMUP'' then
       (if rc_included r then ([], Some ''A warmup record was marked as measured.'')
        else measured_records rs)
     else if loose_text phase_value (rc_phase r) = Some ''MEASURED'' then
       (if \<not> rc_included r then ([], Some ''A measured record was marked as excluded.'')
        else (case measured_records rs of (records, issue) \<Rightarrow> (r # records, issue)))
     else ([], Some ''A probe record has an invalid phase.''))"

definition count_outcomes :: "probe_record list \<Rightarrow> outcome_counts" where
  "count_outcomes rs = (let count = (\<lambda>t. length (filter (\<lambda>r. outcome_text r = Some t) rs)) in
     \<lparr>oc_success = count ''SUCCESS'', oc_http_error = count ''HTTP_ERROR'', oc_timeout = count ''TIMEOUT'',
      oc_protocol_error = count ''PROTOCOL_ERROR'', oc_transport_error = count ''TRANSPORT_ERROR'',
      oc_cancelled = count ''CANCELLED'', oc_internal_error = count ''INTERNAL_ERROR''\<rparr>)"

definition is_success :: "probe_record \<Rightarrow> bool" where
  "is_success r \<longleftrightarrow> outcome_text r = Some ''SUCCESS''"

definition is_external_error :: "probe_record \<Rightarrow> bool" where
  "is_external_error r \<longleftrightarrow> outcome_text r \<in> set (map Some EXTERNAL_ERRORS)"

definition issue_measurement :: "probe_record list \<Rightarrow> string \<Rightarrow> performance_measurement" where
  "issue_measurement rs issue = \<lparr>me_attempted = length rs, me_successful = length (filter is_success rs),
     me_errors = length (filter is_external_error rs), me_p95_ttft_ns = None,
     me_evidence_issue = Some issue, me_outcome_counts = count_outcomes rs\<rparr>"

text \<open>
  \<open>measure_performance\<close>. An exception of the validator other than \<open>ProbeEvidenceError\<close> is not
  caught; a negative TTFT would make \<open>nearest_rank_p95_ns\<close> raise (\<open>Inl (Inr message)\<close>).
\<close>

definition measure_performance :: "codec \<Rightarrow> probe_run \<Rightarrow> (probe_error + string) + performance_measurement" where
  "measure_performance k run = (case measured_records (run_records run) of (records, selection) \<Rightarrow> (
     case selection of
       Some issue \<Rightarrow> Inr \<lparr>me_attempted = length records, me_successful = 0, me_errors = 0,
         me_p95_ttft_ns = None, me_evidence_issue = Some issue, me_outcome_counts = count_outcomes records\<rparr>
     | None \<Rightarrow>
       if None \<in> set (map outcome_text records)
       then Inr (issue_measurement records ''A measured request outcome is invalid.'')
       else if Some ''CANCELLED'' \<in> set (map outcome_text records)
       then Inr (issue_measurement records
         ''The measured execution was cancelled; incomplete evidence cannot prove the claim.'')
       else if Some ''INTERNAL_ERROR'' \<in> set (map outcome_text records)
       then Inr (issue_measurement records
         ''The measurement adapter failed internally; target performance is not proven.'')
       else (case validate_probe_run k run of
         Some (ProbeEvidenceError e) \<Rightarrow> Inr (issue_measurement records
           ''The probe evidence envelope is incomplete, malformed, or inconsistent.'')
       | Some e \<Rightarrow> Inl (Inl e)
       | None \<Rightarrow> (let successes = filter is_success records;
             errors = filter is_external_error records;
             values = map rc_ttft_ns successes in
           if length successes + length errors \<noteq> length records
           then Inr (issue_measurement records ''A measured request outcome is unsupported.'')
           else if None \<in> set values
           then Inr (issue_measurement records ''A successful measured request is missing its TTFT value.'')
           else (let measured = (\<lambda>p95. \<lparr>me_attempted = length records, me_successful = length successes,
               me_errors = length errors, me_p95_ttft_ns = p95, me_evidence_issue = None,
               me_outcome_counts = count_outcomes records\<rparr>) in
             if values = [] then Inr (measured None)
             else (case nearest_rank_p95_ns (map the values) of
               Inl e \<Rightarrow> Inl (Inr e) | Inr p95 \<Rightarrow> Inr (measured (Some p95))))))))"

subsection \<open>Verdict\<close>

datatype ttft_reason = TtftIssue string | TtftTooFew nat int | TtftNoMeasurement
  | TtftObserved int limit_operator int

datatype error_reason = ErrorIssue string | ErrorAttempts nat int | ErrorObserved nat nat real

record ttft_result =
  tt_verdict :: verdict_status
  tt_observed_ns :: "int option"
  tt_threshold_ns :: "int option"
  tt_operator :: limit_operator
  tt_successful_samples :: nat
  tt_minimum_successful_samples :: int
  tt_reason :: ttft_reason

record error_rate_result =
  ee_verdict :: verdict_status
  ee_error_count :: nat
  ee_attempted_count :: nat
  ee_observed_rate :: "real option"
  ee_threshold :: real
  ee_minimum_attempts :: int
  ee_reason :: error_reason

record performance_verdict =
  pv_criterion_id :: string
  pv_verdict :: verdict_status
  pv_attempted_count :: nat
  pv_successful_count :: nat
  pv_error_count :: nat
  pv_ttft_p95 :: ttft_result
  pv_error_rate :: error_rate_result
  pv_calculation_version :: string
  pv_reason :: string
  pv_limitations :: "string list"
  pv_outcome_counts :: outcome_counts

text \<open>\<open>_ttft_threshold_ns\<close>: milliseconds as a positive whole number of nanoseconds, or nothing.\<close>

definition ttft_threshold_ns :: "real \<Rightarrow> int option" where
  "ttft_threshold_ns threshold_ms = (let threshold = threshold_ms * 1000000; integral = \<lfloor>threshold\<rfloor> in
     if threshold \<noteq> real_of_int integral \<or> integral \<le> 0 then None else Some integral)"

definition observed_error_rate :: "performance_measurement \<Rightarrow> real option" where
  "observed_error_rate m = (if me_attempted m = 0 then None
     else Some (real (me_errors m) / real (me_attempted m)))"

text \<open>\<open>_population_binding_issue\<close>; a V1 criterion binds no population.\<close>

definition population_binding_issue :: "codec \<Rightarrow> performance_criterion \<Rightarrow> probe_run \<Rightarrow> probe_error + string option" where
  "population_binding_issue k c run = (case pf_measurement_policy c of None \<Rightarrow> Inr None
   | Some policy \<Rightarrow> (case project_measurement_policy k policy of Inl e \<Rightarrow> Inl e
     | Inr expected \<Rightarrow> Inr (
         if mf_measurement_policy (run_manifest run) \<noteq> Some expected
         then Some ''The probe manifest does not match the frozen measurement population policy.''
         else if mf_request_count (run_manifest run) \<noteq> mp_exact_attempts expected
         then Some ''The measured attempt population does not match the frozen measurement policy.''
         else None)))"

definition limit_met :: "limit_operator \<Rightarrow> int \<Rightarrow> int \<Rightarrow> bool" where
  "limit_met op observed threshold = (case op of LT \<Rightarrow> observed < threshold | LTE \<Rightarrow> observed \<le> threshold)"

definition evaluate_ttft_rule :: "performance_criterion \<Rightarrow> performance_measurement \<Rightarrow> int \<Rightarrow> ttft_result" where
  "evaluate_ttft_rule c m threshold = (let rule = pf_ttft_p95 c;
       result = (\<lambda>verdict observed reason. \<lparr>tt_verdict = verdict, tt_observed_ns = observed,
         tt_threshold_ns = Some threshold, tt_operator = tr_operator rule,
         tt_successful_samples = me_successful m,
         tt_minimum_successful_samples = tr_minimum_successful_samples rule, tt_reason = reason\<rparr>) in
     if int (me_successful m) < tr_minimum_successful_samples rule
     then result V_NOT_PROVEN (me_p95_ttft_ns m) (TtftTooFew (me_successful m) (tr_minimum_successful_samples rule))
     else (case me_p95_ttft_ns m of
       None \<Rightarrow> result V_NOT_PROVEN None TtftNoMeasurement
     | Some observed \<Rightarrow> result (if limit_met (tr_operator rule) observed threshold then V_PASS else V_FAIL)
         (Some observed) (TtftObserved observed (tr_operator rule) threshold)))"

definition evaluate_error_rate_rule :: "performance_criterion \<Rightarrow> performance_measurement \<Rightarrow> error_rate_result" where
  "evaluate_error_rate_rule c m = (let rule = pf_error_rate c; threshold = er_threshold rule;
       result = (\<lambda>verdict reason. \<lparr>ee_verdict = verdict, ee_error_count = me_errors m,
         ee_attempted_count = me_attempted m, ee_observed_rate = observed_error_rate m,
         ee_threshold = threshold, ee_minimum_attempts = er_minimum_attempts rule, ee_reason = reason\<rparr>) in
     if int (me_attempted m) \<noteq> er_minimum_attempts rule
     then result V_NOT_PROVEN (ErrorAttempts (me_attempted m) (er_minimum_attempts rule))
     else result (if real (me_errors m) < threshold * real (me_attempted m) then V_PASS else V_FAIL)
       (ErrorObserved (me_errors m) (me_attempted m) threshold))"

definition composite_verdict :: "performance_criterion \<Rightarrow> performance_measurement \<Rightarrow> ttft_result \<Rightarrow> error_rate_result \<Rightarrow> string list \<Rightarrow> performance_verdict" where
  "composite_verdict c m ttft rate limits = (let
       statuses = [tt_verdict ttft, ee_verdict rate];
       outcome = (if V_FAIL \<in> set statuses
           then (V_FAIL, ''At least one mandatory performance requirement failed.'')
         else if V_NOT_PROVEN \<in> set statuses
           then (V_NOT_PROVEN, ''No mandatory performance requirement failed, but at least one could not be proven.'')
         else (V_PASS, ''Both mandatory performance requirements passed.''))
     in \<lparr>pv_criterion_id = pf_id c, pv_verdict = fst outcome, pv_attempted_count = me_attempted m,
       pv_successful_count = me_successful m, pv_error_count = me_errors m,
       pv_ttft_p95 = ttft, pv_error_rate = rate,
       pv_calculation_version = (if pf_measurement_policy c \<noteq> None
         then ''exitspec.performance-verdicts.v2'' else ''exitspec.performance-verdicts.v1''),
       pv_reason = snd outcome, pv_limitations = limits, pv_outcome_counts = me_outcome_counts m\<rparr>)"

text \<open>Both rules of a criterion whose evidence has an issue.\<close>

definition unproven_verdict :: "performance_criterion \<Rightarrow> performance_measurement \<Rightarrow> int option \<Rightarrow> string \<Rightarrow> performance_verdict" where
  "unproven_verdict c m threshold issue = composite_verdict c m
     \<lparr>tt_verdict = V_NOT_PROVEN, tt_observed_ns = me_p95_ttft_ns m, tt_threshold_ns = threshold,
      tt_operator = tr_operator (pf_ttft_p95 c), tt_successful_samples = me_successful m,
      tt_minimum_successful_samples = tr_minimum_successful_samples (pf_ttft_p95 c), tt_reason = TtftIssue issue\<rparr>
     \<lparr>ee_verdict = V_NOT_PROVEN, ee_error_count = me_errors m, ee_attempted_count = me_attempted m,
      ee_observed_rate = observed_error_rate m, ee_threshold = er_threshold (pf_error_rate c),
      ee_minimum_attempts = er_minimum_attempts (pf_error_rate c), ee_reason = ErrorIssue issue\<rparr>
     [''Invalid or incomplete evidence never passes.'']"

definition evaluate_performance_criterion :: "codec \<Rightarrow> performance_criterion \<Rightarrow> probe_run \<Rightarrow> (probe_error + string) + performance_verdict" where
  "evaluate_performance_criterion k c run = (case measure_performance k run of Inl e \<Rightarrow> Inl e
   | Inr measured \<Rightarrow> (case population_binding_issue k c run of Inl e \<Rightarrow> Inl (Inl e)
     | Inr population \<Rightarrow> (let
         m = (case population of None \<Rightarrow> measured | Some issue \<Rightarrow> measured\<lparr>me_evidence_issue := Some issue\<rparr>);
         threshold = ttft_threshold_ns (tr_threshold (pf_ttft_p95 c))
       in case me_evidence_issue m of
         Some issue \<Rightarrow> Inr (unproven_verdict c m threshold issue)
       | None \<Rightarrow> (case threshold of
           None \<Rightarrow> Inr (unproven_verdict c m None
             ''The TTFT threshold cannot be represented as an integer number of nanoseconds.'')
         | Some threshold_ns \<Rightarrow> Inr (composite_verdict c m (evaluate_ttft_rule c m threshold_ns)
             (evaluate_error_rate_rule c m)
             [''TTFT is client-observed and includes network, proxy, queueing, and inference time.''])))))"

end
