(* ===== verification/Probe_Run.thy ===== *)
theory Probe_Run
  imports Probe
begin

section \<open>Executing attempts and assembling a run (performance_probe.py)\<close>

text \<open>
  One attempt is a function of what its surroundings do: whether the run was cancelled before it
  started, what the transport answers, and the readings of the monotonic clock, numbered in the
  order of the calls of \<open>clock_ns\<close> made by \<open>_execute_attempt\<close> itself. The threads of a phase only
  decide the order in which the attempts complete, which is an argument.
\<close>

subsection \<open>One attempt\<close>

text \<open>
  Exceptions as the handlers tell them apart: \<open>InterruptedError\<close>, \<open>TimeoutError\<close>,
  \<open>ProbeProtocolError\<close>, any other \<open>OSError\<close> or \<open>HTTPException\<close>, anything else.
\<close>

datatype attempt_exc = InterruptedExc | TimeoutExc | ProtocolExc | OSExc | OtherExc

record stream_response =
  sr_status_code :: int
  sr_content_type :: "string option"
  sr_consumed :: "attempt_exc + int \<times> int"
  sr_close :: "attempt_exc option"

datatype send_result = SendRaises attempt_exc | SendForeign | SendReturns stream_response

record attempt_script =
  at_cancelled :: bool
  at_send :: send_result
  at_clock :: "nat \<Rightarrow> int"

definition event_stream :: "string option \<Rightarrow> bool" where
  "event_stream content_type = (case content_type of None \<Rightarrow> False
     | Some t \<Rightarrow> map lower_char (py_strip (takeWhile (\<lambda>c. c \<noteq> CHR '';'') t)) = ''text/event-stream'')"

definition bad_clock :: probe_error where
  "bad_clock = ProbeEvidenceError ''Clock did not return a valid nanosecond value.''"

text \<open>
  The body of the \<open>try\<close>: the HTTP status it stored, how many readings were taken, and the
  exception or (outcome, TTFT, end). A negative reading raises inside the \<open>try\<close> and is caught by
  its last handler.
\<close>

type_synonym attempt_end = "probe_outcome \<times> int option \<times> int"

definition ended_with :: "(nat \<Rightarrow> int) \<Rightarrow> probe_outcome \<Rightarrow> attempt_exc + attempt_end" where
  "ended_with clock outcome = (if clock 1 < 0 then Inl OtherExc else Inr (outcome, None, clock 1))"

definition attempt_body :: "attempt_script \<Rightarrow> int option \<times> nat \<times> (attempt_exc + attempt_end)" where
  "attempt_body a = (
     if at_cancelled a then (None, 2, ended_with (at_clock a) CANCELLED)
     else (case at_send a of
       SendRaises e \<Rightarrow> (None, 1, Inl e)
     | SendForeign \<Rightarrow> (None, 1, Inl ProtocolExc)
     | SendReturns r \<Rightarrow> (let status = sr_status_code r in
         if \<not> (100 \<le> status \<and> status \<le> 599) then (Some status, 1, Inl ProtocolExc)
         else if \<not> status_ok status then (Some status, 2, ended_with (at_clock a) HTTP_ERROR)
         else if \<not> event_stream (sr_content_type r) then (Some status, 1, Inl ProtocolExc)
         else (Some status, 1, (case sr_consumed r of Inl e \<Rightarrow> Inl e
           | Inr (first_token_at, done_at) \<Rightarrow>
               Inr (SUCCESS, Some (first_token_at - at_clock a 0), done_at))))))"

fun handler :: "attempt_exc \<Rightarrow> int option \<Rightarrow> probe_outcome \<times> int option" where
  "handler InterruptedExc status = (CANCELLED, None)"
| "handler TimeoutExc status = (TIMEOUT, None)"
| "handler ProtocolExc status = (PROTOCOL_ERROR, status)"
| "handler OSExc status = (TRANSPORT_ERROR, status)"
| "handler OtherExc status = (INTERNAL_ERROR, status)"

text \<open>After the handlers: (status, readings taken, outcome, TTFT, end).\<close>

definition attempt_handled :: "attempt_script \<Rightarrow> probe_error + int option \<times> nat \<times> attempt_end" where
  "attempt_handled a = (case attempt_body a of
     (status, n, Inr e) \<Rightarrow> Inr (status, n, e)
   | (status, n, Inl exc) \<Rightarrow>
       if at_clock a n < 0 then Inl bad_clock
       else (case handler exc status of (outcome, status') \<Rightarrow> Inr (status', Suc n, outcome, None, at_clock a n)))"

definition close_failure :: "attempt_script \<Rightarrow> probe_outcome option" where
  "close_failure a = (if at_cancelled a then None else (case at_send a of
     SendReturns r \<Rightarrow> (case sr_close r of None \<Rightarrow> None
       | Some e \<Rightarrow> Some (if e \<in> {InterruptedExc, TimeoutExc, OSExc} then TRANSPORT_ERROR else INTERNAL_ERROR))
   | _ \<Rightarrow> None))"

definition attempt_closed :: "attempt_script \<Rightarrow> probe_error + int option \<times> attempt_end" where
  "attempt_closed a = (case attempt_handled a of Inl e \<Rightarrow> Inl e
   | Inr (status, n, outcome, ttft, ended) \<Rightarrow> (case close_failure a of
       None \<Rightarrow> Inr (status, outcome, ttft, ended)
     | Some failed \<Rightarrow> if at_clock a n < 0 then Inl bad_clock
         else Inr (status, failed, None, at_clock a n)))"

definition execute_attempt :: "probe_manifest \<Rightarrow> string \<Rightarrow> string \<Rightarrow> probe_phase \<Rightarrow> int \<Rightarrow> string \<Rightarrow> attempt_script \<Rightarrow> probe_error + probe_record" where
  "execute_attempt m prompt_id prompt_sha phase ordinal execution a = (
     if at_clock a 0 < 0 then Inl bad_clock
     else (case attempt_closed a of Inl e \<Rightarrow> Inl e
     | Inr (status, outcome, ttft, ended) \<Rightarrow>
         if ended < at_clock a 0 then Inl (ProbeEvidenceError ''Monotonic timing evidence is invalid.'')
         else if (case ttft of None \<Rightarrow> False | Some t \<Rightarrow> t < 0 \<or> t > ended - at_clock a 0)
         then Inl (ProbeEvidenceError ''TTFT timing evidence is invalid.'')
         else Inr \<lparr>rc_schema_version = mf_schema_version m, rc_execution_id = execution,
           rc_manifest_sha256 = mf_manifest_sha256 m, rc_request_id = request_id phase ordinal,
           rc_phase = Member phase, rc_ordinal = ordinal, rc_included = (phase = MEASURED),
           rc_prompt_id = prompt_id, rc_prompt_sha256 = prompt_sha, rc_outcome = Member outcome,
           rc_http_status = status, rc_ttft_ns = ttft, rc_duration_ns = ended - at_clock a 0\<rparr>))"

subsection \<open>A phase and a run\<close>

text \<open>\<open>order\<close> is the order in which \<open>as_completed\<close> yields the attempts of the phase.\<close>

fun collect_results :: "('e + 'a) list \<Rightarrow> 'e + 'a list" where
  "collect_results [] = Inr []"
| "collect_results (Inl e # rest) = Inl e"
| "collect_results (Inr a # rest) = (case collect_results rest of Inl e \<Rightarrow> Inl e | Inr bs \<Rightarrow> Inr (a # bs))"

definition execute_phase :: "codec \<Rightarrow> probe_manifest \<Rightarrow> synthetic_prompt list \<Rightarrow> probe_phase \<Rightarrow> string \<Rightarrow> (probe_phase \<Rightarrow> int \<Rightarrow> attempt_script) \<Rightarrow> int list \<Rightarrow> probe_error + probe_record list" where
  "execute_phase k m prompts phase execution script order =
     collect_results (map (\<lambda>i. execute_attempt m (sp_prompt_id (prompt_for prompts i))
       (sha256_hex k (sp_content (prompt_for prompts i))) phase i execution (script phase i)) order)"

text \<open>The end of \<open>_run_probe\<close>: order the records, validate them, hash them, validate the run.\<close>

definition finish_run :: "codec \<Rightarrow> probe_manifest \<Rightarrow> string \<Rightarrow> probe_record list \<Rightarrow> probe_error + probe_run" where
  "finish_run k m execution records = (let ordered = sort_key record_sort_key records in
     case validate_probe_records k m ordered execution of Some e \<Rightarrow> Inl e
     | None \<Rightarrow> (case records_sha256 k ordered of None \<Rightarrow> Inl CanonicalizationError
       | Some sha \<Rightarrow> (let run = \<lparr>run_execution_id = execution, run_manifest = m,
             run_records_sha256 = sha, run_records = ordered\<rparr> in
           case validate_probe_run k run of Some e \<Rightarrow> Inl e | None \<Rightarrow> Inr run)))"

text \<open>
  \<open>_run_probe\<close> for given prompts, execution identity, behaviour of the attempts, and completion
  orders of the two phases. With no warmups the first phase is skipped: its order is empty.
\<close>

definition run_probe :: "codec \<Rightarrow> probe_config \<Rightarrow> synthetic_prompt list \<Rightarrow> string \<Rightarrow> (probe_phase \<Rightarrow> int \<Rightarrow> attempt_script) \<Rightarrow> int list \<Rightarrow> int list \<Rightarrow> probe_error + probe_run" where
  "run_probe k c prompts execution script warm_order order = (case normalize_prompts prompts of
     Inl e \<Rightarrow> Inl e
   | Inr normalized \<Rightarrow> (case build_manifest k c normalized of Inl e \<Rightarrow> Inl e
   | Inr m \<Rightarrow> (case execute_phase k m normalized WARMUP execution script warm_order of Inl e \<Rightarrow> Inl e
   | Inr warm \<Rightarrow> (case execute_phase k m normalized MEASURED execution script order of Inl e \<Rightarrow> Inl e
   | Inr measured \<Rightarrow> finish_run k m execution (warm @ measured)))))"

end
