(* ===== verification/Probe_Laws.thy ===== *)
theory Probe_Laws
  imports Probe_Run "HOL-Library.Multiset"
begin

section \<open>Laws of the probe and its evidence envelope\<close>

text \<open>
  Request identifiers name phase and ordinal uniquely; the validator accepts exactly the complete
  evidence of the manifest, whatever the order of the records; a run is assembled exactly when
  every attempt left a recordable end, and the attempts that lose a whole run.
\<close>

subsection \<open>Request identifiers\<close>

definition digits_value :: "string \<Rightarrow> nat" where
  "digits_value s = foldl (\<lambda>n c. 10 * n + (of_char c - 48)) 0 s"

lemma digits_value_snoc: "digits_value (s @ [c]) = 10 * digits_value s + (of_char c - 48)"
  by (simp add: digits_value_def)

lemma digits_value_show_nat: "digits_value (show_nat n) = n"
proof (induction n rule: show_nat.induct)
  case (1 n)
  show ?case
  proof (cases "n < 10")
    case True
    then show ?thesis by (simp add: show_nat.simps [of n] digits_value_def of_char_of)
  next
    case False
    have "n mod 10 < 10" by simp
    then have "of_char (char_of (48 + n mod 10) :: char) = (48 + n mod 10 :: nat)"
      by (simp add: of_char_of del: mod_less_divisor)
    with 1 False show ?thesis
      by (simp add: show_nat.simps [of n] digits_value_snoc)
  qed
qed

lemma digits_value_zeros: "digits_value (replicate k (CHR ''0'') @ s) = digits_value s"
  by (induction k) (simp_all add: digits_value_def of_char_def)

lemma pad5_inj: "pad5 a = pad5 b \<Longrightarrow> a = b"
  by (metis pad5_def digits_value_zeros digits_value_show_nat)

lemma request_id_inj:
  assumes "request_id p i = request_id q j" and "0 \<le> i" and "0 \<le> j"
  shows "p = q \<and> i = j"
proof -
  have "p = q" using assms(1) by (cases p; cases q) (auto simp: request_id_def)
  with assms show ?thesis by (auto simp: request_id_def dest: pad5_inj)
qed

subsection \<open>The expected records\<close>

definition phase_count :: "probe_manifest \<Rightarrow> probe_phase \<Rightarrow> int" where
  "phase_count m phase = (if phase = WARMUP then mf_warmup_count m else mf_request_count m)"

definition in_phase :: "probe_manifest \<Rightarrow> probe_phase \<Rightarrow> int \<Rightarrow> bool" where
  "in_phase m phase i \<longleftrightarrow> 1 \<le> i \<and> i \<le> phase_count m phase"

lemma set_expected:
  "(x, p, i, included) \<in> set (expected_records m) \<longleftrightarrow>
     in_phase m p i \<and> x = request_id p i \<and> included = (p = MEASURED)"
  by (cases p) (auto simp: expected_records_def expected_phase_def in_phase_def phase_count_def)

lemma distinct_expected: "distinct (map fst (expected_records m))"
  by (auto simp: expected_records_def expected_phase_def distinct_map o_def inj_on_def dest: request_id_inj)

lemma map_of_expected:
  "map_of (expected_records m) x = Some (p, i, included) \<longleftrightarrow>
     in_phase m p i \<and> x = request_id p i \<and> included = (p = MEASURED)"
  by (simp add: distinct_map_of_iff [OF distinct_expected] set_expected)

lemma map_of_expected_None:
  "map_of (expected_records m) x = None \<longleftrightarrow> (\<forall>p i. in_phase m p i \<longrightarrow> x \<noteq> request_id p i)"
proof -
  have "map_of (expected_records m) x = None \<longleftrightarrow> (\<forall>p i inc. map_of (expected_records m) x \<noteq> Some (p, i, inc))"
    by (cases "map_of (expected_records m) x") auto
  then show ?thesis by (auto simp: map_of_expected)
qed

subsection \<open>What the scan over the records accepts\<close>

text \<open>A record that is the terminal record of request \<open>i\<close> of a phase of this execution.\<close>

definition record_of :: "probe_manifest \<Rightarrow> string \<Rightarrow> probe_phase \<Rightarrow> int \<Rightarrow> probe_record \<Rightarrow> bool" where
  "record_of m execution p i r \<longleftrightarrow> in_phase m p i \<and>
     rc_execution_id r = execution \<and> rc_schema_version r = mf_schema_version m \<and>
     rc_manifest_sha256 r = mf_manifest_sha256 m \<and> rc_request_id r = request_id p i \<and>
     rc_phase r = Member p \<and> rc_ordinal r = i \<and> rc_included r = (p = MEASURED) \<and>
     rc_prompt_id r = pd_prompt_id (prompt_for (mf_prompts m) i) \<and>
     rc_prompt_sha256 r = pd_sha256 (prompt_for (mf_prompts m) i) \<and>
     terminal_record_error r = None"

definition record_fits :: "probe_manifest \<Rightarrow> string \<Rightarrow> probe_record \<Rightarrow> bool" where
  "record_fits m execution r \<longleftrightarrow> (\<exists>p i. record_of m execution p i r)"

lemma record_error_None_iff:
  assumes "execution_id_ok execution" and "observed \<in> {None, Some execution}"
  shows "record_error m execution seen observed r = None \<longleftrightarrow>
    rc_request_id r \<notin> seen \<and> record_fits m execution r"
proof (cases "map_of (expected_records m) (rc_request_id r)")
  case None
  then have "\<not> record_fits m execution r"
    by (auto simp: record_fits_def record_of_def map_of_expected_None)
  with None show ?thesis by (simp add: record_error_def)
next
  case (Some v)
  obtain p i inc where v: "v = (p, i, inc)" by (cases v)
  from Some v have e: "in_phase m p i" "rc_request_id r = request_id p i" "inc = (p = MEASURED)"
    by (auto simp: map_of_expected)
  have "record_fits m execution r \<longleftrightarrow> record_of m execution p i r"
    using e by (auto simp: record_fits_def record_of_def in_phase_def dest: request_id_inj)
  with Some v e assms show ?thesis
    by (auto simp: record_error_def record_of_def)
qed

lemma scan_records_iff:
  assumes "execution_id_ok execution" and "observed \<in> {None, Some execution}"
  shows "scan_records m execution seen observed rs = Inr result \<longleftrightarrow>
    (\<forall>r \<in> set rs. record_fits m execution r) \<and> distinct (map rc_request_id rs) \<and>
    set (map rc_request_id rs) \<inter> seen = {} \<and> result = seen \<union> set (map rc_request_id rs)"
  using assms(2)
proof (induction rs arbitrary: seen observed)
  case Nil
  then show ?case by auto
next
  case (Cons r rs)
  show ?case
  proof (cases "record_error m execution seen observed r")
    case None
    then have r: "rc_request_id r \<notin> seen" "record_fits m execution r"
      using record_error_None_iff [OF assms(1) Cons.prems] by auto
    then have "rc_execution_id r = execution" by (auto simp: record_fits_def record_of_def)
    then show ?thesis using None r Cons.IH [of "Some (rc_execution_id r)" "insert (rc_request_id r) seen"]
      by auto
  next
    case (Some e)
    then show ?thesis using record_error_None_iff [OF assms(1) Cons.prems, of m seen r] by auto
  qed
qed

subsection \<open>Complete evidence\<close>

text \<open>
  The specification of the validator: one record per expected request and no other, each the
  terminal record of its request in this execution, and a hash over them. It does not mention the
  order of the records.
\<close>

definition complete_evidence :: "codec \<Rightarrow> probe_run \<Rightarrow> bool" where
  "complete_evidence k run \<longleftrightarrow> (let m = run_manifest run; rs = run_records run in
     execution_id_ok (run_execution_id run) \<and> manifest_error k m = None \<and>
     mset (map rc_request_id rs) = mset (map fst (expected_records m)) \<and>
     (\<forall>r \<in># mset rs. record_fits m (run_execution_id run) r) \<and>
     canonical_json k (manifest_payload m) \<noteq> None \<and> (\<forall>r \<in># mset rs. record_text k r \<noteq> None) \<and>
     is_sha256 (run_records_sha256 run) \<and> records_sha256 k rs = Some (run_records_sha256 run))"

lemma same_requests_iff:
  "mset (map rc_request_id rs) = mset (map fst (expected_records m)) \<longleftrightarrow>
    distinct (map rc_request_id rs) \<and> set (map rc_request_id rs) = set (map fst (expected_records m))"
  by (metis distinct_expected mset_eq_imp_distinct_iff mset_eq_setD set_eq_iff_mset_eq_distinct)

lemma validate_probe_records_iff:
  "validate_probe_records k m rs execution = None \<longleftrightarrow>
     execution_id_ok execution \<and> manifest_error k m = None \<and>
     mset (map rc_request_id rs) = mset (map fst (expected_records m)) \<and>
     (\<forall>r \<in> set rs. record_fits m execution r) \<and>
     canonical_json k (manifest_payload m) \<noteq> None \<and> (\<forall>r \<in> set rs. record_text k r \<noteq> None)"
proof (cases "execution_id_ok execution \<and> manifest_error k m = None")
  case True
  then have ex: "execution_id_ok execution" and mf: "manifest_error k m = None" by auto
  have texts: "None \<in> record_text k ` set rs \<longleftrightarrow> (\<exists>r \<in> set rs. record_text k r = None)" by force
  note scan = scan_records_iff [OF ex, of None m "{}" rs, simplified]
  show ?thesis
  proof (cases "scan_records m execution {} None rs")
    case (Inl e)
    then have "\<not> ((\<forall>r \<in> set rs. record_fits m execution r) \<and> distinct (map rc_request_id rs))"
      using scan by (metis sum.distinct(1))
    then show ?thesis unfolding same_requests_iff
      by (auto simp: validate_probe_records_def ex mf Inl)
  next
    case (Inr seen)
    then have scanned: "\<forall>r \<in> set rs. record_fits m execution r" "distinct (map rc_request_id rs)"
      "seen = set (map rc_request_id rs)"
      using scan [of seen] by auto
    have "mset (map rc_request_id rs) = mset (map fst (expected_records m)) \<longleftrightarrow>
        seen = set (map fst (expected_records m))"
      unfolding same_requests_iff using scanned by simp
    then show ?thesis using Inr scanned(1)
      by (simp add: validate_probe_records_def ex mf texts del: mset_map)
  qed
qed (auto simp: validate_probe_records_def split: option.splits)

lemma complete_evidence_iff:
  "complete_evidence k run \<longleftrightarrow>
     validate_probe_records k (run_manifest run) (run_records run) (run_execution_id run) = None \<and>
     is_sha256 (run_records_sha256 run) \<and> records_sha256 k (run_records run) = Some (run_records_sha256 run)"
  unfolding complete_evidence_def Let_def validate_probe_records_iff set_mset_mset by blast

lemma validate_probe_run_iff: "validate_probe_run k run = None \<longleftrightarrow> complete_evidence k run"
proof (cases "validate_probe_records k (run_manifest run) (run_records run) (run_execution_id run)")
  case None
  then have "execution_id_ok (run_execution_id run)" by (simp add: validate_probe_records_iff)
  with None show ?thesis
    by (auto simp: validate_probe_run_def complete_evidence_iff split: option.splits)
next
  case (Some e)
  then show ?thesis by (simp add: validate_probe_run_def complete_evidence_iff)
qed

subsection \<open>The order of the records\<close>

lemma record_sort_key_inj:
  assumes "\<forall>r \<in> set rs. record_fits m execution r" and "distinct (map rc_request_id rs)"
  shows "inj_on record_sort_key (set rs)"
proof (rule inj_onI)
  fix r r' assume r: "r \<in> set rs" "r' \<in> set rs" and key: "record_sort_key r = record_sort_key r'"
  obtain p i p' i' where of: "record_of m execution p i r" "record_of m execution p' i' r'"
    using assms(1) r unfolding record_fits_def by blast
  then have "p = p' \<and> i = i'" using key
    by (cases p; cases p') (auto simp: record_sort_key_def record_of_def)
  with of have "rc_request_id r = rc_request_id r'" by (simp add: record_of_def)
  with assms(2) r show "r = r'" by (auto simp: distinct_map dest: inj_onD)
qed

lemma sort_records_perm:
  assumes "mset rs' = mset rs" and "inj_on record_sort_key (set rs)"
  shows "sort_key record_sort_key rs' = sort_key record_sort_key rs"
  using assms by (intro sort_key_inj_key_eq) (auto dest: mset_eq_setD)

lemma complete_evidence_inj:
  assumes "complete_evidence k run"
  shows "inj_on record_sort_key (set (run_records run))"
proof (rule record_sort_key_inj)
  show "\<forall>r \<in> set (run_records run). record_fits (run_manifest run) (run_execution_id run) r"
    using assms by (simp add: complete_evidence_def Let_def)
  show "distinct (map rc_request_id (run_records run))"
    using assms unfolding complete_evidence_def Let_def same_requests_iff by simp
qed

lemma complete_evidence_perm:
  assumes "complete_evidence k run" and "mset rs = mset (run_records run)"
  shows "complete_evidence k (run\<lparr>run_records := rs\<rparr>)"
proof -
  have "records_sha256 k rs = records_sha256 k (run_records run)"
    using sort_records_perm [OF assms(2) complete_evidence_inj [OF assms(1)]]
    by (simp add: records_sha256_def records_jsonl_def)
  then show ?thesis using assms mset_eq_setD [OF assms(2)]
    by (simp add: complete_evidence_def Let_def)
qed

subsection \<open>One attempt\<close>

text \<open>Which (status, outcome, TTFT) an attempt can end with.\<close>

definition end_shape :: "int option \<Rightarrow> probe_outcome \<Rightarrow> int option \<Rightarrow> bool" where
  "end_shape status outcome ttft \<longleftrightarrow> (case outcome of
     SUCCESS \<Rightarrow> status \<noteq> None \<and> no_status_or_ok status \<and> ttft \<noteq> None
   | HTTP_ERROR \<Rightarrow> status \<noteq> None \<and> \<not> no_status_or_ok status \<and> 100 \<le> the status \<and> the status \<le> 599 \<and> ttft = None
   | TIMEOUT \<Rightarrow> status = None \<and> ttft = None
   | CANCELLED \<Rightarrow> status = None \<and> ttft = None
   | _ \<Rightarrow> ttft = None)"

lemma attempt_body_shape:
  "attempt_body a = (status, n, Inr (outcome, ttft, ended)) \<Longrightarrow> end_shape status outcome ttft"
  by (auto simp: attempt_body_def ended_with_def end_shape_def no_status_or_ok_def Let_def
      split: if_splits send_result.splits sum.splits)

lemma attempt_handled_shape:
  "attempt_handled a = Inr (status, n, outcome, ttft, ended) \<Longrightarrow> end_shape status outcome ttft"
proof (cases "attempt_body a")
  case (fields st k res)
  assume h: "attempt_handled a = Inr (status, n, outcome, ttft, ended)"
  show ?thesis
  proof (cases res)
    case (Inl e)
    with h fields show ?thesis
      by (cases e) (auto simp: attempt_handled_def end_shape_def split: if_splits)
  next
    case (Inr e)
    with h fields show ?thesis
      by (cases e) (auto simp: attempt_handled_def dest: attempt_body_shape)
  qed
qed

lemma attempt_closed_shape:
  assumes "attempt_closed a = Inr (status, outcome, ttft, ended)"
  shows "end_shape status outcome ttft"
proof (cases "close_failure a")
  case None
  with assms show ?thesis
    by (auto simp: attempt_closed_def split: sum.splits dest: attempt_handled_shape)
next
  case (Some failed)
  then have "failed \<in> {TRANSPORT_ERROR, INTERNAL_ERROR}"
    by (auto simp: close_failure_def split: if_splits send_result.splits option.splits)
  with Some assms show ?thesis
    by (auto simp: attempt_closed_def end_shape_def split: sum.splits if_splits)
qed

text \<open>
  An attempt is recordable when the clock never went back or below zero and when an attempt that
  ended in a protocol, transport or internal error kept no status outside 2xx.
\<close>

definition attempt_recordable :: "attempt_script \<Rightarrow> bool" where
  "attempt_recordable a \<longleftrightarrow> 0 \<le> at_clock a 0 \<and> (case attempt_closed a of Inl e \<Rightarrow> False
     | Inr (status, outcome, ttft, ended) \<Rightarrow> at_clock a 0 \<le> ended \<and>
         (case ttft of None \<Rightarrow> True | Some t \<Rightarrow> 0 \<le> t \<and> t \<le> ended - at_clock a 0) \<and>
         (outcome \<in> {PROTOCOL_ERROR, TRANSPORT_ERROR, INTERNAL_ERROR} \<longrightarrow> no_status_or_ok status))"

lemma execute_attempt_recordable:
  "(\<exists>r. execute_attempt m pid sha p i ex a = Inr r \<and> terminal_record_error r = None) \<longleftrightarrow> attempt_recordable a"
proof (cases "attempt_closed a")
  case (Inl e)
  then show ?thesis by (simp add: execute_attempt_def attempt_recordable_def)
next
  case (Inr v)
  obtain status outcome ttft ended where v: "v = (status, outcome, ttft, ended)" by (cases v)
  have shape: "end_shape status outcome ttft" using Inr v by (simp add: attempt_closed_shape)
  show ?thesis using shape Inr v
    by (cases outcome; cases ttft)
       (simp_all add: execute_attempt_def attempt_recordable_def end_shape_def terminal_record_error_def, auto)
qed

lemma execute_attempt_fields:
  assumes "execute_attempt m pid sha p i ex a = Inr r"
  shows "rc_schema_version r = mf_schema_version m" "rc_execution_id r = ex"
    "rc_manifest_sha256 r = mf_manifest_sha256 m" "rc_request_id r = request_id p i"
    "rc_phase r = Member p" "rc_ordinal r = i" "rc_included r = (p = MEASURED)"
    "rc_prompt_id r = pid" "rc_prompt_sha256 r = sha"
  using assms by (auto simp: execute_attempt_def split: if_splits sum.splits option.splits)

subsection \<open>Assembling a run\<close>

lemma build_manifest_Inr:
  assumes "build_manifest k c prompts = Inr m"
  shows "normalize_prompts prompts = Inr prompts" and "prompts \<noteq> []"
    and "mf_prompts m = map (prompt_descriptor_of k) prompts"
    and "mf_warmup_count m = pc_warmup_count c" and "mf_request_count m = pc_request_count c"
    and "manifest_config m = c"
    and "canonical_sha k (JArr (map descriptor_payload (mf_prompts m))) = Some (mf_prompt_set_sha256 m)"
    and "canonical_sha k (manifest_identity m) = Some (mf_manifest_sha256 m)"
    and "mf_schema_version m = schema_for (mf_measurement_policy m)"
    and "mf_first_token_definition m = FIRST_TOKEN_DEFINITION" and "\<not> mf_warmup_included m"
proof -
  have norm: "\<exists>ps. normalize_prompts prompts = Inr ps \<and> ps = prompts \<and> prompts \<noteq> []"
    using assms by (auto simp: build_manifest_def normalize_prompts_def split: if_splits)
  then show "normalize_prompts prompts = Inr prompts" "prompts \<noteq> []" by auto
  with assms show "mf_prompts m = map (prompt_descriptor_of k) prompts"
    "mf_warmup_count m = pc_warmup_count c" "mf_request_count m = pc_request_count c"
    "manifest_config m = c"
    "canonical_sha k (JArr (map descriptor_payload (mf_prompts m))) = Some (mf_prompt_set_sha256 m)"
    "canonical_sha k (manifest_identity m) = Some (mf_manifest_sha256 m)"
    "mf_schema_version m = schema_for (mf_measurement_policy m)"
    "mf_first_token_definition m = FIRST_TOKEN_DEFINITION" "\<not> mf_warmup_included m"
    by (auto simp: build_manifest_def manifest_config_def manifest_identity_def manifest_fields_def
        Let_def split: option.splits)
qed

lemma build_manifest_ok:
  assumes "build_manifest k c prompts = Inr m" and "probe_config_error k c = None"
    and "list_all synthetic_prompt_ok prompts" and "\<And>t. is_sha256 (sha256_hex k t)"
  shows "manifest_error k m = None"
proof -
  note b = build_manifest_Inr [OF assms(1)]
  have "list_all descriptor_ok (mf_prompts m)"
    using assms(3,4) by (auto simp: b(3) list_all_iff descriptor_ok_def prompt_descriptor_of_def synthetic_prompt_ok_def)
  then show ?thesis using b assms(2)
    by (auto simp: manifest_error_def schema_for_def list_all_iff list_ex_iff)
qed

lemma prompt_for_map: "xs \<noteq> [] \<Longrightarrow> prompt_for (map f xs) i = f (prompt_for xs i)"
proof -
  assume "xs \<noteq> []"
  then have "0 \<le> (i - 1) mod int (length xs) \<and> (i - 1) mod int (length xs) < int (length xs)" by simp
  then have "nat ((i - 1) mod int (length xs)) < length xs" by linarith
  then show ?thesis by (simp add: prompt_for_def)
qed

text \<open>The attempt made for request \<open>i\<close> of a phase.\<close>

definition attempt_of :: "codec \<Rightarrow> probe_manifest \<Rightarrow> synthetic_prompt list \<Rightarrow> string \<Rightarrow> (probe_phase \<Rightarrow> int \<Rightarrow> attempt_script) \<Rightarrow> probe_phase \<Rightarrow> int \<Rightarrow> probe_error + probe_record" where
  "attempt_of k m prompts execution script p i = execute_attempt m (sp_prompt_id (prompt_for prompts i))
     (sha256_hex k (sp_content (prompt_for prompts i))) p i execution (script p i)"

lemma attempt_of_record:
  assumes "build_manifest k c prompts = Inr m" and "attempt_of k m prompts execution script p i = Inr r"
    and "in_phase m p i"
  shows "record_fits m execution r \<longleftrightarrow> terminal_record_error r = None"
    and "rc_request_id r = request_id p i"
proof -
  note b = build_manifest_Inr [OF assms(1)]
  note f = execute_attempt_fields [OF assms(2) [unfolded attempt_of_def]]
  have "record_of m execution p i r \<longleftrightarrow> terminal_record_error r = None"
    using f assms(3) by (simp add: record_of_def b(3) prompt_for_map [OF b(2)] prompt_descriptor_of_def)
  moreover have "record_fits m execution r \<longleftrightarrow> record_of m execution p i r"
    using f assms(3) by (auto simp: record_fits_def record_of_def in_phase_def dest: request_id_inj)
  ultimately show "record_fits m execution r \<longleftrightarrow> terminal_record_error r = None" by simp
  show "rc_request_id r = request_id p i" by (rule f(4))
qed

lemma collect_Inr_Cons: "collect_results (Inr a # rest) = Inr ys \<longleftrightarrow> (\<exists>zs. ys = a # zs \<and> collect_results rest = Inr zs)"
  by (auto split: sum.splits)

lemma collect_Inr_iff: "collect_results xs = Inr ys \<longleftrightarrow> xs = map Inr ys"
proof (induction xs arbitrary: ys)
  case Nil
  then show ?case by auto
next
  case (Cons x xs)
  then show ?case
    by (cases x) (auto simp: collect_Inr_Cons simp del: collect_results.simps(3))
qed

lemma execute_phase_Inr_iff:
  "execute_phase k m prompts p execution script order = Inr rs \<longleftrightarrow>
     map (attempt_of k m prompts execution script p) order = map Inr rs"
  by (simp add: execute_phase_def collect_Inr_iff attempt_of_def [abs_def])

lemma map_Inr_exists: "(\<exists>rs. map f xs = map Inr rs) \<longleftrightarrow> (\<forall>x \<in> set xs. \<exists>r. f x = Inr r)"
proof
  assume "\<forall>x \<in> set xs. \<exists>r. f x = Inr r"
  then obtain g where "\<forall>x \<in> set xs. f x = Inr (g x)" by metis
  then have "map f xs = map Inr (map g xs)" by simp
  then show "\<exists>rs. map f xs = map Inr rs" by blast
next
  assume "\<exists>rs. map f xs = map Inr rs"
  then obtain rs where rs: "map f xs = map Inr rs" by blast
  show "\<forall>x \<in> set xs. \<exists>r. f x = Inr r"
  proof
    fix x assume "x \<in> set xs"
    then have "f x \<in> set (map Inr rs)" by (simp flip: rs)
    then show "\<exists>r. f x = Inr r" by auto
  qed
qed

text \<open>The attempt of a request left a record that the validator accepts and the encoder can write.\<close>

definition attempt_recorded :: "codec \<Rightarrow> probe_manifest \<Rightarrow> synthetic_prompt list \<Rightarrow> string \<Rightarrow> (probe_phase \<Rightarrow> int \<Rightarrow> attempt_script) \<Rightarrow> probe_phase \<Rightarrow> int \<Rightarrow> bool" where
  "attempt_recorded k m prompts execution script p i \<longleftrightarrow>
     (\<exists>r. attempt_of k m prompts execution script p i = Inr r \<and> terminal_record_error r = None \<and> record_text k r \<noteq> None)"

lemma attempt_recorded_recordable: "attempt_recorded k m prompts execution script p i \<Longrightarrow> attempt_recordable (script p i)"
  unfolding attempt_recorded_def attempt_of_def by (metis execute_attempt_recordable)

text \<open>What the two phases yield: records of all attempts, in the two completion orders.\<close>

definition phases_yield :: "codec \<Rightarrow> probe_manifest \<Rightarrow> synthetic_prompt list \<Rightarrow> string \<Rightarrow> (probe_phase \<Rightarrow> int \<Rightarrow> attempt_script) \<Rightarrow> int list \<Rightarrow> int list \<Rightarrow> probe_record list \<Rightarrow> bool" where
  "phases_yield k m prompts execution script warm_order order rs \<longleftrightarrow>
     map (attempt_of k m prompts execution script WARMUP) warm_order @
     map (attempt_of k m prompts execution script MEASURED) order = map Inr rs"

lemma phases_yield_split:
  "phases_yield k m prompts execution script warm_order order rs \<longleftrightarrow>
     (\<exists>warm measured. rs = warm @ measured \<and>
       execute_phase k m prompts WARMUP execution script warm_order = Inr warm \<and>
       execute_phase k m prompts MEASURED execution script order = Inr measured)"
  unfolding phases_yield_def execute_phase_Inr_iff append_eq_map_conv by blast

lemma finish_run_Inr_iff:
  "finish_run k m execution rs = Inr run \<longleftrightarrow>
     run_execution_id run = execution \<and> run_manifest run = m \<and>
     run_records run = sort_key record_sort_key rs \<and> complete_evidence k run"
proof (cases "validate_probe_records k m (sort_key record_sort_key rs) execution")
  case (Some e)
  then show ?thesis by (auto simp: finish_run_def complete_evidence_iff)
next
  case None
  note valid = None
  let ?ordered = "sort_key record_sort_key rs"
  show ?thesis
  proof (cases "records_sha256 k ?ordered")
    case None
    with valid show ?thesis by (auto simp: finish_run_def complete_evidence_iff)
  next
    case (Some sha)
    let ?run = "\<lparr>run_execution_id = execution, run_manifest = m, run_records_sha256 = sha, run_records = ?ordered\<rparr>"
    have made: "finish_run k m execution rs = Inr run \<longleftrightarrow> run = ?run \<and> complete_evidence k ?run"
      using valid Some validate_probe_run_iff [of k ?run]
      by (auto simp: finish_run_def Let_def simp del: not_None_eq split: option.splits)
    have "run_records_sha256 run = sha" if "complete_evidence k run" "run_records run = ?ordered"
      using that Some by (simp add: complete_evidence_iff)
    then show ?thesis unfolding made by (cases run) auto
  qed
qed

lemma run_probe_Inr_iff:
  assumes "build_manifest k c prompts = Inr m"
  shows "run_probe k c prompts execution script warm_order order = Inr run \<longleftrightarrow>
    (\<exists>rs. phases_yield k m prompts execution script warm_order order rs \<and>
      run_execution_id run = execution \<and> run_manifest run = m \<and>
      run_records run = sort_key record_sort_key rs \<and> complete_evidence k run)"
  unfolding run_probe_def build_manifest_Inr(1) [OF assms] assms sum.case phases_yield_split
    finish_run_Inr_iff [symmetric]
  by (auto split: sum.splits)

lemma phases_yield_ids:
  assumes "phases_yield k m prompts execution script warm_order order rs"
  shows "map rc_request_id rs = map (request_id WARMUP) warm_order @ map (request_id MEASURED) order"
proof -
  have ids: "map rc_request_id ys = map (request_id p) xs"
    if "map (attempt_of k m prompts execution script p) xs = map Inr ys" for p xs ys
    using that
  proof (induction xs arbitrary: ys)
    case (Cons x xs)
    then obtain y zs where "ys = y # zs" "attempt_of k m prompts execution script p x = Inr y"
      "map (attempt_of k m prompts execution script p) xs = map Inr zs"
      by (cases ys) auto
    moreover from this(2) have "rc_request_id y = request_id p x"
      unfolding attempt_of_def by (rule execute_attempt_fields(4))
    ultimately show ?case by (simp add: Cons.IH)
  qed auto
  from assms obtain warm measured where "rs = warm @ measured"
    "map (attempt_of k m prompts execution script WARMUP) warm_order = map Inr warm"
    "map (attempt_of k m prompts execution script MEASURED) order = map Inr measured"
    unfolding phases_yield_split execute_phase_Inr_iff by blast
  with ids show ?thesis by simp
qed

lemma phases_yield_set:
  assumes "phases_yield k m prompts execution script warm_order order rs"
  shows "r \<in> set rs \<longleftrightarrow> (\<exists>i \<in> set warm_order. attempt_of k m prompts execution script WARMUP i = Inr r) \<or>
    (\<exists>i \<in> set order. attempt_of k m prompts execution script MEASURED i = Inr r)"
proof -
  have "r \<in> set rs \<longleftrightarrow> Inr r \<in> set (map Inr rs :: (probe_error + probe_record) list)" by auto
  then show ?thesis unfolding assms [unfolded phases_yield_def, symmetric]
    by (auto simp: image_iff eq_commute)
qed

text \<open>The orders in which the attempts of the two phases complete: each request once.\<close>

definition completion_orders :: "probe_config \<Rightarrow> int list \<Rightarrow> int list \<Rightarrow> bool" where
  "completion_orders c warm_order order \<longleftrightarrow>
     mset warm_order = mset [1..pc_warmup_count c] \<and> mset order = mset [1..pc_request_count c]"

lemma completion_orders_set:
  assumes "completion_orders c warm_order order"
  shows "set warm_order = {1..pc_warmup_count c}" "set order = {1..pc_request_count c}"
  using assms mset_eq_setD [of warm_order "[1..pc_warmup_count c]"] mset_eq_setD [of order "[1..pc_request_count c]"]
  by (simp_all add: completion_orders_def)

lemma phases_yield_complete_ids:
  assumes "build_manifest k c prompts = Inr m" and "completion_orders c warm_order order"
    and "phases_yield k m prompts execution script warm_order order rs"
  shows "mset (map rc_request_id rs) = mset (map fst (expected_records m))"
proof -
  note b = build_manifest_Inr [OF assms(1)]
  show ?thesis using assms(2)
    unfolding phases_yield_ids [OF assms(3)] completion_orders_def
    by (simp add: expected_records_def expected_phase_def b o_def flip: image_mset.compositionality)
qed

lemma in_phase_orders:
  assumes "build_manifest k c prompts = Inr m" and "completion_orders c warm_order order"
  shows "in_phase m p i \<longleftrightarrow> (if p = WARMUP then i \<in> set warm_order else i \<in> set order)"
  using build_manifest_Inr [OF assms(1)] completion_orders_set [OF assms(2)]
  by (simp add: in_phase_def phase_count_def)

text \<open>The circumstances in which a run depends on its attempts only.\<close>

definition sound_setup :: "codec \<Rightarrow> probe_config \<Rightarrow> synthetic_prompt list \<Rightarrow> string \<Rightarrow> probe_manifest \<Rightarrow> bool" where
  "sound_setup k c prompts execution m \<longleftrightarrow> build_manifest k c prompts = Inr m \<and>
     probe_config_error k c = None \<and> list_all synthetic_prompt_ok prompts \<and>
     (\<forall>t. is_sha256 (sha256_hex k t)) \<and> execution_id_ok execution \<and>
     canonical_json k (manifest_payload m) \<noteq> None"

lemma run_assembled:
  assumes sound: "sound_setup k c prompts execution m" and orders: "completion_orders c warm_order order"
    and all: "\<And>p i. in_phase m p i \<Longrightarrow> attempt_recorded k m prompts execution script p i"
  shows "\<exists>run. run_probe k c prompts execution script warm_order order = Inr run"
proof -
  have built: "build_manifest k c prompts = Inr m" using sound by (simp add: sound_setup_def)
  note phase = in_phase_orders [OF built orders]
  have "\<exists>rs. map (attempt_of k m prompts execution script WARMUP) warm_order = map Inr rs"
    unfolding map_Inr_exists using all phase by (fastforce simp: attempt_recorded_def)
  moreover have "\<exists>rs. map (attempt_of k m prompts execution script MEASURED) order = map Inr rs"
    unfolding map_Inr_exists using all phase by (fastforce simp: attempt_recorded_def)
  ultimately obtain rs where yield: "phases_yield k m prompts execution script warm_order order rs"
    unfolding phases_yield_split execute_phase_Inr_iff by blast
  have good: "record_fits m execution r \<and> record_text k r \<noteq> None" if r: "r \<in> set rs" for r
  proof -
    obtain p i where pi: "in_phase m p i" "attempt_of k m prompts execution script p i = Inr r"
      using r phase unfolding phases_yield_set [OF yield] by (metis probe_phase.distinct(1))
    with all [OF pi(1)] attempt_of_record(1) [OF built pi(2,1)] show ?thesis
      by (auto simp: attempt_recorded_def)
  qed
  let ?ordered = "sort_key record_sort_key rs"
  have "None \<notin> set (map (record_text k) (sort_key record_sort_key ?ordered))"
    using good by force
  then obtain sha where sha: "records_sha256 k ?ordered = Some sha" "is_sha256 sha"
    using sound by (auto simp: records_sha256_def records_jsonl_def Let_def sound_setup_def)
  have "manifest_error k m = None" using sound unfolding sound_setup_def by (elim conjE) (rule build_manifest_ok, auto)
  moreover have "mset (map rc_request_id ?ordered) = mset (map fst (expected_records m))"
    using phases_yield_complete_ids [OF built orders yield] by simp
  ultimately have "validate_probe_records k m ?ordered execution = None"
    unfolding validate_probe_records_iff using sound good by (auto simp: sound_setup_def)
  then have "run_probe k c prompts execution script warm_order order =
      Inr \<lparr>run_execution_id = execution, run_manifest = m, run_records_sha256 = sha, run_records = ?ordered\<rparr>"
    unfolding run_probe_Inr_iff [OF built] using yield sha
    by (intro exI [of _ rs]) (simp add: complete_evidence_iff)
  then show ?thesis ..
qed

lemma run_attempts_recorded:
  assumes built: "build_manifest k c prompts = Inr m" and orders: "completion_orders c warm_order order"
    and run: "run_probe k c prompts execution script warm_order order = Inr run" and p: "in_phase m p i"
  shows "attempt_recorded k m prompts execution script p i"
proof -
  obtain rs where rs: "phases_yield k m prompts execution script warm_order order rs"
      "run_execution_id run = execution" "run_manifest run = m"
      "run_records run = sort_key record_sort_key rs" "complete_evidence k run"
    using run unfolding run_probe_Inr_iff [OF built] by blast
  have "map (attempt_of k m prompts execution script WARMUP) warm_order @
      map (attempt_of k m prompts execution script MEASURED) order = map Inr rs"
    using rs(1) by (simp add: phases_yield_def)
  moreover have "attempt_of k m prompts execution script p i \<in> set (map (attempt_of k m prompts execution script WARMUP) warm_order @
      map (attempt_of k m prompts execution script MEASURED) order)"
    using p in_phase_orders [OF built orders] by (cases p) auto
  ultimately obtain r where r: "attempt_of k m prompts execution script p i = Inr r" "r \<in> set rs"
    by auto
  then have "record_fits m execution r \<and> record_text k r \<noteq> None"
    using rs(2-5) unfolding complete_evidence_def Let_def by simp
  with r attempt_of_record(1) [OF built r(1) p] show ?thesis by (auto simp: attempt_recorded_def)
qed

subsection \<open>A concrete probe\<close>

text \<open>One local request, one prompt, an encoder that accepts everything, and clocks that move on.\<close>

definition demo_url :: url_parts where
  "demo_url = \<lparr>url_scheme = ''https'', url_hostname = Some ''h'', url_username = None, url_password = None,
     url_path = ''/chat/completions'', url_query = [], url_fragment = []\<rparr>"

definition demo_codec :: codec where
  "demo_codec = \<lparr>canonical_json = (\<lambda>p. Some ''x''), sha256_hex = (\<lambda>t. replicate 64 (CHR ''0'')),
     url_split = (\<lambda>t. Some demo_url)\<rparr>"

definition demo_config :: probe_config where
  "demo_config = \<lparr>pc_endpoint = ''e'', pc_model = ''m'', pc_request_count = 1, pc_concurrency = 1,
     pc_warmup_count = 0, pc_timeout_seconds = 30, pc_max_tokens = 64, pc_max_stream_bytes = 1024,
     pc_measurement_policy = None\<rparr>"

definition demo_prompts :: "synthetic_prompt list" where
  "demo_prompts = [\<lparr>sp_prompt_id = ''p1'', sp_content = ''hi''\<rparr>]"

definition demo_execution :: string where
  "demo_execution = ''run_'' @ replicate 32 (CHR ''a'')"

definition demo_manifest :: probe_manifest where
  "demo_manifest = \<lparr>mf_schema_version = PROBE_SCHEMA_VERSION, mf_manifest_sha256 = replicate 64 (CHR ''0''),
     mf_endpoint = ''e'', mf_model = ''m'', mf_request_count = 1, mf_concurrency = 1, mf_warmup_count = 0,
     mf_timeout_seconds = 30, mf_max_tokens = 64, mf_max_stream_bytes = 1024,
     mf_first_token_definition = FIRST_TOKEN_DEFINITION, mf_warmup_included = False,
     mf_prompts = [\<lparr>pd_prompt_id = ''p1'', pd_sha256 = replicate 64 (CHR ''0'')\<rparr>],
     mf_prompt_set_sha256 = replicate 64 (CHR ''0''), mf_measurement_policy = None\<rparr>"

lemma demo_build: "build_manifest demo_codec demo_config demo_prompts = Inr demo_manifest"
  by (simp add: build_manifest_def normalize_prompts_def demo_prompts_def demo_codec_def demo_config_def
      canonical_sha_def demo_manifest_def schema_for_def prompt_descriptor_of_def)

lemma demo_execution_ok: "execution_id_ok demo_execution"
  by (simp add: execution_id_ok_def demo_execution_def starts_with_def hex_text_def list_all_iff lower_hex_def)

lemma demo_config_ok: "probe_config_error demo_codec demo_config = None"
  by (simp add: probe_config_error_def endpoint_error_def demo_codec_def demo_config_def demo_url_def
      endpoint_parts_ok_def truthy_def ends_with_def starts_with_def py_strip_def py_space_def bounded_def batches_def)

lemma demo_setup: "sound_setup demo_codec demo_config demo_prompts demo_execution demo_manifest"
  unfolding sound_setup_def
  by (simp add: demo_build demo_config_ok demo_execution_ok)
     (simp add: demo_codec_def demo_prompts_def synthetic_prompt_ok_def prompt_id_ok_def is_lower_def
       lower_alnum_def is_digit_def is_upper_def py_strip_def py_space_def is_sha256_def hex_text_def list_all_iff lower_hex_def)

lemma demo_orders: "completion_orders demo_config [] [1]"
  by (simp add: completion_orders_def demo_config_def)

lemma demo_in_phase: "in_phase demo_manifest p i \<longleftrightarrow> p = MEASURED \<and> i = 1"
  by (cases p) (auto simp: in_phase_def phase_count_def demo_manifest_def)

definition demo_script :: "int \<Rightarrow> attempt_exc option \<Rightarrow> attempt_script" where
  "demo_script status close = \<lparr>at_cancelled = False, at_send = SendReturns \<lparr>sr_status_code = status,
     sr_content_type = Some ''text/event-stream'', sr_consumed = Inr (2, 5), sr_close = close\<rparr>,
     at_clock = (\<lambda>n. int n)\<rparr>"

lemma demo_event_stream: "event_stream (Some ''text/event-stream'')"
  by code_simp

definition demo_record :: probe_record where
  "demo_record = \<lparr>rc_schema_version = PROBE_SCHEMA_VERSION, rc_execution_id = demo_execution,
     rc_manifest_sha256 = replicate 64 (CHR ''0''), rc_request_id = request_id MEASURED 1,
     rc_phase = Member MEASURED, rc_ordinal = 1, rc_included = True, rc_prompt_id = ''p1'',
     rc_prompt_sha256 = replicate 64 (CHR ''0''), rc_outcome = Member SUCCESS, rc_http_status = Some 200,
     rc_ttft_ns = Some 2, rc_duration_ns = 5\<rparr>"

definition demo_run :: probe_run where
  "demo_run = \<lparr>run_execution_id = demo_execution, run_manifest = demo_manifest,
     run_records_sha256 = replicate 64 (CHR ''0''), run_records = [demo_record]\<rparr>"

lemma demo_manifest_ok: "manifest_error demo_codec demo_manifest = None"
  using demo_setup build_manifest_ok unfolding sound_setup_def by blast

lemma demo_fits: "record_of demo_manifest demo_execution MEASURED 1 demo_record"
  by (simp add: record_of_def demo_in_phase)
     (simp add: demo_record_def demo_manifest_def prompt_for_def terminal_record_error_def no_status_or_ok_def status_ok_def)

lemma demo_complete: "complete_evidence demo_codec demo_run"
proof -
  have "map fst (expected_records demo_manifest) = map rc_request_id [demo_record]"
    by (simp add: expected_records_def expected_phase_def demo_manifest_def demo_record_def)
  moreover have "record_fits demo_manifest demo_execution demo_record" using demo_fits by (auto simp: record_fits_def)
  moreover have "record_text demo_codec demo_record = Some ''x''"
    by (simp add: record_text_def demo_record_def demo_codec_def)
  moreover have "canonical_json demo_codec p \<noteq> None" "sha256_hex demo_codec t = replicate 64 (CHR ''0'')" for p t
    by (simp_all add: demo_codec_def)
  moreover have "is_sha256 (replicate 64 (CHR ''0''))" by (simp add: is_sha256_def hex_text_def list_all_iff lower_hex_def)
  ultimately show ?thesis
    unfolding complete_evidence_def Let_def
    by (simp add: demo_run_def demo_execution_ok demo_manifest_ok records_sha256_def records_jsonl_def)
qed

subsection \<open>Properties\<close>

text \<open>
  C32. Probing with an accepted configuration yields a run exactly when every attempt left a
  recordable end (clocks that neither go below zero nor back, no status outside 2xx kept by a
  failed attempt) whose record the encoder can write, in whatever order the attempts complete.
  The run is then complete evidence for its manifest.
\<close>

theorem run_probe_complete:
  assumes "sound_setup k c prompts execution m" and "completion_orders c warm_order order"
  shows "((\<exists>run. run_probe k c prompts execution script warm_order order = Inr run) \<longleftrightarrow>
      (\<forall>p i. in_phase m p i \<longrightarrow> attempt_recorded k m prompts execution script p i)) \<and>
    (\<forall>run. run_probe k c prompts execution script warm_order order = Inr run \<longrightarrow>
      complete_evidence k run \<and> run_manifest run = m \<and>
      (\<forall>p i. in_phase m p i \<longrightarrow> attempt_recordable (script p i)))"
proof -
  have built: "build_manifest k c prompts = Inr m" using assms(1) by (simp add: sound_setup_def)
  show ?thesis
    using run_assembled [OF assms] run_attempts_recorded [OF built assms(2)] attempt_recorded_recordable
    unfolding run_probe_Inr_iff [OF built] by blast
qed

theorem run_probe_complete_witness:
  "\<exists>run. run_probe demo_codec demo_config demo_prompts demo_execution (\<lambda>p i. demo_script 200 None) [] [1] = Inr run \<and>
     complete_evidence demo_codec run"
proof -
  have "attempt_recorded demo_codec demo_manifest demo_prompts demo_execution (\<lambda>p i. demo_script 200 None) MEASURED 1"
    by (simp add: attempt_recorded_def attempt_of_def execute_attempt_def attempt_closed_def attempt_handled_def
        attempt_body_def demo_script_def demo_event_stream status_ok_def close_failure_def record_text_def
        demo_codec_def terminal_record_error_def no_status_or_ok_def)
  then have "\<forall>p i. in_phase demo_manifest p i \<longrightarrow>
      attempt_recorded demo_codec demo_manifest demo_prompts demo_execution (\<lambda>p i. demo_script 200 None) p i"
    by (simp add: demo_in_phase)
  then show ?thesis
    using run_probe_complete [OF demo_setup demo_orders] by blast
qed

text \<open>
  A request that the endpoint answers with a status outside 2xx, and whose response then
  fails to close, costs the whole run: whatever the other requests did, no run is returned. Had
  the response closed, the attempt would have been recorded as an HTTP error.
\<close>

theorem close_failure_loses_run:
  assumes "build_manifest k c prompts = Inr m" and "completion_orders c warm_order order" and "in_phase m p i"
    and "at_send (script p i) = SendReturns r" and "\<not> at_cancelled (script p i)"
    and "100 \<le> sr_status_code r" and "sr_status_code r \<le> 599" and "\<not> status_ok (sr_status_code r)"
    and "sr_close r = Some e" and "0 \<le> at_clock (script p i) 0" and "at_clock (script p i) 0 \<le> at_clock (script p i) 1"
  shows "(\<forall>run. run_probe k c prompts execution script warm_order order \<noteq> Inr run) \<and>
    attempt_recordable ((script p i)\<lparr>at_send := SendReturns (r\<lparr>sr_close := None\<rparr>)\<rparr>)"
proof
  have "\<not> attempt_recordable (script p i)" using assms(4-9)
    by (auto simp: attempt_recordable_def attempt_closed_def attempt_handled_def attempt_body_def
        ended_with_def close_failure_def no_status_or_ok_def Let_def split: sum.splits if_splits)
  then show "\<forall>run. run_probe k c prompts execution script warm_order order \<noteq> Inr run"
    using run_attempts_recorded [OF assms(1,2) _ assms(3)] attempt_recorded_recordable by blast
  show "attempt_recordable ((script p i)\<lparr>at_send := SendReturns (r\<lparr>sr_close := None\<rparr>)\<rparr>)"
    using assms(4-8,10,11)
    by (auto simp: attempt_recordable_def attempt_closed_def attempt_handled_def attempt_body_def
        ended_with_def close_failure_def Let_def)
qed

theorem close_failure_loses_run_witness:
  "\<forall>run. run_probe demo_codec demo_config demo_prompts demo_execution (\<lambda>p i. demo_script 503 (Some OSExc)) [] [1] \<noteq> Inr run"
proof -
  have "in_phase demo_manifest MEASURED 1" by (simp add: demo_in_phase)
  from close_failure_loses_run [OF demo_build demo_orders this,
    of "\<lambda>p i. demo_script 503 (Some OSExc)" "\<lparr>sr_status_code = 503,
      sr_content_type = Some ''text/event-stream'', sr_consumed = Inr (2, 5), sr_close = Some OSExc\<rparr>" OSExc demo_execution]
  show ?thesis by (simp add: demo_script_def status_ok_def)
qed

text \<open>
  C26. The validator accepts a run exactly when the run is complete evidence: a sound manifest, and
  for each request it announces the one terminal record of this execution, in any order, under a
  hash that matches. In complete evidence every announced request has exactly one record, and no
  record belongs to anything else.
\<close>

theorem validate_probe_run_exact:
  "(validate_probe_run k run = None \<longleftrightarrow> complete_evidence k run) \<and>
   (complete_evidence k run \<longrightarrow>
     (\<forall>p i. in_phase (run_manifest run) p i \<longrightarrow>
        (\<exists>!r. r \<in> set (run_records run) \<and> record_of (run_manifest run) (run_execution_id run) p i r)) \<and>
     (\<forall>r \<in> set (run_records run). \<exists>p i. record_of (run_manifest run) (run_execution_id run) p i r) \<and>
     distinct (run_records run))"
proof (intro conjI impI)
  show "validate_probe_run k run = None \<longleftrightarrow> complete_evidence k run" by (rule validate_probe_run_iff)
  assume complete: "complete_evidence k run"
  let ?m = "run_manifest run" and ?rs = "run_records run" and ?e = "run_execution_id run"
  have ids: "distinct (map rc_request_id ?rs)" "set (map rc_request_id ?rs) = set (map fst (expected_records ?m))"
    using complete unfolding complete_evidence_def Let_def same_requests_iff by auto
  then show "distinct ?rs" by (simp add: distinct_map)
  show fits: "\<forall>r \<in> set ?rs. \<exists>p i. record_of ?m ?e p i r"
    using complete unfolding complete_evidence_def Let_def record_fits_def by simp
  show "\<forall>p i. in_phase ?m p i \<longrightarrow> (\<exists>!r. r \<in> set ?rs \<and> record_of ?m ?e p i r)"
  proof (intro allI impI)
    fix p i assume i: "in_phase ?m p i"
    have "(request_id p i, p, i, p = MEASURED) \<in> set (expected_records ?m)" using i by (simp add: set_expected)
    then have "request_id p i \<in> set (map fst (expected_records ?m))"
      unfolding set_map by (rule rev_image_eqI) simp
    then have "request_id p i \<in> set (map rc_request_id ?rs)" by (simp only: ids(2))
    then obtain r where r: "r \<in> set ?rs" "rc_request_id r = request_id p i" by auto
    obtain q j where q: "record_of ?m ?e q j r" using fits r(1) by blast
    have "request_id q j = request_id p i" "0 \<le> j" "0 \<le> i"
      using q r(2) i by (simp_all add: record_of_def in_phase_def)
    then have "q = p \<and> j = i" by (rule request_id_inj)
    with r(1) q have "r \<in> set ?rs \<and> record_of ?m ?e p i r" by simp
    moreover have "r' = r" if r': "r' \<in> set ?rs \<and> record_of ?m ?e p i r'" for r'
    proof -
      have "rc_request_id r' = rc_request_id r" using r' r(2) by (simp add: record_of_def)
      with ids(1) r' r(1) show ?thesis by (metis distinct_map inj_onD)
    qed
    ultimately show "\<exists>!r. r \<in> set ?rs \<and> record_of ?m ?e p i r" by blast
  qed
qed

theorem validate_probe_run_exact_witness:
  "validate_probe_run demo_codec demo_run = None \<and>
   (\<exists>!r. r \<in> set (run_records demo_run) \<and> record_of demo_manifest demo_execution MEASURED 1 r)"
proof -
  have "in_phase (run_manifest demo_run) MEASURED 1" by (simp add: demo_run_def demo_in_phase)
  with validate_probe_run_exact [of demo_codec demo_run] demo_complete show ?thesis
    by (simp add: demo_run_def)
qed

end
