(* ===== verification/Performance_Laws.thy ===== *)
theory Performance_Laws
  imports Performance Probe_Laws
begin

section \<open>Laws of the performance verdict\<close>

text \<open>
  The nearest-rank percentile is the least value covering 95 percent; a measurement is free of
  issues exactly on complete evidence without cancelled or lost requests; the verdict has an exact
  meaning on the run; permuting the records changes nothing; a PASS is backed by the evidence.
\<close>

subsection \<open>The nearest-rank percentile\<close>

definition count_le :: "int list \<Rightarrow> int \<Rightarrow> nat" where
  "count_le xs v = length (filter (\<lambda>x. x \<le> v) xs)"

lemma count_le_sort: "count_le (sort xs) v = count_le xs v"
  by (simp add: count_le_def filter_sort)

lemma count_le_sorted_nth:
  assumes "sorted xs" and "i < length xs"
  shows "Suc i \<le> count_le xs (xs ! i)"
proof -
  have "\<forall>x \<in> set (take (Suc i) xs). x \<le> xs ! i"
    using assms by (auto simp: in_set_conv_nth intro!: sorted_nth_mono)
  then have "filter (\<lambda>x. x \<le> xs ! i) (take (Suc i) xs) = take (Suc i) xs" by simp
  moreover have "count_le xs (xs ! i) = length (filter (\<lambda>x. x \<le> xs ! i) (take (Suc i) xs)) +
      length (filter (\<lambda>x. x \<le> xs ! i) (drop (Suc i) xs))"
    unfolding count_le_def by (metis append_take_drop_id filter_append length_append)
  ultimately show ?thesis using assms(2) by simp
qed

lemma sorted_drop_ge:
  assumes "sorted xs" and "i < length xs" and "x \<in> set (drop i xs)"
  shows "xs ! i \<le> x"
proof -
  have "sorted (drop i xs)" using assms(1) by (rule sorted_wrt_drop)
  moreover have "drop i xs = xs ! i # drop (Suc i) xs" using assms(2) by (rule Cons_nth_drop_Suc [symmetric])
  ultimately show ?thesis using assms(3) by auto
qed

lemma count_le_below_nth:
  assumes "sorted xs" and "i < length xs" and "w < xs ! i"
  shows "count_le xs w \<le> i"
proof -
  have "filter (\<lambda>x. x \<le> w) (drop i xs) = []"
    using assms(3) sorted_drop_ge [OF assms(1,2)] by (fastforce simp: filter_empty_conv)
  moreover have "count_le xs w = length (filter (\<lambda>x. x \<le> w) (take i xs)) + length (filter (\<lambda>x. x \<le> w) (drop i xs))"
    unfolding count_le_def by (metis append_take_drop_id filter_append length_append)
  moreover have "length (filter (\<lambda>x. x \<le> w) (take i xs)) \<le> i"
    by (rule order_trans [OF length_filter_le]) simp
  ultimately show ?thesis by simp
qed

text \<open>The least of the values that covers 95 percent of them.\<close>

definition covers_95 :: "int list \<Rightarrow> int \<Rightarrow> bool" where
  "covers_95 xs v \<longleftrightarrow> 95 * length xs \<le> 100 * count_le xs v"

lemma count_le_mono: "v \<le> w \<Longrightarrow> count_le xs v \<le> count_le xs w"
  unfolding count_le_def by (induction xs) auto

lemma rank_bounds:
  assumes "0 < (n::nat)"
  shows "(95 * n + 99) div 100 - 1 < n" and "95 * n \<le> 100 * Suc ((95 * n + 99) div 100 - 1)"
    and "100 * ((95 * n + 99) div 100 - 1) < 95 * n"
proof -
  define q where "q = (95 * n + 99) div 100"
  have q: "100 * q \<le> 95 * n + 99" "95 * n + 99 < 100 * q + 100" unfolding q_def by linarith+
  then obtain t where t: "q = Suc t" using assms by (cases q) auto
  show "(95 * n + 99) div 100 - 1 < n" "95 * n \<le> 100 * Suc ((95 * n + 99) div 100 - 1)"
    "100 * ((95 * n + 99) div 100 - 1) < 95 * n"
    unfolding q_def [symmetric] using q assms unfolding t by simp_all
qed

lemma nearest_rank_Inr:
  assumes "xs \<noteq> []" and "\<forall>v \<in> set xs. 0 \<le> v"
  obtains v where "nearest_rank_p95_ns xs = Inr v" "v \<in> set xs" "covers_95 xs v"
    "\<And>w. w < v \<Longrightarrow> \<not> covers_95 xs w"
proof
  let ?ys = "sort xs" let ?i = "(95 * length ?ys + 99) div 100 - 1"
  have n: "0 < length ?ys" using assms(1) by simp
  have ne: "sort xs \<noteq> []" using n by (simp only: length_greater_0_conv not_False_eq_True)
  note r = rank_bounds [OF n]
  have "\<not> list_ex (\<lambda>v. v < 0) ?ys" using assms(2) by (auto simp: list_ex_iff)
  then show "nearest_rank_p95_ns xs = Inr (?ys ! ?i)"
    using ne by (auto simp: nearest_rank_p95_ns_def Let_def)
  show "?ys ! ?i \<in> set xs" using nth_mem [OF r(1)] by simp
  have "Suc ?i \<le> count_le xs (?ys ! ?i)"
    using count_le_sorted_nth [OF sorted_sort r(1)] by (simp add: count_le_sort)
  then show "covers_95 xs (?ys ! ?i)" using r(2) unfolding covers_95_def by simp
  show "\<not> covers_95 xs w" if "w < ?ys ! ?i" for w
    using count_le_below_nth [OF sorted_sort r(1) that] r(3) by (simp add: covers_95_def count_le_sort)
qed

subsection \<open>The measurement of complete evidence\<close>

definition measured_part :: "probe_run \<Rightarrow> probe_record list" where
  "measured_part run = filter (\<lambda>r. rc_phase r = Member MEASURED) (run_records run)"

definition ended_as :: "probe_run \<Rightarrow> probe_outcome \<Rightarrow> bool" where
  "ended_as run outcome \<longleftrightarrow> (\<exists>r \<in> set (measured_part run). rc_outcome r = Member outcome)"

text \<open>Evidence on which a rule may be judged: complete, and no measured request cancelled or lost.\<close>

definition judgeable_run :: "codec \<Rightarrow> probe_run \<Rightarrow> bool" where
  "judgeable_run k run \<longleftrightarrow> complete_evidence k run \<and> \<not> ended_as run CANCELLED \<and> \<not> ended_as run INTERNAL_ERROR"

definition successes :: "probe_run \<Rightarrow> probe_record list" where
  "successes run = filter is_success (measured_part run)"

definition external_errors :: "probe_run \<Rightarrow> probe_record list" where
  "external_errors run = filter is_external_error (measured_part run)"

definition observed_ttfts :: "probe_run \<Rightarrow> int list" where
  "observed_ttfts run = map (the \<circ> rc_ttft_ns) (successes run)"

lemma outcome_value_inj: "outcome_value a = outcome_value b \<longleftrightarrow> a = b"
  by (cases a; cases b) simp_all

lemma complete_fits:
  "complete_evidence k run \<Longrightarrow> r \<in> set (run_records run) \<Longrightarrow> record_fits (run_manifest run) (run_execution_id run) r"
  by (simp add: complete_evidence_def Let_def)

lemma record_fits_phase:
  assumes "record_fits m execution r"
  obtains p where "rc_phase r = Member p" "rc_included r = (p = MEASURED)" "terminal_record_error r = None"
  using assms unfolding record_fits_def record_of_def by blast

lemma measured_records_complete:
  assumes "\<forall>r \<in> set rs. record_fits m execution r"
  shows "measured_records rs = (filter (\<lambda>r. rc_phase r = Member MEASURED) rs, None)"
  using assms
proof (induction rs)
  case (Cons r rs)
  obtain p where "rc_phase r = Member p" "rc_included r = (p = MEASURED)"
    using Cons.prems record_fits_phase [of m execution r] by auto
  with Cons show ?case by (cases p) auto
qed simp

lemma measured_records_run:
  "complete_evidence k run \<Longrightarrow> measured_records (run_records run) = (measured_part run, None)"
  unfolding measured_part_def by (rule measured_records_complete) (blast intro: complete_fits)

text \<open>What the terminal check leaves of a record: an enum outcome, and a TTFT exactly on success.\<close>

lemma terminal_outcome:
  assumes "terminal_record_error r = None"
  obtains outcome where "rc_outcome r = Member outcome"
    "outcome = SUCCESS \<Longrightarrow> \<exists>t. rc_ttft_ns r = Some t \<and> 0 \<le> t"
proof -
  obtain outcome where o: "rc_outcome r = Member outcome"
    using assms by (cases "rc_outcome r") (auto simp: terminal_record_error_def Let_def split: if_splits)
  moreover have "\<exists>t. rc_ttft_ns r = Some t \<and> 0 \<le> t" if "outcome = SUCCESS"
    using assms o that by (auto simp: terminal_record_error_def Let_def split: if_splits option.splits)
  ultimately show ?thesis using that by blast
qed

lemma measured_outcome:
  assumes "complete_evidence k run" and "r \<in> set (measured_part run)"
  obtains outcome where "rc_outcome r = Member outcome" "outcome_text r = Some (outcome_value outcome)"
    "outcome = SUCCESS \<Longrightarrow> \<exists>t. rc_ttft_ns r = Some t \<and> 0 \<le> t"
proof -
  have "record_fits (run_manifest run) (run_execution_id run) r"
    using assms complete_fits by (simp add: measured_part_def)
  then have "terminal_record_error r = None" by (rule record_fits_phase)
  then show ?thesis by (rule terminal_outcome) (auto intro: that simp: outcome_text_def)
qed

lemma ended_as_text:
  assumes "complete_evidence k run"
  shows "Some (outcome_value outcome) \<in> set (map outcome_text (measured_part run)) \<longleftrightarrow> ended_as run outcome"
proof -
  have "outcome_text r = Some (outcome_value outcome) \<longleftrightarrow> rc_outcome r = Member outcome"
    if r: "r \<in> set (measured_part run)" for r
    using assms r by (rule measured_outcome) (simp add: outcome_value_inj)
  then show ?thesis by (force simp: ended_as_def)
qed

lemma successes_or_errors:
  assumes "judgeable_run k run" and "r \<in> set (measured_part run)"
  shows "is_external_error r \<longleftrightarrow> \<not> is_success r"
proof -
  have complete: "complete_evidence k run" using assms(1) by (simp add: judgeable_run_def)
  obtain outcome where o: "rc_outcome r = Member outcome" "outcome_text r = Some (outcome_value outcome)"
    using complete assms(2) by (rule measured_outcome)
  have "outcome \<noteq> CANCELLED \<and> outcome \<noteq> INTERNAL_ERROR"
    using assms o(1) by (auto simp: judgeable_run_def ended_as_def)
  with o(2) show ?thesis
    by (cases outcome) (simp_all add: is_external_error_def is_success_def EXTERNAL_ERRORS_def)
qed

lemma length_successes_errors:
  assumes "judgeable_run k run"
  shows "length (successes run) + length (external_errors run) = length (measured_part run)"
proof -
  have "external_errors run = filter (\<lambda>r. \<not> is_success r) (measured_part run)"
    unfolding external_errors_def using successes_or_errors [OF assms] by (simp cong: filter_cong)
  then show ?thesis by (simp add: successes_def sum_length_filter_compl)
qed

lemma success_ttft:
  assumes "complete_evidence k run" and "r \<in> set (successes run)"
  shows "\<exists>t. rc_ttft_ns r = Some t \<and> 0 \<le> t"
proof -
  have r: "r \<in> set (measured_part run)" and s: "is_success r" using assms(2) by (auto simp: successes_def)
  obtain outcome where o: "outcome_text r = Some (outcome_value outcome)"
      "outcome = SUCCESS \<Longrightarrow> \<exists>t. rc_ttft_ns r = Some t \<and> 0 \<le> t"
    using assms(1) r by (rule measured_outcome) blast
  have "outcome = SUCCESS" using s o(1) by (cases outcome) (simp_all add: is_success_def)
  with o(2) show ?thesis by simp
qed

text \<open>The measurement without an issue.\<close>

definition clean_measurement :: "probe_run \<Rightarrow> int option \<Rightarrow> performance_measurement" where
  "clean_measurement run p95 = \<lparr>me_attempted = length (measured_part run), me_successful = length (successes run),
     me_errors = length (external_errors run), me_p95_ttft_ns = p95, me_evidence_issue = None,
     me_outcome_counts = count_outcomes (measured_part run)\<rparr>"

definition p95_of :: "probe_run \<Rightarrow> int option \<Rightarrow> bool" where
  "p95_of run p95 \<longleftrightarrow> (case p95 of None \<Rightarrow> successes run = []
     | Some v \<Rightarrow> v \<in> set (observed_ttfts run) \<and> covers_95 (observed_ttfts run) v \<and>
         (\<forall>w < v. \<not> covers_95 (observed_ttfts run) w))"

lemma measure_judgeable:
  assumes "judgeable_run k run"
  obtains p95 where "measure_performance k run = Inr (clean_measurement run p95)" "p95_of run p95"
proof -
  have complete: "complete_evidence k run" using assms by (simp add: judgeable_run_def)
  note texts = ended_as_text [OF complete]
  have no: "Some ''CANCELLED'' \<notin> set (map outcome_text (measured_part run))"
    "Some ''INTERNAL_ERROR'' \<notin> set (map outcome_text (measured_part run))"
    using assms texts [of CANCELLED] texts [of INTERNAL_ERROR] by (simp_all add: judgeable_run_def)
  have none: "None \<notin> set (map outcome_text (measured_part run))"
    using measured_outcome [OF complete] by (force simp: in_set_conv_nth)
  have ttft: "None \<notin> set (map rc_ttft_ns (successes run))"
    using success_ttft [OF complete] by force
  have ttfts: "map the (map rc_ttft_ns (successes run)) = observed_ttfts run"
    by (simp add: observed_ttfts_def)
  have base: "measure_performance k run = (if successes run = [] then Inr (clean_measurement run None)
      else (case nearest_rank_p95_ns (observed_ttfts run) of Inl e \<Rightarrow> Inl (Inr e)
        | Inr v \<Rightarrow> Inr (clean_measurement run (Some v))))"
    unfolding measure_performance_def measured_records_run [OF complete] prod.case option.case
    using no none ttft length_successes_errors [OF assms] validate_probe_run_iff [of k run] complete ttfts
    by (simp add: Let_def clean_measurement_def flip: successes_def external_errors_def split: sum.split)
  show ?thesis
  proof (cases "successes run = []")
    case True
    with base show ?thesis by (intro that [of None]) (simp_all add: p95_of_def)
  next
    case False
    then have "observed_ttfts run \<noteq> []" "\<forall>v \<in> set (observed_ttfts run). 0 \<le> v"
      using success_ttft [OF complete] by (fastforce simp: observed_ttfts_def)+
    then obtain v where "nearest_rank_p95_ns (observed_ttfts run) = Inr v" "v \<in> set (observed_ttfts run)"
        "covers_95 (observed_ttfts run) v" "\<And>w. w < v \<Longrightarrow> \<not> covers_95 (observed_ttfts run) w"
      by (rule nearest_rank_Inr) blast
    with base False show ?thesis by (intro that [of "Some v"]) (simp_all add: p95_of_def)
  qed
qed

text \<open>Anything else carries an issue, unless the encoder raised.\<close>

lemma measure_not_judgeable:
  assumes "\<not> judgeable_run k run" and "measure_performance k run = Inr m"
  shows "me_evidence_issue m \<noteq> None"
proof (rule ccontr)
  assume clean: "\<not> me_evidence_issue m \<noteq> None"
  obtain records selection where mr: "measured_records (run_records run) = (records, selection)" by fastforce
  from assms(2) clean have sel: "selection = None"
    and no: "Some ''CANCELLED'' \<notin> set (map outcome_text records)" "Some ''INTERNAL_ERROR'' \<notin> set (map outcome_text records)"
    and valid: "validate_probe_run k run = None"
    unfolding measure_performance_def mr
    by (auto simp: issue_measurement_def split: option.splits if_splits probe_error.splits)
  from valid have complete: "complete_evidence k run" by (simp add: validate_probe_run_iff)
  with mr have "records = measured_part run" by (simp add: measured_records_run)
  with no complete ended_as_text [OF complete, of CANCELLED] ended_as_text [OF complete, of INTERNAL_ERROR]
  have "judgeable_run k run" by (simp add: judgeable_run_def)
  with assms(1) show False ..
qed

lemma p95_of_unique: "p95_of run p \<Longrightarrow> p95_of run q \<Longrightarrow> p = q"
  by (cases p; cases q) (force simp: p95_of_def observed_ttfts_def dest: linorder_neq_iff [THEN iffD1])+

lemma p95_of_None: "p95_of run None \<longleftrightarrow> length (successes run) = 0"
  by (simp add: p95_of_def)

lemma measured_ids:
  assumes "complete_evidence k run"
  shows "set (map rc_request_id (measured_part run)) = request_id MEASURED ` {1..mf_request_count (run_manifest run)}"
    and "distinct (map rc_request_id (measured_part run))"
proof -
  let ?m = "run_manifest run" and ?rs = "run_records run"
  have ids: "distinct (map rc_request_id ?rs)" "set (map rc_request_id ?rs) = set (map fst (expected_records ?m))"
    using assms unfolding complete_evidence_def Let_def same_requests_iff by auto
  then show "distinct (map rc_request_id (measured_part run))"
    unfolding measured_part_def by (simp add: distinct_map_filter)
  show "set (map rc_request_id (measured_part run)) = request_id MEASURED ` {1..mf_request_count ?m}"
  proof (intro equalityI subsetI)
    fix x assume "x \<in> set (map rc_request_id (measured_part run))"
    then obtain r where r: "r \<in> set ?rs" "rc_phase r = Member MEASURED" "x = rc_request_id r"
      by (auto simp: measured_part_def)
    then obtain p i where "record_of ?m (run_execution_id run) p i r"
      using complete_fits [OF assms] unfolding record_fits_def by blast
    with r show "x \<in> request_id MEASURED ` {1..mf_request_count ?m}"
      by (auto simp: record_of_def in_phase_def phase_count_def)
  next
    fix x assume "x \<in> request_id MEASURED ` {1..mf_request_count ?m}"
    then obtain i where i: "in_phase ?m MEASURED i" "x = request_id MEASURED i"
      by (auto simp: in_phase_def phase_count_def)
    then have "x \<in> set (map fst (expected_records ?m))"
      using set_expected [of x MEASURED i True ?m] by force
    then have "x \<in> set (map rc_request_id ?rs)" by (simp only: ids(2))
    then obtain r where r: "r \<in> set ?rs" "rc_request_id r = x" by auto
    then obtain p j where j: "record_of ?m (run_execution_id run) p j r"
      using complete_fits [OF assms] unfolding record_fits_def by blast
    then have "p = MEASURED" using i r by (auto simp: record_of_def in_phase_def dest: request_id_inj)
    with j r(1) have "r \<in> set (measured_part run)" by (simp add: measured_part_def record_of_def)
    with r(2) show "x \<in> set (map rc_request_id (measured_part run))"
      by (metis image_eqI list.set_map)
  qed
qed

lemma length_measured_part:
  assumes "complete_evidence k run"
  shows "int (length (measured_part run)) = max 0 (mf_request_count (run_manifest run))"
proof -
  let ?n = "mf_request_count (run_manifest run)"
  have "length (measured_part run) = card (set (map rc_request_id (measured_part run)))"
    using measured_ids(2) [OF assms] by (metis distinct_card length_map)
  also have "\<dots> = card {1..?n}" unfolding measured_ids(1) [OF assms]
    by (rule card_image) (auto simp: inj_on_def dest: request_id_inj)
  finally show ?thesis by simp
qed

subsection \<open>The verdict\<close>

text \<open>A run that the rules of the criterion may judge, with its limit in nanoseconds.\<close>

definition decidable :: "codec \<Rightarrow> performance_criterion \<Rightarrow> probe_run \<Rightarrow> int \<Rightarrow> bool" where
  "decidable k c run limit \<longleftrightarrow> judgeable_run k run \<and> population_binding_issue k c run = Inr None \<and>
     ttft_threshold_ns (tr_threshold (pf_ttft_p95 c)) = Some limit"

lemma composite_verdict_fields:
  "pv_verdict (composite_verdict c m t e ls) = (if V_FAIL \<in> {tt_verdict t, ee_verdict e} then V_FAIL
     else if V_NOT_PROVEN \<in> {tt_verdict t, ee_verdict e} then V_NOT_PROVEN else V_PASS)"
  by (simp add: composite_verdict_def Let_def)

lemma clean_issue: "me_evidence_issue (clean_measurement run p95) = None"
  by (simp add: clean_measurement_def)

lemma evaluate_decidable:
  assumes "evaluate_performance_criterion k c run = Inr v" and "decidable k c run limit"
  obtains p95 ls where "p95_of run p95"
    "v = composite_verdict c (clean_measurement run p95) (evaluate_ttft_rule c (clean_measurement run p95) limit)
       (evaluate_error_rate_rule c (clean_measurement run p95)) ls"
proof -
  have d: "judgeable_run k run" "population_binding_issue k c run = Inr None"
    "ttft_threshold_ns (tr_threshold (pf_ttft_p95 c)) = Some limit"
    using assms(2) by (simp_all add: decidable_def)
  obtain p95 where p95: "measure_performance k run = Inr (clean_measurement run p95)" "p95_of run p95"
    using measure_judgeable [OF d(1)] by blast
  have "\<exists>ls. v = composite_verdict c (clean_measurement run p95) (evaluate_ttft_rule c (clean_measurement run p95) limit)
      (evaluate_error_rate_rule c (clean_measurement run p95)) ls"
    using assms(1) by (auto simp: evaluate_performance_criterion_def p95(1) d clean_issue Let_def)
  with p95(2) that show ?thesis by blast
qed

lemma evaluate_undecidable:
  assumes "evaluate_performance_criterion k c run = Inr v" and "\<nexists>limit. decidable k c run limit"
  shows "pv_verdict v = V_NOT_PROVEN"
proof -
  obtain m p where m: "measure_performance k run = Inr m" and p: "population_binding_issue k c run = Inr p"
    using assms(1) by (auto simp: evaluate_performance_criterion_def split: sum.splits)
  have "me_evidence_issue m \<noteq> None \<or> p \<noteq> None \<or> ttft_threshold_ns (tr_threshold (pf_ttft_p95 c)) = None"
    using assms(2) measure_not_judgeable [OF _ m] p
    by (cases "ttft_threshold_ns (tr_threshold (pf_ttft_p95 c))") (auto simp: decidable_def)
  with assms(1) m p show ?thesis
    by (auto simp: evaluate_performance_criterion_def Let_def unproven_verdict_def composite_verdict_fields
        split: option.splits)
qed

lemma ttft_rule_verdict:
  "tt_verdict (evaluate_ttft_rule c (clean_measurement run p95) limit) =
    (if int (length (successes run)) < tr_minimum_successful_samples (pf_ttft_p95 c) \<or> p95 = None then V_NOT_PROVEN
     else if limit_met (tr_operator (pf_ttft_p95 c)) (the p95) limit then V_PASS else V_FAIL)"
  by (simp add: evaluate_ttft_rule_def clean_measurement_def Let_def split: option.splits)

lemma error_rule_verdict:
  "ee_verdict (evaluate_error_rate_rule c (clean_measurement run p95)) =
    (if int (length (measured_part run)) \<noteq> er_minimum_attempts (pf_error_rate c) then V_NOT_PROVEN
     else if real (length (external_errors run)) < er_threshold (pf_error_rate c) * real (length (measured_part run))
     then V_PASS else V_FAIL)"
  by (simp add: evaluate_error_rate_rule_def clean_measurement_def Let_def)

text \<open>The two rules, stated on the run.\<close>

definition enough_successes :: "performance_criterion \<Rightarrow> probe_run \<Rightarrow> bool" where
  "enough_successes c run \<longleftrightarrow> tr_minimum_successful_samples (pf_ttft_p95 c) \<le> int (length (successes run))"

definition all_attempts :: "performance_criterion \<Rightarrow> probe_run \<Rightarrow> bool" where
  "all_attempts c run \<longleftrightarrow> int (length (measured_part run)) = er_minimum_attempts (pf_error_rate c)"

definition error_rate_met :: "performance_criterion \<Rightarrow> probe_run \<Rightarrow> bool" where
  "error_rate_met c run \<longleftrightarrow>
     real (length (external_errors run)) < er_threshold (pf_error_rate c) * real (length (measured_part run))"

lemma verdict_exact:
  assumes "evaluate_performance_criterion k c run = Inr v" and "performance_criterion_ok c"
  shows "(pv_verdict v = V_PASS \<longleftrightarrow> (\<exists>limit p95. decidable k c run limit \<and> p95_of run (Some p95) \<and>
       enough_successes c run \<and> limit_met (tr_operator (pf_ttft_p95 c)) p95 limit \<and>
       all_attempts c run \<and> error_rate_met c run)) \<and>
    (pv_verdict v = V_FAIL \<longleftrightarrow> (\<exists>limit. decidable k c run limit \<and>
       ((\<exists>p95. p95_of run (Some p95) \<and> enough_successes c run \<and>
            \<not> limit_met (tr_operator (pf_ttft_p95 c)) p95 limit) \<or>
        all_attempts c run \<and> \<not> error_rate_met c run))) \<and>
    pv_verdict v \<in> {V_PASS, V_FAIL, V_NOT_PROVEN}"
proof (cases "\<exists>limit. decidable k c run limit")
  case False
  with evaluate_undecidable [OF assms(1)] show ?thesis by auto
next
  case True
  then obtain limit where d: "decidable k c run limit" ..
  have unique: "decidable k c run l \<longleftrightarrow> l = limit" for l using d by (auto simp: decidable_def)
  obtain p95 ls where p95: "p95_of run p95"
    and v: "v = composite_verdict c (clean_measurement run p95) (evaluate_ttft_rule c (clean_measurement run p95) limit)
       (evaluate_error_rate_rule c (clean_measurement run p95)) ls"
    using evaluate_decidable [OF assms(1) d] by blast
  have unique95: "p95_of run q \<longleftrightarrow> q = p95" for q using p95 p95_of_unique by blast
  have positive: "0 < tr_minimum_successful_samples (pf_ttft_p95 c)"
    using assms(2) by (simp add: performance_criterion_ok_def ttft_rule_ok_def)
  have "p95 = None \<Longrightarrow> \<not> enough_successes c run"
    using p95 positive by (auto simp: enough_successes_def p95_of_None)
  then show ?thesis
    unfolding v composite_verdict_fields ttft_rule_verdict error_rule_verdict unique unique95
    by (cases p95) (auto simp: enough_successes_def all_attempts_def error_rate_met_def not_less)
qed

lemma performance_pass_conditions:
  assumes "evaluate_performance_criterion k c run = Inr v" and "pv_verdict v = V_PASS" and "performance_criterion_ok c"
  shows "\<exists>limit p95. decidable k c run limit \<and> p95_of run (Some p95) \<and>
       enough_successes c run \<and> limit_met (tr_operator (pf_ttft_p95 c)) p95 limit \<and>
       all_attempts c run \<and> error_rate_met c run"
  using verdict_exact [OF assms(1,3)] assms(2) by blast

subsection \<open>Evidence in any order\<close>

lemma nearest_rank_perm: "mset xs = mset ys \<Longrightarrow> nearest_rank_p95_ns xs = nearest_rank_p95_ns ys"
  by (metis nearest_rank_p95_ns_def sorted_list_of_multiset_mset)

lemma length_filter_perm: "mset xs = mset ys \<Longrightarrow> length (filter P xs) = length (filter P ys)"
  by (metis mset_filter size_mset)

lemma length_filter_mono: "(\<And>x. P x \<Longrightarrow> Q x) \<Longrightarrow> length (filter P xs) \<le> length (filter Q xs)"
  by (induction xs) (auto intro: le_SucI)

lemma count_outcomes_perm: "mset xs = mset ys \<Longrightarrow> count_outcomes xs = count_outcomes ys"
  by (simp add: count_outcomes_def Let_def length_filter_perm [of xs ys])

lemma issue_measurement_perm: "mset xs = mset ys \<Longrightarrow> issue_measurement xs = issue_measurement ys"
  by (rule ext) (simp add: issue_measurement_def length_filter_perm [of xs ys] count_outcomes_perm [of xs ys]
      mset_eq_length [of xs ys])

lemma judgeable_cong:
  assumes "complete_evidence k run" and "complete_evidence k run'"
    and "set (measured_part run') = set (measured_part run)"
  shows "judgeable_run k run' \<longleftrightarrow> judgeable_run k run"
  using assms by (simp add: judgeable_run_def ended_as_def)

lemma clean_measurement_perm:
  assumes "mset (measured_part run') = mset (measured_part run)"
  shows "clean_measurement run' = clean_measurement run"
  by (rule ext)
     (simp add: clean_measurement_def successes_def external_errors_def assms length_filter_perm [OF assms]
       count_outcomes_perm [OF assms] mset_eq_length [OF assms])

lemma p95_of_perm:
  assumes "mset (measured_part run') = mset (measured_part run)"
  shows "p95_of run' = p95_of run"
proof -
  have m: "mset (successes run') = mset (successes run)" using assms by (simp add: successes_def)
  then have t: "mset (observed_ttfts run') = mset (observed_ttfts run)"
    by (simp add: observed_ttfts_def flip: image_mset.compositionality)
  then have "covers_95 (observed_ttfts run') = covers_95 (observed_ttfts run)"
    by (intro ext) (simp add: covers_95_def count_le_def length_filter_perm [OF t] mset_eq_length [OF t])
  moreover have "successes run' = [] \<longleftrightarrow> successes run = []" using m by (metis mset_zero_iff)
  ultimately show ?thesis using mset_eq_setD [OF t]
    by (intro ext) (simp add: p95_of_def split: option.splits)
qed

lemma measure_unjudgeable_complete:
  assumes "complete_evidence k run" and "\<not> judgeable_run k run"
  shows "measure_performance k run = Inr (issue_measurement (measured_part run)
    (if ended_as run CANCELLED
     then ''The measured execution was cancelled; incomplete evidence cannot prove the claim.''
     else ''The measurement adapter failed internally; target performance is not proven.''))"
proof -
  have "None \<notin> set (map outcome_text (measured_part run))"
    using measured_outcome [OF assms(1)] by (force simp: in_set_conv_nth)
  then show ?thesis using assms(2) ended_as_text [OF assms(1), of CANCELLED] ended_as_text [OF assms(1), of INTERNAL_ERROR]
    by (auto simp: measure_performance_def measured_records_run [OF assms(1)] judgeable_run_def assms(1) simp del: set_map)
qed

lemma measure_perm:
  assumes "complete_evidence k run" and "mset rs = mset (run_records run)"
  shows "measure_performance k (run\<lparr>run_records := rs\<rparr>) = measure_performance k run"
proof -
  let ?run = "run\<lparr>run_records := rs\<rparr>"
  have complete: "complete_evidence k ?run" using assms by (rule complete_evidence_perm)
  have m: "mset (measured_part ?run) = mset (measured_part run)"
    using assms(2) by (simp add: measured_part_def)
  note j = judgeable_cong [OF assms(1) complete mset_eq_setD [OF m]]
  show ?thesis
  proof (cases "judgeable_run k run")
    case True
    obtain p where p: "measure_performance k run = Inr (clean_measurement run p)" "p95_of run p"
      using measure_judgeable [OF True] by blast
    obtain q where q: "measure_performance k ?run = Inr (clean_measurement ?run q)" "p95_of ?run q"
      using measure_judgeable j True by blast
    have "q = p" using p(2) q(2) unfolding p95_of_perm [OF m] by (rule p95_of_unique [rotated])
    with p(1) q(1) show ?thesis by (simp only: clean_measurement_perm [OF m])
  next
    case False
    have ended: "ended_as ?run CANCELLED = ended_as run CANCELLED"
      using mset_eq_setD [OF m] by (simp add: ended_as_def)
    have "\<not> judgeable_run k ?run" using False j by simp
    note both = measure_unjudgeable_complete [OF complete this] measure_unjudgeable_complete [OF assms(1) False]
    show ?thesis unfolding both ended issue_measurement_perm [OF m] ..
  qed
qed

subsection \<open>A concrete criterion\<close>

definition demo_performance :: performance_criterion where
  "demo_performance = \<lparr>pf_id = ''PERF-1'', pf_title = ''t'', pf_source = None, pf_human_added = True,
     pf_normalized_claim = ''c'', pf_ttft_p95 = \<lparr>tr_operator = LTE, tr_threshold = 1000, tr_minimum_successful_samples = 1\<rparr>,
     pf_error_rate = \<lparr>er_threshold = 1 / 2, er_minimum_attempts = 1\<rparr>, pf_workload_slice = ''w'', pf_adapter = ''a'',
     pf_adapter_version = ''1'', pf_owner = ''o'', pf_evidence_policy = ''e'', pf_approved = True,
     pf_measurement_policy = None\<rparr>"

lemma demo_performance_ok: "performance_criterion_ok demo_performance"
  by (simp add: performance_criterion_ok_def demo_performance_def criterion_id_ok_def is_upper_def is_digit_def
      ttft_rule_ok_def error_rate_rule_ok_def)

lemma demo_measure: "measure_performance demo_codec demo_run = Inr (clean_measurement demo_run (Some 2))"
proof -
  have "validate_probe_run demo_codec demo_run = None" using demo_complete by (simp add: validate_probe_run_iff)
  then show ?thesis
    by (simp add: measure_performance_def demo_run_def demo_record_def outcome_text_def is_success_def
        is_external_error_def EXTERNAL_ERRORS_def nearest_rank_p95_ns_def clean_measurement_def
        measured_part_def successes_def external_errors_def Let_def)
qed

lemma demo_verdict: "\<exists>v. evaluate_performance_criterion demo_codec demo_performance demo_run = Inr v \<and> pv_verdict v = V_PASS"
  by (simp add: evaluate_performance_criterion_def demo_measure population_binding_issue_def demo_performance_def
      clean_issue ttft_threshold_ns_def Let_def composite_verdict_fields ttft_rule_verdict error_rule_verdict)
     (simp add: demo_run_def demo_record_def measured_part_def successes_def external_errors_def is_success_def
       is_external_error_def EXTERNAL_ERRORS_def outcome_text_def limit_met_def)

subsection \<open>Properties\<close>

text \<open>
The order in which the records of a complete run are kept does not matter: with the records
  permuted the evidence is still complete, and every criterion gets the same verdict, word for word.
\<close>

theorem evidence_order_irrelevant:
  assumes "complete_evidence k run" and "mset rs = mset (run_records run)"
  shows "validate_probe_run k (run\<lparr>run_records := rs\<rparr>) = None \<and>
    evaluate_performance_criterion k c (run\<lparr>run_records := rs\<rparr>) = evaluate_performance_criterion k c run"
proof
  show "validate_probe_run k (run\<lparr>run_records := rs\<rparr>) = None"
    using complete_evidence_perm [OF assms] by (simp add: validate_probe_run_iff)
  have "population_binding_issue k c (run\<lparr>run_records := rs\<rparr>) = population_binding_issue k c run"
    by (simp add: population_binding_issue_def split: option.split sum.split)
  then show "evaluate_performance_criterion k c (run\<lparr>run_records := rs\<rparr>) = evaluate_performance_criterion k c run"
    by (simp only: evaluate_performance_criterion_def measure_perm [OF assms])
qed

text \<open>
The p95 of a list of non-negative values is its least element that covers 95 percent of it;
  an empty list or a negative value is refused.
\<close>

theorem nearest_rank_exact:
  "nearest_rank_p95_ns xs = Inr v \<longleftrightarrow> (\<forall>x \<in> set xs. 0 \<le> x) \<and> v \<in> set xs \<and> covers_95 xs v \<and>
     (\<forall>w < v. \<not> covers_95 xs w)"
proof (cases "xs \<noteq> [] \<and> (\<forall>x \<in> set xs. 0 \<le> x)")
  case True
  then obtain u where "nearest_rank_p95_ns xs = Inr u" "u \<in> set xs" "covers_95 xs u" "\<And>w. w < u \<Longrightarrow> \<not> covers_95 xs w"
    using nearest_rank_Inr [of xs] by blast
  with True show ?thesis by (auto dest: linorder_neq_iff [THEN iffD1])
next
  case False
  then show ?thesis
    by (auto simp: nearest_rank_p95_ns_def Let_def list_ex_iff not_le split: if_splits)
qed

theorem nearest_rank_exact_witness: "nearest_rank_p95_ns [30, 10, 20] = Inr 30"
proof -
  have "w < 10 \<or> 10 \<le> w \<and> w < 20 \<or> 20 \<le> w" for w :: int by linarith
  then have "\<forall>w < 30. \<not> covers_95 [30, 10, 20] w" by (auto simp: covers_95_def count_le_def)
  then show ?thesis unfolding nearest_rank_exact by (simp add: covers_95_def count_le_def)
qed

text \<open>The successful request \<open>r\<close> met the TTFT limit of the criterion.\<close>

definition within_limit :: "performance_criterion \<Rightarrow> probe_record \<Rightarrow> bool" where
  "within_limit c r \<longleftrightarrow> real_of_int (the (rc_ttft_ns r)) \<le> tr_threshold (pf_ttft_p95 c) * 1000000"

lemma limit_met_within:
  assumes "ttft_threshold_ns t = Some limit" and "limit_met op p95 limit" and "x \<le> p95"
  shows "real_of_int x \<le> t * 1000000"
proof -
  have "t * 1000000 = real_of_int limit" using assms(1) by (auto simp: ttft_threshold_ns_def Let_def split: if_splits)
  moreover have "x \<le> limit" using assms(2,3) by (cases op) (auto simp: limit_met_def)
  ultimately show ?thesis by simp
qed

text \<open>
  C25. A performance PASS is backed by complete evidence of exactly the approved number of
  measured requests, none cancelled or lost internally: at least 95 percent of the successful ones
  met the TTFT limit, there were at least the required number of them, and the requests that
  failed stay below the error threshold.
\<close>

theorem performance_pass_sound:
  assumes "evaluate_performance_criterion k c run = Inr v" and "pv_verdict v = V_PASS"
    and "performance_criterion_ok c"
  shows "complete_evidence k run \<and>
    mf_request_count (run_manifest run) = er_minimum_attempts (pf_error_rate c) \<and>
    int (length (measured_part run)) = er_minimum_attempts (pf_error_rate c) \<and>
    length (successes run) + length (external_errors run) = length (measured_part run) \<and>
    tr_minimum_successful_samples (pf_ttft_p95 c) \<le> int (length (successes run)) \<and>
    95 * length (successes run) \<le> 100 * length (filter (within_limit c) (successes run)) \<and>
    real (length (external_errors run)) < er_threshold (pf_error_rate c) * real (length (measured_part run))"
proof -
  from performance_pass_conditions [OF assms]
  obtain limit p95 where d: "decidable k c run limit" and p: "p95_of run (Some p95)"
    and rules: "enough_successes c run" "limit_met (tr_operator (pf_ttft_p95 c)) p95 limit" "all_attempts c run" "error_rate_met c run"
    by blast
  have j: "judgeable_run k run" and t: "ttft_threshold_ns (tr_threshold (pf_ttft_p95 c)) = Some limit"
    using d by (simp_all add: decidable_def)
  have complete: "complete_evidence k run" using j by (simp add: judgeable_run_def)
  have "0 < er_minimum_attempts (pf_error_rate c)"
    using assms(3) by (simp add: performance_criterion_ok_def error_rate_rule_ok_def)
  then have "mf_request_count (run_manifest run) = er_minimum_attempts (pf_error_rate c)"
    using length_measured_part [OF complete] rules(3) by (simp add: all_attempts_def)
  moreover have "count_le (observed_ttfts run) p95 \<le> length (filter (within_limit c) (successes run))"
    unfolding count_le_def observed_ttfts_def within_limit_def
    by (simp add: filter_map o_def) (intro length_filter_mono limit_met_within [OF t rules(2)])
  ultimately show ?thesis
    using complete rules p length_successes_errors [OF j]
    by (simp add: all_attempts_def enough_successes_def error_rate_met_def p95_of_def covers_95_def observed_ttfts_def)
qed

text \<open>
  The verdict of a performance criterion, exactly. PASS: the evidence is complete with no
  measured request cancelled or lost internally and the frozen population, the least value that
  covers 95 percent of the observed TTFTs meets the limit over enough successes, all approved
  attempts were made and the error rate is below its threshold. FAIL: on the same evidence one of
  the two rules is violated with enough samples. Anything else, NOT_PROVEN.
\<close>

theorem performance_verdict_exact:
  assumes "evaluate_performance_criterion k c run = Inr v" and "performance_criterion_ok c"
  shows "(pv_verdict v = V_PASS \<longleftrightarrow> (\<exists>limit p95. decidable k c run limit \<and> p95_of run (Some p95) \<and>
       enough_successes c run \<and> limit_met (tr_operator (pf_ttft_p95 c)) p95 limit \<and>
       all_attempts c run \<and> error_rate_met c run)) \<and>
    (pv_verdict v = V_FAIL \<longleftrightarrow> (\<exists>limit. decidable k c run limit \<and>
       ((\<exists>p95. p95_of run (Some p95) \<and> enough_successes c run \<and>
            \<not> limit_met (tr_operator (pf_ttft_p95 c)) p95 limit) \<or>
        all_attempts c run \<and> \<not> error_rate_met c run))) \<and>
    pv_verdict v \<in> {V_PASS, V_FAIL, V_NOT_PROVEN}"
  by (rule verdict_exact [OF assms])

theorem performance_verdict_exact_witness:
  "\<exists>v limit p95. evaluate_performance_criterion demo_codec demo_performance demo_run = Inr v \<and>
     decidable demo_codec demo_performance demo_run limit \<and> p95_of demo_run (Some p95) \<and> all_attempts demo_performance demo_run"
proof -
  obtain v where v: "evaluate_performance_criterion demo_codec demo_performance demo_run = Inr v" "pv_verdict v = V_PASS"
    using demo_verdict by blast
  with performance_verdict_exact [OF v(1) demo_performance_ok] show ?thesis by blast
qed

theorem performance_pass_sound_witness:
  "95 * length (successes demo_run) \<le> 100 * length (filter (within_limit demo_performance) (successes demo_run)) \<and>
   mf_request_count demo_manifest = 1"
proof -
  obtain v where "evaluate_performance_criterion demo_codec demo_performance demo_run = Inr v" "pv_verdict v = V_PASS"
    using demo_verdict by blast
  from performance_pass_sound [OF this demo_performance_ok] show ?thesis
    by (simp add: demo_manifest_def)
qed

theorem evidence_order_irrelevant_witness: "validate_probe_run demo_codec (demo_run\<lparr>run_records := rev [demo_record]\<rparr>) = None"
proof -
  have "mset (rev [demo_record]) = mset (run_records demo_run)" by (simp add: demo_run_def)
  from evidence_order_irrelevant [OF demo_complete this] show ?thesis by blast
qed

end
