(* ===== verification/Regex.thy ===== *)
theory Regex
  imports Prelude
begin

section \<open>What the program uses of Python's \<open>re\<close>\<close>

text \<open>
  A backtracking matcher for the patterns under src/: character classes, concatenation,
  alternation, greedy repetition and assertions about the neighbourhood. A position is the
  character before it and the text after it. A matcher yields the positions a match can end in,
  in the order in which backtracking would try them, so that the first one is the match Python
  reports. No repeated group of the program can match the empty text, so an unbounded repetition
  is bounded by the length of the text.
\<close>

type_synonym pos = "char option \<times> string"

datatype rx = Cls "char \<Rightarrow> bool" | Cat rx rx | Alt rx rx | Opt rx | Rep nat "nat option" rx
  | Assert "char option \<Rightarrow> string \<Rightarrow> bool"

fun repeat :: "(pos \<Rightarrow> pos list) \<Rightarrow> nat \<Rightarrow> nat \<Rightarrow> pos \<Rightarrow> pos list" where
  "repeat m lo 0 x = (if lo = 0 then [x] else [])"
| "repeat m lo (Suc hi) x = concat (map (repeat m (lo - 1) hi) (m x)) @ (if lo = 0 then [x] else [])"

fun step_class :: "(char \<Rightarrow> bool) \<Rightarrow> pos \<Rightarrow> pos list" where
  "step_class P (p, []) = []"
| "step_class P (p, c # s) = (if P c then [(Some c, s)] else [])"

primrec ends :: "rx \<Rightarrow> pos \<Rightarrow> pos list" where
  "ends (Cls P) = step_class P"
| "ends (Cat a b) = (\<lambda>x. concat (map (ends b) (ends a x)))"
| "ends (Alt a b) = (\<lambda>x. ends a x @ ends b x)"
| "ends (Opt a) = (\<lambda>x. ends a x @ [x])"
| "ends (Rep lo hi a) = (\<lambda>x. repeat (ends a) lo (case hi of None \<Rightarrow> length (snd x) | Some h \<Rightarrow> h) x)"
| "ends (Assert P) = (\<lambda>x. if P (fst x) (snd x) then [x] else [])"

text \<open>Abbreviations for the forms that occur in the patterns.\<close>

definition lit :: "char \<Rightarrow> rx" where
  "lit c = Cls (\<lambda>d. d = c)"

fun cats :: "rx list \<Rightarrow> rx" where
  "cats [] = Assert (\<lambda>p s. True)"
| "cats [r] = r"
| "cats (r # r' # rs) = Cat r (cats (r' # rs))"

fun alts :: "rx list \<Rightarrow> rx" where
  "alts [] = Assert (\<lambda>p s. False)"
| "alts [r] = r"
| "alts (r # r' # rs) = Alt r (alts (r' # rs))"

text \<open>A literal text under \<open>re.IGNORECASE\<close>, and as it is.\<close>

definition lit_i :: "char \<Rightarrow> rx" where
  "lit_i c = Cls (\<lambda>d. lower_char d = lower_char c)"

definition text_i :: "string \<Rightarrow> rx" where
  "text_i t = cats (map lit_i t)"

definition alnum :: "char \<Rightarrow> bool" where
  "alnum c \<longleftrightarrow> is_upper c \<or> is_lower c \<or> is_digit c"

definition one_of :: "string \<Rightarrow> char \<Rightarrow> bool" where
  "one_of cs c \<longleftrightarrow> c \<in> set cs"

text \<open>\<open>\w\<close>, and \<open>str.isalnum\<close> of a character, below code point 256.\<close>

definition is_alnum :: "char \<Rightarrow> bool" where
  "is_alnum c \<longleftrightarrow> alnum c \<or> (let n = (of_char c :: nat) in
     n \<in> {170, 178, 179, 181, 185, 186, 188, 189, 190} \<or> 192 \<le> n \<and> n \<noteq> 215 \<and> n \<noteq> 247)"

lemma is_alnum_bits [code]: "is_alnum c = (if alnum c then True else (case c of Char b0 b1 b2 b3 b4 b5 b6 b7 \<Rightarrow>
     if b7 then (let n = (of_char c :: nat) in
     n \<in> {170, 178, 179, 181, 185, 186, 188, 189, 190} \<or> 192 \<le> n \<and> n \<noteq> 215 \<and> n \<noteq> 247) else False))"
proof (cases c)
  case (Char b0 b1 b2 b3 b4 b5 b6 b7)
  have "\<not> b7 \<Longrightarrow> (of_char c :: nat) < 128" by (simp add: Char)
  then show ?thesis by (simp add: is_alnum_def Char Let_def)
qed

definition word_char :: "char \<Rightarrow> bool" where
  "word_char c \<longleftrightarrow> is_alnum c \<or> c = CHR ''_''"

definition at_word :: "char option \<Rightarrow> bool" where
  "at_word p \<longleftrightarrow> (case p of None \<Rightarrow> False | Some c \<Rightarrow> word_char c)"

definition next_char :: "string \<Rightarrow> char option" where
  "next_char s = (case s of [] \<Rightarrow> None | c # _ \<Rightarrow> Some c)"

definition holds_at :: "(char \<Rightarrow> bool) \<Rightarrow> char option \<Rightarrow> bool" where
  "holds_at P p \<longleftrightarrow> (case p of None \<Rightarrow> False | Some c \<Rightarrow> P c)"

definition boundary :: rx where
  "boundary = Assert (\<lambda>p s. at_word p \<noteq> at_word (next_char s))"

definition not_behind :: "(char \<Rightarrow> bool) \<Rightarrow> rx" where
  "not_behind P = Assert (\<lambda>p s. \<not> holds_at P p)"

definition not_ahead :: "(char \<Rightarrow> bool) \<Rightarrow> rx" where
  "not_ahead P = Assert (\<lambda>p s. \<not> holds_at P (next_char s))"

definition not_ahead_text :: "string \<Rightarrow> rx" where
  "not_ahead_text t = Assert (\<lambda>p s. \<not> starts_with t s)"

subsection \<open>Searching\<close>

text \<open>
  A pattern with one group of interest: what precedes the group, the group, what follows it. A
  match gives the offsets of the group relative to where the match starts.
\<close>

record pattern =
  pt_before :: rx
  pt_group :: rx
  pt_after :: rx

definition group_ends :: "pattern \<Rightarrow> pos \<Rightarrow> (pos \<times> pos) list" where
  "group_ends d x = concat (map (\<lambda>y. concat (map (\<lambda>z. map (\<lambda>w. (y, z)) (ends (pt_after d) z)) (ends (pt_group d) y)))
     (ends (pt_before d) x))"

definition match_at :: "pattern \<Rightarrow> pos \<Rightarrow> (nat \<times> nat) option" where
  "match_at d x = (case group_ends d x of [] \<Rightarrow> None
     | (y, z) # _ \<Rightarrow> Some (length (snd x) - length (snd y), length (snd x) - length (snd z)))"

text \<open>
  \<open>finditer\<close>: the spans of the group in the successive matches from left to right; after a match
  the search goes on at its end. No pattern of the program consumes text after its group.
\<close>

fun scan :: "pattern \<Rightarrow> nat \<Rightarrow> nat \<Rightarrow> pos \<Rightarrow> (nat \<times> nat) list" where
  "scan d offset skip (p, []) = []"
| "scan d offset 0 (p, c # s) = (case match_at d (p, c # s) of
     None \<Rightarrow> scan d (Suc offset) 0 (Some c, s)
   | Some (a, b) \<Rightarrow> (offset + a, offset + b) # scan d (Suc offset) (b - 1) (Some c, s))"
| "scan d offset (Suc skip) (p, c # s) = scan d (Suc offset) skip (Some c, s)"

definition find_spans :: "pattern \<Rightarrow> string \<Rightarrow> (nat \<times> nat) list" where
  "find_spans d t = scan d 0 0 (None, t)"

text \<open>\<open>search(t) is not None\<close>\<close>

fun occurs_from :: "rx \<Rightarrow> char option \<Rightarrow> string \<Rightarrow> bool" where
  "occurs_from r p [] = (ends r (p, []) \<noteq> [])"
| "occurs_from r p (c # s) = (if ends r (p, c # s) \<noteq> [] then True else occurs_from r (Some c) s)"

definition occurs :: "rx \<Rightarrow> string \<Rightarrow> bool" where
  "occurs r t \<longleftrightarrow> occurs_from r None t"

subsection \<open>What a match consumes\<close>

text \<open>All characters a pattern consumes satisfy \<open>Q\<close>; a pattern consumes at least one character.\<close>

primrec rx_all :: "(char \<Rightarrow> bool) \<Rightarrow> rx \<Rightarrow> bool" where
  "rx_all Q (Cls P) = (\<forall>c. P c \<longrightarrow> Q c)"
| "rx_all Q (Cat a b) = (rx_all Q a \<and> rx_all Q b)"
| "rx_all Q (Alt a b) = (rx_all Q a \<and> rx_all Q b)"
| "rx_all Q (Opt a) = rx_all Q a"
| "rx_all Q (Rep lo hi a) = rx_all Q a"
| "rx_all Q (Assert P) = True"

primrec rx_pos :: "rx \<Rightarrow> bool" where
  "rx_pos (Cls P) = True"
| "rx_pos (Cat a b) = (rx_pos a \<or> rx_pos b)"
| "rx_pos (Alt a b) = (rx_pos a \<and> rx_pos b)"
| "rx_pos (Opt a) = False"
| "rx_pos (Rep lo hi a) = (0 < lo \<and> rx_pos a)"
| "rx_pos (Assert P) = False"

definition consumes :: "(char \<Rightarrow> bool) \<Rightarrow> bool \<Rightarrow> pos \<Rightarrow> pos \<Rightarrow> bool" where
  "consumes Q some x y \<longleftrightarrow> (\<exists>w. snd x = w @ snd y \<and> list_all Q w \<and> (some \<longrightarrow> w \<noteq> []))"

lemma consumes_refl: "consumes Q False x x"
  by (simp add: consumes_def)

lemma consumes_trans: "consumes Q b x y \<Longrightarrow> consumes Q b' y z \<Longrightarrow> consumes Q (b \<or> b') x z"
  unfolding consumes_def by (elim exE conjE, rule_tac x = "w @ wa" in exI) auto

lemma consumes_weaken: "consumes Q b x y \<Longrightarrow> (b' \<Longrightarrow> b) \<Longrightarrow> consumes Q b' x y"
  unfolding consumes_def by blast

lemma repeat_consumes:
  assumes "\<And>x y. y \<in> set (m x) \<Longrightarrow> consumes Q b x y" and "y \<in> set (repeat m lo hi x)"
  shows "consumes Q (0 < lo \<and> b) x y"
  using assms(2)
proof (induction hi arbitrary: lo x)
  case 0
  then show ?case by (auto split: if_splits intro: consumes_weaken [OF consumes_refl])
next
  case (Suc hi)
  show ?case
  proof (cases "lo = 0 \<and> y = x")
    case True
    then show ?thesis by (auto intro: consumes_weaken [OF consumes_refl])
  next
    case False
    with Suc.prems obtain z where "z \<in> set (m x)" "y \<in> set (repeat m (lo - 1) hi z)"
      by (auto split: if_splits)
    then have "consumes Q (b \<or> (0 < lo - 1 \<and> b)) x y"
      using assms(1) Suc.IH consumes_trans by blast
    then show ?thesis by (rule consumes_weaken) simp
  qed
qed

lemma ends_consumes: "rx_all Q r \<Longrightarrow> y \<in> set (ends r x) \<Longrightarrow> consumes Q (rx_pos r) x y"
proof (induction r arbitrary: x y)
  case (Cls P)
  then show ?case by (cases x; cases "snd x") (auto simp: consumes_def split: if_splits)
next
  case (Cat a b)
  from Cat.prems(2) obtain z where z: "z \<in> set (ends a x)" "y \<in> set (ends b z)" by auto
  have "rx_all Q a" "rx_all Q b" using Cat.prems(1) by auto
  with z have "consumes Q (rx_pos a) x z" "consumes Q (rx_pos b) z y" by (simp_all only: Cat.IH)
  then show ?case unfolding rx_pos.simps by (rule consumes_trans)
next
  case (Alt a b)
  then have "consumes Q (rx_pos a) x y \<or> consumes Q (rx_pos b) x y" unfolding ends.simps rx_all.simps set_append by blast
  then show ?case by (auto intro: consumes_weaken)
next
  case (Opt a)
  then have "consumes Q (rx_pos a) x y \<or> y = x" unfolding ends.simps rx_all.simps set_append by (simp only: Un_iff list.set) blast
  then show ?case by (auto intro: consumes_refl consumes_weaken)
next
  case (Rep lo hi a)
  from Rep.prems show ?case
    unfolding rx_pos.simps ends.simps rx_all.simps by (intro repeat_consumes [of "ends a"] Rep.IH)
next
  case (Assert P)
  then have "y = x" by (auto split: if_splits)
  then show ?case by (simp add: consumes_refl)
qed

lemma group_consumes:
  assumes "rx_all Q (pt_group d)" and "rx_pos (pt_group d)" and "match_at d (p, s) = Some (a, b)"
  shows "a < b \<and> b \<le> length s \<and> list_all Q (drop a (take b s))"
proof -
  obtain y z rest where e: "group_ends d (p, s) = (y, z) # rest" "a = length s - length (snd y)" "b = length s - length (snd z)"
    using assms(3) by (auto simp: match_at_def split: list.splits)
  then have "(y, z) \<in> set (group_ends d (p, s))" by simp
  then have yz: "y \<in> set (ends (pt_before d) (p, s))" "z \<in> set (ends (pt_group d) y)"
    by (auto simp: group_ends_def)
  have "rx_all (\<lambda>c. True) r" for r by (induction r) auto
  then have "consumes (\<lambda>c. True) (rx_pos (pt_before d)) (p, s) y" using yz(1) by (rule ends_consumes)
  then obtain u where u: "s = u @ snd y" by (auto simp: consumes_def)
  obtain w where w: "snd y = w @ snd z" "list_all Q w" "w \<noteq> []"
    using ends_consumes [OF assms(1) yz(2)] assms(2) by (auto simp: consumes_def)
  have "a = length u" "b = length u + length w" using e(2,3) u w(1) by simp_all
  moreover have "drop (length u) (take (length u + length w) s) = w" by (simp add: u w(1))
  ultimately show ?thesis using u w by simp
qed

text \<open>The spans found are non-empty, within the text, and made of characters the group allows.\<close>

definition span_ok :: "(char \<Rightarrow> bool) \<Rightarrow> string \<Rightarrow> nat \<times> nat \<Rightarrow> bool" where
  "span_ok Q t ab \<longleftrightarrow> fst ab < snd ab \<and> snd ab \<le> length t \<and> list_all Q (drop (fst ab) (take (snd ab) t))"

lemma scan_spans:
  assumes "rx_all Q (pt_group d)" and "rx_pos (pt_group d)"
  shows "ab \<in> set (scan d (length pre) skip (p, s)) \<Longrightarrow> span_ok Q (pre @ s) ab"
proof (induction s arbitrary: pre skip p)
  case Nil
  then show ?case by simp
next
  case (Cons c s)
  have IH: "ab \<in> set (scan d (Suc (length pre)) skip' (p', s)) \<Longrightarrow> span_ok Q (pre @ c # s) ab" for skip' p'
    using Cons.IH [of "pre @ [c]"] by simp
  show ?case
  proof (cases skip)
    case 0
    show ?thesis
    proof (cases "match_at d (p, c # s)")
      case None
      with 0 Cons.prems IH show ?thesis by simp
    next
      case (Some v)
      obtain a b where v: "v = (a, b)" by (cases v)
      note g = group_consumes [OF assms, of p "c # s" a b]
      have "ab = (length pre + a, length pre + b) \<or> ab \<in> set (scan d (Suc (length pre)) (b - 1) (Some c, s))"
        using Cons.prems 0 Some v by simp
      then show ?thesis using IH g Some v by (auto simp: span_ok_def)
    qed
  next
    case (Suc k)
    with Cons.prems IH show ?thesis by simp
  qed
qed

lemma find_spans_ok: "rx_all Q (pt_group d) \<Longrightarrow> rx_pos (pt_group d) \<Longrightarrow> ab \<in> set (find_spans d t) \<Longrightarrow> span_ok Q t ab"
  using scan_spans [of Q d ab "[]" 0 None t] by (simp add: find_spans_def)

end
