(* ===== verification/Redaction.thy ===== *)
theory Redaction
  imports Regex
begin

section \<open>Transcript redaction (redaction.py)\<close>

text \<open>
  Only the redacted text of a transcript may leave the intake boundary. Detectors propose spans of
  the text, a selection keeps a non-overlapping subset in order of priority, the kept spans are
  replaced by placeholders of their category, and the result is scanned again: what still shows a
  supported pattern outside the placeholders is blocked.
\<close>

subsection \<open>Categories and placeholders\<close>

datatype redaction_kind = BEARER_TOKEN | API_TOKEN | JWT | PAYMENT_CARD | EMAIL | PHONE | CUSTOMER_TERM

definition redaction_kinds :: "redaction_kind list" where
  "redaction_kinds = [BEARER_TOKEN, API_TOKEN, JWT, PAYMENT_CARD, EMAIL, PHONE, CUSTOMER_TERM]"

fun kind_value :: "redaction_kind \<Rightarrow> string" where
  "kind_value BEARER_TOKEN = ''BEARER_TOKEN''"
| "kind_value API_TOKEN = ''API_TOKEN''"
| "kind_value JWT = ''JWT''"
| "kind_value PAYMENT_CARD = ''PAYMENT_CARD''"
| "kind_value EMAIL = ''EMAIL''"
| "kind_value PHONE = ''PHONE''"
| "kind_value CUSTOMER_TERM = ''CUSTOMER_TERM''"

definition placeholder :: "redaction_kind \<Rightarrow> string" where
  "placeholder k = ''[REDACTED:'' @ kind_value k @ '']''"

datatype redaction_decision = ALLOW_REDACTED_ONLY | BLOCK

definition POLICY_VERSION :: string where
  "POLICY_VERSION = ''exitspec-transcript-redaction/1.0''"

definition LIMITATIONS :: "string list" where
  "LIMITATIONS = [
     ''Best-effort patterns do not detect every form of personal, confidential, or regulated data.'',
     ''Unknown customer names, project names, and code words are not inferred; the caller must configure them explicitly.'',
     ''Contextual or unusually formatted sensitive data can require human review before a real transcript is shared or retained.'']"

record candidate =
  ca_start :: nat
  ca_end :: nat
  ca_kind :: redaction_kind
  ca_priority :: nat
  ca_existing :: bool

subsection \<open>Detectors\<close>

abbreviation digit :: rx where "digit \<equiv> Cls is_digit"

definition blank :: rx where "blank = Cls (one_of [CHR '' '', CHR 9])"

definition token_char :: "char \<Rightarrow> bool" where
  "token_char c \<longleftrightarrow> alnum c \<or> c = CHR ''_'' \<or> c = CHR ''-''"

definition word_side :: "char \<Rightarrow> bool" where
  "word_side c \<longleftrightarrow> word_char c"

definition bearer_pattern :: pattern where
  "bearer_pattern = \<lparr>
     pt_before = cats [boundary, text_i ''bearer'', Rep 1 None blank],
     pt_group = Rep 8 None (Cls (\<lambda>c. alnum c \<or> one_of ''._~+/=-'' c)),
     pt_after = cats []\<rparr>"

definition jwt_pattern :: pattern where
  "jwt_pattern = (let part = Rep 8 None (Cls token_char) in \<lparr>
     pt_before = not_behind token_char,
     pt_group = cats [part, lit (CHR ''.''), part, lit (CHR ''.''), part],
     pt_after = not_ahead token_char\<rparr>)"

definition key_name :: rx where
  "key_name = (let sep = Cls (one_of '' -'') in alts [
     Cat (Rep 0 None (Cat (Rep 1 None (Cls alnum)) (lit (CHR ''_''))))
       (alts [text_i ''api_key'', text_i ''access_token'', text_i ''secret_key'', text_i ''client_secret'']),
     cats [text_i ''api'', sep, text_i ''key''],
     cats [text_i ''access'', sep, text_i ''token''],
     Cat (text_i ''secret'') (Opt (Cat sep (text_i ''key''))),
     cats [text_i ''client'', sep, text_i ''secret'']])"

definition assigned_token_pattern :: pattern where
  "assigned_token_pattern = \<lparr>
     pt_before = cats [boundary, key_name, boundary, Rep 0 None blank, Cls (one_of '':=''), Rep 0 None blank,
       Opt (Cls (one_of [CHR 34, CHR 39]))],
     pt_group = Cat (Cls alnum) (Rep 7 None (Cls (\<lambda>c. alnum c \<or> one_of ''_./+=-'' c))),
     pt_after = cats []\<rparr>"

definition prefixed_token_pattern :: pattern where
  "prefixed_token_pattern = \<lparr>
     pt_before = not_behind token_char,
     pt_group = Alt
       (cats [alts [text_i ''sk'', text_i ''rk'', text_i ''pk'', text_i ''fw'', text_i ''api''],
         Cls (one_of ''_-''), Cls alnum, Rep 11 None (Cls token_char)])
       (cats [text_i ''gh'', Cls (\<lambda>c. one_of ''pousr'' (lower_char c)), lit (CHR ''_''), Rep 20 None (Cls alnum)]),
     pt_after = not_ahead token_char\<rparr>"

definition email_char :: "char \<Rightarrow> bool" where
  "email_char c \<longleftrightarrow> alnum c \<or> one_of (CHR 39 # ''.!#$%&*+/=?^_`{|}~-'') c"

definition dns_label :: rx where
  "dns_label = Cat (Cls alnum) (Opt (Cat (Rep 0 (Some 61) (Cls (\<lambda>c. alnum c \<or> c = CHR ''-''))) (Cls alnum)))"

definition email_pattern :: pattern where
  "email_pattern = \<lparr>
     pt_before = not_behind email_char,
     pt_group = cats [Rep 1 None (Cls email_char), lit (CHR ''@''), dns_label,
       Rep 1 None (Cat (lit (CHR ''.'')) dns_label)],
     pt_after = not_ahead (\<lambda>c. alnum c \<or> c = CHR ''-'')\<rparr>"

definition phone_pattern :: pattern where
  "phone_pattern = (let sep = Cls (one_of '' .-'') in \<lparr>
     pt_before = not_behind word_side,
     pt_group = cats [
       Opt (cats [lit (CHR ''+''), Rep 1 (Some 3) digit, sep]),
       Alt (cats [lit (CHR ''(''), Rep 2 (Some 4) digit, lit (CHR '')''), Opt sep]) (Cat (Rep 2 (Some 4) digit) sep),
       Rep 3 (Some 4) digit, sep, Rep 4 (Some 4) digit],
     pt_after = not_ahead word_side\<rparr>)"

definition plus_phone_pattern :: pattern where
  "plus_phone_pattern = \<lparr>
     pt_before = not_behind word_side,
     pt_group = Cat (lit (CHR ''+'')) (Rep 8 (Some 15) digit),
     pt_after = not_ahead word_side\<rparr>"

definition payment_card_pattern :: pattern where
  "payment_card_pattern = \<lparr>
     pt_before = not_behind is_digit,
     pt_group = Cat (Rep 12 (Some 18) (Cat digit (Opt (Cls (one_of '' -''))))) digit,
     pt_after = not_ahead is_digit\<rparr>"

definition detectors :: "(redaction_kind \<times> pattern \<times> nat) list" where
  "detectors = [(BEARER_TOKEN, bearer_pattern, 10), (JWT, jwt_pattern, 20),
     (API_TOKEN, assigned_token_pattern, 30), (API_TOKEN, prefixed_token_pattern, 31),
     (EMAIL, email_pattern, 50), (PHONE, phone_pattern, 60), (PHONE, plus_phone_pattern, 61)]"

subsection \<open>Customer terms\<close>

definition placeholder_at :: "string \<Rightarrow> redaction_kind option" where
  "placeholder_at s = find (\<lambda>k. starts_with (placeholder k) s) redaction_kinds"

text \<open>
  \<open>_existing_placeholders\<close>: the leftmost non-overlapping occurrences, with their offset; \<open>skip\<close>
  characters still belong to the last one.
\<close>

fun scan_placeholders :: "nat \<Rightarrow> nat \<Rightarrow> string \<Rightarrow> (nat \<times> redaction_kind) list" where
  "scan_placeholders offset skip [] = []"
| "scan_placeholders offset 0 (c # s) = (case placeholder_at (c # s) of
     None \<Rightarrow> scan_placeholders (Suc offset) 0 s
   | Some k \<Rightarrow> (offset, k) # scan_placeholders (Suc offset) (length (placeholder k) - 1) s)"
| "scan_placeholders offset (Suc skip) (c # s) = scan_placeholders (Suc offset) skip s"

definition existing_placeholders :: "string \<Rightarrow> candidate list" where
  "existing_placeholders t = map (\<lambda>(i, k). \<lparr>ca_start = i, ca_end = i + length (placeholder k), ca_kind = k,
     ca_priority = 0, ca_existing = True\<rparr>) (scan_placeholders 0 0 t)"

text \<open>\<open>str.casefold\<close> below code point 256, as code points.\<close>

definition casefold :: "string \<Rightarrow> nat list" where
  "casefold t = concat (map (\<lambda>c. let n = (of_char c :: nat) in
     if n = 223 then [115, 115] else if n = 181 then [956] else [of_char (lower_char c)]) t)"

definition term_error :: "string \<Rightarrow> string option" where
  "term_error clean = first_error [
     (length clean < 3, ''Every customer term must contain at least three characters.''),
     (CHR 10 \<in> set clean \<or> CHR 13 \<in> set clean, ''Customer terms cannot contain line breaks.''),
     (existing_placeholders clean \<noteq> [], ''Customer terms cannot contain reserved redaction placeholders.'')]"

fun collect_terms :: "(nat list \<times> string) list \<Rightarrow> string list \<Rightarrow> string + (nat list \<times> string) list" where
  "collect_terms d [] = Inr d"
| "collect_terms d (t # ts) = (let clean = py_strip t in case term_error clean of
     Some e \<Rightarrow> Inl e
   | None \<Rightarrow> collect_terms (if map_of d (casefold clean) = None then d @ [(casefold clean, clean)] else d) ts)"

definition normalize_customer_terms :: "string list \<Rightarrow> string + string list" where
  "normalize_customer_terms ts = (case collect_terms [] ts of Inl e \<Rightarrow> Inl e
   | Inr d \<Rightarrow> Inr (sort_key (\<lambda>v. (- int (length v), casefold v)) (map snd d)))"

definition term_pattern :: "string \<Rightarrow> pattern" where
  "term_pattern t = \<lparr>
     pt_before = (if word_char (hd t) then not_behind word_side else cats []),
     pt_group = text_i t,
     pt_after = (if word_char (last t) then not_ahead word_side else cats [])\<rparr>"

subsection \<open>Lines\<close>

text \<open>A CR that an LF follows adds no start of its own.\<close>

fun line_breaks :: "nat \<Rightarrow> string \<Rightarrow> nat list" where
  "line_breaks offset [] = []"
| "line_breaks offset (c # s) = (
     if c = CHR 10 \<or> c = CHR 13 \<and> \<not> (s \<noteq> [] \<and> hd s = CHR 10)
     then Suc offset # line_breaks (Suc offset) s else line_breaks (Suc offset) s)"

definition line_starts :: "string \<Rightarrow> nat list" where
  "line_starts t = 0 # line_breaks 0 t"

definition line_number :: "nat list \<Rightarrow> nat \<Rightarrow> nat" where
  "line_number starts offset = length (filter (\<lambda>s. s \<le> offset) starts)"

subsection \<open>Candidates\<close>

definition overlaps :: "candidate \<Rightarrow> candidate \<Rightarrow> bool" where
  "overlaps a b \<longleftrightarrow> ca_start a < ca_end b \<and> ca_start b < ca_end a"

definition digit_value :: "char \<Rightarrow> nat" where
  "digit_value c = of_char c - 48"

definition luhn_digit :: "nat \<Rightarrow> nat \<times> nat \<Rightarrow> nat" where
  "luhn_digit parity p = (case p of (i, d) \<Rightarrow>
     if i mod 2 = parity then (if 2 * d > 9 then 2 * d - 9 else 2 * d) else d)"

definition luhn_valid :: "string \<Rightarrow> bool" where
  "luhn_valid v = (let digits = map digit_value (filter is_digit v) in
     13 \<le> length digits \<and> length digits \<le> 19 \<and> length (remdups digits) \<noteq> 1 \<and>
     sum_list (map (luhn_digit (length digits mod 2)) (zip [0..<length digits] digits)) mod 10 = 0)"

definition span_candidates :: "string \<Rightarrow> redaction_kind \<Rightarrow> pattern \<Rightarrow> nat \<Rightarrow> candidate list" where
  "span_candidates t kind d priority = map (\<lambda>(a, b). \<lparr>ca_start = a, ca_end = b, ca_kind = kind,
     ca_priority = priority, ca_existing = False\<rparr>) (find_spans d t)"

definition candidate_text :: "string \<Rightarrow> candidate \<Rightarrow> string" where
  "candidate_text t c = drop (ca_start c) (take (ca_end c) t)"

definition raw_candidates :: "string \<Rightarrow> string list \<Rightarrow> candidate list" where
  "raw_candidates t terms =
     concat (map (\<lambda>(kind, d, priority). span_candidates t kind d priority) detectors) @
     filter (\<lambda>c. luhn_valid (candidate_text t c)) (span_candidates t PAYMENT_CARD payment_card_pattern 40) @
     concat (map (\<lambda>term. span_candidates t CUSTOMER_TERM (term_pattern term) 70) terms)"

definition candidate_key :: "candidate \<Rightarrow> nat \<times> nat \<times> int \<times> string" where
  "candidate_key c = (ca_priority c, ca_start c, - (int (ca_end c) - int (ca_start c)), kind_value (ca_kind c))"

definition add_candidate :: "candidate \<Rightarrow> candidate list \<Rightarrow> candidate list" where
  "add_candidate c selected = (if list_ex (overlaps c) selected then selected else selected @ [c])"

definition select_candidates :: "string \<Rightarrow> string list \<Rightarrow> candidate list" where
  "select_candidates t terms = sort_key ca_start
     (fold add_candidate (sort_key candidate_key (raw_candidates t terms)) (existing_placeholders t))"

fun replace_from :: "string \<Rightarrow> nat \<Rightarrow> candidate list \<Rightarrow> string" where
  "replace_from t cursor [] = drop cursor t"
| "replace_from t cursor (c # cs) =
     drop cursor (take (ca_start c) t) @ placeholder (ca_kind c) @ replace_from t (ca_end c) cs"

definition replace_spans :: "string \<Rightarrow> candidate list \<Rightarrow> string" where
  "replace_spans t selected = replace_from t 0 selected"

definition has_unredacted :: "string \<Rightarrow> string list \<Rightarrow> bool" where
  "has_unredacted t terms \<longleftrightarrow>
     list_ex (\<lambda>c. \<not> list_ex (overlaps c) (existing_placeholders t)) (raw_candidates t terms)"

subsection \<open>Results\<close>

record finding =
  fi_kind :: redaction_kind
  fi_count :: nat
  fi_line_numbers :: "nat list"
  fi_placeholder :: string

definition sorted_set :: "nat list \<Rightarrow> nat list" where
  "sorted_set xs = remdups (sort xs)"

definition finding_ok :: "finding \<Rightarrow> bool" where
  "finding_ok f \<longleftrightarrow> 0 < fi_count f \<and> fi_line_numbers f \<noteq> [] \<and> fi_placeholder f \<noteq> [] \<and>
     fi_placeholder f = placeholder (fi_kind f) \<and> fi_line_numbers f = sorted_set (fi_line_numbers f)"

record redaction_result =
  rr_policy_version :: string
  rr_redacted_text :: string
  rr_findings :: "finding list"
  rr_decision :: redaction_decision
  rr_safe_to_send :: bool
  rr_safe_to_persist :: bool
  rr_limitations :: "string list"

definition kind_lines :: "string \<Rightarrow> candidate list \<Rightarrow> redaction_kind \<Rightarrow> nat list" where
  "kind_lines t cs kind = map (\<lambda>c. line_number (line_starts t) (ca_start c)) (filter (\<lambda>c. ca_kind c = kind) cs)"

definition finding_matches :: "string \<Rightarrow> finding \<Rightarrow> bool" where
  "finding_matches t f \<longleftrightarrow> fi_placeholder f = placeholder (fi_kind f) \<and>
     fi_count f = length (kind_lines t (existing_placeholders t) (fi_kind f)) \<and>
     fi_line_numbers f = sorted_set (kind_lines t (existing_placeholders t) (fi_kind f))"

definition findings_match :: "string \<Rightarrow> finding list \<Rightarrow> bool" where
  "findings_match t fs \<longleftrightarrow> distinct (map fi_kind fs) \<and> list_all (finding_matches t) fs \<and>
     list_all (\<lambda>k. k \<in> set (map fi_kind fs) \<longleftrightarrow> kind_lines t (existing_placeholders t) k \<noteq> []) redaction_kinds"

text \<open>The validator of \<open>RedactionResult\<close>: the message it raises.\<close>

definition result_error :: "redaction_result \<Rightarrow> string option" where
  "result_error r = (let allowed = (rr_decision r = ALLOW_REDACTED_ONLY) in first_error [
     (list_ex (\<lambda>f. \<not> finding_ok f) (rr_findings r) \<or> rr_limitations r = [], ''Field constraints are violated.''),
     (rr_policy_version r \<noteq> POLICY_VERSION, ''Redaction result must use the current policy.''),
     (\<not> findings_match (rr_redacted_text r) (rr_findings r), ''Redaction findings must match the redacted placeholders.''),
     (rr_safe_to_send r \<noteq> allowed \<or> rr_safe_to_persist r \<noteq> allowed, ''Safe-handling flags must match the redaction decision.''),
     (allowed \<and> has_unredacted (rr_redacted_text r) [], ''Allowed redaction result contains a supported sensitive pattern.'')])"

definition make_finding :: "string \<Rightarrow> candidate list \<Rightarrow> redaction_kind \<Rightarrow> finding" where
  "make_finding t selected kind = \<lparr>fi_kind = kind, fi_count = length (kind_lines t selected kind),
     fi_line_numbers = sorted_set (kind_lines t selected kind), fi_placeholder = placeholder kind\<rparr>"

definition redact_transcript :: "string \<Rightarrow> string list \<Rightarrow> string + redaction_result" where
  "redact_transcript t customer_terms = (case normalize_customer_terms customer_terms of Inl e \<Rightarrow> Inl e
   | Inr terms \<Rightarrow> (let
       selected = select_candidates t terms;
       redacted = replace_spans t selected;
       findings = map (make_finding t selected) (filter (\<lambda>k. kind_lines t selected k \<noteq> []) redaction_kinds);
       allowed = (\<not> has_unredacted redacted terms);
       result = \<lparr>rr_policy_version = POLICY_VERSION, rr_redacted_text = redacted, rr_findings = findings,
         rr_decision = (if allowed then ALLOW_REDACTED_ONLY else BLOCK), rr_safe_to_send = allowed,
         rr_safe_to_persist = allowed, rr_limitations = LIMITATIONS\<rparr>
     in case result_error result of Some e \<Rightarrow> Inl e | None \<Rightarrow> Inr result))"

definition current_allowed_state :: "redaction_result \<Rightarrow> string list \<Rightarrow> bool" where
  "current_allowed_state r terms \<longleftrightarrow> rr_policy_version r = POLICY_VERSION \<and>
     rr_decision r = ALLOW_REDACTED_ONLY \<and> rr_safe_to_send r \<and> rr_safe_to_persist r \<and>
     rr_limitations r = LIMITATIONS \<and> findings_match (rr_redacted_text r) (rr_findings r) \<and>
     \<not> has_unredacted (rr_redacted_text r) terms"

definition assert_redaction_egress :: "redaction_result \<Rightarrow> string list \<Rightarrow> string + string" where
  "assert_redaction_egress r customer_terms = (let denied = Inl ''Redaction egress denied by the current policy.'' in
     case normalize_customer_terms customer_terms of Inl e \<Rightarrow> denied
     | Inr terms \<Rightarrow> if current_allowed_state r terms then Inr (rr_redacted_text r) else denied)"

end
