(* ===== verification/Redaction_Laws.thy ===== *)
theory Redaction_Laws
  imports Redaction
begin

text \<open>
  The laws of the transcript redaction. The detectors match non-empty spans without line breaks;
  the spans that are selected form a chain; the placeholders of the redacted text are those that
  were written, on the lines of what they replaced; so the validator accepts every result, and what
  the result allows is exactly what redacting again leaves as it is.
\<close>

subsection \<open>What the detectors match\<close>

definition no_break :: "char \<Rightarrow> bool" where
  "no_break c \<longleftrightarrow> c \<noteq> CHR 10 \<and> c \<noteq> CHR 13"

lemma no_break_code: "no_break c \<longleftrightarrow> of_char c \<noteq> (10::nat) \<and> of_char c \<noteq> (13::nat)"
proof -
  have "of_char c = (10::nat) \<longleftrightarrow> of_char c = (of_char (CHR 10) :: nat)"
    "of_char c = (13::nat) \<longleftrightarrow> of_char c = (of_char (CHR 13) :: nat)" by simp_all
  then show ?thesis by (simp only: of_char_eq_iff no_break_def)
qed

lemma lower_char_break: "no_break (lower_char c) \<longleftrightarrow> no_break c"
proof (cases "65 \<le> (of_char c :: nat) \<and> (of_char c :: nat) \<le> 90 \<or> 192 \<le> (of_char c :: nat) \<and> (of_char c :: nat) \<le> 222 \<and> (of_char c :: nat) \<noteq> 215")
  case True
  then have "of_char (lower_char c) = (of_char c + 32 :: nat)" by (auto simp: lower_char_def of_char_of)
  with True show ?thesis unfolding no_break_code by auto
next
  case False
  then have "lower_char c = c" by (auto simp: lower_char_def)
  then show ?thesis by simp
qed

definition safe_pattern :: "pattern \<Rightarrow> bool" where
  "safe_pattern d \<longleftrightarrow> rx_all no_break (pt_group d) \<and> rx_pos (pt_group d)"

lemma class_no_break:
  "is_digit c \<Longrightarrow> no_break c" "alnum c \<Longrightarrow> no_break c" "token_char c \<Longrightarrow> no_break c"
  "email_char c \<Longrightarrow> no_break c"
  by (auto simp: no_break_def is_digit_def alnum_def is_upper_def is_lower_def token_char_def email_char_def one_of_def)

lemma one_of_no_break: "list_all no_break cs \<Longrightarrow> one_of cs c \<Longrightarrow> no_break c"
  by (auto simp: one_of_def list_all_iff)

lemma rx_all_cats: "rx_all Q (cats rs) \<longleftrightarrow> list_all (rx_all Q) rs"
  by (induction rs rule: cats.induct) auto

lemma rx_pos_cats: "rx_pos (cats rs) \<longleftrightarrow> list_ex rx_pos rs"
  by (induction rs rule: cats.induct) auto

lemma text_i_all: "rx_all no_break (text_i t) \<longleftrightarrow> list_all no_break t"
proof -
  have "rx_all no_break (lit_i c) \<longleftrightarrow> no_break c" for c
    by (auto simp: lit_i_def) (metis lower_char_break)
  then show ?thesis by (simp add: text_i_def rx_all_cats list_all_iff)
qed

lemma text_i_pos: "rx_pos (text_i t) \<longleftrightarrow> t \<noteq> []"
  by (cases t) (auto simp: text_i_def rx_pos_cats lit_i_def)

lemmas pattern_simps = safe_pattern_def rx_all_cats rx_pos_cats text_i_all text_i_pos lit_def Let_def

lemma one_of_all: "(\<forall>c. one_of cs c \<longrightarrow> Q c) \<longleftrightarrow> list_all Q cs"
  by (auto simp: one_of_def list_all_iff)

lemma safe_patterns:
  "safe_pattern bearer_pattern" "safe_pattern jwt_pattern" "safe_pattern assigned_token_pattern"
  "safe_pattern email_pattern" "safe_pattern phone_pattern" "safe_pattern plus_phone_pattern"
  "safe_pattern payment_card_pattern"
  by (auto simp: pattern_simps bearer_pattern_def jwt_pattern_def assigned_token_pattern_def email_pattern_def
      phone_pattern_def plus_phone_pattern_def payment_card_pattern_def dns_label_def one_of_all class_no_break)
     (auto simp: no_break_def one_of_def)

lemma safe_prefixed_token: "safe_pattern prefixed_token_pattern"
proof -
  have "no_break c" if "one_of ''pousr'' (lower_char c)" for c
    using that lower_char_break [of c] by (auto simp: one_of_def no_break_def)
  then show ?thesis
    by (auto simp: pattern_simps prefixed_token_pattern_def one_of_all class_no_break)
       (auto simp: no_break_def)
qed

lemma detectors_safe: "(k, d, p) \<in> set detectors \<Longrightarrow> safe_pattern d"
  by (auto simp: detectors_def safe_patterns safe_prefixed_token)

lemma term_pattern_safe: "t \<noteq> [] \<Longrightarrow> list_all no_break t \<Longrightarrow> safe_pattern (term_pattern t)"
  by (simp add: safe_pattern_def term_pattern_def text_i_all text_i_pos)

subsection \<open>Terms and candidates\<close>

definition term_ok :: "string \<Rightarrow> bool" where
  "term_ok t \<longleftrightarrow> t \<noteq> [] \<and> list_all no_break t"

lemma term_error_None: "term_error t = None \<Longrightarrow> term_ok t"
  by (auto simp: term_error_def term_ok_def no_break_def list_all_iff split: if_splits)

lemma collect_terms_ok:
  "collect_terms d ts = Inr d' \<Longrightarrow> \<forall>t \<in> snd ` set d. term_ok t \<Longrightarrow> \<forall>t \<in> snd ` set d'. term_ok t"
proof (induction ts arbitrary: d)
  case Nil
  then show ?case by simp
next
  case (Cons t ts)
  define e where "e = (if map_of d (casefold (py_strip t)) = None then d @ [(casefold (py_strip t), py_strip t)] else d)"
  have none: "term_error (py_strip t) = None" and rec: "collect_terms e ts = Inr d'"
    using Cons.prems(1) unfolding e_def by (auto simp only: collect_terms.simps Let_def split: option.splits)
  have "\<forall>u \<in> snd ` set e. term_ok u"
    using Cons.prems(2) term_error_None [OF none] by (simp add: e_def)
  then show ?case using Cons.IH [OF rec] by simp
qed

lemma normalized_terms_ok: "normalize_customer_terms ts = Inr terms \<Longrightarrow> list_all term_ok terms"
  using collect_terms_ok [of "[]" ts] by (auto simp: normalize_customer_terms_def list_all_iff split: sum.splits)

definition candidate_ok :: "string \<Rightarrow> candidate \<Rightarrow> bool" where
  "candidate_ok t c \<longleftrightarrow> ca_start c < ca_end c \<and> ca_end c \<le> length t \<and> list_all no_break (candidate_text t c)"

lemma span_candidates_ok:
  "safe_pattern d \<Longrightarrow> c \<in> set (span_candidates t k d p) \<Longrightarrow> candidate_ok t c"
  by (auto simp: span_candidates_def candidate_ok_def candidate_text_def safe_pattern_def span_ok_def
      dest!: find_spans_ok)

lemma raw_candidates_ok:
  assumes "list_all term_ok terms" and "c \<in> set (raw_candidates t terms)"
  shows "candidate_ok t c"
proof -
  from assms(2) consider (detector) k d p where "(k, d, p) \<in> set detectors" "c \<in> set (span_candidates t k d p)"
    | (card) "c \<in> set (span_candidates t PAYMENT_CARD payment_card_pattern 40)"
    | (customer) u where "u \<in> set terms" "c \<in> set (span_candidates t CUSTOMER_TERM (term_pattern u) 70)"
    by (auto simp: raw_candidates_def)
  then show ?thesis
  proof cases
    case detector
    then show ?thesis using detectors_safe span_candidates_ok by blast
  next
    case card
    then show ?thesis using safe_patterns span_candidates_ok by blast
  next
    case customer
    then have "safe_pattern (term_pattern u)"
      using assms(1) by (intro term_pattern_safe) (auto simp: term_ok_def list_all_iff)
    then show ?thesis using customer(2) by (rule span_candidates_ok)
  qed
qed

lemma raw_candidates_mono: "set (raw_candidates t []) \<subseteq> set (raw_candidates t terms)"
  by (auto simp: raw_candidates_def)

subsection \<open>Occurrences of placeholders\<close>

definition placeholder_body :: "redaction_kind \<Rightarrow> string" where
  "placeholder_body k = ''REDACTED:'' @ kind_value k @ '']''"

lemma placeholder_Cons: "placeholder k = CHR ''['' # placeholder_body k"
  by (simp add: placeholder_def placeholder_body_def)

lemma body_no_bracket: "CHR ''['' \<notin> set (placeholder_body k)"
  by (cases k) (simp_all add: placeholder_body_def)

lemma placeholder_no_break: "list_all no_break (placeholder k)"
  by (cases k) (simp_all add: placeholder_def no_break_def)

lemma starts_with_append: "starts_with p s \<longleftrightarrow> (\<exists>r. s = p @ r)"
  by (auto simp: starts_with_def) (metis append_take_drop_id)

lemma placeholder_unique: "placeholder k @ r = placeholder k' @ r' \<Longrightarrow> k = k'"
  by (cases k; cases k') (simp_all add: placeholder_def)

lemma placeholder_at_Some: "placeholder_at s = Some k \<longleftrightarrow> (\<exists>r. s = placeholder k @ r)"
proof
  assume "placeholder_at s = Some k"
  then show "\<exists>r. s = placeholder k @ r"
    by (auto simp: placeholder_at_def find_Some_iff starts_with_append)
next
  assume "\<exists>r. s = placeholder k @ r"
  then obtain r where r: "s = placeholder k @ r" by blast
  have kinds: "k \<in> set redaction_kinds" by (cases k) (simp_all add: redaction_kinds_def)
  have "placeholder_at s \<noteq> None" unfolding placeholder_at_def find_None_iff starts_with_append
    using kinds r by blast
  then obtain k' where k': "placeholder_at s = Some k'" by blast
  then have "starts_with (placeholder k') s" by (auto simp: placeholder_at_def find_Some_iff)
  with r placeholder_unique have "k' = k" by (auto simp: starts_with_append)
  with k' show "placeholder_at s = Some k" by simp
qed

fun occs :: "nat \<Rightarrow> string \<Rightarrow> (nat \<times> redaction_kind) list" where
  "occs offset [] = []"
| "occs offset (c # s) = (case placeholder_at (c # s) of None \<Rightarrow> [] | Some k \<Rightarrow> [(offset, k)]) @ occs (Suc offset) s"

lemma occs_skip: "CHR ''['' \<notin> set w \<Longrightarrow> occs offset (w @ s) = occs (offset + length w) s"
proof (induction w arbitrary: offset)
  case (Cons c w)
  have "placeholder_at (c # w @ s) = None"
    using Cons.prems placeholder_at_Some [of "c # w @ s"] by (cases "placeholder_at (c # w @ s)") (auto simp: placeholder_Cons)
  with Cons show ?case by simp
qed simp

lemma occs_placeholder: "occs offset (placeholder k @ r) = (offset, k) # occs (offset + length (placeholder k)) r"
proof -
  have "placeholder_at (placeholder k @ r) = Some k" by (auto simp: placeholder_at_Some)
  then show ?thesis using occs_skip [OF body_no_bracket, of "Suc offset" k r] by (simp add: placeholder_Cons)
qed

lemma placeholder_at_append:
  assumes "r = [] \<or> hd r = CHR ''[''" and "s \<noteq> []"
  shows "placeholder_at (s @ r) = placeholder_at s"
proof -
  have "(\<exists>q. s @ r = placeholder k @ q) \<longleftrightarrow> (\<exists>q. s = placeholder k @ q)" for k
  proof
    assume "\<exists>q. s @ r = placeholder k @ q"
    then obtain q where q: "s @ r = placeholder k @ q" by blast
    show "\<exists>q. s = placeholder k @ q"
    proof (rule ccontr)
      assume none: "\<nexists>q. s = placeholder k @ q"
      with q obtain us where us: "us \<noteq> []" "placeholder k = s @ us" "r = us @ q"
        by (metis append_eq_append_conv2 append_Nil2)
      then have "hd us = CHR ''[''" using assms(1) by (cases us) auto
      then have "CHR ''['' \<in> set us" using us(1) by (metis list.set_sel(1))
      moreover have "set us \<subseteq> set (placeholder_body k)"
        using us(2) assms(2) unfolding placeholder_Cons by (cases s) auto
      ultimately show False using body_no_bracket by blast
    qed
  qed auto
  then have "placeholder_at (s @ r) = Some k \<longleftrightarrow> placeholder_at s = Some k" for k
    by (simp add: placeholder_at_Some)
  then show ?thesis by (metis not_Some_eq option.exhaust)
qed

lemma occs_append: "r = [] \<or> hd r = CHR ''['' \<Longrightarrow> occs offset (s @ r) = occs offset s @ occs (offset + length s) r"
proof (induction s arbitrary: offset)
  case (Cons c s)
  then show ?case using placeholder_at_append [of r "c # s"] by simp
qed simp

lemma scan_occs: "skip \<le> length s \<Longrightarrow> scan_placeholders offset skip s = occs (offset + skip) (drop skip s)"
proof (induction offset skip s rule: scan_placeholders.induct)
  case (2 offset c s)
  show ?case
  proof (cases "placeholder_at (c # s)")
    case None
    with 2 show ?thesis by simp
  next
    case (Some k)
    then obtain r where r: "c # s = placeholder k @ r" by (auto simp: placeholder_at_Some)
    then have s: "s = placeholder_body k @ r" by (simp add: placeholder_Cons)
    have len: "length (placeholder k) - 1 = length (placeholder_body k)" by (simp add: placeholder_Cons)
    have "scan_placeholders (Suc offset) (length (placeholder_body k)) s = occs (Suc offset + length (placeholder_body k)) r"
      using 2(2) [OF Some] s unfolding len by simp
    then show ?thesis using Some len s occs_skip [OF body_no_bracket, of "Suc offset" k r] by simp
  qed
qed auto

lemma existing_occs: "existing_placeholders t = map (\<lambda>(i, k). \<lparr>ca_start = i, ca_end = i + length (placeholder k),
    ca_kind = k, ca_priority = 0, ca_existing = True\<rparr>) (occs 0 t)"
  using scan_occs [of 0 t 0] by (simp add: existing_placeholders_def)

lemma occs_iff: "(i, k) \<in> set (occs offset s) \<longleftrightarrow> (\<exists>a b. s = a @ placeholder k @ b \<and> i = offset + length a)"
proof (induction s arbitrary: offset)
  case Nil
  then show ?case by (simp add: placeholder_Cons)
next
  case (Cons c s)
  have "(\<exists>a b. c # s = a @ placeholder k @ b \<and> i = offset + length a) \<longleftrightarrow>
      (\<exists>b. c # s = placeholder k @ b \<and> i = offset) \<or> (\<exists>a b. s = a @ placeholder k @ b \<and> i = Suc offset + length a)"
    (is "?l \<longleftrightarrow> ?r")
  proof
    assume ?l
    then obtain a b where "c # s = a @ placeholder k @ b" "i = offset + length a" by blast
    then show ?r by (cases a) auto
  next
    assume ?r
    then show ?l
    proof
      assume "\<exists>a b. s = a @ placeholder k @ b \<and> i = Suc offset + length a"
      then obtain a b where "s = a @ placeholder k @ b" "i = Suc offset + length a" by blast
      then show ?l by (intro exI [of _ "c # a"] exI [of _ b]) simp
    qed (metis add_0_right append_Nil list.size(3))
  qed
  moreover have "(i, k) \<in> set (case placeholder_at (c # s) of None \<Rightarrow> [] | Some k \<Rightarrow> [(offset, k)]) \<longleftrightarrow>
      (\<exists>b. c # s = placeholder k @ b \<and> i = offset)"
    unfolding ex_simps placeholder_at_Some [symmetric] by (auto split: option.split)
  ultimately show ?case using Cons.IH [of "Suc offset"] by simp
qed

subsection \<open>Chains of spans\<close>

definition before :: "candidate \<Rightarrow> candidate \<Rightarrow> bool" where
  "before a b \<longleftrightarrow> ca_end a \<le> ca_start b"

definition apart :: "candidate \<Rightarrow> candidate \<Rightarrow> bool" where
  "apart a b \<longleftrightarrow> \<not> overlaps a b"

lemma apart_sym: "apart a b \<longleftrightarrow> apart b a"
  by (auto simp: apart_def overlaps_def)

lemma sorted_wrt_insort:
  assumes "\<And>a b. R a b \<longleftrightarrow> R b a"
  shows "sorted_wrt R (insort_key f x xs) \<longleftrightarrow> (\<forall>y \<in> set xs. R x y) \<and> sorted_wrt R xs"
  using assms by (induction xs) (auto simp: set_insort_key)

lemma sorted_wrt_sort:
  assumes "\<And>a b. R a b \<longleftrightarrow> R b a"
  shows "sorted_wrt R (sort_key f xs) \<longleftrightarrow> sorted_wrt R xs"
  by (induction xs) (simp_all add: sorted_wrt_insort [OF assms])

lemma chain_sort:
  assumes "sorted_wrt apart cs" and "\<forall>c \<in> set cs. ca_start c < ca_end c"
  shows "sorted_wrt before (sort_key ca_start cs)"
proof -
  have "sorted_wrt apart (sort_key ca_start cs)" using assms(1) by (simp add: sorted_wrt_sort [OF apart_sym])
  moreover have "sorted_wrt (\<lambda>a b. ca_start a \<le> ca_start b) (sort_key ca_start cs)"
    using sorted_sort_key [of ca_start cs] by (simp add: sorted_map)
  ultimately have "sorted_wrt (\<lambda>a b. apart a b \<and> ca_start a \<le> ca_start b) (sort_key ca_start cs)"
    by (induction "sort_key ca_start cs" arbitrary: cs) (auto simp: sorted_wrt_iff_nth_less)
  then show ?thesis
    by (rule sorted_wrt_mono_rel [rotated]) (use assms(2) in \<open>auto simp: apart_def overlaps_def before_def\<close>)
qed

lemma fold_add_candidate:
  "sorted_wrt apart init \<Longrightarrow> \<forall>c \<in> set cs. ca_start c < ca_end c \<Longrightarrow>
    (\<exists>new. fold add_candidate cs init = init @ new \<and> set new \<subseteq> set cs \<and> sorted_wrt apart (init @ new) \<and>
      (\<forall>c \<in> set cs. list_ex (overlaps c) (init @ new)))"
proof (induction cs arbitrary: init)
  case Nil
  then show ?case by (intro exI [of _ "[]"]) simp
next
  case (Cons c cs)
  define start where "start = add_candidate c init"
  have ok: "\<forall>c \<in> set cs. ca_start c < ca_end c" using Cons.prems(2) by simp
  have self: "overlaps c c" using Cons.prems(2) by (simp add: overlaps_def)
  have start_apart: "sorted_wrt apart start"
  proof (cases "list_ex (overlaps c) init")
    case False
    then have "\<forall>x \<in> set init. apart x c" by (auto simp: list_ex_iff apart_def overlaps_def)
    with False Cons.prems(1) show ?thesis by (simp add: start_def add_candidate_def sorted_wrt_append)
  qed (simp add: start_def add_candidate_def Cons.prems(1))
  obtain new where new: "fold add_candidate cs start = start @ new" "set new \<subseteq> set cs"
      "sorted_wrt apart (start @ new)" "\<forall>c \<in> set cs. list_ex (overlaps c) (start @ new)"
    using Cons.IH [OF start_apart ok] by blast
  have c: "list_ex (overlaps c) start" using self by (auto simp: start_def add_candidate_def)
  have "start = init @ [] \<or> start = init @ [c]" by (simp add: start_def add_candidate_def)
  then obtain u where u: "start = init @ u" "set u \<subseteq> {c}" by fastforce
  show ?case
    using new c u by (intro exI [of _ "u @ new"]) (auto simp: start_def)
qed

subsection \<open>The placeholders that a text already has\<close>

lemma occs_bounds: "(i, k) \<in> set (occs offset s) \<Longrightarrow> offset \<le> i \<and> i + length (placeholder k) \<le> offset + length s"
  unfolding occs_iff by auto

lemma occs_sorted: "sorted_wrt (\<lambda>x y. fst x + length (placeholder (snd x)) \<le> fst y) (occs offset s)"
proof (induction s arbitrary: offset)
  case (Cons c s)
  show ?case
  proof (cases "placeholder_at (c # s)")
    case None
    then show ?thesis using Cons by simp
  next
    case (Some k)
    then obtain r where r: "c # s = placeholder k @ r" by (auto simp: placeholder_at_Some)
    then have s: "s = placeholder_body k @ r" by (simp add: placeholder_Cons)
    have "occs (Suc offset) s = occs (offset + length (placeholder k)) r"
      unfolding s occs_skip [OF body_no_bracket] by (simp add: placeholder_Cons)
    then show ?thesis using Some Cons [of "Suc offset"] by (auto dest: occs_bounds)
  qed
qed simp

lemma existing_mem: "c \<in> set (existing_placeholders t) \<longleftrightarrow> (\<exists>i k. (i, k) \<in> set (occs 0 t) \<and>
    c = \<lparr>ca_start = i, ca_end = i + length (placeholder k), ca_kind = k, ca_priority = 0, ca_existing = True\<rparr>)"
  by (auto simp: existing_occs)

lemma existing_chain: "sorted_wrt before (existing_placeholders t)"
  using occs_sorted [of 0 t] by (simp add: existing_occs sorted_wrt_map before_def case_prod_beta)

lemma existing_ok:
  assumes "c \<in> set (existing_placeholders t)"
  shows "candidate_ok t c \<and> candidate_text t c = placeholder (ca_kind c)"
proof -
  obtain i k a b where c: "c = \<lparr>ca_start = i, ca_end = i + length (placeholder k), ca_kind = k, ca_priority = 0, ca_existing = True\<rparr>"
      "t = a @ placeholder k @ b" "i = length a"
    using assms unfolding existing_mem occs_iff by auto
  then have "candidate_text t c = placeholder k" by (simp add: candidate_text_def)
  moreover have "placeholder k \<noteq> []" by (simp add: placeholder_Cons)
  ultimately show ?thesis using c placeholder_no_break [of k] by (simp add: candidate_ok_def)
qed

lemma before_apart: "sorted_wrt before cs \<Longrightarrow> sorted_wrt apart cs"
  by (erule sorted_wrt_mono_rel [rotated]) (simp add: before_def apart_def overlaps_def)

subsection \<open>The selection\<close>

definition selection :: "string \<Rightarrow> candidate list \<Rightarrow> bool" where
  "selection t cs \<longleftrightarrow> sorted_wrt before cs \<and> (\<forall>c \<in> set cs. candidate_ok t c) \<and>
     set (existing_placeholders t) \<subseteq> set cs"

lemma select_facts:
  assumes "list_all term_ok terms"
  shows "selection t (select_candidates t terms)"
    and "set (select_candidates t terms) \<subseteq> set (existing_placeholders t) \<union> set (raw_candidates t terms)"
    and "c \<in> set (raw_candidates t terms) \<Longrightarrow> list_ex (overlaps c) (select_candidates t terms)"
    and "has_unredacted t terms \<Longrightarrow> length (existing_placeholders t) < length (select_candidates t terms)"
proof -
  have raw: "\<forall>c \<in> set (sort_key candidate_key (raw_candidates t terms)). candidate_ok t c"
    using raw_candidates_ok [OF assms] by simp
  then have pos: "\<forall>c \<in> set (sort_key candidate_key (raw_candidates t terms)). ca_start c < ca_end c"
    by (simp add: candidate_ok_def)
  obtain new where new: "fold add_candidate (sort_key candidate_key (raw_candidates t terms)) (existing_placeholders t) =
        existing_placeholders t @ new" "set new \<subseteq> set (raw_candidates t terms)"
      "sorted_wrt apart (existing_placeholders t @ new)"
      "\<forall>c \<in> set (raw_candidates t terms). list_ex (overlaps c) (existing_placeholders t @ new)"
    using fold_add_candidate [OF before_apart [OF existing_chain [of t]] pos] by auto
  have ok: "\<forall>c \<in> set (existing_placeholders t @ new). candidate_ok t c"
    using new(2) raw existing_ok by auto
  have "sorted_wrt before (sort_key ca_start (existing_placeholders t @ new))"
    using chain_sort [OF new(3)] ok by (simp add: candidate_ok_def)
  then show "selection t (select_candidates t terms)"
    using ok by (auto simp: selection_def select_candidates_def new(1))
  show "set (select_candidates t terms) \<subseteq> set (existing_placeholders t) \<union> set (raw_candidates t terms)"
    using new(2) by (auto simp: select_candidates_def new(1))
  show "c \<in> set (raw_candidates t terms) \<Longrightarrow> list_ex (overlaps c) (select_candidates t terms)"
    using new(4) by (auto simp: select_candidates_def new(1) list_ex_iff)
  show "length (existing_placeholders t) < length (select_candidates t terms)" if "has_unredacted t terms"
  proof -
    have "new \<noteq> []" using that new(4) by (auto simp: has_unredacted_def list_ex_iff)
    then show ?thesis by (simp add: select_candidates_def new(1))
  qed
qed

subsection \<open>Placeholders of the redacted text\<close>

fun placed :: "nat \<Rightarrow> nat \<Rightarrow> candidate list \<Rightarrow> (nat \<times> redaction_kind) list" where
  "placed offset cursor [] = []"
| "placed offset cursor (c # cs) = (let i = offset + (ca_start c - cursor) in
     (i, ca_kind c) # placed (i + length (placeholder (ca_kind c))) (ca_end c) cs)"

text \<open>The candidates from the cursor on contain every placeholder of the rest of the text.\<close>

definition covers :: "string \<Rightarrow> nat \<Rightarrow> candidate list \<Rightarrow> bool" where
  "covers t cursor cs \<longleftrightarrow> sorted_wrt before cs \<and> (\<forall>c \<in> set cs. cursor \<le> ca_start c \<and> candidate_ok t c) \<and>
     (\<forall>(i, k) \<in> set (occs cursor (drop cursor t)). \<exists>c \<in> set cs. ca_start c = i)"

lemma occs_drop:
  assumes "(i, k) \<in> set (occs n (drop n t))" and "m \<le> n" and "n \<le> length t"
  shows "(i, k) \<in> set (occs m (drop m t))"
proof -
  obtain a b where ab: "drop n t = a @ placeholder k @ b" "i = n + length a"
    using assms(1) by (auto simp: occs_iff)
  have "drop m t = drop m (take n t) @ drop n t" using assms(2)
    by (metis append_take_drop_id drop_append drop_drop drop_take le_add_diff_inverse2 take_drop)
  then have "drop m t = (drop m (take n t) @ a) @ placeholder k @ b" using ab(1) by simp
  moreover have "i = m + length (drop m (take n t) @ a)" using ab(2) assms(2,3) by simp
  ultimately show ?thesis unfolding occs_iff by blast
qed

lemma covers_step:
  assumes "covers t cursor (c # cs)"
  shows "covers t (ca_end c) cs" and "cursor \<le> ca_start c" and "ca_start c < ca_end c" and "ca_end c \<le> length t"
    and "occs offset (drop cursor (take (ca_start c) t)) = []"
proof -
  have chain: "\<forall>d \<in> set cs. ca_end c \<le> ca_start d" "sorted_wrt before cs" and ok: "\<forall>d \<in> set cs. candidate_ok t d"
    using assms by (auto simp: covers_def before_def)
  show c: "cursor \<le> ca_start c" "ca_start c < ca_end c" "ca_end c \<le> length t"
    using assms by (auto simp: covers_def candidate_ok_def)
  have member: "\<exists>d \<in> set (c # cs). ca_start d = i" if "(i, k) \<in> set (occs cursor (drop cursor t))" for i k
    using assms that unfolding covers_def by blast
  have "\<exists>d \<in> set cs. ca_start d = i" if "(i, k) \<in> set (occs (ca_end c) (drop (ca_end c) t))" for i k
  proof -
    have "ca_end c \<le> i" using occs_bounds [OF that] by simp
    moreover have "(i, k) \<in> set (occs cursor (drop cursor t))" using occs_drop [OF that] c by simp
    ultimately show ?thesis using member [of i k] c(2) by auto
  qed
  with chain ok show "covers t (ca_end c) cs" by (auto simp: covers_def)
  show "occs offset (drop cursor (take (ca_start c) t)) = []"
  proof (rule ccontr)
    assume "occs offset (drop cursor (take (ca_start c) t)) \<noteq> []"
    then obtain i k where "(i, k) \<in> set (occs offset (drop cursor (take (ca_start c) t)))" by (cases "occs offset (drop cursor (take (ca_start c) t))") auto
    then obtain a b where ab: "drop cursor (take (ca_start c) t) = a @ placeholder k @ b" by (auto simp: occs_iff)
    have "drop cursor t = drop cursor (take (ca_start c) t) @ drop (ca_start c) t" using c(1)
      by (metis append_take_drop_id drop_append drop_drop drop_take le_add_diff_inverse2 take_drop)
    then have "drop cursor t = a @ placeholder k @ (b @ drop (ca_start c) t)" using ab by simp
    then have "(cursor + length a, k) \<in> set (occs cursor (drop cursor t))" unfolding occs_iff by blast
    then obtain d where d: "d \<in> set (c # cs)" "ca_start d = cursor + length a" using member by blast
    have "length a < ca_start c - cursor" using arg_cong [OF ab, of length] c by (simp add: placeholder_Cons)
    then show False using d chain(1) c by auto
  qed
qed

lemma occs_replaced:
  "covers t cursor cs \<Longrightarrow> occs offset (replace_from t cursor cs) = placed offset cursor cs"
proof (induction cs arbitrary: offset cursor)
  case Nil
  then have "x \<notin> set (occs cursor (drop cursor t))" for x by (cases x) (auto simp: covers_def)
  then have none: "occs cursor (drop cursor t) = []" using list.set_sel(1) by blast
  have "occs offset (drop cursor t) = []"
  proof (rule ccontr)
    assume "occs offset (drop cursor t) \<noteq> []"
    then obtain i k where "(i, k) \<in> set (occs offset (drop cursor t))" by (cases "occs offset (drop cursor t)") auto
    then obtain a b where "drop cursor t = a @ placeholder k @ b" by (auto simp: occs_iff)
    then have "(cursor + length a, k) \<in> set (occs cursor (drop cursor t))" unfolding occs_iff by blast
    with none show False by simp
  qed
  then show ?case by simp
next
  case (Cons c cs)
  note step = covers_step [OF Cons.prems]
  have len: "length (drop cursor (take (ca_start c) t)) = ca_start c - cursor" using step(3,4) by simp
  have "placeholder (ca_kind c) @ replace_from t (ca_end c) cs = [] \<or> hd (placeholder (ca_kind c) @ replace_from t (ca_end c) cs) = CHR ''[''"
    by (simp add: placeholder_Cons)
  then have "occs offset (replace_from t cursor (c # cs)) =
      occs (offset + (ca_start c - cursor)) (placeholder (ca_kind c) @ replace_from t (ca_end c) cs)"
    unfolding replace_from.simps by (simp only: occs_append len step(5) append_Nil)
  then show ?case using Cons.IH [OF step(1)] by (simp add: occs_placeholder Let_def)
qed

lemma selection_covers: "selection t cs \<Longrightarrow> covers t 0 cs"
proof -
  assume s: "selection t cs"
  have "\<exists>c \<in> set cs. ca_start c = i" if "(i, k) \<in> set (occs 0 t)" for i k
  proof -
    have "\<lparr>ca_start = i, ca_end = i + length (placeholder k), ca_kind = k, ca_priority = 0, ca_existing = True\<rparr> \<in>
        set (existing_placeholders t)" using that by (auto simp: existing_mem)
    then show ?thesis using s by (force simp: selection_def)
  qed
  with s show ?thesis by (auto simp: covers_def selection_def)
qed

lemma existing_replaced:
  assumes "selection t cs"
  shows "existing_placeholders (replace_spans t cs) = map (\<lambda>(i, k). \<lparr>ca_start = i, ca_end = i + length (placeholder k),
    ca_kind = k, ca_priority = 0, ca_existing = True\<rparr>) (placed 0 0 cs)"
  using occs_replaced [OF selection_covers [OF assms]] by (simp add: existing_occs replace_spans_def)

subsection \<open>Lines\<close>

abbreviation breaks :: "string \<Rightarrow> nat" where
  "breaks s \<equiv> length (line_breaks 0 s)"

text \<open>Two texts of which neither cuts a CR LF pair can be put together.\<close>

definition seam :: "string \<Rightarrow> string \<Rightarrow> bool" where
  "seam s r \<longleftrightarrow> (s \<noteq> [] \<and> r \<noteq> [] \<longrightarrow> last s \<noteq> CHR 13 \<or> hd r \<noteq> CHR 10)"

lemma line_breaks_append: "seam s r \<Longrightarrow> line_breaks offset (s @ r) = line_breaks offset s @ line_breaks (offset + length s) r"
proof (induction s arbitrary: offset)
  case (Cons c s)
  then have "seam s r" by (auto simp: seam_def split: if_splits)
  moreover have "(s @ r \<noteq> [] \<and> hd (s @ r) = CHR 10) = (s \<noteq> [] \<and> hd s = CHR 10)" if "c = CHR 13"
    using Cons.prems that by (cases s) (auto simp: seam_def)
  ultimately show ?case using Cons.IH by simp
qed simp

lemma line_breaks_bounds: "n \<in> set (line_breaks offset s) \<Longrightarrow> offset < n \<and> n \<le> offset + length s"
  by (induction offset s rule: line_breaks.induct) (auto split: if_splits)

lemma line_breaks_shift: "line_breaks (offset + n) s = map (\<lambda>i. i + n) (line_breaks offset s)"
proof (induction s arbitrary: offset)
  case (Cons c s)
  then show ?case using Cons [of "Suc offset"] by simp
qed simp

lemma breaks_append: "seam s r \<Longrightarrow> breaks (s @ r) = breaks s + breaks r"
  using line_breaks_shift [of 0 "length s" r] by (simp add: line_breaks_append)

lemma line_number_at: "seam s r \<Longrightarrow> line_number (line_starts (s @ r)) (length s) = Suc (breaks s)"
proof -
  assume "seam s r"
  moreover have "filter (\<lambda>n. n \<le> length s) (line_breaks 0 s) = line_breaks 0 s"
    by (rule filter_True) (use line_breaks_bounds in force)
  moreover have "filter (\<lambda>n. n \<le> length s) (line_breaks (length s) r) = []"
    by (rule filter_False) (use line_breaks_bounds in force)
  ultimately show ?thesis by (simp add: line_number_def line_starts_def line_breaks_append)
qed

lemma no_breaks: "list_all no_break s \<Longrightarrow> breaks s = 0"
proof -
  have "list_all no_break s \<Longrightarrow> line_breaks n s = []" for n s
    by (induction n s rule: line_breaks.induct) (auto simp: no_break_def)
  then show "list_all no_break s \<Longrightarrow> breaks s = 0" by simp
qed

lemma seam_no_break: "list_all no_break r \<Longrightarrow> r \<noteq> [] \<Longrightarrow> seam s (r @ q)" "list_all no_break r \<Longrightarrow> r \<noteq> [] \<Longrightarrow> seam (s @ r) q"
proof -
  show "list_all no_break r \<Longrightarrow> r \<noteq> [] \<Longrightarrow> seam s (r @ q)" by (cases r) (auto simp: seam_def no_break_def)
  assume "list_all no_break r" "r \<noteq> []"
  then have "no_break (last r)" by (simp add: list_all_iff)
  with \<open>r \<noteq> []\<close> show "seam (s @ r) q" by (simp add: seam_def no_break_def)
qed

text \<open>What is written and what is read so far agree on the line breaks, and no CR is pending.\<close>

definition level :: "string \<Rightarrow> string \<Rightarrow> bool" where
  "level out done \<longleftrightarrow> breaks out = breaks done \<and> (\<forall>r. seam out r) \<and> (\<forall>r. seam done r)"

lemma level_step:
  assumes "level out done" and "list_all no_break v" and "v \<noteq> []"
  shows "level ((out @ gap) @ placeholder k) ((done @ gap) @ v)"
    and "breaks (out @ gap) = breaks (done @ gap)"
proof -
  have p: "list_all no_break (placeholder k)" "placeholder k \<noteq> []" by (rule placeholder_no_break) (simp add: placeholder_Cons)
  show gap: "breaks (out @ gap) = breaks (done @ gap)" using assms(1) by (simp add: level_def breaks_append)
  have "breaks ((out @ gap) @ placeholder k) = breaks (out @ gap)"
    using seam_no_break(1) [OF p, of "out @ gap" "[]"] no_breaks [OF p(1)] breaks_append [of "out @ gap" "placeholder k"] by simp
  moreover have "breaks ((done @ gap) @ v) = breaks (done @ gap)"
    using seam_no_break(1) [OF assms(2,3), of "done @ gap" "[]"] no_breaks [OF assms(2)] breaks_append [of "done @ gap" v] by simp
  ultimately show "level ((out @ gap) @ placeholder k) ((done @ gap) @ v)"
    unfolding level_def using gap seam_no_break(2) [OF p] seam_no_break(2) [OF assms(2,3)] by metis
qed

lemma text_split:
  assumes "m \<le> n" and "n \<le> length t"
  shows "take n t = take m t @ drop m (take n t)"
  using assms by (metis append_take_drop_id min.absorb1 take_take)

lemma placed_lines:
  assumes "covers t cursor cs" and "level out (take cursor t)" and "cursor \<le> length t"
  shows "map (\<lambda>(i, k). (line_number (line_starts (out @ replace_from t cursor cs)) i, k)) (placed (length out) cursor cs) =
     map (\<lambda>c. (line_number (line_starts t) (ca_start c), ca_kind c)) cs"
  using assms
proof (induction cs arbitrary: out cursor)
  case Nil
  then show ?case by simp
next
  case (Cons c cs)
  note step = covers_step [OF Cons.prems(1)]
  define gap where "gap = drop cursor (take (ca_start c) t)"
  define v where "v = candidate_text t c"
  have v: "list_all no_break v" "v \<noteq> []"
    using Cons.prems(1) step(3,4) by (auto simp: covers_def candidate_ok_def candidate_text_def v_def)
  have gap: "take (ca_start c) t = take cursor t @ gap" "length gap = ca_start c - cursor"
    using text_split [of cursor "ca_start c" t] step(2,3,4) by (simp_all add: gap_def)
  have upto: "take (ca_end c) t = (take cursor t @ gap) @ v"
    using text_split [of "ca_start c" "ca_end c" t] step(3,4) gap(1) by (simp add: v_def candidate_text_def)
  note level = level_step(1) [OF Cons.prems(2) v, of gap "ca_kind c"] level_step(2) [OF Cons.prems(2) v, of gap]
  define rest where "rest = replace_from t (ca_end c) cs"
  have new: "out @ replace_from t cursor (c # cs) = ((out @ gap) @ placeholder (ca_kind c)) @ rest"
    by (simp add: gap_def rest_def)
  have i: "length out + (ca_start c - cursor) = length (out @ gap)" using gap(2) by simp
  have "line_number (line_starts ((out @ gap) @ (placeholder (ca_kind c) @ rest))) (length (out @ gap)) = Suc (breaks (out @ gap))"
    by (intro line_number_at seam_no_break(1) placeholder_no_break) (simp add: placeholder_Cons)
  moreover have "t = (take cursor t @ gap) @ (v @ drop (ca_end c) t)" using upto by (metis append.assoc append_take_drop_id)
  then have "line_number (line_starts t) (length (take cursor t @ gap)) = Suc (breaks (take cursor t @ gap))"
    using line_number_at [of "take cursor t @ gap" "v @ drop (ca_end c) t"] seam_no_break(1) [OF v] by metis
  moreover have "length (take cursor t @ gap) = ca_start c" using gap step by (metis length_take min.absorb2 less_imp_le order_trans)
  ultimately have here: "line_number (line_starts (out @ replace_from t cursor (c # cs))) (length out + (ca_start c - cursor)) =
      line_number (line_starts t) (ca_start c)"
    unfolding new i using level(2) by simp
  have "level ((out @ gap) @ placeholder (ca_kind c)) (take (ca_end c) t)" using level(1) upto by simp
  from Cons.IH [OF step(1) this step(4)]
  have "map (\<lambda>(i, k). (line_number (line_starts (out @ replace_from t cursor (c # cs))) i, k))
      (placed (length ((out @ gap) @ placeholder (ca_kind c))) (ca_end c) cs) =
     map (\<lambda>c. (line_number (line_starts t) (ca_start c), ca_kind c)) cs"
    unfolding new rest_def .
  then show ?case using here gap(2) by (simp add: Let_def add.assoc)
qed

lemma kind_lines_pairs: "kind_lines t cs k = map fst (filter (\<lambda>x. snd x = k)
    (map (\<lambda>c. (line_number (line_starts t) (ca_start c), ca_kind c)) cs))"
  by (simp add: kind_lines_def filter_map o_def)

text \<open>The redacted text shows, line by line, exactly the findings of the selection.\<close>

lemma kind_lines_replaced:
  assumes "selection t cs"
  shows "kind_lines (replace_spans t cs) (existing_placeholders (replace_spans t cs)) k = kind_lines t cs k"
proof -
  have "level [] (take 0 t)" by (simp add: level_def seam_def)
  from placed_lines [OF selection_covers [OF assms] this]
  have "map (\<lambda>(i, k). (line_number (line_starts (replace_spans t cs)) i, k)) (placed 0 0 cs) =
      map (\<lambda>c. (line_number (line_starts t) (ca_start c), ca_kind c)) cs"
    by (simp add: replace_spans_def)
  moreover have "map (\<lambda>c. (line_number (line_starts (replace_spans t cs)) (ca_start c), ca_kind c)) (existing_placeholders (replace_spans t cs)) =
      map (\<lambda>(i, k). (line_number (line_starts (replace_spans t cs)) i, k)) (placed 0 0 cs)"
    by (simp add: existing_replaced [OF assms] case_prod_beta)
  ultimately show ?thesis unfolding kind_lines_pairs by simp
qed

subsection \<open>Redacting\<close>

lemma sorted_set_facts: "sorted_set (sorted_set xs) = sorted_set xs" "sorted_set xs = [] \<longleftrightarrow> xs = []"
  by (simp_all add: sorted_set_def sorted_sort_id) (metis set_empty set_sort)

definition make_findings :: "string \<Rightarrow> candidate list \<Rightarrow> finding list" where
  "make_findings t cs = map (make_finding t cs) (filter (\<lambda>k. kind_lines t cs k \<noteq> []) redaction_kinds)"

lemma findings_match_replaced:
  assumes "selection t cs"
  shows "findings_match (replace_spans t cs) (make_findings t cs)" and "list_all finding_ok (make_findings t cs)"
proof -
  have "map fi_kind (make_findings t cs) = filter (\<lambda>k. kind_lines t cs k \<noteq> []) redaction_kinds"
    by (simp add: make_findings_def make_finding_def o_def)
  moreover have "distinct redaction_kinds" by (simp add: redaction_kinds_def)
  ultimately show "findings_match (replace_spans t cs) (make_findings t cs)"
    using kind_lines_replaced [OF assms]
    by (auto simp: findings_match_def finding_matches_def make_findings_def make_finding_def list_all_iff)
  show "list_all finding_ok (make_findings t cs)"
    by (auto simp: make_findings_def make_finding_def finding_ok_def list_all_iff sorted_set_facts placeholder_Cons)
qed

lemma has_unredacted_mono: "has_unredacted t [] \<Longrightarrow> has_unredacted t terms"
  using raw_candidates_mono [of t terms] by (auto simp: has_unredacted_def list_ex_iff)

definition redacted_result :: "string \<Rightarrow> string list \<Rightarrow> redaction_result" where
  "redacted_result t terms = (let cs = select_candidates t terms; allowed = (\<not> has_unredacted (replace_spans t cs) terms) in
     \<lparr>rr_policy_version = POLICY_VERSION, rr_redacted_text = replace_spans t cs, rr_findings = make_findings t cs,
      rr_decision = (if allowed then ALLOW_REDACTED_ONLY else BLOCK), rr_safe_to_send = allowed,
      rr_safe_to_persist = allowed, rr_limitations = LIMITATIONS\<rparr>)"

text \<open>The validator of the result never refuses what the redactor builds.\<close>

lemma redact_total: "redact_transcript t ts = (case normalize_customer_terms ts of Inl e \<Rightarrow> Inl e
    | Inr terms \<Rightarrow> Inr (redacted_result t terms))"
proof (cases "normalize_customer_terms ts")
  case (Inr terms)
  have sel: "selection t (select_candidates t terms)" using select_facts(1) normalized_terms_ok [OF Inr] by blast
  define red where "red = replace_spans t (select_candidates t terms)"
  have "\<not> list_ex (\<lambda>f. \<not> finding_ok f) (make_findings t (select_candidates t terms))"
    using findings_match_replaced(2) [OF sel] by (simp add: list_ex_iff list_all_iff)
  moreover have "\<not> has_unredacted red terms \<Longrightarrow> \<not> has_unredacted red []"
    using has_unredacted_mono [of red terms] by blast
  ultimately have "result_error (redacted_result t terms) = None"
    using findings_match_replaced(1) [OF sel]
    by (simp add: result_error_def redacted_result_def Let_def red_def [symmetric] LIMITATIONS_def)
  then show ?thesis
    using Inr by (simp add: redact_transcript_def redacted_result_def Let_def make_findings_def)
qed (simp add: redact_transcript_def)

text \<open>A text of which every raw candidate meets an existing placeholder selects those only.\<close>

lemma select_redacted:
  assumes "\<not> has_unredacted t terms"
  shows "select_candidates t terms = existing_placeholders t"
proof -
  have all: "list_ex (overlaps c) (existing_placeholders t)" if "c \<in> set (raw_candidates t terms)" for c
    using assms that by (auto simp: has_unredacted_def list_ex_iff)
  have "(\<forall>c \<in> set cs. list_ex (overlaps c) init) \<Longrightarrow> fold add_candidate cs init = init" for cs init
    by (induction cs) (simp_all add: add_candidate_def)
  from this [of "sort_key candidate_key (raw_candidates t terms)" "existing_placeholders t"]
  have "fold add_candidate (sort_key candidate_key (raw_candidates t terms)) (existing_placeholders t) = existing_placeholders t"
    using all by simp
  moreover have "sorted (map ca_start (existing_placeholders t))"
    unfolding sorted_map
    by (rule sorted_wrt_mono_rel [OF _ existing_chain]) (use existing_ok [of _ t] in \<open>force simp: before_def candidate_ok_def\<close>)
  ultimately show ?thesis by (simp add: select_candidates_def sorted_sort_id sort_key_id_if_sorted)
qed

lemma replace_same:
  "sorted_wrt before cs \<Longrightarrow> (\<forall>c \<in> set cs. cursor \<le> ca_start c \<and> candidate_ok t c \<and> candidate_text t c = placeholder (ca_kind c)) \<Longrightarrow>
    replace_from t cursor cs = drop cursor t"
proof (induction cs arbitrary: cursor)
  case (Cons c cs)
  have c: "cursor \<le> ca_start c" "ca_start c < ca_end c" "candidate_text t c = placeholder (ca_kind c)"
    using Cons.prems(2) by (auto simp: candidate_ok_def)
  have "replace_from t (ca_end c) cs = drop (ca_end c) t"
    using Cons.prems by (intro Cons.IH) (auto simp: before_def)
  moreover have "drop cursor (take (ca_start c) t) @ drop (ca_start c) (take (ca_end c) t) @ drop (ca_end c) t = drop cursor t"
    using c(1,2) by (metis append_take_drop_id drop_append drop_drop drop_take le_add_diff_inverse2 less_imp_le take_drop)
  ultimately show ?case using c(3) by (simp add: candidate_text_def)
qed simp

lemma replace_existing: "replace_spans t (existing_placeholders t) = t"
  using replace_same [OF existing_chain, of t 0] existing_ok [of _ t] by (simp add: replace_spans_def)

subsection \<open>Properties\<close>

definition lines_and_kinds :: "string \<Rightarrow> candidate list \<Rightarrow> (nat \<times> redaction_kind) list" where
  "lines_and_kinds t cs = map (\<lambda>c. (line_number (line_starts t) (ca_start c), ca_kind c)) cs"

lemma lines_and_kinds_replaced:
  assumes "selection t cs"
  shows "lines_and_kinds (replace_spans t cs) (existing_placeholders (replace_spans t cs)) = lines_and_kinds t cs"
proof -
  have "level [] (take 0 t)" by (simp add: level_def seam_def)
  from placed_lines [OF selection_covers [OF assms] this]
  show ?thesis
    by (simp add: replace_spans_def [symmetric] existing_replaced [OF assms] lines_and_kinds_def case_prod_unfold o_def)
qed

lemma redacted_result_again:
  assumes "selection t (select_candidates t terms)" and "rr_decision (redacted_result t terms) = ALLOW_REDACTED_ONLY"
  shows "redacted_result (rr_redacted_text (redacted_result t terms)) terms = redacted_result t terms"
proof -
  define red where "red = replace_spans t (select_candidates t terms)"
  have clean: "\<not> has_unredacted red terms"
    using assms(2) by (auto simp: redacted_result_def Let_def red_def split: if_splits)
  have same: "select_candidates red terms = existing_placeholders red" using clean by (rule select_redacted)
  have findings: "make_findings red (existing_placeholders red) = make_findings t (select_candidates t terms)"
    using kind_lines_replaced [OF assms(1)] by (simp add: make_findings_def make_finding_def red_def)
  have red: "rr_redacted_text (redacted_result t terms) = red" by (simp add: redacted_result_def Let_def red_def)
  show ?thesis unfolding red
    by (simp add: redacted_result_def Let_def same replace_existing findings red_def [symmetric])
qed

lemma redacted_result_fields:
  "rr_redacted_text (redacted_result t terms) = replace_spans t (select_candidates t terms)"
  "rr_policy_version (redacted_result t terms) = POLICY_VERSION"
  "rr_limitations (redacted_result t terms) = LIMITATIONS"
  "rr_findings (redacted_result t terms) = make_findings t (select_candidates t terms)"
  "rr_safe_to_send (redacted_result t terms) = (\<not> has_unredacted (replace_spans t (select_candidates t terms)) terms)"
  "rr_safe_to_persist (redacted_result t terms) = rr_safe_to_send (redacted_result t terms)"
  "rr_decision (redacted_result t terms) = (if rr_safe_to_send (redacted_result t terms) then ALLOW_REDACTED_ONLY else BLOCK)"
  by (simp_all add: redacted_result_def Let_def)

text \<open>
  C16. For acceptable customer terms a transcript is always redacted; the egress check hands out the
  redacted text exactly when no supported pattern and no customer term is left in it outside the
  placeholders, which is when the result is allowed; and redacting an allowed text again yields the
  very same result.
\<close>

theorem redaction_egress:
  assumes "normalize_customer_terms ts = Inr terms"
  shows "\<exists>r. redact_transcript t ts = Inr r \<and>
     assert_redaction_egress r ts = (if has_unredacted (rr_redacted_text r) terms
       then Inl ''Redaction egress denied by the current policy.'' else Inr (rr_redacted_text r)) \<and>
     (rr_decision r = ALLOW_REDACTED_ONLY \<longleftrightarrow> \<not> has_unredacted (rr_redacted_text r) terms) \<and>
     (rr_decision r = ALLOW_REDACTED_ONLY \<longrightarrow> redact_transcript (rr_redacted_text r) ts = Inr r)"
proof -
  define r where "r = redacted_result t terms"
  have sel: "selection t (select_candidates t terms)" using select_facts(1) normalized_terms_ok [OF assms] by blast
  have redact: "redact_transcript u ts = Inr (redacted_result u terms)" for u by (simp add: redact_total assms)
  have "assert_redaction_egress r ts = (if has_unredacted (rr_redacted_text r) terms
      then Inl ''Redaction egress denied by the current policy.'' else Inr (rr_redacted_text r))"
    using findings_match_replaced(1) [OF sel]
    by (simp add: assert_redaction_egress_def assms current_allowed_state_def r_def redacted_result_fields)
  moreover have "rr_decision r = ALLOW_REDACTED_ONLY \<longleftrightarrow> \<not> has_unredacted (rr_redacted_text r) terms"
    by (simp add: r_def redacted_result_fields)
  moreover have "rr_decision r = ALLOW_REDACTED_ONLY \<longrightarrow> redact_transcript (rr_redacted_text r) ts = Inr r"
    using redacted_result_again [OF sel] by (auto simp: redact r_def)
  ultimately show ?thesis using redact [of t] unfolding r_def by blast
qed

lemma terms_example: "normalize_customer_terms ['' Acme ''] = Inr [''Acme'']"
  by code_simp

theorem redaction_egress_witness:
  "\<exists>r. redact_transcript ''Acme: a@b.co'' ['' Acme ''] = Inr r \<and> rr_redacted_text r = ''[REDACTED:CUSTOMER_TERM]: [REDACTED:EMAIL]'' \<and>
     redact_transcript (rr_redacted_text r) ['' Acme ''] = Inr r"
proof -
  obtain r where r: "redact_transcript ''Acme: a@b.co'' ['' Acme ''] = Inr r"
      "rr_decision r = ALLOW_REDACTED_ONLY \<longrightarrow> redact_transcript (rr_redacted_text r) ['' Acme ''] = Inr r"
    using redaction_egress [OF terms_example, of "''Acme: a@b.co''"] by blast
  have "r = redacted_result ''Acme: a@b.co'' [''Acme'']" using r(1) by (simp add: redact_total terms_example)
  moreover have "replace_spans ''Acme: a@b.co'' (select_candidates ''Acme: a@b.co'' [''Acme'']) = ''[REDACTED:CUSTOMER_TERM]: [REDACTED:EMAIL]''"
    by code_simp
  moreover have "\<not> has_unredacted ''[REDACTED:CUSTOMER_TERM]: [REDACTED:EMAIL]'' [''Acme'']" by code_simp
  ultimately show ?thesis using r by (simp add: redacted_result_fields)
qed

text \<open>
  The spans that are redacted do not overlap and come in the order of the text; every span a
  detector proposes, and every placeholder the text already has, meets one of them; and the
  placeholders of the redacted text are theirs, one for one, in order, on the same lines.
\<close>

theorem redaction_spans:
  assumes "normalize_customer_terms ts = Inr terms"
  shows "sorted_wrt (\<lambda>a b. ca_end a \<le> ca_start b) (select_candidates t terms) \<and>
     list_all (\<lambda>c. list_ex (overlaps c) (select_candidates t terms)) (raw_candidates t terms @ existing_placeholders t) \<and>
     lines_and_kinds (replace_spans t (select_candidates t terms)) (existing_placeholders (replace_spans t (select_candidates t terms)))
       = lines_and_kinds t (select_candidates t terms)"
proof -
  have ok: "list_all term_ok terms" using assms by (rule normalized_terms_ok)
  note sel = select_facts(1) [OF ok, of t]
  have "list_ex (overlaps c) (select_candidates t terms)" if "c \<in> set (existing_placeholders t)" for c
  proof -
    have "c \<in> set (select_candidates t terms)" using sel that by (auto simp: selection_def)
    moreover have "overlaps c c" using existing_ok [OF that] by (simp add: overlaps_def candidate_ok_def)
    ultimately show ?thesis by (auto simp: list_ex_iff)
  qed
  then have "list_all (\<lambda>c. list_ex (overlaps c) (select_candidates t terms)) (raw_candidates t terms @ existing_placeholders t)"
    using select_facts(3) [OF ok] by (auto simp: list_all_iff)
  moreover have "sorted_wrt (\<lambda>a b. ca_end a \<le> ca_start b) (select_candidates t terms)"
    using sel by (simp add: selection_def before_def [abs_def])
  ultimately show ?thesis using lines_and_kinds_replaced [OF sel] by blast
qed

theorem redaction_spans_witness:
  "lines_and_kinds (replace_spans ''Acme: a@b.co'' (select_candidates ''Acme: a@b.co'' [''Acme'']))
      (existing_placeholders (replace_spans ''Acme: a@b.co'' (select_candidates ''Acme: a@b.co'' [''Acme'']))) = [(1, CUSTOMER_TERM), (1, EMAIL)]"
proof -
  have "lines_and_kinds ''Acme: a@b.co'' (select_candidates ''Acme: a@b.co'' [''Acme'']) = [(1, CUSTOMER_TERM), (1, EMAIL)]"
    by code_simp
  then show ?thesis using redaction_spans [OF terms_example, of "''Acme: a@b.co''"] by metis
qed

text \<open>A blocked text has more spans to redact than it has placeholders.\<close>

lemma blocked_changes:
  assumes "list_all term_ok terms" and "has_unredacted t terms"
  shows "replace_spans t (select_candidates t terms) \<noteq> t"
proof
  assume same: "replace_spans t (select_candidates t terms) = t"
  have "length (existing_placeholders (replace_spans t (select_candidates t terms))) = length (select_candidates t terms)"
    using arg_cong [OF lines_and_kinds_replaced [OF select_facts(1) [OF assms(1)]], of length t]
    by (simp add: lines_and_kinds_def)
  then show False using select_facts(4) [OF assms] same by simp
qed

text \<open>
  What a redaction produces is a fixed point of redaction exactly when it is allowed: a blocked
  text always changes when it is redacted again.
\<close>

theorem redaction_fixed_point:
  assumes "redact_transcript t ts = Inr r"
  shows "(\<exists>r'. redact_transcript (rr_redacted_text r) ts = Inr r' \<and> rr_redacted_text r' = rr_redacted_text r) \<longleftrightarrow>
     rr_decision r = ALLOW_REDACTED_ONLY"
proof (cases "normalize_customer_terms ts")
  case (Inl e)
  with assms show ?thesis by (simp add: redact_total)
next
  case (Inr terms)
  have r: "r = redacted_result t terms" using assms Inr by (simp add: redact_total)
  have ok: "list_all term_ok terms" using Inr by (rule normalized_terms_ok)
  show ?thesis
  proof (cases "rr_decision r = ALLOW_REDACTED_ONLY")
    case True
    then show ?thesis
      using redacted_result_again [OF select_facts(1) [OF ok], of t] r by (auto simp: redact_total Inr)
  next
    case False
    then have "has_unredacted (rr_redacted_text r) terms" by (auto simp: r redacted_result_fields split: if_splits)
    then show ?thesis using False blocked_changes [OF ok] by (auto simp: redact_total Inr redacted_result_fields)
  qed
qed

text \<open>A token may hide the telephone number behind it until it is redacted.\<close>

lemma blocked_example:
  "select_candidates ''api_key=abcdefgh(212) 555-1234'' [] =
     [\<lparr>ca_start = 8, ca_end = 16, ca_kind = API_TOKEN, ca_priority = 30, ca_existing = False\<rparr>]"
  "has_unredacted ''api_key=[REDACTED:API_TOKEN](212) 555-1234'' []"
  by code_simp+

theorem redaction_fixed_point_witness:
  "\<exists>r. redact_transcript ''api_key=abcdefgh(212) 555-1234'' [] = Inr r \<and>
     (\<nexists>r'. redact_transcript (rr_redacted_text r) [] = Inr r' \<and> rr_redacted_text r' = rr_redacted_text r)"
proof -
  define r where "r = redacted_result ''api_key=abcdefgh(212) 555-1234'' []"
  have r: "redact_transcript ''api_key=abcdefgh(212) 555-1234'' [] = Inr r"
    by (simp add: redact_total normalize_customer_terms_def r_def)
  have "rr_decision r = BLOCK"
    using blocked_example by (simp add: r_def redacted_result_fields replace_spans_def placeholder_def)
  then show ?thesis using r redaction_fixed_point [OF r] by (intro exI [of _ r]) auto
qed

end
