(* ===== verification/Draft_Pocs.thy ===== *)
theory Draft_Pocs
  imports Replay
begin

section \<open>Draft POC creation (poc_creation.py)\<close>

text \<open>
  \<open>draft_service\<close> is the state of \<open>ProcessLocalDraftPOCService\<close>. A draft is created under an
  idempotency key and may be archived; there is no other change of it and no deletion. What the
  clock and the identifier factory answer is the argument of a call; each locked section is a step.
\<close>

subsection \<open>Requests and snapshots\<close>

datatype first_source_choice = CHOICE_EMAIL | CHOICE_MEETING | CHOICE_DOCUMENT | CHOICE_EXISTING_CONTRACT

datatype next_intake_route = ROUTE_EMAIL | ROUTE_MEETING | ROUTE_DOCUMENT | ROUTE_EXISTING_CONTRACT

datatype source_ingestion_state = INGESTION_NOT_STARTED

datatype draft_archive_state = DRAFT_ACTIVE | DRAFT_ARCHIVED

fun route_by_source :: "first_source_choice \<Rightarrow> next_intake_route" where
  "route_by_source CHOICE_EMAIL = ROUTE_EMAIL"
| "route_by_source CHOICE_MEETING = ROUTE_MEETING"
| "route_by_source CHOICE_DOCUMENT = ROUTE_DOCUMENT"
| "route_by_source CHOICE_EXISTING_CONTRACT = ROUTE_EXISTING_CONTRACT"

fun choice_value :: "first_source_choice \<Rightarrow> string" where
  "choice_value CHOICE_EMAIL = ''EMAIL''"
| "choice_value CHOICE_MEETING = ''MEETING''"
| "choice_value CHOICE_DOCUMENT = ''DOCUMENT''"
| "choice_value CHOICE_EXISTING_CONTRACT = ''EXISTING_CONTRACT''"

record draft_request =
  dq_display_name :: string
  dq_customer_label :: string
  dq_use_case :: string
  dq_owner :: string
  dq_first_source_choice :: first_source_choice
  dq_poc_id :: "string option"

text \<open>The request model trims its texts, then bounds them.\<close>

definition make_draft_request :: "draft_request \<Rightarrow> draft_request option" where
  "make_draft_request q = (let q = q\<lparr>dq_display_name := py_strip (dq_display_name q),
       dq_customer_label := py_strip (dq_customer_label q), dq_use_case := py_strip (dq_use_case q),
       dq_owner := py_strip (dq_owner q)\<rparr> in
     if text_within 160 (dq_display_name q) \<and> text_within 160 (dq_customer_label q) \<and>
       text_within 500 (dq_use_case q) \<and> text_within 160 (dq_owner q) \<and>
       (case dq_poc_id q of None \<Rightarrow> True | Some p \<Rightarrow> poc_id_ok p) then Some q else None)"

record draft_snapshot =
  dp_poc_id :: string
  dp_display_name :: string
  dp_customer_label :: string
  dp_use_case :: string
  dp_owner :: string
  dp_first_source_choice :: first_source_choice
  dp_next_intake_route :: next_intake_route
  dp_source_ingestion_state :: source_ingestion_state
  dp_created_at :: py_datetime
  dp_updated_at :: py_datetime
  dp_archive_state :: draft_archive_state
  dp_archived_at :: "py_datetime option"

definition normalize_draft :: "draft_snapshot \<Rightarrow> draft_snapshot" where
  "normalize_draft d = d\<lparr>dp_display_name := py_strip (dp_display_name d),
     dp_customer_label := py_strip (dp_customer_label d), dp_use_case := py_strip (dp_use_case d),
     dp_owner := py_strip (dp_owner d)\<rparr>"

definition archive_fields_ok :: "draft_snapshot \<Rightarrow> bool" where
  "archive_fields_ok d \<longleftrightarrow> (case dp_archive_state d of
     DRAFT_ACTIVE \<Rightarrow> dp_archived_at d = None
   | DRAFT_ARCHIVED \<Rightarrow> (case dp_archived_at d of None \<Rightarrow> False
       | Some a \<Rightarrow> instant (dp_created_at d) \<le> instant a \<and> dt_eq (dp_updated_at d) a))"

definition draft_ok :: "draft_snapshot \<Rightarrow> bool" where
  "draft_ok d \<longleftrightarrow> poc_id_ok (dp_poc_id d) \<and> text_within 160 (dp_display_name d) \<and>
     text_within 160 (dp_customer_label d) \<and> text_within 500 (dp_use_case d) \<and> text_within 160 (dp_owner d) \<and>
     dt_aware (dp_created_at d) \<and> dt_aware (dp_updated_at d) \<and>
     (case dp_archived_at d of None \<Rightarrow> True | Some a \<Rightarrow> dt_aware a) \<and>
     dp_next_intake_route d = route_by_source (dp_first_source_choice d) \<and>
     instant (dp_created_at d) \<le> instant (dp_updated_at d) \<and> archive_fields_ok d"

definition make_draft :: "draft_snapshot \<Rightarrow> draft_snapshot option" where
  "make_draft d = (if draft_ok (normalize_draft d) then Some (normalize_draft d) else None)"

text \<open>Equality of two snapshots: datetimes are compared by their instant.\<close>

definition draft_eq :: "draft_snapshot \<Rightarrow> draft_snapshot \<Rightarrow> bool" where
  "draft_eq a b \<longleftrightarrow> dp_poc_id a = dp_poc_id b \<and> dp_display_name a = dp_display_name b \<and>
     dp_customer_label a = dp_customer_label b \<and> dp_use_case a = dp_use_case b \<and> dp_owner a = dp_owner b \<and>
     dp_first_source_choice a = dp_first_source_choice b \<and> dp_next_intake_route a = dp_next_intake_route b \<and>
     dp_source_ingestion_state a = dp_source_ingestion_state b \<and> dt_eq (dp_created_at a) (dp_created_at b) \<and>
     dt_eq (dp_updated_at a) (dp_updated_at b) \<and> dp_archive_state a = dp_archive_state b \<and>
     (case (dp_archived_at a, dp_archived_at b) of (None, None) \<Rightarrow> True | (Some x, Some y) \<Rightarrow> dt_eq x y | _ \<Rightarrow> False)"

record draft_creation_result =
  dr_draft :: draft_snapshot
  dr_idempotent_replay :: bool

record draft_key_record =
  dk_request_sha256 :: string
  dk_poc_id :: string

datatype draft_error = DraftValueError | DraftIdempotencyConflict | DuplicateDraftPOCId | DraftPOCNotFound
  | DraftPOCCommitConflict | DraftPOCCapacityExceeded | DraftValidationError | DraftCallbackError | DraftKeyError

subsection \<open>Digests\<close>

definition draft_key_ok :: "string \<Rightarrow> bool" where
  "draft_key_ok k \<longleftrightarrow> \<not> (py_strip k = [] \<or> 200 < length k)"

definition draft_key_digest :: "hasher \<Rightarrow> string \<Rightarrow> string" where
  "draft_key_digest h k = text_sha h (''exitspec-draft-poc-idempotency-key-v1'' @ [CHR 0x00]) k"

definition draft_request_json :: "draft_request \<Rightarrow> json" where
  "draft_request_json q = JObj [
     (''display_name'', JStr (dq_display_name q)), (''customer_label'', JStr (dq_customer_label q)),
     (''use_case'', JStr (dq_use_case q)), (''owner'', JStr (dq_owner q)),
     (''first_source_choice'', JStr (choice_value (dq_first_source_choice q))),
     (''poc_id'', json_opt JStr (dq_poc_id q))]"

definition draft_request_digest :: "hasher \<Rightarrow> draft_request \<Rightarrow> string" where
  "draft_request_digest h q = json_sha h (''exitspec-draft-poc-create-request-v1'' @ [CHR 0x00]) (draft_request_json q)"

subsection \<open>The service\<close>

record draft_service =
  ds_max_drafts :: nat
  ds_records :: "(string \<times> draft_snapshot) list"
  ds_idempotency :: "(string \<times> draft_key_record) list"

type_synonym 'a draft_act = "(draft_service, draft_error, 'a) action"

definition draft_service_new :: "nat \<Rightarrow> draft_error + draft_service" where
  "draft_service_new max_drafts = (if \<not> (1 \<le> max_drafts \<and> max_drafts \<le> 10000) then Inl DraftValueError
     else Inr \<lparr>ds_max_drafts = max_drafts, ds_records = [], ds_idempotency = []\<rparr>)"

text \<open>What an injected factory of identifiers yields.\<close>

datatype factory_answer = FactoryRaises | FactoryOther | FactoryGives string

record draft_env =
  de_clock :: clock_value
  de_poc_id :: factory_answer

definition draft_of_request :: "draft_request \<Rightarrow> string \<Rightarrow> py_datetime \<Rightarrow> draft_snapshot" where
  "draft_of_request q poc now = \<lparr>dp_poc_id = poc, dp_display_name = dq_display_name q,
     dp_customer_label = dq_customer_label q, dp_use_case = dq_use_case q, dp_owner = dq_owner q,
     dp_first_source_choice = dq_first_source_choice q,
     dp_next_intake_route = route_by_source (dq_first_source_choice q),
     dp_source_ingestion_state = INGESTION_NOT_STARTED, dp_created_at = now, dp_updated_at = now,
     dp_archive_state = DRAFT_ACTIVE, dp_archived_at = None\<rparr>"

text \<open>The identifier of a new draft: the requested one, or what the factory gives, validated.\<close>

definition draft_new_id :: "draft_request \<Rightarrow> draft_env \<Rightarrow> draft_error + string" where
  "draft_new_id q env = (case (case dq_poc_id q of Some p \<Rightarrow> FactoryGives p | None \<Rightarrow> de_poc_id env) of
     FactoryRaises \<Rightarrow> Inl DraftCallbackError
   | FactoryOther \<Rightarrow> Inl DraftValueError
   | FactoryGives p \<Rightarrow> if poc_id_ok p then Inr p else Inl DraftValueError)"

definition draft_create :: "hasher \<Rightarrow> draft_request \<Rightarrow> string \<Rightarrow> draft_env \<Rightarrow> draft_creation_result draft_act" where
  "draft_create h q key env = (\<lambda>s.
     if \<not> draft_key_ok key then (s, Inl DraftValueError)
     else (case map_of (ds_idempotency s) (draft_key_digest h key) of
       Some prior \<Rightarrow>
         if dk_request_sha256 prior \<noteq> draft_request_digest h q then (s, Inl DraftIdempotencyConflict)
         else (case map_of (ds_records s) (dk_poc_id prior) of None \<Rightarrow> (s, Inl DraftKeyError)
           | Some d \<Rightarrow> (s, Inr \<lparr>dr_draft = d, dr_idempotent_replay = True\<rparr>))
     | None \<Rightarrow>
         if ds_max_drafts s \<le> length (ds_records s) then (s, Inl DraftPOCCapacityExceeded)
         else (case draft_new_id q env of Inl e \<Rightarrow> (s, Inl e)
           | Inr poc \<Rightarrow>
             if map_of (ds_records s) poc \<noteq> None then (s, Inl DuplicateDraftPOCId)
             else (case de_clock env of
               ClockRaises \<Rightarrow> (s, Inl DraftCallbackError)
             | ClockOther \<Rightarrow> (s, Inl DraftValidationError)
             | ClockAt now \<Rightarrow> (case make_draft (draft_of_request q poc now) of
                 None \<Rightarrow> (s, Inl DraftValidationError)
               | Some d \<Rightarrow> (s\<lparr>ds_records := AList.update poc d (ds_records s),
                   ds_idempotency := AList.update (draft_key_digest h key)
                     \<lparr>dk_request_sha256 = draft_request_digest h q, dk_poc_id = poc\<rparr> (ds_idempotency s)\<rparr>,
                   Inr \<lparr>dr_draft = d, dr_idempotent_replay = False\<rparr>))))))"

definition draft_get :: "string \<Rightarrow> draft_service \<Rightarrow> draft_error + draft_snapshot" where
  "draft_get poc s = (if \<not> poc_id_ok poc then Inl DraftValueError
     else case map_of (ds_records s) poc of None \<Rightarrow> Inl DraftPOCNotFound | Some d \<Rightarrow> Inr d)"

definition draft_ids :: "draft_service \<Rightarrow> string list" where
  "draft_ids s = sort (map fst (ds_records s))"

definition draft_snapshots :: "draft_service \<Rightarrow> draft_snapshot list" where
  "draft_snapshots s = map (\<lambda>poc. the (map_of (ds_records s) poc)) (draft_ids s)"

text \<open>What entering the guard of an authoring publication does: nothing, or the error it raises.\<close>

definition draft_commit_guard :: "string \<Rightarrow> draft_snapshot \<Rightarrow> draft_service \<Rightarrow> draft_error + unit" where
  "draft_commit_guard poc expected s = (if \<not> poc_id_ok poc then Inl DraftValueError
     else if dp_poc_id expected \<noteq> poc then Inl DraftPOCCommitConflict
     else case map_of (ds_records s) poc of None \<Rightarrow> Inl DraftPOCNotFound
       | Some current \<Rightarrow>
         if dp_archive_state current \<noteq> DRAFT_ACTIVE then Inl DraftPOCNotFound
         else if \<not> draft_eq current expected then Inl DraftPOCCommitConflict
         else Inr ())"

definition draft_archive :: "string \<Rightarrow> clock_value \<Rightarrow> draft_snapshot draft_act" where
  "draft_archive poc clock = (\<lambda>s. if \<not> poc_id_ok poc then (s, Inl DraftValueError)
     else case map_of (ds_records s) poc of None \<Rightarrow> (s, Inl DraftPOCNotFound)
       | Some current \<Rightarrow>
         if dp_archive_state current = DRAFT_ARCHIVED then (s, Inr current)
         else (case clock of
           ClockRaises \<Rightarrow> (s, Inl DraftCallbackError)
         | ClockOther \<Rightarrow> (s, Inl DraftValidationError)
         | ClockAt now \<Rightarrow> (case make_draft (current\<lparr>dp_updated_at := now, dp_archive_state := DRAFT_ARCHIVED,
               dp_archived_at := Some now\<rparr>) of
             None \<Rightarrow> (s, Inl DraftValidationError)
           | Some d \<Rightarrow> (s\<lparr>ds_records := AList.update poc d (ds_records s)\<rparr>, Inr d))))"

text \<open>
  \<open>get\<close> as the port other services are given: what their injected lookup of a draft yields.
\<close>

datatype lookup_answer = LookupRaises | LookupOther | LookupDraft draft_snapshot

definition draft_lookup :: "string \<Rightarrow> draft_service \<Rightarrow> lookup_answer" where
  "draft_lookup poc s = (case draft_get poc s of Inl e \<Rightarrow> LookupRaises | Inr d \<Rightarrow> LookupDraft d)"

fun archived_answer :: "lookup_answer \<Rightarrow> bool" where
  "archived_answer (LookupDraft d) = (dp_archive_state d = DRAFT_ARCHIVED)"
| "archived_answer _ = False"

end
