(* ===== verification/Poc_Sources.thy ===== *)
theory Poc_Sources
  imports Draft_Pocs Regex
begin

section \<open>Sources attached to draft POCs (poc_sources.py)\<close>

text \<open>
  \<open>source_service\<close> is the state of \<open>ProcessLocalPOCSourceService\<close>: the sources of each POC in
  order, the same by identifier, the latest one of each external identity, and the idempotency
  keys. What the draft lookup, the clock and the identifier factory answer is given to a call.
\<close>

subsection \<open>Text\<close>

text \<open>\<open>^src_[a-z0-9][a-z0-9_-]{2,63}$\<close> and \<open>^cand_[a-z0-9][a-z0-9_-]{2,63}$\<close>\<close>

definition tagged_id_ok :: "string \<Rightarrow> string \<Rightarrow> bool" where
  "tagged_id_ok tag s \<longleftrightarrow> starts_with tag s \<and> (case drop (length tag) s of [] \<Rightarrow> False
     | c # rest \<Rightarrow> lower_alnum c \<and> 2 \<le> length rest \<and> length rest \<le> 63 \<and>
         list_all (\<lambda>d. lower_alnum d \<or> d = CHR ''_'' \<or> d = CHR ''-'') rest)"

abbreviation source_id_ok :: "string \<Rightarrow> bool" where "source_id_ok \<equiv> tagged_id_ok ''src_''"
abbreviation candidate_id_ok :: "string \<Rightarrow> bool" where "candidate_id_ok \<equiv> tagged_id_ok ''cand_''"

text \<open>\<open>^[a-z][a-z0-9._:-]{2,127}$\<close>\<close>

definition external_id_ok :: "string \<Rightarrow> bool" where
  "external_id_ok s \<longleftrightarrow> (case s of [] \<Rightarrow> False
     | c # rest \<Rightarrow> is_lower c \<and> 2 \<le> length rest \<and> length rest \<le> 127 \<and>
         list_all (\<lambda>d. lower_alnum d \<or> one_of ''._:-'' d) rest)"

text \<open>\<open>^[a-z][a-z0-9_.-]{1,63}$\<close> and \<open>^[A-Za-z0-9][A-Za-z0-9_.+-]{0,63}$\<close>\<close>

definition adapter_name_ok :: "string \<Rightarrow> bool" where
  "adapter_name_ok s \<longleftrightarrow> (case s of [] \<Rightarrow> False
     | c # rest \<Rightarrow> is_lower c \<and> 1 \<le> length rest \<and> length rest \<le> 63 \<and>
         list_all (\<lambda>d. lower_alnum d \<or> one_of ''_.-'' d) rest)"

definition version_ok :: "string \<Rightarrow> bool" where
  "version_ok s \<longleftrightarrow> (case s of [] \<Rightarrow> False
     | c # rest \<Rightarrow> alnum c \<and> length rest \<le> 63 \<and> list_all (\<lambda>d. alnum d \<or> one_of ''_.+-'' d) rest)"

text \<open>CR LF and CR become LF.\<close>

fun unify_newlines :: "string \<Rightarrow> string" where
  "unify_newlines [] = []"
| "unify_newlines (c # s) = (if c = CHR 13 then CHR 10 # (case s of [] \<Rightarrow> []
     | d # s' \<Rightarrow> if d = CHR 10 then unify_newlines s' else unify_newlines s) else c # unify_newlines s)"

text \<open>General category C below code point 256: the controls and the soft hyphen.\<close>

definition control_char :: "char \<Rightarrow> bool" where
  "control_char c \<longleftrightarrow> (let n = (of_char c :: nat) in n < 32 \<or> 127 \<le> n \<and> n < 160 \<or> n = 173)"

lemma control_char_bits [code]: "control_char (Char b0 b1 b2 b3 b4 b5 b6 b7) =
     (if b6 then if b7 then False else if b5 then if b4 then if b3 then if b2 then if b1 then b0 else False else False else False else False else False
      else if b5 then if b7 then if b4 then False else if b3 then if b2 then if b1 then False else b0 else False else False else False
      else True)"
  by (cases b0; cases b1; cases b2; cases b3; cases b4; cases b5; cases b6; cases b7; simp add: control_char_def)

text \<open>\<open>_normalize_text\<close>; normalisation form C is the identity below code point 256.\<close>

definition source_text :: "bool \<Rightarrow> nat \<Rightarrow> string \<Rightarrow> string option" where
  "source_text strip maximum t = (let n = (if strip then py_strip (unify_newlines t) else unify_newlines t) in
     if n = [] then None else if maximum < length n then None
     else if list_ex (\<lambda>c. c \<noteq> CHR 10 \<and> control_char c) n then None else Some n)"

fun contains_text :: "string \<Rightarrow> string \<Rightarrow> bool" where
  "contains_text p [] = (p = [])"
| "contains_text p (c # s) = (starts_with p (c # s) \<or> contains_text p s)"

subsection \<open>The redaction guard\<close>

definition space_class :: rx where "space_class = Cls py_space"

definition raw_email :: rx where
  "raw_email = cats [not_behind (\<lambda>c. alnum c \<or> one_of ''._%+-'' c),
     Rep 1 None (Cls (\<lambda>c. alnum c \<or> one_of ''._%+-'' c)), lit (CHR ''@''),
     Rep 1 None (Cls (\<lambda>c. alnum c \<or> one_of ''.-'' c)), lit (CHR ''.''),
     Rep 2 None (Cls (\<lambda>c. is_upper c \<or> is_lower c)), not_ahead (\<lambda>c. alnum c \<or> one_of ''.-'' c)]"

definition secret_assignment :: rx where
  "secret_assignment = (let sep = Opt (Cls (one_of ''_-'')) in cats [boundary,
     alts [cats [text_i ''api'', sep, text_i ''key''], cats [text_i ''access'', sep, text_i ''token''],
       cats [text_i ''auth'', sep, text_i ''token''], cats [text_i ''client'', sep, text_i ''secret''],
       text_i ''password'', text_i ''passwd'', text_i ''secret''],
     boundary, Rep 0 None space_class, Cls (one_of '':=''), Rep 0 None space_class,
     Assert (\<lambda>p s. \<not> starts_with (map lower_char ''[SECRET]'') (map lower_char s)),
     Rep 1 None (Cls (\<lambda>c. \<not> py_space c))])"

definition raw_bearer :: rx where
  "raw_bearer = cats [boundary, text_i ''bearer'', Rep 1 None space_class,
     Assert (\<lambda>p s. \<not> starts_with (map lower_char ''[SECRET]'') (map lower_char s)),
     Rep 8 None (Cls (\<lambda>c. alnum c \<or> one_of ''._~+/=-'' c))]"

definition token_prefix :: rx where
  "token_prefix = cats [not_behind alnum, alts [cats (map lit ''sk''), cats (map lit ''fw'')], lit (CHR ''_''),
     Rep 10 None (Cls (\<lambda>c. alnum c \<or> one_of ''_-'' c)), not_ahead alnum]"

definition phone_candidate :: pattern where
  "phone_candidate = \<lparr>pt_before = not_behind alnum,
     pt_group = cats [Opt (lit (CHR ''+'')), Cls is_digit, Rep 6 None (Cls (\<lambda>c. is_digit c \<or> one_of '' ()-'' c)), Cls is_digit],
     pt_after = not_ahead alnum\<rparr>"

definition contains_raw_phone :: "string \<Rightarrow> bool" where
  "contains_raw_phone t \<longleftrightarrow> list_ex (\<lambda>(a, b). let n = length (filter is_digit (drop a (take b t))) in 8 \<le> n \<and> n \<le> 15)
     (find_spans phone_candidate t)"

definition redacted_text_ok :: "string \<Rightarrow> bool" where
  "redacted_text_ok t \<longleftrightarrow> \<not> occurs raw_email t \<and>
     \<not> (occurs secret_assignment t \<or> occurs raw_bearer t \<or> occurs token_prefix t) \<and> \<not> contains_raw_phone t"

subsection \<open>Prepared sources\<close>

datatype source_kind = SOURCE_EMAIL | SOURCE_MEETING | SOURCE_DOCUMENT | SOURCE_EXISTING_CONTRACT

fun source_kind_value :: "source_kind \<Rightarrow> string" where
  "source_kind_value SOURCE_EMAIL = ''EMAIL''"
| "source_kind_value SOURCE_MEETING = ''MEETING''"
| "source_kind_value SOURCE_DOCUMENT = ''DOCUMENT''"
| "source_kind_value SOURCE_EXISTING_CONTRACT = ''EXISTING_CONTRACT''"

datatype candidate_state = NEEDS_REVIEW

datatype attach_disposition = CREATED | IDEMPOTENT_REPLAY | IDENTITY_REPLAY

record prepared_candidate =
  pc_candidate_id :: string
  pc_source_quote :: string
  pc_normalized_claim :: string
  pc_state :: candidate_state

definition make_prepared_candidate :: "string \<Rightarrow> string \<Rightarrow> string \<Rightarrow> prepared_candidate option" where
  "make_prepared_candidate cid quote claim = (if \<not> candidate_id_ok cid then None
     else case source_text True 4000 quote of None \<Rightarrow> None | Some q \<Rightarrow>
       (case source_text True 2000 claim of None \<Rightarrow> None | Some c \<Rightarrow>
         Some \<lparr>pc_candidate_id = cid, pc_source_quote = q, pc_normalized_claim = c, pc_state = NEEDS_REVIEW\<rparr>))"

record prepared_source =
  pr_kind :: source_kind
  pr_external_id :: string
  pr_redacted_text :: string
  pr_content_sha256 :: string
  pr_candidates :: "prepared_candidate list"
  pr_adapter_name :: string
  pr_adapter_version :: string
  pr_redaction_policy_version :: string
  pr_observed_at :: py_datetime
  pr_revises_source_id :: "string option"

definition content_sha256 :: "hasher \<Rightarrow> string \<Rightarrow> string" where
  "content_sha256 h t = text_sha h [] t"

definition prepared_fields_ok :: "prepared_source \<Rightarrow> bool" where
  "prepared_fields_ok p \<longleftrightarrow> external_id_ok (pr_external_id p) \<and> redacted_text_ok (pr_redacted_text p) \<and>
     is_sha256 (pr_content_sha256 p) \<and> length (pr_candidates p) \<le> 64 \<and> adapter_name_ok (pr_adapter_name p) \<and>
     version_ok (pr_adapter_version p) \<and> version_ok (pr_redaction_policy_version p) \<and> dt_aware (pr_observed_at p) \<and>
     (case pr_revises_source_id p of None \<Rightarrow> True | Some i \<Rightarrow> source_id_ok i)"

definition prepared_bindings_ok :: "hasher \<Rightarrow> prepared_source \<Rightarrow> bool" where
  "prepared_bindings_ok h p \<longleftrightarrow> pr_content_sha256 p = content_sha256 h (pr_redacted_text p) \<and>
     distinct (map pc_candidate_id (pr_candidates p)) \<and>
     list_all (\<lambda>c. contains_text (pc_source_quote c) (pr_redacted_text p) \<and> redacted_text_ok (pc_source_quote c) \<and>
       redacted_text_ok (pc_normalized_claim c)) (pr_candidates p)"

text \<open>The model: it trims the identity and the provenance, normalises the text, then checks.\<close>

definition make_prepared_source :: "hasher \<Rightarrow> prepared_source \<Rightarrow> prepared_source option" where
  "make_prepared_source h p = (case source_text False 64000 (pr_redacted_text p) of None \<Rightarrow> None | Some t \<Rightarrow>
     (let p = p\<lparr>pr_external_id := py_strip (pr_external_id p), pr_redacted_text := t,
        pr_adapter_name := py_strip (pr_adapter_name p), pr_adapter_version := py_strip (pr_adapter_version p),
        pr_redaction_policy_version := py_strip (pr_redaction_policy_version p)\<rparr>
      in if prepared_fields_ok p \<and> prepared_bindings_ok h p then Some p else None))"

subsection \<open>Attached sources\<close>

record attached_candidate =
  ac_candidate_id :: string
  ac_poc_id :: string
  ac_source_id :: string
  ac_source_sequence :: nat
  ac_source_quote :: string
  ac_normalized_claim :: string
  ac_state :: candidate_state

definition attached_candidate_ok :: "attached_candidate \<Rightarrow> bool" where
  "attached_candidate_ok c \<longleftrightarrow> candidate_id_ok (ac_candidate_id c) \<and> poc_id_ok (ac_poc_id c) \<and>
     source_id_ok (ac_source_id c) \<and> 1 \<le> ac_source_sequence c \<and>
     source_text True 4000 (ac_source_quote c) = Some (ac_source_quote c) \<and>
     source_text True 2000 (ac_normalized_claim c) = Some (ac_normalized_claim c) \<and>
     redacted_text_ok (ac_source_quote c) \<and> redacted_text_ok (ac_normalized_claim c)"

record source_snapshot =
  ss_poc_id :: string
  ss_source_id :: string
  ss_source_sequence :: nat
  ss_source_revision :: nat
  ss_kind :: source_kind
  ss_external_id :: string
  ss_redacted_text :: string
  ss_content_sha256 :: string
  ss_candidates :: "attached_candidate list"
  ss_adapter_name :: string
  ss_adapter_version :: string
  ss_redaction_policy_version :: string
  ss_observed_at :: py_datetime
  ss_attached_at :: py_datetime
  ss_revises_source_id :: "string option"

definition source_fields_ok :: "source_snapshot \<Rightarrow> bool" where
  "source_fields_ok x \<longleftrightarrow> poc_id_ok (ss_poc_id x) \<and> source_id_ok (ss_source_id x) \<and> 1 \<le> ss_source_sequence x \<and>
     1 \<le> ss_source_revision x \<and> external_id_ok (ss_external_id x) \<and>
     source_text False 64000 (ss_redacted_text x) = Some (ss_redacted_text x) \<and> redacted_text_ok (ss_redacted_text x) \<and>
     is_sha256 (ss_content_sha256 x) \<and> length (ss_candidates x) \<le> 64 \<and> adapter_name_ok (ss_adapter_name x) \<and>
     version_ok (ss_adapter_version x) \<and> version_ok (ss_redaction_policy_version x) \<and>
     dt_aware (ss_observed_at x) \<and> dt_aware (ss_attached_at x) \<and>
     (case ss_revises_source_id x of None \<Rightarrow> True | Some i \<Rightarrow> source_id_ok i)"

definition source_bindings_ok :: "hasher \<Rightarrow> source_snapshot \<Rightarrow> bool" where
  "source_bindings_ok h x \<longleftrightarrow> ss_content_sha256 x = content_sha256 h (ss_redacted_text x) \<and>
     (ss_source_revision x = 1 \<longrightarrow> ss_revises_source_id x = None) \<and>
     (1 < ss_source_revision x \<longrightarrow> ss_revises_source_id x \<noteq> None) \<and>
     distinct (map ac_candidate_id (ss_candidates x)) \<and>
     list_all (\<lambda>c. ac_poc_id c = ss_poc_id x \<and> ac_source_id c = ss_source_id x \<and>
       ac_source_sequence c = ss_source_sequence x \<and> contains_text (ac_source_quote c) (ss_redacted_text x)) (ss_candidates x)"

definition source_ok :: "hasher \<Rightarrow> source_snapshot \<Rightarrow> bool" where
  "source_ok h x \<longleftrightarrow> list_all attached_candidate_ok (ss_candidates x) \<and> source_fields_ok x \<and> source_bindings_ok h x"

record attachment_result =
  at_source :: source_snapshot
  at_disposition :: attach_disposition

record source_key_record =
  sk_poc_id :: string
  sk_request_sha256 :: string
  sk_source_id :: string

datatype source_error = SourceValueError | POCSourceDraftUnavailable | POCSourceDraftArchived
  | POCSourceIdempotencyConflict | POCSourceRevisionRequired | POCSourceStaleRevision | POCSourceCapacityExceeded
  | POCSourceNotFound | DuplicatePOCSourceId | SourceValidationError | SourceCallbackError | SourceKeyError

subsection \<open>Digests\<close>

definition source_key_digest :: "hasher \<Rightarrow> string \<Rightarrow> string" where
  "source_key_digest h k = text_sha h (''exitspec-poc-source-idempotency-key-v1'' @ [CHR 0x00]) k"

definition prepared_candidate_json :: "prepared_candidate \<Rightarrow> json" where
  "prepared_candidate_json c = JObj [(''candidate_id'', JStr (pc_candidate_id c)),
     (''source_quote'', JStr (pc_source_quote c)), (''normalized_claim'', JStr (pc_normalized_claim c)),
     (''state'', JStr ''NEEDS_REVIEW'')]"

definition datetime_json :: "py_datetime \<Rightarrow> json" where
  "datetime_json d = (case d of Naive t \<Rightarrow> JArr [JInt t] | Aware t off \<Rightarrow> JArr [JInt t, JInt off])"

definition prepared_source_json :: "prepared_source \<Rightarrow> json" where
  "prepared_source_json p = JObj [
     (''kind'', JStr (source_kind_value (pr_kind p))), (''external_id'', JStr (pr_external_id p)),
     (''redacted_text'', JStr (pr_redacted_text p)), (''content_sha256'', JStr (pr_content_sha256 p)),
     (''candidates'', JArr (map prepared_candidate_json (pr_candidates p))),
     (''adapter_name'', JStr (pr_adapter_name p)), (''adapter_version'', JStr (pr_adapter_version p)),
     (''redaction_policy_version'', JStr (pr_redaction_policy_version p)),
     (''observed_at'', datetime_json (pr_observed_at p)),
     (''revises_source_id'', json_opt JStr (pr_revises_source_id p))]"

definition attach_request_digest :: "hasher \<Rightarrow> string \<Rightarrow> prepared_source \<Rightarrow> string" where
  "attach_request_digest h poc p = json_sha h (''exitspec-poc-source-attach-request-v1'' @ [CHR 0x00])
     (JObj [(''poc_id'', JStr poc), (''prepared_source'', prepared_source_json p)])"

subsection \<open>The service\<close>

type_synonym source_identity = "string \<times> source_kind \<times> string"

record source_service =
  so_max_pocs :: nat
  so_max_sources_per_poc :: nat
  so_max_candidates_per_source :: nat
  so_max_idempotency_records :: nat
  so_sources_by_poc :: "(string \<times> source_snapshot list) list"
  so_by_id :: "((string \<times> string) \<times> source_snapshot) list"
  so_identity_latest :: "(source_identity \<times> source_snapshot) list"
  so_idempotency :: "(string \<times> source_key_record) list"

type_synonym 'a source_act = "(source_service, source_error, 'a) action"

definition source_service_new :: "nat \<Rightarrow> nat \<Rightarrow> nat \<Rightarrow> nat \<Rightarrow> source_error + source_service" where
  "source_service_new pocs per_poc cands keys = (
     if \<not> (1 \<le> pocs \<and> pocs \<le> 10000) then Inl SourceValueError
     else if \<not> (1 \<le> per_poc \<and> per_poc \<le> 1024) then Inl SourceValueError
     else if \<not> (1 \<le> cands \<and> cands \<le> 64) then Inl SourceValueError
     else if \<not> (1 \<le> keys \<and> keys \<le> 100000) then Inl SourceValueError
     else Inr \<lparr>so_max_pocs = pocs, so_max_sources_per_poc = per_poc, so_max_candidates_per_source = cands,
       so_max_idempotency_records = keys, so_sources_by_poc = [], so_by_id = [], so_identity_latest = [],
       so_idempotency = []\<rparr>)"

record source_env =
  se_clock :: clock_value
  se_source_id :: factory_answer

definition require_active_draft :: "string \<Rightarrow> lookup_answer \<Rightarrow> source_error option" where
  "require_active_draft poc answer = (case answer of
     LookupRaises \<Rightarrow> Some POCSourceDraftUnavailable
   | LookupOther \<Rightarrow> Some POCSourceDraftUnavailable
   | LookupDraft d \<Rightarrow> if dp_poc_id d \<noteq> poc then Some POCSourceDraftUnavailable
       else if dp_archive_state d \<noteq> DRAFT_ACTIVE then Some POCSourceDraftArchived else None)"

definition sources_of :: "source_service \<Rightarrow> string \<Rightarrow> source_snapshot list" where
  "sources_of s poc = (case map_of (so_sources_by_poc s) poc of None \<Rightarrow> [] | Some xs \<Rightarrow> xs)"

definition write_capacity_error :: "source_service \<Rightarrow> string \<Rightarrow> nat \<Rightarrow> source_error option" where
  "write_capacity_error s poc n = first_error [
     (map_of (so_sources_by_poc s) poc = None \<and> so_max_pocs s \<le> length (so_sources_by_poc s), POCSourceCapacityExceeded),
     (so_max_sources_per_poc s \<le> length (sources_of s poc), POCSourceCapacityExceeded),
     (so_max_candidates_per_source s < n, POCSourceCapacityExceeded),
     (so_max_idempotency_records s \<le> length (so_idempotency s), POCSourceCapacityExceeded)]"

text \<open>The revision rule: the number of the new revision, or the refusal.\<close>

definition next_revision :: "source_snapshot option \<Rightarrow> string option \<Rightarrow> source_error + nat" where
  "next_revision latest revises = (case latest of
     None \<Rightarrow> if revises \<noteq> None then Inl POCSourceStaleRevision else Inr 1
   | Some x \<Rightarrow> (case revises of None \<Rightarrow> Inl POCSourceRevisionRequired
       | Some i \<Rightarrow> if i \<noteq> ss_source_id x then Inl POCSourceStaleRevision else Inr (ss_source_revision x + 1)))"

definition bind_candidate :: "string \<Rightarrow> string \<Rightarrow> nat \<Rightarrow> prepared_candidate \<Rightarrow> attached_candidate" where
  "bind_candidate poc sid n c = \<lparr>ac_candidate_id = pc_candidate_id c, ac_poc_id = poc, ac_source_id = sid,
     ac_source_sequence = n, ac_source_quote = pc_source_quote c, ac_normalized_claim = pc_normalized_claim c,
     ac_state = NEEDS_REVIEW\<rparr>"

definition source_of_prepared :: "string \<Rightarrow> prepared_source \<Rightarrow> string \<Rightarrow> nat \<Rightarrow> nat \<Rightarrow> py_datetime \<Rightarrow> source_snapshot" where
  "source_of_prepared poc p sid n revision now = \<lparr>ss_poc_id = poc, ss_source_id = sid, ss_source_sequence = n,
     ss_source_revision = revision, ss_kind = pr_kind p, ss_external_id = pr_external_id p,
     ss_redacted_text = pr_redacted_text p, ss_content_sha256 = pr_content_sha256 p,
     ss_candidates = map (bind_candidate poc sid n) (pr_candidates p), ss_adapter_name = pr_adapter_name p,
     ss_adapter_version = pr_adapter_version p, ss_redaction_policy_version = pr_redaction_policy_version p,
     ss_observed_at = pr_observed_at p, ss_attached_at = now, ss_revises_source_id = pr_revises_source_id p\<rparr>"

text \<open>
  The new source: revision rule, identifier, clock, validation. The texts of an attached source
  were normalised when it was prepared, which the validators of the attached models do again.
\<close>

definition new_source :: "hasher \<Rightarrow> string \<Rightarrow> prepared_source \<Rightarrow> source_env \<Rightarrow> source_service \<Rightarrow> source_error + source_snapshot" where
  "new_source h poc p env s = (case next_revision (map_of (so_identity_latest s) (poc, pr_kind p, pr_external_id p))
       (pr_revises_source_id p) of
     Inl e \<Rightarrow> Inl e
   | Inr revision \<Rightarrow> (case se_source_id env of
       FactoryRaises \<Rightarrow> Inl SourceCallbackError
     | FactoryOther \<Rightarrow> Inl SourceValueError
     | FactoryGives sid \<Rightarrow>
         if \<not> source_id_ok sid then Inl SourceValueError
         else if list_ex (\<lambda>(k, x). snd k = sid) (so_by_id s) then Inl DuplicatePOCSourceId
         else (case se_clock env of
           ClockRaises \<Rightarrow> Inl SourceCallbackError
         | ClockOther \<Rightarrow> Inl SourceValidationError
         | ClockAt now \<Rightarrow> (let x = source_of_prepared poc p sid (length (sources_of s poc) + 1) revision now in
             if source_ok h x then Inr x else Inl SourceValidationError))))"

definition store_source :: "source_service \<Rightarrow> string \<Rightarrow> source_snapshot \<Rightarrow> string \<Rightarrow> source_key_record \<Rightarrow> source_service" where
  "store_source s poc x kd e = s\<lparr>so_sources_by_poc := AList.update poc (sources_of s poc @ [x]) (so_sources_by_poc s),
     so_by_id := AList.update (poc, ss_source_id x) x (so_by_id s),
     so_identity_latest := AList.update (poc, ss_kind x, ss_external_id x) x (so_identity_latest s),
     so_idempotency := AList.update kd e (so_idempotency s)\<rparr>"

text \<open>The part of \<open>attach\<close> that writes: capacity, the new source, and the four new dicts.\<close>

definition source_write :: "hasher \<Rightarrow> string \<Rightarrow> prepared_source \<Rightarrow> string \<Rightarrow> source_env \<Rightarrow> attachment_result source_act" where
  "source_write h poc p key env = (\<lambda>s. case write_capacity_error s poc (length (pr_candidates p)) of
     Some e \<Rightarrow> (s, Inl e)
   | None \<Rightarrow> (case new_source h poc p env s of Inl e \<Rightarrow> (s, Inl e)
     | Inr x \<Rightarrow> (store_source s poc x (source_key_digest h key) \<lparr>sk_poc_id = poc,
           sk_request_sha256 = attach_request_digest h poc p, sk_source_id = ss_source_id x\<rparr>,
         Inr \<lparr>at_source = x, at_disposition = CREATED\<rparr>)))"

definition source_attach :: "hasher \<Rightarrow> string \<Rightarrow> prepared_source \<Rightarrow> string \<Rightarrow> lookup_answer \<Rightarrow> source_env \<Rightarrow> attachment_result source_act" where
  "source_attach h poc p key answer env = (\<lambda>s.
     if \<not> poc_id_ok poc then (s, Inl SourceValueError)
     else if \<not> draft_key_ok key then (s, Inl SourceValueError)
     else (case require_active_draft poc answer of Some e \<Rightarrow> (s, Inl e)
     | None \<Rightarrow> (case map_of (so_idempotency s) (source_key_digest h key) of
       Some prior \<Rightarrow>
         if sk_poc_id prior \<noteq> poc \<or> sk_request_sha256 prior \<noteq> attach_request_digest h poc p
         then (s, Inl POCSourceIdempotencyConflict)
         else (case map_of (so_by_id s) (sk_poc_id prior, sk_source_id prior) of None \<Rightarrow> (s, Inl SourceKeyError)
           | Some x \<Rightarrow> (s, Inr \<lparr>at_source = x, at_disposition = IDEMPOTENT_REPLAY\<rparr>))
     | None \<Rightarrow> (case map_of (so_identity_latest s) (poc, pr_kind p, pr_external_id p) of
         Some latest \<Rightarrow> if ss_content_sha256 latest = pr_content_sha256 p
           then (if so_max_idempotency_records s \<le> length (so_idempotency s) then (s, Inl POCSourceCapacityExceeded)
             else (s\<lparr>so_idempotency := AList.update (source_key_digest h key) \<lparr>sk_poc_id = poc,
                 sk_request_sha256 = attach_request_digest h poc p, sk_source_id = ss_source_id latest\<rparr> (so_idempotency s)\<rparr>,
               Inr \<lparr>at_source = latest, at_disposition = IDENTITY_REPLAY\<rparr>))
           else source_write h poc p key env s
       | None \<Rightarrow> source_write h poc p key env s))))"

subsection \<open>Reading\<close>

definition source_count :: "source_service \<Rightarrow> nat" where
  "source_count s = sum_list (map (\<lambda>(p, xs). length xs) (so_sources_by_poc s))"

definition source_poc_ids :: "source_service \<Rightarrow> string list" where
  "source_poc_ids s = sort (map fst (so_sources_by_poc s))"

definition source_ids :: "string \<Rightarrow> source_service \<Rightarrow> source_error + string list" where
  "source_ids poc s = (if \<not> poc_id_ok poc then Inl SourceValueError else Inr (map ss_source_id (sources_of s poc)))"

definition source_snapshots :: "string \<Rightarrow> source_service \<Rightarrow> source_error + source_snapshot list" where
  "source_snapshots poc s = (if \<not> poc_id_ok poc then Inl SourceValueError else Inr (sources_of s poc))"

definition source_get :: "string \<Rightarrow> string \<Rightarrow> source_service \<Rightarrow> source_error + source_snapshot" where
  "source_get poc sid s = (if \<not> poc_id_ok poc then Inl SourceValueError else if \<not> source_id_ok sid then Inl SourceValueError
     else case map_of (so_by_id s) (poc, sid) of None \<Rightarrow> Inl POCSourceNotFound | Some x \<Rightarrow> Inr x)"

definition latest_for_identity :: "string \<Rightarrow> source_kind \<Rightarrow> string \<Rightarrow> source_service \<Rightarrow> source_error + source_snapshot" where
  "latest_for_identity poc kind ext s = (if \<not> poc_id_ok poc then Inl SourceValueError
     else if \<not> external_id_ok ext then Inl SourceValueError
     else case map_of (so_identity_latest s) (poc, kind, ext) of None \<Rightarrow> Inl POCSourceNotFound | Some x \<Rightarrow> Inr x)"

text \<open>What entering the two guards does. Two snapshots are compared with datetimes by their instant.\<close>

definition source_eq :: "source_snapshot \<Rightarrow> source_snapshot \<Rightarrow> bool" where
  "source_eq a b \<longleftrightarrow> dt_eq (ss_observed_at a) (ss_observed_at b) \<and> dt_eq (ss_attached_at a) (ss_attached_at b) \<and>
     a\<lparr>ss_observed_at := ss_observed_at b, ss_attached_at := ss_attached_at b\<rparr> = b"

definition source_commit_guard :: "string \<Rightarrow> string \<Rightarrow> source_snapshot \<Rightarrow> lookup_answer \<Rightarrow> source_service \<Rightarrow> source_error + unit" where
  "source_commit_guard poc sid expected answer s = (if \<not> poc_id_ok poc then Inl SourceValueError
     else if \<not> source_id_ok sid then Inl SourceValueError
     else if ss_poc_id expected \<noteq> poc \<or> ss_source_id expected \<noteq> sid then Inl POCSourceStaleRevision
     else case require_active_draft poc answer of Some e \<Rightarrow> Inl e
     | None \<Rightarrow> (case map_of (so_by_id s) (poc, sid) of None \<Rightarrow> Inl POCSourceNotFound
       | Some current \<Rightarrow> (case map_of (so_identity_latest s) (poc, ss_kind current, ss_external_id current) of
           None \<Rightarrow> Inl POCSourceStaleRevision
         | Some latest \<Rightarrow> if \<not> source_eq current expected \<or> ss_source_id latest \<noteq> ss_source_id current
             then Inl POCSourceStaleRevision else Inr ())))"

definition source_attachment_guard :: "string \<Rightarrow> lookup_answer \<Rightarrow> source_error + unit" where
  "source_attachment_guard poc answer = (if \<not> poc_id_ok poc then Inl SourceValueError
     else case require_active_draft poc answer of Some e \<Rightarrow> Inl e | None \<Rightarrow> Inr ())"

end
