(* ===== verification/Draft_Pocs_Laws.thy ===== *)
theory Draft_Pocs_Laws
  imports Draft_Pocs
begin

section \<open>Laws of draft creation\<close>

text \<open>
  The registry of drafts as a machine: its invariant, what an operation can change of a stored
  draft, and the interpretation of the replay contract. The remembered answer is the current
  snapshot of the draft, so only the contract without a stable answer applies.
\<close>

datatype draft_op = CreateDraft string draft_request draft_env | ArchiveDraft string clock_value

fun draft_step :: "hasher \<Rightarrow> draft_op \<Rightarrow> draft_service \<Rightarrow> draft_service" where
  "draft_step h (CreateDraft key q env) s = fst (draft_create h q key env s)"
| "draft_step h (ArchiveDraft poc clock) s = fst (draft_archive poc clock s)"

definition draft_inv :: "draft_service \<Rightarrow> bool" where
  "draft_inv s \<longleftrightarrow> length (ds_records s) \<le> ds_max_drafts s \<and> distinct (map fst (ds_records s)) \<and>
     (\<forall>p d. map_of (ds_records s) p = Some d \<longrightarrow> dp_poc_id d = p \<and> make_draft d = Some d) \<and>
     (\<forall>k e. map_of (ds_idempotency s) k = Some e \<longrightarrow> map_of (ds_records s) (dk_poc_id e) \<noteq> None)"

text \<open>What identifies a draft, and never changes after its creation.\<close>

definition draft_identity :: "draft_snapshot \<Rightarrow> draft_snapshot" where
  "draft_identity d = d\<lparr>dp_updated_at := dp_created_at d, dp_archive_state := DRAFT_ACTIVE, dp_archived_at := None\<rparr>"

definition draft_follows :: "draft_snapshot \<Rightarrow> draft_snapshot \<Rightarrow> bool" where
  "draft_follows d d' \<longleftrightarrow> draft_identity d' = draft_identity d \<and> (dp_archive_state d = DRAFT_ARCHIVED \<longrightarrow> d' = d)"

lemma draft_follows_refl [simp]: "draft_follows d d"
  by (simp add: draft_follows_def)

lemma draft_follows_trans: "draft_follows a b \<Longrightarrow> draft_follows b c \<Longrightarrow> draft_follows a c"
  by (auto simp: draft_follows_def)

lemma normalize_draft_idem [simp]: "normalize_draft (normalize_draft d) = normalize_draft d"
  by (simp add: normalize_draft_def)

lemma make_draft_Some: "make_draft d = Some d' \<Longrightarrow> d' = normalize_draft d \<and> draft_ok d' \<and> make_draft d' = Some d'"
  by (auto simp: make_draft_def split: if_splits)

lemma normalize_draft_fields [simp]:
  "dp_poc_id (normalize_draft d) = dp_poc_id d" "dp_archive_state (normalize_draft d) = dp_archive_state d"
  "dp_created_at (normalize_draft d) = dp_created_at d" "dp_archived_at (normalize_draft d) = dp_archived_at d"
  "dp_updated_at (normalize_draft d) = dp_updated_at d"
  by (simp_all add: normalize_draft_def)

lemma stored_normal: "make_draft d = Some d \<Longrightarrow> normalize_draft d = d"
  using make_draft_Some by metis

text \<open>What one creation does: refuse, answer from memory, or store one new draft.\<close>

lemma draft_create_cases:
  fixes h :: hasher and key :: string and q :: draft_request and env :: draft_env and s :: draft_service
  obtains (refused) e where "draft_create h q key env s = (s, Inl e)"
    | (replayed) prior d where "draft_key_ok key" "map_of (ds_idempotency s) (draft_key_digest h key) = Some prior"
        "dk_request_sha256 prior = draft_request_digest h q" "map_of (ds_records s) (dk_poc_id prior) = Some d"
        "draft_create h q key env s = (s, Inr \<lparr>dr_draft = d, dr_idempotent_replay = True\<rparr>)"
    | (created) poc now d where "draft_key_ok key" "map_of (ds_idempotency s) (draft_key_digest h key) = None"
        "length (ds_records s) < ds_max_drafts s" "draft_new_id q env = Inr poc" "map_of (ds_records s) poc = None"
        "de_clock env = ClockAt now" "make_draft (draft_of_request q poc now) = Some d"
        "draft_create h q key env s = (s\<lparr>ds_records := AList.update poc d (ds_records s),
           ds_idempotency := AList.update (draft_key_digest h key)
             \<lparr>dk_request_sha256 = draft_request_digest h q, dk_poc_id = poc\<rparr> (ds_idempotency s)\<rparr>,
           Inr \<lparr>dr_draft = d, dr_idempotent_replay = False\<rparr>)"
proof (cases "snd (draft_create h q key env s)")
  case (Inl e)
  then have "draft_create h q key env s = (s, Inl e)"
    by (auto simp: draft_create_def split: if_splits option.splits sum.splits clock_value.splits)
  then show ?thesis by (rule refused)
next
  case (Inr r)
  have key: "draft_key_ok key" using Inr by (auto simp: draft_create_def split: if_splits)
  show ?thesis
  proof (cases "map_of (ds_idempotency s) (draft_key_digest h key)")
    case (Some prior)
    then show ?thesis using Inr key
      by (intro replayed [of prior "dr_draft r"]) (auto simp: draft_create_def split: if_splits option.splits)
  next
    case None
    obtain poc where poc: "draft_new_id q env = Inr poc" using Inr key None
      by (cases "draft_new_id q env") (auto simp: draft_create_def split: if_splits)
    obtain now where now: "de_clock env = ClockAt now" using Inr key None poc
      by (cases "de_clock env") (auto simp: draft_create_def split: if_splits)
    obtain d where d: "make_draft (draft_of_request q poc now) = Some d" using Inr key None poc now
      by (cases "make_draft (draft_of_request q poc now)") (auto simp: draft_create_def split: if_splits)
    show ?thesis using Inr key None poc now d
      by (intro created [of poc now d]) (auto simp: draft_create_def split: if_splits)
  qed
qed

lemma draft_archive_cases:
  fixes poc :: string and clock :: clock_value and s :: draft_service
  obtains (same) r where "draft_archive poc clock s = (s, r)"
      "\<And>d. r = Inr d \<Longrightarrow> map_of (ds_records s) poc = Some d \<and> dp_archive_state d = DRAFT_ARCHIVED"
    | (archived) current now d where "map_of (ds_records s) poc = Some current" "dp_archive_state current = DRAFT_ACTIVE"
        "clock = ClockAt now"
        "make_draft (current\<lparr>dp_updated_at := now, dp_archive_state := DRAFT_ARCHIVED, dp_archived_at := Some now\<rparr>) = Some d"
        "draft_archive poc clock s = (s\<lparr>ds_records := AList.update poc d (ds_records s)\<rparr>, Inr d)"
proof (cases "poc_id_ok poc \<and> (\<exists>c. map_of (ds_records s) poc = Some c \<and> dp_archive_state c = DRAFT_ACTIVE)")
  case False
  then show ?thesis
    by (intro same [of "snd (draft_archive poc clock s)"])
       (auto simp: draft_archive_def split: option.splits if_splits clock_value.splits draft_archive_state.splits, (metis draft_archive_state.exhaust)+)
next
  case True
  then obtain c where c: "poc_id_ok poc" "map_of (ds_records s) poc = Some c" "dp_archive_state c = DRAFT_ACTIVE" by blast
  show ?thesis
  proof (cases "\<exists>now d. clock = ClockAt now \<and>
      make_draft (c\<lparr>dp_updated_at := now, dp_archive_state := DRAFT_ARCHIVED, dp_archived_at := Some now\<rparr>) = Some d")
    case True
    then show ?thesis using c archived by (auto simp: draft_archive_def)
  next
    case False
    then show ?thesis using c
      by (intro same [of "snd (draft_archive poc clock s)"])
         (auto simp: draft_archive_def split: clock_value.splits option.splits)
  qed
qed

lemma archived_follows:
  assumes "make_draft c = Some c" and "dp_archive_state c = DRAFT_ACTIVE"
    and "make_draft (c\<lparr>dp_updated_at := now, dp_archive_state := DRAFT_ARCHIVED, dp_archived_at := Some now\<rparr>) = Some d"
  shows "draft_follows c d" and "dp_poc_id d = dp_poc_id c" and "make_draft d = Some d"
proof -
  have d: "d = normalize_draft (c\<lparr>dp_updated_at := now, dp_archive_state := DRAFT_ARCHIVED, dp_archived_at := Some now\<rparr>)"
    using make_draft_Some [OF assms(3)] by blast
  also have "\<dots> = (normalize_draft c)\<lparr>dp_updated_at := now, dp_archive_state := DRAFT_ARCHIVED, dp_archived_at := Some now\<rparr>"
    by (simp add: normalize_draft_def)
  finally have d: "d = c\<lparr>dp_updated_at := now, dp_archive_state := DRAFT_ARCHIVED, dp_archived_at := Some now\<rparr>"
    by (simp add: stored_normal [OF assms(1)])
  then show "draft_follows c d" "dp_poc_id d = dp_poc_id c" using assms(2) by (simp_all add: draft_follows_def draft_identity_def)
  show "make_draft d = Some d" using make_draft_Some [OF assms(3)] by blast
qed

lemma draft_inv_create: "draft_inv s \<Longrightarrow> draft_inv (fst (draft_create h q key env s))"
proof (cases rule: draft_create_cases [of h q key env s])
  case (created poc now d)
  assume inv: "draft_inv s"
  have "d = normalize_draft (draft_of_request q poc now)" and stored: "make_draft d = Some d"
    using make_draft_Some [OF created(7)] by blast+
  then have "dp_poc_id d = poc" by (simp add: draft_of_request_def)
  with stored have d: "dp_poc_id d = poc" "make_draft d = Some d" by blast+
  then show ?thesis using inv created
    by (auto simp: draft_inv_def length_update_new distinct_update)
qed simp_all

lemma draft_inv_archive: "draft_inv s \<Longrightarrow> draft_inv (fst (draft_archive poc clock s))"
proof (cases rule: draft_archive_cases [of poc clock s])
  case (archived c now d)
  assume inv: "draft_inv s"
  then have "dp_poc_id c = poc" "make_draft c = Some c" using archived(1) by (auto simp: draft_inv_def)
  with archived archived_follows [of c now d] have d: "dp_poc_id d = poc" "make_draft d = Some d" by simp_all
  have "poc \<in> fst ` set (ds_records s)" using map_of_SomeD [OF archived(1)] by force
  with inv d archived(5) show ?thesis by (auto simp: draft_inv_def length_update distinct_update)
qed simp

lemma draft_inv_step: "draft_inv s \<Longrightarrow> draft_inv (draft_step h c s)"
  by (cases c) (simp_all add: draft_inv_create draft_inv_archive)

lemma draft_inv_new: "draft_service_new m = Inr s \<Longrightarrow> draft_inv s"
  by (auto simp: draft_service_new_def draft_inv_def split: if_splits)

text \<open>A stored draft stays, with its identity; an archived one stays as it is.\<close>

lemma draft_step_records:
  assumes "draft_inv s" and "map_of (ds_records s) p = Some d"
  shows "\<exists>d'. map_of (ds_records (draft_step h c s)) p = Some d' \<and> draft_follows d d'"
proof (cases c)
  case (CreateDraft key q env)
  then show ?thesis using assms by (cases rule: draft_create_cases [of h q key env s]) auto
next
  case (ArchiveDraft poc clock)
  show ?thesis
  proof (cases rule: draft_archive_cases [of poc clock s])
    case (same r)
    then show ?thesis using ArchiveDraft assms by simp
  next
    case (archived current now d')
    have "make_draft current = Some current" using assms(1) archived(1) by (auto simp: draft_inv_def)
    then have "draft_follows current d'" using archived(2,4) by (rule archived_follows)
    then show ?thesis using ArchiveDraft assms(2) archived by auto
  qed
qed

lemma draft_step_keys:
  assumes "map_of (ds_idempotency s) k = Some e"
  shows "map_of (ds_idempotency (draft_step h c s)) k = Some e"
proof (cases c)
  case (CreateDraft key q env)
  then show ?thesis using assms by (cases rule: draft_create_cases [of h q key env s]) auto
next
  case (ArchiveDraft poc clock)
  then show ?thesis using assms by (cases rule: draft_archive_cases [of poc clock s]) auto
qed

subsection \<open>Interpretation: the replay contract\<close>

definition draft_exec :: "hasher \<Rightarrow> string \<Rightarrow> draft_request \<Rightarrow> draft_env \<Rightarrow> draft_creation_result draft_act" where
  "draft_exec h key q env = draft_create h q key env"

definition draft_seen :: "hasher \<Rightarrow> draft_service \<Rightarrow> string \<Rightarrow> string option" where
  "draft_seen h s k = (if draft_key_ok k
     then map_option dk_request_sha256 (map_of (ds_idempotency s) (draft_key_digest h k)) else None)"

definition draft_replay :: "hasher \<Rightarrow> draft_service \<Rightarrow> string \<Rightarrow> draft_creation_result" where
  "draft_replay h s k = \<lparr>dr_draft = the (map_of (ds_records s)
     (dk_poc_id (the (map_of (ds_idempotency s) (draft_key_digest h k))))), dr_idempotent_replay = True\<rparr>"

lemma draft_seen_Some:
  "draft_seen h s k = Some f \<longleftrightarrow> draft_key_ok k \<and>
    (\<exists>e. map_of (ds_idempotency s) (draft_key_digest h k) = Some e \<and> f = dk_request_sha256 e)"
  by (auto simp: draft_seen_def)

interpretation drafting: replay_service "draft_step h" draft_inv "draft_exec h" "\<lambda>q. True"
  "draft_request_digest h" "draft_seen h" "draft_replay h" DraftIdempotencyConflict for h
proof
  fix s k q env s' r c f
  show "draft_inv s \<Longrightarrow> draft_inv (draft_step h c s)" by (rule draft_inv_step)
  show "draft_inv s \<Longrightarrow> draft_inv (fst (draft_exec h k q env s))" by (simp add: draft_exec_def draft_inv_create)
  show "True" ..
  show "draft_seen h s k = None \<Longrightarrow> draft_exec h k q env s = (s', Inr r) \<Longrightarrow> draft_seen h s' k = Some (draft_request_digest h q)"
    unfolding draft_exec_def by (cases rule: draft_create_cases [of h q k env s]) (auto simp: draft_seen_def)
  show "draft_inv s \<Longrightarrow> draft_seen h s k = Some (draft_request_digest h q) \<Longrightarrow>
      draft_exec h k q env s = (s, Inr (draft_replay h s k))"
    unfolding draft_seen_Some draft_exec_def by (fastforce simp: draft_inv_def draft_create_def draft_replay_def)
  show "draft_seen h s k = Some f \<Longrightarrow> f \<noteq> draft_request_digest h q \<Longrightarrow>
      draft_exec h k q env s = (s, Inl DraftIdempotencyConflict)"
    unfolding draft_seen_Some by (auto simp: draft_exec_def draft_create_def)
  show "draft_seen h s k = Some f \<Longrightarrow> draft_seen h (draft_step h c s) k = Some f"
    unfolding draft_seen_Some using draft_step_keys by blast
qed

lemma draft_reached: "draft_service_new m = Inr s0 \<Longrightarrow> draft_inv (fold (draft_step h) ops s0)"
  by (rule drafting.inv_run [OF draft_inv_new])

lemma draft_run_records:
  assumes "draft_inv s" and "map_of (ds_records s) p = Some d"
  shows "\<exists>d'. map_of (ds_records (fold (draft_step h) ops s)) p = Some d' \<and> draft_follows d d'"
proof (rule drafting.run_keeps [where P = "\<lambda>t. \<exists>d'. map_of (ds_records t) p = Some d' \<and> draft_follows d d'"])
  show "\<exists>d'. map_of (ds_records (draft_step h c t)) p = Some d' \<and> draft_follows d d'"
    if "draft_inv t" "\<exists>d'. map_of (ds_records t) p = Some d' \<and> draft_follows d d'" for t c
    using that draft_step_records draft_follows_trans by metis
qed (use assms in auto)

lemma draft_run_keys:
  assumes "draft_inv s" and "map_of (ds_idempotency s) k = Some e"
  shows "map_of (ds_idempotency (fold (draft_step h) ops s)) k = Some e"
  by (rule drafting.run_keeps [where P = "\<lambda>t. map_of (ds_idempotency t) k = Some e"]) (auto intro: draft_step_keys assms)

subsection \<open>Interpretation: the port for other services\<close>

text \<open>That a draft is archived is final.\<close>

interpretation draft_port: terminal_port "draft_step h" draft_inv draft_lookup archived_answer for h
proof
  fix s k c
  assume inv: "draft_inv s" and final: "archived_answer (draft_lookup k s)"
  then obtain d where d: "poc_id_ok k" "map_of (ds_records s) k = Some d" "dp_archive_state d = DRAFT_ARCHIVED"
    by (auto simp: draft_lookup_def draft_get_def split: if_splits option.splits)
  then have "map_of (ds_records (draft_step h c s)) k = Some d"
    using draft_step_records [OF inv d(2), of h c] by (auto simp: draft_follows_def)
  then show "draft_lookup k (draft_step h c s) = draft_lookup k s"
    using d by (simp add: draft_lookup_def draft_get_def)
qed

subsection \<open>Properties\<close>

definition sample_draft_request :: draft_request where
  "sample_draft_request = \<lparr>dq_display_name = ''Pilot'', dq_customer_label = ''Acme'', dq_use_case = ''search'',
     dq_owner = ''Ann'', dq_first_source_choice = CHOICE_EMAIL, dq_poc_id = Some ''poc_abc''\<rparr>"

definition sample_draft_env :: draft_env where
  "sample_draft_env = \<lparr>de_clock = ClockAt (Aware 5 0), de_poc_id = FactoryRaises\<rparr>"

definition sample_draft :: draft_snapshot where
  "sample_draft = draft_of_request sample_draft_request ''poc_abc'' (Aware 5 0)"

definition sample_drafts :: draft_service where
  "sample_drafts = \<lparr>ds_max_drafts = 2, ds_records = [], ds_idempotency = []\<rparr>"

lemma sample_drafts_new: "draft_service_new 2 = Inr sample_drafts"
  by (simp add: draft_service_new_def sample_drafts_def)

lemma sample_draft_made: "make_draft sample_draft = Some sample_draft"
  by code_simp

lemma sample_draft_create:
  obtains s1 where "draft_create h sample_draft_request ''key-1'' sample_draft_env sample_drafts =
      (s1, Inr \<lparr>dr_draft = sample_draft, dr_idempotent_replay = False\<rparr>)"
    and "map_of (ds_records s1) ''poc_abc'' = Some sample_draft"
proof -
  have "draft_key_ok ''key-1''" "poc_id_ok ''poc_abc''" by code_simp+
  moreover have "draft_new_id sample_draft_request sample_draft_env = Inr ''poc_abc''"
    using calculation by (simp add: draft_new_id_def sample_draft_request_def)
  ultimately show ?thesis using that sample_draft_made
    by (simp add: draft_create_def sample_drafts_def sample_draft_env_def sample_draft_def)
qed

text \<open>
  A draft that was created under a key is, whatever operations come in between, what the same
  request under that key is answered with, marked as a replay, without any change: the current
  snapshot of that draft, with its identity unchanged. Another request under the key is refused.
\<close>

theorem draft_creation_replayed:
  assumes "draft_service_new m = Inr s0" and "draft_create h q key env (fold (draft_step h) ops s0) = (s1, Inr r)"
  shows "\<exists>d. draft_create h q key env' (fold (draft_step h) later s1) =
       (fold (draft_step h) later s1, Inr \<lparr>dr_draft = d, dr_idempotent_replay = True\<rparr>) \<and>
     map_of (ds_records (fold (draft_step h) later s1)) (dp_poc_id (dr_draft r)) = Some d \<and>
     draft_identity d = draft_identity (dr_draft r) \<and>
     (\<forall>q'. draft_request_digest h q' = draft_request_digest h q \<or>
       draft_create h q' key env' (fold (draft_step h) later s1) = (fold (draft_step h) later s1, Inl DraftIdempotencyConflict))"
proof -
  let ?s2 = "fold (draft_step h) later s1"
  have inv: "draft_inv (fold (draft_step h) ops s0)" using assms(1) by (rule draft_reached)
  then have inv1: "draft_inv s1" using draft_inv_create [OF inv, of h q key env] assms(2) by simp
  have run: "draft_exec h key q env (fold (draft_step h) ops s0) = (s1, Inr r)" using assms(2) by (simp add: draft_exec_def)
  obtain e where e: "map_of (ds_idempotency s1) (draft_key_digest h key) = Some e" "map_of (ds_records s1) (dk_poc_id e) = Some (dr_draft r)"
    using assms(2) by (cases rule: draft_create_cases [of h q key env "fold (draft_step h) ops s0"]) auto
  have poc: "dk_poc_id e = dp_poc_id (dr_draft r)" using inv1 e(2) by (auto simp: draft_inv_def)
  obtain d where d: "map_of (ds_records ?s2) (dk_poc_id e) = Some d" "draft_follows (dr_draft r) d"
    using draft_run_records [OF inv1 e(2)] by blast
  have "draft_replay h ?s2 key = \<lparr>dr_draft = d, dr_idempotent_replay = True\<rparr>"
    using draft_run_keys [OF inv1 e(1)] d(1) by (simp add: draft_replay_def)
  then have "draft_create h q key env' ?s2 = (?s2, Inr \<lparr>dr_draft = d, dr_idempotent_replay = True\<rparr>)"
    using drafting.replay_after [OF inv run] by (simp add: draft_exec_def)
  moreover have "draft_create h q' key env' ?s2 = (?s2, Inl DraftIdempotencyConflict)"
    if "draft_request_digest h q' \<noteq> draft_request_digest h q" for q'
    using drafting.conflict_after [OF inv run TrueI that] by (simp add: draft_exec_def)
  ultimately show ?thesis using d poc by (intro exI [of _ d]) (auto simp: draft_follows_def)
qed

theorem draft_creation_replayed_witness:
  "\<exists>s1 d. fst (draft_create flat_hasher sample_draft_request ''key-1'' sample_draft_env sample_drafts) = s1 \<and>
     draft_create flat_hasher sample_draft_request ''key-1'' sample_draft_env
       (fold (draft_step flat_hasher) [ArchiveDraft ''poc_abc'' (ClockAt (Aware 9 0))] s1) =
       (fold (draft_step flat_hasher) [ArchiveDraft ''poc_abc'' (ClockAt (Aware 9 0))] s1, Inr \<lparr>dr_draft = d, dr_idempotent_replay = True\<rparr>) \<and>
     draft_identity d = draft_identity sample_draft"
proof -
  obtain s1 where s1: "draft_create flat_hasher sample_draft_request ''key-1'' sample_draft_env sample_drafts =
      (s1, Inr \<lparr>dr_draft = sample_draft, dr_idempotent_replay = False\<rparr>)"
    by (rule sample_draft_create [of flat_hasher])
  then have "draft_create flat_hasher sample_draft_request ''key-1'' sample_draft_env (fold (draft_step flat_hasher) [] sample_drafts) =
      (s1, Inr \<lparr>dr_draft = sample_draft, dr_idempotent_replay = False\<rparr>)" by simp
  from draft_creation_replayed [OF sample_drafts_new this, of sample_draft_env "[ArchiveDraft ''poc_abc'' (ClockAt (Aware 9 0))]"]
  show ?thesis using s1 by auto
qed

text \<open>
  The registry of drafts only grows, within its capacity: a stored draft is a valid snapshot
  under its own identifier, it is never removed, its identity never changes, and once archived it
  stays as it is.
\<close>

theorem draft_registry_grows:
  assumes "draft_service_new m = Inr s0" and "map_of (ds_records (fold (draft_step h) ops s0)) p = Some d"
  shows "dp_poc_id d = p \<and> draft_ok d \<and> length (ds_records (fold (draft_step h) (ops @ later) s0)) \<le> m \<and>
     (\<exists>d'. map_of (ds_records (fold (draft_step h) (ops @ later) s0)) p = Some d' \<and> draft_identity d' = draft_identity d \<and>
       (dp_archive_state d = DRAFT_ARCHIVED \<longrightarrow> d' = d))"
proof -
  have inv: "draft_inv (fold (draft_step h) xs s0)" for xs using assms(1) by (rule draft_reached)
  have s0: "draft_inv s0" "ds_max_drafts s0 = m" using assms(1) draft_inv_new by (auto simp: draft_service_new_def split: if_splits)
  have "ds_max_drafts (draft_step h c t) = ds_max_drafts t" for c t
  proof (cases c)
    case (CreateDraft key q env)
    then show ?thesis by (cases rule: draft_create_cases [of h q key env t]) auto
  next
    case (ArchiveDraft poc clock)
    then show ?thesis by (cases rule: draft_archive_cases [of poc clock t]) auto
  qed
  then have "ds_max_drafts (fold (draft_step h) xs s0) = m" for xs
    using s0 by (intro drafting.run_keeps [where P = "\<lambda>t. ds_max_drafts t = m"]) auto
  then have "length (ds_records (fold (draft_step h) (ops @ later) s0)) \<le> m"
    using inv [of "ops @ later"] by (simp only: draft_inv_def)
  moreover have "dp_poc_id d = p \<and> make_draft d = Some d" using inv [of ops] assms(2) unfolding draft_inv_def by blast
  then have "dp_poc_id d = p" "draft_ok d" using make_draft_Some [of d d] by blast+
  ultimately show ?thesis
    using draft_run_records [OF inv assms(2), of h later] by (auto simp: draft_follows_def)
qed

theorem draft_registry_grows_witness:
  "\<exists>s1 d. fst (draft_create flat_hasher sample_draft_request ''key-1'' sample_draft_env sample_drafts) = s1 \<and>
     map_of (ds_records (fold (draft_step flat_hasher) [ArchiveDraft ''poc_abc'' (ClockAt (Aware 9 0))] s1)) ''poc_abc'' = Some d \<and>
     draft_identity d = draft_identity sample_draft"
proof -
  obtain s1 where s1: "draft_create flat_hasher sample_draft_request ''key-1'' sample_draft_env sample_drafts =
      (s1, Inr \<lparr>dr_draft = sample_draft, dr_idempotent_replay = False\<rparr>)" "map_of (ds_records s1) ''poc_abc'' = Some sample_draft"
    by (rule sample_draft_create [of flat_hasher])
  then have run: "fold (draft_step flat_hasher) [CreateDraft ''key-1'' sample_draft_request sample_draft_env] sample_drafts = s1" by simp
  with s1 have "map_of (ds_records (fold (draft_step flat_hasher) [CreateDraft ''key-1'' sample_draft_request sample_draft_env] sample_drafts)) ''poc_abc'' = Some sample_draft"
    by (simp only: run)
  from draft_registry_grows [OF sample_drafts_new this, of "[ArchiveDraft ''poc_abc'' (ClockAt (Aware 9 0))]"]
  show ?thesis using s1 run by auto
qed

end
