(* ===== verification/Poc_Sources_Laws.thy ===== *)
theory Poc_Sources_Laws
  imports Poc_Sources Draft_Pocs_Laws Redaction_Laws
begin

section \<open>Laws of source attachment\<close>

text \<open>
  The invariant of the store: its three indexes agree, the sources of a POC are numbered in order,
  and the sources of one external identity form a chain of revisions of which the last one is the
  current. Then the replay contract, and the composition with the owner of the drafts.
\<close>

subsection \<open>What one attachment does\<close>

lemma new_source_Inr:
  assumes "new_source h poc p env s = Inr x"
  obtains n now where "next_revision (map_of (so_identity_latest s) (poc, pr_kind p, pr_external_id p)) (pr_revises_source_id p) = Inr n"
    and "se_source_id env = FactoryGives (ss_source_id x)" and "se_clock env = ClockAt now"
    and "\<not> list_ex (\<lambda>(k, y). snd k = ss_source_id x) (so_by_id s)"
    and "x = source_of_prepared poc p (ss_source_id x) (length (sources_of s poc) + 1) n now" and "source_ok h x"
  using assms
  by (auto simp: new_source_def Let_def source_of_prepared_def split: sum.splits factory_answer.splits if_splits clock_value.splits)

lemma source_attach_cases:
  fixes h :: hasher and poc key :: string and p :: prepared_source and answer :: lookup_answer and env :: source_env and s :: source_service
  obtains (refused) e where "source_attach h poc p key answer env s = (s, Inl e)"
    | (replayed) prior x where "poc_id_ok poc" "draft_key_ok key" "require_active_draft poc answer = None"
        "map_of (so_idempotency s) (source_key_digest h key) = Some prior"
        "sk_poc_id prior = poc" "sk_request_sha256 prior = attach_request_digest h poc p"
        "map_of (so_by_id s) (poc, sk_source_id prior) = Some x"
        "source_attach h poc p key answer env s = (s, Inr \<lparr>at_source = x, at_disposition = IDEMPOTENT_REPLAY\<rparr>)"
    | (identical) x where "poc_id_ok poc" "draft_key_ok key" "require_active_draft poc answer = None"
        "map_of (so_idempotency s) (source_key_digest h key) = None"
        "map_of (so_identity_latest s) (poc, pr_kind p, pr_external_id p) = Some x"
        "ss_content_sha256 x = pr_content_sha256 p" "length (so_idempotency s) < so_max_idempotency_records s"
        "source_attach h poc p key answer env s = (s\<lparr>so_idempotency := AList.update (source_key_digest h key)
           \<lparr>sk_poc_id = poc, sk_request_sha256 = attach_request_digest h poc p, sk_source_id = ss_source_id x\<rparr> (so_idempotency s)\<rparr>,
           Inr \<lparr>at_source = x, at_disposition = IDENTITY_REPLAY\<rparr>)"
    | (created) x where "poc_id_ok poc" "draft_key_ok key" "require_active_draft poc answer = None"
        "map_of (so_idempotency s) (source_key_digest h key) = None"
        "\<forall>y. map_of (so_identity_latest s) (poc, pr_kind p, pr_external_id p) = Some y \<longrightarrow> ss_content_sha256 y \<noteq> pr_content_sha256 p"
        "write_capacity_error s poc (length (pr_candidates p)) = None" "new_source h poc p env s = Inr x"
        "source_attach h poc p key answer env s = (store_source s poc x (source_key_digest h key)
           \<lparr>sk_poc_id = poc, sk_request_sha256 = attach_request_digest h poc p, sk_source_id = ss_source_id x\<rparr>,
           Inr \<lparr>at_source = x, at_disposition = CREATED\<rparr>)"
proof (cases "snd (source_attach h poc p key answer env s)")
  case (Inl e)
  then have "source_attach h poc p key answer env s = (s, Inl e)"
    by (auto simp: source_attach_def source_write_def split: if_splits option.splits sum.splits)
  then show ?thesis by (rule refused)
next
  case (Inr r)
  have start: "poc_id_ok poc" "draft_key_ok key" "require_active_draft poc answer = None"
    using Inr by (auto simp: source_attach_def split: if_splits option.splits)
  have writes: thesis if none: "map_of (so_idempotency s) (source_key_digest h key) = None"
    and differs: "\<forall>y. map_of (so_identity_latest s) (poc, pr_kind p, pr_external_id p) = Some y \<longrightarrow> ss_content_sha256 y \<noteq> pr_content_sha256 p"
    and here: "source_attach h poc p key answer env s = source_write h poc p key env s"
  proof -
    have cap: "write_capacity_error s poc (length (pr_candidates p)) = None"
      using Inr here by (auto simp: source_write_def split: option.splits)
    obtain x where "new_source h poc p env s = Inr x"
      using Inr here cap by (cases "new_source h poc p env s") (auto simp: source_write_def)
    then show thesis using start none differs cap here by (intro created [of x]) (auto simp: source_write_def)
  qed
  show ?thesis
  proof (cases "map_of (so_idempotency s) (source_key_digest h key)")
    case (Some prior)
    then show ?thesis using Inr start
      by (intro replayed [of prior "at_source r"]) (auto simp: source_attach_def split: if_splits option.splits)
  next
    case None
    show ?thesis
    proof (cases "map_of (so_identity_latest s) (poc, pr_kind p, pr_external_id p)")
      case None': None
      then show ?thesis using None start by (intro writes) (simp_all add: source_attach_def)
    next
      case (Some x)
      show ?thesis
      proof (cases "ss_content_sha256 x = pr_content_sha256 p")
        case True
        then show ?thesis using None Some start Inr
          by (intro identical [of x]) (auto simp: source_attach_def split: if_splits)
      next
        case False
        then show ?thesis using None Some start by (intro writes) (simp_all add: source_attach_def)
      qed
    qed
  qed
qed

subsection \<open>Histories\<close>

definition history :: "source_snapshot list \<Rightarrow> source_kind \<Rightarrow> string \<Rightarrow> source_snapshot list" where
  "history xs kind ext = filter (\<lambda>x. ss_kind x = kind \<and> ss_external_id x = ext) xs"

definition last_opt :: "'a list \<Rightarrow> 'a option" where
  "last_opt xs = (if xs = [] then None else Some (last xs))"

text \<open>Revisions are numbered from one; each names the one before it and changes its content.\<close>

definition revision_chain :: "source_snapshot list \<Rightarrow> bool" where
  "revision_chain xs \<longleftrightarrow> (\<forall>i < length xs. ss_source_revision (xs ! i) = Suc i \<and>
     ss_revises_source_id (xs ! i) = (if i = 0 then None else Some (ss_source_id (xs ! (i - 1)))) \<and>
     (0 < i \<longrightarrow> ss_content_sha256 (xs ! i) \<noteq> ss_content_sha256 (xs ! (i - 1))))"

lemma revision_chain_snoc:
  "revision_chain (xs @ [x]) \<longleftrightarrow> revision_chain xs \<and> ss_source_revision x = Suc (length xs) \<and>
     (case last_opt xs of None \<Rightarrow> ss_revises_source_id x = None
      | Some y \<Rightarrow> ss_revises_source_id x = Some (ss_source_id y) \<and> ss_content_sha256 x \<noteq> ss_content_sha256 y)"
proof -
  have before: "(xs @ [x]) ! (length xs - 1) = last xs" if "xs \<noteq> []"
    using that by (simp add: nth_append last_conv_nth)
  have "(xs @ [x]) ! (i - 1) = xs ! (i - 1)" if "i < length xs" for i using that by (simp add: nth_append)
  then show ?thesis
    using before by (auto simp: revision_chain_def last_opt_def less_Suc_eq all_conj_distrib nth_append)
qed

definition source_inv :: "hasher \<Rightarrow> source_service \<Rightarrow> bool" where
  "source_inv h s \<longleftrightarrow>
     (\<forall>p i x. map_of (so_by_id s) (p, i) = Some x \<longleftrightarrow> x \<in> set (sources_of s p) \<and> ss_source_id x = i) \<and>
     (\<forall>p. \<forall>x \<in> set (sources_of s p). ss_poc_id x = p \<and> source_ok h x) \<and>
     (\<forall>p. map ss_source_sequence (sources_of s p) = map Suc [0..<length (sources_of s p)]) \<and>
     (\<forall>p kind ext. revision_chain (history (sources_of s p) kind ext) \<and>
       map_of (so_identity_latest s) (p, kind, ext) = last_opt (history (sources_of s p) kind ext)) \<and>
     (\<forall>k e. map_of (so_idempotency s) k = Some e \<longrightarrow> map_of (so_by_id s) (sk_poc_id e, sk_source_id e) \<noteq> None) \<and>
     length (so_idempotency s) \<le> so_max_idempotency_records s \<and> length (so_sources_by_poc s) \<le> so_max_pocs s \<and>
     (\<forall>p. length (sources_of s p) \<le> so_max_sources_per_poc s)"

lemma sources_of_store [simp]:
  "sources_of (store_source s poc x kd e) p = (if p = poc then sources_of s poc @ [x] else sources_of s p)"
  by (simp add: store_source_def sources_of_def)

lemma store_source_fields [simp]:
  "so_by_id (store_source s poc x kd e) = AList.update (poc, ss_source_id x) x (so_by_id s)"
  "so_identity_latest (store_source s poc x kd e) = AList.update (poc, ss_kind x, ss_external_id x) x (so_identity_latest s)"
  "so_idempotency (store_source s poc x kd e) = AList.update kd e (so_idempotency s)"
  "so_max_pocs (store_source s poc x kd e) = so_max_pocs s"
  "so_max_sources_per_poc (store_source s poc x kd e) = so_max_sources_per_poc s"
  "so_max_idempotency_records (store_source s poc x kd e) = so_max_idempotency_records s"
  by (simp_all add: store_source_def)

lemma history_snoc: "history (xs @ [x]) kind ext =
    history xs kind ext @ (if ss_kind x = kind \<and> ss_external_id x = ext then [x] else [])"
  by (simp add: history_def)

lemma next_revision_chain:
  assumes "revision_chain hs" and "next_revision (last_opt hs) revises = Inr n"
  shows "n = Suc (length hs) \<and> (case last_opt hs of None \<Rightarrow> revises = None | Some y \<Rightarrow> revises = Some (ss_source_id y))"
proof (cases hs rule: rev_cases)
  case Nil
  then show ?thesis using assms(2) by (auto simp: next_revision_def last_opt_def split: if_splits)
next
  case (snoc ys y)
  then have "ss_source_revision y = Suc (length ys)" using assms(1) by (simp add: revision_chain_snoc)
  then show ?thesis using assms(2) snoc by (auto simp: next_revision_def last_opt_def split: option.splits if_splits)
qed

lemma source_inv_created:
  assumes inv: "source_inv h s" and key: "map_of (so_idempotency s) kd = None"
    and differs: "\<forall>y. map_of (so_identity_latest s) (poc, pr_kind p, pr_external_id p) = Some y \<longrightarrow> ss_content_sha256 y \<noteq> pr_content_sha256 p"
    and cap: "write_capacity_error s poc n = None" and new: "new_source h poc p env s = Inr x"
  shows "source_inv h (store_source s poc x kd \<lparr>sk_poc_id = poc, sk_request_sha256 = d, sk_source_id = ss_source_id x\<rparr>)"
    (is "source_inv h ?s")
proof -
  obtain r now where x: "next_revision (map_of (so_identity_latest s) (poc, pr_kind p, pr_external_id p)) (pr_revises_source_id p) = Inr r"
      "\<not> list_ex (\<lambda>(k, y). snd k = ss_source_id x) (so_by_id s)"
      "x = source_of_prepared poc p (ss_source_id x) (length (sources_of s poc) + 1) r now" "source_ok h x"
    using new by (rule new_source_Inr)
  have fields: "ss_poc_id x = poc" "ss_source_sequence x = length (sources_of s poc) + 1" "ss_source_revision x = r"
      "ss_kind x = pr_kind p" "ss_external_id x = pr_external_id p" "ss_content_sha256 x = pr_content_sha256 p"
      "ss_revises_source_id x = pr_revises_source_id p"
    by (subst x(3), simp add: source_of_prepared_def)+
  have by_id: "map_of (so_by_id s) (q, i) = Some y \<longleftrightarrow> y \<in> set (sources_of s q) \<and> ss_source_id y = i" for q i y
    using inv by (simp add: source_inv_def)
  have fresh: "ss_source_id y \<noteq> ss_source_id x" if "y \<in> set (sources_of s q)" for y q
  proof
    assume "ss_source_id y = ss_source_id x"
    with that by_id have "((q, ss_source_id x), y) \<in> set (so_by_id s)" by (metis map_of_SomeD)
    then show False using x(2) by (force simp: list_ex_iff)
  qed
  have "map_of (so_by_id ?s) (q, i) = Some y \<longleftrightarrow> y \<in> set (sources_of ?s q) \<and> ss_source_id y = i" for q i y
    using by_id [of q i y] fresh [of y q] by auto
  moreover have "\<forall>y \<in> set (sources_of ?s q). ss_poc_id y = q \<and> source_ok h y" for q
    using inv x(4) fields(1) by (auto simp: source_inv_def)
  moreover have "map ss_source_sequence (sources_of ?s q) = map Suc [0..<length (sources_of ?s q)]" for q
    using inv fields(2) by (simp add: source_inv_def)
  moreover have "revision_chain (history (sources_of ?s q) kind ext) \<and>
      map_of (so_identity_latest ?s) (q, kind, ext) = last_opt (history (sources_of ?s q) kind ext)" for q kind ext
  proof -
    have old: "revision_chain (history (sources_of s q) kind ext)"
        "map_of (so_identity_latest s) (q, kind, ext) = last_opt (history (sources_of s q) kind ext)"
      using inv by (simp_all add: source_inv_def)
    show ?thesis
    proof (cases "q = poc \<and> kind = ss_kind x \<and> ext = ss_external_id x")
      case True
      then have rev: "next_revision (last_opt (history (sources_of s poc) (ss_kind x) (ss_external_id x))) (ss_revises_source_id x) = Inr r"
        using x(1) old(2) fields by simp
      have changed: "ss_content_sha256 y \<noteq> ss_content_sha256 x"
        if "last_opt (history (sources_of s poc) (ss_kind x) (ss_external_id x)) = Some y" for y
        using differs old(2) True that fields by auto
      have "revision_chain (history (sources_of s poc) (ss_kind x) (ss_external_id x) @ [x])"
        using next_revision_chain [OF _ rev] old(1) True fields(3) changed
        by (auto simp: revision_chain_snoc split: option.splits)
      then show ?thesis using True by (simp add: history_snoc last_opt_def)
    next
      case False
      then show ?thesis using old by (auto simp: history_snoc)
    qed
  qed
  moreover have "map_of (so_by_id ?s) (sk_poc_id e, sk_source_id e) \<noteq> None" if "map_of (so_idempotency ?s) k = Some e" for k e
    using inv that by (auto simp: source_inv_def split: if_splits)
  moreover have "length (so_idempotency ?s) \<le> so_max_idempotency_records ?s"
    using inv cap key by (auto simp: source_inv_def length_update_new write_capacity_error_def split: if_splits)
  moreover have "length (so_sources_by_poc ?s) \<le> so_max_pocs ?s"
    using inv cap by (auto simp: source_inv_def store_source_def length_update write_capacity_error_def map_of_eq_None_iff split: if_splits)
  moreover have "length (sources_of ?s q) \<le> so_max_sources_per_poc ?s" for q
    using inv cap by (auto simp: source_inv_def write_capacity_error_def split: if_splits)
  ultimately show ?thesis unfolding source_inv_def by blast
qed

lemma source_inv_attach: "source_inv h s \<Longrightarrow> source_inv h (fst (source_attach h poc p key answer env s))"
proof (cases rule: source_attach_cases [of h poc p key answer env s])
  case (identical x)
  assume inv: "source_inv h s"
  have "x \<in> set (history (sources_of s poc) (pr_kind p) (pr_external_id p))"
    using inv identical(5) by (auto simp: source_inv_def last_opt_def split: if_splits)
  then have "map_of (so_by_id s) (poc, ss_source_id x) = Some x" using inv by (auto simp: source_inv_def history_def)
  moreover have "sources_of (s\<lparr>so_idempotency := i\<rparr>) q = sources_of s q" for i q by (simp add: sources_of_def)
  ultimately show ?thesis using inv identical
    by (auto simp: source_inv_def length_update_new split: if_splits)
next
  case (created x)
  assume "source_inv h s"
  then show ?thesis using created source_inv_created by (simp only: fst_conv)
qed simp_all

lemma source_inv_new: "source_service_new a b c d = Inr s \<Longrightarrow> source_inv h s"
  by (auto simp: source_service_new_def source_inv_def sources_of_def history_def last_opt_def revision_chain_def split: if_splits)

subsection \<open>The store as a machine\<close>

datatype source_op = AttachSource string prepared_source string lookup_answer source_env

fun source_step :: "hasher \<Rightarrow> source_op \<Rightarrow> source_service \<Rightarrow> source_service" where
  "source_step h (AttachSource poc p key answer env) s = fst (source_attach h poc p key answer env s)"

lemma source_inv_step: "source_inv h s \<Longrightarrow> source_inv h (source_step h c s)"
  by (cases c) (simp add: source_inv_attach)

text \<open>Sources are only ever appended, at most one by an operation.\<close>

lemma source_step_appends: "\<exists>xs. sources_of (source_step h c s) p = sources_of s p @ xs"
proof (cases c)
  case (AttachSource poc q key answer env)
  show ?thesis
  proof (cases rule: source_attach_cases [of h poc q key answer env s])
    case (identical x)
    then show ?thesis using AttachSource by (simp add: sources_of_def)
  qed (simp_all add: AttachSource)
qed

lemma source_step_by_id:
  assumes "source_inv h s" and "map_of (so_by_id s) k = Some x"
  shows "map_of (so_by_id (source_step h c s)) k = Some x"
proof -
  obtain p i where k: "k = (p, i)" by (cases k)
  have "x \<in> set (sources_of s p) \<and> ss_source_id x = i" using assms k by (simp add: source_inv_def)
  then have "x \<in> set (sources_of (source_step h c s) p) \<and> ss_source_id x = i"
    using source_step_appends [of h c s p] by auto
  then show ?thesis using source_inv_step [OF assms(1), of c] k by (simp add: source_inv_def)
qed

lemma source_step_keys:
  assumes "map_of (so_idempotency s) k = Some e"
  shows "map_of (so_idempotency (source_step h c s)) k = Some e"
proof (cases c)
  case (AttachSource poc q key answer env)
  then show ?thesis using assms by (cases rule: source_attach_cases [of h poc q key answer env s]) auto
qed

subsection \<open>Interpretation: the replay contract\<close>

fun attach_exec :: "hasher \<Rightarrow> string \<Rightarrow> string \<times> prepared_source \<times> lookup_answer \<Rightarrow> source_env \<Rightarrow> attachment_result source_act" where
  "attach_exec h key (poc, p, answer) env = source_attach h poc p key answer env"

fun attach_ask_ok :: "string \<times> prepared_source \<times> lookup_answer \<Rightarrow> bool" where
  "attach_ask_ok (poc, p, answer) = (poc_id_ok poc \<and> require_active_draft poc answer = None)"

fun attach_fp :: "hasher \<Rightarrow> string \<times> prepared_source \<times> lookup_answer \<Rightarrow> string \<times> string" where
  "attach_fp h (poc, p, answer) = (poc, attach_request_digest h poc p)"

definition attach_seen :: "hasher \<Rightarrow> source_service \<Rightarrow> string \<Rightarrow> (string \<times> string) option" where
  "attach_seen h s k = (if draft_key_ok k
     then map_option (\<lambda>e. (sk_poc_id e, sk_request_sha256 e)) (map_of (so_idempotency s) (source_key_digest h k)) else None)"

definition attach_replay :: "hasher \<Rightarrow> source_service \<Rightarrow> string \<Rightarrow> attachment_result" where
  "attach_replay h s k = (let e = the (map_of (so_idempotency s) (source_key_digest h k)) in
     \<lparr>at_source = the (map_of (so_by_id s) (sk_poc_id e, sk_source_id e)), at_disposition = IDEMPOTENT_REPLAY\<rparr>)"

definition attach_mark :: "attachment_result \<Rightarrow> attachment_result" where
  "attach_mark r = r\<lparr>at_disposition := IDEMPOTENT_REPLAY\<rparr>"

lemma attach_seen_Some:
  "attach_seen h s k = Some f \<longleftrightarrow> draft_key_ok k \<and>
    (\<exists>e. map_of (so_idempotency s) (source_key_digest h k) = Some e \<and> f = (sk_poc_id e, sk_request_sha256 e))"
  by (auto simp: attach_seen_def)

lemma attach_seen_source:
  assumes "source_inv h s" and "attach_seen h s k = Some f"
  obtains e x where "draft_key_ok k" and "map_of (so_idempotency s) (source_key_digest h k) = Some e"
    and "f = (sk_poc_id e, sk_request_sha256 e)" and "map_of (so_by_id s) (sk_poc_id e, sk_source_id e) = Some x"
proof -
  obtain e where e: "draft_key_ok k" "map_of (so_idempotency s) (source_key_digest h k) = Some e" "f = (sk_poc_id e, sk_request_sha256 e)"
    using assms(2) attach_seen_Some by blast
  then have "map_of (so_by_id s) (sk_poc_id e, sk_source_id e) \<noteq> None" using assms(1) unfolding source_inv_def by blast
  with e that show thesis by blast
qed

lemma attach_replay_step:
  assumes "source_inv h s" and "attach_seen h s k = Some f"
  shows "attach_replay h (source_step h c s) k = attach_replay h s k"
  using assms
proof (rule attach_seen_source)
  fix e x
  assume e: "map_of (so_idempotency s) (source_key_digest h k) = Some e" "map_of (so_by_id s) (sk_poc_id e, sk_source_id e) = Some x"
  then have "map_of (so_idempotency (source_step h c s)) (source_key_digest h k) = Some e"
    "map_of (so_by_id (source_step h c s)) (sk_poc_id e, sk_source_id e) = Some x"
    using source_step_keys source_step_by_id [OF assms(1)] by blast+
  then show ?thesis using e by (simp add: attach_replay_def)
qed

lemma attach_replays:
  assumes "source_inv h s" and "attach_ask_ok (poc, p, answer)" and "attach_seen h s k = Some (attach_fp h (poc, p, answer))"
  shows "source_attach h poc p k answer env s = (s, Inr (attach_replay h s k))"
  using assms(1,3)
proof (rule attach_seen_source)
  fix e x
  assume "draft_key_ok k" "map_of (so_idempotency s) (source_key_digest h k) = Some e"
    "attach_fp h (poc, p, answer) = (sk_poc_id e, sk_request_sha256 e)" "map_of (so_by_id s) (sk_poc_id e, sk_source_id e) = Some x"
  then show ?thesis using assms(2) by (auto simp: source_attach_def attach_replay_def)
qed

lemma attach_first_replay:
  assumes inv: "source_inv h s" and none: "attach_seen h s k = None" and run: "source_attach h poc p k answer env s = (s', Inr r)"
  shows "attach_replay h s' k = attach_mark r"
  using run
proof (cases rule: source_attach_cases [of h poc p k answer env s])
  case (identical x)
  have "x \<in> set (history (sources_of s poc) (pr_kind p) (pr_external_id p))"
    using inv identical(5) by (auto simp: source_inv_def last_opt_def split: if_splits)
  then have "map_of (so_by_id s) (poc, ss_source_id x) = Some x" using inv by (auto simp: source_inv_def history_def)
  then show ?thesis using identical(8) run by (auto simp: attach_replay_def attach_mark_def)
qed (use none run in \<open>auto simp: attach_seen_def attach_replay_def attach_mark_def\<close>)

interpretation attaching: stable_replay_service "source_step h" "source_inv h" "attach_exec h" attach_ask_ok
  "attach_fp h" "attach_seen h" "attach_replay h" POCSourceIdempotencyConflict attach_mark for h
proof
  fix s k and q :: "string \<times> prepared_source \<times> lookup_answer" and env s' r c f
  obtain poc p answer where q: "q = (poc, p, answer)" by (cases q)
  show "source_inv h s \<Longrightarrow> source_inv h (source_step h c s)" by (rule source_inv_step)
  show "source_inv h s \<Longrightarrow> source_inv h (fst (attach_exec h k q env s))" by (simp add: q source_inv_attach)
  show "attach_exec h k q env s = (s', Inr r) \<Longrightarrow> attach_ask_ok q"
    unfolding q by (cases rule: source_attach_cases [of h poc p k answer env s]) auto
  show "attach_seen h s k = None \<Longrightarrow> attach_exec h k q env s = (s', Inr r) \<Longrightarrow> attach_seen h s' k = Some (attach_fp h q)"
    unfolding q by (cases rule: source_attach_cases [of h poc p k answer env s]) (auto simp: attach_seen_def)
  show "source_inv h s \<Longrightarrow> attach_ask_ok q \<Longrightarrow> attach_seen h s k = Some (attach_fp h q) \<Longrightarrow>
      attach_exec h k q env s = (s, Inr (attach_replay h s k))"
    unfolding q using attach_replays by simp
  show "attach_ask_ok q \<Longrightarrow> attach_seen h s k = Some f \<Longrightarrow> f \<noteq> attach_fp h q \<Longrightarrow>
      attach_exec h k q env s = (s, Inl POCSourceIdempotencyConflict)"
    unfolding q attach_seen_Some by (auto simp: source_attach_def split: if_splits)
  show "attach_seen h s k = Some f \<Longrightarrow> attach_seen h (source_step h c s) k = Some f"
    unfolding attach_seen_Some using source_step_keys by blast
  show "source_inv h s \<Longrightarrow> attach_seen h s k = Some f \<Longrightarrow> attach_replay h (source_step h c s) k = attach_replay h s k"
    by (rule attach_replay_step)
  show "source_inv h s \<Longrightarrow> attach_seen h s k = None \<Longrightarrow> attach_exec h k q env s = (s', Inr r) \<Longrightarrow> attach_replay h s' k = attach_mark r"
    unfolding q using attach_first_replay by simp
  show "attach_mark (attach_replay h s k) = attach_replay h s k" by (simp add: attach_mark_def attach_replay_def Let_def)
qed

lemma source_reached: "source_service_new a b c d = Inr s0 \<Longrightarrow> source_inv h (fold (source_step h) ops s0)"
  by (rule attaching.inv_run [OF source_inv_new])

lemma source_run_appends: "\<exists>xs. sources_of (fold (source_step h) ops s) p = sources_of s p @ xs"
proof (induction ops arbitrary: s)
  case (Cons c ops)
  obtain ys where "sources_of (source_step h c s) p = sources_of s p @ ys" using source_step_appends by blast
  moreover obtain zs where "sources_of (fold (source_step h) ops (source_step h c s)) p = sources_of (source_step h c s) p @ zs"
    using Cons by blast
  ultimately show ?case by simp
qed simp

subsection \<open>Interpretation: the client of the draft owner\<close>

datatype attach_ask = AttachAsk string prepared_source string source_env

fun source_use :: "hasher \<Rightarrow> attach_ask \<Rightarrow> (string \<Rightarrow> lookup_answer) \<Rightarrow> source_service \<Rightarrow> source_service" where
  "source_use h (AttachAsk poc p key env) port s = fst (source_attach h poc p key (port poc) env s)"

lemma archived_refused: "archived_answer answer \<Longrightarrow> require_active_draft poc answer \<noteq> None"
  by (cases answer) (auto simp: require_active_draft_def)

interpretation archived: guarded_client "draft_step h" draft_inv draft_lookup archived_answer "source_use h"
  "\<lambda>k s. sources_of s k" for h
proof
  fix port :: "string \<Rightarrow> lookup_answer" and k q t
  assume final: "archived_answer (port k)"
  obtain poc p key env where q: "q = AttachAsk poc p key env" by (cases q)
  show "sources_of (source_use h q port t) k = sources_of t k"
  proof (cases rule: source_attach_cases [of h poc p key "port poc" env t])
    case (identical x)
    then show ?thesis by (simp add: q sources_of_def)
  next
    case (created x)
    then have "poc \<noteq> k" using archived_refused [OF final, of k] by auto
    then show ?thesis using created by (simp add: q)
  qed (simp_all add: q)
qed

subsection \<open>A source to evaluate on\<close>

definition sample_prepared :: prepared_source where
  "sample_prepared = \<lparr>pr_kind = SOURCE_EMAIL, pr_external_id = ''mail.1'', pr_redacted_text = ''must pay'',
     pr_content_sha256 = replicate 64 (CHR ''0''), pr_candidates = [], pr_adapter_name = ''mail'',
     pr_adapter_version = ''1'', pr_redaction_policy_version = ''1'', pr_observed_at = Aware 1 0, pr_revises_source_id = None\<rparr>"

definition sample_source_env :: source_env where
  "sample_source_env = \<lparr>se_clock = ClockAt (Aware 7 0), se_source_id = FactoryGives ''src_abc''\<rparr>"

definition sample_source :: source_snapshot where
  "sample_source = source_of_prepared ''poc_abc'' sample_prepared ''src_abc'' 1 1 (Aware 7 0)"

definition sample_sources :: source_service where
  "sample_sources = \<lparr>so_max_pocs = 2, so_max_sources_per_poc = 2, so_max_candidates_per_source = 2,
     so_max_idempotency_records = 2, so_sources_by_poc = [], so_by_id = [], so_identity_latest = [], so_idempotency = []\<rparr>"

lemma sample_sources_new: "source_service_new 2 2 2 2 = Inr sample_sources"
  by (simp add: source_service_new_def sample_sources_def)

lemma sample_ids_ok: "poc_id_ok ''poc_abc''" "draft_key_ok ''key-1''" "source_id_ok ''src_abc''"
  by code_simp+

lemma sample_fields_ok: "external_id_ok ''mail.1''" "redacted_text_ok ''must pay''" "adapter_name_ok ''mail''" "version_ok ''1''"
  by code_simp+

lemma sample_text_ok: "source_text False 64000 ''must pay'' = Some ''must pay''"
  by (simp add: source_text_def control_char_bits)

lemma sample_source_ok: "source_ok flat_hasher sample_source"
  using sample_ids_ok sample_fields_ok sample_text_ok
  by (simp add: source_ok_def source_fields_ok_def source_bindings_ok_def sample_source_def source_of_prepared_def
      sample_prepared_def content_sha256_def flat_hasher_def is_sha256_def hex_text_def list_all_iff lower_hex_def)

lemma sample_attach:
  assumes "require_active_draft ''poc_abc'' answer = None"
  obtains s1 where "source_attach flat_hasher ''poc_abc'' sample_prepared ''key-1'' answer sample_source_env sample_sources =
      (s1, Inr \<lparr>at_source = sample_source, at_disposition = CREATED\<rparr>)"
    and "sources_of s1 ''poc_abc'' = [sample_source]"
proof -
  have "new_source flat_hasher ''poc_abc'' sample_prepared sample_source_env sample_sources = Inr sample_source"
    using sample_ids_ok sample_source_ok
    by (simp add: new_source_def next_revision_def sample_sources_def sample_source_env_def sample_prepared_def
        sources_of_def sample_source_def)
  moreover have "write_capacity_error sample_sources ''poc_abc'' (length (pr_candidates sample_prepared)) = None"
    by (simp add: write_capacity_error_def sample_sources_def sample_prepared_def sources_of_def)
  ultimately show ?thesis using that assms sample_ids_ok
    by (simp add: source_attach_def source_write_def sample_sources_def store_source_def sources_of_def)
qed

subsection \<open>Properties\<close>

text \<open>
  C17. Whatever was attached, the sources of a POC are numbered from one in the order in which they
  came, and the sources of one external identity form a chain: revisions numbered from one, each
  naming its predecessor and changing its content. The current source of the identity is the last
  of the chain, and each source is found under its own identifier.
\<close>

theorem source_history:
  assumes "source_service_new a b c d = Inr s0" and "s = fold (source_step h) ops s0"
  shows "map ss_source_sequence (sources_of s poc) = map Suc [0..<length (sources_of s poc)] \<and>
     revision_chain (history (sources_of s poc) kind ext) \<and>
     map_of (so_identity_latest s) (poc, kind, ext) = last_opt (history (sources_of s poc) kind ext) \<and>
     (map_of (so_by_id s) (poc, i) = Some x \<longleftrightarrow> x \<in> set (sources_of s poc) \<and> ss_source_id x = i)"
  using source_reached [OF assms(1), of h ops] unfolding source_inv_def assms(2) by blast

theorem source_history_witness:
  "\<exists>s. s = fold (source_step flat_hasher) [AttachSource ''poc_abc'' sample_prepared ''key-1'' (LookupDraft sample_draft) sample_source_env] sample_sources \<and>
     map_of (so_identity_latest s) (''poc_abc'', SOURCE_EMAIL, ''mail.1'') = last_opt (history (sources_of s ''poc_abc'') SOURCE_EMAIL ''mail.1'') \<and>
     sources_of s ''poc_abc'' = [sample_source]"
proof -
  have "require_active_draft ''poc_abc'' (LookupDraft sample_draft) = None"
    by (simp add: require_active_draft_def sample_draft_def draft_of_request_def)
  then obtain s1 where s1: "source_attach flat_hasher ''poc_abc'' sample_prepared ''key-1'' (LookupDraft sample_draft) sample_source_env sample_sources =
      (s1, Inr \<lparr>at_source = sample_source, at_disposition = CREATED\<rparr>)" "sources_of s1 ''poc_abc'' = [sample_source]"
    by (rule sample_attach)
  let ?ops = "[AttachSource ''poc_abc'' sample_prepared ''key-1'' (LookupDraft sample_draft) sample_source_env]"
  have "fold (source_step flat_hasher) ?ops sample_sources = s1" using s1 by simp
  then show ?thesis
    using source_history [OF sample_sources_new refl, of flat_hasher ?ops "''poc_abc''" SOURCE_EMAIL "''mail.1''"] s1(2) by metis
qed

text \<open>
  The store is append-only: what a POC has stays a prefix of what it has later, within the
  capacities; and every stored source is valid: redacted by the guard in its text, its quotes and
  its claims, with each quote occurring in the text it is bound to.
\<close>

theorem source_store_appends:
  assumes "source_service_new a b c d = Inr s0"
  shows "(\<exists>xs. sources_of (fold (source_step h) (ops @ later) s0) poc = sources_of (fold (source_step h) ops s0) poc @ xs) \<and>
     length (sources_of (fold (source_step h) ops s0) poc) \<le> so_max_sources_per_poc (fold (source_step h) ops s0) \<and>
     list_all (\<lambda>x. ss_poc_id x = poc \<and> redacted_text_ok (ss_redacted_text x) \<and> list_all (\<lambda>k. ac_poc_id k = poc \<and>
         contains_text (ac_source_quote k) (ss_redacted_text x) \<and> redacted_text_ok (ac_source_quote k) \<and>
         redacted_text_ok (ac_normalized_claim k)) (ss_candidates x)) (sources_of (fold (source_step h) ops s0) poc)"
proof -
  have inv: "source_inv h (fold (source_step h) ops s0)" using assms by (rule source_reached)
  then have "\<forall>x \<in> set (sources_of (fold (source_step h) ops s0) poc). ss_poc_id x = poc \<and> source_ok h x"
    by (simp add: source_inv_def)
  moreover have "length (sources_of (fold (source_step h) ops s0) poc) \<le> so_max_sources_per_poc (fold (source_step h) ops s0)"
    using inv by (simp add: source_inv_def)
  ultimately show ?thesis
    using source_run_appends [of h later "fold (source_step h) ops s0" poc]
    by (auto simp: list_all_iff source_ok_def source_fields_ok_def source_bindings_ok_def attached_candidate_ok_def)
qed

theorem source_store_appends_witness:
  "\<exists>xs. sources_of (fold (source_step flat_hasher) ([] @ [AttachSource ''poc_abc'' sample_prepared ''key-1'' LookupRaises sample_source_env]) sample_sources) ''poc_abc'' =
     sources_of (fold (source_step flat_hasher) [] sample_sources) ''poc_abc'' @ xs"
  using source_store_appends [OF sample_sources_new] by blast

text \<open>
  A source that was attached is, whatever comes in between, what the same request under the
  same key is answered with while the draft is active: the same snapshot, marked as a replay, and
  nothing changes. Another request under the key is refused.
\<close>

theorem source_attach_replayed:
  assumes "source_service_new a b c d = Inr s0"
    and "source_attach h poc p key answer env (fold (source_step h) ops s0) = (s1, Inr r)"
    and "require_active_draft poc answer' = None"
  shows "source_attach h poc p key answer' env' (fold (source_step h) later s1) =
       (fold (source_step h) later s1, Inr (r\<lparr>at_disposition := IDEMPOTENT_REPLAY\<rparr>)) \<and>
     (\<forall>p'. attach_request_digest h poc p' = attach_request_digest h poc p \<or>
       source_attach h poc p' key answer' env' (fold (source_step h) later s1) = (fold (source_step h) later s1, Inl POCSourceIdempotencyConflict))"
proof -
  have inv: "source_inv h (fold (source_step h) ops s0)" using assms(1) by (rule source_reached)
  have run: "attach_exec h key (poc, p, answer) env (fold (source_step h) ops s0) = (s1, Inr r)" using assms(2) by simp
  have ok: "attach_ask_ok (poc, p', answer')" for p'
    using attaching.exec_ok [OF run] assms(3) by simp
  have "source_attach h poc p key answer' env' (fold (source_step h) later s1) = (fold (source_step h) later s1, Inr (attach_mark r))"
    using attaching.same_answer_alike [OF inv run ok] by simp
  moreover have "source_attach h poc p' key answer' env' (fold (source_step h) later s1) = (fold (source_step h) later s1, Inl POCSourceIdempotencyConflict)"
    if "attach_request_digest h poc p' \<noteq> attach_request_digest h poc p" for p'
    using attaching.conflict_after [OF inv run ok, of p'] that by simp
  ultimately show ?thesis by (auto simp: attach_mark_def)
qed

theorem source_attach_replayed_witness:
  "\<exists>s1. fst (source_attach flat_hasher ''poc_abc'' sample_prepared ''key-1'' (LookupDraft sample_draft) sample_source_env sample_sources) = s1 \<and>
     source_attach flat_hasher ''poc_abc'' sample_prepared ''key-1'' (LookupDraft sample_draft) sample_source_env s1 =
       (s1, Inr \<lparr>at_source = sample_source, at_disposition = IDEMPOTENT_REPLAY\<rparr>)"
proof -
  have active: "require_active_draft ''poc_abc'' (LookupDraft sample_draft) = None"
    by (simp add: require_active_draft_def sample_draft_def draft_of_request_def)
  then obtain s1 where s1: "source_attach flat_hasher ''poc_abc'' sample_prepared ''key-1'' (LookupDraft sample_draft) sample_source_env sample_sources =
      (s1, Inr \<lparr>at_source = sample_source, at_disposition = CREATED\<rparr>)"
    by (rule sample_attach)
  then have "source_attach flat_hasher ''poc_abc'' sample_prepared ''key-1'' (LookupDraft sample_draft) sample_source_env
      (fold (source_step flat_hasher) [] sample_sources) = (s1, Inr \<lparr>at_source = sample_source, at_disposition = CREATED\<rparr>)" by simp
  from source_attach_replayed [OF sample_sources_new this active, of sample_source_env "[]"] show ?thesis using s1 by simp
qed

text \<open>
  C18. The draft service and the source service together: once a draft is archived, no
  interleaving of operations on drafts and of attachments, which look the draft up when they run,
  changes the sources of its POC.
\<close>

theorem archived_sources_frozen:
  assumes "draft_service_new m = Inr d0" and "map_of (ds_records (fold (draft_step h) ops d0)) poc = Some x"
    and "dp_archive_state x = DRAFT_ARCHIVED"
  shows "sources_of (snd (fold (joint_step (draft_step h) draft_lookup (source_use h)) cs (fold (draft_step h) ops d0, s))) poc = sources_of s poc"
proof -
  have inv: "draft_inv (fold (draft_step h) ops d0)" using assms(1) by (rule draft_reached)
  then have "dp_poc_id x = poc" "draft_ok x" using assms(2) make_draft_Some unfolding draft_inv_def by blast+
  then have "poc_id_ok poc" by (auto simp: draft_ok_def)
  then have "archived_answer (draft_lookup poc (fold (draft_step h) ops d0))"
    using assms(2,3) by (simp add: draft_lookup_def draft_get_def)
  with inv show ?thesis by (rule archived.view_frozen)
qed

definition archived_drafts :: draft_service where
  "archived_drafts = fold (draft_step flat_hasher) [CreateDraft ''key-1'' sample_draft_request sample_draft_env,
     ArchiveDraft ''poc_abc'' (ClockAt (Aware 9 0))] sample_drafts"

theorem archived_sources_frozen_witness:
  "sources_of (snd (fold (joint_step (draft_step flat_hasher) draft_lookup (source_use flat_hasher))
     [Inr (AttachAsk ''poc_abc'' sample_prepared ''key-1'' sample_source_env)] (archived_drafts, sample_sources))) ''poc_abc'' = []"
proof -
  have make: "make_draft (sample_draft\<lparr>dp_updated_at := Aware 9 0, dp_archive_state := DRAFT_ARCHIVED, dp_archived_at := Some (Aware 9 0)\<rparr>) =
      Some (sample_draft\<lparr>dp_updated_at := Aware 9 0, dp_archive_state := DRAFT_ARCHIVED, dp_archived_at := Some (Aware 9 0)\<rparr>)"
    by code_simp
  obtain s1 where s1: "draft_create flat_hasher sample_draft_request ''key-1'' sample_draft_env sample_drafts =
      (s1, Inr \<lparr>dr_draft = sample_draft, dr_idempotent_replay = False\<rparr>)" "map_of (ds_records s1) ''poc_abc'' = Some sample_draft"
    by (rule sample_draft_create [of flat_hasher])
  have "dp_archive_state sample_draft = DRAFT_ACTIVE" by (simp add: sample_draft_def draft_of_request_def)
  then have "map_of (ds_records archived_drafts) ''poc_abc'' =
      Some (sample_draft\<lparr>dp_updated_at := Aware 9 0, dp_archive_state := DRAFT_ARCHIVED, dp_archived_at := Some (Aware 9 0)\<rparr>)"
    using s1 make sample_ids_ok(1) by (simp add: archived_drafts_def draft_archive_def)
  from archived_sources_frozen [OF sample_drafts_new this [unfolded archived_drafts_def], of
      "[Inr (AttachAsk ''poc_abc'' sample_prepared ''key-1'' sample_source_env)]" sample_sources]
  have "sources_of (snd (fold (joint_step (draft_step flat_hasher) draft_lookup (source_use flat_hasher))
     [Inr (AttachAsk ''poc_abc'' sample_prepared ''key-1'' sample_source_env)] (archived_drafts, sample_sources))) ''poc_abc'' = sources_of sample_sources ''poc_abc''"
    by (simp only: archived_drafts_def) simp
  then show ?thesis by (simp add: sources_of_def sample_sources_def)
qed

lemma redacted_token_example:
  "select_candidates ''api_key=abcdefgh'' [] = [\<lparr>ca_start = 8, ca_end = 16, ca_kind = API_TOKEN, ca_priority = 30, ca_existing = False\<rparr>]"
  "\<not> has_unredacted ''api_key=[REDACTED:API_TOKEN]'' []"
  "\<not> redacted_text_ok ''api_key=[REDACTED:API_TOKEN]''"
  by code_simp+

lemma redacted_token_text: "source_text False 64000 ''api_key=[REDACTED:API_TOKEN]'' = Some ''api_key=[REDACTED:API_TOKEN]''"
  by (simp add: source_text_def control_char_bits)

text \<open>
  The two redaction vocabularies disagree: the transcript redactor replaces an assigned token
  by its own placeholder and allows the result, but the guard of attached sources knows only
  \<open>[SECRET]\<close> and takes the placeholder for a raw secret, so no source with that text is accepted.
\<close>

theorem redacted_token_refused:
  "\<exists>r. redact_transcript ''api_key=abcdefgh'' [] = Inr r \<and> rr_decision r = ALLOW_REDACTED_ONLY \<and>
     make_prepared_source h (p\<lparr>pr_redacted_text := rr_redacted_text r\<rparr>) = None"
proof -
  define r where "r = redacted_result ''api_key=abcdefgh'' []"
  have "redact_transcript ''api_key=abcdefgh'' [] = Inr r"
    by (simp add: redact_total normalize_customer_terms_def r_def)
  moreover have "rr_redacted_text r = ''api_key=[REDACTED:API_TOKEN]''"
    using redacted_token_example(1) by (simp add: r_def redacted_result_fields replace_spans_def placeholder_def)
  moreover have "rr_decision r = ALLOW_REDACTED_ONLY"
    using redacted_token_example(1,2) by (simp add: r_def redacted_result_fields replace_spans_def placeholder_def)
  moreover have "make_prepared_source h (p\<lparr>pr_redacted_text := ''api_key=[REDACTED:API_TOKEN]''\<rparr>) = None"
    using redacted_token_example(3) redacted_token_text by (simp add: make_prepared_source_def prepared_fields_ok_def)
  ultimately show ?thesis by (intro exI [of _ r]) simp
qed

end
