(* ===== verification/Proposal_Review.thy ===== *)
theory Proposal_Review
  imports Poc_Sources Redaction
begin

section \<open>Human triage of proposals (poc_proposal_review.py)\<close>

text \<open>
  \<open>review_service\<close> is the state of \<open>ProcessLocalProposalReviewService\<close>. The proposals of a POC are
  looked up before the lock is taken, so that what an operation sees of them is its argument and
  may be out of date; fingerprints of everything seen so far, the human decisions and the sources
  under assisted authoring are the state. A guard is entered, publishes a replacement and is left
  again in separate steps.
\<close>

subsection \<open>Texts and models\<close>

text \<open>\<open>^prop_[a-z0-9][a-z0-9_-]{7,95}$\<close> and \<open>^srcpt_[a-z0-9][a-z0-9_-]{7,95}$\<close>\<close>

definition review_id_ok :: "string \<Rightarrow> string \<Rightarrow> bool" where
  "review_id_ok tag s \<longleftrightarrow> starts_with tag s \<and> (case drop (length tag) s of [] \<Rightarrow> False
     | c # rest \<Rightarrow> lower_alnum c \<and> 7 \<le> length rest \<and> length rest \<le> 95 \<and>
         list_all (\<lambda>d. lower_alnum d \<or> d = CHR ''_'' \<or> d = CHR ''-'') rest)"

abbreviation proposal_id_ok :: "string \<Rightarrow> bool" where "proposal_id_ok \<equiv> review_id_ok ''prop_''"
abbreviation receipt_id_ok :: "string \<Rightarrow> bool" where "receipt_id_ok \<equiv> review_id_ok ''srcpt_''"

definition already_redacted :: "string \<Rightarrow> bool" where
  "already_redacted t \<longleftrightarrow> (case redact_transcript t [] of Inl e \<Rightarrow> False
     | Inr r \<Rightarrow> assert_redaction_egress r [] = Inr t)"

definition safe_text :: "nat \<Rightarrow> bool \<Rightarrow> string \<Rightarrow> string option" where
  "safe_text maximum single_line t = (let n = py_strip (unify_newlines t) in
     if n = [] then None else if maximum < length n then None
     else if single_line \<and> CHR 10 \<in> set n then None
     else if list_ex (\<lambda>c. c \<noteq> CHR 10 \<and> control_char c) n then None
     else if \<not> already_redacted n then None else Some n)"

datatype proposal_decision = KEEP_FOR_CONTRACT | DISCARD

datatype proposal_state = PROPOSAL_NEEDS_REVIEW | PROPOSAL_KEPT | PROPOSAL_DISCARDED

fun decided_state :: "proposal_decision \<Rightarrow> proposal_state" where
  "decided_state KEEP_FOR_CONTRACT = PROPOSAL_KEPT"
| "decided_state DISCARD = PROPOSAL_DISCARDED"

fun decision_value :: "proposal_decision \<Rightarrow> string" where
  "decision_value KEEP_FOR_CONTRACT = ''KEEP_FOR_CONTRACT''"
| "decision_value DISCARD = ''DISCARD''"

datatype decision_disposition = DECISION_CREATED | DECISION_KEY_REPLAY | DECISION_REPLAY

record source_proposal =
  sp_poc_id :: string
  sp_proposal_id :: string
  sp_source_receipt_id :: string
  sp_source_kind :: source_kind
  sp_source_quote :: string
  sp_normalized_claim :: string

definition proposal_ok :: "source_proposal \<Rightarrow> bool" where
  "proposal_ok x \<longleftrightarrow> poc_id_ok (sp_poc_id x) \<and> proposal_id_ok (sp_proposal_id x) \<and>
     receipt_id_ok (sp_source_receipt_id x) \<and> safe_text 4000 False (sp_source_quote x) = Some (sp_source_quote x) \<and>
     safe_text 2000 False (sp_normalized_claim x) = Some (sp_normalized_claim x)"

record decision_receipt =
  rc_poc_id :: string
  rc_proposal_id :: string
  rc_source_receipt_id :: string
  rc_source_kind :: source_kind
  rc_decision :: proposal_decision
  rc_reviewer :: string
  rc_rationale :: string
  rc_decided_at :: py_datetime

record review_item =
  ri_proposal :: source_proposal
  ri_review_state :: proposal_state
  ri_decision :: "decision_receipt option"

definition review_item_ok :: "review_item \<Rightarrow> bool" where
  "review_item_ok i \<longleftrightarrow> proposal_ok (ri_proposal i) \<and> (case ri_decision i of
     None \<Rightarrow> ri_review_state i = PROPOSAL_NEEDS_REVIEW
   | Some r \<Rightarrow> ri_review_state i = decided_state (rc_decision r) \<and> sp_poc_id (ri_proposal i) = rc_poc_id r \<and>
       sp_proposal_id (ri_proposal i) = rc_proposal_id r \<and>
       sp_source_receipt_id (ri_proposal i) = rc_source_receipt_id r \<and> sp_source_kind (ri_proposal i) = rc_source_kind r)"

record decision_result =
  de_receipt :: decision_receipt
  de_disposition :: decision_disposition

record review_key_record =
  rk_request_sha256 :: string
  rk_poc_id :: string
  rk_proposal_id :: string

datatype review_error = ReviewInvalid | ReviewLookupUnavailable | ReviewProposalUnavailable | ReviewCrossPOC
  | ReviewStaleProposal | ReviewDecisionConflict | ReviewIdempotencyConflict | ReviewCapacityExceeded
  | ReviewValueError | ReviewValidationError | ReviewCallbackError | ReviewKeyError

datatype proposal_origin = INTAKE_A2 | ASSISTED_A3

subsection \<open>Digests\<close>

definition review_key_digest :: "hasher \<Rightarrow> string \<Rightarrow> string" where
  "review_key_digest h k = text_sha h (''exitspec-proposal-review-idempotency-key-v1'' @ [CHR 0x00]) k"

definition derive_proposal_id :: "hasher \<Rightarrow> string \<Rightarrow> string \<Rightarrow> string \<Rightarrow> review_error + string" where
  "derive_proposal_id h poc receipt identity = (if \<not> poc_id_ok poc then Inl ReviewInvalid
     else if \<not> receipt_id_ok receipt then Inl ReviewInvalid
     else if identity = [] \<or> 200 < length identity then Inl ReviewInvalid
     else Inr (''prop_'' @ take 32 (text_sha h (''exitspec-safe-proposal-id-v1'' @ [CHR 0x00])
       (poc @ [CHR 0x00] @ receipt @ [CHR 0x00] @ identity))))"

definition proposal_json :: "source_proposal \<Rightarrow> json" where
  "proposal_json x = JObj [(''poc_id'', JStr (sp_poc_id x)), (''proposal_id'', JStr (sp_proposal_id x)),
     (''source_receipt_id'', JStr (sp_source_receipt_id x)), (''source_kind'', JStr (source_kind_value (sp_source_kind x))),
     (''source_quote'', JStr (sp_source_quote x)), (''normalized_claim'', JStr (sp_normalized_claim x)),
     (''state'', JStr ''NEEDS_REVIEW'')]"

definition proposal_fingerprint :: "hasher \<Rightarrow> source_proposal \<Rightarrow> string" where
  "proposal_fingerprint h x = json_sha h (''exitspec-source-bound-proposal-v1'' @ [CHR 0x00]) (proposal_json x)"

definition decision_request_sha256 :: "hasher \<Rightarrow> string \<Rightarrow> string \<Rightarrow> proposal_decision \<Rightarrow> string \<Rightarrow> string \<Rightarrow> string" where
  "decision_request_sha256 h poc pid d reviewer rationale = json_sha h (''exitspec-proposal-decision-request-v1'' @ [CHR 0x00])
     (JObj [(''decision'', JStr (decision_value d)), (''poc_id'', JStr poc), (''proposal_id'', JStr pid),
       (''rationale'', JStr rationale), (''reviewer'', JStr reviewer)])"

subsection \<open>The service\<close>

record review_service =
  rv_max_proposals_per_poc :: nat
  rv_max_known_proposals :: nat
  rv_max_decisions :: nat
  rv_max_idempotency_records :: nat
  rv_fingerprints :: "((string \<times> string) \<times> string) list"
  rv_proposal_owners :: "(string \<times> string) list"
  rv_decisions :: "((string \<times> string) \<times> decision_receipt) list"
  rv_idempotency :: "(string \<times> review_key_record) list"
  rv_authoring_current :: "((string \<times> string) \<times> string list) list"
  rv_authoring_guards :: "(string \<times> string) list"

type_synonym 'a review_act = "(review_service, review_error, 'a) action"

definition review_service_new :: "nat \<Rightarrow> nat \<Rightarrow> nat \<Rightarrow> nat \<Rightarrow> review_error + review_service" where
  "review_service_new per_poc known decisions keys = (
     if \<not> (1 \<le> per_poc \<and> per_poc \<le> 8192) then Inl ReviewValueError
     else if \<not> (1 \<le> known \<and> known \<le> 100000) then Inl ReviewValueError
     else if \<not> (1 \<le> decisions \<and> decisions \<le> 100000) then Inl ReviewValueError
     else if \<not> (1 \<le> keys \<and> keys \<le> 100000) then Inl ReviewValueError
     else Inr \<lparr>rv_max_proposals_per_poc = per_poc, rv_max_known_proposals = known, rv_max_decisions = decisions,
       rv_max_idempotency_records = keys, rv_fingerprints = [], rv_proposal_owners = [], rv_decisions = [],
       rv_idempotency = [], rv_authoring_current = [], rv_authoring_guards = []\<rparr>)"

text \<open>
  What the injected lookup yields: an error of this service, another exception, something that is
  no sequence, or a sequence of which an element may be something else than a proposal.
\<close>

datatype proposals_answer = ProposalsRaise review_error | ProposalsFail | ProposalsOther
  | Proposals "source_proposal option list"

definition review_lookup :: "review_service \<Rightarrow> string \<Rightarrow> proposals_answer \<Rightarrow> review_error + source_proposal list" where
  "review_lookup s poc answer = (case answer of
     ProposalsRaise e \<Rightarrow> Inl e
   | ProposalsFail \<Rightarrow> Inl ReviewLookupUnavailable
   | ProposalsOther \<Rightarrow> Inl ReviewLookupUnavailable
   | Proposals raw \<Rightarrow>
       if rv_max_proposals_per_poc s < length raw then Inl ReviewCapacityExceeded
       else if list_ex (\<lambda>x. case x of None \<Rightarrow> True | Some p \<Rightarrow> sp_poc_id p \<noteq> poc) raw then Inl ReviewLookupUnavailable
       else if \<not> distinct (map (sp_proposal_id \<circ> the) raw) then Inl ReviewLookupUnavailable
       else Inr (map the raw))"

text \<open>The scan of \<open>_reconcile_locked\<close>: the two dicts after the proposals, and how many were new.\<close>

type_synonym known_proposals = "((string \<times> string) \<times> string) list \<times> (string \<times> string) list \<times> nat"

fun reconcile_scan :: "hasher \<Rightarrow> string \<Rightarrow> known_proposals \<Rightarrow> source_proposal list \<Rightarrow> review_error + known_proposals" where
  "reconcile_scan h poc known [] = Inr known"
| "reconcile_scan h poc (fps, owners, n) (x # xs) = (
     if (case map_of owners (sp_proposal_id x) of None \<Rightarrow> False | Some owner \<Rightarrow> owner \<noteq> poc) then Inl ReviewCrossPOC
     else (case map_of fps (poc, sp_proposal_id x) of
       Some fp \<Rightarrow> if fp \<noteq> proposal_fingerprint h x then Inl ReviewStaleProposal
         else reconcile_scan h poc (fps, owners, n) xs
     | None \<Rightarrow> reconcile_scan h poc (AList.update (poc, sp_proposal_id x) (proposal_fingerprint h x) fps,
         AList.update (sp_proposal_id x) poc owners, n + 1) xs))"

definition review_reconcile :: "hasher \<Rightarrow> string \<Rightarrow> source_proposal list \<Rightarrow> unit review_act" where
  "review_reconcile h poc xs = (\<lambda>s. case reconcile_scan h poc (rv_fingerprints s, rv_proposal_owners s, 0) xs of
     Inl e \<Rightarrow> (s, Inl e)
   | Inr (fps, owners, n) \<Rightarrow>
       if rv_max_known_proposals s < length (rv_fingerprints s) + n then (s, Inl ReviewCapacityExceeded)
       else (s\<lparr>rv_fingerprints := fps, rv_proposal_owners := owners\<rparr>, Inr ()))"

definition review_current :: "string \<Rightarrow> source_proposal list \<Rightarrow> string \<Rightarrow> review_service \<Rightarrow> review_error + source_proposal" where
  "review_current poc xs pid s = (case find (\<lambda>x. sp_proposal_id x = pid) xs of
     Some x \<Rightarrow> (case map_of (rv_authoring_current s) (poc, sp_source_receipt_id x) of
         None \<Rightarrow> Inr x
       | Some ids \<Rightarrow> if pid \<notin> set ids then Inl ReviewStaleProposal else Inr x)
   | None \<Rightarrow>
       if (case map_of (rv_proposal_owners s) pid of None \<Rightarrow> False | Some owner \<Rightarrow> owner \<noteq> poc) then Inl ReviewCrossPOC
       else if map_of (rv_fingerprints s) (poc, pid) \<noteq> None then Inl ReviewStaleProposal
       else Inl ReviewProposalUnavailable)"

definition overlay_item :: "review_service \<Rightarrow> string \<Rightarrow> source_proposal \<Rightarrow> review_item" where
  "overlay_item s poc x = (let r = map_of (rv_decisions s) (poc, sp_proposal_id x) in
     \<lparr>ri_proposal = x, ri_review_state = (case r of None \<Rightarrow> PROPOSAL_NEEDS_REVIEW | Some d \<Rightarrow> decided_state (rc_decision d)),
      ri_decision = r\<rparr>)"

definition review_list :: "hasher \<Rightarrow> string \<Rightarrow> proposals_answer \<Rightarrow> review_item list review_act" where
  "review_list h poc answer = (\<lambda>s. if \<not> poc_id_ok poc then (s, Inl ReviewInvalid)
     else case review_lookup s poc answer of Inl e \<Rightarrow> (s, Inl e)
       | Inr xs \<Rightarrow> seq (review_reconcile h poc xs) (\<lambda>u t. let items = map (overlay_item t poc) xs in
           (t, if list_ex (\<lambda>i. \<not> review_item_ok i) items then Inl ReviewValidationError else Inr items)) s)"

definition source_has_decision :: "hasher \<Rightarrow> string \<Rightarrow> string \<Rightarrow> proposals_answer \<Rightarrow> bool review_act" where
  "source_has_decision h poc receipt answer = (\<lambda>s. if py_strip receipt = [] then (s, Inl ReviewInvalid)
     else seq (review_list h poc answer) (\<lambda>items. ret (list_ex (\<lambda>i. sp_source_receipt_id (ri_proposal i) = receipt \<and>
       ri_decision i \<noteq> None) items)) s)"

text \<open>What the optional callback that selects the proposals of a snapshot yields.\<close>

datatype scope_answer = NoScope | ScopeRaises review_error | ScopeFails | ScopeItems "review_item option list"

definition review_scope :: "review_service \<Rightarrow> string \<Rightarrow> scope_answer \<Rightarrow> review_error + source_proposal list option" where
  "review_scope s poc scope = (case scope of
     NoScope \<Rightarrow> Inr None
   | ScopeRaises e \<Rightarrow> Inl e
   | ScopeFails \<Rightarrow> Inl ReviewLookupUnavailable
   | ScopeItems raw \<Rightarrow>
       if rv_max_proposals_per_poc s < length raw \<or>
         list_ex (\<lambda>i. case i of None \<Rightarrow> True | Some x \<Rightarrow> sp_poc_id (ri_proposal x) \<noteq> poc) raw \<or>
         \<not> distinct (map (sp_proposal_id \<circ> ri_proposal \<circ> the) raw)
       then Inl ReviewLookupUnavailable else Inr (Some (map (ri_proposal \<circ> the) raw)))"

text \<open>
  One selected proposal: it must be current, be what was selected, and not be under a guard. A
  selection without a scope compares with nothing.
\<close>

definition snapshot_row :: "review_service \<Rightarrow> string \<Rightarrow> source_proposal list \<Rightarrow> bool \<Rightarrow> source_proposal \<Rightarrow> review_error + source_proposal" where
  "snapshot_row s poc xs scoped x = (case review_current poc xs (sp_proposal_id x) s of Inl e \<Rightarrow> Inl e
   | Inr y \<Rightarrow> if scoped \<and> x \<noteq> y then Inl ReviewStaleProposal
       else if (poc, sp_source_receipt_id y) \<in> set (rv_authoring_guards s) then Inl ReviewDecisionConflict else Inr y)"

fun snapshot_rows :: "review_service \<Rightarrow> string \<Rightarrow> source_proposal list \<Rightarrow> bool \<Rightarrow> source_proposal list \<Rightarrow> review_error + source_proposal list" where
  "snapshot_rows s poc xs scoped [] = Inr []"
| "snapshot_rows s poc xs scoped (x # rest) = (case snapshot_row s poc xs scoped x of Inl e \<Rightarrow> Inl e
   | Inr y \<Rightarrow> (case snapshot_rows s poc xs scoped rest of Inl e \<Rightarrow> Inl e | Inr ys \<Rightarrow> Inr (y # ys)))"

definition row_origin :: "review_service \<Rightarrow> string \<Rightarrow> source_proposal \<Rightarrow> proposal_origin" where
  "row_origin s poc x = (if map_of (rv_authoring_current s) (poc, sp_source_receipt_id x) = None then INTAKE_A2 else ASSISTED_A3)"

definition review_snapshot :: "hasher \<Rightarrow> string \<Rightarrow> scope_answer \<Rightarrow> proposals_answer \<Rightarrow> (review_item \<times> proposal_origin) list review_act" where
  "review_snapshot h poc scope answer = (\<lambda>s. if \<not> poc_id_ok poc then (s, Inl ReviewInvalid)
     else case review_scope s poc scope of Inl e \<Rightarrow> (s, Inl e)
       | Inr selected \<Rightarrow> (case review_lookup s poc answer of Inl e \<Rightarrow> (s, Inl e)
         | Inr xs \<Rightarrow> (case snapshot_rows s poc xs (selected \<noteq> None) (case selected of None \<Rightarrow> xs | Some ys \<Rightarrow> ys) of
             Inl e \<Rightarrow> (s, Inl e)
           | Inr rows \<Rightarrow> seq (review_reconcile h poc rows) (\<lambda>u t.
               let items = map (\<lambda>x. (overlay_item t poc x, row_origin t poc x)) rows in
               (t, if list_ex (\<lambda>(i, k). \<not> review_item_ok i) items then Inl ReviewValidationError else Inr items)) s)))"

subsection \<open>The guard of an authoring commit\<close>

definition guard_enter :: "hasher \<Rightarrow> string \<Rightarrow> string \<Rightarrow> proposals_answer \<Rightarrow> unit review_act" where
  "guard_enter h poc receipt answer = (\<lambda>s. if \<not> poc_id_ok poc then (s, Inl ReviewInvalid)
     else if \<not> receipt_id_ok receipt then (s, Inl ReviewInvalid)
     else case review_lookup s poc answer of Inl e \<Rightarrow> (s, Inl e)
       | Inr xs \<Rightarrow> seq (review_reconcile h poc xs) (\<lambda>u t.
           if (poc, receipt) \<in> set (rv_authoring_guards t) then (t, Inl ReviewDecisionConflict)
           else if list_ex (\<lambda>x. sp_source_receipt_id x = receipt \<and> map_of (rv_decisions t) (poc, sp_proposal_id x) \<noteq> None) xs
             then (t, Inl ReviewDecisionConflict)
           else (t\<lparr>rv_authoring_guards := (poc, receipt) # rv_authoring_guards t\<rparr>, Inr ())) s)"

definition guard_exit :: "string \<times> string \<Rightarrow> review_service \<Rightarrow> review_service" where
  "guard_exit key s = s\<lparr>rv_authoring_guards := removeAll key (rv_authoring_guards s)\<rparr>"

text \<open>The token: what \<open>prepare\<close> leaves in it, and \<open>commit\<close>.\<close>

record guard_token =
  gt_source_key :: "string \<times> string"
  gt_proposal_ids :: "string list option"
  gt_current :: "((string \<times> string) \<times> string list) list option"

definition new_token :: "string \<times> string \<Rightarrow> guard_token" where
  "new_token key = \<lparr>gt_source_key = key, gt_proposal_ids = None, gt_current = None\<rparr>"

definition guard_prepare :: "string list \<Rightarrow> review_service \<Rightarrow> guard_token \<Rightarrow> review_error + guard_token" where
  "guard_prepare ids s g = (if gt_proposal_ids g \<noteq> None then Inl ReviewInvalid
     else if ids = [] then Inl ReviewInvalid
     else if 1024 < length ids then Inl ReviewCapacityExceeded
     else if list_ex (\<lambda>i. \<not> proposal_id_ok i) ids then Inl ReviewInvalid
     else if \<not> distinct ids then Inl ReviewInvalid
     else Inr (g\<lparr>gt_proposal_ids := Some ids, gt_current := Some (AList.update (gt_source_key g) ids (rv_authoring_current s))\<rparr>))"

definition guard_commit :: "guard_token \<Rightarrow> unit review_act" where
  "guard_commit g = (\<lambda>s. if gt_proposal_ids g = None then (s, Inl ReviewInvalid)
     else case gt_current g of None \<Rightarrow> (s, Inl ReviewInvalid)
       | Some current \<Rightarrow> (s\<lparr>rv_authoring_current := current\<rparr>, Inr ()))"

text \<open>What the owner of a guard does while it holds the lock: prepare, then commit.\<close>

definition guard_publish :: "string \<times> string \<Rightarrow> string list \<Rightarrow> unit review_act" where
  "guard_publish key ids = (\<lambda>s. case guard_prepare ids s (new_token key) of Inl e \<Rightarrow> (s, Inl e) | Inr g \<Rightarrow> guard_commit g s)"

subsection \<open>Deciding\<close>

record decision_request =
  rq_poc_id :: string
  rq_proposal_id :: string
  rq_decision :: proposal_decision
  rq_reviewer :: string
  rq_rationale :: string

definition decision_of :: "decision_request \<Rightarrow> string \<Rightarrow> string \<Rightarrow> source_proposal \<Rightarrow> py_datetime \<Rightarrow> decision_receipt" where
  "decision_of q reviewer rationale x now = \<lparr>rc_poc_id = rq_poc_id q, rc_proposal_id = rq_proposal_id q,
     rc_source_receipt_id = sp_source_receipt_id x, rc_source_kind = sp_source_kind x, rc_decision = rq_decision q,
     rc_reviewer = reviewer, rc_rationale = rationale, rc_decided_at = now\<rparr>"

text \<open>The locked part after the reconciliation, on the normalised texts.\<close>

definition decide_locked :: "hasher \<Rightarrow> decision_request \<Rightarrow> string \<Rightarrow> string \<Rightarrow> string \<Rightarrow> source_proposal list \<Rightarrow> clock_value \<Rightarrow> decision_result review_act" where
  "decide_locked h q reviewer rationale key xs clock = (\<lambda>s.
     let poc = rq_poc_id q; pid = rq_proposal_id q; kd = review_key_digest h key;
         digest = decision_request_sha256 h poc pid (rq_decision q) reviewer rationale;
         entry = \<lparr>rk_request_sha256 = digest, rk_poc_id = poc, rk_proposal_id = pid\<rparr> in
     if list_ex (\<lambda>x. sp_proposal_id x = pid \<and> (poc, sp_source_receipt_id x) \<in> set (rv_authoring_guards s)) xs
     then (s, Inl ReviewDecisionConflict)
     else (case review_current poc xs pid s of Inl e \<Rightarrow> (s, Inl e)
     | Inr x \<Rightarrow> (case map_of (rv_idempotency s) kd of
       Some prior \<Rightarrow>
         if rk_request_sha256 prior \<noteq> digest \<or> rk_poc_id prior \<noteq> poc \<or> rk_proposal_id prior \<noteq> pid
         then (s, Inl ReviewIdempotencyConflict)
         else (case map_of (rv_decisions s) (rk_poc_id prior, rk_proposal_id prior) of None \<Rightarrow> (s, Inl ReviewKeyError)
           | Some r \<Rightarrow> (s, Inr \<lparr>de_receipt = r, de_disposition = DECISION_KEY_REPLAY\<rparr>))
     | None \<Rightarrow> (case map_of (rv_decisions s) (poc, pid) of
         Some r \<Rightarrow>
           if rc_decision r \<noteq> rq_decision q \<or> rc_reviewer r \<noteq> reviewer \<or> rc_rationale r \<noteq> rationale
           then (s, Inl ReviewDecisionConflict)
           else if rv_max_idempotency_records s \<le> length (rv_idempotency s) then (s, Inl ReviewCapacityExceeded)
           else (s\<lparr>rv_idempotency := AList.update kd entry (rv_idempotency s)\<rparr>,
             Inr \<lparr>de_receipt = r, de_disposition = DECISION_REPLAY\<rparr>)
       | None \<Rightarrow>
           if rv_max_decisions s \<le> length (rv_decisions s) then (s, Inl ReviewCapacityExceeded)
           else if rv_max_idempotency_records s \<le> length (rv_idempotency s) then (s, Inl ReviewCapacityExceeded)
           else (case clock of
             ClockRaises \<Rightarrow> (s, Inl ReviewCallbackError)
           | ClockOther \<Rightarrow> (s, Inl ReviewLookupUnavailable)
           | ClockAt now \<Rightarrow>
               if \<not> dt_aware now then (s, Inl ReviewLookupUnavailable)
               else (let r = decision_of q reviewer rationale x now in
                 (s\<lparr>rv_decisions := AList.update (poc, pid) r (rv_decisions s),
                    rv_idempotency := AList.update kd entry (rv_idempotency s)\<rparr>,
                  Inr \<lparr>de_receipt = r, de_disposition = DECISION_CREATED\<rparr>)))))))"

definition review_decide :: "hasher \<Rightarrow> decision_request \<Rightarrow> string \<Rightarrow> proposals_answer \<Rightarrow> clock_value \<Rightarrow> decision_result review_act" where
  "review_decide h q key answer clock = (\<lambda>s.
     if \<not> poc_id_ok (rq_poc_id q) then (s, Inl ReviewInvalid)
     else if \<not> proposal_id_ok (rq_proposal_id q) then (s, Inl ReviewInvalid)
     else case safe_text 160 True (rq_reviewer q) of None \<Rightarrow> (s, Inl ReviewValueError)
     | Some reviewer \<Rightarrow> (case safe_text 2000 False (rq_rationale q) of None \<Rightarrow> (s, Inl ReviewValueError)
       | Some rationale \<Rightarrow>
         if \<not> draft_key_ok key then (s, Inl ReviewInvalid)
         else (case review_lookup s (rq_poc_id q) answer of Inl e \<Rightarrow> (s, Inl e)
           | Inr xs \<Rightarrow> seq (review_reconcile h (rq_poc_id q) xs) (\<lambda>u. decide_locked h q reviewer rationale key xs clock) s)))"

end
