(* ===== verification/Proposal_Review_Laws.thy ===== *)
theory Proposal_Review_Laws
  imports Proposal_Review Draft_Pocs_Laws Redaction_Laws
begin

section \<open>Laws of the human triage\<close>

text \<open>
  Operations interleave freely and see whatever the lookup of proposals told them. The invariant
  ties every decision to the fingerprint of the proposal it was made on; the laws are that a
  decision is final and stays on what the reviewer saw, and that the replacement of a source by
  assisted authoring leaves no room for a decision on what it replaced.
\<close>

lemma safe_text_idem: "safe_text m single t = Some n \<Longrightarrow> safe_text m single n = Some n"
proof -
  have cr: "CHR 13 \<notin> set (unify_newlines s)" for s
    by (induction s rule: unify_newlines.induct) (auto split: list.splits if_splits)
  have id: "CHR 13 \<notin> set s \<Longrightarrow> unify_newlines s = s" for s
    by (induction s rule: unify_newlines.induct) auto
  assume "safe_text m single t = Some n"
  moreover from this have n: "n = py_strip (unify_newlines t)" by (auto simp: safe_text_def Let_def split: if_splits)
  have "set (py_strip s) \<subseteq> set s" for s
    by (auto simp: py_strip_def dest!: set_dropWhileD)
  then have "CHR 13 \<notin> set n" using cr [of t] unfolding n by blast
  then have "unify_newlines n = n" by (rule id)
  ultimately show ?thesis using n by (auto simp: safe_text_def Let_def split: if_splits)
qed

subsection \<open>Reconciliation\<close>

definition owners_agree :: "((string \<times> string) \<times> string) list \<Rightarrow> (string \<times> string) list \<Rightarrow> bool" where
  "owners_agree fps owners \<longleftrightarrow> (\<forall>poc pid fp. map_of fps (poc, pid) = Some fp \<longrightarrow> map_of owners pid = Some poc)"

lemma reconcile_scan_facts:
  assumes "reconcile_scan h poc (fps, owners, n) xs = Inr (fps', owners', n')" and "owners_agree fps owners"
  shows "owners_agree fps' owners' \<and> (\<forall>k fp. map_of fps k = Some fp \<longrightarrow> map_of fps' k = Some fp) \<and>
     (\<forall>x \<in> set xs. map_of fps' (poc, sp_proposal_id x) = Some (proposal_fingerprint h x)) \<and>
     length fps' + n = length fps + n'"
  using assms
proof (induction xs arbitrary: fps owners n)
  case Nil
  then show ?case by simp
next
  case (Cons x xs)
  have owner: "\<not> (case map_of owners (sp_proposal_id x) of None \<Rightarrow> False | Some owner \<Rightarrow> owner \<noteq> poc)"
    using Cons.prems(1) by (auto split: if_splits)
  show ?case
  proof (cases "map_of fps (poc, sp_proposal_id x)")
    case (Some fp)
    then have "fp = proposal_fingerprint h x" "reconcile_scan h poc (fps, owners, n) xs = Inr (fps', owners', n')"
      using Cons.prems(1) owner by (auto split: if_splits)
    then show ?thesis using Cons.IH Cons.prems(2) Some by (metis insert_iff list.simps(15))
  next
    case None
    let ?fps = "AList.update (poc, sp_proposal_id x) (proposal_fingerprint h x) fps"
    let ?owners = "AList.update (sp_proposal_id x) poc owners"
    have scan: "reconcile_scan h poc (?fps, ?owners, n + 1) xs = Inr (fps', owners', n')"
      using Cons.prems(1) owner None by simp
    have "map_of ?owners pid = Some p" if "map_of ?fps (p, pid) = Some fp" for p pid fp
    proof (cases "map_of fps (p, pid)")
      case None': None
      then show ?thesis using that by (auto split: if_splits)
    next
      case (Some fp')
      then have "map_of owners pid = Some p" using Cons.prems(2) by (simp add: owners_agree_def)
      then show ?thesis using owner by auto
    qed
    then have "owners_agree ?fps ?owners" unfolding owners_agree_def by blast
    note rest = Cons.IH [OF scan this]
    have "map_of ?fps k = Some fp" if "map_of fps k = Some fp" for k fp using that None by auto
    moreover have "map_of fps' (poc, sp_proposal_id x) = Some (proposal_fingerprint h x)" using rest by simp
    moreover have "length ?fps = Suc (length fps)" using None by (rule length_update_new)
    ultimately show ?thesis using rest by auto
  qed
qed

text \<open>What a step may do to the proposals known: it only adds to them.\<close>

definition extends :: "review_service \<Rightarrow> review_service \<Rightarrow> bool" where
  "extends s t \<longleftrightarrow> (\<forall>k fp. map_of (rv_fingerprints s) k = Some fp \<longrightarrow> map_of (rv_fingerprints t) k = Some fp)"

definition review_inv :: "hasher \<Rightarrow> review_service \<Rightarrow> bool" where
  "review_inv h s \<longleftrightarrow> owners_agree (rv_fingerprints s) (rv_proposal_owners s) \<and>
     (\<forall>poc pid r. map_of (rv_decisions s) (poc, pid) = Some r \<longrightarrow> rc_poc_id r = poc \<and> rc_proposal_id r = pid \<and>
       (\<exists>x. map_of (rv_fingerprints s) (poc, pid) = Some (proposal_fingerprint h x) \<and> sp_poc_id x = poc \<and>
         sp_proposal_id x = pid \<and> sp_source_receipt_id x = rc_source_receipt_id r \<and> sp_source_kind x = rc_source_kind r)) \<and>
     (\<forall>k e. map_of (rv_idempotency s) k = Some e \<longrightarrow> map_of (rv_decisions s) (rk_poc_id e, rk_proposal_id e) \<noteq> None) \<and>
     length (rv_fingerprints s) \<le> rv_max_known_proposals s \<and> length (rv_decisions s) \<le> rv_max_decisions s \<and>
     length (rv_idempotency s) \<le> rv_max_idempotency_records s"

text \<open>Everything but the known proposals is the same.\<close>

definition same_but_known :: "review_service \<Rightarrow> review_service \<Rightarrow> bool" where
  "same_but_known s t \<longleftrightarrow> rv_decisions t = rv_decisions s \<and> rv_idempotency t = rv_idempotency s \<and>
     rv_authoring_current t = rv_authoring_current s \<and> rv_authoring_guards t = rv_authoring_guards s \<and>
     rv_max_known_proposals t = rv_max_known_proposals s \<and> rv_max_decisions t = rv_max_decisions s \<and>
     rv_max_idempotency_records t = rv_max_idempotency_records s \<and> rv_max_proposals_per_poc t = rv_max_proposals_per_poc s"

lemma same_but_known_refl [simp]: "same_but_known s s"
  by (simp add: same_but_known_def)

lemma reconcile_facts:
  assumes "review_inv h s"
  obtains (refused) e where "review_reconcile h poc xs s = (s, Inl e)"
    | (grown) t where "review_reconcile h poc xs s = (t, Inr ())" "same_but_known s t" "extends s t" "review_inv h t"
        "\<And>x. x \<in> set xs \<Longrightarrow> map_of (rv_fingerprints t) (poc, sp_proposal_id x) = Some (proposal_fingerprint h x)"
proof (cases "review_reconcile h poc xs s")
  case (Pair t r)
  show ?thesis
  proof (cases r)
    case (Inl e)
    then show ?thesis using Pair refused
      by (auto simp: review_reconcile_def split: sum.splits prod.splits if_splits)
  next
    case (Inr u)
    then obtain fps owners n where scan: "reconcile_scan h poc (rv_fingerprints s, rv_proposal_owners s, 0) xs = Inr (fps, owners, n)"
        "length (rv_fingerprints s) + n \<le> rv_max_known_proposals s" "t = s\<lparr>rv_fingerprints := fps, rv_proposal_owners := owners\<rparr>"
      using Pair by (auto simp: review_reconcile_def split: sum.splits prod.splits if_splits)
    have "owners_agree (rv_fingerprints s) (rv_proposal_owners s)" using assms by (simp add: review_inv_def)
    note facts = reconcile_scan_facts [OF scan(1) this]
    have "extends s t" using facts scan(3) by (simp add: extends_def)
    moreover have "same_but_known s t" using scan(3) by (simp add: same_but_known_def)
    moreover have "review_inv h t" using assms facts scan(2,3) by (fastforce simp: review_inv_def)
    moreover have "review_reconcile h poc xs s = (t, Inr ())" using Pair Inr by simp
    ultimately show ?thesis using facts scan(3) by (intro grown) auto
  qed
qed

subsection \<open>What a decision does\<close>

lemma review_current_Inr:
  assumes "review_current poc xs pid s = Inr x"
  shows "x \<in> set xs \<and> sp_proposal_id x = pid \<and>
    (\<forall>ids. map_of (rv_authoring_current s) (poc, sp_source_receipt_id x) = Some ids \<longrightarrow> pid \<in> set ids)"
proof -
  obtain y where "find (\<lambda>x. sp_proposal_id x = pid) xs = Some y"
    using assms by (auto simp: review_current_def split: option.splits if_splits)
  then show ?thesis using assms
    by (auto simp: review_current_def find_Some_iff split: option.splits if_splits)
qed

lemma decide_locked_cases:
  fixes h :: hasher and q :: decision_request and reviewer rationale key :: string and xs :: "source_proposal list"
    and clock :: clock_value and s :: review_service
  assumes inv: "review_inv h s"
  defines "dkey \<equiv> (rq_poc_id q, rq_proposal_id q)" and "kd \<equiv> review_key_digest h key"
    and "entry \<equiv> \<lparr>rk_request_sha256 = decision_request_sha256 h (rq_poc_id q) (rq_proposal_id q) (rq_decision q) reviewer rationale,
      rk_poc_id = rq_poc_id q, rk_proposal_id = rq_proposal_id q\<rparr>"
  obtains (refused) e where "decide_locked h q reviewer rationale key xs clock s = (s, Inl e)"
    | (answered) x r d keys where "review_current (rq_poc_id q) xs (rq_proposal_id q) s = Inr x"
        "(rq_poc_id q, sp_source_receipt_id x) \<notin> set (rv_authoring_guards s)"
        "map_of (rv_decisions s) dkey = Some r" "d \<noteq> DECISION_CREATED"
        "keys = rv_idempotency s \<or> keys = AList.update kd entry (rv_idempotency s) \<and> map_of (rv_idempotency s) kd = None \<and>
           length (rv_idempotency s) < rv_max_idempotency_records s"
        "decide_locked h q reviewer rationale key xs clock s = (s\<lparr>rv_idempotency := keys\<rparr>, Inr \<lparr>de_receipt = r, de_disposition = d\<rparr>)"
    | (created) x r now where "review_current (rq_poc_id q) xs (rq_proposal_id q) s = Inr x"
        "(rq_poc_id q, sp_source_receipt_id x) \<notin> set (rv_authoring_guards s)"
        "map_of (rv_decisions s) dkey = None" "map_of (rv_idempotency s) kd = None" "length (rv_decisions s) < rv_max_decisions s"
        "length (rv_idempotency s) < rv_max_idempotency_records s" "dt_aware now" "r = decision_of q reviewer rationale x now"
        "decide_locked h q reviewer rationale key xs clock s = (s\<lparr>rv_decisions := AList.update dkey r (rv_decisions s),
           rv_idempotency := AList.update kd entry (rv_idempotency s)\<rparr>, Inr \<lparr>de_receipt = r, de_disposition = DECISION_CREATED\<rparr>)"
proof (cases "snd (decide_locked h q reviewer rationale key xs clock s)")
  case (Inl e)
  then have "decide_locked h q reviewer rationale key xs clock s = (s, Inl e)"
    by (auto simp: decide_locked_def Let_def split: if_splits sum.splits option.splits clock_value.splits)
  then show ?thesis by (rule refused)
next
  case (Inr res)
  have open_source: "\<not> list_ex (\<lambda>x. sp_proposal_id x = rq_proposal_id q \<and> (rq_poc_id q, sp_source_receipt_id x) \<in> set (rv_authoring_guards s)) xs"
    using Inr by (auto simp: decide_locked_def Let_def split: if_splits)
  obtain x where x: "review_current (rq_poc_id q) xs (rq_proposal_id q) s = Inr x"
    using Inr open_source by (cases "review_current (rq_poc_id q) xs (rq_proposal_id q) s") (auto simp: decide_locked_def Let_def)
  have free: "(rq_poc_id q, sp_source_receipt_id x) \<notin> set (rv_authoring_guards s)"
    using open_source review_current_Inr [OF x] by (auto simp: list_ex_iff)
  show ?thesis
  proof (cases "map_of (rv_idempotency s) kd")
    case (Some prior)
    then have prior: "rk_poc_id prior = rq_poc_id q" "rk_proposal_id prior = rq_proposal_id q"
        "rk_request_sha256 prior = rk_request_sha256 entry"
      using Inr open_source x by (auto simp: decide_locked_def Let_def kd_def entry_def split: if_splits option.splits)
    obtain r where "map_of (rv_decisions s) dkey = Some r" using inv Some prior unfolding review_inv_def dkey_def by fastforce
    then show ?thesis using Some prior open_source x free
      by (intro answered [of x r DECISION_KEY_REPLAY "rv_idempotency s"])
         (simp_all add: decide_locked_def Let_def kd_def entry_def dkey_def)
  next
    case None
    show ?thesis
    proof (cases "map_of (rv_decisions s) dkey")
      case (Some r)
      then have "rc_decision r = rq_decision q \<and> rc_reviewer r = reviewer \<and> rc_rationale r = rationale \<and>
          length (rv_idempotency s) < rv_max_idempotency_records s"
        using Inr open_source x None by (auto simp: decide_locked_def Let_def kd_def dkey_def split: if_splits)
      then show ?thesis using Some None open_source x free
        by (intro answered [of x r DECISION_REPLAY "AList.update kd entry (rv_idempotency s)"])
           (simp_all add: decide_locked_def Let_def kd_def entry_def dkey_def)
    next
      case none: None
      have caps: "length (rv_decisions s) < rv_max_decisions s" "length (rv_idempotency s) < rv_max_idempotency_records s"
        using Inr open_source x None none by (auto simp: decide_locked_def Let_def kd_def dkey_def split: if_splits)
      obtain now where "clock = ClockAt now" "dt_aware now"
        using Inr open_source x None none caps
        by (cases clock) (auto simp: decide_locked_def Let_def kd_def dkey_def split: if_splits)
      then show ?thesis using None none open_source x free caps
        by (intro created [of x now "decision_of q reviewer rationale x now"])
           (simp_all add: decide_locked_def Let_def kd_def entry_def dkey_def)
    qed
  qed
qed

lemma review_inv_decided:
  assumes inv: "review_inv h t" and new: "map_of (rv_decisions t) (poc, pid) = None" "length (rv_decisions t) < rv_max_decisions t"
      "map_of (rv_idempotency t) kd = None" "length (rv_idempotency t) < rv_max_idempotency_records t"
    and entry: "rk_poc_id e = poc" "rk_proposal_id e = pid"
    and r: "rc_poc_id r = poc" "rc_proposal_id r = pid" "rc_source_receipt_id r = sp_source_receipt_id x" "rc_source_kind r = sp_source_kind x"
    and x: "sp_poc_id x = poc" "sp_proposal_id x = pid" "map_of (rv_fingerprints t) (poc, pid) = Some (proposal_fingerprint h x)"
  shows "review_inv h (t\<lparr>rv_decisions := AList.update (poc, pid) r (rv_decisions t), rv_idempotency := AList.update kd e (rv_idempotency t)\<rparr>)"
    (is "review_inv h ?t")
proof -
  have "rc_poc_id c = p \<and> rc_proposal_id c = i \<and> (\<exists>y. map_of (rv_fingerprints ?t) (p, i) = Some (proposal_fingerprint h y) \<and>
      sp_poc_id y = p \<and> sp_proposal_id y = i \<and> sp_source_receipt_id y = rc_source_receipt_id c \<and> sp_source_kind y = rc_source_kind c)"
    if c: "map_of (rv_decisions ?t) (p, i) = Some c" for p i c
  proof (cases "(p, i) = (poc, pid)")
    case True
    then have "c = r" using c by simp
    then show ?thesis using True r x by auto
  next
    case False
    then have "map_of (rv_decisions t) (p, i) = Some c" using c by (auto split: if_splits)
    then show ?thesis using inv by (simp add: review_inv_def)
  qed
  moreover have "map_of (rv_decisions ?t) (rk_poc_id c, rk_proposal_id c) \<noteq> None" if c: "map_of (rv_idempotency ?t) k = Some c" for k c
  proof (cases "k = kd")
    case True
    then show ?thesis using c entry by simp
  next
    case False
    then have "map_of (rv_idempotency t) k = Some c" using c by simp
    then have "map_of (rv_decisions t) (rk_poc_id c, rk_proposal_id c) \<noteq> None" using inv unfolding review_inv_def by blast
    then show ?thesis by auto
  qed
  moreover have "length (rv_decisions ?t) \<le> rv_max_decisions ?t" "length (rv_idempotency ?t) \<le> rv_max_idempotency_records ?t"
    using new by (simp_all add: length_update_new)
  moreover have "owners_agree (rv_fingerprints ?t) (rv_proposal_owners ?t)" "length (rv_fingerprints ?t) \<le> rv_max_known_proposals ?t"
    using inv by (simp_all add: review_inv_def)
  ultimately show ?thesis unfolding review_inv_def by blast
qed

lemma decide_cases:
  fixes h :: hasher and q :: decision_request and key :: string and answer :: proposals_answer
    and clock :: clock_value and s :: review_service
  assumes inv: "review_inv h s"
  obtains (refused) e t where "review_decide h q key answer clock s = (t, Inl e)" "same_but_known s t" "extends s t" "review_inv h t"
    | (answered) xs t x r d keys where "review_lookup s (rq_poc_id q) answer = Inr xs"
        "same_but_known s t" "extends s t" "review_inv h t" "review_current (rq_poc_id q) xs (rq_proposal_id q) t = Inr x"
        "(rq_poc_id q, sp_source_receipt_id x) \<notin> set (rv_authoring_guards s)"
        "map_of (rv_decisions s) (rq_poc_id q, rq_proposal_id q) = Some r" "d \<noteq> DECISION_CREATED"
        "review_inv h (t\<lparr>rv_idempotency := keys\<rparr>)"
        "review_decide h q key answer clock s = (t\<lparr>rv_idempotency := keys\<rparr>, Inr \<lparr>de_receipt = r, de_disposition = d\<rparr>)"
    | (created) xs t x r keys where "review_lookup s (rq_poc_id q) answer = Inr xs"
        "same_but_known s t" "extends s t" "review_inv h t" "review_current (rq_poc_id q) xs (rq_proposal_id q) t = Inr x"
        "(rq_poc_id q, sp_source_receipt_id x) \<notin> set (rv_authoring_guards s)"
        "map_of (rv_decisions s) (rq_poc_id q, rq_proposal_id q) = None"
        "rc_source_receipt_id r = sp_source_receipt_id x" "rc_decision r = rq_decision q"
        "map_of (rv_fingerprints t) (rq_poc_id q, rq_proposal_id q) = Some (proposal_fingerprint h x)"
        "review_inv h (t\<lparr>rv_decisions := AList.update (rq_poc_id q, rq_proposal_id q) r (rv_decisions s), rv_idempotency := keys\<rparr>)"
        "review_decide h q key answer clock s = (t\<lparr>rv_decisions := AList.update (rq_poc_id q, rq_proposal_id q) r (rv_decisions s),
           rv_idempotency := keys\<rparr>, Inr \<lparr>de_receipt = r, de_disposition = DECISION_CREATED\<rparr>)"
proof (cases "\<exists>reviewer rationale xs. poc_id_ok (rq_poc_id q) \<and> proposal_id_ok (rq_proposal_id q) \<and> draft_key_ok key \<and>
    safe_text 160 True (rq_reviewer q) = Some reviewer \<and> safe_text 2000 False (rq_rationale q) = Some rationale \<and>
    review_lookup s (rq_poc_id q) answer = Inr xs")
  case False
  then show ?thesis
    by (intro refused [of s "case snd (review_decide h q key answer clock s) of Inl e \<Rightarrow> e"])
       (auto simp: review_decide_def extends_def inv split: option.splits sum.splits)
next
  case True
  then obtain reviewer rationale xs where start: "poc_id_ok (rq_poc_id q)" "proposal_id_ok (rq_proposal_id q)" "draft_key_ok key"
    "safe_text 160 True (rq_reviewer q) = Some reviewer" "safe_text 2000 False (rq_rationale q) = Some rationale"
    "review_lookup s (rq_poc_id q) answer = Inr xs" by blast
  have run: "review_decide h q key answer clock s =
      seq (review_reconcile h (rq_poc_id q) xs) (\<lambda>u. decide_locked h q reviewer rationale key xs clock) s"
    using start by (simp add: review_decide_def)
  from inv show ?thesis
  proof (cases rule: reconcile_facts [of h s "rq_poc_id q" xs])
    case (refused e)
    then show ?thesis using run that(1) inv by (simp add: seq_apply extends_def)
  next
    case (grown t)
    have here: "review_decide h q key answer clock s = decide_locked h q reviewer rationale key xs clock t"
      using run grown(1) by (simp add: seq_apply)
    note same = grown(2) [unfolded same_but_known_def]
    from grown(4) show ?thesis
    proof (cases rule: decide_locked_cases [of h t q reviewer rationale key xs clock])
      case (refused e)
      then show ?thesis using here grown(2-4) that(1) by simp
    next
      case (answered x r d keys)
      have "review_inv h (t\<lparr>rv_idempotency := keys\<rparr>)"
        using grown(4) answered(3,5) by (auto simp: review_inv_def length_update_new split: if_splits)
      then show ?thesis using that(2) [of xs t x r d keys] start(6) grown(2-4) answered same here by simp
    next
      case (created x r now)
      have x: "x \<in> set xs" "sp_proposal_id x = rq_proposal_id q" using review_current_Inr [OF created(1)] by auto
      have poc: "sp_poc_id x = rq_poc_id q" using start(6) x(1)
        by (auto simp: review_lookup_def list_ex_iff split: proposals_answer.splits if_splits option.splits)
      have fp: "map_of (rv_fingerprints t) (rq_poc_id q, rq_proposal_id q) = Some (proposal_fingerprint h x)"
        using grown(5) [OF x(1)] x(2) by simp
      let ?keys = "AList.update (review_key_digest h key)
            \<lparr>rk_request_sha256 = decision_request_sha256 h (rq_poc_id q) (rq_proposal_id q) (rq_decision q) reviewer rationale,
             rk_poc_id = rq_poc_id q, rk_proposal_id = rq_proposal_id q\<rparr> (rv_idempotency t)"
      have r: "rc_poc_id r = rq_poc_id q" "rc_proposal_id r = rq_proposal_id q" "rc_source_receipt_id r = sp_source_receipt_id x"
          "rc_source_kind r = sp_source_kind x" "rc_decision r = rq_decision q"
        using created(8) by (simp_all add: decision_of_def)
      have "review_inv h (t\<lparr>rv_decisions := AList.update (rq_poc_id q, rq_proposal_id q) r (rv_decisions t), rv_idempotency := ?keys\<rparr>)"
        by (rule review_inv_decided [OF grown(4) created(3,5,4,6) _ _ r(1-4) poc x(2) fp]) simp_all
      moreover have dec: "rv_decisions t = rv_decisions s" and grd: "rv_authoring_guards t = rv_authoring_guards s"
        using same by simp_all
      ultimately show ?thesis
        using that(3) [OF start(6) grown(2-4) created(1) created(2) [unfolded grd] created(3) [unfolded dec] r(3,5) fp, of ?keys]
          here created(9) by (simp only: dec)
    qed
  qed
qed

subsection \<open>Histories\<close>

datatype review_op = ListProposals string proposals_answer | AskDecision string string proposals_answer
  | TakeSnapshot string scope_answer proposals_answer | EnterGuard string string proposals_answer
  | PublishGuard "string \<times> string" "string list" | ExitGuard "string \<times> string"
  | Decide decision_request string proposals_answer clock_value

text \<open>
  A replacement is published by the owner of a guard, while the guard is held.
\<close>

fun review_step :: "hasher \<Rightarrow> review_op \<Rightarrow> review_service \<Rightarrow> review_service" where
  "review_step h (ListProposals poc a) s = fst (review_list h poc a s)"
| "review_step h (AskDecision poc receipt a) s = fst (source_has_decision h poc receipt a s)"
| "review_step h (TakeSnapshot poc scope a) s = fst (review_snapshot h poc scope a s)"
| "review_step h (EnterGuard poc receipt a) s = fst (guard_enter h poc receipt a s)"
| "review_step h (PublishGuard key ids) s = (if key \<in> set (rv_authoring_guards s) then fst (guard_publish key ids s) else s)"
| "review_step h (ExitGuard key) s = guard_exit key s"
| "review_step h (Decide q key a clock) s = fst (review_decide h q key a clock s)"

lemma extends_refl [simp]: "extends s s" by (simp add: extends_def)

lemma extends_trans: "extends s t \<Longrightarrow> extends t u \<Longrightarrow> extends s u" by (simp add: extends_def)

lemma reconcile_state:
  assumes "review_inv h s"
  shows "same_but_known s (fst (review_reconcile h poc xs s)) \<and> extends s (fst (review_reconcile h poc xs s)) \<and>
    review_inv h (fst (review_reconcile h poc xs s))"
  using assms by (cases rule: reconcile_facts [of h s poc xs]) (simp_all add: assms)

lemma list_state:
  "fst (review_list h poc a s) = s \<or> (\<exists>xs. fst (review_list h poc a s) = fst (review_reconcile h poc xs s))"
  by (auto simp: review_list_def seq_apply Let_def split: sum.splits prod.splits) (metis fst_conv)+

lemma asked_state: "fst (source_has_decision h poc receipt a s) = s \<or> fst (source_has_decision h poc receipt a s) = fst (review_list h poc a s)"
  by (auto simp: source_has_decision_def seq_apply split: sum.splits prod.splits)

lemma snapshot_state:
  "fst (review_snapshot h poc scope a s) = s \<or> (\<exists>xs. fst (review_snapshot h poc scope a s) = fst (review_reconcile h poc xs s))"
  by (auto simp: review_snapshot_def seq_apply Let_def split: sum.splits prod.splits) (metis fst_conv)+

lemma enter_state:
  "fst (guard_enter h poc receipt a s) = s \<or> (\<exists>xs t. t = fst (review_reconcile h poc xs s) \<and>
     (fst (guard_enter h poc receipt a s) = t \<or> fst (guard_enter h poc receipt a s) = t\<lparr>rv_authoring_guards := (poc, receipt) # rv_authoring_guards t\<rparr>))"
proof (cases "poc_id_ok poc \<and> receipt_id_ok receipt")
  case True
  show ?thesis
  proof (cases "review_lookup s poc a")
    case (Inl e)
    then show ?thesis using True by (simp add: guard_enter_def)
  next
    case (Inr xs)
    obtain t r where run: "review_reconcile h poc xs s = (t, r)" by (cases "review_reconcile h poc xs s")
    have "fst (guard_enter h poc receipt a s) = t \<or> fst (guard_enter h poc receipt a s) = t\<lparr>rv_authoring_guards := (poc, receipt) # rv_authoring_guards t\<rparr>"
      using True Inr run by (cases r) (simp_all add: guard_enter_def seq_apply)
    then show ?thesis using run by (metis fst_conv)
  qed
qed (auto simp: guard_enter_def)

lemma publish_state:
  "guard_publish key ids s = (s, snd (guard_publish key ids s)) \<or> ids \<noteq> [] \<and>
     guard_publish key ids s = (s\<lparr>rv_authoring_current := AList.update key ids (rv_authoring_current s)\<rparr>, Inr ())"
  by (auto simp: guard_publish_def guard_prepare_def guard_commit_def new_token_def split: sum.splits)

text \<open>The states a step may lead to, by what they change.\<close>

lemma review_step_cases:
  assumes "review_inv h s"
  obtains (looked) t where "review_step h c s = t" "same_but_known s t" "extends s t" "review_inv h t"
    | (entered) poc receipt a t where "c = EnterGuard poc receipt a"
        "review_step h c s = t\<lparr>rv_authoring_guards := (poc, receipt) # rv_authoring_guards t\<rparr>"
        "same_but_known s t" "extends s t" "review_inv h t"
    | (published) key ids where "c = PublishGuard key ids" "key \<in> set (rv_authoring_guards s)"
        "review_step h c s = s\<lparr>rv_authoring_current := AList.update key ids (rv_authoring_current s)\<rparr>"
    | (left) key where "c = ExitGuard key" "review_step h c s = guard_exit key s"
    | (decided) q key a clock where "c = Decide q key a clock"
proof (cases c)
  case (ListProposals poc a)
  then show ?thesis using looked list_state [of h poc a s] reconcile_state [OF assms] assms by auto
next
  case (AskDecision poc receipt a)
  then show ?thesis using looked asked_state [of h poc receipt a s] list_state [of h poc a s] reconcile_state [OF assms] assms by auto
next
  case (TakeSnapshot poc scope a)
  then show ?thesis using looked snapshot_state [of h poc scope a s] reconcile_state [OF assms] assms by auto
next
  case (EnterGuard poc receipt a)
  from enter_state [of h poc receipt a s] show ?thesis
  proof (elim disjE exE conjE)
    assume "fst (guard_enter h poc receipt a s) = s"
    then show ?thesis using EnterGuard assms by (intro looked [of s]) simp_all
  next
    fix xs t
    assume "t = fst (review_reconcile h poc xs s)" "fst (guard_enter h poc receipt a s) = t"
    then show ?thesis using EnterGuard reconcile_state [OF assms, of poc xs] by (intro looked [of t]) simp_all
  next
    fix xs t
    assume "t = fst (review_reconcile h poc xs s)"
      "fst (guard_enter h poc receipt a s) = t\<lparr>rv_authoring_guards := (poc, receipt) # rv_authoring_guards t\<rparr>"
    then show ?thesis using EnterGuard reconcile_state [OF assms, of poc xs] by (intro entered [of poc receipt a t]) simp_all
  qed
next
  case (PublishGuard key ids)
  show ?thesis
  proof (cases "key \<in> set (rv_authoring_guards s)")
    case True
    then show ?thesis using PublishGuard publish_state [of key ids s] looked [of s] published [of key ids] assms by (metis extends_refl fst_conv review_step.simps(5) same_but_known_refl)
  next
    case False
    then show ?thesis using PublishGuard looked [of s] assms by simp
  qed
next
  case (ExitGuard key)
  then show ?thesis using left by simp
next
  case (Decide q key a clock)
  then show ?thesis by (rule decided)
qed

lemma review_inv_rest:
  "review_inv h (s\<lparr>rv_authoring_guards := g\<rparr>) = review_inv h s" "review_inv h (s\<lparr>rv_authoring_current := m\<rparr>) = review_inv h s"
  by (simp_all add: review_inv_def)

lemma review_inv_step: "review_inv h s \<Longrightarrow> review_inv h (review_step h c s)"
proof -
  assume inv: "review_inv h s"
  then show ?thesis
  proof (cases rule: review_step_cases [of h s c])
    case (decided q key a clock)
    from inv show ?thesis by (cases rule: decide_cases [of h s q key a clock]) (simp_all add: decided)
  qed (simp_all add: review_inv_rest guard_exit_def inv)
qed

interpretation review: invariant_system "review_step h" "review_inv h" for h
  by unfold_locales (rule review_inv_step)

lemma review_inv_new: "review_service_new a b c d = Inr s \<Longrightarrow> review_inv h s"
  by (auto simp: review_service_new_def review_inv_def owners_agree_def split: if_splits)

subsection \<open>Decisions are final\<close>

lemma extends_step: "review_inv h s \<Longrightarrow> extends s (review_step h c s)"
proof -
  assume inv: "review_inv h s"
  then show ?thesis
  proof (cases rule: review_step_cases [of h s c])
    case (decided q key a clock)
    from inv show ?thesis by (cases rule: decide_cases [of h s q key a clock]) (simp_all add: decided, simp_all add: extends_def)
  qed (simp_all add: guard_exit_def, simp_all add: extends_def)
qed

lemma decisions_step:
  assumes inv: "review_inv h s" and "map_of (rv_decisions s) k = Some r"
  shows "map_of (rv_decisions (review_step h c s)) k = Some r"
  using inv
proof (cases rule: review_step_cases [of h s c])
  case (decided q key a clock)
  from inv show ?thesis
    by (cases rule: decide_cases [of h s q key a clock]) (use assms(2) in \<open>auto simp: decided same_but_known_def\<close>)
qed (use assms(2) in \<open>simp_all add: same_but_known_def guard_exit_def\<close>)

lemma decisions_run:
  assumes "review_inv h s" and "map_of (rv_decisions s) k = Some r"
  shows "map_of (rv_decisions (fold (review_step h) cs s)) k = Some r"
  by (rule review.run_keeps [where P = "\<lambda>t. map_of (rv_decisions t) k = Some r"]) (auto intro: decisions_step assms)

lemma extends_run: "review_inv h s \<Longrightarrow> extends s (fold (review_step h) cs s)"
  by (rule review.run_keeps [where P = "extends s"]) (auto intro: extends_step extends_trans)

lemma decide_answer:
  assumes "review_inv h s" and "review_decide h q key a clock s = (t, Inr d)"
  shows "map_of (rv_decisions t) (rq_poc_id q, rq_proposal_id q) = Some (de_receipt d) \<and> review_inv h t \<and>
    (de_disposition d = DECISION_CREATED \<longleftrightarrow> map_of (rv_decisions s) (rq_poc_id q, rq_proposal_id q) = None)"
  using assms(1)
proof (cases rule: decide_cases [of h s q key a clock])
  case (refused e t)
  then show ?thesis using assms(2) by simp
next
  case (answered xs t' x r d' keys)
  then show ?thesis using assms(2) by (auto simp: same_but_known_def)
next
  case (created xs t' x r keys)
  then show ?thesis using assms(2) by auto
qed

text \<open>
A human decision on a proposal is final: once a decision was accepted, whatever operations
  follow, it stays recorded as it is, and every later accepted decision on that proposal, under any
  key, returns that receipt and creates nothing.
\<close>

theorem decision_final:
  assumes "review_service_new a b c e = Inr s0" and "s = fold (review_step h) cs s0"
    and "review_decide h q key answer clock s = (s1, Inr d)"
    and "s2 = fold (review_step h) cs' s1"
  shows "map_of (rv_decisions s2) (rq_poc_id q, rq_proposal_id q) = Some (de_receipt d) \<and>
    (rq_poc_id q' = rq_poc_id q \<and> rq_proposal_id q' = rq_proposal_id q \<and>
      review_decide h q' key' answer' clock' s2 = (s3, Inr d') \<longrightarrow>
      de_receipt d' = de_receipt d \<and> de_disposition d' \<noteq> DECISION_CREATED)"
proof -
  have inv: "review_inv h s" using review.inv_run [OF review_inv_new [OF assms(1)]] assms(2) by simp
  note first = decide_answer [OF inv assms(3)]
  have keep: "map_of (rv_decisions s2) (rq_poc_id q, rq_proposal_id q) = Some (de_receipt d)"
    using first decisions_run assms(4) by blast
  have inv2: "review_inv h s2" using first review.inv_run assms(4) by blast
  have "de_receipt d' = de_receipt d \<and> de_disposition d' \<noteq> DECISION_CREATED"
    if same: "rq_poc_id q' = rq_poc_id q" "rq_proposal_id q' = rq_proposal_id q"
      and again: "review_decide h q' key' answer' clock' s2 = (s3, Inr d')"
  proof -
    have "map_of (rv_decisions s3) (rq_poc_id q, rq_proposal_id q) = Some (de_receipt d)"
      using decisions_step [OF inv2 keep, of "Decide q' key' answer' clock'"] again by simp
    then show ?thesis using decide_answer [OF inv2 again] keep same by simp
  qed
  then show ?thesis using keep by blast
qed

subsection \<open>A decision stays on what the reviewer saw\<close>

lemma proposal_json_inj: "proposal_json x = proposal_json y \<Longrightarrow> x = (y :: source_proposal)"
  by (cases "sp_source_kind x"; cases "sp_source_kind y") (auto simp: proposal_json_def intro: source_proposal.equality)

lemma fingerprint_binds:
  assumes "proposal_fingerprint h x = proposal_fingerprint h y"
  shows "x = y \<or> proposal_json x \<noteq> proposal_json y \<and> proposal_fingerprint h x = proposal_fingerprint h y"
  using assms proposal_json_inj by blast

lemma listed:
  assumes "review_inv h s" and "review_list h poc a s = (t, Inr items)" and "i \<in> set items"
  shows "review_inv h t \<and> extends s t \<and> rv_decisions t = rv_decisions s \<and> sp_poc_id (ri_proposal i) = poc \<and>
    map_of (rv_fingerprints t) (poc, sp_proposal_id (ri_proposal i)) = Some (proposal_fingerprint h (ri_proposal i)) \<and>
    ri_decision i = map_of (rv_decisions t) (poc, sp_proposal_id (ri_proposal i)) \<and> review_item_ok i"
proof -
  obtain xs where xs: "review_lookup s poc a = Inr xs" using assms(2) by (auto simp: review_list_def split: if_splits sum.splits)
  from assms(1) show ?thesis
  proof (cases rule: reconcile_facts [of h s poc xs])
    case (refused e)
    then show ?thesis using assms(2) xs by (auto simp: review_list_def seq_apply split: if_splits)
  next
    case (grown u)
    have res: "t = u" "items = map (overlay_item u poc) xs" "list_all review_item_ok items"
      using assms(2) xs grown(1) by (auto simp: review_list_def seq_apply Let_def list_all_iff list_ex_iff split: if_splits)
    then obtain x where x: "x \<in> set xs" "i = overlay_item u poc x" using assms(3) by auto
    have "sp_poc_id x = poc" using xs x(1)
      by (auto simp: review_lookup_def list_ex_iff split: proposals_answer.splits if_splits option.splits)
    moreover have "ri_proposal i = x" using x(2) by (simp add: overlay_item_def Let_def)
    ultimately show ?thesis using res x assms(3) grown(2-4) grown(5) [OF x(1)]
      by (simp add: same_but_known_def list_all_iff overlay_item_def Let_def)
  qed
qed

text \<open>
  C19. A decision stays on what the reviewer saw: when a proposal was listed, then decided on, and
  is listed again later, with any operations in between and whatever the lookup answers each time,
  the later listing shows that receipt and its state, and the very same proposal, unless exactly the
  proposal shown then and the one shown now differ in their binding and have the same fingerprint.
\<close>

theorem decision_on_what_was_seen:
  assumes "review_service_new a b c e = Inr s0"
    and "review_list h poc shown (fold (review_step h) cs s0) = (s1, Inr items)" and "i \<in> set items"
    and "review_decide h q key answer clock (fold (review_step h) cs' s1) = (s2, Inr d)"
    and "rq_poc_id q = poc" and "rq_proposal_id q = sp_proposal_id (ri_proposal i)"
    and "review_list h poc shown' (fold (review_step h) cs'' s2) = (s3, Inr items')" and "j \<in> set items'"
    and "sp_proposal_id (ri_proposal j) = sp_proposal_id (ri_proposal i)"
  shows "ri_decision j = Some (de_receipt d) \<and> ri_review_state j = decided_state (rc_decision (de_receipt d)) \<and>
    sp_source_receipt_id (ri_proposal j) = rc_source_receipt_id (de_receipt d) \<and>
    (ri_proposal j = ri_proposal i \<or> proposal_json (ri_proposal j) \<noteq> proposal_json (ri_proposal i) \<and>
      proposal_fingerprint h (ri_proposal j) = proposal_fingerprint h (ri_proposal i))"
proof -
  note inv0 = review.inv_run [OF review_inv_new [OF assms(1)], of h cs]
  note i = listed [OF inv0 assms(2,3)]
  have inv1: "review_inv h (fold (review_step h) cs' s1)" using i review.inv_run by blast
  have e1: "extends s1 (fold (review_step h) cs' s1)" using i extends_run by blast
  note d = decide_answer [OF inv1 assms(4)]
  have e2: "extends (fold (review_step h) cs' s1) s2" using extends_step [OF inv1, of "Decide q key answer clock"] assms(4) by simp
  have inv2: "review_inv h (fold (review_step h) cs'' s2)" using d review.inv_run by blast
  have e3: "extends s2 (fold (review_step h) cs'' s2)" using d extends_run by blast
  note j = listed [OF inv2 assms(7,8)]
  have "extends s1 s3" using e1 e2 e3 j extends_trans by blast
  then have "proposal_fingerprint h (ri_proposal j) = proposal_fingerprint h (ri_proposal i)"
    using i j assms(9) unfolding extends_def by fastforce
  note binds = fingerprint_binds [OF this]
  have "map_of (rv_decisions s3) (poc, sp_proposal_id (ri_proposal j)) = Some (de_receipt d)"
    using decisions_run [of h s2] d j assms(5,6,9) by simp
  then have dec: "ri_decision j = Some (de_receipt d)" using j by simp
  moreover from dec have "ri_review_state j = decided_state (rc_decision (de_receipt d)) \<and>
      sp_source_receipt_id (ri_proposal j) = rc_source_receipt_id (de_receipt d)"
    using conjunct2 [OF conjunct2 [OF j]] by (simp add: review_item_ok_def dec)
  ultimately show ?thesis using binds by blast
qed

subsection \<open>A source being replaced\<close>

text \<open>The decisions on a source, apart from those on given proposals.\<close>

definition source_decisions :: "string \<times> string \<Rightarrow> string list \<Rightarrow> review_service \<Rightarrow> (string \<times> decision_receipt) set" where
  "source_decisions key ids s = {(pid, r). map_of (rv_decisions s) (fst key, pid) = Some r \<and> rc_source_receipt_id r = snd key \<and> pid \<notin> set ids}"

lemma decide_guarded:
  assumes inv: "review_inv h s" and "key \<in> set (rv_authoring_guards s) \<or> map_of (rv_authoring_current s) key = Some ids"
  shows "source_decisions key ids (fst (review_decide h q k a clock s)) = source_decisions key ids s \<and>
    rv_authoring_guards (fst (review_decide h q k a clock s)) = rv_authoring_guards s \<and>
    rv_authoring_current (fst (review_decide h q k a clock s)) = rv_authoring_current s"
  using inv
proof (cases rule: decide_cases [of h s q k a clock])
  case (refused e t)
  then show ?thesis by (simp add: same_but_known_def source_decisions_def)
next
  case (answered xs t x r d keys)
  then show ?thesis by (simp add: same_but_known_def source_decisions_def)
next
  case (created xs t x r keys)
  have "\<not> (rq_poc_id q = fst key \<and> rc_source_receipt_id r = snd key \<and> rq_proposal_id q \<notin> set ids)"
  proof
    assume asm: "rq_poc_id q = fst key \<and> rc_source_receipt_id r = snd key \<and> rq_proposal_id q \<notin> set ids"
    then have "key = (rq_poc_id q, sp_source_receipt_id x)" using created(8) by simp
    then show False using asm assms(2) created(2,6) review_current_Inr [OF created(5)]
      by (auto simp: same_but_known_def)
  qed
  then have "source_decisions key ids (fst (review_decide h q k a clock s)) = source_decisions key ids s"
    using created(7,12) by (auto simp: source_decisions_def split: if_splits)
  then show ?thesis using created(2,12) by (simp add: same_but_known_def)
qed

lemma source_decisions_rest:
  "same_but_known s t \<Longrightarrow> source_decisions key ids t = source_decisions key ids s"
  "source_decisions key ids (s\<lparr>rv_authoring_guards := g\<rparr>) = source_decisions key ids s"
  "source_decisions key ids (s\<lparr>rv_authoring_current := m\<rparr>) = source_decisions key ids s"
  by (simp_all add: source_decisions_def same_but_known_def)

text \<open>While a guard is held no decision on its source is made.\<close>

lemma guarded_step:
  assumes inv: "review_inv h s" and "key \<in> set (rv_authoring_guards s)" and "c \<noteq> ExitGuard key"
  shows "source_decisions key ids (review_step h c s) = source_decisions key ids s \<and> key \<in> set (rv_authoring_guards (review_step h c s))"
  using inv
proof (cases rule: review_step_cases [of h s c])
  case (decided q k a clock)
  then show ?thesis using decide_guarded [OF inv, of key ids q k a clock] assms(2) by simp
next
  case (looked t)
  then show ?thesis using assms(2) source_decisions_rest(1) [OF looked(2)] by (simp add: same_but_known_def)
next
  case (entered poc receipt a t)
  then show ?thesis using assms(2) source_decisions_rest(1) [OF entered(3)] by (simp add: source_decisions_rest(2) same_but_known_def)
next
  case (published k i)
  then show ?thesis using assms(2) by (simp add: source_decisions_rest(3))
next
  case (left k)
  then show ?thesis using assms(2,3) by (auto simp: source_decisions_rest(2) guard_exit_def)
qed

text \<open>Once a replacement is published, decisions on the source are on the proposals it names.\<close>

lemma replaced_step:
  assumes inv: "review_inv h s" and "map_of (rv_authoring_current s) key = Some ids" and "\<And>ids. c \<noteq> PublishGuard key ids"
  shows "source_decisions key ids (review_step h c s) = source_decisions key ids s \<and>
    map_of (rv_authoring_current (review_step h c s)) key = Some ids"
  using inv
proof (cases rule: review_step_cases [of h s c])
  case (decided q k a clock)
  then show ?thesis using decide_guarded [OF inv, of key ids q k a clock] assms(2) by simp
next
  case (looked t)
  then show ?thesis using assms(2) source_decisions_rest(1) [OF looked(2)] by (simp add: same_but_known_def)
next
  case (entered poc receipt a t)
  then show ?thesis using assms(2) source_decisions_rest(1) [OF entered(3)] by (simp add: source_decisions_rest(2) same_but_known_def)
next
  case (published k i)
  then show ?thesis using assms(2,3) by (auto simp: source_decisions_rest(3))
next
  case (left k)
  then show ?thesis using assms(2) by (simp add: source_decisions_rest(2) guard_exit_def)
qed

lemma guarded_run:
  assumes "review_inv h s" and "key \<in> set (rv_authoring_guards s)" and "ExitGuard key \<notin> set cs"
  shows "source_decisions key ids (fold (review_step h) cs s) = source_decisions key ids s \<and>
    key \<in> set (rv_authoring_guards (fold (review_step h) cs s))"
  using assms
proof (induction cs arbitrary: s)
  case (Cons c cs)
  have "c \<noteq> ExitGuard key" using Cons.prems(3) by auto
  then show ?case using Cons.IH [of "review_step h c s"] Cons.prems guarded_step [of h s key c ids] review_inv_step [of h s c] by simp
qed simp

lemma replaced_run:
  assumes "review_inv h s" and "map_of (rv_authoring_current s) key = Some ids" and "\<And>ids. PublishGuard key ids \<notin> set cs"
  shows "source_decisions key ids (fold (review_step h) cs s) = source_decisions key ids s"
  using assms
proof (induction cs arbitrary: s)
  case (Cons c cs)
  have "c \<noteq> PublishGuard key i" for i using Cons.prems(3) [of i] by auto
  then show ?case using Cons.IH [of "review_step h c s"] Cons.prems replaced_step [of h s key ids c] review_inv_step [of h s c] by simp
qed simp

lemma guard_entered:
  assumes "review_inv h s" and "guard_enter h poc receipt a s = (t, Inr ())"
  shows "review_inv h t \<and> (poc, receipt) \<in> set (rv_authoring_guards t) \<and> source_decisions key ids t = source_decisions key ids s"
proof -
  obtain xs where xs: "review_lookup s poc a = Inr xs" using assms(2) by (auto simp: guard_enter_def split: if_splits sum.splits)
  from assms(1) show ?thesis
  proof (cases rule: reconcile_facts [of h s poc xs])
    case (refused e)
    then show ?thesis using assms(2) xs by (auto simp: guard_enter_def seq_apply split: if_splits)
  next
    case (grown u)
    then have "t = u\<lparr>rv_authoring_guards := (poc, receipt) # rv_authoring_guards u\<rparr>"
      using assms(2) xs by (auto simp: guard_enter_def seq_apply split: if_splits)
    then show ?thesis using grown(2,4) by (simp add: review_inv_rest source_decisions_rest)
  qed
qed

text \<open>
  Replacing the proposals of a source leaves no room for a decision on what was replaced. After
  a guard was entered, not left before its replacement was published, every decision there is on a
  proposal of that source is on a published proposal, or was there before the guard.
\<close>

theorem replaced_source_safe:
  assumes "review_service_new a b c e = Inr s0"
    and "guard_enter h poc receipt answer (fold (review_step h) cs s0) = (s1, Inr ())"
    and "ExitGuard (poc, receipt) \<notin> set during"
    and "guard_publish (poc, receipt) ids (fold (review_step h) during s1) = (s2, Inr ())"
    and "\<forall>other. PublishGuard (poc, receipt) other \<notin> set afterwards"
    and "map_of (rv_decisions (fold (review_step h) afterwards s2)) (poc, pid) = Some r" and "rc_source_receipt_id r = receipt"
  shows "pid \<in> set ids \<or> map_of (rv_decisions (fold (review_step h) cs s0)) (poc, pid) = Some r"
proof -
  let ?key = "(poc, receipt)"
  note inv0 = review.inv_run [OF review_inv_new [OF assms(1)], of h cs]
  note entered = guard_entered [OF inv0 assms(2), of ?key ids]
  note held = guarded_run [of h s1 ?key during ids] 
  have inv1: "review_inv h (fold (review_step h) during s1)" using entered review.inv_run by blast
  have s2: "s2 = (fold (review_step h) during s1)\<lparr>rv_authoring_current := AList.update ?key ids (rv_authoring_current (fold (review_step h) during s1))\<rparr>"
    using publish_state [of ?key ids "fold (review_step h) during s1"] assms(4) 
    by (auto simp: guard_publish_def guard_prepare_def guard_commit_def new_token_def split: sum.splits if_splits)
  have "source_decisions ?key ids (fold (review_step h) afterwards s2) = source_decisions ?key ids s2"
    using assms(5) inv1 by (intro replaced_run) (simp_all add: s2 review_inv_rest)
  also have "\<dots> = source_decisions ?key ids (fold (review_step h) during s1)" by (simp add: s2 source_decisions_rest)
  also have "\<dots> = source_decisions ?key ids (fold (review_step h) cs s0)" using held entered assms(3) by simp
  finally have same: "source_decisions ?key ids (fold (review_step h) afterwards s2) = source_decisions ?key ids (fold (review_step h) cs s0)" .
  show ?thesis
  proof (cases "pid \<in> set ids")
    case False
    then have "(pid, r) \<in> source_decisions ?key ids (fold (review_step h) afterwards s2)"
      using assms(6,7) by (simp add: source_decisions_def)
    then show ?thesis unfolding same by (simp add: source_decisions_def)
  qed simp
qed

subsection \<open>A sample history\<close>

definition sample_proposal :: source_proposal where
  "sample_proposal = \<lparr>sp_poc_id = ''poc_00000001'', sp_proposal_id = ''prop_00000001'', sp_source_receipt_id = ''srcpt_00000001'',
     sp_source_kind = SOURCE_EMAIL, sp_source_quote = ''q'', sp_normalized_claim = ''c''\<rparr>"

definition sample_service :: review_service where
  "sample_service = \<lparr>rv_max_proposals_per_poc = 2, rv_max_known_proposals = 2, rv_max_decisions = 2, rv_max_idempotency_records = 2,
     rv_fingerprints = [], rv_proposal_owners = [], rv_decisions = [], rv_idempotency = [], rv_authoring_current = [], rv_authoring_guards = []\<rparr>"

abbreviation (input) sample_decision :: decision_request where
  "sample_decision \<equiv> \<lparr>rq_poc_id = ''poc_00000001'', rq_proposal_id = ''prop_00000001'', rq_decision = KEEP_FOR_CONTRACT,
     rq_reviewer = ''r'', rq_rationale = ''y''\<rparr>"

lemma safe_sample: "safe_text 160 True ''r'' = Some ''r''" "safe_text 2000 False ''y'' = Some ''y''" "safe_text 4000 False ''q'' = Some ''q''" "safe_text 2000 False ''c'' = Some ''c''"
  by code_simp+

lemma ids_sample: "poc_id_ok ''poc_00000001''" "proposal_id_ok ''prop_00000001''" "receipt_id_ok ''srcpt_00000001''" "draft_key_ok ''key_0000000000000''"
  by code_simp+

definition listed_service :: review_service where
  "listed_service = sample_service\<lparr>rv_fingerprints := [((''poc_00000001'', ''prop_00000001''), replicate 64 (CHR ''0''))],
     rv_proposal_owners := [(''prop_00000001'', ''poc_00000001'')]\<rparr>"

definition sample_receipt :: decision_receipt where
  "sample_receipt = decision_of sample_decision ''r'' ''y'' sample_proposal (Aware 0 0)"

definition decided_service :: review_service where
  "decided_service = listed_service\<lparr>rv_decisions := [((''poc_00000001'', ''prop_00000001''), sample_receipt)],
     rv_idempotency := [(replicate 64 (CHR ''0''), \<lparr>rk_request_sha256 = replicate 64 (CHR ''0''), rk_poc_id = ''poc_00000001'', rk_proposal_id = ''prop_00000001''\<rparr>)]\<rparr>"

lemmas sample_simps = sample_service_def listed_service_def decided_service_def sample_proposal_def sample_receipt_def ids_sample safe_sample
  review_lookup_def review_reconcile_def seq_apply Let_def proposal_fingerprint_def flat_hasher_def overlay_item_def review_item_ok_def
  proposal_ok_def decision_of_def review_current_def review_key_digest_def decision_request_sha256_def

lemma sample_new: "review_service_new 2 2 2 2 = Inr sample_service"
  by (simp add: review_service_new_def sample_service_def)

lemma sample_list: "review_list flat_hasher ''poc_00000001'' (Proposals [Some sample_proposal]) sample_service =
    (listed_service, Inr [\<lparr>ri_proposal = sample_proposal, ri_review_state = PROPOSAL_NEEDS_REVIEW, ri_decision = None\<rparr>])"
  by (simp add: review_list_def sample_simps)

lemma sample_decide: "review_decide flat_hasher sample_decision ''key_0000000000000'' (Proposals [Some sample_proposal]) (ClockAt (Aware 0 0)) s =
    (decided_service, Inr \<lparr>de_receipt = sample_receipt, de_disposition = DECISION_CREATED\<rparr>)" if "s = listed_service \<or> s = sample_service"
  using that by (elim disjE) (simp_all add: review_decide_def decide_locked_def sample_simps)

lemma sample_again: "review_list flat_hasher ''poc_00000001'' (Proposals [Some sample_proposal]) decided_service =
    (decided_service, Inr [\<lparr>ri_proposal = sample_proposal, ri_review_state = PROPOSAL_KEPT, ri_decision = Some sample_receipt\<rparr>])"
  by (simp add: review_list_def sample_simps)

lemma sample_enter: "guard_enter flat_hasher ''poc_00000001'' ''srcpt_00000001'' (Proposals [Some sample_proposal]) sample_service =
    (listed_service\<lparr>rv_authoring_guards := [(''poc_00000001'', ''srcpt_00000001'')]\<rparr>, Inr ())"
  by (simp add: guard_enter_def sample_simps)

theorem decision_final_witness:
  "map_of (rv_decisions decided_service) (''poc_00000001'', ''prop_00000001'') = Some sample_receipt"
  using decision_final [OF sample_new, of sample_service flat_hasher "[]" sample_decision "''key_0000000000000''"
    "Proposals [Some sample_proposal]" "ClockAt (Aware 0 0)" decided_service "\<lparr>de_receipt = sample_receipt, de_disposition = DECISION_CREATED\<rparr>"
    decided_service "[]"] by (simp add: sample_decide)

theorem decision_on_what_was_seen_witness:
  "sp_source_receipt_id sample_proposal = rc_source_receipt_id sample_receipt \<and> PROPOSAL_KEPT = decided_state (rc_decision sample_receipt)"
  using decision_on_what_was_seen [OF sample_new, of flat_hasher "''poc_00000001''" "Proposals [Some sample_proposal]" "[]" listed_service
      "[\<lparr>ri_proposal = sample_proposal, ri_review_state = PROPOSAL_NEEDS_REVIEW, ri_decision = None\<rparr>]" "\<lparr>ri_proposal = sample_proposal, ri_review_state = PROPOSAL_NEEDS_REVIEW, ri_decision = None\<rparr>"
      sample_decision "''key_0000000000000''" "Proposals [Some sample_proposal]" "ClockAt (Aware 0 0)" "[]" decided_service
      "\<lparr>de_receipt = sample_receipt, de_disposition = DECISION_CREATED\<rparr>" "Proposals [Some sample_proposal]" "[]" decided_service
      "[\<lparr>ri_proposal = sample_proposal, ri_review_state = PROPOSAL_KEPT, ri_decision = Some sample_receipt\<rparr>]"
      "\<lparr>ri_proposal = sample_proposal, ri_review_state = PROPOSAL_KEPT, ri_decision = Some sample_receipt\<rparr>"]
  by (simp add: sample_list sample_decide sample_again) (simp add: sample_proposal_def)

lemma sample_replaced: "fold (review_step flat_hasher) [ExitGuard (''poc_00000001'', ''srcpt_00000001''),
      Decide sample_decision ''key_0000000000000'' (Proposals [Some sample_proposal]) (ClockAt (Aware 0 0))]
    (listed_service\<lparr>rv_authoring_guards := [(''poc_00000001'', ''srcpt_00000001'')], rv_authoring_current := [((''poc_00000001'', ''srcpt_00000001''), [''prop_00000001''])]\<rparr>)
    = decided_service\<lparr>rv_authoring_current := [((''poc_00000001'', ''srcpt_00000001''), [''prop_00000001''])]\<rparr>"
  by (simp add: guard_exit_def review_decide_def decide_locked_def sample_simps)

theorem replaced_source_safe_witness:
  "''prop_00000001'' \<in> set [''prop_00000001''] \<or> map_of (rv_decisions sample_service) (''poc_00000001'', ''prop_00000001'') = Some sample_receipt"
proof -
  have "guard_publish (''poc_00000001'', ''srcpt_00000001'') [''prop_00000001''] (listed_service\<lparr>rv_authoring_guards := [(''poc_00000001'', ''srcpt_00000001'')]\<rparr>) =
    (listed_service\<lparr>rv_authoring_guards := [(''poc_00000001'', ''srcpt_00000001'')], rv_authoring_current := [((''poc_00000001'', ''srcpt_00000001''), [''prop_00000001''])]\<rparr>, Inr ())"
    by (simp add: guard_publish_def guard_prepare_def guard_commit_def new_token_def sample_simps)
  then show ?thesis
    using replaced_source_safe [OF sample_new, of flat_hasher "''poc_00000001''" "''srcpt_00000001''" "Proposals [Some sample_proposal]" "[]"
      "listed_service\<lparr>rv_authoring_guards := [(''poc_00000001'', ''srcpt_00000001'')]\<rparr>" "[]" "[''prop_00000001'']"
      "listed_service\<lparr>rv_authoring_guards := [(''poc_00000001'', ''srcpt_00000001'')], rv_authoring_current := [((''poc_00000001'', ''srcpt_00000001''), [''prop_00000001''])]\<rparr>"
      "[ExitGuard (''poc_00000001'', ''srcpt_00000001''), Decide sample_decision ''key_0000000000000'' (Proposals [Some sample_proposal]) (ClockAt (Aware 0 0))]"
      "''prop_00000001''" sample_receipt]
      sample_replaced sample_enter by (simp add: decided_service_def sample_receipt_def decision_of_def sample_proposal_def)
qed

end
