(* ===== verification/Event_Stream.thy ===== *)
theory Event_Stream
  imports Probe_Run
begin

section \<open>The event stream of a request (performance_probe.py, reference_inference.py)\<close>

text \<open>
  \<open>_consume_openai_sse\<close> from the bytes of the response to the instants of the first token and of
  the end. A byte is a \<open>char\<close>, decoded text a list of code points. What the code takes of the
  standard library is written out: \<open>bytes.decode("utf-8")\<close> and \<open>json.loads\<close>, of which a number keeps
  its literal, as the code that reads the stream never looks at one. The reference server of the demo answers with a stream
  of its own and checks the requests it gets.
\<close>

subsection \<open>Decoding bytes\<close>

definition continuation :: "int \<Rightarrow> bool" where
  "continuation b \<longleftrightarrow> 128 \<le> b \<and> b < 192"

text \<open>Strict UTF-8: no overlong form, no surrogate, nothing above \<open>0x10FFFF\<close>.\<close>

fun utf8_points :: "int list \<Rightarrow> int list option" where
  "utf8_points [] = Some []"
| "utf8_points (b # bs) = (
     if b < 128 then map_option (Cons b) (utf8_points bs)
     else if 194 \<le> b \<and> b < 224 then (case bs of
         c1 # rest \<Rightarrow> if continuation c1 then map_option (Cons ((b - 192) * 64 + (c1 - 128))) (utf8_points rest) else None
       | _ \<Rightarrow> None)
     else if 224 \<le> b \<and> b < 240 then (case bs of
         c1 # c2 # rest \<Rightarrow> (let p = (b - 224) * 4096 + (c1 - 128) * 64 + (c2 - 128) in
           if continuation c1 \<and> continuation c2 \<and> 2048 \<le> p \<and> \<not> (55296 \<le> p \<and> p < 57344)
           then map_option (Cons p) (utf8_points rest) else None)
       | _ \<Rightarrow> None)
     else if 240 \<le> b \<and> b < 245 then (case bs of
         c1 # c2 # c3 # rest \<Rightarrow> (let p = (b - 240) * 262144 + (c1 - 128) * 4096 + (c2 - 128) * 64 + (c3 - 128) in
           if continuation c1 \<and> continuation c2 \<and> continuation c3 \<and> 65536 \<le> p \<and> p < 1114112
           then map_option (Cons p) (utf8_points rest) else None)
       | _ \<Rightarrow> None)
     else None)"

definition points :: "string \<Rightarrow> int list" where
  "points s = map of_char s"

definition utf8_decode :: "string \<Rightarrow> int list option" where
  "utf8_decode bs = utf8_points (points bs)"

subsection \<open>Parsing JSON\<close>

datatype py_json = PyNull | PyBool bool | PyNumber "int list" | PyText "int list" | PyList "py_json list"
  | PyDict "(int list \<times> py_json) list"

definition json_space :: "int \<Rightarrow> bool" where
  "json_space c \<longleftrightarrow> c = 32 \<or> c = 9 \<or> c = 10 \<or> c = 13"

definition skip_space :: "int list \<Rightarrow> int list" where
  "skip_space s = dropWhile json_space s"

definition json_digit :: "int \<Rightarrow> bool" where
  "json_digit c \<longleftrightarrow> 48 \<le> c \<and> c \<le> 57"

definition hex_value :: "int \<Rightarrow> int option" where
  "hex_value c = (if json_digit c then Some (c - 48) else if 97 \<le> c \<and> c \<le> 102 then Some (c - 87)
     else if 65 \<le> c \<and> c \<le> 70 then Some (c - 55) else None)"

text \<open>The four digits of a \<open>\u\<close> escape at the front of a text.\<close>

definition hex4 :: "int list \<Rightarrow> int option" where
  "hex4 s = (case s of a # b # c # d # _ \<Rightarrow> (case (hex_value a, hex_value b, hex_value c, hex_value d) of
       (Some w, Some x, Some y, Some z) \<Rightarrow> Some (((w * 16 + x) * 16 + y) * 16 + z)
     | _ \<Rightarrow> None)
   | _ \<Rightarrow> None)"

text \<open>The characters after a backslash, \<open>u\<close> apart.\<close>

definition escaped :: "int \<Rightarrow> int option" where
  "escaped c = map_of [(34, 34), (92, 92), (47, 47), (98, 8), (102, 12), (110, 10), (114, 13), (116, 9)] c"

text \<open>The low surrogate that follows a high one, if there is one.\<close>

definition low_surrogate :: "int list \<Rightarrow> int option" where
  "low_surrogate s = (case s of b # u # rest \<Rightarrow> if b = 92 \<and> u = 117 then (case hex4 rest of
         Some w \<Rightarrow> if 56320 \<le> w \<and> w < 57344 then Some w else None | None \<Rightarrow> None) else None
   | _ \<Rightarrow> None)"

text \<open>The rest of a string after its opening quote: its characters and what follows it.\<close>

function json_string :: "int list \<Rightarrow> (int list \<times> int list) option" where
  "json_string [] = None"
| "json_string (c # cs) = (
     if c = 34 then Some ([], cs)
     else if c < 32 then None
     else if c \<noteq> 92 then map_option (apfst (Cons c)) (json_string cs)
     else (case cs of [] \<Rightarrow> None
       | e # rest \<Rightarrow>
           if e \<noteq> 117 then (case escaped e of None \<Rightarrow> None | Some p \<Rightarrow> map_option (apfst (Cons p)) (json_string rest))
           else (case hex4 rest of None \<Rightarrow> None
             | Some u \<Rightarrow> (case (if 55296 \<le> u \<and> u < 56320 then low_surrogate (drop 4 rest) else None) of
                 Some w \<Rightarrow> map_option (apfst (Cons (65536 + (u - 55296) * 1024 + (w - 56320)))) (json_string (drop 10 rest))
               | None \<Rightarrow> map_option (apfst (Cons u)) (json_string (drop 4 rest))))))"
  by pat_completeness auto
termination
  by (relation "measure length") auto

definition json_fraction :: "int list \<Rightarrow> int list" where
  "json_fraction s = (case s of p # d # rest \<Rightarrow> if p = 46 \<and> json_digit d then dropWhile json_digit rest else s | _ \<Rightarrow> s)"

definition json_exponent :: "int list \<Rightarrow> int list" where
  "json_exponent s = (case s of e # rest \<Rightarrow> if e = 101 \<or> e = 69
       then (case (case rest of g # more' \<Rightarrow> if g = 43 \<or> g = 45 then more' else rest | [] \<Rightarrow> rest) of
           d # ds \<Rightarrow> if json_digit d then dropWhile json_digit ds else s
         | [] \<Rightarrow> s)
       else s
     | [] \<Rightarrow> s)"

text \<open>
  A number: what follows it. An integer of more than 4300 digits is refused, as \<open>int()\<close> does;
  \<open>NaN\<close> and the infinities are refused by the \<open>parse_constant\<close> of the caller.
\<close>

definition json_number :: "int list \<Rightarrow> int list option" where
  "json_number s = (case (case s of c # cs \<Rightarrow> if c = 45 then cs else s | [] \<Rightarrow> s) of
     [] \<Rightarrow> None
   | d # ds \<Rightarrow> if \<not> json_digit d then None
       else (let rest = (if d = 48 then ds else dropWhile json_digit ds);
                 after = json_exponent (json_fraction rest) in
         if after = rest \<and> 4300 < 1 + int (length ds) - int (length rest) then None else Some after))"

datatype 'a scan = Scanned 'a "int list" | Malformed | OutOfFuel

definition after_word :: "string \<Rightarrow> int list \<Rightarrow> int list option" where
  "after_word w s = (if take (length w) s = points w then Some (drop (length w) s) else None)"

definition json_atom :: "int list \<Rightarrow> py_json scan" where
  "json_atom s = (case after_word ''null'' s of Some rest \<Rightarrow> Scanned PyNull rest
   | None \<Rightarrow> (case after_word ''true'' s of Some rest \<Rightarrow> Scanned (PyBool True) rest
   | None \<Rightarrow> (case after_word ''false'' s of Some rest \<Rightarrow> Scanned (PyBool False) rest
   | None \<Rightarrow> (case json_number s of Some rest \<Rightarrow> Scanned (PyNumber (take (length s - length rest) s)) rest | None \<Rightarrow> Malformed))))"

text \<open>
  A value, the members of an object from a key on, the elements of an array from a value on; the
  lists of what was read so far are in reverse. Every call takes one unit of fuel.
\<close>

fun json_value :: "nat \<Rightarrow> int list \<Rightarrow> py_json scan"
  and json_members :: "nat \<Rightarrow> (int list \<times> py_json) list \<Rightarrow> int list \<Rightarrow> py_json scan"
  and json_elements :: "nat \<Rightarrow> py_json list \<Rightarrow> int list \<Rightarrow> py_json scan" where
  "json_value 0 s = OutOfFuel"
| "json_value (Suc n) s = (case s of [] \<Rightarrow> Malformed
   | c # cs \<Rightarrow>
       if c = 34 then (case json_string cs of None \<Rightarrow> Malformed | Some (t, rest) \<Rightarrow> Scanned (PyText t) rest)
       else if c = 123 then (case skip_space cs of [] \<Rightarrow> Malformed
         | d # ds \<Rightarrow> if d = 125 then Scanned (PyDict []) ds else json_members n [] (d # ds))
       else if c = 91 then (case skip_space cs of [] \<Rightarrow> Malformed
         | d # ds \<Rightarrow> if d = 93 then Scanned (PyList []) ds else json_elements n [] (d # ds))
       else json_atom s)"
| "json_members 0 done s = OutOfFuel"
| "json_members (Suc n) done s = (case s of [] \<Rightarrow> Malformed
   | c # cs \<Rightarrow> if c \<noteq> 34 then Malformed else (case json_string cs of None \<Rightarrow> Malformed
     | Some (k, rest) \<Rightarrow> (case skip_space rest of [] \<Rightarrow> Malformed
       | d # ds \<Rightarrow> if d \<noteq> 58 then Malformed else (case json_value n (skip_space ds) of
           Malformed \<Rightarrow> Malformed
         | OutOfFuel \<Rightarrow> OutOfFuel
         | Scanned v rest' \<Rightarrow> (case skip_space rest' of [] \<Rightarrow> Malformed
           | e # es \<Rightarrow> if e = 125 then Scanned (PyDict (rev ((k, v) # done))) es
               else if e = 44 then json_members n ((k, v) # done) (skip_space es)
               else Malformed)))))"
| "json_elements 0 done s = OutOfFuel"
| "json_elements (Suc n) done s = (case json_value n s of
     Malformed \<Rightarrow> Malformed
   | OutOfFuel \<Rightarrow> OutOfFuel
   | Scanned v rest \<Rightarrow> (case skip_space rest of [] \<Rightarrow> Malformed
     | e # es \<Rightarrow> if e = 93 then Scanned (PyList (rev (v # done))) es
         else if e = 44 then json_elements n (v # done) (skip_space es)
         else Malformed))"

definition json_loads_with :: "nat \<Rightarrow> int list \<Rightarrow> py_json option scan" where
  "json_loads_with fuel s = (if take 1 s = [65279] then Scanned None []
     else (case json_value fuel (skip_space s) of
       Scanned v rest \<Rightarrow> Scanned (if skip_space rest = [] then Some v else None) []
     | Malformed \<Rightarrow> Scanned None []
     | OutOfFuel \<Rightarrow> OutOfFuel))"

text \<open>\<open>json.loads\<close>, where a \<open>ValueError\<close> is None; the fuel is enough (\<open>json_loads_total\<close>).\<close>

definition json_fuel :: "int list \<Rightarrow> nat" where
  "json_fuel s = Suc (2 * length s)"

definition json_loads :: "int list \<Rightarrow> py_json option" where
  "json_loads s = (case json_loads_with (json_fuel s) s of Scanned r _ \<Rightarrow> r | _ \<Rightarrow> None)"

text \<open>The value of a key: the last one given for it.\<close>

definition py_get :: "string \<Rightarrow> (int list \<times> py_json) list \<Rightarrow> py_json option" where
  "py_get k members = map_of (rev members) (points k)"

subsection \<open>Events\<close>

text \<open>
  The variables of the loop. \<open>clock_ns\<close> is read through \<open>sse_readings\<close>: reading \<open>n\<close> of the call
  yields \<open>clock n\<close>.
\<close>

record sse_state =
  sse_event_lines :: "int list list"
  sse_first_token_at :: "int option"
  sse_done_at :: "int option"
  sse_readings :: nat

type_synonym 'a sse_act = "(sse_state, attempt_exc, 'a) action"

definition sse_clock :: "(nat \<Rightarrow> int) \<Rightarrow> int sse_act" where
  "sse_clock clock = (\<lambda>s. let v = clock (sse_readings s) in
     (s\<lparr>sse_readings := Suc (sse_readings s)\<rparr>, if v < 0 then Inl OtherExc else Inr v))"

datatype choice_kind = BadChoice | NoContent | Content

definition choice_content :: "py_json \<Rightarrow> choice_kind" where
  "choice_content choice = (case choice of PyDict c \<Rightarrow> (case py_get ''delta'' c of
       Some (PyDict d) \<Rightarrow> (case py_get ''content'' d of
           None \<Rightarrow> NoContent
         | Some PyNull \<Rightarrow> NoContent
         | Some (PyText t) \<Rightarrow> if t = [] then NoContent else Content
         | Some _ \<Rightarrow> BadChoice)
     | _ \<Rightarrow> BadChoice)
   | _ \<Rightarrow> BadChoice)"

fun process_choices :: "(nat \<Rightarrow> int) \<Rightarrow> py_json list \<Rightarrow> unit sse_act" where
  "process_choices clock [] = ret ()"
| "process_choices clock (c # cs) = (case choice_content c of
     BadChoice \<Rightarrow> raise ProtocolExc
   | NoContent \<Rightarrow> process_choices clock cs
   | Content \<Rightarrow> branch (\<lambda>s. sse_first_token_at s = None)
       (seq (sse_clock clock) (\<lambda>v. seq (modify (\<lambda>s. s\<lparr>sse_first_token_at := Some v\<rparr>)) (\<lambda>_. process_choices clock cs)))
       (process_choices clock cs))"

fun join_lines :: "int list list \<Rightarrow> int list" where
  "join_lines [] = []"
| "join_lines [l] = l"
| "join_lines (l # ls) = l @ 10 # join_lines ls"

text \<open>The payload of an event: the end marker, the list of choices, or something refused.\<close>

datatype sse_payload = DoneMarker | BadPayload | Choices "py_json list"

definition payload_of :: "int list list \<Rightarrow> sse_payload" where
  "payload_of ls = (let data = join_lines ls in
     if data = points ''[DONE]'' then DoneMarker
     else (case json_loads data of
       Some (PyDict p) \<Rightarrow> (case py_get ''choices'' p of Some (PyList cs) \<Rightarrow> Choices cs | _ \<Rightarrow> BadPayload)
     | _ \<Rightarrow> BadPayload))"

definition process_sse_event :: "(nat \<Rightarrow> int) \<Rightarrow> unit sse_act" where
  "process_sse_event clock = branch (\<lambda>s. sse_done_at s \<noteq> None) (raise ProtocolExc) (\<lambda>s.
     case payload_of (sse_event_lines s) of
       DoneMarker \<Rightarrow> branch (\<lambda>s. sse_first_token_at s = None) (raise ProtocolExc)
         (seq (sse_clock clock) (\<lambda>v. modify (\<lambda>s. s\<lparr>sse_done_at := Some v\<rparr>))) s
     | BadPayload \<Rightarrow> (s, Inl ProtocolExc)
     | Choices cs \<Rightarrow> process_choices clock cs s)"

text \<open>What a line is: the end of an event, a comment, a line of data, or something refused.\<close>

datatype sse_line = BlankLine | CommentLine | DataLine "int list" | BadLine

definition decode_sse_line :: "string \<Rightarrow> int list option" where
  "decode_sse_line raw = utf8_decode (if raw \<noteq> [] \<and> last raw = CHR 13 then butlast raw else raw)"

definition sse_line_of :: "int list \<Rightarrow> sse_line" where
  "sse_line_of line = (if line = [] then BlankLine
     else if hd line = 58 then CommentLine
     else (case after_word ''data:'' line of None \<Rightarrow> BadLine
       | Some v \<Rightarrow> (let t = (case v of c # cs \<Rightarrow> if c = 32 then cs else v | [] \<Rightarrow> v) in
           if t = [] then BadLine else DataLine t)))"

definition finish_event :: "(nat \<Rightarrow> int) \<Rightarrow> unit sse_act" where
  "finish_event clock = branch (\<lambda>s. sse_event_lines s \<noteq> [])
     (seq (process_sse_event clock) (\<lambda>_. modify (\<lambda>s. s\<lparr>sse_event_lines := []\<rparr>))) (ret ())"

definition process_sse_line :: "(nat \<Rightarrow> int) \<Rightarrow> int list \<Rightarrow> unit sse_act" where
  "process_sse_line clock line = (case sse_line_of line of
     BlankLine \<Rightarrow> finish_event clock
   | CommentLine \<Rightarrow> ret ()
   | BadLine \<Rightarrow> raise ProtocolExc
   | DataLine t \<Rightarrow> modify (\<lambda>s. s\<lparr>sse_event_lines := sse_event_lines s @ [t]\<rparr>))"

text \<open>A raw line, and whether the stream has ended with it: then the two instants.\<close>

definition process_raw_line :: "(nat \<Rightarrow> int) \<Rightarrow> string \<Rightarrow> (int \<times> int) option sse_act" where
  "process_raw_line clock raw = (case decode_sse_line raw of None \<Rightarrow> raise ProtocolExc
   | Some line \<Rightarrow> seq (process_sse_line clock line) (\<lambda>_ s. case sse_done_at s of None \<Rightarrow> (s, Inr None)
       | Some d \<Rightarrow> (case sse_first_token_at s of None \<Rightarrow> (s, Inl ProtocolExc) | Some f \<Rightarrow> (s, Inr (Some (f, d))))))"

subsection \<open>The stream\<close>

text \<open>The loop \<open>while b"\n" in buffer\<close>: the two instants, or the buffer that is left.\<close>

function drain_lines :: "(nat \<Rightarrow> int) \<Rightarrow> string \<Rightarrow> ((int \<times> int) + string) sse_act" where
  "drain_lines clock buffer = (if CHR 10 \<in> set buffer
     then seq (process_raw_line clock (takeWhile (\<lambda>c. c \<noteq> CHR 10) buffer)) (\<lambda>ended. case ended of
         Some r \<Rightarrow> ret (Inl r)
       | None \<Rightarrow> drain_lines clock (tl (dropWhile (\<lambda>c. c \<noteq> CHR 10) buffer)))
     else ret (Inr buffer))"
  by pat_completeness auto
termination
proof (relation "measure (length \<circ> snd)", simp)
  fix clock :: "nat \<Rightarrow> int" and buffer :: string and ended :: "(int \<times> int) option"
  assume "CHR 10 \<in> set buffer"
  then have "dropWhile (\<lambda>c. c \<noteq> CHR 10) buffer \<noteq> []" by (auto simp: dropWhile_eq_Nil_conv)
  then have "length (tl (dropWhile (\<lambda>c. c \<noteq> CHR 10) buffer)) < length (dropWhile (\<lambda>c. c \<noteq> CHR 10) buffer)" by simp
  also have "\<dots> \<le> length buffer" by (rule length_dropWhile_le)
  finally show "((clock, tl (dropWhile (\<lambda>c. c \<noteq> CHR 10) buffer)), clock, buffer) \<in> measure (length \<circ> snd)" by simp
qed

declare drain_lines.simps [simp del]

text \<open>What iterating over the chunks yields: a chunk, something that is no bytes, an exception.\<close>

datatype stream_item = Chunk string | ForeignChunk | StreamRaises attempt_exc

text \<open>
  The surroundings of the call: the monotonic clock, whether the run is found cancelled at its
  \<open>n\<close>th check, the byte limit and the deadline.
\<close>

record sse_env =
  se_clock :: "nat \<Rightarrow> int"
  se_cancelled :: "nat \<Rightarrow> bool"
  se_max_stream_bytes :: int
  se_deadline_ns :: int

definition check_alive :: "sse_env \<Rightarrow> nat \<Rightarrow> unit sse_act" where
  "check_alive env i = branch (\<lambda>s. se_cancelled env i) (raise InterruptedExc)
     (seq (sse_clock (se_clock env)) (\<lambda>v. if v > se_deadline_ns env then raise TimeoutExc else ret ()))"

text \<open>After the last chunk: a line without its end, an event without its blank line.\<close>

definition close_stream :: "(nat \<Rightarrow> int) \<Rightarrow> (int \<times> int) sse_act" where
  "close_stream clock = seq (finish_event clock) (\<lambda>_ s. case (sse_first_token_at s, sse_done_at s) of
     (Some f, Some d) \<Rightarrow> (s, Inr (f, d)) | _ \<Rightarrow> (s, Inl ProtocolExc))"

definition finish_stream :: "sse_env \<Rightarrow> nat \<Rightarrow> string \<Rightarrow> (int \<times> int) sse_act" where
  "finish_stream env i buffer = seq (check_alive env i) (\<lambda>_.
     seq (if buffer = [] then ret None else process_raw_line (se_clock env) buffer) (\<lambda>ended. case ended of
       Some r \<Rightarrow> ret r
     | None \<Rightarrow> close_stream (se_clock env)))"

fun consume_chunks :: "sse_env \<Rightarrow> nat \<Rightarrow> int \<Rightarrow> string \<Rightarrow> stream_item list \<Rightarrow> (int \<times> int) sse_act" where
  "consume_chunks env i received buffer [] = finish_stream env i buffer"
| "consume_chunks env i received buffer (StreamRaises e # items) = raise e"
| "consume_chunks env i received buffer (ForeignChunk # items) = seq (check_alive env i) (\<lambda>_. raise ProtocolExc)"
| "consume_chunks env i received buffer (Chunk c # items) = seq (check_alive env i) (\<lambda>_.
     if c = [] then raise ProtocolExc
     else if received + int (length c) > se_max_stream_bytes env then raise ProtocolExc
     else seq (drain_lines (se_clock env) (buffer @ c)) (\<lambda>left. case left of
       Inl r \<Rightarrow> ret r
     | Inr buffer' \<Rightarrow> consume_chunks env (Suc i) (received + int (length c)) buffer' items))"

definition sse_start :: sse_state where
  "sse_start = \<lparr>sse_event_lines = [], sse_first_token_at = None, sse_done_at = None, sse_readings = 0\<rparr>"

text \<open>\<open>None\<close> stands for something that cannot be iterated over.\<close>

definition consume_openai_sse :: "sse_env \<Rightarrow> stream_item list option \<Rightarrow> attempt_exc + int \<times> int" where
  "consume_openai_sse env items = (case items of None \<Rightarrow> Inl ProtocolExc
   | Some xs \<Rightarrow> snd (consume_chunks env 0 0 [] xs sse_start))"

subsection \<open>The reference server\<close>

definition REFERENCE_MODEL :: string where
  "REFERENCE_MODEL = ''exitspec/reference-stream-v1''"

definition reference_sse_payload :: string where
  "reference_sse_payload = ''data: {\"choices\":[{\"delta\":{\"content\":\"reference-ok\"}}]}'' @ [CHR 10, CHR 10] @
     ''data: [DONE]'' @ [CHR 10, CHR 10]"

definition json_field :: "string \<Rightarrow> (string \<times> json) list \<Rightarrow> json" where
  "json_field k ms = the (map_of ms k)"

definition request_content_ok :: "string \<Rightarrow> bool" where
  "request_content_ok t \<longleftrightarrow> t \<noteq> [] \<and> length t \<le> 20000 \<and>
     list_all (\<lambda>c. (32 \<le> (of_char c :: nat) \<or> c = CHR 10 \<or> c = CHR 13 \<or> c = CHR 9) \<and> (of_char c :: nat) \<noteq> 127) t"

definition request_message_ok :: "json \<Rightarrow> bool" where
  "request_message_ok m \<longleftrightarrow> (case m of JObj ms \<Rightarrow> set (map fst ms) = {''content'', ''role''} \<and>
       json_field ''role'' ms = JStr ''user'' \<and>
       (case json_field ''content'' ms of JStr t \<Rightarrow> request_content_ok t | _ \<Rightarrow> False)
   | _ \<Rightarrow> False)"

text \<open>Whether \<open>validate_reference_request\<close> returns, on what a request body decodes to.\<close>

definition validate_reference_request :: "json \<Rightarrow> bool" where
  "validate_reference_request payload \<longleftrightarrow> (case payload of
     JObj ms \<Rightarrow> set (map fst ms) = {''max_tokens'', ''messages'', ''model'', ''stream'', ''temperature''} \<and>
       (case json_field ''max_tokens'' ms of JInt n \<Rightarrow> 1 \<le> n \<and> n \<le> 2048 | _ \<Rightarrow> False) \<and>
       json_field ''model'' ms = JStr REFERENCE_MODEL \<and> json_field ''stream'' ms = JBool True \<and>
       (case json_field ''temperature'' ms of JInt t \<Rightarrow> t = 0 | JFloat x \<Rightarrow> x = 0 | _ \<Rightarrow> False) \<and>
       (case json_field ''messages'' ms of JArr [m] \<Rightarrow> request_message_ok m | _ \<Rightarrow> False)
   | _ \<Rightarrow> False)"

text \<open>The body that \<open>_execute_attempt\<close> sends.\<close>

definition request_body :: "probe_config \<Rightarrow> synthetic_prompt \<Rightarrow> json" where
  "request_body c p = JObj [(''max_tokens'', JInt (pc_max_tokens c)),
     (''messages'', JArr [JObj [(''content'', JStr (sp_content p)), (''role'', JStr ''user'')]]),
     (''model'', JStr (pc_model c)), (''stream'', JBool True), (''temperature'', JInt 0)]"

end
