(* ===== verification/Event_Stream_Laws.thy ===== *)
theory Event_Stream_Laws
  imports Event_Stream Probe_Laws
begin

section \<open>Laws of the event stream\<close>

text \<open>
  The JSON parser always ends; the stream is read as a plain reading of its lines says, however it
  arrives in chunks; the instants it yields make a recordable attempt.
\<close>

subsection \<open>The parser of JSON ends\<close>

lemma json_string_shorter: "json_string s = Some (t, rest) \<Longrightarrow> length rest < length s"
proof (induction s arbitrary: t rest rule: json_string.induct)
  case (2 c cs)
  note IH = "2.IH"
  from "2.prems" consider (quote) "c = 34" "rest = cs"
    | (plain) t' where "c \<noteq> 34" "\<not> c < 32" "c \<noteq> 92" "json_string cs = Some (t', rest)"
    | (escape) e es t' p where "c \<noteq> 34" "\<not> c < 32" "c = 92" "cs = e # es" "e \<noteq> 117" "escaped e = Some p" "json_string es = Some (t', rest)"
    | (joined) e es u w t' where "c \<noteq> 34" "\<not> c < 32" "c = 92" "cs = e # es" "e = 117" "hex4 es = Some u"
        "(if 55296 \<le> u \<and> u < 56320 then low_surrogate (drop 4 es) else None) = Some w" "json_string (drop 10 es) = Some (t', rest)"
    | (single) e es u t' where "c \<noteq> 34" "\<not> c < 32" "c = 92" "cs = e # es" "e = 117" "hex4 es = Some u"
        "(if 55296 \<le> u \<and> u < 56320 then low_surrogate (drop 4 es) else None) = None" "json_string (drop 4 es) = Some (t', rest)"
    by (auto simp: apfst_def map_prod_def split: if_splits list.splits option.splits)
  then show ?case
  proof cases
    case quote
    then show ?thesis by simp
  next
    case plain
    then show ?thesis using IH(1) by (metis length_Cons less_Suc_eq)
  next
    case escape
    then have "length rest < length es" by (intro IH(2)) auto
    then show ?thesis using escape by simp
  next
    case joined
    then have "length rest < length (drop 10 es)" by (intro IH(4)) auto
    then show ?thesis using joined by simp
  next
    case single
    then have "length rest < length (drop 4 es)" by (intro IH(3)) auto
    then show ?thesis using single by simp
  qed
qed simp

lemma skip_space_shorter: "length (skip_space s) \<le> length s"
  by (simp add: skip_space_def length_dropWhile_le)

lemma json_number_shorter: "json_number s = Some rest \<Longrightarrow> length rest < length s"
proof -
  have fraction: "length (json_fraction x) \<le> length x" for x
    by (auto simp: json_fraction_def split: list.splits intro: order_trans [OF length_dropWhile_le])
  have exponent: "length (json_exponent x) \<le> length x" for x
    by (auto simp: json_exponent_def split: list.splits intro: order_trans [OF length_dropWhile_le])
  assume "json_number s = Some rest"
  then obtain d ds x where d: "(case s of c # cs \<Rightarrow> if c = 45 then cs else s | [] \<Rightarrow> s) = d # ds"
      "x = ds \<or> x = dropWhile json_digit ds" "rest = json_exponent (json_fraction x)"
    by (auto simp: json_number_def Let_def split: list.splits if_splits)
  have "length x \<le> length ds" using d(2) length_dropWhile_le by auto
  moreover have "Suc (length ds) \<le> length s" using arg_cong [OF d(1), of length] by (auto split: list.splits if_splits)
  ultimately show ?thesis using d(3) exponent [of "json_fraction x"] fraction [of x] by simp
qed

lemma after_word_shorter: "after_word w s = Some rest \<Longrightarrow> w \<noteq> [] \<Longrightarrow> length rest < length s"
proof -
  assume asm: "after_word w s = Some rest" "w \<noteq> []"
  then have "take (length w) s = points w" "rest = drop (length w) s" by (auto simp: after_word_def split: if_splits)
  moreover from this have "s \<noteq> []" using asm(2) by (auto simp: points_def)
  ultimately show ?thesis using asm(2) by simp
qed

lemma json_atom_facts: "json_atom s \<noteq> OutOfFuel \<and> (json_atom s = Scanned v rest \<longrightarrow> length rest < length s)"
  by (auto simp: json_atom_def dest: after_word_shorter json_number_shorter split: option.splits)

lemma json_shorter:
  shows "json_value n s = Scanned v rest \<Longrightarrow> length rest < length s"
    and "json_members n done s = Scanned v rest \<Longrightarrow> length rest < length s"
    and "json_elements n acc s = Scanned v rest \<Longrightarrow> length rest < length s"
proof (induction n s and n "done" s and n acc s arbitrary: v rest and v rest and v rest rule: json_value_json_members_json_elements.induct)
  case (2 n s)
  show ?case
  proof (cases s)
    case Nil
    then show ?thesis using "2.prems" by simp
  next
    case (Cons c cs)
    show ?thesis
    proof (cases "c = 34 \<or> c = 123 \<or> c = 91")
      case True
      then consider t where "json_string cs = Some (t, rest)" | d where "skip_space cs = d # rest"
        | d ds where "c = 123" "skip_space cs = d # ds" "d \<noteq> 125" "json_members n [] (d # ds) = Scanned v rest"
        | d ds where "c = 91" "skip_space cs = d # ds" "d \<noteq> 93" "json_elements n [] (d # ds) = Scanned v rest"
        using "2.prems" Cons by (auto split: if_splits list.splits option.splits)
      then show ?thesis
      proof cases
        case 1
        then show ?thesis using Cons json_string_shorter by fastforce
      next
        case 2
        then show ?thesis using Cons skip_space_shorter [of cs] by simp
      next
        case (3 d ds)
        then have "length rest < length (d # ds)" using Cons by (intro "2.IH"(1)) auto
        then show ?thesis using 3(2) Cons skip_space_shorter [of cs] by simp
      next
        case (4 d ds)
        then have "length rest < length (d # ds)" using Cons by (intro "2.IH"(2)) auto
        then show ?thesis using 4(2) Cons skip_space_shorter [of cs] by simp
      qed
    next
      case False
      then show ?thesis using "2.prems" Cons json_atom_facts [of s v rest] by simp
    qed
  qed
next
  case (4 n d s)
  from "4.prems" obtain cs k r1 ds w r2 e es where
      s: "s = 34 # cs" "json_string cs = Some (k, r1)" "skip_space r1 = 58 # ds" "json_value n (skip_space ds) = Scanned w r2"
         "skip_space r2 = e # es" "es = rest \<or> json_members n ((k, w) # d) (skip_space es) = Scanned v rest"
    and next': "e \<noteq> 125 \<Longrightarrow> e = 44 \<and> json_members n ((k, w) # d) (skip_space es) = Scanned v rest" "e = 125 \<Longrightarrow> es = rest"
    by (auto split: list.splits if_splits option.splits scan.splits)
  have "length r2 < length (skip_space ds)" using "4.IH"(1) s by (metis option.simps(3))
  moreover have "length rest < length r2"
  proof (cases "e = 125")
    case True
    then show ?thesis using next'(2) s(5) skip_space_shorter [of r2] by simp
  next
    case False
    then have "length rest < length (skip_space es)" using next'(1) s by (intro "4.IH"(2)) auto
    then show ?thesis using s(5) skip_space_shorter [of r2] skip_space_shorter [of es] by simp
  qed
  ultimately show ?case using s(1,3) json_string_shorter [OF s(2)] skip_space_shorter [of r1] skip_space_shorter [of ds] by simp
next
  case (6 n d s)
  from "6.prems" obtain w r2 e es where
      s: "json_value n s = Scanned w r2" "skip_space r2 = e # es"
    and next': "e \<noteq> 93 \<Longrightarrow> e = 44 \<and> json_elements n (w # d) (skip_space es) = Scanned v rest" "e = 93 \<Longrightarrow> es = rest"
    by (auto split: list.splits if_splits scan.splits)
  have "length r2 < length s" using "6.IH"(1) s by blast
  moreover have "length rest < length r2"
  proof (cases "e = 93")
    case True
    then show ?thesis using next'(2) s(2) skip_space_shorter [of r2] by simp
  next
    case False
    then have "length rest < length (skip_space es)" using next'(1) s by (intro "6.IH"(2)) auto
    then show ?thesis using s(2) skip_space_shorter [of r2] skip_space_shorter [of es] by simp
  qed
  ultimately show ?case by simp
qed simp_all

lemma json_enough:
  shows "2 * length s < n \<Longrightarrow> json_value n s \<noteq> OutOfFuel"
    and "2 * length s < n \<Longrightarrow> json_members n done s \<noteq> OutOfFuel"
    and "2 * length s + 1 < n \<Longrightarrow> json_elements n acc s \<noteq> OutOfFuel"
proof (induction n s and n "done" s and n acc s rule: json_value_json_members_json_elements.induct)
  case (2 n s)
  show ?case
  proof (cases s)
    case (Cons c cs)
    show ?thesis
    proof
      assume "json_value (Suc n) s = OutOfFuel"
      then consider d ds where "c \<noteq> 34" "c = 123" "skip_space cs = d # ds" "d \<noteq> 125" "json_members n [] (d # ds) = OutOfFuel"
        | d ds where "c \<noteq> 34" "c \<noteq> 123" "c = 91" "skip_space cs = d # ds" "d \<noteq> 93" "json_elements n [] (d # ds) = OutOfFuel"
        using Cons json_atom_facts by (auto split: if_splits list.splits option.splits)
      then show False
      proof cases
        case (1 d ds)
        have "2 * length (d # ds) < n" using "2.prems" Cons skip_space_shorter [of cs] 1(3) by simp
        then have "json_members n [] (d # ds) \<noteq> OutOfFuel" by (intro "2.IH"(1) [OF Cons]) (use 1 in auto)
        then show False using 1 by simp
      next
        case (2 d ds)
        have "2 * length (d # ds) + 1 < n" using "2.prems" Cons skip_space_shorter [of cs] 2(4) by simp
        then have "json_elements n [] (d # ds) \<noteq> OutOfFuel" by (intro "2.IH"(2) [OF Cons]) (use 2 in auto)
        then show False using 2 by simp
      qed
    qed
  qed simp
next
  case (4 n acc s)
  show ?case
  proof
    assume "json_members (Suc n) acc s = OutOfFuel"
    then obtain cs k r1 ds where s: "s = 34 # cs" "json_string cs = Some (k, r1)" "skip_space r1 = 58 # ds"
      and or: "json_value n (skip_space ds) = OutOfFuel \<or> (\<exists>v r2 es. json_value n (skip_space ds) = Scanned v r2 \<and>
        skip_space r2 = 44 # es \<and> json_members n ((k, v) # acc) (skip_space es) = OutOfFuel)"
      by (auto split: if_splits list.splits option.splits scan.splits)
    have len: "length (skip_space ds) + 3 \<le> length s"
      using s(1) json_string_shorter [OF s(2)] arg_cong [OF s(3), of length] skip_space_shorter [of r1] skip_space_shorter [of ds] by simp
    then have "json_value n (skip_space ds) \<noteq> OutOfFuel" using "4.prems" s by (intro "4.IH"(1)) auto
    then obtain v r2 es where r: "json_value n (skip_space ds) = Scanned v r2"
        "skip_space r2 = 44 # es" "json_members n ((k, v) # acc) (skip_space es) = OutOfFuel" using or by blast
    have "length (skip_space es) < length s"
      using len json_shorter(1) [OF r(1)] skip_space_shorter [of r2] arg_cong [OF r(2), of length] skip_space_shorter [of es] by simp
    then have "json_members n ((k, v) # acc) (skip_space es) \<noteq> OutOfFuel" using "4.prems" s r by (intro "4.IH"(2)) auto
    then show False using r by simp
  qed
next
  case (6 n acc s)
  show ?case
  proof
    assume out: "json_elements (Suc n) acc s = OutOfFuel"
    have "json_value n s \<noteq> OutOfFuel" using "6.prems" by (intro "6.IH"(1)) auto
    then obtain v r2 es where r: "json_value n s = Scanned v r2"
        "skip_space r2 = 44 # es" "json_elements n (v # acc) (skip_space es) = OutOfFuel"
      using out by (auto split: if_splits list.splits scan.splits)
    have "length (skip_space es) < length s"
      using json_shorter(1) [OF r(1)] skip_space_shorter [of r2] arg_cong [OF r(2), of length] skip_space_shorter [of es] by simp
    then have "json_elements n (v # acc) (skip_space es) \<noteq> OutOfFuel" using "6.prems" r by (intro "6.IH"(2)) auto
    then show False using r by simp
  qed
qed simp_all

lemma json_more_fuel:
  shows "json_value n s \<noteq> OutOfFuel \<Longrightarrow> json_value (Suc n) s = json_value n s"
    and "json_members n done s \<noteq> OutOfFuel \<Longrightarrow> json_members (Suc n) done s = json_members n done s"
    and "json_elements n acc s \<noteq> OutOfFuel \<Longrightarrow> json_elements (Suc n) acc s = json_elements n acc s"
proof (induction n s and n "done" s and n acc s rule: json_value_json_members_json_elements.induct)
  case (2 n s)
  show ?case
  proof (cases s)
    case (Cons c cs)
    consider "c = 34" | "c = 123" | "c = 91" | "c \<noteq> 34" "c \<noteq> 123" "c \<noteq> 91" by blast
    then show ?thesis
    proof cases
      case 2
      show ?thesis
      proof (cases "skip_space cs")
        case (Cons d ds)
        then show ?thesis using "2.prems" "2.IH"(1) \<open>s = c # cs\<close> 2
          by (cases "d = 125") (simp_all del: json_members.simps)
      qed (use Cons 2 in simp)
    next
      case 3
      show ?thesis
      proof (cases "skip_space cs")
        case (Cons d ds)
        then show ?thesis using "2.prems" "2.IH"(2) \<open>s = c # cs\<close> 3
          by (cases "d = 93") (simp_all del: json_elements.simps)
      qed (use Cons 3 in simp)
    qed (use Cons in \<open>simp_all\<close>)
  qed simp
next
  case (4 n acc s)
  show ?case
  proof (cases "\<exists>cs k r1 ds. s = 34 # cs \<and> json_string cs = Some (k, r1) \<and> skip_space r1 = 58 # ds")
    case False
    then have "json_members (Suc f) acc s = Malformed" for f
      by (cases s) (auto split: list.splits option.splits)
    then show ?thesis by (simp only:)
  next
    case True
    then obtain cs k r1 ds where s: "s = 34 # cs" "json_string cs = Some (k, r1)" "skip_space r1 = 58 # ds" by blast
    have "json_value n (skip_space ds) \<noteq> OutOfFuel" using "4.prems" s by (auto split: scan.splits)
    then have v: "json_value (Suc n) (skip_space ds) = json_value n (skip_space ds)" using s by (intro "4.IH"(1)) auto
    show ?thesis
    proof (cases "json_value n (skip_space ds)")
      case (Scanned w r2)
      show ?thesis
      proof (cases "\<exists>es. skip_space r2 = 44 # es")
        case True
        then obtain es where es: "skip_space r2 = 44 # es" by blast
        then have "json_members n ((k, w) # acc) (skip_space es) \<noteq> OutOfFuel" using "4.prems" s Scanned by auto
        then have "json_members (Suc n) ((k, w) # acc) (skip_space es) = json_members n ((k, w) # acc) (skip_space es)"
          using s Scanned es by (intro "4.IH"(2)) auto
        then show ?thesis using s v Scanned es by (simp del: json_members.simps json_value.simps add: json_members.simps(2) [of n] json_members.simps(2) [of "Suc n"])
      next
        case False
        then show ?thesis using s v Scanned
          by (auto simp del: json_members.simps json_value.simps simp add: json_members.simps(2) [of n] json_members.simps(2) [of "Suc n"] split: list.splits)
      qed
    qed (use s v "4.prems" in \<open>simp_all del: json_value.simps\<close>)
  qed
next
  case (6 n acc s)
  have "json_value n s \<noteq> OutOfFuel" using "6.prems" by (auto split: scan.splits)
  then have v: "json_value (Suc n) s = json_value n s" by (rule "6.IH"(1))
  show ?case
  proof (cases "json_value n s")
    case (Scanned w r2)
    show ?thesis
    proof (cases "\<exists>es. skip_space r2 = 44 # es")
      case True
      then obtain es where es: "skip_space r2 = 44 # es" by blast
      then have "json_elements n (w # acc) (skip_space es) \<noteq> OutOfFuel" using "6.prems" Scanned by auto
      then have "json_elements (Suc n) (w # acc) (skip_space es) = json_elements n (w # acc) (skip_space es)"
        using Scanned es by (intro "6.IH"(2)) auto
      then show ?thesis using v Scanned es by (simp del: json_elements.simps json_value.simps add: json_elements.simps(2) [of n] json_elements.simps(2) [of "Suc n"])
    next
      case False
      then show ?thesis using v Scanned
        by (auto simp del: json_elements.simps json_value.simps simp add: json_elements.simps(2) [of n] json_elements.simps(2) [of "Suc n"] split: list.splits)
    qed
  qed (use v "6.prems" in \<open>simp_all del: json_value.simps\<close>)
qed simp_all

lemma json_fuel_enough: "json_value (json_fuel s + m) (skip_space s) = json_value (json_fuel s) (skip_space s) \<and>
    json_value (json_fuel s + m) (skip_space s) \<noteq> OutOfFuel"
proof (induction m)
  case 0
  show ?case using skip_space_shorter [of s] by (simp add: json_fuel_def json_enough(1) del: json_value.simps)
next
  case (Suc m)
  then show ?case using json_more_fuel(1) [of "json_fuel s + m" "skip_space s"] by (metis add_Suc_right)
qed

text \<open>
  The fuel of the model's JSON parser is enough on every text: with it, and with any more, the parser
  never runs out and its result is the same.
\<close>

theorem json_loads_total:
  "json_loads_with (json_fuel s + m) s = Scanned (json_loads s) []"
  using json_fuel_enough [of s m] json_fuel_enough [of s 0]
  by (auto simp: json_loads_def json_loads_with_def split: scan.splits)

subsection \<open>A reference reading of the stream\<close>

text \<open>
  The lines of the whole stream one after the other, without a clock and without chunks: the state
  is the lines of the event under way and whether a token was seen.
\<close>

datatype stream_verdict = Continue "int list list" bool | Ended | Refused

definition event_effect :: "int list list \<Rightarrow> bool \<Rightarrow> stream_verdict" where
  "event_effect ls seen = (case payload_of ls of
     DoneMarker \<Rightarrow> if seen then Ended else Refused
   | BadPayload \<Rightarrow> Refused
   | Choices cs \<Rightarrow> if BadChoice \<in> choice_content ` set cs then Refused else Continue [] (seen \<or> Content \<in> choice_content ` set cs))"

definition line_effect :: "string \<Rightarrow> int list list \<Rightarrow> bool \<Rightarrow> stream_verdict" where
  "line_effect raw ls seen = (case decode_sse_line raw of None \<Rightarrow> Refused
   | Some line \<Rightarrow> (case sse_line_of line of
       BlankLine \<Rightarrow> if ls = [] then Continue ls seen else event_effect ls seen
     | CommentLine \<Rightarrow> Continue ls seen
     | BadLine \<Rightarrow> Refused
     | DataLine t \<Rightarrow> Continue (ls @ [t]) seen))"

fun lines_effect :: "string list \<Rightarrow> int list list \<Rightarrow> bool \<Rightarrow> stream_verdict" where
  "lines_effect [] ls seen = Continue ls seen"
| "lines_effect (raw # raws) ls seen = (case line_effect raw ls seen of
     Continue ls' seen' \<Rightarrow> lines_effect raws ls' seen' | v \<Rightarrow> v)"

definition end_effect :: "string \<Rightarrow> int list list \<Rightarrow> bool \<Rightarrow> bool" where
  "end_effect rest ls seen = (case (if rest = [] then Continue ls seen else line_effect rest ls seen) of
     Ended \<Rightarrow> True | Refused \<Rightarrow> False | Continue ls' seen' \<Rightarrow> ls' \<noteq> [] \<and> event_effect ls' seen' = Ended)"

definition accepted_from :: "string \<Rightarrow> int list list \<Rightarrow> bool \<Rightarrow> bool" where
  "accepted_from bytes ls seen = (let pieces = split_at (CHR 10) bytes in
     case lines_effect (butlast pieces) ls seen of
       Ended \<Rightarrow> True | Refused \<Rightarrow> False | Continue ls' seen' \<Rightarrow> end_effect (last pieces) ls' seen')"

definition stream_accepted :: "string \<Rightarrow> bool" where
  "stream_accepted bytes = accepted_from bytes [] False"

subsection \<open>The reference reading is what the code computes\<close>

text \<open>A state under way: no end yet, and the two things the reference keeps.\<close>

definition under_way :: "int list list \<Rightarrow> bool \<Rightarrow> sse_state \<Rightarrow> bool" where
  "under_way ls seen s \<longleftrightarrow> sse_event_lines s = ls \<and> sse_done_at s = None \<and> (seen \<longleftrightarrow> sse_first_token_at s \<noteq> None)"

lemma choices_run:
  assumes "\<And>n. 0 \<le> clock n" and "under_way ls seen s"
  shows "if BadChoice \<in> choice_content ` set cs then snd (process_choices clock cs s) = Inl ProtocolExc
    else snd (process_choices clock cs s) = Inr () \<and> under_way ls (seen \<or> Content \<in> choice_content ` set cs) (fst (process_choices clock cs s))"
  using assms(2)
proof (induction cs arbitrary: s seen)
  case Nil
  then show ?case by simp
next
  case (Cons c cs)
  show ?case
  proof (cases "choice_content c")
    case BadChoice
    then show ?thesis by simp
  next
    case NoContent
    then show ?thesis using Cons by simp
  next
    case Content
    show ?thesis
    proof (cases "sse_first_token_at s")
      case None
      let ?t = "s\<lparr>sse_readings := Suc (sse_readings s), sse_first_token_at := Some (clock (sse_readings s))\<rparr>"
      have "process_choices clock (c # cs) s = process_choices clock cs ?t"
        using Content None assms(1) [of "sse_readings s"] by (simp add: flow_simps sse_clock_def)
      moreover have "under_way ls True ?t" using Cons.prems by (simp add: under_way_def)
      ultimately show ?thesis using Cons.IH [of True ?t] Content by (auto simp del: process_choices.simps split: if_splits)
    next
      case (Some f)
      then have "process_choices clock (c # cs) s = process_choices clock cs s" using Content by (simp add: flow_simps)
      moreover have "seen" using Some Cons.prems by (simp add: under_way_def)
      ultimately show ?thesis using Cons.IH [OF Cons.prems] Content by (auto simp del: process_choices.simps split: if_splits)
    qed
  qed
qed

text \<open>What a step of the code does, told by the verdict of the reference.\<close>

fun realises :: "stream_verdict \<Rightarrow> sse_state \<times> (attempt_exc + 'a) \<Rightarrow> bool" where
  "realises (Continue ls seen) (s, r) \<longleftrightarrow> under_way ls seen s \<and> (\<exists>a. r = Inr a)"
| "realises Ended (s, r) \<longleftrightarrow> sse_done_at s \<noteq> None \<and> sse_first_token_at s \<noteq> None \<and> (\<exists>a. r = Inr a)"
| "realises Refused (s, r) \<longleftrightarrow> r = Inl ProtocolExc"

lemma event_run:
  assumes "\<And>n. 0 \<le> clock n" and "under_way ls seen s" and "ls \<noteq> []"
  shows "realises (event_effect ls seen) (finish_event clock s)"
proof -
  have s: "sse_event_lines s = ls" "sse_done_at s = None" "seen \<longleftrightarrow> sse_first_token_at s \<noteq> None"
    using assms(2) by (auto simp: under_way_def)
  show ?thesis
  proof (cases "payload_of ls")
    case DoneMarker
    then show ?thesis using s assms(1) [of "sse_readings s"] assms(3)
      by (cases "sse_first_token_at s") (simp_all add: finish_event_def process_sse_event_def event_effect_def flow_simps sse_clock_def)
  next
    case BadPayload
    then show ?thesis using s assms(3) by (simp add: finish_event_def process_sse_event_def event_effect_def flow_simps)
  next
    case (Choices cs)
    obtain t r where run: "process_choices clock cs s = (t, r)" by (cases "process_choices clock cs s")
    have "finish_event clock s = (case r of Inl e \<Rightarrow> (t, Inl e) | Inr u \<Rightarrow> (t\<lparr>sse_event_lines := []\<rparr>, Inr ()))"
      using s assms(3) Choices run
      by (cases r) (simp_all add: finish_event_def process_sse_event_def flow_simps)
    then show ?thesis using choices_run [of clock ls seen s cs] assms(1,2) run Choices
      by (auto simp: event_effect_def under_way_def split: if_splits)
  qed
qed

lemma line_run:
  assumes "\<And>n. 0 \<le> clock n" and "under_way ls seen s"
  shows "case line_effect raw ls seen of
      Continue ls' seen' \<Rightarrow> (\<exists>t. process_raw_line clock raw s = (t, Inr None) \<and> under_way ls' seen' t)
    | Ended \<Rightarrow> (\<exists>t r. process_raw_line clock raw s = (t, Inr (Some r)))
    | Refused \<Rightarrow> snd (process_raw_line clock raw s) = Inl ProtocolExc"
proof (cases "decode_sse_line raw")
  case None
  then show ?thesis by (simp add: line_effect_def process_raw_line_def)
next
  case (Some line)
  have s: "sse_event_lines s = ls" "sse_done_at s = None" using assms(2) by (auto simp: under_way_def)
  have "realises (line_effect raw ls seen) (process_sse_line clock line s)"
  proof (cases "sse_line_of line")
    case BlankLine
    show ?thesis
    proof (cases "ls = []")
      case True
      then have "finish_event clock s = (s, Inr ())" using s by (simp add: finish_event_def flow_simps)
      then show ?thesis using Some BlankLine True assms(2) by (simp add: line_effect_def process_sse_line_def)
    next
      case False
      then show ?thesis using Some BlankLine event_run [of clock ls seen s] assms by (simp add: line_effect_def process_sse_line_def)
    qed
  next
    case CommentLine
    then show ?thesis using Some assms(2) by (simp add: line_effect_def process_sse_line_def)
  next
    case (DataLine t)
    then show ?thesis using Some assms(2) by (simp add: line_effect_def process_sse_line_def under_way_def)
  next
    case BadLine
    then show ?thesis using Some by (simp add: line_effect_def process_sse_line_def)
  qed
  moreover obtain t r where "process_sse_line clock line s = (t, r)" by (cases "process_sse_line clock line s")
  ultimately show ?thesis using Some
    by (cases "line_effect raw ls seen") (auto simp: process_raw_line_def flow_simps under_way_def)
qed

lemma split_at_none: "c \<notin> set s \<Longrightarrow> split_at c s = [s]"
  by (induction s) auto

lemma split_at_first: "c \<in> set s \<Longrightarrow> split_at c s = takeWhile (\<lambda>d. d \<noteq> c) s # split_at c (tl (dropWhile (\<lambda>d. d \<noteq> c) s))"
  by (induction s) (auto split: list.splits)

lemma split_at_append: "split_at c (a @ b) = butlast (split_at c a) @ split_at c (last (split_at c a) @ b)"
proof (induction a)
  case (Cons d a)
  show ?case
  proof (cases "d = c")
    case True
    then show ?thesis using Cons by simp
  next
    case False
    obtain x xs where a: "split_at c a = x # xs" by (cases "split_at c a") auto
    show ?thesis
    proof (cases xs)
      case Nil
      then show ?thesis using Cons False a by simp
    next
      case (Cons y ys)
      then show ?thesis using Cons.IH False a by simp
    qed
  qed
qed simp

lemma last_split_at: "c \<notin> set (last (split_at c s))"
  by (induction s) (auto split: list.splits)

lemma lines_effect_append:
  "lines_effect (xs @ ys) ls seen = (case lines_effect xs ls seen of Continue ls' seen' \<Rightarrow> lines_effect ys ls' seen' | v \<Rightarrow> v)"
  by (induction xs arbitrary: ls seen) (auto split: stream_verdict.splits)

text \<open>The lines of a buffer.\<close>

lemma drain_run:
  assumes "\<And>n. 0 \<le> clock n" and "under_way ls seen s"
  shows "case lines_effect (butlast (split_at (CHR 10) buffer)) ls seen of
      Continue ls' seen' \<Rightarrow> (\<exists>t. drain_lines clock buffer s = (t, Inr (Inr (last (split_at (CHR 10) buffer)))) \<and> under_way ls' seen' t)
    | Ended \<Rightarrow> (\<exists>t r. drain_lines clock buffer s = (t, Inr (Inl r)))
    | Refused \<Rightarrow> snd (drain_lines clock buffer s) = Inl ProtocolExc"
  using assms(2)
proof (induction "length buffer" arbitrary: buffer s ls seen rule: less_induct)
  case less
  show ?case
  proof (cases "CHR 10 \<in> set buffer")
    case False
    then have "drain_lines clock buffer s = (s, Inr (Inr buffer))" by (subst drain_lines.simps) simp
    then show ?thesis using less.prems False by (simp add: split_at_none)
  next
    case True
    let ?raw = "takeWhile (\<lambda>c. c \<noteq> CHR 10) buffer"
    let ?rest = "tl (dropWhile (\<lambda>c. c \<noteq> CHR 10) buffer)"
    have pieces: "split_at (CHR 10) buffer = ?raw # split_at (CHR 10) ?rest" using True by (rule split_at_first)
    have "dropWhile (\<lambda>c. c \<noteq> CHR 10) buffer \<noteq> []" using True by (auto simp: dropWhile_eq_Nil_conv)
    then have shorter: "length ?rest < length buffer"
      using length_dropWhile_le [of "\<lambda>c. c \<noteq> CHR 10" buffer] by (cases "dropWhile (\<lambda>c. c \<noteq> CHR 10) buffer") auto
    have step: "drain_lines clock buffer s = seq (process_raw_line clock ?raw) (\<lambda>ended. case ended of
        Some r \<Rightarrow> ret (Inl r) | None \<Rightarrow> drain_lines clock ?rest) s"
      using True by (subst drain_lines.simps) simp
    note line = line_run [of clock ls seen s ?raw, OF assms(1) less.prems]
    have lines: "lines_effect (butlast (split_at (CHR 10) buffer)) ls seen =
        (case line_effect ?raw ls seen of Continue ls' seen' \<Rightarrow> lines_effect (butlast (split_at (CHR 10) ?rest)) ls' seen' | v \<Rightarrow> v)"
      unfolding pieces by simp
    show ?thesis
    proof (cases "line_effect ?raw ls seen")
      case (Continue ls' seen')
      then obtain t where t: "process_raw_line clock ?raw s = (t, Inr None)" "under_way ls' seen' t" using line by auto
      then have run: "drain_lines clock buffer s = drain_lines clock ?rest t" using step by (simp add: seq_apply)
      have rest: "last (split_at (CHR 10) buffer) = last (split_at (CHR 10) ?rest)" unfolding pieces by simp
      show ?thesis using less.hyps [OF shorter t(2)] unfolding lines Continue run rest by simp
    next
      case Ended
      then show ?thesis using line step lines by (auto simp: seq_apply)
    next
      case Refused
      then obtain t where "process_raw_line clock ?raw s = (t, Inl ProtocolExc)" using line by (cases "process_raw_line clock ?raw s") auto
      then show ?thesis using Refused step lines by (simp add: seq_apply)
    qed
  qed
qed

text \<open>Surroundings that never interfere with the call.\<close>

definition undisturbed :: "sse_env \<Rightarrow> bool" where
  "undisturbed env \<longleftrightarrow> (\<forall>n. \<not> se_cancelled env n \<and> 0 \<le> se_clock env n \<and> se_clock env n \<le> se_deadline_ns env)"

lemma alive: "undisturbed env \<Longrightarrow> check_alive env i s = (s\<lparr>sse_readings := Suc (sse_readings s)\<rparr>, Inr ())"
  by (simp add: undisturbed_def check_alive_def flow_simps sse_clock_def not_less [symmetric] del: not_less)

lemma under_way_readings [simp]: "under_way ls seen (s\<lparr>sse_readings := n\<rparr>) = under_way ls seen s"
  by (simp add: under_way_def)

text \<open>A call that returns exactly when \<open>b\<close>, and raises \<open>ProbeProtocolError\<close> otherwise.\<close>

definition ended_when :: "bool \<Rightarrow> attempt_exc + 'a \<Rightarrow> bool" where
  "ended_when b r \<longleftrightarrow> (if b then \<exists>v. r = Inr v else r = Inl ProtocolExc)"

lemma ended_when_simps [simp]: "ended_when True r = (\<exists>v. r = Inr v)" "ended_when False r = (r = Inl ProtocolExc)" "ended_when b (Inr v) = b"
  by (simp_all add: ended_when_def)

lemma close_run:
  assumes "\<And>n. 0 \<le> clock n" and "under_way ls seen s"
  shows "ended_when (ls \<noteq> [] \<and> event_effect ls seen = Ended) (snd (close_stream clock s))"
proof (cases "ls = []")
  case True
  then have "finish_event clock s = (s, Inr ())" "sse_done_at s = None"
    using assms(2) by (auto simp: finish_event_def under_way_def flow_simps)
  then show ?thesis using True by (auto simp: close_stream_def seq_apply split: option.splits)
next
  case False
  obtain u r where run: "finish_event clock s = (u, r)" by (cases "finish_event clock s")
  then have "realises (event_effect ls seen) (u, r)" using event_run [of clock ls seen s] assms False by simp
  then show ?thesis using False run
    by (cases "event_effect ls seen") (auto simp: close_stream_def seq_apply under_way_def split: option.splits)
qed

lemma finish_stream_run:
  assumes env: "undisturbed env" and "under_way ls seen s"
  shows "ended_when (end_effect rest ls seen) (snd (finish_stream env i rest s))"
proof -
  have clock: "\<And>n. 0 \<le> se_clock env n" using env by (simp add: undisturbed_def)
  let ?s = "s\<lparr>sse_readings := Suc (sse_readings s)\<rparr>"
  have s: "under_way ls seen ?s" using assms(2) by simp
  show ?thesis
  proof (cases "rest = []")
    case True
    then have "finish_stream env i rest s = close_stream (se_clock env) ?s"
      using alive [OF env, of i s] by (simp add: finish_stream_def seq_apply)
    then show ?thesis using close_run [of "se_clock env" ls seen ?s, OF clock s] True by (simp add: end_effect_def)
  next
    case False
    have step: "finish_stream env i rest s = seq (process_raw_line (se_clock env) rest) (\<lambda>ended. case ended of
        Some r \<Rightarrow> ret r | None \<Rightarrow> close_stream (se_clock env)) ?s"
      using False alive [OF env, of i s] by (simp add: finish_stream_def seq_apply)
    note line = line_run [of "se_clock env" ls seen ?s rest, OF clock s]
    show ?thesis
    proof (cases "line_effect rest ls seen")
      case (Continue ls' seen')
      then obtain t where t: "process_raw_line (se_clock env) rest ?s = (t, Inr None)" "under_way ls' seen' t" using line by auto
      then have "finish_stream env i rest s = close_stream (se_clock env) t" using step by (simp add: seq_apply)
      then show ?thesis using close_run [of "se_clock env" ls' seen' t, OF clock t(2)] Continue False by (simp add: end_effect_def)
    next
      case Ended
      then show ?thesis using line step False by (auto simp: seq_apply end_effect_def)
    next
      case Refused
      then obtain t where "process_raw_line (se_clock env) rest ?s = (t, Inl ProtocolExc)" using line by (cases "process_raw_line (se_clock env) rest ?s") auto
      then show ?thesis using Refused step False by (simp add: seq_apply end_effect_def)
    qed
  qed
qed

lemma chunks_run:
  assumes env: "undisturbed env" and "under_way ls seen s" and "CHR 10 \<notin> set buffer" and "[] \<notin> set cs"
    and "received + int (length (concat cs)) \<le> se_max_stream_bytes env"
  shows "ended_when (accepted_from (buffer @ concat cs) ls seen) (snd (consume_chunks env i received buffer (map Chunk cs) s))"
  using assms(2-5)
proof (induction cs arbitrary: ls seen s buffer i received)
  case Nil
  then show ?case using finish_stream_run [OF env Nil.prems(1), of buffer i]
    by (simp add: accepted_from_def split_at_none)
next
  case (Cons c cs)
  have clock: "\<And>n. 0 \<le> se_clock env n" using env by (simp add: undisturbed_def)
  let ?s = "s\<lparr>sse_readings := Suc (sse_readings s)\<rparr>"
  let ?pieces = "split_at (CHR 10) (buffer @ c)"
  have c: "c \<noteq> []" "\<not> received + int (length c) > se_max_stream_bytes env" using Cons.prems(3,4) by auto
  have step: "consume_chunks env i received buffer (map Chunk (c # cs)) s = seq (drain_lines (se_clock env) (buffer @ c)) (\<lambda>left. case left of
       Inl r \<Rightarrow> ret r | Inr buffer' \<Rightarrow> consume_chunks env (Suc i) (received + int (length c)) buffer' (map Chunk cs)) ?s"
    using c alive [OF env, of i s] by (simp add: seq_apply)
  have split: "split_at (CHR 10) (buffer @ concat (c # cs)) = butlast ?pieces @ split_at (CHR 10) (last ?pieces @ concat cs)"
    using split_at_append [of "CHR 10" "buffer @ c" "concat cs"] by simp
  have accepted: "accepted_from (buffer @ concat (c # cs)) ls seen = (case lines_effect (butlast ?pieces) ls seen of
      Continue ls' seen' \<Rightarrow> accepted_from (last ?pieces @ concat cs) ls' seen' | Ended \<Rightarrow> True | Refused \<Rightarrow> False)"
    unfolding accepted_from_def Let_def split
    by (simp add: butlast_append lines_effect_append split: stream_verdict.split)
  have "under_way ls seen ?s" using Cons.prems(1) by simp
  note drained = drain_run [of "se_clock env" ls seen ?s "buffer @ c", OF clock this]
  show ?case
  proof (cases "lines_effect (butlast ?pieces) ls seen")
    case (Continue ls' seen')
    then obtain t where t: "drain_lines (se_clock env) (buffer @ c) ?s = (t, Inr (Inr (last ?pieces)))" "under_way ls' seen' t"
      using drained by auto
    then have "consume_chunks env i received buffer (map Chunk (c # cs)) s =
        consume_chunks env (Suc i) (received + int (length c)) (last ?pieces) (map Chunk cs) t" using step by (simp add: seq_apply)
    then show ?thesis
      using Cons.IH [of ls' seen' t "last ?pieces" "received + int (length c)" "Suc i"] t(2) last_split_at [of "CHR 10" "buffer @ c"] Cons.prems(3,4) accepted Continue by simp
  next
    case Ended
    then show ?thesis using drained step accepted by (auto simp: seq_apply)
  next
    case Refused
    then obtain t where "drain_lines (se_clock env) (buffer @ c) ?s = (t, Inl ProtocolExc)"
      using drained by (cases "drain_lines (se_clock env) (buffer @ c) ?s") auto
    then show ?thesis using Refused step accepted by (simp add: seq_apply)
  qed
qed

text \<open>
  C24. While neither a cancellation nor the deadline nor the byte limit interferes, consuming an event
  stream returns exactly when a plain reading of its lines accepts the whole of the bytes, and
  raises ProbeProtocolError otherwise, into whatever chunks the bytes were cut.
\<close>

theorem stream_reading_exact:
  assumes "undisturbed env" and "[] \<notin> set cs" and "int (length (concat cs)) \<le> se_max_stream_bytes env"
  shows "if stream_accepted (concat cs) then \<exists>f d. consume_openai_sse env (Some (map Chunk cs)) = Inr (f, d)
    else consume_openai_sse env (Some (map Chunk cs)) = Inl ProtocolExc"
proof -
  have "ended_when (stream_accepted (concat cs)) (consume_openai_sse env (Some (map Chunk cs)))"
    using chunks_run [OF assms(1), of "[]" False sse_start "[]" cs 0 0] assms(2,3)
    by (simp add: consume_openai_sse_def stream_accepted_def sse_start_def under_way_def)
  then show ?thesis by (cases "stream_accepted (concat cs)") auto
qed

subsection \<open>The instants\<close>

text \<open>The instants kept are readings of the clock, the end after the first token.\<close>

definition timed :: "(nat \<Rightarrow> int) \<Rightarrow> sse_state \<Rightarrow> bool" where
  "timed clock s \<longleftrightarrow>
     (\<forall>f. sse_first_token_at s = Some f \<longrightarrow> (\<exists>i < sse_readings s. f = clock i \<and> 0 \<le> f)) \<and>
     (\<forall>d. sse_done_at s = Some d \<longrightarrow> (\<exists>f i j. sse_first_token_at s = Some f \<and> i < j \<and> j < sse_readings s \<and> f = clock i \<and> d = clock j \<and> 0 \<le> f))"

lemma timed_clock: "timed clock s \<Longrightarrow> timed clock (s\<lparr>sse_readings := Suc (sse_readings s)\<rparr>)"
  unfolding timed_def by (simp (no_asm_simp)) (meson less_SucI)

lemma timed_lines [simp]: "timed clock (s\<lparr>sse_event_lines := ls\<rparr>) = timed clock s"
  by (simp add: timed_def)

lemma choices_timed: "timed clock s \<Longrightarrow> sse_done_at s = None \<Longrightarrow> timed clock (fst (process_choices clock cs s)) \<and> sse_done_at (fst (process_choices clock cs s)) = None"
proof (induction cs arbitrary: s)
  case (Cons c cs)
  let ?t = "s\<lparr>sse_readings := Suc (sse_readings s), sse_first_token_at := Some (clock (sse_readings s))\<rparr>"
  show ?case
  proof (cases "choice_content c = Content \<and> sse_first_token_at s = None \<and> 0 \<le> clock (sse_readings s)")
    case True
    then have "process_choices clock (c # cs) s = process_choices clock cs ?t" by (simp add: flow_simps sse_clock_def Let_def)
    moreover have "timed clock ?t" "sse_done_at ?t = None" using True Cons.prems by (auto simp: timed_def)
    ultimately show ?thesis using Cons.IH [of ?t] by (simp del: process_choices.simps)
  next
    case False
    then show ?thesis using Cons timed_clock [OF Cons.prems(1)]
      by (cases "choice_content c") (auto simp: flow_simps sse_clock_def Let_def)
  qed
qed simp

lemma finish_event_timed: "timed clock s \<Longrightarrow> timed clock (fst (finish_event clock s))"
proof -
  assume t: "timed clock s"
  obtain f where f: "sse_first_token_at s = Some f \<Longrightarrow> \<exists>i < sse_readings s. f = clock i \<and> 0 \<le> f" using t by (auto simp: timed_def)
  show ?thesis
  proof (cases "sse_event_lines s = [] \<or> sse_done_at s \<noteq> None")
    case True
    then show ?thesis using t by (auto simp: finish_event_def process_sse_event_def flow_simps)
  next
    case False
    show ?thesis
    proof (cases "payload_of (sse_event_lines s)")
      case DoneMarker
      show ?thesis
      proof (cases "sse_first_token_at s")
        case None
        then show ?thesis using False DoneMarker t by (simp add: finish_event_def process_sse_event_def flow_simps)
      next
        case (Some f)
        then obtain i where i: "i < sse_readings s" "f = clock i" "0 \<le> f" using t by (auto simp: timed_def)
        have "timed clock (s\<lparr>sse_readings := Suc (sse_readings s), sse_done_at := Some (clock (sse_readings s)), sse_event_lines := ls\<rparr>)" for ls
          using t i Some by (auto simp: timed_def intro: less_SucI)
        then show ?thesis using False DoneMarker Some timed_clock [OF t]
          by (simp add: finish_event_def process_sse_event_def flow_simps sse_clock_def Let_def)
      qed
    next
      case BadPayload
      then show ?thesis using False t by (simp add: finish_event_def process_sse_event_def flow_simps)
    next
      case (Choices cs)
      obtain u r where run: "process_choices clock cs s = (u, r)" by (cases "process_choices clock cs s")
      then show ?thesis using False Choices choices_timed [OF t, of cs]
        by (cases r) (simp_all add: finish_event_def process_sse_event_def flow_simps)
    qed
  qed
qed

lemma line_timed: "timed clock s \<Longrightarrow> timed clock (fst (process_sse_line clock line s))"
  using finish_event_timed [of clock s] by (auto simp: process_sse_line_def split: sse_line.splits)

text \<open>What a result must be, and that every stage yields such results.\<close>

definition instants_ok :: "(nat \<Rightarrow> int) \<Rightarrow> int \<times> int \<Rightarrow> bool" where
  "instants_ok clock r \<longleftrightarrow> (\<exists>i j. i < j \<and> fst r = clock i \<and> snd r = clock j \<and> 0 \<le> fst r)"

lemma timed_result: "timed clock s \<Longrightarrow> sse_done_at s = Some d \<Longrightarrow> sse_first_token_at s = Some f \<Longrightarrow> instants_ok clock (f, d)"
  by (auto simp: timed_def instants_ok_def)

lemma raw_line_timed:
  assumes "timed clock s"
  shows "timed clock (fst (process_raw_line clock raw s)) \<and> (\<forall>r. snd (process_raw_line clock raw s) = Inr (Some r) \<longrightarrow> instants_ok clock r)"
proof (cases "decode_sse_line raw")
  case None
  then show ?thesis using assms by (simp add: process_raw_line_def)
next
  case (Some line)
  obtain t r where run: "process_sse_line clock line s = (t, r)" by (cases "process_sse_line clock line s")
  then have "timed clock t" using line_timed [OF assms, of line] by simp
  then show ?thesis using Some run timed_result [of clock t]
    by (cases r) (auto simp: process_raw_line_def seq_apply split: option.splits)
qed

lemma drain_timed:
  "timed clock s \<Longrightarrow> timed clock (fst (drain_lines clock buffer s)) \<and> (\<forall>r. snd (drain_lines clock buffer s) = Inr (Inl r) \<longrightarrow> instants_ok clock r)"
proof (induction clock buffer arbitrary: s rule: drain_lines.induct)
  case (1 clock buffer)
  show ?case
  proof (cases "CHR 10 \<in> set buffer")
    case False
    then show ?thesis using "1.prems" by (simp add: drain_lines.simps)
  next
    case True
    let ?raw = "takeWhile (\<lambda>c. c \<noteq> CHR 10) buffer"
    let ?rest = "tl (dropWhile (\<lambda>c. c \<noteq> CHR 10) buffer)"
    obtain t r where run: "process_raw_line clock ?raw s = (t, r)" by (cases "process_raw_line clock ?raw s")
    note line = raw_line_timed [OF "1.prems", of ?raw]
    have step: "drain_lines clock buffer s = (case r of Inl e \<Rightarrow> (t, Inl e) | Inr (Some x) \<Rightarrow> (t, Inr (Inl x)) | Inr None \<Rightarrow> drain_lines clock ?rest t)"
      using True run by (subst drain_lines.simps) (simp add: seq_apply split: sum.split option.split)
    show ?thesis
    proof (cases "r = Inr None")
      case r: True
      then show ?thesis using "1.IH" [of t] True line run step by simp
    next
      case False
      then show ?thesis using line run step by (auto split: sum.splits option.splits)
    qed
  qed
qed

lemma alive_timed: "timed (se_clock env) s \<Longrightarrow> timed (se_clock env) (fst (check_alive env i s))"
  using timed_clock [of "se_clock env" s] by (simp add: check_alive_def flow_simps sse_clock_def Let_def)

lemma finish_stream_timed:
  assumes "timed (se_clock env) s" and "snd (finish_stream env i buffer s) = Inr r"
  shows "instants_ok (se_clock env) r"
proof -
  let ?c = "se_clock env"
  obtain t a where t: "check_alive env i s = (t, a)" by (cases "check_alive env i s")
  then have tt: "timed ?c t" and a: "a = Inr ()" using alive_timed [OF assms(1), of i] assms(2)
    by (auto simp: finish_stream_def seq_apply split: sum.splits)
  obtain u b where u: "(if buffer = [] then ret None else process_raw_line ?c buffer) t = (u, b)"
    by (cases "(if buffer = [] then ret None else process_raw_line ?c buffer) t")
  then have tu: "timed ?c u" "\<forall>r. b = Inr (Some r) \<longrightarrow> instants_ok ?c r"
    using raw_line_timed [OF tt, of buffer] tt by (auto split: if_splits)
  obtain v c where v: "finish_event ?c u = (v, c)" by (cases "finish_event ?c u")
  then have "timed ?c v" using finish_event_timed [OF tu(1)] by simp
  then show ?thesis using assms(2) t a u tu(2) v timed_result [of ?c v]
    by (auto simp: finish_stream_def close_stream_def seq_apply split: sum.splits option.splits)
qed

lemma consume_timed:
  "timed (se_clock env) s \<Longrightarrow> snd (consume_chunks env i received buffer items s) = Inr r \<Longrightarrow> instants_ok (se_clock env) r"
proof (induction env i received buffer items arbitrary: s rule: consume_chunks.induct)
  case (1 env i received buffer)
  then show ?case using finish_stream_timed by simp
next
  case (4 env i received buffer c items)
  let ?c = "se_clock env"
  obtain t a where t: "check_alive env i s = (t, a)" by (cases "check_alive env i s")
  then have tt: "timed ?c t" and a: "a = Inr ()" and c: "c \<noteq> []" "\<not> received + int (length c) > se_max_stream_bytes env"
    using alive_timed [OF "4.prems"(1), of i] "4.prems"(2) by (auto simp: seq_apply split: sum.splits if_splits)
  obtain u b where u: "drain_lines ?c (buffer @ c) t = (u, b)" by (cases "drain_lines ?c (buffer @ c) t")
  then have tu: "timed ?c u" "\<forall>r. b = Inr (Inl r) \<longrightarrow> instants_ok ?c r" using drain_timed [OF tt, of "buffer @ c"] by auto
  show ?case
  proof (cases "\<exists>buffer'. b = Inr (Inr buffer')")
    case True
    then obtain buffer' where "b = Inr (Inr buffer')" by blast
    then show ?thesis using "4.IH" [of u buffer'] c "4.prems"(2) t a c u tu(1) by (simp add: seq_apply)
  next
    case False
    then show ?thesis using "4.prems"(2) t a c u tu(2) by (auto simp: seq_apply split: sum.splits)
  qed
qed (auto simp: seq_apply split: sum.splits prod.splits)

lemma consumed_instants:
  "consume_openai_sse env items = Inr (f, d) \<Longrightarrow> \<exists>i j. i < j \<and> f = se_clock env i \<and> d = se_clock env j \<and> 0 \<le> f"
  using consume_timed [of env sse_start 0 0 "[]" _ "(f, d)"]
  by (auto simp: consume_openai_sse_def timed_def sse_start_def instants_ok_def split: option.splits)

text \<open>
  C33. With a monotonic clock a request whose stream was consumed is always recorded as a success: the
  instants of the first token and of the end are readings in this order, so that the checks of the
  timing evidence never refuse it and the TTFT lies between zero and the duration.
\<close>

theorem streamed_attempt_recorded:
  assumes "\<not> at_cancelled a" and "at_send a = SendReturns r" and "200 \<le> sr_status_code r \<and> sr_status_code r \<le> 299"
    and "event_stream (sr_content_type r)" and "sr_close r = None"
    and "sr_consumed r = consume_openai_sse env items" and "consume_openai_sse env items = Inr (first, done_at)"
    and "mono (se_clock env)" and "0 \<le> at_clock a 0" and "at_clock a 0 \<le> se_clock env 0"
  shows "\<exists>record. execute_attempt m prompt_id prompt_sha phase ordinal execution a = Inr record \<and> rc_outcome record = Member SUCCESS \<and>
    rc_ttft_ns record = Some (first - at_clock a 0) \<and> rc_duration_ns record = done_at - at_clock a 0 \<and>
    0 \<le> first - at_clock a 0 \<and> first - at_clock a 0 \<le> done_at - at_clock a 0"
proof -
  obtain i j where ij: "i < j" "first = se_clock env i" "done_at = se_clock env j" using consumed_instants [OF assms(7)] by blast
  have "at_clock a 0 \<le> first" "first \<le> done_at"
    using monoD [OF assms(8), of 0 i] monoD [OF assms(8), of i j] ij assms(10) by auto
  moreover have "attempt_body a = (Some (sr_status_code r), 1, Inr (SUCCESS, Some (first - at_clock a 0), done_at))"
    using assms(1-4,6,7) by (simp add: attempt_body_def status_ok_def Let_def)
  ultimately show ?thesis using assms(1,2,5,9)
    by (simp add: execute_attempt_def attempt_closed_def attempt_handled_def close_failure_def)
qed


subsection \<open>The stream of the reference server\<close>

definition quiet_env :: sse_env where
  "quiet_env = \<lparr>se_clock = (\<lambda>n. 2), se_cancelled = (\<lambda>n. False), se_max_stream_bytes = 1000, se_deadline_ns = 9\<rparr>"

lemma reference_accepted: "stream_accepted reference_sse_payload"
  by code_simp

theorem stream_reading_exact_witness:
  "\<exists>f d. consume_openai_sse quiet_env (Some (map Chunk [take 7 reference_sse_payload, drop 7 reference_sse_payload])) = Inr (f, d)"
proof -
  have "take 7 reference_sse_payload \<noteq> [] \<and> drop 7 reference_sse_payload \<noteq> [] \<and> int (length reference_sse_payload) \<le> 1000"
    by code_simp
  then show ?thesis
    using stream_reading_exact [of quiet_env "[take 7 reference_sse_payload, drop 7 reference_sse_payload]"] reference_accepted
    by (simp add: undisturbed_def quiet_env_def)
qed

theorem streamed_attempt_recorded_witness:
  "\<exists>record. execute_attempt demo_manifest ''p'' ''s'' MEASURED 0 ''e''
      \<lparr>at_cancelled = False, at_send = SendReturns \<lparr>sr_status_code = 200, sr_content_type = Some ''text/event-stream'',
         sr_consumed = consume_openai_sse quiet_env (Some [Chunk reference_sse_payload]), sr_close = None\<rparr>, at_clock = (\<lambda>n. 1)\<rparr> = Inr record \<and>
    rc_ttft_ns record = Some 1"
proof -
  have "consume_openai_sse quiet_env (Some [Chunk reference_sse_payload]) = Inr (2, 2)" by code_simp
  moreover have "event_stream (Some ''text/event-stream'')" by code_simp
  ultimately show ?thesis
    using streamed_attempt_recorded [of "\<lparr>at_cancelled = False, at_send = SendReturns \<lparr>sr_status_code = 200, sr_content_type = Some ''text/event-stream'',
         sr_consumed = consume_openai_sse quiet_env (Some [Chunk reference_sse_payload]), sr_close = None\<rparr>, at_clock = (\<lambda>n. 1)\<rparr>"
      "\<lparr>sr_status_code = 200, sr_content_type = Some ''text/event-stream'',
         sr_consumed = consume_openai_sse quiet_env (Some [Chunk reference_sse_payload]), sr_close = None\<rparr>"
      quiet_env "Some [Chunk reference_sse_payload]" 2 2 demo_manifest "''p''" "''s''" MEASURED 0 "''e''"]
    by (auto simp: quiet_env_def mono_def)
qed

text \<open>Of the requests the probe sends, the reference server accepts those for its model with a plain prompt of bounded length.\<close>

lemma reference_request_iff:
  assumes "1 \<le> pc_max_tokens c" and "pc_max_tokens c \<le> 2048"
  shows "validate_reference_request (request_body c p) \<longleftrightarrow> pc_model c = REFERENCE_MODEL \<and> request_content_ok (sp_content p)"
  using assms by (auto simp: validate_reference_request_def request_body_def json_field_def request_message_ok_def)

end
