(* ===== verification/Performance_Operations.thy ===== *)
theory Performance_Operations
  imports Replay
begin

section \<open>Reservations of performance executions (performance_operations.py)\<close>

text \<open>
  \<open>SQLitePerformanceOperationLedger\<close>: an operation is reserved under an idempotency key before
  any network work, and ended once. The state is the table \<open>performance_operations\<close> in the order
  of insertion; a method runs in one immediate transaction, so that it is one step and an exception
  leaves the table as it was. A column is what SQLite hands back, a status or an identity a text; a
  timestamp column is the UTC instant (in microseconds) its canonical text stands for, or None for
  a text that is not canonical. Whether SQLite works during a call is an argument of it.
\<close>

subsection \<open>Shapes\<close>

definition tagged_hex :: "string \<Rightarrow> nat \<Rightarrow> string \<Rightarrow> bool" where
  "tagged_hex tag n s \<longleftrightarrow> starts_with tag s \<and> hex_text n (drop (length tag) s)"

abbreviation run_id_ok :: "string \<Rightarrow> bool" where "run_id_ok \<equiv> tagged_hex ''run_'' 32"
abbreviation performance_receipt_id_ok :: "string \<Rightarrow> bool" where "performance_receipt_id_ok \<equiv> tagged_hex ''prc_'' 64"

definition op_adapter_ok :: "string \<Rightarrow> bool" where
  "op_adapter_ok s \<longleftrightarrow> (case s of [] \<Rightarrow> False | c # rest \<Rightarrow> is_lower c \<and> length rest \<le> 63 \<and>
     list_all (\<lambda>d. lower_alnum d \<or> d = CHR ''_'' \<or> d = CHR ''-'') rest)"

definition op_adapter_version_ok :: "string \<Rightarrow> bool" where
  "op_adapter_version_ok s \<longleftrightarrow> (case s of [] \<Rightarrow> False | c # rest \<Rightarrow> (is_upper c \<or> lower_alnum c) \<and> length rest \<le> 63 \<and>
     list_all (\<lambda>d. is_upper d \<or> lower_alnum d \<or> d = CHR ''.'' \<or> d = CHR ''_'' \<or> d = CHR ''-'') rest)"

definition terminal_reason_ok :: "string \<Rightarrow> bool" where
  "terminal_reason_ok s \<longleftrightarrow> (case s of [] \<Rightarrow> False | c # rest \<Rightarrow> is_upper c \<and> length rest \<le> 63 \<and>
     list_all (\<lambda>d. is_upper d \<or> is_digit d \<or> d = CHR ''_'') rest)"

definition op_key_ok :: "string \<Rightarrow> bool" where
  "op_key_ok k \<longleftrightarrow> k \<noteq> [] \<and> length k \<le> 200 \<and> k = py_strip k \<and>
     \<not> list_ex (\<lambda>c. (of_char c :: nat) < 32 \<or> (of_char c :: nat) = 127) k"

definition absent_or :: "(string \<Rightarrow> bool) \<Rightarrow> string option \<Rightarrow> bool" where
  "absent_or P x \<longleftrightarrow> (case x of None \<Rightarrow> True | Some v \<Rightarrow> P v)"

subsection \<open>Operations and rows\<close>

datatype operation_status = RUNNING | COMPLETED | OP_BLOCKED | OP_NOT_PROVEN | FAILED

fun operation_status_value :: "operation_status \<Rightarrow> string" where
  "operation_status_value RUNNING = ''RUNNING''"
| "operation_status_value COMPLETED = ''COMPLETED''"
| "operation_status_value OP_BLOCKED = ''BLOCKED''"
| "operation_status_value OP_NOT_PROVEN = ''NOT_PROVEN''"
| "operation_status_value FAILED = ''FAILED''"

definition parse_operation_status :: "string \<Rightarrow> operation_status option" where
  "parse_operation_status v = find (\<lambda>x. operation_status_value x = v) [RUNNING, COMPLETED, OP_BLOCKED, OP_NOT_PROVEN, FAILED]"

datatype operation_error = OpValueError | OpTypeError | OpConflict | OpIntegrityError | OpTransitionError
  | OpStorageError | OpKeyError | OpCallbackError

record performance_operation =
  op_key_digest :: string
  op_input_digest :: string
  op_run_id :: string
  op_status :: operation_status
  op_created_at :: py_datetime
  op_updated_at :: py_datetime
  op_execution_id :: "string option"
  op_receipt_id :: "string option"
  op_artifact_registry_sha256 :: "string option"
  op_terminal_reason :: "string option"

definition op_is_terminal :: "performance_operation \<Rightarrow> bool" where
  "op_is_terminal x \<longleftrightarrow> op_status x \<in> {COMPLETED, OP_BLOCKED, OP_NOT_PROVEN, FAILED}"

record operation_reservation =
  rs_operation :: performance_operation
  rs_created :: bool

record operation_row =
  ro_key_digest :: string
  ro_input_digest :: string
  ro_run_id :: string
  ro_status :: string
  ro_created_at :: "int option"
  ro_updated_at :: "int option"
  ro_execution_id :: "string option"
  ro_receipt_id :: "string option"
  ro_artifact_registry_sha256 :: "string option"
  ro_terminal_reason :: "string option"

type_synonym ledger = "operation_row list"
type_synonym 'a ledger_act = "(ledger, operation_error, 'a) action"

text \<open>The fields a status goes with, as the validator of a row and the table's CHECK ask for them.\<close>

definition running_fields :: "string option \<Rightarrow> string option \<Rightarrow> string option \<Rightarrow> string option \<Rightarrow> bool" where
  "running_fields e r a t \<longleftrightarrow> e = None \<and> r = None \<and> a = None \<and> t = None"

definition completed_fields :: "string option \<Rightarrow> string option \<Rightarrow> string option \<Rightarrow> string option \<Rightarrow> bool" where
  "completed_fields e r a t \<longleftrightarrow> e \<noteq> None \<and> r \<noteq> None \<and> a \<noteq> None \<and> t = None"

definition stopped_fields :: "string option \<Rightarrow> string option \<Rightarrow> string option \<Rightarrow> string option \<Rightarrow> bool" where
  "stopped_fields e r a t \<longleftrightarrow> e = None \<and> r = None \<and> a = None \<and> t \<noteq> None"

definition fields_fit :: "operation_status \<Rightarrow> string option \<Rightarrow> string option \<Rightarrow> string option \<Rightarrow> string option \<Rightarrow> bool" where
  "fields_fit s e r a t \<longleftrightarrow> (case s of RUNNING \<Rightarrow> running_fields e r a t | COMPLETED \<Rightarrow> completed_fields e r a t
     | _ \<Rightarrow> stopped_fields e r a t)"

definition operation_from_row :: "operation_row \<Rightarrow> operation_error + performance_operation" where
  "operation_from_row w = (
     if \<not> is_sha256 (ro_key_digest w) \<or> \<not> is_sha256 (ro_input_digest w) \<or> \<not> run_id_ok (ro_run_id w) then Inl OpIntegrityError
     else case parse_operation_status (ro_status w) of None \<Rightarrow> Inl OpIntegrityError
     | Some s \<Rightarrow> (case (ro_created_at w, ro_updated_at w) of
         (Some created, Some updated) \<Rightarrow>
           if \<not> absent_or run_id_ok (ro_execution_id w) \<or> \<not> absent_or performance_receipt_id_ok (ro_receipt_id w) \<or>
             \<not> absent_or is_sha256 (ro_artifact_registry_sha256 w) \<or> \<not> absent_or terminal_reason_ok (ro_terminal_reason w)
           then Inl OpIntegrityError
           else if updated < created then Inl OpIntegrityError
           else if \<not> fields_fit s (ro_execution_id w) (ro_receipt_id w) (ro_artifact_registry_sha256 w) (ro_terminal_reason w)
           then Inl OpIntegrityError
           else Inr \<lparr>op_key_digest = ro_key_digest w, op_input_digest = ro_input_digest w, op_run_id = ro_run_id w,
             op_status = s, op_created_at = Aware created 0, op_updated_at = Aware updated 0, op_execution_id = ro_execution_id w,
             op_receipt_id = ro_receipt_id w, op_artifact_registry_sha256 = ro_artifact_registry_sha256 w,
             op_terminal_reason = ro_terminal_reason w\<rparr>
       | _ \<Rightarrow> Inl OpIntegrityError))"

text \<open>The CHECK constraints of the table, and its PRIMARY KEY and UNIQUE columns on insertion.\<close>

definition row_check :: "operation_row \<Rightarrow> bool" where
  "row_check w \<longleftrightarrow> is_sha256 (ro_key_digest w) \<and> is_sha256 (ro_input_digest w) \<and> run_id_ok (ro_run_id w) \<and>
     absent_or run_id_ok (ro_execution_id w) \<and> absent_or performance_receipt_id_ok (ro_receipt_id w) \<and>
     absent_or is_sha256 (ro_artifact_registry_sha256 w) \<and>
     (case parse_operation_status (ro_status w) of None \<Rightarrow> False
      | Some s \<Rightarrow> fields_fit s (ro_execution_id w) (ro_receipt_id w) (ro_artifact_registry_sha256 w) (ro_terminal_reason w))"

definition insert_row :: "operation_row \<Rightarrow> ledger \<Rightarrow> operation_error + ledger" where
  "insert_row w s = (if row_check w \<and> ro_key_digest w \<notin> ro_key_digest ` set s \<and> ro_run_id w \<notin> ro_run_id ` set s
     then Inr (s @ [w]) else Inl OpStorageError)"

definition row_of_key :: "string \<Rightarrow> ledger \<Rightarrow> operation_row option" where
  "row_of_key kd s = find (\<lambda>w. ro_key_digest w = kd) s"

definition row_of_run :: "string \<Rightarrow> ledger \<Rightarrow> operation_row option" where
  "row_of_run rid s = find (\<lambda>w. ro_run_id w = rid) s"

subsection \<open>Digests\<close>

definition op_idempotency_key_digest :: "hasher \<Rightarrow> string \<Rightarrow> operation_error + string" where
  "op_idempotency_key_digest h k = (if \<not> op_key_ok k then Inl OpValueError
     else Inr (json_sha h (''exitspec-performance-operation-idempotency-key-v1'' @ [CHR 0x00]) (JObj [(''idempotency_key'', JStr k)])))"

record operation_inputs =
  oi_frozen_contract_hash :: string
  oi_confirmation_hash :: string
  oi_expected_manifest_hash :: string
  oi_workload_hash :: string
  oi_adapter :: string
  oi_adapter_version :: string

definition operation_inputs_ok :: "operation_inputs \<Rightarrow> bool" where
  "operation_inputs_ok q \<longleftrightarrow> is_sha256 (oi_frozen_contract_hash q) \<and> is_sha256 (oi_confirmation_hash q) \<and>
     is_sha256 (oi_expected_manifest_hash q) \<and> is_sha256 (oi_workload_hash q) \<and> op_adapter_ok (oi_adapter q) \<and>
     op_adapter_version_ok (oi_adapter_version q)"

definition operation_inputs_json :: "operation_inputs \<Rightarrow> json" where
  "operation_inputs_json q = JObj [(''adapter'', JStr (oi_adapter q)), (''adapter_version'', JStr (oi_adapter_version q)),
     (''confirmation_hash'', JStr (oi_confirmation_hash q)), (''expected_manifest_hash'', JStr (oi_expected_manifest_hash q)),
     (''frozen_contract_hash'', JStr (oi_frozen_contract_hash q)), (''schema_version'', JInt 1),
     (''workload_hash'', JStr (oi_workload_hash q))]"

definition op_input_sha256 :: "hasher \<Rightarrow> operation_inputs \<Rightarrow> string" where
  "op_input_sha256 h q = json_sha h (''exitspec-performance-operation-input-v2'' @ [CHR 0x00]) (operation_inputs_json q)"

definition operation_input_digest :: "hasher \<Rightarrow> operation_inputs \<Rightarrow> operation_error + string" where
  "operation_input_digest h q = (if \<not> operation_inputs_ok q then Inl OpValueError else Inr (op_input_sha256 h q))"

subsection \<open>Reserving\<close>

text \<open>What the factory of run identities yields: an exception, something that is no text, a text.\<close>

datatype run_id_draw = DrawRaises | DrawOther | DrawnId string

fun unused_run_id :: "nat \<Rightarrow> nat \<Rightarrow> (nat \<Rightarrow> run_id_draw) \<Rightarrow> ledger \<Rightarrow> operation_error + string" where
  "unused_run_id 0 i draw s = Inl OpIntegrityError"
| "unused_run_id (Suc n) i draw s = (case draw i of
     DrawRaises \<Rightarrow> Inl OpCallbackError
   | DrawOther \<Rightarrow> Inl OpValueError
   | DrawnId rid \<Rightarrow> if \<not> run_id_ok rid then Inl OpValueError
       else if row_of_run rid s = None then Inr rid else unused_run_id n (Suc i) draw s)"

definition resolve_instant :: "clock_value \<Rightarrow> operation_error + int" where
  "resolve_instant now = (case now of ClockRaises \<Rightarrow> Inl OpCallbackError | ClockOther \<Rightarrow> Inl OpTypeError
     | ClockAt d \<Rightarrow> if dt_aware d then Inr (instant d) else Inl OpValueError)"

definition new_row :: "string \<Rightarrow> string \<Rightarrow> string \<Rightarrow> int \<Rightarrow> operation_row" where
  "new_row kd digest rid t = \<lparr>ro_key_digest = kd, ro_input_digest = digest, ro_run_id = rid,
     ro_status = operation_status_value RUNNING, ro_created_at = Some t, ro_updated_at = Some t, ro_execution_id = None,
     ro_receipt_id = None, ro_artifact_registry_sha256 = None, ro_terminal_reason = None\<rparr>"

definition new_operation :: "string \<Rightarrow> string \<Rightarrow> string \<Rightarrow> int \<Rightarrow> performance_operation" where
  "new_operation kd digest rid t = \<lparr>op_key_digest = kd, op_input_digest = digest, op_run_id = rid,
     op_status = RUNNING, op_created_at = Aware t 0, op_updated_at = Aware t 0, op_execution_id = None,
     op_receipt_id = None, op_artifact_registry_sha256 = None, op_terminal_reason = None\<rparr>"

text \<open>\<open>now\<close> is \<open>created_at\<close> where the caller gives it, otherwise what the clock yields.\<close>

definition reserve_write :: "string \<Rightarrow> string \<Rightarrow> clock_value \<Rightarrow> (nat \<Rightarrow> run_id_draw) \<Rightarrow> operation_reservation ledger_act" where
  "reserve_write kd digest now draw = (\<lambda>s. case resolve_instant now of Inl e \<Rightarrow> (s, Inl e)
   | Inr t \<Rightarrow> (case unused_run_id 8 0 draw s of Inl e \<Rightarrow> (s, Inl e)
     | Inr rid \<Rightarrow> (case insert_row (new_row kd digest rid t) s of Inl e \<Rightarrow> (s, Inl e)
       | Inr s' \<Rightarrow> (s', Inr \<lparr>rs_operation = new_operation kd digest rid t, rs_created = True\<rparr>))))"

definition op_reserve :: "hasher \<Rightarrow> bool \<Rightarrow> string \<Rightarrow> operation_inputs \<Rightarrow> clock_value \<Rightarrow> (nat \<Rightarrow> run_id_draw) \<Rightarrow> operation_reservation ledger_act" where
  "op_reserve h db key q now draw = (\<lambda>s. case op_idempotency_key_digest h key of Inl e \<Rightarrow> (s, Inl e)
   | Inr kd \<Rightarrow> (case operation_input_digest h q of Inl e \<Rightarrow> (s, Inl e)
     | Inr digest \<Rightarrow>
         if \<not> db then (s, Inl OpStorageError)
         else (case row_of_key kd s of
           Some w \<Rightarrow> (case operation_from_row w of Inl e \<Rightarrow> (s, Inl e)
             | Inr x \<Rightarrow> if op_input_digest x \<noteq> digest then (s, Inl OpConflict)
                 else (s, Inr \<lparr>rs_operation = x, rs_created = False\<rparr>))
         | None \<Rightarrow> reserve_write kd digest now draw s)))"

subsection \<open>Ending\<close>

record terminal_request =
  tr_run_id :: string
  tr_input_digest :: string
  tr_status :: string
  tr_execution_id :: "string option"
  tr_receipt_id :: "string option"
  tr_artifact_registry_sha256 :: "string option"
  tr_terminal_reason :: "string option"

definition terminal_status :: "string \<Rightarrow> operation_status option" where
  "terminal_status v = (case parse_operation_status v of None \<Rightarrow> None | Some RUNNING \<Rightarrow> None | Some s \<Rightarrow> Some s)"

definition terminal_request_ok :: "terminal_request \<Rightarrow> bool" where
  "terminal_request_ok m \<longleftrightarrow> run_id_ok (tr_run_id m) \<and> is_sha256 (tr_input_digest m) \<and> terminal_status (tr_status m) \<noteq> None \<and>
     absent_or run_id_ok (tr_execution_id m) \<and> absent_or performance_receipt_id_ok (tr_receipt_id m) \<and>
     absent_or is_sha256 (tr_artifact_registry_sha256 m) \<and> absent_or terminal_reason_ok (tr_terminal_reason m) \<and>
     (if terminal_status (tr_status m) = Some COMPLETED
      then completed_fields (tr_execution_id m) (tr_receipt_id m) (tr_artifact_registry_sha256 m) (tr_terminal_reason m)
      else stopped_fields (tr_execution_id m) (tr_receipt_id m) (tr_artifact_registry_sha256 m) (tr_terminal_reason m))"

definition ended_row :: "terminal_request \<Rightarrow> int \<Rightarrow> operation_row \<Rightarrow> operation_row" where
  "ended_row m t w = w\<lparr>ro_status := tr_status m, ro_updated_at := Some t, ro_execution_id := tr_execution_id m,
     ro_receipt_id := tr_receipt_id m, ro_artifact_registry_sha256 := tr_artifact_registry_sha256 m,
     ro_terminal_reason := tr_terminal_reason m\<rparr>"

text \<open>The rows the UPDATE is for, and the table after it; a row that breaks a CHECK makes it raise.\<close>

definition to_update :: "terminal_request \<Rightarrow> operation_row \<Rightarrow> bool" where
  "to_update m w \<longleftrightarrow> ro_run_id w = tr_run_id m \<and> ro_input_digest w = tr_input_digest m \<and> ro_status w = operation_status_value RUNNING"

definition update_rows :: "terminal_request \<Rightarrow> int \<Rightarrow> ledger \<Rightarrow> operation_error + ledger \<times> nat" where
  "update_rows m t s = (if list_ex (\<lambda>w. to_update m w \<and> \<not> row_check (ended_row m t w)) s then Inl OpStorageError
     else Inr (map (\<lambda>w. if to_update m w then ended_row m t w else w) s, length (filter (to_update m) s)))"

definition mark_write :: "terminal_request \<Rightarrow> int \<Rightarrow> performance_operation ledger_act" where
  "mark_write m t = (\<lambda>s. case row_of_run (tr_run_id m) s of None \<Rightarrow> (s, Inl OpKeyError)
   | Some w \<Rightarrow> (case operation_from_row w of Inl e \<Rightarrow> (s, Inl e)
     | Inr x \<Rightarrow>
         if op_input_digest x \<noteq> tr_input_digest m then (s, Inl OpConflict)
         else if op_status x \<noteq> RUNNING then (s, Inl OpTransitionError)
         else if t < instant (op_updated_at x) then (s, Inl OpValueError)
         else (case update_rows m t s of Inl e \<Rightarrow> (s, Inl e)
           | Inr (s', n) \<Rightarrow>
               if n \<noteq> 1 then (s, Inl OpIntegrityError)
               else (case row_of_run (tr_run_id m) s' of None \<Rightarrow> (s, Inl OpIntegrityError)
                 | Some w' \<Rightarrow> (case operation_from_row w' of Inl e \<Rightarrow> (s, Inl e) | Inr x' \<Rightarrow> (s', Inr x'))))))"

definition op_mark_terminal :: "bool \<Rightarrow> terminal_request \<Rightarrow> clock_value \<Rightarrow> performance_operation ledger_act" where
  "op_mark_terminal db m now = (\<lambda>s. if \<not> terminal_request_ok m then (s, Inl OpValueError)
     else case resolve_instant now of Inl e \<Rightarrow> (s, Inl e)
       | Inr t \<Rightarrow> if \<not> db then (s, Inl OpStorageError) else mark_write m t s)"

definition op_get_by_run_id :: "bool \<Rightarrow> string \<Rightarrow> ledger \<Rightarrow> operation_error + performance_operation option" where
  "op_get_by_run_id db rid s = (if \<not> run_id_ok rid then Inl OpValueError
     else if \<not> db then Inl OpStorageError
     else case row_of_run rid s of None \<Rightarrow> Inr None
       | Some w \<Rightarrow> (case operation_from_row w of Inl e \<Rightarrow> Inl e | Inr x \<Rightarrow> Inr (Some x)))"

subsection \<open>Steps\<close>

text \<open>
  Calls, which any process may make at any time; and the relation of the steps with what they were
  answered, closed to runs whose events are listed oldest first.
\<close>

datatype ledger_call = CallReserve bool string operation_inputs clock_value "nat \<Rightarrow> run_id_draw"
  | CallMark bool terminal_request clock_value

fun ledger_do :: "hasher \<Rightarrow> ledger_call \<Rightarrow> ledger \<Rightarrow> ledger" where
  "ledger_do h (CallReserve db key q now draw) s = fst (op_reserve h db key q now draw s)"
| "ledger_do h (CallMark db m now) s = fst (op_mark_terminal db m now s)"

datatype ledger_event = Reserved string operation_inputs "operation_error + operation_reservation"
  | Marked terminal_request "operation_error + performance_operation"

inductive ledger_step :: "hasher \<Rightarrow> ledger \<Rightarrow> ledger_event \<Rightarrow> ledger \<Rightarrow> bool" for h where
  step_reserve: "op_reserve h db key q now draw s = (t, r) \<Longrightarrow> ledger_step h s (Reserved key q r) t"
| step_mark: "op_mark_terminal db m now s = (t, r) \<Longrightarrow> ledger_step h s (Marked m r) t"

inductive ledger_run :: "hasher \<Rightarrow> ledger \<Rightarrow> ledger_event list \<Rightarrow> ledger \<Rightarrow> bool" for h s where
  run_start: "ledger_run h s [] s"
| run_step: "ledger_run h s es t \<Longrightarrow> ledger_step h t e u \<Longrightarrow> ledger_run h s (es @ [e]) u"

end
