(* ===== verification/Performance_Operations_Laws.thy ===== *)
theory Performance_Operations_Laws
  imports Performance_Operations
begin

section \<open>Laws of the reservations\<close>

text \<open>
  The invariant is that keys and run identities are unique and that every row can be read back. A
  step adds a row or ends one running operation; the rest follows by induction over the runs.
\<close>

subsection \<open>Rows\<close>

inductive_cases reserved_step: "ledger_step h s (Reserved key q r) t"
inductive_cases marked_step: "ledger_step h s (Marked m r) t"
inductive_simps run_nil_simps: "ledger_run h s [] t"

lemma parse_status_value [simp]: "parse_operation_status (operation_status_value x) = Some x"
  by (cases x) (simp_all add: parse_operation_status_def)

lemma parse_status_Some: "parse_operation_status v = Some x \<longleftrightarrow> v = operation_status_value x"
proof
  assume "parse_operation_status v = Some x"
  then show "v = operation_status_value x"
    by (auto simp: parse_operation_status_def split: if_splits)
qed simp

lemma status_value_inj [simp]: "operation_status_value x = operation_status_value y \<longleftrightarrow> x = y"
  by (cases x; cases y) simp_all

lemma operation_from_row_fields:
  "operation_from_row w = Inr x \<Longrightarrow> op_key_digest x = ro_key_digest w \<and> op_input_digest x = ro_input_digest w \<and>
    op_run_id x = ro_run_id w \<and> ro_status w = operation_status_value (op_status x) \<and>
    ro_created_at w = Some (instant (op_created_at x)) \<and> ro_updated_at w = Some (instant (op_updated_at x)) \<and>
    is_sha256 (ro_key_digest w) \<and> is_sha256 (ro_input_digest w) \<and> run_id_ok (ro_run_id w) \<and>
    instant (op_created_at x) \<le> instant (op_updated_at x)"
  by (auto simp: operation_from_row_def parse_status_Some split: if_splits option.splits)

lemma operation_from_row_new:
  "row_check (new_row kd digest rid t) \<Longrightarrow> operation_from_row (new_row kd digest rid t) = Inr (new_operation kd digest rid t)"
  by (simp add: row_check_def operation_from_row_def new_row_def new_operation_def absent_or_def del: operation_status_value.simps)

text \<open>What ending an operation makes of it.\<close>

definition ended_operation :: "terminal_request \<Rightarrow> int \<Rightarrow> performance_operation \<Rightarrow> performance_operation" where
  "ended_operation m t x = x\<lparr>op_status := the (terminal_status (tr_status m)), op_updated_at := Aware t 0,
     op_execution_id := tr_execution_id m, op_receipt_id := tr_receipt_id m,
     op_artifact_registry_sha256 := tr_artifact_registry_sha256 m, op_terminal_reason := tr_terminal_reason m\<rparr>"

lemma terminal_status_Some: "terminal_status v = Some x \<longleftrightarrow> v = operation_status_value x \<and> x \<noteq> RUNNING"
proof (cases "parse_operation_status v")
  case None
  then have "v \<noteq> operation_status_value y" for y by auto
  then show ?thesis using None by (simp add: terminal_status_def)
next
  case (Some y)
  then have "v = operation_status_value y" by (simp add: parse_status_Some)
  then show ?thesis using Some
    by (cases y) (auto simp: terminal_status_def simp del: operation_status_value.simps)
qed

lemma terminal_fields_fit:
  "terminal_request_ok m \<Longrightarrow> terminal_status (tr_status m) = Some y \<Longrightarrow>
    fields_fit y (tr_execution_id m) (tr_receipt_id m) (tr_artifact_registry_sha256 m) (tr_terminal_reason m)"
  by (cases y) (auto simp: terminal_request_ok_def fields_fit_def terminal_status_Some)

lemma ended_row_ok:
  assumes "terminal_request_ok m" and "operation_from_row w = Inr x" and "instant (op_updated_at x) \<le> t"
  shows "row_check (ended_row m t w) \<and> operation_from_row (ended_row m t w) = Inr (ended_operation m t x)"
proof -
  obtain y where y: "terminal_status (tr_status m) = Some y" using assms(1) by (auto simp: terminal_request_ok_def)
  note fits = terminal_fields_fit [OF assms(1) y]
  note w = operation_from_row_fields [OF assms(2)]
  have "\<not> t < instant (op_created_at x)" using w assms(3) by simp
  moreover have "absent_or run_id_ok (tr_execution_id m)" "absent_or performance_receipt_id_ok (tr_receipt_id m)"
      "absent_or is_sha256 (tr_artifact_registry_sha256 m)" "absent_or terminal_reason_ok (tr_terminal_reason m)"
    using assms(1) by (auto simp: terminal_request_ok_def)
  moreover have "parse_operation_status (tr_status m) = Some y" using y by (auto simp: terminal_status_Some)
  moreover have "op_created_at x = Aware (instant (op_created_at x)) 0"
    using assms(2) by (auto simp: operation_from_row_def split: if_splits option.splits)
  ultimately show ?thesis using w fits y
    by (auto simp: row_check_def operation_from_row_def ended_row_def ended_operation_def intro!: performance_operation.equality)
qed

subsection \<open>The invariant\<close>

definition ledger_inv :: "ledger \<Rightarrow> bool" where
  "ledger_inv s \<longleftrightarrow> distinct (map ro_key_digest s) \<and> distinct (map ro_run_id s) \<and>
     (\<forall>w \<in> set s. \<exists>x. operation_from_row w = Inr x)"

lemma row_of_run_Some: "ledger_inv s \<Longrightarrow> row_of_run rid s = Some w \<longleftrightarrow> w \<in> set s \<and> ro_run_id w = rid"
proof -
  assume inv: "ledger_inv s"
  have "row_of_run rid s = Some w" if w: "w \<in> set s" "ro_run_id w = rid"
  proof (cases "row_of_run rid s")
    case None
    then show ?thesis using w by (auto simp: row_of_run_def find_None_iff)
  next
    case (Some v)
    then have "v \<in> set s" "ro_run_id v = rid" by (auto simp: row_of_run_def find_Some_iff)
    then have "v = w" using inv w by (auto simp: ledger_inv_def dest: map_of_is_SomeI inj_onD [OF distinct_map [THEN iffD1, THEN conjunct2]])
    then show ?thesis using Some by simp
  qed
  then show ?thesis by (auto simp: row_of_run_def find_Some_iff)
qed

lemma row_of_key_Some: "ledger_inv s \<Longrightarrow> row_of_key kd s = Some w \<longleftrightarrow> w \<in> set s \<and> ro_key_digest w = kd"
proof -
  assume inv: "ledger_inv s"
  have "row_of_key kd s = Some w" if w: "w \<in> set s" "ro_key_digest w = kd"
  proof (cases "row_of_key kd s")
    case None
    then show ?thesis using w by (auto simp: row_of_key_def find_None_iff)
  next
    case (Some v)
    then have "v \<in> set s" "ro_key_digest v = kd" by (auto simp: row_of_key_def find_Some_iff)
    then have "v = w" using inv w by (auto simp: ledger_inv_def dest: inj_onD [OF distinct_map [THEN iffD1, THEN conjunct2]])
    then show ?thesis using Some by simp
  qed
  then show ?thesis by (auto simp: row_of_key_def find_Some_iff)
qed

lemma row_of_key_None: "row_of_key kd s = None \<longleftrightarrow> kd \<notin> ro_key_digest ` set s"
  by (auto simp: row_of_key_def find_None_iff)

lemma row_of_run_None: "row_of_run rid s = None \<longleftrightarrow> rid \<notin> ro_run_id ` set s"
  by (auto simp: row_of_run_def find_None_iff)

subsection \<open>What the two writes do\<close>

definition op_key_sha256 :: "hasher \<Rightarrow> string \<Rightarrow> string" where
  "op_key_sha256 h k = json_sha h (''exitspec-performance-operation-idempotency-key-v1'' @ [CHR 0x00]) (JObj [(''idempotency_key'', JStr k)])"

lemma reserve_cases:
  obtains (refused) e where "op_reserve h db key q now draw s = (s, Inl e)"
    | (replayed) w x where "op_key_ok key" "operation_inputs_ok q" "row_of_key (op_key_sha256 h key) s = Some w" "operation_from_row w = Inr x"
        "op_input_digest x = op_input_sha256 h q" "op_reserve h db key q now draw s = (s, Inr \<lparr>rs_operation = x, rs_created = False\<rparr>)"
    | (created) rid t where "op_key_ok key" "operation_inputs_ok q" "row_of_key (op_key_sha256 h key) s = None" "row_of_run rid s = None"
        "row_check (new_row (op_key_sha256 h key) (op_input_sha256 h q) rid t)"
        "op_reserve h db key q now draw s = (s @ [new_row (op_key_sha256 h key) (op_input_sha256 h q) rid t],
          Inr \<lparr>rs_operation = new_operation (op_key_sha256 h key) (op_input_sha256 h q) rid t, rs_created = True\<rparr>)"
proof (cases "op_key_ok key \<and> operation_inputs_ok q \<and> db")
  case False
  then show ?thesis
    by (cases "op_key_ok key"; cases "operation_inputs_ok q") (auto simp: op_reserve_def op_idempotency_key_digest_def operation_input_digest_def intro: refused)
next
  case True
  show ?thesis
  proof (cases "row_of_key (op_key_sha256 h key) s")
    case (Some w)
    show ?thesis
    proof (cases "operation_from_row w")
      case (Inl e)
      then show ?thesis using True Some
        by (intro refused [of e]) (simp add: op_reserve_def op_idempotency_key_digest_def operation_input_digest_def op_key_sha256_def)
    next
      case (Inr x)
      then show ?thesis using True Some replayed [of w x] refused [of OpConflict]
        by (cases "op_input_digest x = op_input_sha256 h q")
           (simp_all add: op_reserve_def op_idempotency_key_digest_def operation_input_digest_def op_key_sha256_def)
    qed
  next
    case None
    then have run: "op_reserve h db key q now draw s = reserve_write (op_key_sha256 h key) (op_input_sha256 h q) now draw s"
      using True by (simp add: op_reserve_def op_idempotency_key_digest_def operation_input_digest_def op_key_sha256_def)
    show ?thesis
    proof (cases "snd (reserve_write (op_key_sha256 h key) (op_input_sha256 h q) now draw s)")
      case (Inl e)
      then have "reserve_write (op_key_sha256 h key) (op_input_sha256 h q) now draw s = (s, Inl e)"
        by (auto simp: reserve_write_def split: sum.splits)
      then show ?thesis using run refused by simp
    next
      case (Inr r)
      then obtain t rid s' where w: "insert_row (new_row (op_key_sha256 h key) (op_input_sha256 h q) rid t) s = Inr s'"
          "reserve_write (op_key_sha256 h key) (op_input_sha256 h q) now draw s =
             (s', Inr \<lparr>rs_operation = new_operation (op_key_sha256 h key) (op_input_sha256 h q) rid t, rs_created = True\<rparr>)"
        by (auto simp: reserve_write_def split: sum.splits)
      then show ?thesis using True None run
        by (intro created [of rid t]) (auto simp: insert_row_def row_of_run_None new_row_def split: if_splits)
    qed
  qed
qed

lemma mark_write_refused: "snd (mark_write m t s) = Inl e \<Longrightarrow> mark_write m t s = (s, Inl e)"
  by (auto simp: mark_write_def split: option.split_asm sum.split_asm if_split_asm prod.split_asm)

lemma mark_write_running:
  assumes inv: "ledger_inv s" and m: "terminal_request_ok m" and w: "row_of_run (tr_run_id m) s = Some w" "operation_from_row w = Inr x"
    "op_input_digest x = tr_input_digest m" "op_status x = RUNNING" "instant (op_updated_at x) \<le> t"
  shows "mark_write m t s = (map (\<lambda>v. if v = w then ended_row m t w else v) s, Inr (ended_operation m t x))"
proof -
  have found: "w \<in> set s" "ro_run_id w = tr_run_id m" using w(1) row_of_run_Some [OF inv] by auto
  have only: "to_update m v \<longleftrightarrow> v = w" if v: "v \<in> set s" for v
  proof
    assume "to_update m v"
    then have "row_of_run (tr_run_id m) s = Some v" using v row_of_run_Some [OF inv, of "tr_run_id m" v] by (simp add: to_update_def)
    then show "v = w" using w(1) by simp
  next
    assume "v = w"
    then show "to_update m v" using found w(2-4) operation_from_row_fields [OF w(2)] by (simp add: to_update_def)
  qed
  note ended = ended_row_ok [OF m w(2,5)]
  let ?s = "map (\<lambda>v. if v = w then ended_row m t w else v) s"
  have "map (\<lambda>v. if to_update m v then ended_row m t v else v) s = ?s" using only by auto
  moreover have "length (filter (to_update m) s) = 1"
  proof -
    have none: "w \<notin> set vs \<Longrightarrow> filter (\<lambda>v. v = w) vs = []" for vs by (induction vs) auto
    have one: "distinct vs \<Longrightarrow> w \<in> set vs \<Longrightarrow> filter (\<lambda>v. v = w) vs = [w]" for vs
      by (induction vs) (auto simp: none)
    have "filter (to_update m) s = filter (\<lambda>v. v = w) s" using only by (intro filter_cong) auto
    moreover have "distinct s" using inv by (auto simp: ledger_inv_def distinct_map)
    ultimately show ?thesis using one [of s] found(1) by simp
  qed
  moreover have "\<not> list_ex (\<lambda>v. to_update m v \<and> \<not> row_check (ended_row m t v)) s" using only ended by (auto simp: list_ex_iff)
  ultimately have upd: "update_rows m t s = Inr (?s, 1)" by (simp add: update_rows_def)
  have "row_of_run (tr_run_id m) ?s = Some (ended_row m t w)"
  proof -
    have "ro_run_id (if v = w then ended_row m t w else v) = ro_run_id v" for v using found(2) by (simp add: ended_row_def)
    then have "find (\<lambda>v. ro_run_id v = tr_run_id m) ?s = map_option (\<lambda>v. if v = w then ended_row m t w else v) (find (\<lambda>v. ro_run_id v = tr_run_id m) s)"
      by (induction s) auto
    then show ?thesis using w(1) by (simp add: row_of_run_def)
  qed
  then show ?thesis using w upd ended by (simp add: mark_write_def)
qed

lemma mark_cases:
  assumes inv: "ledger_inv s"
  obtains (refused) e where "op_mark_terminal db m now s = (s, Inl e)"
    | (marked) w x t where "terminal_request_ok m" "w \<in> set s" "ro_run_id w = tr_run_id m" "operation_from_row w = Inr x"
        "op_input_digest x = tr_input_digest m" "op_status x = RUNNING" "instant (op_updated_at x) \<le> t" "resolve_instant now = Inr t"
        "op_mark_terminal db m now s = (map (\<lambda>v. if v = w then ended_row m t w else v) s, Inr (ended_operation m t x))"
proof (cases "snd (op_mark_terminal db m now s)")
  case (Inl e)
  then have "op_mark_terminal db m now s = (s, Inl e)"
    using mark_write_refused [of m _ s e] by (auto simp: op_mark_terminal_def split: if_split_asm sum.split_asm)
  then show ?thesis by (rule refused)
next
  case (Inr y)
  then obtain t where t: "terminal_request_ok m" "resolve_instant now = Inr t" "op_mark_terminal db m now s = mark_write m t s"
    by (auto simp: op_mark_terminal_def split: if_splits sum.splits)
  then obtain w x where w: "row_of_run (tr_run_id m) s = Some w" "operation_from_row w = Inr x" "op_input_digest x = tr_input_digest m"
      "op_status x = RUNNING" "instant (op_updated_at x) \<le> t"
    using Inr by (auto simp: mark_write_def split: if_splits sum.splits option.splits)
  have "w \<in> set s" "ro_run_id w = tr_run_id m" using w(1) row_of_run_Some [OF inv] by auto
  then show ?thesis using t w mark_write_running [OF inv t(1) w] by (intro marked [of w x t]) simp_all
qed

subsection \<open>Runs\<close>

lemma distinct_map_keep: "(\<And>v. v \<in> set s \<Longrightarrow> f (g v) = f v) \<Longrightarrow> map f (map g s) = map f s"
  by simp

text \<open>What a step may do to the operation of a run identity.\<close>

definition op_follows :: "performance_operation \<Rightarrow> performance_operation \<Rightarrow> bool" where
  "op_follows x y \<longleftrightarrow> op_key_digest y = op_key_digest x \<and> op_input_digest y = op_input_digest x \<and> op_run_id y = op_run_id x \<and>
     op_created_at y = op_created_at x \<and> instant (op_updated_at x) \<le> instant (op_updated_at y) \<and>
     (y = x \<or> op_status x = RUNNING \<and> op_is_terminal y)"

lemma op_follows_refl [simp]: "op_follows x x"
  by (simp add: op_follows_def)

lemma op_follows_trans: "op_follows x y \<Longrightarrow> op_follows y z \<Longrightarrow> op_follows x z"
  by (auto simp: op_follows_def op_is_terminal_def)

definition stored :: "ledger \<Rightarrow> performance_operation \<Rightarrow> bool" where
  "stored s x \<longleftrightarrow> (\<exists>w \<in> set s. operation_from_row w = Inr x)"

lemma ended_terminal: "terminal_request_ok m \<Longrightarrow> op_is_terminal (ended_operation m t x)"
proof -
  assume "terminal_request_ok m"
  then obtain y where "terminal_status (tr_status m) = Some y" by (auto simp: terminal_request_ok_def)
  moreover from this have "y \<noteq> RUNNING" by (simp add: terminal_status_Some)
  ultimately show ?thesis by (cases y) (simp_all add: ended_operation_def op_is_terminal_def)
qed

lemma ended_follows:
  assumes "terminal_request_ok m" and "op_status x = RUNNING" and "instant (op_updated_at x) \<le> t"
  shows "op_follows x (ended_operation m t x)"
  using ended_terminal [OF assms(1), of t x] assms(2,3) by (simp add: op_follows_def ended_operation_def)

text \<open>A step: at most one row more, or one running operation ended; everything else stays.\<close>

lemma step_cases:
  assumes inv: "ledger_inv s" and step: "ledger_step h s e t"
  obtains (same) "t = s" "\<And>k q x. e \<noteq> Reserved k q (Inr \<lparr>rs_operation = x, rs_created = True\<rparr>)"
    | (reserved) key q rid now where "e = Reserved key q (Inr \<lparr>rs_operation = new_operation (op_key_sha256 h key) (op_input_sha256 h q) rid now, rs_created = True\<rparr>)"
        "op_key_sha256 h key \<notin> ro_key_digest ` set s" "rid \<notin> ro_run_id ` set s"
        "row_check (new_row (op_key_sha256 h key) (op_input_sha256 h q) rid now)"
        "t = s @ [new_row (op_key_sha256 h key) (op_input_sha256 h q) rid now]" "op_key_ok key" "operation_inputs_ok q"
    | (ended) m w x now where "e = Marked m (Inr (ended_operation m now x))" "terminal_request_ok m" "w \<in> set s"
        "operation_from_row w = Inr x" "op_status x = RUNNING" "instant (op_updated_at x) \<le> now"
        "t = map (\<lambda>v. if v = w then ended_row m now w else v) s"
  using step
proof cases
  case (step_reserve db key q now draw r)
  show ?thesis
  proof (cases rule: reserve_cases [of h db key q now draw s])
    case (refused e')
    then show ?thesis using step_reserve same by simp
  next
    case (replayed w x)
    then show ?thesis using step_reserve same by simp
  next
    case (created rid i)
    then show ?thesis using step_reserve reserved [of key q rid i] by (simp add: row_of_key_None row_of_run_None)
  qed
next
  case (step_mark db m now r)
  from inv show ?thesis
  proof (cases rule: mark_cases [of s db m now])
    case (refused e')
    then show ?thesis using step_mark same by simp
  next
    case (marked w x i)
    then show ?thesis using step_mark ended [of m i x w] by simp
  qed
qed

lemma ledger_inv_step:
  assumes "ledger_inv s" and "ledger_step h s e t"
  shows "ledger_inv t \<and> (\<forall>x. stored s x \<longrightarrow> (\<exists>y. stored t y \<and> op_follows x y))"
  using assms
proof (cases rule: step_cases)
  case same
  then show ?thesis using assms(1) op_follows_refl by blast
next
  case (reserved key q rid now)
  then have "ledger_inv t" using assms(1) operation_from_row_new [OF reserved(4)] by (auto simp: ledger_inv_def new_row_def)
  moreover have "stored t x" if "stored s x" for x using that reserved(5) by (auto simp: stored_def)
  ultimately show ?thesis using op_follows_refl by blast
next
  case (ended m w x now)
  let ?g = "\<lambda>v. if v = w then ended_row m now w else v"
  note ok = ended_row_ok [OF ended(2,4,6)]
  have keys: "ro_key_digest (?g v) = ro_key_digest v" "ro_run_id (?g v) = ro_run_id v" for v by (simp_all add: ended_row_def)
  have "map ro_key_digest t = map ro_key_digest s" "map ro_run_id t = map ro_run_id s"
    unfolding ended(7) using keys by (simp_all only: map_map o_def)
  moreover have "\<forall>v \<in> set t. \<exists>y. operation_from_row v = Inr y" unfolding ended(7) using ok assms(1) by (auto simp: ledger_inv_def)
  ultimately have "ledger_inv t" using assms(1) by (simp add: ledger_inv_def)
  moreover have "\<exists>y'. stored t y' \<and> op_follows y y'" if "stored s y" for y
  proof -
    obtain v where v: "v \<in> set s" "operation_from_row v = Inr y" using \<open>stored s y\<close> unfolding stored_def by blast
    show ?thesis
    proof (cases "v = w")
      case True
      then have "y = x" using v ended(4) by simp
      moreover have "ended_row m now w \<in> set t" unfolding ended(7) using ended(3) by auto
      ultimately show ?thesis using ok ended_follows [OF ended(2,5,6)] unfolding stored_def by blast
    next
      case False
      then have "v \<in> set t" unfolding ended(7) using v(1) by auto
      then show ?thesis using v(2) op_follows_refl unfolding stored_def by blast
    qed
  qed
  ultimately show ?thesis by blast
qed

lemma run_keeps_ledger:
  "ledger_run h s es t \<Longrightarrow> ledger_inv s \<Longrightarrow> ledger_inv t \<and> (\<forall>x. stored s x \<longrightarrow> (\<exists>y. stored t y \<and> op_follows x y))"
proof (induction rule: ledger_run.induct)
  case run_start
  then show ?case using op_follows_refl by blast
next
  case (run_step es t e u)
  then show ?case using ledger_inv_step [of t h e u] op_follows_trans by meson
qed

lemma ledger_inv_empty [simp]: "ledger_inv []"
  by (simp add: ledger_inv_def)

lemma get_iff: "ledger_inv s \<Longrightarrow> op_get_by_run_id True rid s = Inr (Some x) \<longleftrightarrow> run_id_ok rid \<and> stored s x \<and> op_run_id x = rid"
proof -
  assume inv: "ledger_inv s"
  show ?thesis
  proof (cases "row_of_run rid s")
    case None
    then have "\<not> (stored s x \<and> op_run_id x = rid)"
      using operation_from_row_fields by (fastforce simp: stored_def row_of_run_None)
    then show ?thesis using None by (auto simp: op_get_by_run_id_def)
  next
    case (Some w)
    then have w: "w \<in> set s" "ro_run_id w = rid" using row_of_run_Some [OF inv] by auto
    obtain y where y: "operation_from_row w = Inr y" using w(1) inv by (auto simp: ledger_inv_def)
    have "stored s x \<and> op_run_id x = rid \<longleftrightarrow> x = y"
    proof
      assume "stored s x \<and> op_run_id x = rid"
      then obtain v where v: "v \<in> set s" "operation_from_row v = Inr x" "op_run_id x = rid" by (auto simp: stored_def)
      then have "row_of_run rid s = Some v" using row_of_run_Some [OF inv] operation_from_row_fields [OF v(2)] by simp
      then show "x = y" using Some y v(2) by simp
    next
      assume "x = y"
      then show "stored s x \<and> op_run_id x = rid" using w y operation_from_row_fields [OF y] by (auto simp: stored_def)
    qed
    then show ?thesis using Some y by (auto simp: op_get_by_run_id_def)
  qed
qed

text \<open>
  Once an operation can be read, it can be read ever after, with the same key, inputs, run identity
  and creation; a terminal operation never changes again, a running one can only become terminal.
\<close>

theorem terminal_operation_final:
  assumes "ledger_run h [] es s" and "op_get_by_run_id True rid s = Inr (Some x)" and "ledger_run h s es' t"
  shows "\<exists>y. op_get_by_run_id True rid t = Inr (Some y) \<and> op_key_digest y = op_key_digest x \<and> op_input_digest y = op_input_digest x \<and>
    op_created_at y = op_created_at x \<and> instant (op_updated_at x) \<le> instant (op_updated_at y) \<and>
    (y = x \<or> op_status x = RUNNING \<and> op_is_terminal y)"
proof -
  have inv: "ledger_inv s" "ledger_inv t" using run_keeps_ledger [OF assms(1)] run_keeps_ledger [OF assms(3)] by auto
  have x: "run_id_ok rid" "stored s x" "op_run_id x = rid" using assms(2) get_iff [OF inv(1)] by auto
  then obtain y where "stored t y" "op_follows x y" using run_keeps_ledger [OF assms(3) inv(1)] by blast
  then show ?thesis using x get_iff [OF inv(2), of rid y] by (auto simp: op_follows_def)
qed

subsection \<open>One execution for a key\<close>

fun authorised :: "ledger_event \<Rightarrow> performance_operation option" where
  "authorised (Reserved k q (Inr r)) = (if rs_created r then Some (rs_operation r) else None)"
| "authorised _ = None"

fun authorises :: "string \<Rightarrow> ledger_event \<Rightarrow> bool" where
  "authorises key (Reserved k q (Inr r)) = (k = key \<and> rs_created r)"
| "authorises key _ = False"

lemma authorised_rows:
  "ledger_run h [] es s \<Longrightarrow> map op_key_digest (List.map_filter authorised es) = map ro_key_digest s \<and>
     map op_run_id (List.map_filter authorised es) = map ro_run_id s"
proof (induction rule: ledger_run.induct)
  case run_start
  then show ?case by (simp add: List.map_filter_simps)
next
  case (run_step es t e u)
  have inv: "ledger_inv t" using run_keeps_ledger [OF run_step(1)] by simp
  have snoc: "List.map_filter authorised (es @ [e]) = List.map_filter authorised es @ (case authorised e of None \<Rightarrow> [] | Some x \<Rightarrow> [x])"
    by (simp add: List.map_filter_def split: option.split)
  from inv run_step(2) show ?case
  proof (cases rule: step_cases)
    case same
    have "authorised e = None"
    proof (cases e)
      case (Reserved k q r)
      show ?thesis
      proof (cases r)
        case (Inr v)
        then show ?thesis using same(2) [of k q "rs_operation v"] Reserved by (cases v) auto
      qed (simp add: Reserved)
    qed simp
    then show ?thesis using run_step same(1) snoc by simp
  next
    case (reserved key q rid now)
    then show ?thesis using run_step snoc by (simp add: new_operation_def new_row_def)
  next
    case (ended m w x now)
    have "map ro_key_digest u = map ro_key_digest t" "map ro_run_id u = map ro_run_id t"
      unfolding ended(7) by (simp_all add: ended_row_def)
    then show ?thesis using run_step ended(1) snoc by simp
  qed
qed

lemma authorises_digest:
  "ledger_run h [] es s \<Longrightarrow> length (filter (authorises key) es) \<le> length (filter (\<lambda>x. op_key_digest x = op_key_sha256 h key) (List.map_filter authorised es))"
proof (induction rule: ledger_run.induct)
  case run_start
  then show ?case by simp
next
  case (run_step es t e u)
  have snoc: "List.map_filter authorised (es @ [e]) = List.map_filter authorised es @ (case authorised e of None \<Rightarrow> [] | Some x \<Rightarrow> [x])"
    by (simp add: List.map_filter_def split: option.split)
  have "authorises key e \<Longrightarrow> \<exists>x. authorised e = Some x \<and> op_key_digest x = op_key_sha256 h key"
  proof -
    assume a: "authorises key e"
    have "ledger_inv t" using run_keeps_ledger [OF run_step(1)] by simp
    from this run_step(2) show ?thesis
    proof (cases rule: step_cases)
      case same
      then show ?thesis using a by (cases "(key, e)" rule: authorises.cases) (auto, metis (full_types) operation_reservation.surjective old.unit.exhaust)
    qed (use a in \<open>auto simp: new_operation_def\<close>)
  qed
  then show ?case using run_step.IH snoc by (cases "authorises key e") (auto split: option.splits)
qed

text \<open>
  C23. Whatever calls are made on a ledger from its creation on, in whatever order and whether or not
  the database works during them, at most one reservation under an idempotency key ever permits an
  execution, and no two permitted executions have the same run identity.
\<close>

theorem one_execution_per_key:
  assumes "ledger_run h [] es s"
  shows "length (filter (authorises key) es) \<le> 1 \<and> distinct (map op_run_id (List.map_filter authorised es))"
proof -
  have inv: "ledger_inv s" using run_keeps_ledger [OF assms] by simp
  then have d: "distinct (map op_key_digest (List.map_filter authorised es))" "distinct (map op_run_id (List.map_filter authorised es))"
    using authorised_rows [OF assms] by (auto simp: ledger_inv_def)
  have one: "distinct (map op_key_digest xs) \<Longrightarrow> length (filter (\<lambda>x. op_key_digest x = kd) xs) \<le> 1" for xs :: "performance_operation list" and kd
    by (induction xs) (auto simp: filter_empty_conv image_iff)
  show ?thesis using one [OF d(1)] authorises_digest [OF assms, of key] d(2) order_trans by blast
qed

subsection \<open>Ending exactly\<close>

text \<open>
  A well-formed request to end an operation succeeds exactly when the ledger holds the operation
  with these inputs, it is running and the time is not before its last one; what is read afterwards
  is then the terminal operation that was returned. So a running operation can always be ended.
\<close>

theorem operation_ends_exactly:
  assumes "ledger_run h [] es s" and "terminal_request_ok m" and "dt_aware d"
  shows "((\<exists>t y. op_mark_terminal True m (ClockAt d) s = (t, Inr y)) \<longleftrightarrow>
      (\<exists>x. op_get_by_run_id True (tr_run_id m) s = Inr (Some x) \<and> op_input_digest x = tr_input_digest m \<and> op_status x = RUNNING \<and>
        instant (op_updated_at x) \<le> instant d)) \<and>
    (op_mark_terminal True m (ClockAt d) s = (t, Inr y) \<longrightarrow> op_get_by_run_id True (tr_run_id m) t = Inr (Some y) \<and> op_is_terminal y)"
proof -
  have inv: "ledger_inv s" using run_keeps_ledger [OF assms(1)] by simp
  have rid: "run_id_ok (tr_run_id m)" using assms(2) by (simp add: terminal_request_ok_def)
  have now: "op_mark_terminal True m (ClockAt d) s = mark_write m (instant d) s"
    using assms(2,3) by (simp add: op_mark_terminal_def resolve_instant_def)
  have "\<exists>x. op_get_by_run_id True (tr_run_id m) s = Inr (Some x) \<and> op_input_digest x = tr_input_digest m \<and> op_status x = RUNNING \<and>
      instant (op_updated_at x) \<le> instant d \<and> y' = ended_operation m (instant d) x \<and> stored t' y'"
    if "op_mark_terminal True m (ClockAt d) s = (t', Inr y')" for t' y'
    using inv
  proof (cases rule: mark_cases [of s True m "ClockAt d"])
    case (refused e)
    then show ?thesis using that by simp
  next
    case (marked w x i)
    have "i = instant d" using marked(8) assms(3) by (simp add: resolve_instant_def)
    moreover have "op_get_by_run_id True (tr_run_id m) s = Inr (Some x)"
      using get_iff [OF inv, of "tr_run_id m" x] rid marked(2,3,4) operation_from_row_fields [OF marked(4)] by (auto simp: stored_def)
    moreover have "stored t' y'" using marked(2,9) that ended_row_ok [OF marked(1,4,7)] by (force simp: stored_def)
    ultimately show ?thesis using marked that by auto
  qed
  note made = this
  have "\<exists>t' y'. op_mark_terminal True m (ClockAt d) s = (t', Inr y')"
    if x: "op_get_by_run_id True (tr_run_id m) s = Inr (Some x)" "op_input_digest x = tr_input_digest m" "op_status x = RUNNING"
      "instant (op_updated_at x) \<le> instant d" for x
  proof -
    obtain w where w: "row_of_run (tr_run_id m) s = Some w" "operation_from_row w = Inr x"
      using x(1) rid by (auto simp: op_get_by_run_id_def split: option.splits sum.splits)
    show ?thesis using now mark_write_running [OF inv assms(2) w x(2,3,4)] by simp
  qed
  moreover have "op_get_by_run_id True (tr_run_id m) t = Inr (Some y) \<and> op_is_terminal y"
    if run: "op_mark_terminal True m (ClockAt d) s = (t, Inr y)"
  proof -
    obtain x where x: "op_get_by_run_id True (tr_run_id m) s = Inr (Some x)" "op_status x = RUNNING" "instant (op_updated_at x) \<le> instant d"
        "y = ended_operation m (instant d) x" "stored t y" using made [OF run] by blast
    have "ledger_inv t" using ledger_inv_step [OF inv step_mark [OF run]] by simp
    moreover have "op_run_id y = tr_run_id m" using x(1,4) get_iff [OF inv] by (simp add: ended_operation_def)
    moreover have "op_is_terminal y" using ended_terminal [OF assms(2)] x(4) by simp
    ultimately show ?thesis using get_iff [of t "tr_run_id m" y] rid x(5) by simp
  qed
  ultimately show ?thesis using made by blast
qed

subsection \<open>The ledger as a replay service\<close>

definition op_seen :: "hasher \<Rightarrow> ledger \<Rightarrow> string \<Rightarrow> string option" where
  "op_seen h s k = (if op_key_ok k then map_option ro_input_digest (row_of_key (op_key_sha256 h k) s) else None)"

definition op_replay :: "hasher \<Rightarrow> ledger \<Rightarrow> string \<Rightarrow> operation_reservation" where
  "op_replay h s k = \<lparr>rs_operation = projr (operation_from_row (the (row_of_key (op_key_sha256 h k) s))), rs_created = False\<rparr>"

lemma ledger_do_step: "\<exists>e. ledger_step h s e (ledger_do h c s)"
proof (cases c)
  case (CallReserve db key q now draw)
  then show ?thesis using ledger_step.step_reserve by (metis ledger_do.simps(1) prod.collapse)
next
  case (CallMark db m now)
  then show ?thesis using ledger_step.step_mark by (metis ledger_do.simps(2) prod.collapse)
qed

lemma reserve_known:
  assumes "ledger_inv s" and "operation_inputs_ok q" and "op_seen h s k = Some f"
  shows "op_reserve h True k q now draw s = (s, if f = op_input_sha256 h q then Inr (op_replay h s k) else Inl OpConflict)"
proof -
  obtain w where w: "op_key_ok k" "row_of_key (op_key_sha256 h k) s = Some w" "f = ro_input_digest w"
    using assms(3) by (auto simp: op_seen_def split: if_splits)
  then obtain x where "operation_from_row w = Inr x" using row_of_key_Some [OF assms(1)] assms(1) by (auto simp: ledger_inv_def)
  then show ?thesis using w assms(2) operation_from_row_fields [of w x]
    by (auto simp: op_reserve_def op_idempotency_key_digest_def operation_input_digest_def op_key_sha256_def op_replay_def)
qed

interpretation reservations: replay_service "ledger_do h" ledger_inv "\<lambda>k q env. op_reserve h True k q (fst env) (snd env)"
    operation_inputs_ok "op_input_sha256 h" "op_seen h" "op_replay h" OpConflict for h
proof
  fix s :: ledger and c assume inv: "ledger_inv s"
  obtain e where "ledger_step h s e (ledger_do h c s)" using ledger_do_step by blast
  then show "ledger_inv (ledger_do h c s)" using ledger_inv_step [OF inv] by blast
next
  fix s :: ledger and k q and env :: "clock_value \<times> (nat \<Rightarrow> run_id_draw)" assume inv: "ledger_inv s"
  have "ledger_step h s (Reserved k q (snd (op_reserve h True k q (fst env) (snd env) s))) (fst (op_reserve h True k q (fst env) (snd env) s))"
    by (rule step_reserve [of h True k q "fst env" "snd env"]) simp
  then show "ledger_inv (fst (op_reserve h True k q (fst env) (snd env) s))" using ledger_inv_step [OF inv] by blast
next
  fix k q s s' r and env :: "clock_value \<times> (nat \<Rightarrow> run_id_draw)" assume "op_reserve h True k q (fst env) (snd env) s = (s', Inr r)"
  then show "operation_inputs_ok q" by (cases rule: reserve_cases [of h True k q "fst env" "snd env" s]) auto
next
  fix s :: ledger and k q s' r and env :: "clock_value \<times> (nat \<Rightarrow> run_id_draw)"
  assume inv: "ledger_inv s" and none: "op_seen h s k = None" and run: "op_reserve h True k q (fst env) (snd env) s = (s', Inr r)"
  show "op_seen h s' k = Some (op_input_sha256 h q)"
  proof (cases rule: reserve_cases [of h True k q "fst env" "snd env" s])
    case (created rid t)
    have "find (\<lambda>w. ro_key_digest w = op_key_sha256 h k) s = None" using created(3) by (simp add: row_of_key_def)
    then have "row_of_key (op_key_sha256 h k) (s @ [new_row (op_key_sha256 h k) (op_input_sha256 h q) rid t]) =
        Some (new_row (op_key_sha256 h k) (op_input_sha256 h q) rid t)"
      by (induction s) (auto simp: row_of_key_def new_row_def split: if_splits)
    then show ?thesis using created run by (auto simp: op_seen_def new_row_def)
  qed (use run none in \<open>auto simp: op_seen_def\<close>)
next
  fix s :: ledger and k q and env :: "clock_value \<times> (nat \<Rightarrow> run_id_draw)"
  assume "ledger_inv s" "operation_inputs_ok q" "op_seen h s k = Some (op_input_sha256 h q)"
  then show "op_reserve h True k q (fst env) (snd env) s = (s, Inr (op_replay h s k))" by (simp add: reserve_known)
next
  fix s :: ledger and k q f and env :: "clock_value \<times> (nat \<Rightarrow> run_id_draw)"
  assume "ledger_inv s" "operation_inputs_ok q" "op_seen h s k = Some f" "f \<noteq> op_input_sha256 h q"
  then show "op_reserve h True k q (fst env) (snd env) s = (s, Inl OpConflict)" by (simp add: reserve_known)
next
  fix s :: ledger and k f c assume inv: "ledger_inv s" and seen: "op_seen h s k = Some f"
  then obtain w where w: "op_key_ok k" "row_of_key (op_key_sha256 h k) s = Some w" "f = ro_input_digest w"
    by (auto simp: op_seen_def split: if_splits)
  then have mem: "w \<in> set s" "ro_key_digest w = op_key_sha256 h k" using row_of_key_Some [OF inv] by auto
  then obtain x where x: "operation_from_row w = Inr x" using inv by (auto simp: ledger_inv_def)
  obtain e where "ledger_step h s e (ledger_do h c s)" using ledger_do_step by blast
  note step = ledger_inv_step [OF inv this]
  have "stored s x" using mem(1) x by (auto simp: stored_def)
  then obtain v y where v: "v \<in> set (ledger_do h c s)" "operation_from_row v = Inr y" "op_follows x y" using step unfolding stored_def by blast
  then have "ro_key_digest v = op_key_sha256 h k" "ro_input_digest v = f"
    using operation_from_row_fields [OF x] operation_from_row_fields [OF v(2)] mem(2) w(3) by (auto simp: op_follows_def)
  then have "row_of_key (op_key_sha256 h k) (ledger_do h c s) = Some v" using step v(1) row_of_key_Some by blast
  then show "op_seen h (ledger_do h c s) k = Some f" using w(1) \<open>ro_input_digest v = f\<close> by (simp add: op_seen_def)
qed

text \<open>
  A reservation that was accepted is answered from the ledger ever after, with the operation as it
  is by then and no permission to execute; other inputs under its key are refused.
\<close>

theorem reservation_replayed:
  assumes "ledger_run h [] es s" and "op_reserve h True key q now draw s = (s1, Inr r)" and "t = fold (ledger_do h) cs s1"
  shows "op_reserve h True key q now' draw' t = (t, Inr (op_replay h t key)) \<and> \<not> rs_created (op_replay h t key) \<and>
    (operation_inputs_ok q' \<and> op_input_sha256 h q' \<noteq> op_input_sha256 h q \<longrightarrow> op_reserve h True key q' now' draw' t = (t, Inl OpConflict))"
  using reservations.replay_after [of s h key q "(now, draw)" s1 r "(now', draw')" cs]
    reservations.conflict_after [of s h key q "(now, draw)" s1 r q' "(now', draw')" cs] run_keeps_ledger [OF assms(1)] assms(2,3)
  by (simp add: op_replay_def)

subsection \<open>A sample run\<close>

definition sample_inputs :: operation_inputs where
  "sample_inputs = \<lparr>oi_frozen_contract_hash = replicate 64 (CHR ''a''), oi_confirmation_hash = replicate 64 (CHR ''b''),
     oi_expected_manifest_hash = replicate 64 (CHR ''c''), oi_workload_hash = replicate 64 (CHR ''d''),
     oi_adapter = ''probe'', oi_adapter_version = ''1''\<rparr>"

definition sample_run_id :: string where
  "sample_run_id = ''run_'' @ replicate 32 (CHR ''0'')"

definition sample_row :: operation_row where
  "sample_row = new_row (replicate 64 (CHR ''0'')) (replicate 64 (CHR ''0'')) sample_run_id 5"

definition sample_operation :: performance_operation where
  "sample_operation = new_operation (replicate 64 (CHR ''0'')) (replicate 64 (CHR ''0'')) sample_run_id 5"

definition sample_end :: terminal_request where
  "sample_end = \<lparr>tr_run_id = sample_run_id, tr_input_digest = replicate 64 (CHR ''0''), tr_status = ''FAILED'',
     tr_execution_id = None, tr_receipt_id = None, tr_artifact_registry_sha256 = None, tr_terminal_reason = Some ''TIMEOUT''\<rparr>"

lemma sample_reserve: "op_reserve flat_hasher True ''k'' sample_inputs (ClockAt (Aware 5 0)) (\<lambda>n. DrawnId sample_run_id) [] =
    ([sample_row], Inr \<lparr>rs_operation = sample_operation, rs_created = True\<rparr>)"
  by code_simp

lemma sample_ledger_run: "ledger_run flat_hasher [] ([] @ [Reserved ''k'' sample_inputs (Inr \<lparr>rs_operation = sample_operation, rs_created = True\<rparr>)]) [sample_row]"
  by (rule run_step [OF run_start step_reserve [OF sample_reserve]])

lemma sample_get: "op_get_by_run_id True sample_run_id [sample_row] = Inr (Some sample_operation)"
  by code_simp

lemma sample_end_ok: "terminal_request_ok sample_end"
  by code_simp

lemma sample_mark: "op_mark_terminal True sample_end (ClockAt (Aware 6 0)) [sample_row] =
    ([ended_row sample_end 6 sample_row], Inr (ended_operation sample_end 6 sample_operation))"
  by code_simp

theorem one_execution_per_key_witness:
  "length (filter (authorises ''k'') [Reserved ''k'' sample_inputs (Inr \<lparr>rs_operation = sample_operation, rs_created = True\<rparr>)]) \<le> 1"
  using one_execution_per_key [OF sample_ledger_run, of "''k''"] by simp

theorem terminal_operation_final_witness:
  "\<exists>y. op_get_by_run_id True sample_run_id [ended_row sample_end 6 sample_row] = Inr (Some y) \<and> (y = sample_operation \<or> op_is_terminal y)"
  using terminal_operation_final [OF sample_ledger_run sample_get run_step [OF run_start step_mark [OF sample_mark]]] by blast

theorem operation_ends_exactly_witness:
  "\<exists>t y. op_mark_terminal True sample_end (ClockAt (Aware 6 0)) [sample_row] = (t, Inr y) \<and> op_is_terminal y"
proof -
  have "tr_run_id sample_end = sample_run_id" "tr_input_digest sample_end = op_input_digest sample_operation" "op_status sample_operation = RUNNING"
      "instant (op_updated_at sample_operation) \<le> 6"
    by (simp_all add: sample_end_def sample_operation_def new_operation_def)
  then show ?thesis
    using operation_ends_exactly [OF sample_ledger_run sample_end_ok, of "Aware 6 0"] sample_get by fastforce
qed

theorem reservation_replayed_witness:
  "op_reserve flat_hasher True ''k'' sample_inputs ClockRaises (\<lambda>n. DrawRaises) [sample_row] = ([sample_row], Inr (op_replay flat_hasher [sample_row] ''k''))"
  using reservation_replayed [OF run_start sample_reserve, of "[sample_row]" "[]" ClockRaises "\<lambda>n. DrawRaises"] by simp

end
