(* ===== verification/Capability_Planner.thy ===== *)
theory Capability_Planner
  imports Proposal_Review
begin

section \<open>Planning how a claim is proved (poc_capability_planner.py)\<close>

text \<open>
  \<open>planner_service\<close> is the state of \<open>ProcessLocalCapabilityPlannerService\<close>. The proposals that human
  triage retained are looked up before the lock is taken, as in the triage itself; every plan must
  name each of them once. What a plan may say of a claim comes from a fixed registry of
  capabilities and from what a named human declared.
\<close>

subsection \<open>Texts and enumerations\<close>

datatype planning_scope = MUST_HAVE | ADVISORY

datatype planning_disposition = EXECUTABLE | EVIDENCE_IMPORT | CLARIFICATION_REQUIRED | UNSUPPORTED

datatype planning_provenance = SOURCE_EXTRACTED | HUMAN_DECLARED | ADAPTER_PROFILE_DECLARED

fun scope_value :: "planning_scope \<Rightarrow> string" where
  "scope_value MUST_HAVE = ''MUST_HAVE''"
| "scope_value ADVISORY = ''ADVISORY''"

fun disposition_value :: "planning_disposition \<Rightarrow> string" where
  "disposition_value EXECUTABLE = ''EXECUTABLE''"
| "disposition_value EVIDENCE_IMPORT = ''EVIDENCE_IMPORT''"
| "disposition_value CLARIFICATION_REQUIRED = ''CLARIFICATION_REQUIRED''"
| "disposition_value UNSUPPORTED = ''UNSUPPORTED''"

fun provenance_value :: "planning_provenance \<Rightarrow> string" where
  "provenance_value SOURCE_EXTRACTED = ''SOURCE_EXTRACTED''"
| "provenance_value HUMAN_DECLARED = ''HUMAN_DECLARED''"
| "provenance_value ADAPTER_PROFILE_DECLARED = ''ADAPTER_PROFILE_DECLARED''"

datatype planning_error = PlanningInvalid | PlanningLookupUnavailable | PlanningProposalUnavailable | PlanningCrossPOC
  | PlanningStaleProposal | PlanningIdempotencyConflict | PlanningCapacityExceeded | PlanningValueError
  | PlanningValidationError | PlanningCallbackError

text \<open>Texts are in normal form C, as all text below code point 256 is.\<close>

definition safe_identifier :: "nat \<Rightarrow> string \<Rightarrow> string option" where
  "safe_identifier maximum v = (let n = py_strip v in
     if n = [] \<or> maximum < length n \<or> list_ex control_char n then None else Some n)"

subsection \<open>What a human declares\<close>

record planner_criterion =
  cri_rule :: "string option"
  cri_operator :: "string option"
  cri_threshold :: "real option"
  cri_unit :: "string option"
  cri_measurement_population :: "string option"
  cri_evidence_method :: "string option"
  cri_adapter :: "string option"
  cri_adapter_version :: "string option"
  cri_evidence_profile :: "string option"
  cri_provenance :: "planning_provenance option"

text \<open>An optional text after its validator, within the length of its field; None where it is refused.\<close>

definition criterion_text :: "nat \<Rightarrow> string option \<Rightarrow> string option option" where
  "criterion_text maximum v = (case v of None \<Rightarrow> Some None
     | Some t \<Rightarrow> (case safe_identifier 300 t of None \<Rightarrow> None | Some n \<Rightarrow> if length n \<le> maximum then Some (Some n) else None))"

definition make_planner_criterion :: "planner_criterion \<Rightarrow> planner_criterion option" where
  "make_planner_criterion c = (case (criterion_text 160 (cri_rule c), criterion_text 32 (cri_operator c), criterion_text 64 (cri_unit c),
       criterion_text 300 (cri_measurement_population c), criterion_text 100 (cri_evidence_method c), criterion_text 160 (cri_adapter c),
       criterion_text 64 (cri_adapter_version c), criterion_text 200 (cri_evidence_profile c)) of
     (Some rule, Some op, Some unit, Some pop, Some meth, Some adapter, Some version, Some profile) \<Rightarrow>
       if (case cri_threshold c of None \<Rightarrow> False | Some x \<Rightarrow> 1000000000 < \<bar>x\<bar>) then None
       else Some (c\<lparr>cri_rule := rule, cri_operator := op, cri_unit := unit, cri_measurement_population := pop,
         cri_evidence_method := meth, cri_adapter := adapter, cri_adapter_version := version, cri_evidence_profile := profile\<rparr>)
   | _ \<Rightarrow> None)"

definition criterion_blank :: "planner_criterion \<Rightarrow> bool" where
  "criterion_blank c \<longleftrightarrow> cri_rule c = None \<and> cri_operator c = None \<and> cri_threshold c = None \<and> cri_unit c = None \<and>
     cri_measurement_population c = None \<and> cri_evidence_method c = None \<and> cri_adapter c = None \<and> cri_adapter_version c = None \<and>
     cri_evidence_profile c = None \<and> cri_provenance c = None"

record planner_item =
  it_proposal_id :: string
  it_scope :: planning_scope
  it_capability_key :: string
  it_criterion :: "planner_criterion option"
  it_reviewer :: string
  it_rationale :: string
  it_explicit_exclusion :: bool

text \<open>\<open>PlannerItemInput\<close>, its criterion validated before; None where the validation fails.\<close>

definition make_planner_item :: "planner_item \<Rightarrow> planner_item option" where
  "make_planner_item i = (case (safe_text 160 True (it_capability_key i), safe_text 160 True (it_reviewer i), safe_text 2000 False (it_rationale i)) of
     (Some key, Some reviewer, Some rationale) \<Rightarrow>
       if \<not> proposal_id_ok (it_proposal_id i) then None
       else if it_explicit_exclusion i \<and> (case it_criterion i of None \<Rightarrow> False | Some c \<Rightarrow> \<not> criterion_blank c) then None
       else Some (i\<lparr>it_capability_key := key, it_reviewer := reviewer, it_rationale := rationale\<rparr>)
   | _ \<Rightarrow> None)"

subsection \<open>The registry\<close>

record capability_entry =
  re_capability_key :: string
  re_label :: string
  re_supported_disposition :: planning_disposition
  re_rule :: string
  re_allowed_operators :: "string list"
  re_unit :: string
  re_measurement_population :: string
  re_evidence_method :: string
  re_adapter :: string
  re_adapter_version :: string
  re_evidence_profile :: "string option"

definition default_capability_registry :: "capability_entry list" where
  "default_capability_registry = [
     \<lparr>re_capability_key = ''exact_tool_selection'', re_label = ''Exact tool selection'', re_supported_disposition = EXECUTABLE,
      re_rule = ''exact_tool_selection_rate'', re_allowed_operators = [''GTE''], re_unit = ''PROPORTION'',
      re_measurement_population = ''approved_synthetic_cases'', re_evidence_method = ''EXIT_SPEC_STREAMING_PROBE'',
      re_adapter = ''deterministic_tool_selection'', re_adapter_version = ''1.0.0'', re_evidence_profile = None\<rparr>,
     \<lparr>re_capability_key = ''inference_performance_external'', re_label = ''External inference performance profile'',
      re_supported_disposition = EVIDENCE_IMPORT, re_rule = ''ttft_p95'', re_allowed_operators = [''LT''], re_unit = ''MILLISECONDS'',
      re_measurement_population = ''successful_measured_requests_with_observed_ttft'', re_evidence_method = ''EXTERNAL_EVIDENCE_BUNDLE'',
      re_adapter = ''vllm_bench_serve'', re_adapter_version = ''1.0.0'',
      re_evidence_profile = Some ''inferdrome.managed-vllm-0.26-evidence-profile.v1''\<rparr>]"

definition registry_lookup :: "string \<Rightarrow> capability_entry option" where
  "registry_lookup key = find (\<lambda>e. re_capability_key e = key) default_capability_registry"

subsection \<open>Records and plans\<close>

text \<open>A retained proposal; its numeric facts appear only as the JSON they are dumped to.\<close>

record retained_proposal =
  rp_poc_id :: string
  rp_proposal_id :: string
  rp_authoring_receipt_id :: string
  rp_authoring_result_id :: string
  rp_source_receipt_id :: string
  rp_source_id :: string
  rp_source_kind :: source_kind
  rp_source_content_sha256 :: string
  rp_source_revision :: nat
  rp_source_adapter_name :: string
  rp_source_adapter_version :: string
  rp_redaction_policy_version :: string
  rp_proposal_key :: string
  rp_source_quote :: string
  rp_normalized_claim :: string
  rp_numeric_facts :: json
  rp_reviewer :: string
  rp_rationale :: string
  rp_decided_at :: py_datetime

record planning_record =
  pn_planning_item_id :: string
  pn_poc_id :: string
  pn_proposal_id :: string
  pn_source_receipt_id :: string
  pn_source_kind :: source_kind
  pn_authoring_receipt_id :: string
  pn_authoring_result_id :: string
  pn_source_id :: string
  pn_source_content_sha256 :: string
  pn_source_revision :: nat
  pn_source_quote :: string
  pn_normalized_claim :: string
  pn_scope :: planning_scope
  pn_capability_key :: string
  pn_disposition :: planning_disposition
  pn_criterion :: "planner_criterion option"
  pn_reason :: string
  pn_next_action :: string
  pn_reviewer :: string
  pn_rationale :: string
  pn_explicit_exclusion :: bool

text \<open>The names of the fields a supported record needs, with whether the criterion has them.\<close>

definition required_fields :: "planner_criterion option \<Rightarrow> (string \<times> bool) list" where
  "required_fields c = (let has = (\<lambda>f. case c of None \<Rightarrow> False | Some x \<Rightarrow> f x) in
     [(''rule'', has (\<lambda>x. cri_rule x \<noteq> None)), (''operator'', has (\<lambda>x. cri_operator x \<noteq> None)),
      (''threshold'', has (\<lambda>x. cri_threshold x \<noteq> None)), (''unit'', has (\<lambda>x. cri_unit x \<noteq> None)),
      (''measurement_population'', has (\<lambda>x. cri_measurement_population x \<noteq> None)),
      (''evidence_method'', has (\<lambda>x. cri_evidence_method x \<noteq> None)), (''adapter'', has (\<lambda>x. cri_adapter x \<noteq> None)),
      (''adapter_version'', has (\<lambda>x. cri_adapter_version x \<noteq> None)), (''provenance'', has (\<lambda>x. cri_provenance x \<noteq> None))])"

definition missing_fields :: "planner_criterion option \<Rightarrow> string list" where
  "missing_fields c = map fst (filter (\<lambda>(n, present). \<not> present) (required_fields c))"

definition matches_entry :: "planner_criterion \<Rightarrow> capability_entry \<Rightarrow> bool" where
  "matches_entry c e \<longleftrightarrow> cri_rule c = Some (re_rule e) \<and> (\<exists>op \<in> set (re_allowed_operators e). cri_operator c = Some op) \<and>
     cri_unit c = Some (re_unit e) \<and> cri_measurement_population c = Some (re_measurement_population e) \<and>
     cri_evidence_method c = Some (re_evidence_method e) \<and> cri_adapter c = Some (re_adapter e) \<and>
     cri_adapter_version c = Some (re_adapter_version e)"

definition supported_record_ok :: "planning_record \<Rightarrow> bool" where
  "supported_record_ok r \<longleftrightarrow> (case registry_lookup (pn_capability_key r) of None \<Rightarrow> False
   | Some e \<Rightarrow> re_supported_disposition e = pn_disposition r \<and> missing_fields (pn_criterion r) = [] \<and>
       (case pn_criterion r of None \<Rightarrow> False | Some c \<Rightarrow>
          (if pn_disposition r = EVIDENCE_IMPORT then cri_evidence_profile c = re_evidence_profile e else cri_evidence_profile c = None) \<and>
          matches_entry c e))"

definition record_disposition_ok :: "planning_record \<Rightarrow> bool" where
  "record_disposition_ok r \<longleftrightarrow>
     \<not> (pn_explicit_exclusion r \<and> (pn_disposition r \<noteq> UNSUPPORTED \<or> pn_criterion r \<noteq> None)) \<and>
     (pn_disposition r \<in> {EXECUTABLE, EVIDENCE_IMPORT} \<longrightarrow> supported_record_ok r) \<and>
     \<not> (pn_disposition r = UNSUPPORTED \<and> pn_criterion r \<noteq> None) \<and>
     \<not> (pn_disposition r \<in> {CLARIFICATION_REQUIRED, UNSUPPORTED} \<and> py_strip (pn_reason r) = [])"

text \<open>\<open>PlanningRecord(...)\<close>: its texts normalised, or None where the validation fails.\<close>

definition make_planning_record :: "planning_record \<Rightarrow> planning_record option" where
  "make_planning_record r = (case (safe_text 4000 False (pn_source_quote r), safe_text 2000 False (pn_normalized_claim r),
       safe_text 2000 False (pn_reason r), safe_text 2000 False (pn_next_action r), safe_text 2000 False (pn_rationale r),
       safe_text 160 True (pn_capability_key r), safe_text 160 True (pn_reviewer r)) of
     (Some quote, Some claim, Some reason, Some next', Some rationale, Some key, Some reviewer) \<Rightarrow>
       let n = r\<lparr>pn_source_quote := quote, pn_normalized_claim := claim, pn_reason := reason, pn_next_action := next',
           pn_rationale := rationale, pn_capability_key := key, pn_reviewer := reviewer\<rparr> in
       if poc_id_ok (pn_poc_id n) \<and> proposal_id_ok (pn_proposal_id n) \<and> receipt_id_ok (pn_source_receipt_id n) \<and>
         1 \<le> length (pn_authoring_receipt_id n) \<and> length (pn_authoring_receipt_id n) \<le> 160 \<and>
         1 \<le> length (pn_authoring_result_id n) \<and> length (pn_authoring_result_id n) \<le> 160 \<and>
         1 \<le> length (pn_source_id n) \<and> length (pn_source_id n) \<le> 160 \<and> is_sha256 (pn_source_content_sha256 n) \<and>
         1 \<le> pn_source_revision n \<and> starts_with ''cpitem_'' (pn_planning_item_id n) \<and>
         hex_text 32 (drop 7 (pn_planning_item_id n)) \<and> record_disposition_ok n
       then Some n else None
   | _ \<Rightarrow> None)"

record capability_plan =
  cp_plan_id :: string
  cp_poc_id :: string
  cp_plan_version :: nat
  cp_created_at :: py_datetime
  cp_records :: "planning_record list"
  cp_ready_for_agreement :: bool

subsection \<open>Digests\<close>

definition criterion_payload :: "planner_criterion \<Rightarrow> json" where
  "criterion_payload c = JObj [(''rule'', json_opt JStr (cri_rule c)), (''operator'', json_opt JStr (cri_operator c)),
     (''threshold'', json_opt JFloat (cri_threshold c)), (''unit'', json_opt JStr (cri_unit c)),
     (''measurement_population'', json_opt JStr (cri_measurement_population c)), (''evidence_method'', json_opt JStr (cri_evidence_method c)),
     (''adapter'', json_opt JStr (cri_adapter c)), (''adapter_version'', json_opt JStr (cri_adapter_version c)),
     (''evidence_profile'', json_opt JStr (cri_evidence_profile c)),
     (''provenance'', json_opt (\<lambda>p. JStr (provenance_value p)) (cri_provenance c))]"

definition planner_item_json :: "planner_item \<Rightarrow> json" where
  "planner_item_json i = JObj [(''proposal_id'', JStr (it_proposal_id i)), (''scope'', JStr (scope_value (it_scope i))),
     (''capability_key'', JStr (it_capability_key i)), (''criterion'', json_opt criterion_payload (it_criterion i)),
     (''reviewer'', JStr (it_reviewer i)), (''rationale'', JStr (it_rationale i)), (''explicit_exclusion'', JBool (it_explicit_exclusion i))]"

definition planner_key_digest :: "hasher \<Rightarrow> string \<Rightarrow> string" where
  "planner_key_digest h k = text_sha h (''exitspec-capability-plan-idempotency-v1'' @ [CHR 0x00]) k"

definition planner_request_sha256 :: "hasher \<Rightarrow> string \<Rightarrow> planner_item list \<Rightarrow> string" where
  "planner_request_sha256 h poc items = json_sha h (''exitspec-capability-plan-request-v1'' @ [CHR 0x00])
     (JObj [(''poc_id'', JStr poc), (''items'', JArr (map planner_item_json items))])"

definition record_payload :: "string \<Rightarrow> planning_record \<Rightarrow> json" where
  "record_payload poc r = JObj [(''poc_id'', JStr poc), (''proposal_id'', JStr (pn_proposal_id r)),
     (''scope'', JStr (scope_value (pn_scope r))), (''capability_key'', JStr (pn_capability_key r)),
     (''disposition'', JStr (disposition_value (pn_disposition r))), (''criterion'', json_opt criterion_payload (pn_criterion r)),
     (''reason'', JStr (pn_reason r)), (''next_action'', JStr (pn_next_action r)), (''reviewer'', JStr (pn_reviewer r)),
     (''rationale'', JStr (pn_rationale r)), (''explicit_exclusion'', JBool (pn_explicit_exclusion r))]"

definition planning_item_id :: "hasher \<Rightarrow> string \<Rightarrow> string \<Rightarrow> nat \<Rightarrow> json \<Rightarrow> string" where
  "planning_item_id h poc pid version payload = ''cpitem_'' @ take 32 (json_sha h (''exitspec-capability-planning-item-v1'' @ [CHR 0x00])
     (JObj [(''poc_id'', JStr poc), (''plan_version'', JInt (int version)), (''proposal_id'', JStr pid), (''record'', payload)]))"

definition planning_record_json :: "planning_record \<Rightarrow> json" where
  "planning_record_json r = JObj [(''schema_version'', JStr ''exitspec.capability-plan.v1''),
     (''planning_item_id'', JStr (pn_planning_item_id r)), (''poc_id'', JStr (pn_poc_id r)), (''proposal_id'', JStr (pn_proposal_id r)),
     (''source_receipt_id'', JStr (pn_source_receipt_id r)), (''source_kind'', JStr (source_kind_value (pn_source_kind r))),
     (''authoring_receipt_id'', JStr (pn_authoring_receipt_id r)), (''authoring_result_id'', JStr (pn_authoring_result_id r)),
     (''source_id'', JStr (pn_source_id r)), (''source_content_sha256'', JStr (pn_source_content_sha256 r)),
     (''source_revision'', JInt (int (pn_source_revision r))), (''source_quote'', JStr (pn_source_quote r)),
     (''normalized_claim'', JStr (pn_normalized_claim r)), (''scope'', JStr (scope_value (pn_scope r))),
     (''capability_key'', JStr (pn_capability_key r)), (''disposition'', JStr (disposition_value (pn_disposition r))),
     (''criterion'', json_opt criterion_payload (pn_criterion r)), (''reason'', JStr (pn_reason r)),
     (''next_action'', JStr (pn_next_action r)), (''reviewer'', JStr (pn_reviewer r)), (''rationale'', JStr (pn_rationale r)),
     (''explicit_exclusion'', JBool (pn_explicit_exclusion r))]"

definition capability_plan_id :: "hasher \<Rightarrow> string \<Rightarrow> nat \<Rightarrow> planning_record list \<Rightarrow> string" where
  "capability_plan_id h poc version rs = ''cplan_'' @ take 32 (json_sha h (''exitspec-capability-plan-v1'' @ [CHR 0x00])
     (JObj [(''poc_id'', JStr poc), (''plan_version'', JInt (int version)), (''records'', JArr (map planning_record_json rs))]))"

definition retained_json :: "retained_proposal \<Rightarrow> json" where
  "retained_json x = JObj [(''schema_version'', JStr ''exitspec.retained-proposal-projection.v1''), (''poc_id'', JStr (rp_poc_id x)),
     (''proposal_id'', JStr (rp_proposal_id x)), (''authoring_receipt_id'', JStr (rp_authoring_receipt_id x)),
     (''authoring_result_id'', JStr (rp_authoring_result_id x)), (''source_receipt_id'', JStr (rp_source_receipt_id x)),
     (''source_id'', JStr (rp_source_id x)), (''source_kind'', JStr (source_kind_value (rp_source_kind x))),
     (''source_content_sha256'', JStr (rp_source_content_sha256 x)), (''source_revision'', JInt (int (rp_source_revision x))),
     (''source_adapter_name'', JStr (rp_source_adapter_name x)), (''source_adapter_version'', JStr (rp_source_adapter_version x)),
     (''redaction_policy_version'', JStr (rp_redaction_policy_version x)), (''proposal_key'', JStr (rp_proposal_key x)),
     (''source_quote'', JStr (rp_source_quote x)), (''normalized_claim'', JStr (rp_normalized_claim x)),
     (''numeric_facts'', rp_numeric_facts x), (''retention_state'', JStr ''KEEP_FOR_CONTRACT''), (''reviewer'', JStr (rp_reviewer x)),
     (''rationale'', JStr (rp_rationale x)), (''decided_at'', datetime_json (rp_decided_at x))]"

definition retained_fingerprint :: "hasher \<Rightarrow> retained_proposal \<Rightarrow> string" where
  "retained_fingerprint h x = json_sha h (''exitspec-retained-proposal-for-planning-v1'' @ [CHR 0x00]) (retained_json x)"

subsection \<open>Building a plan\<close>

definition record_ready :: "planning_record \<Rightarrow> bool" where
  "record_ready r \<longleftrightarrow> pn_disposition r \<notin> {CLARIFICATION_REQUIRED, UNSUPPORTED} \<or> pn_scope r = ADVISORY \<or> pn_explicit_exclusion r"

text \<open>The validation of \<open>CapabilityPlan(...)\<close>.\<close>

definition capability_plan_ok :: "hasher \<Rightarrow> capability_plan \<Rightarrow> bool" where
  "capability_plan_ok h p \<longleftrightarrow> poc_id_ok (cp_poc_id p) \<and> 1 \<le> cp_plan_version p \<and> cp_plan_version p \<le> 10000 \<and> dt_aware (cp_created_at p) \<and>
     1 \<le> length (cp_records p) \<and> length (cp_records p) \<le> 1024 \<and>
     starts_with ''cplan_'' (cp_plan_id p) \<and> hex_text 32 (drop 6 (cp_plan_id p)) \<and>
     distinct (map pn_proposal_id (cp_records p)) \<and>
     list_all (\<lambda>r. pn_poc_id r = cp_poc_id p \<and> planning_item_id h (cp_poc_id p) (pn_proposal_id r) (cp_plan_version p)
       (record_payload (cp_poc_id p) r) = pn_planning_item_id r) (cp_records p) \<and>
     capability_plan_id h (cp_poc_id p) (cp_plan_version p) (cp_records p) = cp_plan_id p \<and>
     cp_ready_for_agreement p = list_all record_ready (cp_records p)"

record classification =
  cl_disposition :: planning_disposition
  cl_criterion :: "planner_criterion option"
  cl_reason :: string
  cl_next_action :: string

definition clashes :: "string option \<Rightarrow> string option \<Rightarrow> bool" where
  "clashes supplied allowed \<longleftrightarrow> supplied \<noteq> None \<and> supplied \<noteq> allowed"

definition planner_classify :: "retained_proposal \<Rightarrow> planner_item \<Rightarrow> planning_error + classification" where
  "planner_classify x i = (case registry_lookup (it_capability_key i) of
     None \<Rightarrow>
       if (case it_criterion i of None \<Rightarrow> False | Some c \<Rightarrow> \<not> criterion_blank c) then Inl PlanningInvalid
       else Inr \<lparr>cl_disposition = UNSUPPORTED, cl_criterion = None,
         cl_reason = ''Unsupported capability boundary: no server-owned registry entry exists for this capability.'',
         cl_next_action = ''Name a supported capability or explicitly exclude this claim in a new reviewed plan version.''\<rparr>
   | Some e \<Rightarrow>
       if it_explicit_exclusion i then Inr \<lparr>cl_disposition = UNSUPPORTED, cl_criterion = None,
         cl_reason = ''Explicitly excluded by the named human; this claim remains visible and cannot enter an executable contract.'',
         cl_next_action = ''Resolve the exclusion in a new reviewed plan version if the requirement changes.''\<rparr>
       else if (case it_criterion i of None \<Rightarrow> False | Some c \<Rightarrow> clashes (cri_adapter c) (Some (re_adapter e)) \<or>
         clashes (cri_adapter_version c) (Some (re_adapter_version e)) \<or> clashes (cri_evidence_profile c) (re_evidence_profile e))
       then Inl PlanningInvalid
       else if missing_fields (it_criterion i) \<noteq> [] then Inr \<lparr>cl_disposition = CLARIFICATION_REQUIRED, cl_criterion = it_criterion i,
         cl_reason = ''Missing named-human planning input: '' @ join_str '', '' (missing_fields (it_criterion i)) @ ''.'',
         cl_next_action = ''Provide each named field from the server-owned capability registry; do not infer it from source text.''\<rparr>
       else (case it_criterion i of None \<Rightarrow> Inl PlanningInvalid | Some c \<Rightarrow>
         if \<not> matches_entry c e then Inl PlanningInvalid
         else if re_supported_disposition e = EVIDENCE_IMPORT \<and> cri_evidence_profile c \<noteq> re_evidence_profile e then Inl PlanningInvalid
         else if re_supported_disposition e = EXECUTABLE \<and> cri_evidence_profile c \<noteq> None then Inl PlanningInvalid
         else if cri_provenance c = Some SOURCE_EXTRACTED \<and> rp_source_quote x = [] then Inl PlanningInvalid
         else Inr \<lparr>cl_disposition = re_supported_disposition e, cl_criterion = Some c,
           cl_reason = ''Complete criterion matches the server-owned capability and evidence policy.'',
           cl_next_action = ''A later reviewed lifecycle step may decide whether to use this plan; planning does not authorize that step.''\<rparr>))"

definition draft_record :: "hasher \<Rightarrow> string \<Rightarrow> nat \<Rightarrow> retained_proposal \<Rightarrow> planner_item \<Rightarrow> classification \<Rightarrow> planning_record" where
  "draft_record h poc version x i c = (let r = \<lparr>pn_planning_item_id = [], pn_poc_id = poc, pn_proposal_id = rp_proposal_id x,
       pn_source_receipt_id = rp_source_receipt_id x, pn_source_kind = rp_source_kind x,
       pn_authoring_receipt_id = rp_authoring_receipt_id x, pn_authoring_result_id = rp_authoring_result_id x,
       pn_source_id = rp_source_id x, pn_source_content_sha256 = rp_source_content_sha256 x, pn_source_revision = rp_source_revision x,
       pn_source_quote = rp_source_quote x, pn_normalized_claim = rp_normalized_claim x, pn_scope = it_scope i,
       pn_capability_key = it_capability_key i, pn_disposition = cl_disposition c, pn_criterion = cl_criterion c,
       pn_reason = cl_reason c, pn_next_action = cl_next_action c, pn_reviewer = it_reviewer i, pn_rationale = it_rationale i,
       pn_explicit_exclusion = it_explicit_exclusion i\<rparr> in
     r\<lparr>pn_planning_item_id := planning_item_id h poc (rp_proposal_id x) version (record_payload poc r)\<rparr>)"

fun build_records :: "hasher \<Rightarrow> string \<Rightarrow> nat \<Rightarrow> retained_proposal list \<Rightarrow> planner_item list \<Rightarrow> planning_error + planning_record list" where
  "build_records h poc version xs [] = Inr []"
| "build_records h poc version xs (i # is) = (case find (\<lambda>x. rp_proposal_id x = it_proposal_id i) xs of None \<Rightarrow> Inl PlanningProposalUnavailable
     | Some x \<Rightarrow> (case planner_classify x i of Inl e \<Rightarrow> Inl e
       | Inr c \<Rightarrow> (case make_planning_record (draft_record h poc version x i c) of None \<Rightarrow> Inl PlanningValidationError
         | Some r \<Rightarrow> (case build_records h poc version xs is of Inl e \<Rightarrow> Inl e | Inr rs \<Rightarrow> Inr (r # rs)))))"

subsection \<open>The service\<close>

record plan_key_record =
  pk_request_sha256 :: string
  pk_plan_id :: string

record planner_service =
  pl_max_plans :: nat
  pl_max_proposals_per_poc :: nat
  pl_plans :: "(string \<times> capability_plan) list"
  pl_idempotency :: "((string \<times> string) \<times> plan_key_record) list"
  pl_fingerprints :: "((string \<times> string) \<times> string) list"
  pl_plan_fingerprints :: "(string \<times> (string \<times> string) list) list"
  pl_proposal_owners :: "(string \<times> string) list"

type_synonym 'a planner_act = "(planner_service, planning_error, 'a) action"

definition planner_service_new :: "nat \<Rightarrow> nat \<Rightarrow> planning_error + planner_service" where
  "planner_service_new plans per_poc = (if \<not> (1 \<le> plans \<and> plans \<le> 100000) then Inl PlanningValueError
     else if \<not> (1 \<le> per_poc \<and> per_poc \<le> 1024) then Inl PlanningValueError
     else Inr \<lparr>pl_max_plans = plans, pl_max_proposals_per_poc = per_poc, pl_plans = [], pl_idempotency = [], pl_fingerprints = [],
       pl_plan_fingerprints = [], pl_proposal_owners = []\<rparr>)"

text \<open>What the injected lookup yields; a None in the list is an element of another type.\<close>

datatype retained_answer = RetainedRaise planning_error | RetainedFail | RetainedOther | Retained "retained_proposal option list"

definition planner_lookup :: "planner_service \<Rightarrow> string \<Rightarrow> retained_answer \<Rightarrow> planning_error + retained_proposal list" where
  "planner_lookup s poc answer = (case answer of
     RetainedRaise e \<Rightarrow> Inl e
   | Retained raw \<Rightarrow>
       if pl_max_proposals_per_poc s < length raw \<or> list_ex (\<lambda>x. case x of None \<Rightarrow> True | Some p \<Rightarrow> rp_poc_id p \<noteq> poc) raw \<or>
         \<not> distinct (map (rp_proposal_id \<circ> the) raw)
       then Inl PlanningLookupUnavailable else Inr (map the raw)
   | _ \<Rightarrow> Inl PlanningLookupUnavailable)"

fun planner_scan :: "hasher \<Rightarrow> string \<Rightarrow> known_proposals \<Rightarrow> retained_proposal list \<Rightarrow> planning_error + known_proposals" where
  "planner_scan h poc known [] = Inr known"
| "planner_scan h poc (fps, owners, n) (x # xs) = (let owner = map_of owners (rp_proposal_id x); key = (poc, rp_proposal_id x);
       owners' = (if owner = None then AList.update (rp_proposal_id x) poc owners else owners); n' = (if owner = None then n + 1 else n) in
     if owner \<noteq> None \<and> owner \<noteq> Some poc then Inl PlanningCrossPOC
     else (case map_of fps key of
       Some fp \<Rightarrow> if fp \<noteq> retained_fingerprint h x then Inl PlanningStaleProposal else planner_scan h poc (fps, owners', n') xs
     | None \<Rightarrow> planner_scan h poc (AList.update key (retained_fingerprint h x) fps, owners', n') xs))"

definition planner_reconcile :: "hasher \<Rightarrow> string \<Rightarrow> retained_proposal list \<Rightarrow> unit planner_act" where
  "planner_reconcile h poc xs = (\<lambda>s. case planner_scan h poc (pl_fingerprints s, pl_proposal_owners s, 0) xs of
     Inl e \<Rightarrow> (s, Inl e)
   | Inr (fps, owners, n) \<Rightarrow>
       if pl_max_plans s * pl_max_proposals_per_poc s < length (pl_proposal_owners s) + n then (s, Inl PlanningCapacityExceeded)
       else (s\<lparr>pl_fingerprints := fps, pl_proposal_owners := owners\<rparr>, Inr ()))"

definition current_retained :: "hasher \<Rightarrow> string \<Rightarrow> retained_answer \<Rightarrow> retained_proposal list planner_act" where
  "current_retained h poc answer = (\<lambda>s. if \<not> poc_id_ok poc then (s, Inl PlanningInvalid)
     else case planner_lookup s poc answer of Inl e \<Rightarrow> (s, Inl e)
       | Inr xs \<Rightarrow> seq (planner_reconcile h poc xs) (\<lambda>_. ret xs) s)"

definition plans_of :: "planner_service \<Rightarrow> string \<Rightarrow> capability_plan list" where
  "plans_of s poc = filter (\<lambda>p. cp_poc_id p = poc) (map snd (pl_plans s))"

text \<open>\<open>max\<close> by version: the first of the greatest.\<close>

definition latest_plan :: "planner_service \<Rightarrow> string \<Rightarrow> capability_plan option" where
  "latest_plan s poc = (case plans_of s poc of [] \<Rightarrow> None
     | p # ps \<Rightarrow> Some (fold (\<lambda>q best. if cp_plan_version best < cp_plan_version q then q else best) ps p))"

definition plans_in_order :: "planner_service \<Rightarrow> string \<Rightarrow> capability_plan list" where
  "plans_in_order s poc = sort_key cp_plan_version (plans_of s poc)"

definition sorted_fingerprints :: "hasher \<Rightarrow> retained_proposal list \<Rightarrow> (string \<times> string) list" where
  "sorted_fingerprints h xs = sort_key fst (map (\<lambda>x. (rp_proposal_id x, retained_fingerprint h x)) xs)"

definition current_plan_status :: "hasher \<Rightarrow> string \<Rightarrow> retained_answer \<Rightarrow> (capability_plan option \<times> bool) planner_act" where
  "current_plan_status h poc answer = (\<lambda>s. if \<not> poc_id_ok poc then (s, Inl PlanningInvalid)
     else case planner_lookup s poc answer of Inl e \<Rightarrow> (s, Inl e)
       | Inr xs \<Rightarrow> (case planner_reconcile h poc xs s of
           (t, Inl PlanningStaleProposal) \<Rightarrow> (t, Inr (None, True))
         | (t, Inl e) \<Rightarrow> (t, Inl e)
         | (t, Inr u) \<Rightarrow> (case latest_plan t poc of None \<Rightarrow> (t, Inr (None, False))
           | Some p \<Rightarrow> (let planned = (case map_of (pl_plan_fingerprints t) (cp_plan_id p) of None \<Rightarrow> [] | Some l \<Rightarrow> l) in
               if sorted_fingerprints h xs = planned then (t, Inr (Some p, False)) else (t, Inr (None, True))))))"

definition require_current_plan :: "hasher \<Rightarrow> string \<Rightarrow> retained_answer \<Rightarrow> capability_plan planner_act" where
  "require_current_plan h poc answer = seq (current_plan_status h poc answer) (\<lambda>(current, needs_replan).
     case current of Some p \<Rightarrow> ret p
     | None \<Rightarrow> raise (if needs_replan then PlanningStaleProposal else PlanningProposalUnavailable))"

record plan_result =
  rl_plan :: capability_plan
  rl_idempotent_replay :: bool

text \<open>The locked part after the reconciliation.\<close>

definition plan_locked :: "hasher \<Rightarrow> string \<Rightarrow> planner_item list \<Rightarrow> string \<Rightarrow> py_datetime \<Rightarrow> retained_proposal list \<Rightarrow> plan_result planner_act" where
  "plan_locked h poc items key now xs = (\<lambda>s.
     let expected = set (map rp_proposal_id xs); actual = set (map it_proposal_id items); kd = (poc, planner_key_digest h key);
         digest = planner_request_sha256 h poc items in
     if actual \<noteq> expected then
       (s, Inl (if list_ex (\<lambda>i. it_proposal_id i \<notin> expected \<and> map_of (pl_proposal_owners s) (it_proposal_id i) \<noteq> None \<and>
           map_of (pl_proposal_owners s) (it_proposal_id i) \<noteq> Some poc) items then PlanningCrossPOC else PlanningProposalUnavailable))
     else (case map_of (pl_idempotency s) kd of
       Some prior \<Rightarrow> (case map_of (pl_plans s) (pk_plan_id prior) of
           None \<Rightarrow> (s, Inl PlanningIdempotencyConflict)
         | Some p \<Rightarrow> if pk_request_sha256 prior \<noteq> digest then (s, Inl PlanningIdempotencyConflict)
             else (s, Inr \<lparr>rl_plan = p, rl_idempotent_replay = True\<rparr>))
     | None \<Rightarrow> (let version = 1 + Max (insert 0 (set (map cp_plan_version (plans_of s poc)))) in
         if 10000 < version \<or> pl_max_plans s \<le> length (pl_plans s) then (s, Inl PlanningCapacityExceeded)
         else (case build_records h poc version xs items of Inl e \<Rightarrow> (s, Inl e)
           | Inr rs \<Rightarrow> (let p = \<lparr>cp_plan_id = capability_plan_id h poc version rs, cp_poc_id = poc, cp_plan_version = version,
                 cp_created_at = now, cp_records = rs, cp_ready_for_agreement = list_all record_ready rs\<rparr> in
               if \<not> capability_plan_ok h p then (s, Inl PlanningValidationError)
               else (s\<lparr>pl_plans := AList.update (cp_plan_id p) p (pl_plans s),
                 pl_plan_fingerprints := AList.update (cp_plan_id p) (sorted_fingerprints h xs) (pl_plan_fingerprints s),
                 pl_idempotency := AList.update kd \<lparr>pk_request_sha256 = digest, pk_plan_id = cp_plan_id p\<rparr> (pl_idempotency s)\<rparr>,
                 Inr \<lparr>rl_plan = p, rl_idempotent_replay = False\<rparr>))))))"

definition plan_with_status :: "hasher \<Rightarrow> string \<Rightarrow> planner_item list \<Rightarrow> string \<Rightarrow> clock_value \<Rightarrow> retained_answer \<Rightarrow> plan_result planner_act" where
  "plan_with_status h poc items key clock answer = (\<lambda>s. if \<not> poc_id_ok poc then (s, Inl PlanningInvalid)
     else if items = [] \<or> pl_max_proposals_per_poc s < length items then (s, Inl PlanningInvalid)
     else if \<not> distinct (map it_proposal_id items) then (s, Inl PlanningInvalid)
     else if py_strip key = [] \<or> 200 < length key then (s, Inl PlanningInvalid)
     else (case clock of ClockRaises \<Rightarrow> (s, Inl PlanningCallbackError)
       | ClockOther \<Rightarrow> (s, Inl PlanningLookupUnavailable)
       | ClockAt now \<Rightarrow>
           if \<not> dt_aware now then (s, Inl PlanningLookupUnavailable)
           else (case planner_lookup s poc answer of Inl e \<Rightarrow> (s, Inl e)
             | Inr xs \<Rightarrow> seq (planner_reconcile h poc xs) (\<lambda>_. plan_locked h poc items key now xs) s)))"

end
