(* ===== verification/Capability_Planner_Laws.thy ===== *)
theory Capability_Planner_Laws
  imports Capability_Planner Draft_Pocs_Laws Contracts_Laws
begin

section \<open>Laws of the capability planner\<close>

text \<open>
  A planner is reached from an empty one by its operations, whatever the lookup of retained proposals
  answers. The invariant: every plan is filed under its identity, valid, of records that passed their
  validator, and remembers fingerprints of the proposals its records are bound to; the versions of a
  POC are distinct.
\<close>

subsection \<open>Records\<close>

text \<open>A record carries the source binding of a retained proposal, its texts normalised.\<close>

definition bound_to :: "planning_record \<Rightarrow> retained_proposal \<Rightarrow> bool" where
  "bound_to r x \<longleftrightarrow> pn_poc_id r = rp_poc_id x \<and> pn_proposal_id r = rp_proposal_id x \<and> pn_source_receipt_id r = rp_source_receipt_id x \<and>
     pn_source_kind r = rp_source_kind x \<and> pn_authoring_receipt_id r = rp_authoring_receipt_id x \<and>
     pn_authoring_result_id r = rp_authoring_result_id x \<and> pn_source_id r = rp_source_id x \<and>
     pn_source_content_sha256 r = rp_source_content_sha256 x \<and> pn_source_revision r = rp_source_revision x \<and>
     safe_text 4000 False (rp_source_quote x) = Some (pn_source_quote r) \<and>
     safe_text 2000 False (rp_normalized_claim x) = Some (pn_normalized_claim r)"

lemma make_planning_record_bound:
  assumes "make_planning_record (draft_record h poc version x i c) = Some r" and "rp_poc_id x = poc"
  shows "bound_to r x \<and> record_disposition_ok r \<and> pn_scope r = it_scope i \<and> pn_disposition r = cl_disposition c \<and>
    pn_criterion r = cl_criterion c \<and> pn_explicit_exclusion r = it_explicit_exclusion i"
  using assms
  by (auto simp: make_planning_record_def draft_record_def Let_def bound_to_def split: option.split_asm if_split_asm)

text \<open>
  One record per item, in the order of the items, each classified from the proposal of its
  identifier and bound to it.
\<close>

lemma build_records_facts:
  assumes "build_records h poc version xs items = Inr rs" and "\<forall>x \<in> set xs. rp_poc_id x = poc"
  shows "map pn_proposal_id rs = map it_proposal_id items \<and> list_all record_disposition_ok rs \<and>
    (\<forall>r \<in> set rs. \<exists>x \<in> set xs. bound_to r x)"
  using assms
proof (induction items arbitrary: rs)
  case Nil
  then show ?case by simp
next
  case (Cons i items)
  obtain x where x: "find (\<lambda>x. rp_proposal_id x = it_proposal_id i) xs = Some x"
    using Cons.prems(1) by (auto split: option.split_asm)
  obtain c where c: "planner_classify x i = Inr c" using Cons.prems(1) x by (cases "planner_classify x i") auto
  obtain r where r: "make_planning_record (draft_record h poc version x i c) = Some r"
    using Cons.prems(1) x c by (auto split: option.split_asm)
  obtain rs' where rs': "build_records h poc version xs items = Inr rs'" "rs = r # rs'"
    using Cons.prems(1) x c r by (cases "build_records h poc version xs items") auto
  have "x \<in> set xs" "rp_proposal_id x = it_proposal_id i" using x by (auto simp: find_Some_iff)
  moreover from this have "bound_to r x \<and> record_disposition_ok r"
    using make_planning_record_bound [OF r] Cons.prems(2) by blast
  ultimately show ?case using Cons.IH [OF rs'(1) Cons.prems(2)] rs'(2) by (auto simp: bound_to_def)
qed

subsection \<open>The invariant\<close>

definition plan_covers :: "capability_plan \<Rightarrow> retained_proposal list \<Rightarrow> bool" where
  "plan_covers p xs \<longleftrightarrow> set (map pn_proposal_id (cp_records p)) = set (map rp_proposal_id xs) \<and>
     (\<forall>r \<in> set (cp_records p). \<exists>x \<in> set xs. bound_to r x)"

text \<open>A plan is filed under its own identity, valid, and remembers the proposals it was made of.\<close>

definition plan_stored :: "hasher \<Rightarrow> planner_service \<Rightarrow> string \<Rightarrow> capability_plan \<Rightarrow> bool" where
  "plan_stored h s k p \<longleftrightarrow> cp_plan_id p = k \<and> capability_plan_ok h p \<and> list_all record_disposition_ok (cp_records p) \<and>
     (\<exists>xs. map_of (pl_plan_fingerprints s) k = Some (sorted_fingerprints h xs) \<and> plan_covers p xs)"

definition planner_inv :: "hasher \<Rightarrow> planner_service \<Rightarrow> bool" where
  "planner_inv h s \<longleftrightarrow> distinct (map fst (pl_plans s)) \<and> length (pl_plans s) \<le> pl_max_plans s \<and>
     (\<forall>k p. map_of (pl_plans s) k = Some p \<longrightarrow> plan_stored h s k p) \<and>
     (\<forall>k k' p q. map_of (pl_plans s) k = Some p \<longrightarrow> map_of (pl_plans s) k' = Some q \<longrightarrow>
        cp_poc_id p = cp_poc_id q \<longrightarrow> cp_plan_version p = cp_plan_version q \<longrightarrow> k = k')"

text \<open>Reconciliation only adds to what is known of the proposals.\<close>

definition same_plans :: "planner_service \<Rightarrow> planner_service \<Rightarrow> bool" where
  "same_plans s t \<longleftrightarrow> pl_plans t = pl_plans s \<and> pl_plan_fingerprints t = pl_plan_fingerprints s \<and>
     pl_idempotency t = pl_idempotency s \<and> pl_max_plans t = pl_max_plans s \<and> pl_max_proposals_per_poc t = pl_max_proposals_per_poc s"

lemma same_plans_refl [simp]: "same_plans s s" by (simp add: same_plans_def)

lemma planner_inv_same: "same_plans s t \<Longrightarrow> planner_inv h t = planner_inv h s"
  by (simp add: same_plans_def planner_inv_def plan_stored_def)

lemma plans_of_same: "same_plans s t \<Longrightarrow> plans_of t poc = plans_of s poc"
  by (simp add: same_plans_def plans_of_def)

lemma reconcile_same: "planner_reconcile h poc xs s = (t, r) \<Longrightarrow> same_plans s t"
  by (auto simp: planner_reconcile_def same_plans_def split: sum.split_asm prod.split_asm if_split_asm)

lemma planner_lookup_facts:
  assumes "planner_lookup s poc answer = Inr xs"
  shows "(\<forall>x \<in> set xs. rp_poc_id x = poc) \<and> distinct (map rp_proposal_id xs)"
  using assms by (auto simp: planner_lookup_def list_ex_iff split: retained_answer.split_asm if_split_asm option.split_asm)

lemma plans_of_mem:
  assumes "planner_inv h s"
  shows "p \<in> set (plans_of s poc) \<longleftrightarrow> (\<exists>k. map_of (pl_plans s) k = Some p) \<and> cp_poc_id p = poc"
proof -
  have d: "distinct (map fst (pl_plans s))" using assms by (simp add: planner_inv_def)
  have "p \<in> snd ` set (pl_plans s) \<longleftrightarrow> (\<exists>k. map_of (pl_plans s) k = Some p)"
    using map_of_eq_Some_iff [OF d] by force
  then show ?thesis by (auto simp: plans_of_def)
qed

subsection \<open>Planning\<close>

lemma plan_cases:
  fixes h :: hasher and poc key :: string and items :: "planner_item list" and clock :: clock_value
    and answer :: retained_answer and s :: planner_service
  obtains (refused) e t where "plan_with_status h poc items key clock answer s = (t, Inl e)" "same_plans s t"
    | (replayed) p prior t where "plan_with_status h poc items key clock answer s = (t, Inr \<lparr>rl_plan = p, rl_idempotent_replay = True\<rparr>)"
        "same_plans s t" "map_of (pl_idempotency s) (poc, planner_key_digest h key) = Some prior"
        "map_of (pl_plans s) (pk_plan_id prior) = Some p" "pk_request_sha256 prior = planner_request_sha256 h poc items"
    | (planned) xs now rs p t where "planner_lookup s poc answer = Inr xs" "set (map it_proposal_id items) = set (map rp_proposal_id xs)"
        "distinct (map it_proposal_id items)" "same_plans s t"
        "map_of (pl_idempotency s) (poc, planner_key_digest h key) = None" "length (pl_plans s) < pl_max_plans s"
        "p = \<lparr>cp_plan_id = capability_plan_id h poc (cp_plan_version p) rs, cp_poc_id = poc,
           cp_plan_version = 1 + Max (insert 0 (set (map cp_plan_version (plans_of s poc)))), cp_created_at = now,
           cp_records = rs, cp_ready_for_agreement = list_all record_ready rs\<rparr>"
        "build_records h poc (cp_plan_version p) xs items = Inr rs" "capability_plan_ok h p"
        "plan_with_status h poc items key clock answer s = (t\<lparr>pl_plans := AList.update (cp_plan_id p) p (pl_plans t),
           pl_plan_fingerprints := AList.update (cp_plan_id p) (sorted_fingerprints h xs) (pl_plan_fingerprints t),
           pl_idempotency := AList.update (poc, planner_key_digest h key)
             \<lparr>pk_request_sha256 = planner_request_sha256 h poc items, pk_plan_id = cp_plan_id p\<rparr> (pl_idempotency t)\<rparr>,
           Inr \<lparr>rl_plan = p, rl_idempotent_replay = False\<rparr>)"
        "planner_reconcile h poc xs s = (t, Inr ())"
proof (cases "\<exists>now xs. poc_id_ok poc \<and> items \<noteq> [] \<and> length items \<le> pl_max_proposals_per_poc s \<and> distinct (map it_proposal_id items) \<and>
    py_strip key \<noteq> [] \<and> length key \<le> 200 \<and> clock = ClockAt now \<and> dt_aware now \<and> planner_lookup s poc answer = Inr xs")
  case False
  then show ?thesis
    by (intro refused [of s "case snd (plan_with_status h poc items key clock answer s) of Inl e \<Rightarrow> e"])
       (auto simp: plan_with_status_def split: clock_value.splits sum.splits)
next
  case True
  then obtain now xs where start: "poc_id_ok poc" "items \<noteq> []" "length items \<le> pl_max_proposals_per_poc s"
    "distinct (map it_proposal_id items)" "py_strip key \<noteq> []" "length key \<le> 200" "clock = ClockAt now" "dt_aware now"
    "planner_lookup s poc answer = Inr xs" by blast
  have run: "plan_with_status h poc items key clock answer s =
      seq (planner_reconcile h poc xs) (\<lambda>u. plan_locked h poc items key now xs) s"
    using start by (simp add: plan_with_status_def)
  obtain t r where rec: "planner_reconcile h poc xs s = (t, r)" by (cases "planner_reconcile h poc xs s")
  have same: "same_plans s t" using rec by (rule reconcile_same)
  show ?thesis
  proof (cases r)
    case (Inl e)
    then show ?thesis using run rec same refused by (simp add: seq_apply)
  next
    case (Inr u)
    have reconciled: "planner_reconcile h poc xs s = (t, Inr ())" using rec Inr by simp
    have here: "plan_with_status h poc items key clock answer s = plan_locked h poc items key now xs t"
      using run rec Inr by (simp add: seq_apply)
    have eqs: "pl_plans t = pl_plans s" "pl_idempotency t = pl_idempotency s" "pl_max_plans t = pl_max_plans s"
        "plans_of t poc = plans_of s poc"
      using same plans_of_same [OF same] by (simp_all add: same_plans_def)
    show ?thesis
    proof (cases "set (map it_proposal_id items) = set (map rp_proposal_id xs)")
      case False
      then show ?thesis using here same refused by (auto simp: plan_locked_def Let_def)
    next
      case exact: True
      show ?thesis
      proof (cases "map_of (pl_idempotency s) (poc, planner_key_digest h key)")
        case (Some prior)
        show ?thesis
        proof (cases "\<exists>p. map_of (pl_plans s) (pk_plan_id prior) = Some p \<and> pk_request_sha256 prior = planner_request_sha256 h poc items")
          case True
          then obtain p where "map_of (pl_plans s) (pk_plan_id prior) = Some p" "pk_request_sha256 prior = planner_request_sha256 h poc items"
            by blast
          then show ?thesis using here same exact Some eqs by (intro replayed [of t p prior]) (simp_all add: plan_locked_def Let_def)
        next
          case False
          then have "plan_locked h poc items key now xs t = (t, Inl PlanningIdempotencyConflict)"
            using exact Some eqs by (auto simp: plan_locked_def Let_def split: option.splits)
          then show ?thesis using here same refused by simp
        qed
      next
        case None
        define version where "version = 1 + Max (insert 0 (set (map cp_plan_version (plans_of s poc))))"
        show ?thesis
        proof (cases "10000 < version \<or> pl_max_plans s \<le> length (pl_plans s)")
          case True
          then have "plan_locked h poc items key now xs t = (t, Inl PlanningCapacityExceeded)"
            using exact None eqs by (auto simp: plan_locked_def Let_def version_def)
          then show ?thesis using here same refused by simp
        next
          case room: False
          show ?thesis
          proof (cases "build_records h poc version xs items")
            case (Inl e)
            then have "plan_locked h poc items key now xs t = (t, Inl e)"
              using exact None eqs room by (simp add: plan_locked_def Let_def version_def)
            then show ?thesis using here same refused by simp
          next
            case (Inr rs)
            define p where "p = \<lparr>cp_plan_id = capability_plan_id h poc version rs, cp_poc_id = poc, cp_plan_version = version,
                 cp_created_at = now, cp_records = rs, cp_ready_for_agreement = list_all record_ready rs\<rparr>"
            show ?thesis
            proof (cases "capability_plan_ok h p")
              case False
              then have "plan_locked h poc items key now xs t = (t, Inl PlanningValidationError)"
                using exact None eqs room Inr by (simp add: plan_locked_def Let_def version_def p_def)
              then show ?thesis using here same refused by simp
            next
              case True
              have pv: "cp_plan_version p = version" by (simp add: p_def)
              have "plan_locked h poc items key now xs t = (t\<lparr>pl_plans := AList.update (cp_plan_id p) p (pl_plans t),
                  pl_plan_fingerprints := AList.update (cp_plan_id p) (sorted_fingerprints h xs) (pl_plan_fingerprints t),
                  pl_idempotency := AList.update (poc, planner_key_digest h key)
                    \<lparr>pk_request_sha256 = planner_request_sha256 h poc items, pk_plan_id = cp_plan_id p\<rparr> (pl_idempotency t)\<rparr>,
                  Inr \<lparr>rl_plan = p, rl_idempotent_replay = False\<rparr>)"
                using exact None eqs room Inr True by (simp add: plan_locked_def Let_def version_def p_def)
              moreover have "p = \<lparr>cp_plan_id = capability_plan_id h poc (cp_plan_version p) rs, cp_poc_id = poc,
                  cp_plan_version = 1 + Max (insert 0 (set (map cp_plan_version (plans_of s poc)))), cp_created_at = now,
                  cp_records = rs, cp_ready_for_agreement = list_all record_ready rs\<rparr>"
                unfolding pv unfolding version_def [symmetric] by (simp add: p_def)
              moreover have "build_records h poc (cp_plan_version p) xs items = Inr rs" using Inr pv by simp
              ultimately show ?thesis using start(9) exact start(4) same None room True here reconciled
                by (intro planned [of xs t p rs now]) simp_all
            qed
          qed
        qed
      qed
    qed
  qed
qed

subsection \<open>Histories\<close>

inductive planner_step :: "hasher \<Rightarrow> planner_service \<Rightarrow> planner_service \<Rightarrow> bool" for h where
  step_plan: "plan_with_status h poc items key clock answer s = (t, r) \<Longrightarrow> planner_step h s t"
| step_retained: "current_retained h poc answer s = (t, r') \<Longrightarrow> planner_step h s t"
| step_status: "current_plan_status h poc answer s = (t, q) \<Longrightarrow> planner_step h s t"
| step_current: "require_current_plan h poc answer s = (t, q') \<Longrightarrow> planner_step h s t"

inductive planner_reachable :: "hasher \<Rightarrow> planner_service \<Rightarrow> bool" for h where
  planner_start: "planner_service_new plans per_poc = Inr s \<Longrightarrow> planner_reachable h s"
| planner_next: "planner_reachable h s \<Longrightarrow> planner_step h s t \<Longrightarrow> planner_reachable h t"

lemma retained_same: "current_retained h poc answer s = (t, r) \<Longrightarrow> same_plans s t"
  by (auto simp: current_retained_def seq_apply dest: reconcile_same split: sum.split_asm prod.split_asm if_split_asm)

lemma status_same: "current_plan_status h poc answer s = (t, r) \<Longrightarrow> same_plans s t"
  by (auto simp: current_plan_status_def Let_def dest: reconcile_same
    split: sum.split_asm prod.split_asm if_split_asm option.split_asm planning_error.split_asm)

lemma current_same: "require_current_plan h poc answer s = (t, r) \<Longrightarrow> same_plans s t"
  by (auto simp: require_current_plan_def seq_apply dest: status_same split: sum.split_asm prod.split_asm if_split_asm option.split_asm)

lemma version_above:
  assumes "p \<in> set (plans_of s poc)"
  shows "cp_plan_version p < 1 + Max (insert 0 (set (map cp_plan_version (plans_of s poc))))"
proof -
  have "cp_plan_version p \<le> Max (insert 0 (set (map cp_plan_version (plans_of s poc))))"
    using assms by (intro Max_ge) auto
  then show ?thesis by simp
qed

lemma planned_covers:
  assumes "planner_lookup s poc answer = Inr xs" and "set (map it_proposal_id items) = set (map rp_proposal_id xs)"
    and "build_records h poc v xs items = Inr (cp_records p)"
  shows "plan_covers p xs \<and> list_all record_disposition_ok (cp_records p) \<and> map pn_proposal_id (cp_records p) = map it_proposal_id items"
  using build_records_facts [OF assms(3)] planner_lookup_facts [OF assms(1)] assms(2) by (auto simp: plan_covers_def)

lemma planner_inv_planned:
  assumes inv: "planner_inv h t" and room: "length (pl_plans t) < pl_max_plans t"
    and ok: "capability_plan_ok h p" "list_all record_disposition_ok (cp_records p)" "plan_covers p xs"
    and new: "\<And>q. q \<in> set (plans_of t (cp_poc_id p)) \<Longrightarrow> cp_plan_version q < cp_plan_version p"
  shows "planner_inv h (t\<lparr>pl_plans := AList.update (cp_plan_id p) p (pl_plans t),
    pl_plan_fingerprints := AList.update (cp_plan_id p) (sorted_fingerprints h xs) (pl_plan_fingerprints t),
    pl_idempotency := keys\<rparr>)" (is "planner_inv h ?t")
proof -
  define u where "u = ?t"
  have u: "pl_plans u = AList.update (cp_plan_id p) p (pl_plans t)" "pl_max_plans u = pl_max_plans t"
      "pl_plan_fingerprints u = AList.update (cp_plan_id p) (sorted_fingerprints h xs) (pl_plan_fingerprints t)"
    by (simp_all add: u_def)
  have here: "plan_stored h u k q" if "map_of (pl_plans u) k = Some q" for k q
  proof (cases "k = cp_plan_id p")
    case True
    then show ?thesis using that ok u by (auto simp: plan_stored_def)
  next
    case False
    then have "plan_stored h t k q" using that inv u by (simp add: planner_inv_def)
    then show ?thesis using False u by (simp add: plan_stored_def)
  qed
  have older: "cp_plan_version q \<noteq> cp_plan_version p" if "map_of (pl_plans t) k = Some q" "cp_poc_id q = cp_poc_id p" for k q
    using new [of q] that plans_of_mem [OF inv, of q] by fastforce
  have apart: "k = k'" if "map_of (pl_plans u) k = Some q" "map_of (pl_plans u) k' = Some q'" "cp_poc_id q = cp_poc_id q'"
      "cp_plan_version q = cp_plan_version q'" for k k' q q'
  proof (cases "k = cp_plan_id p \<or> k' = cp_plan_id p")
    case True
    then show ?thesis using that u older [of k q] older [of k' q'] by (auto split: if_split_asm)
  next
    case False
    then have "map_of (pl_plans t) k = Some q" "map_of (pl_plans t) k' = Some q'" using that u by auto
    then show ?thesis using inv that(3,4) unfolding planner_inv_def by blast
  qed
  have "length (pl_plans u) \<le> pl_max_plans u" using room u by (simp add: length_update)
  moreover have "distinct (map fst (pl_plans u))"
    using inv u by (simp add: planner_inv_def distinct_update)
  ultimately have "planner_inv h u" using here apart unfolding planner_inv_def by blast
  then show ?thesis by (simp only: u_def)
qed

lemma plan_inv:
  assumes inv: "planner_inv h s" and run: "plan_with_status h poc items key clock answer s = (t, r)"
  shows "planner_inv h t"
proof (cases rule: plan_cases [of h poc items key clock answer s])
  case (refused e t')
  then show ?thesis using run inv planner_inv_same by simp
next
  case (replayed p prior t')
  then show ?thesis using run inv planner_inv_same by simp
next
  case (planned xs now rs p t')
  have same: "planner_inv h t'" using inv planner_inv_same [OF planned(4)] by simp
  have p: "cp_poc_id p = poc" "cp_records p = rs" "cp_plan_version p = 1 + Max (insert 0 (set (map cp_plan_version (plans_of s poc))))"
    by (subst planned(7), simp)+
  have cov: "plan_covers p xs \<and> list_all record_disposition_ok (cp_records p)"
    using planned_covers [OF planned(1,2), of h "cp_plan_version p" p] planned(8) p(2) by simp
  have "length (pl_plans t') < pl_max_plans t'" using planned(4,6) by (simp add: same_plans_def)
  moreover have "cp_plan_version q < cp_plan_version p" if "q \<in> set (plans_of t' (cp_poc_id p))" for q
    using version_above [of q s poc] that p plans_of_same [OF planned(4)] by simp
  ultimately have "planner_inv h (t'\<lparr>pl_plans := AList.update (cp_plan_id p) p (pl_plans t'),
      pl_plan_fingerprints := AList.update (cp_plan_id p) (sorted_fingerprints h xs) (pl_plan_fingerprints t'),
      pl_idempotency := AList.update (poc, planner_key_digest h key)
        \<lparr>pk_request_sha256 = planner_request_sha256 h poc items, pk_plan_id = cp_plan_id p\<rparr> (pl_idempotency t')\<rparr>)"
    using planned(9) cov by (intro planner_inv_planned [OF same]) auto
  then show ?thesis using planned(10) run by simp
qed

lemma planner_inv_step: "planner_step h s t \<Longrightarrow> planner_inv h s \<Longrightarrow> planner_inv h t"
  by (induction rule: planner_step.induct)
     (auto intro: plan_inv simp: planner_inv_same dest: retained_same status_same current_same)

lemma planner_inv_new: "planner_service_new plans per_poc = Inr s \<Longrightarrow> planner_inv h s"
  by (auto simp: planner_service_new_def planner_inv_def split: if_split_asm)

lemma planner_reachable_inv: "planner_reachable h s \<Longrightarrow> planner_inv h s"
  by (induction rule: planner_reachable.induct)
     (auto intro: planner_inv_step simp: planner_inv_new)

subsection \<open>The latest plan\<close>

lemma fold_latest:
  "fold (\<lambda>q best. if cp_plan_version best < cp_plan_version q then q else best) ps p \<in> set (p # ps) \<and>
   (\<forall>q \<in> set (p # ps). cp_plan_version q \<le> cp_plan_version (fold (\<lambda>q best. if cp_plan_version best < cp_plan_version q then q else best) ps p))"
proof (induction ps arbitrary: p)
  case Nil
  then show ?case by simp
next
  case (Cons q ps)
  show ?case using Cons.IH [of p] Cons.IH [of q] by (auto intro: order_trans [rotated] dest: less_imp_le)
qed

lemma latest_plan_Some:
  assumes "latest_plan s poc = Some p"
  shows "p \<in> set (plans_of s poc) \<and> (\<forall>q \<in> set (plans_of s poc). cp_plan_version q \<le> cp_plan_version p)"
  using assms fold_latest by (auto simp: latest_plan_def split: list.split_asm)

lemma latest_plan_None: "latest_plan s poc = None \<longleftrightarrow> plans_of s poc = []"
  by (auto simp: latest_plan_def split: list.splits)

lemma stored_plan:
  assumes "planner_inv h s" and "p \<in> set (plans_of s poc)"
  shows "plan_stored h s (cp_plan_id p) p \<and> map_of (pl_plans s) (cp_plan_id p) = Some p \<and> cp_poc_id p = poc"
proof -
  obtain k where k: "map_of (pl_plans s) k = Some p" "cp_poc_id p = poc" using assms plans_of_mem by blast
  then have "plan_stored h s k p" using assms(1) by (simp add: planner_inv_def)
  then show ?thesis using k by (auto simp: plan_stored_def)
qed

lemma status_Some:
  assumes "planner_inv h s" and "current_plan_status h poc answer s = (t, Inr (Some p, b))"
  shows "\<exists>xs. planner_lookup s poc answer = Inr xs \<and> same_plans s t \<and> latest_plan s poc = Some p \<and>
    map_of (pl_plan_fingerprints s) (cp_plan_id p) = Some (sorted_fingerprints h xs)"
proof -
  obtain xs where xs: "planner_lookup s poc answer = Inr xs"
    using assms by (cases "planner_lookup s poc answer") (auto simp: current_plan_status_def split: if_split_asm)
  obtain t' r where rec: "planner_reconcile h poc xs s = (t', r)" by (cases "planner_reconcile h poc xs s")
  have same: "same_plans s t'" using rec by (rule reconcile_same)
  have "latest_plan t' poc = latest_plan s poc" "pl_plan_fingerprints t' = pl_plan_fingerprints s"
    using plans_of_same [OF same] same by (simp_all add: latest_plan_def same_plans_def)
  moreover from this have "latest_plan s poc = Some p" using assms(2) xs rec
    by (auto simp: current_plan_status_def Let_def
      split: sum.split_asm if_split_asm option.split_asm planning_error.split_asm)
  moreover from this obtain l where "map_of (pl_plan_fingerprints s) (cp_plan_id p) = Some l"
    using stored_plan [OF assms(1)] latest_plan_Some unfolding plan_stored_def by blast
  ultimately show ?thesis using assms(2) xs rec same
    by (auto simp: current_plan_status_def Let_def
      split: sum.split_asm if_split_asm option.split_asm planning_error.split_asm)
qed

lemma clean_text:
  assumes "raw_candidates t [] = []" and "existing_placeholders t = []"
  shows "already_redacted t"
proof -
  have "select_candidates t [] = []" using assms by (simp add: select_candidates_def)
  then have "replace_spans t (select_candidates t []) = t" by (simp add: replace_spans_def)
  moreover have "normalize_customer_terms [] = Inr []" by (simp add: normalize_customer_terms_def)
  moreover have "\<not> has_unredacted t []" using assms by (simp add: has_unredacted_def)
  moreover have "LIMITATIONS \<noteq> []" by (simp add: LIMITATIONS_def)
  ultimately show ?thesis using assms \<open>select_candidates t [] = []\<close>
    by (simp add: already_redacted_def redact_transcript_def result_error_def assert_redaction_egress_def current_allowed_state_def
        Let_def findings_match_def kind_lines_def list_all_iff)
qed



subsection \<open>Reconciling twice\<close>

lemma planner_scan_facts:
  assumes "planner_scan h poc (fps, owners, n) xs = Inr (fps', owners', n')"
  shows "(\<forall>k v. map_of fps k = Some v \<longrightarrow> map_of fps' k = Some v) \<and> (\<forall>k v. map_of owners k = Some v \<longrightarrow> map_of owners' k = Some v) \<and>
    (\<forall>x \<in> set xs. map_of fps' (poc, rp_proposal_id x) = Some (retained_fingerprint h x) \<and> map_of owners' (rp_proposal_id x) = Some poc) \<and>
    length owners' + n = length owners + n'"
  using assms
proof (induction xs arbitrary: fps owners n)
  case Nil
  then show ?case by simp
next
  case (Cons x xs)
  let ?key = "(poc, rp_proposal_id x)" and ?new = "map_of owners (rp_proposal_id x) = None"
  let ?owners = "if ?new then AList.update (rp_proposal_id x) poc owners else owners" and ?n = "if ?new then n + 1 else n"
  have owner: "?new \<or> map_of owners (rp_proposal_id x) = Some poc" using Cons.prems by (auto simp: Let_def split: if_split_asm)
  obtain fps1 where step: "planner_scan h poc (fps1, ?owners, ?n) xs = Inr (fps', owners', n')"
    "map_of fps1 ?key = Some (retained_fingerprint h x)" "\<forall>k v. map_of fps k = Some v \<longrightarrow> map_of fps1 k = Some v"
  proof (cases "map_of fps ?key")
    case (Some fp)
    then show ?thesis using Cons.prems owner that [of fps] by (auto simp: Let_def split: if_split_asm)
  next
    case None
    then show ?thesis using Cons.prems owner that [of "AList.update ?key (retained_fingerprint h x) fps"]
      by (auto simp: Let_def split: if_split_asm)
  qed
  note rest = Cons.IH [OF step(1)]
  have "length ?owners + n = length owners + ?n" by (simp add: length_update_new)
  moreover have "map_of ?owners (rp_proposal_id x) = Some poc" "\<forall>k v. map_of owners k = Some v \<longrightarrow> map_of ?owners k = Some v"
    using owner by auto
  ultimately show ?case using rest step(2,3) by auto
qed

lemma planner_scan_known:
  assumes "\<forall>x \<in> set xs. map_of fps (poc, rp_proposal_id x) = Some (retained_fingerprint h x) \<and> map_of owners (rp_proposal_id x) = Some poc"
  shows "planner_scan h poc (fps, owners, n) xs = Inr (fps, owners, n)"
  using assms by (induction xs) (auto simp: Let_def)

lemma reconcile_again:
  assumes "planner_reconcile h poc xs s = (t, Inr ())" and "pl_fingerprints u = pl_fingerprints t"
    and "pl_proposal_owners u = pl_proposal_owners t" and "pl_max_plans u = pl_max_plans t"
    and "pl_max_proposals_per_poc u = pl_max_proposals_per_poc t"
  shows "planner_reconcile h poc xs u = (u, Inr ())"
proof -
  obtain fps owners n where scan: "planner_scan h poc (pl_fingerprints s, pl_proposal_owners s, 0) xs = Inr (fps, owners, n)"
    and room: "length (pl_proposal_owners s) + n \<le> pl_max_plans s * pl_max_proposals_per_poc s"
    and t: "t = s\<lparr>pl_fingerprints := fps, pl_proposal_owners := owners\<rparr>"
    using assms(1) by (auto simp: planner_reconcile_def split: sum.split_asm prod.split_asm if_split_asm)
  note facts = planner_scan_facts [OF scan]
  have "planner_scan h poc (fps, owners, 0) xs = Inr (fps, owners, 0)" using facts by (intro planner_scan_known) auto
  moreover have "length owners \<le> pl_max_plans s * pl_max_proposals_per_poc s" using facts room by simp
  ultimately show ?thesis using assms(2-) t by (simp add: planner_reconcile_def)
qed

text \<open>The JSON a fingerprint is taken of determines the proposal.\<close>

lemma source_kind_value_inj: "source_kind_value a = source_kind_value b \<longleftrightarrow> a = b"
  by (cases a; cases b) simp_all

lemma instant_json_inj: "Poc_Sources.datetime_json a = Poc_Sources.datetime_json b \<longleftrightarrow> a = b"
  by (auto simp: Poc_Sources.datetime_json_def split: py_datetime.splits)

lemma retained_json_inj: "retained_json x = retained_json y \<longleftrightarrow> x = y"
  by (cases x; cases y) (auto simp: retained_json_def source_kind_value_inj instant_json_inj)

subsection \<open>Properties\<close>

lemma supported_facts:
  assumes "record_disposition_ok r" and "pn_disposition r \<in> {EXECUTABLE, EVIDENCE_IMPORT}"
  shows "\<not> pn_explicit_exclusion r \<and> (\<exists>e \<in> set default_capability_registry. \<exists>c. re_capability_key e = pn_capability_key r \<and>
    pn_disposition r = re_supported_disposition e \<and> pn_criterion r = Some c \<and> matches_entry c e \<and>
    cri_evidence_profile c = re_evidence_profile e \<and> cri_threshold c \<noteq> None \<and> cri_provenance c \<noteq> None)"
proof -
  have sup: "supported_record_ok r" and excl: "\<not> pn_explicit_exclusion r" using assms by (auto simp: record_disposition_ok_def)
  obtain e where e: "registry_lookup (pn_capability_key r) = Some e" using sup by (auto simp: supported_record_ok_def split: option.split_asm)
  obtain c where c: "pn_criterion r = Some c" using sup e by (auto simp: supported_record_ok_def split: option.split_asm)
  have mem: "e \<in> set default_capability_registry \<and> re_capability_key e = pn_capability_key r"
    using e by (auto simp: registry_lookup_def find_Some_iff)
  have prof: "re_supported_disposition e = EXECUTABLE \<Longrightarrow> re_evidence_profile e = None"
    using mem by (auto simp: default_capability_registry_def)
  have miss: "missing_fields (Some c) = []" using sup e c by (simp add: supported_record_ok_def)
  then have "cri_threshold c \<noteq> None \<and> cri_provenance c \<noteq> None"
    by (auto simp: missing_fields_def required_fields_def Let_def split: if_split_asm)
  then show ?thesis using sup e c mem prof assms(2) excl
    by (intro conjI bexI [of _ e] exI [of _ c]) (auto simp: supported_record_ok_def split: if_split_asm)
qed

text \<open>
  C20. In every reachable planner a plan that is ready for agreement has, for each record that is a
  must-have, either an explicit exclusion by a named human without a criterion, or a complete
  criterion that matches the entry of the fixed registry whose disposition the record has.
\<close>

theorem ready_plan_sound:
  assumes "planner_reachable h s" and "p \<in> set (plans_of s poc)" and "cp_ready_for_agreement p"
    and "r \<in> set (cp_records p)" and "pn_scope r = MUST_HAVE"
  shows "pn_explicit_exclusion r \<and> pn_disposition r = UNSUPPORTED \<and> pn_criterion r = None \<or>
    \<not> pn_explicit_exclusion r \<and> (\<exists>e \<in> set default_capability_registry. \<exists>c. re_capability_key e = pn_capability_key r \<and>
      pn_disposition r = re_supported_disposition e \<and> pn_criterion r = Some c \<and> matches_entry c e \<and>
      cri_evidence_profile c = re_evidence_profile e \<and> cri_threshold c \<noteq> None \<and> cri_provenance c \<noteq> None)"
proof -
  have "plan_stored h s (cp_plan_id p) p" using stored_plan [OF planner_reachable_inv [OF assms(1)] assms(2)] by blast
  then have ok: "record_disposition_ok r" and "list_all record_ready (cp_records p)"
    using assms(3,4) by (auto simp: plan_stored_def capability_plan_ok_def list_all_iff)
  then have "record_ready r" using assms(4) by (simp add: list_all_iff)
  show ?thesis
  proof (cases "pn_disposition r \<in> {EXECUTABLE, EVIDENCE_IMPORT}")
    case True
    then show ?thesis using supported_facts [OF ok] by blast
  next
    case False
    then have "pn_disposition r \<in> {CLARIFICATION_REQUIRED, UNSUPPORTED}" by (cases "pn_disposition r") auto
    then have "pn_explicit_exclusion r" using \<open>record_ready r\<close> assms(5) by (simp add: record_ready_def)
    then show ?thesis using ok by (auto simp: record_disposition_ok_def)
  qed
qed

text \<open>
  C21. A plan the planner hands out as current is the newest of its POC, has exactly the proposals that
  are retained now, and each record carries the source binding of the proposal it names, unless two
  different proposals with the same fingerprint are at hand.
\<close>

theorem current_plan_describes:
  assumes "planner_reachable h s" and "require_current_plan h poc (Retained raw) s = (t, Inr p)"
  shows "cp_poc_id p = poc \<and> (\<forall>q \<in> set (plans_of s poc). cp_plan_version q \<le> cp_plan_version p) \<and>
    set (map pn_proposal_id (cp_records p)) = set (map (rp_proposal_id \<circ> the) raw) \<and>
    (\<forall>r \<in> set (cp_records p). \<exists>x. Some x \<in> set raw \<and> (bound_to r x \<or>
      (\<exists>y. bound_to r y \<and> retained_json y \<noteq> retained_json x \<and> retained_fingerprint h y = retained_fingerprint h x)))"
proof -
  have inv: "planner_inv h s" using assms(1) by (rule planner_reachable_inv)
  obtain b t' where run: "current_plan_status h poc (Retained raw) s = (t', Inr (Some p, b))"
    using assms(2) by (auto simp: require_current_plan_def seq_apply split: prod.split_asm sum.split_asm option.split_asm)
  obtain xs where xs: "planner_lookup s poc (Retained raw) = Inr xs" "latest_plan s poc = Some p"
      "map_of (pl_plan_fingerprints s) (cp_plan_id p) = Some (sorted_fingerprints h xs)"
    using status_Some [OF inv run] by blast
  have raw: "xs = map the raw" "\<forall>x \<in> set xs. Some x \<in> set raw"
    using xs(1) by (auto simp: planner_lookup_def list_ex_iff split: if_split_asm option.split_asm)
  note newest = latest_plan_Some [OF xs(2)]
  obtain ys where ys: "sorted_fingerprints h ys = sorted_fingerprints h xs" "plan_covers p ys"
    using stored_plan [OF inv] newest xs(3) by (fastforce simp: plan_stored_def)
  have pairs: "(\<lambda>x. (rp_proposal_id x, retained_fingerprint h x)) ` set ys = (\<lambda>x. (rp_proposal_id x, retained_fingerprint h x)) ` set xs"
    using arg_cong [OF ys(1), of set] by (simp add: sorted_fingerprints_def)
  have "fst ` (\<lambda>x. (rp_proposal_id x, retained_fingerprint h x)) ` set ys = fst ` (\<lambda>x. (rp_proposal_id x, retained_fingerprint h x)) ` set xs"
    unfolding pairs ..
  then have ids: "rp_proposal_id ` set ys = rp_proposal_id ` set xs" by (simp add: image_image)
  have "\<exists>x. Some x \<in> set raw \<and> (bound_to r x \<or>
      (\<exists>y. bound_to r y \<and> retained_json y \<noteq> retained_json x \<and> retained_fingerprint h y = retained_fingerprint h x))"
    if mem: "r \<in> set (cp_records p)" for r
  proof -
    obtain y where y: "y \<in> set ys" "bound_to r y" using ys(2) mem unfolding plan_covers_def by blast
    then obtain x where x: "x \<in> set xs" "retained_fingerprint h y = retained_fingerprint h x" using pairs by fastforce
    then have "Some x \<in> set raw" using raw(2) by blast
    moreover have "bound_to r x \<or> retained_json y \<noteq> retained_json x" using y(2) retained_json_inj [of y x] by metis
    ultimately show ?thesis using y(2) x(2) by blast
  qed
  moreover have "set (map pn_proposal_id (cp_records p)) = set (map (rp_proposal_id \<circ> the) raw)"
    using ys(2) ids raw(1) by (simp add: plan_covers_def image_image)
  ultimately show ?thesis using newest stored_plan [OF inv, of p poc] by blast
qed

lemma replanned_latest:
  assumes inv: "planner_inv h u" and p: "p \<in> set (plans_of u poc)"
    and new: "\<And>q. q \<in> set (plans_of u poc) \<Longrightarrow> q = p \<or> cp_plan_version q < cp_plan_version p"
  shows "latest_plan u poc = Some p"
proof (cases "latest_plan u poc")
  case None
  then show ?thesis using p latest_plan_None by fastforce
next
  case (Some q)
  then show ?thesis using latest_plan_Some [OF Some] new [of q] p by fastforce
qed

text \<open>
  A new plan has one record per item, in the order of the items; the items name each retained
  proposal exactly once; every record is bound to a retained proposal; the version is above all
  earlier ones of the POC; and asking for the current plan of the same proposals yields this plan.
\<close>

theorem plan_made:
  assumes "planner_reachable h s" and "plan_with_status h poc items key clock (Retained raw) s = (t, Inr res)"
    and "\<not> rl_idempotent_replay res"
  shows "map pn_proposal_id (cp_records (rl_plan res)) = map it_proposal_id items \<and> distinct (map it_proposal_id items) \<and>
    set (map it_proposal_id items) = set (map (rp_proposal_id \<circ> the) raw) \<and>
    (\<forall>r \<in> set (cp_records (rl_plan res)). \<exists>x. Some x \<in> set raw \<and> bound_to r x) \<and>
    (\<forall>q \<in> set (plans_of s poc). cp_plan_version q < cp_plan_version (rl_plan res)) \<and>
    require_current_plan h poc (Retained raw) t = (t, Inr (rl_plan res))"
proof (cases rule: plan_cases [of h poc items key clock "Retained raw" s])
  case (refused e t')
  then show ?thesis using assms by simp
next
  case (replayed p prior t')
  then show ?thesis using assms by auto
next
  case (planned xs now rs p t')
  have inv: "planner_inv h s" using assms(1) by (rule planner_reachable_inv)
  have res: "rl_plan res = p" using assms(2) planned(10) by auto
  have p: "cp_poc_id p = poc" "cp_records p = rs" "cp_plan_version p = 1 + Max (insert 0 (set (map cp_plan_version (plans_of s poc))))"
    by (subst planned(7), simp)+
  have raw: "xs = map the raw" "\<forall>x \<in> set xs. Some x \<in> set raw"
    using planned(1) by (auto simp: planner_lookup_def list_ex_iff split: if_split_asm option.split_asm)
  have cov: "plan_covers p xs" "map pn_proposal_id (cp_records p) = map it_proposal_id items"
    using planned_covers [OF planned(1,2), of h "cp_plan_version p" p] planned(8) p(2) by simp_all
  have above: "cp_plan_version q < cp_plan_version p" if "q \<in> set (plans_of s poc)" for q
    using version_above [OF that] p(3) by simp
  have t: "t = t'\<lparr>pl_plans := AList.update (cp_plan_id p) p (pl_plans t'),
           pl_plan_fingerprints := AList.update (cp_plan_id p) (sorted_fingerprints h xs) (pl_plan_fingerprints t'),
           pl_idempotency := AList.update (poc, planner_key_digest h key)
             \<lparr>pk_request_sha256 = planner_request_sha256 h poc items, pk_plan_id = cp_plan_id p\<rparr> (pl_idempotency t')\<rparr>"
    using planned(10) assms(2) by simp
  have invt: "planner_inv h t" using plan_inv [OF inv assms(2)] .
  have again: "planner_reconcile h poc xs t = (t, Inr ())" using t by (intro reconcile_again [OF planned(11)]) simp_all
  have found: "map_of (pl_plans t) (cp_plan_id p) = Some p" using t by simp
  have "q = p \<or> cp_plan_version q < cp_plan_version p" if q: "q \<in> set (plans_of t poc)" for q
  proof -
    obtain k where k: "map_of (pl_plans t) k = Some q" "cp_poc_id q = poc" using q plans_of_mem [OF invt] by blast
    then show ?thesis using above [of q] plans_of_mem [OF inv, of q poc] t planned(4) by (auto simp: same_plans_def split: if_split_asm)
  qed
  then have "latest_plan t poc = Some p"
    using found p(1) plans_of_mem [OF invt, of p poc] by (intro replanned_latest [OF invt]) blast+
  moreover have "poc_id_ok poc" using planned(9) p(1) by (auto simp: capability_plan_ok_def)
  moreover have "planner_lookup t poc (Retained raw) = Inr xs"
    using planned(1) t planned(4) by (simp add: planner_lookup_def same_plans_def)
  ultimately have "require_current_plan h poc (Retained raw) t = (t, Inr p)"
    using again t by (simp add: require_current_plan_def current_plan_status_def seq_apply Let_def)
  moreover have "\<forall>r \<in> set (cp_records p). \<exists>x. Some x \<in> set raw \<and> bound_to r x" using cov(1) raw(2) unfolding plan_covers_def by blast
  ultimately show ?thesis using res cov(2) planned(2,3) above raw(1) by simp
qed

subsection \<open>A sample plan\<close>

definition sample_retained :: retained_proposal where
  "sample_retained = \<lparr>rp_poc_id = ''poc_00000001'', rp_proposal_id = ''prop_00000001'', rp_authoring_receipt_id = ''a'',
     rp_authoring_result_id = ''b'', rp_source_receipt_id = ''srcpt_00000001'', rp_source_id = ''s'', rp_source_kind = SOURCE_EMAIL,
     rp_source_content_sha256 = replicate 64 (CHR ''0''), rp_source_revision = 1, rp_source_adapter_name = ''m'',
     rp_source_adapter_version = ''v'', rp_redaction_policy_version = ''w'', rp_proposal_key = ''k'', rp_source_quote = ''q'',
     rp_normalized_claim = ''c'', rp_numeric_facts = JArr [], rp_reviewer = ''r'', rp_rationale = ''y'', rp_decided_at = Aware 0 0\<rparr>"

definition planned_criterion :: planner_criterion where
  "planned_criterion = \<lparr>cri_rule = Some ''exact_tool_selection_rate'', cri_operator = Some ''GTE'', cri_threshold = Some 1,
     cri_unit = Some ''PROPORTION'', cri_measurement_population = Some ''approved_synthetic_cases'',
     cri_evidence_method = Some ''EXIT_SPEC_STREAMING_PROBE'', cri_adapter = Some ''deterministic_tool_selection'',
     cri_adapter_version = Some ''1.0.0'', cri_evidence_profile = None, cri_provenance = Some HUMAN_DECLARED\<rparr>"

definition tool_item :: planner_item where
  "tool_item = \<lparr>it_proposal_id = ''prop_00000001'', it_scope = MUST_HAVE, it_capability_key = ''exact_tool_selection'',
     it_criterion = Some planned_criterion, it_reviewer = ''r'', it_rationale = ''y'', it_explicit_exclusion = False\<rparr>"

definition tool_record :: planning_record where
  "tool_record = \<lparr>pn_planning_item_id = ''cpitem_'' @ replicate 32 (CHR ''0''), pn_poc_id = ''poc_00000001'', pn_proposal_id = ''prop_00000001'',
     pn_source_receipt_id = ''srcpt_00000001'', pn_source_kind = SOURCE_EMAIL, pn_authoring_receipt_id = ''a'', pn_authoring_result_id = ''b'',
     pn_source_id = ''s'', pn_source_content_sha256 = replicate 64 (CHR ''0''), pn_source_revision = 1, pn_source_quote = ''q'',
     pn_normalized_claim = ''c'', pn_scope = MUST_HAVE, pn_capability_key = ''exact_tool_selection'', pn_disposition = EXECUTABLE,
     pn_criterion = Some planned_criterion, pn_reason = ''Complete criterion matches the server-owned capability and evidence policy.'',
     pn_next_action = ''A later reviewed lifecycle step may decide whether to use this plan; planning does not authorize that step.'',
     pn_reviewer = ''r'', pn_rationale = ''y'', pn_explicit_exclusion = False\<rparr>"

definition tool_plan :: capability_plan where
  "tool_plan = \<lparr>cp_plan_id = ''cplan_'' @ replicate 32 (CHR ''0''), cp_poc_id = ''poc_00000001'', cp_plan_version = 1, cp_created_at = Aware 0 0,
     cp_records = [tool_record], cp_ready_for_agreement = True\<rparr>"

definition fresh_planner :: planner_service where
  "fresh_planner = \<lparr>pl_max_plans = 2, pl_max_proposals_per_poc = 2, pl_plans = [], pl_idempotency = [], pl_fingerprints = [],
     pl_plan_fingerprints = [], pl_proposal_owners = []\<rparr>"

definition planned_service :: planner_service where
  "planned_service = \<lparr>pl_max_plans = 2, pl_max_proposals_per_poc = 2, pl_plans = [(cp_plan_id tool_plan, tool_plan)],
     pl_idempotency = [((''poc_00000001'', replicate 64 (CHR ''0'')), \<lparr>pk_request_sha256 = replicate 64 (CHR ''0''), pk_plan_id = cp_plan_id tool_plan\<rparr>)],
     pl_fingerprints = [((''poc_00000001'', ''prop_00000001''), replicate 64 (CHR ''0''))],
     pl_plan_fingerprints = [(cp_plan_id tool_plan, [(''prop_00000001'', replicate 64 (CHR ''0''))])],
     pl_proposal_owners = [(''prop_00000001'', ''poc_00000001'')]\<rparr>"

lemma safe_when_clean:
  assumes "raw_candidates t [] = []" and "existing_placeholders t = []" and "py_strip (unify_newlines t) = t" and "t \<noteq> []"
    and "length t \<le> m" and "\<not> single \<or> CHR 10 \<notin> set t" and "\<not> list_ex (\<lambda>c. c \<noteq> CHR 10 \<and> control_char c) t"
  shows "safe_text m single t = Some t"
  using assms clean_text [OF assms(1,2)] by (auto simp: safe_text_def Let_def)

lemma tool_texts: "safe_text 2000 False (pn_reason tool_record) = Some (pn_reason tool_record)"
  "safe_text 2000 False (pn_next_action tool_record) = Some (pn_next_action tool_record)"
  "safe_text 160 True (pn_capability_key tool_record) = Some (pn_capability_key tool_record)"
  "safe_text 4000 False ''q'' = Some ''q''" "safe_text 2000 False ''c'' = Some ''c''" "safe_text 2000 False ''y'' = Some ''y''"
  "safe_text 160 True ''r'' = Some ''r''"
  by (rule safe_when_clean; code_simp)+

lemma tool_made: "make_planning_record tool_record = Some tool_record"
proof -
  have "record_disposition_ok tool_record" by code_simp
  moreover have "poc_id_ok (pn_poc_id tool_record)" "proposal_id_ok (pn_proposal_id tool_record)" "receipt_id_ok (pn_source_receipt_id tool_record)"
    "is_sha256 (pn_source_content_sha256 tool_record)" "starts_with ''cpitem_'' (pn_planning_item_id tool_record)"
    "hex_text 32 (drop 7 (pn_planning_item_id tool_record))" by code_simp+
  ultimately show ?thesis using tool_texts by (simp add: make_planning_record_def Let_def tool_record_def)
qed

lemma tool_classified: "planner_classify sample_retained tool_item = Inr \<lparr>cl_disposition = EXECUTABLE, cl_criterion = Some planned_criterion,
    cl_reason = pn_reason tool_record, cl_next_action = pn_next_action tool_record\<rparr>"
  by (simp add: planner_classify_def registry_lookup_def default_capability_registry_def tool_item_def planned_criterion_def clashes_def
      missing_fields_def required_fields_def Let_def matches_entry_def tool_record_def)

lemma tool_built: "build_records flat_hasher ''poc_00000001'' v [sample_retained] [tool_item] = Inr [tool_record]"
proof -
  have "rp_proposal_id sample_retained = it_proposal_id tool_item" by (simp add: sample_retained_def tool_item_def)
  moreover have "draft_record flat_hasher ''poc_00000001'' v sample_retained tool_item
      \<lparr>cl_disposition = EXECUTABLE, cl_criterion = Some planned_criterion, cl_reason = pn_reason tool_record, cl_next_action = pn_next_action tool_record\<rparr> = tool_record"
    by (simp add: draft_record_def Let_def tool_record_def sample_retained_def tool_item_def planning_item_id_def flat_hasher_def)
  ultimately show ?thesis using tool_classified tool_made by simp
qed

lemma tool_plan_ok: "capability_plan_ok flat_hasher tool_plan"
proof -
  have "poc_id_ok ''poc_00000001''" "starts_with ''cplan_'' (cp_plan_id tool_plan)" "hex_text 32 (drop 6 (cp_plan_id tool_plan))"
    "pn_planning_item_id tool_record = ''cpitem_'' @ replicate 32 (CHR ''0'')" "record_ready tool_record" "pn_poc_id tool_record = ''poc_00000001''"
    by code_simp+
  then show ?thesis
    by (simp add: capability_plan_ok_def tool_plan_def planning_item_id_def capability_plan_id_def flat_hasher_def)
qed

lemma tool_fresh: "planner_service_new 2 2 = Inr fresh_planner"
  by (simp add: planner_service_new_def fresh_planner_def)

lemma tool_planned: "plan_with_status flat_hasher ''poc_00000001'' [tool_item] ''k'' (ClockAt (Aware 0 0)) (Retained [Some sample_retained]) fresh_planner =
    (planned_service, Inr \<lparr>rl_plan = tool_plan, rl_idempotent_replay = False\<rparr>)"
proof -
  have ids: "poc_id_ok ''poc_00000001''" "py_strip ''k'' = ''k''" by code_simp+
  have x: "rp_proposal_id sample_retained = ''prop_00000001''" "it_proposal_id tool_item = ''prop_00000001''" "rp_poc_id sample_retained = ''poc_00000001''"
    "retained_fingerprint flat_hasher sample_retained = replicate 64 (CHR ''0'')"
    by (simp_all add: sample_retained_def tool_item_def retained_fingerprint_def flat_hasher_def)
  have p: "\<lparr>cp_plan_id = capability_plan_id flat_hasher ''poc_00000001'' (Suc 0) [tool_record], cp_poc_id = ''poc_00000001'', cp_plan_version = Suc 0,
      cp_created_at = Aware 0 0, cp_records = [tool_record], cp_ready_for_agreement = list_all record_ready [tool_record]\<rparr> = tool_plan"
    by (simp add: tool_plan_def capability_plan_id_def flat_hasher_def record_ready_def tool_record_def)
  have "planner_request_sha256 flat_hasher poc items = replicate 64 (CHR ''0'')" "planner_key_digest flat_hasher k = replicate 64 (CHR ''0'')" for poc items k
    by (simp_all add: planner_request_sha256_def planner_key_digest_def flat_hasher_def)
  then show ?thesis using ids x tool_built [of "Suc 0"] tool_plan_ok p
    by (simp add: plan_with_status_def fresh_planner_def planner_lookup_def planner_reconcile_def seq_apply Let_def plan_locked_def plans_of_def
        sorted_fingerprints_def planned_service_def)
qed

lemma planned_reachable: "planner_reachable flat_hasher planned_service"
  using planner_next [OF planner_start [OF tool_fresh] step_plan [OF tool_planned]] .

theorem ready_plan_sound_witness:
  "\<exists>e \<in> set default_capability_registry. \<exists>c. re_capability_key e = ''exact_tool_selection'' \<and> pn_criterion tool_record = Some c \<and> matches_entry c e"
  using ready_plan_sound [OF planned_reachable, of tool_plan "''poc_00000001''" tool_record]
  by (auto simp: plans_of_def planned_service_def tool_plan_def tool_record_def)

theorem current_plan_describes_witness:
  "require_current_plan flat_hasher ''poc_00000001'' (Retained [Some sample_retained]) planned_service = (planned_service, Inr tool_plan) \<and>
    set (map pn_proposal_id (cp_records tool_plan)) = {''prop_00000001''}"
proof -
  have ids: "poc_id_ok ''poc_00000001''" by code_simp
  have x: "rp_proposal_id sample_retained = ''prop_00000001''" "rp_poc_id sample_retained = ''poc_00000001''"
    "retained_fingerprint flat_hasher sample_retained = replicate 64 (CHR ''0'')"
    by (simp_all add: sample_retained_def retained_fingerprint_def flat_hasher_def)
  have "require_current_plan flat_hasher ''poc_00000001'' (Retained [Some sample_retained]) planned_service = (planned_service, Inr tool_plan)"
    using x ids
    by (simp add: require_current_plan_def current_plan_status_def planner_lookup_def planner_reconcile_def seq_apply Let_def
        latest_plan_def plans_of_def sorted_fingerprints_def planned_service_def tool_plan_def)
  then show ?thesis using current_plan_describes [OF planned_reachable] by (fastforce simp: sample_retained_def)
qed

theorem plan_made_witness:
  "require_current_plan flat_hasher ''poc_00000001'' (Retained [Some sample_retained]) planned_service = (planned_service, Inr tool_plan) \<and>
    map pn_proposal_id (cp_records tool_plan) = [''prop_00000001'']"
  using plan_made [OF planner_start [OF tool_fresh] tool_planned] by (simp add: tool_item_def)

end
