(* ===== verification/Contract_Definition.thy ===== *)
theory Contract_Definition
  imports Proposal_Review
begin

section \<open>Defining a criterion of a kept proposal (poc_contract_definition.py)\<close>

text \<open>
  \<open>definition_service\<close> is the state of \<open>ProcessLocalContractDefinitionService\<close>. Each call looks up
  the proposals of its POC as the triage lists them, reconciles them with what was seen before and
  accepts only a proposal that a human kept. A receipt names its content and is checked on
  construction; a proposal has at most one.
\<close>

subsection \<open>The criterion\<close>

datatype performance_metric = TTFT_P95_MS | ERROR_RATE_PERCENT

datatype definition_operator = DEF_LT | DEF_LTE

datatype definition_unit = UNIT_MILLISECONDS | UNIT_PERCENT

fun metric_value :: "performance_metric \<Rightarrow> string" where
  "metric_value TTFT_P95_MS = ''TTFT_P95_MS''"
| "metric_value ERROR_RATE_PERCENT = ''ERROR_RATE_PERCENT''"

fun definition_operator_value :: "definition_operator \<Rightarrow> string" where
  "definition_operator_value DEF_LT = ''LT''"
| "definition_operator_value DEF_LTE = ''LTE''"

fun unit_value :: "definition_unit \<Rightarrow> string" where
  "unit_value UNIT_MILLISECONDS = ''MILLISECONDS''"
| "unit_value UNIT_PERCENT = ''PERCENT''"

fun unit_for :: "performance_metric \<Rightarrow> definition_unit" where
  "unit_for TTFT_P95_MS = UNIT_MILLISECONDS"
| "unit_for ERROR_RATE_PERCENT = UNIT_PERCENT"

text \<open>A finite threshold; a NaN or an infinity has no value here and is refused by the code.\<close>

record criterion_definition =
  qd_metric :: performance_metric
  qd_operator :: definition_operator
  qd_threshold :: real
  qd_minimum_samples :: int
  qd_concurrency :: int
  qd_prompt_tokens_min :: int
  qd_prompt_tokens_max :: int
  qd_output_tokens_min :: int
  qd_output_tokens_max :: int
  qd_reviewer :: string
  qd_rationale :: string

abbreviation MAX_PERFORMANCE_SAMPLES :: int where "MAX_PERFORMANCE_SAMPLES \<equiv> 1000"
abbreviation MAX_PERFORMANCE_CONCURRENCY :: int where "MAX_PERFORMANCE_CONCURRENCY \<equiv> 32"
abbreviation MAX_TOKEN_COUNT :: int where "MAX_TOKEN_COUNT \<equiv> 1000000"

definition int_within :: "int \<Rightarrow> int \<Rightarrow> int \<Rightarrow> bool" where
  "int_within low high n \<longleftrightarrow> low \<le> n \<and> n \<le> high"

definition metric_bounds_ok :: "criterion_definition \<Rightarrow> bool" where
  "metric_bounds_ok c \<longleftrightarrow> (if qd_metric c = TTFT_P95_MS then 0 < qd_threshold c \<and> qd_threshold c \<le> 60000
     else if qd_operator c = DEF_LT then 0 < qd_threshold c \<and> qd_threshold c < 100 else False)"

text \<open>\<open>math.ceil(n / d)\<close> for a positive divisor, and the time of ten warm-up requests and the samples at 30 seconds each.\<close>

definition ceil_div :: "int \<Rightarrow> int \<Rightarrow> int" where
  "ceil_div n d = (n + d - 1) div d"

definition worst_case_seconds :: "criterion_definition \<Rightarrow> int" where
  "worst_case_seconds c = (ceil_div 10 (qd_concurrency c) + ceil_div (qd_minimum_samples c) (qd_concurrency c)) * 30"

definition criterion_bounds_ok :: "criterion_definition \<Rightarrow> bool" where
  "criterion_bounds_ok c \<longleftrightarrow> int_within 1 MAX_PERFORMANCE_SAMPLES (qd_minimum_samples c) \<and>
     int_within 1 MAX_PERFORMANCE_CONCURRENCY (qd_concurrency c) \<and>
     int_within 1 MAX_TOKEN_COUNT (qd_prompt_tokens_min c) \<and> int_within 1 MAX_TOKEN_COUNT (qd_prompt_tokens_max c) \<and>
     int_within 1 MAX_TOKEN_COUNT (qd_output_tokens_min c) \<and> int_within 1 MAX_TOKEN_COUNT (qd_output_tokens_max c) \<and>
     metric_bounds_ok c \<and> qd_concurrency c \<le> qd_minimum_samples c \<and> worst_case_seconds c \<le> 900 \<and>
     qd_prompt_tokens_min c \<le> qd_prompt_tokens_max c \<and> qd_output_tokens_min c \<le> qd_output_tokens_max c"

text \<open>\<open>InferencePerformanceCriterionDefinition(...)\<close>: None where the validation fails.\<close>

definition make_criterion_definition :: "criterion_definition \<Rightarrow> criterion_definition option" where
  "make_criterion_definition c = (case (safe_text 160 True (qd_reviewer c), safe_text 2000 False (qd_rationale c)) of
     (Some reviewer, Some rationale) \<Rightarrow>
       if criterion_bounds_ok c then Some (c\<lparr>qd_reviewer := reviewer, qd_rationale := rationale\<rparr>) else None
   | _ \<Rightarrow> None)"

subsection \<open>Proposals as the triage lists them\<close>

datatype listed_proposal = Bare source_proposal | Reviewed review_item

fun listed_source :: "listed_proposal \<Rightarrow> source_proposal" where
  "listed_source (Bare x) = x"
| "listed_source (Reviewed i) = ri_proposal i"

definition item_kept :: "review_item \<Rightarrow> bool" where
  "item_kept i \<longleftrightarrow> ri_review_state i = PROPOSAL_KEPT \<and> (case ri_decision i of None \<Rightarrow> False | Some r \<Rightarrow> rc_decision r = KEEP_FOR_CONTRACT)"

fun listed_kept :: "listed_proposal \<Rightarrow> bool" where
  "listed_kept (Bare x) = False"
| "listed_kept (Reviewed i) = item_kept i"

fun state_value :: "proposal_state \<Rightarrow> string" where
  "state_value PROPOSAL_NEEDS_REVIEW = ''NEEDS_REVIEW''"
| "state_value PROPOSAL_KEPT = ''KEEP_FOR_CONTRACT''"
| "state_value PROPOSAL_DISCARDED = ''DISCARD''"

definition decision_receipt_json :: "decision_receipt \<Rightarrow> json" where
  "decision_receipt_json r = JObj [(''poc_id'', JStr (rc_poc_id r)), (''proposal_id'', JStr (rc_proposal_id r)),
     (''source_receipt_id'', JStr (rc_source_receipt_id r)), (''source_kind'', JStr (source_kind_value (rc_source_kind r))),
     (''decision'', JStr (decision_value (rc_decision r))), (''reviewer'', JStr (rc_reviewer r)),
     (''rationale'', JStr (rc_rationale r)), (''decided_at'', datetime_json (rc_decided_at r))]"

definition review_item_json :: "review_item \<Rightarrow> json" where
  "review_item_json i = (let x = ri_proposal i in JObj [(''poc_id'', JStr (sp_poc_id x)), (''proposal_id'', JStr (sp_proposal_id x)),
     (''source_receipt_id'', JStr (sp_source_receipt_id x)), (''source_kind'', JStr (source_kind_value (sp_source_kind x))),
     (''source_quote'', JStr (sp_source_quote x)), (''normalized_claim'', JStr (sp_normalized_claim x)),
     (''review_state'', JStr (state_value (ri_review_state i))), (''decision'', json_opt decision_receipt_json (ri_decision i))])"

definition item_fingerprint :: "hasher \<Rightarrow> review_item \<Rightarrow> string" where
  "item_fingerprint h i = json_sha h (''exitspec-contract-definition-proposal-v1'' @ [CHR 0x00]) (review_item_json i)"

subsection \<open>Receipts\<close>

record definition_receipt =
  dn_definition_id :: string
  dn_definition_sha256 :: string
  dn_poc_id :: string
  dn_proposal_id :: string
  dn_source_receipt_id :: string
  dn_source_kind :: source_kind
  dn_proposal_sha256 :: string
  dn_normalized_claim :: string
  dn_unit :: definition_unit
  dn_criterion :: criterion_definition
  dn_defined_at :: py_datetime

definition definition_payload :: "definition_receipt \<Rightarrow> json" where
  "definition_payload r = (let c = dn_criterion r in JObj [(''criterion_type'', JStr ''INFERENCE_PERFORMANCE_V1''), (''poc_id'', JStr (dn_poc_id r)),
     (''proposal_id'', JStr (dn_proposal_id r)), (''source_receipt_id'', JStr (dn_source_receipt_id r)),
     (''source_kind'', JStr (source_kind_value (dn_source_kind r))), (''proposal_sha256'', JStr (dn_proposal_sha256 r)),
     (''normalized_claim'', JStr (dn_normalized_claim r)), (''metric'', JStr (metric_value (qd_metric c))),
     (''unit'', JStr (unit_value (dn_unit r))), (''operator'', JStr (definition_operator_value (qd_operator c))),
     (''threshold'', JFloat (qd_threshold c)), (''minimum_samples'', JInt (qd_minimum_samples c)),
     (''concurrency'', JInt (qd_concurrency c)), (''prompt_tokens_min'', JInt (qd_prompt_tokens_min c)),
     (''prompt_tokens_max'', JInt (qd_prompt_tokens_max c)), (''output_tokens_min'', JInt (qd_output_tokens_min c)),
     (''output_tokens_max'', JInt (qd_output_tokens_max c)), (''reviewer'', JStr (qd_reviewer c)), (''rationale'', JStr (qd_rationale c))])"

definition definition_content_sha256 :: "hasher \<Rightarrow> definition_receipt \<Rightarrow> string" where
  "definition_content_sha256 h r = json_sha h (''exitspec-contract-definition-content-v1'' @ [CHR 0x00]) (definition_payload r)"

definition definition_id_of :: "string \<Rightarrow> string" where
  "definition_id_of content = ''cdef_'' @ take 32 content"

definition definition_receipt_sha256 :: "hasher \<Rightarrow> definition_receipt \<Rightarrow> string" where
  "definition_receipt_sha256 h r = json_sha h (''exitspec-contract-definition-receipt-v1'' @ [CHR 0x00])
     (JObj [(''definition'', definition_payload r), (''definition_id'', JStr (dn_definition_id r)), (''defined_at'', datetime_json (dn_defined_at r))])"

definition definition_id_ok :: "string \<Rightarrow> bool" where
  "definition_id_ok s \<longleftrightarrow> starts_with ''cdef_'' s \<and> hex_text 32 (drop 5 s)"

text \<open>\<open>ContractDefinitionReceipt(...)\<close>: the texts normalised, the criterion and both identities checked.\<close>

definition make_definition_receipt :: "hasher \<Rightarrow> definition_receipt \<Rightarrow> definition_receipt option" where
  "make_definition_receipt h r = (case (safe_text 2000 False (dn_normalized_claim r), make_criterion_definition (dn_criterion r)) of
     (Some claim, Some c) \<Rightarrow>
       let n = r\<lparr>dn_normalized_claim := claim, dn_criterion := c\<rparr> in
       if definition_id_ok (dn_definition_id n) \<and> is_sha256 (dn_definition_sha256 n) \<and> poc_id_ok (dn_poc_id n) \<and>
         proposal_id_ok (dn_proposal_id n) \<and> receipt_id_ok (dn_source_receipt_id n) \<and> is_sha256 (dn_proposal_sha256 n) \<and>
         dt_aware (dn_defined_at n) \<and> dn_unit n = unit_for (qd_metric c) \<and>
         dn_definition_id n = definition_id_of (definition_content_sha256 h n) \<and>
         dn_definition_sha256 n = definition_receipt_sha256 h n
       then Some n else None
   | _ \<Rightarrow> None)"

datatype definition_disposition = DEFINITION_CREATED | DEFINITION_REPLAY

record definition_result =
  dx_receipt :: definition_receipt
  dx_disposition :: definition_disposition

datatype definition_error = DefinitionInvalid | DefinitionLookupUnavailable | DefinitionProposalUnavailable | DefinitionCrossPOC
  | DefinitionProposalNotKept | DefinitionStaleProposal | DefinitionConflict | DefinitionIdempotencyConflict
  | DefinitionCapacityExceeded | DefinitionValueError | DefinitionValidationError | DefinitionKeyError

subsection \<open>The service\<close>

record definition_key_record =
  xk_request_sha256 :: string
  xk_poc_id :: string
  xk_proposal_id :: string
  xk_definition_id :: string

record definition_service =
  df_max_proposals_per_poc :: nat
  df_max_known_proposals :: nat
  df_max_definitions :: nat
  df_max_idempotency_records :: nat
  df_definitions :: "(string \<times> definition_receipt) list"
  df_definitions_by_proposal :: "((string \<times> string) \<times> string) list"
  df_fingerprints :: "((string \<times> string) \<times> string) list"
  df_proposal_owners :: "(string \<times> string) list"
  df_idempotency :: "(string \<times> definition_key_record) list"

type_synonym 'a definition_act = "(definition_service, definition_error, 'a) action"

definition definition_service_new :: "nat \<Rightarrow> nat \<Rightarrow> nat \<Rightarrow> nat \<Rightarrow> definition_error + definition_service" where
  "definition_service_new per_poc known definitions keys = (
     if \<not> (1 \<le> per_poc \<and> per_poc \<le> 8192) then Inl DefinitionValueError
     else if \<not> (1 \<le> known \<and> known \<le> 100000) then Inl DefinitionValueError
     else if \<not> (1 \<le> definitions \<and> definitions \<le> 100000) then Inl DefinitionValueError
     else if \<not> (1 \<le> keys \<and> keys \<le> 100000) then Inl DefinitionValueError
     else Inr \<lparr>df_max_proposals_per_poc = per_poc, df_max_known_proposals = known, df_max_definitions = definitions,
       df_max_idempotency_records = keys, df_definitions = [], df_definitions_by_proposal = [], df_fingerprints = [],
       df_proposal_owners = [], df_idempotency = []\<rparr>)"

definition definition_key_ok :: "string \<Rightarrow> bool" where
  "definition_key_ok k \<longleftrightarrow> k \<noteq> [] \<and> k = py_strip k \<and> length k \<le> 200 \<and> \<not> list_ex control_char k"

definition definition_key_digest :: "hasher \<Rightarrow> string \<Rightarrow> string" where
  "definition_key_digest h k = text_sha h (''exitspec-contract-definition-idempotency-v1'' @ [CHR 0x00]) k"

definition criterion_definition_json :: "criterion_definition \<Rightarrow> json" where
  "criterion_definition_json c = JObj [(''metric'', JStr (metric_value (qd_metric c))),
     (''operator'', JStr (definition_operator_value (qd_operator c))), (''threshold'', JFloat (qd_threshold c)),
     (''minimum_samples'', JInt (qd_minimum_samples c)), (''concurrency'', JInt (qd_concurrency c)),
     (''prompt_tokens_min'', JInt (qd_prompt_tokens_min c)), (''prompt_tokens_max'', JInt (qd_prompt_tokens_max c)),
     (''output_tokens_min'', JInt (qd_output_tokens_min c)), (''output_tokens_max'', JInt (qd_output_tokens_max c)),
     (''reviewer'', JStr (qd_reviewer c)), (''rationale'', JStr (qd_rationale c))]"

definition definition_request_sha256 :: "hasher \<Rightarrow> string \<Rightarrow> string \<Rightarrow> criterion_definition \<Rightarrow> string" where
  "definition_request_sha256 h poc pid c = json_sha h (''exitspec-contract-definition-request-v1'' @ [CHR 0x00])
     (JObj [(''poc_id'', JStr poc), (''proposal_id'', JStr pid), (''criterion'', criterion_definition_json c)])"

text \<open>What the injected lookup yields; every exception of it is an unavailable lookup.\<close>

datatype listing_answer = ListingFails | ListingOther | Listing "listed_proposal option list"

definition definition_lookup :: "definition_service \<Rightarrow> string \<Rightarrow> listing_answer \<Rightarrow> definition_error + listed_proposal list" where
  "definition_lookup s poc answer = (case answer of
     ListingFails \<Rightarrow> Inl DefinitionLookupUnavailable
   | ListingOther \<Rightarrow> Inl DefinitionLookupUnavailable
   | Listing raw \<Rightarrow>
       if df_max_proposals_per_poc s < length raw then Inl DefinitionCapacityExceeded
       else if list_ex (\<lambda>x. case x of None \<Rightarrow> True | Some p \<Rightarrow> sp_poc_id (listed_source p) \<noteq> poc) raw \<or>
         \<not> distinct (map (sp_proposal_id \<circ> listed_source \<circ> the) raw) then Inl DefinitionLookupUnavailable
       else Inr (map the raw))"

text \<open>Owners are taken of every proposal, fingerprints only of kept ones.\<close>

fun definition_scan :: "hasher \<Rightarrow> string \<Rightarrow> known_proposals \<Rightarrow> listed_proposal list \<Rightarrow> definition_error + known_proposals" where
  "definition_scan h poc known [] = Inr known"
| "definition_scan h poc (fps, owners, n) (p # ps) = (let pid = sp_proposal_id (listed_source p); owner = map_of owners pid;
       owners' = (if owner = None then AList.update pid poc owners else owners); n' = (if owner = None then n + 1 else n) in
     if owner \<noteq> None \<and> owner \<noteq> Some poc then Inl DefinitionCrossPOC
     else (case p of Bare x \<Rightarrow> definition_scan h poc (fps, owners', n') ps
     | Reviewed i \<Rightarrow>
         if \<not> item_kept i then definition_scan h poc (fps, owners', n') ps
         else (case map_of fps (poc, pid) of
           Some fp \<Rightarrow> if fp \<noteq> item_fingerprint h i then Inl DefinitionStaleProposal else definition_scan h poc (fps, owners', n') ps
         | None \<Rightarrow> definition_scan h poc (AList.update (poc, pid) (item_fingerprint h i) fps, owners', n') ps)))"

definition definition_reconcile :: "hasher \<Rightarrow> string \<Rightarrow> listed_proposal list \<Rightarrow> unit definition_act" where
  "definition_reconcile h poc ps = (\<lambda>s. case definition_scan h poc (df_fingerprints s, df_proposal_owners s, 0) ps of
     Inl e \<Rightarrow> (s, Inl e)
   | Inr (fps, owners, n) \<Rightarrow>
       if df_max_known_proposals s < length (df_proposal_owners s) + n then (s, Inl DefinitionCapacityExceeded)
       else (s\<lparr>df_fingerprints := fps, df_proposal_owners := owners\<rparr>, Inr ()))"

definition current_kept :: "definition_service \<Rightarrow> string \<Rightarrow> string \<Rightarrow> listed_proposal list \<Rightarrow> definition_error + review_item" where
  "current_kept s poc pid ps = (case find (\<lambda>p. sp_proposal_id (listed_source p) = pid) ps of
     None \<Rightarrow>
       if map_of (df_proposal_owners s) pid \<noteq> None \<and> map_of (df_proposal_owners s) pid \<noteq> Some poc then Inl DefinitionCrossPOC
       else if map_of (df_fingerprints s) (poc, pid) \<noteq> None then Inl DefinitionStaleProposal
       else Inl DefinitionProposalUnavailable
   | Some p \<Rightarrow> (let refused = (if map_of (df_fingerprints s) (poc, pid) \<noteq> None then DefinitionStaleProposal else DefinitionProposalNotKept) in
       case p of Bare x \<Rightarrow> Inl refused | Reviewed i \<Rightarrow> if item_kept i then Inr i else Inl refused))"

definition draft_receipt :: "hasher \<Rightarrow> string \<Rightarrow> review_item \<Rightarrow> criterion_definition \<Rightarrow> py_datetime \<Rightarrow> definition_receipt" where
  "draft_receipt h poc i c now = (let
       r = \<lparr>dn_definition_id = [], dn_definition_sha256 = [], dn_poc_id = poc, dn_proposal_id = sp_proposal_id (ri_proposal i),
         dn_source_receipt_id = sp_source_receipt_id (ri_proposal i), dn_source_kind = sp_source_kind (ri_proposal i),
         dn_proposal_sha256 = item_fingerprint h i, dn_normalized_claim = sp_normalized_claim (ri_proposal i),
         dn_unit = unit_for (qd_metric c), dn_criterion = c, dn_defined_at = now\<rparr>;
       named = r\<lparr>dn_definition_id := definition_id_of (definition_content_sha256 h r)\<rparr>
     in named\<lparr>dn_definition_sha256 := definition_receipt_sha256 h named\<rparr>)"

text \<open>The locked part after the reconciliation.\<close>

definition define_locked :: "hasher \<Rightarrow> string \<Rightarrow> string \<Rightarrow> criterion_definition \<Rightarrow> string \<Rightarrow> listed_proposal list \<Rightarrow> clock_value \<Rightarrow> definition_result definition_act" where
  "define_locked h poc pid c key ps clock = (\<lambda>s. let kd = definition_key_digest h key; digest = definition_request_sha256 h poc pid c in
     case current_kept s poc pid ps of Inl e \<Rightarrow> (s, Inl e)
     | Inr i \<Rightarrow> (case map_of (df_idempotency s) kd of
         Some prior \<Rightarrow>
           if xk_request_sha256 prior \<noteq> digest \<or> xk_poc_id prior \<noteq> poc \<or> xk_proposal_id prior \<noteq> pid then (s, Inl DefinitionIdempotencyConflict)
           else (case map_of (df_definitions s) (xk_definition_id prior) of None \<Rightarrow> (s, Inl DefinitionKeyError)
             | Some r \<Rightarrow> (s, Inr \<lparr>dx_receipt = r, dx_disposition = DEFINITION_REPLAY\<rparr>))
       | None \<Rightarrow>
           if map_of (df_definitions_by_proposal s) (poc, pid) \<noteq> None then (s, Inl DefinitionConflict)
           else if df_max_definitions s \<le> length (df_definitions s) then (s, Inl DefinitionCapacityExceeded)
           else if df_max_idempotency_records s \<le> length (df_idempotency s) then (s, Inl DefinitionCapacityExceeded)
           else (case clock of
             ClockAt now \<Rightarrow>
               if \<not> dt_aware now then (s, Inl DefinitionLookupUnavailable)
               else (let r = draft_receipt h poc i c now in
                 if map_of (df_definitions s) (dn_definition_id r) \<noteq> None then (s, Inl DefinitionConflict)
                 else (case make_definition_receipt h r of None \<Rightarrow> (s, Inl DefinitionValidationError)
                   | Some n \<Rightarrow> (s\<lparr>df_definitions := AList.update (dn_definition_id r) n (df_definitions s),
                       df_definitions_by_proposal := AList.update (poc, pid) (dn_definition_id r) (df_definitions_by_proposal s),
                       df_idempotency := AList.update kd \<lparr>xk_request_sha256 = digest, xk_poc_id = poc, xk_proposal_id = pid,
                         xk_definition_id = dn_definition_id r\<rparr> (df_idempotency s)\<rparr>,
                       Inr \<lparr>dx_receipt = n, dx_disposition = DEFINITION_CREATED\<rparr>)))
           | _ \<Rightarrow> (s, Inl DefinitionLookupUnavailable))))"

definition define_criterion :: "hasher \<Rightarrow> string \<Rightarrow> string \<Rightarrow> criterion_definition \<Rightarrow> string \<Rightarrow> listing_answer \<Rightarrow> clock_value \<Rightarrow> definition_result definition_act" where
  "define_criterion h poc pid c key answer clock = (\<lambda>s. if \<not> poc_id_ok poc then (s, Inl DefinitionInvalid)
     else if \<not> proposal_id_ok pid then (s, Inl DefinitionInvalid)
     else if \<not> definition_key_ok key then (s, Inl DefinitionInvalid)
     else (case definition_lookup s poc answer of Inl e \<Rightarrow> (s, Inl e)
       | Inr ps \<Rightarrow> seq (definition_reconcile h poc ps) (\<lambda>_. define_locked h poc pid c key ps clock) s))"

text \<open>
  The service as \<open>web.py\<close> builds it: its lookup is the listing of the triage, and an exception
  of that listing is an unavailable lookup. Invalid requests are refused before it is asked.
\<close>

definition define_over_review :: "hasher \<Rightarrow> string \<Rightarrow> string \<Rightarrow> criterion_definition \<Rightarrow> string \<Rightarrow> proposals_answer \<Rightarrow> clock_value \<Rightarrow>
    review_service \<times> definition_service \<Rightarrow> (review_service \<times> definition_service) \<times> (definition_error + definition_result)" where
  "define_over_review h poc pid c key answer clock = (\<lambda>(rv, df).
     if \<not> poc_id_ok poc \<or> \<not> proposal_id_ok pid \<or> \<not> definition_key_ok key then ((rv, df), Inl DefinitionInvalid)
     else (case review_list h poc answer rv of (rv', listed) \<Rightarrow>
       (let (df', r) = define_criterion h poc pid c key
            (case listed of Inl e \<Rightarrow> ListingFails | Inr items \<Rightarrow> Listing (map (\<lambda>i. Some (Reviewed i)) items)) clock df
        in ((rv', df'), r))))"

definition get_definition :: "string \<Rightarrow> definition_service \<Rightarrow> definition_error + definition_receipt" where
  "get_definition i s = (if \<not> definition_id_ok i then Inl DefinitionInvalid
     else case map_of (df_definitions s) i of None \<Rightarrow> Inl DefinitionProposalUnavailable | Some r \<Rightarrow> Inr r)"

definition all_definitions :: "definition_service \<Rightarrow> definition_receipt list" where
  "all_definitions s = map snd (sort_key fst (df_definitions s))"

end
