(* ===== verification/Contract_Definition_Laws.thy ===== *)
theory Contract_Definition_Laws
  imports Contract_Definition Proposal_Review_Laws
begin

section \<open>Laws of the criterion definitions\<close>

text \<open>
  The invariant: a definition is filed under the digest of its content, passed its validator and is
  the one its proposal points to; a remembered key points to a definition made of its request. Over
  the triage, as the services are composed, every definition rests on a final decision to keep.
\<close>

subsection \<open>Receipts\<close>

lemma criterion_bounds_texts [simp]: "criterion_bounds_ok (c\<lparr>qd_reviewer := a, qd_rationale := b\<rparr>) = criterion_bounds_ok c"
  by (simp add: criterion_bounds_ok_def metric_bounds_ok_def worst_case_seconds_def)

lemma make_criterion_Some:
  "make_criterion_definition c = Some n \<longleftrightarrow> (\<exists>a b. safe_text 160 True (qd_reviewer c) = Some a \<and>
     safe_text 2000 False (qd_rationale c) = Some b \<and> criterion_bounds_ok c \<and> n = c\<lparr>qd_reviewer := a, qd_rationale := b\<rparr>)"
  by (auto simp: make_criterion_definition_def split: option.splits)

lemma make_criterion_idem: "make_criterion_definition c = Some n \<Longrightarrow> make_criterion_definition n = Some n"
  unfolding make_criterion_Some by (elim exE conjE) (auto simp: safe_text_idem)

lemma make_criterion_bounds: "make_criterion_definition c = Some n \<Longrightarrow> criterion_bounds_ok n"
  by (auto simp: make_criterion_Some)

lemma make_receipt_idem:
  assumes "make_definition_receipt h r = Some n"
  shows "make_definition_receipt h n = Some n"
proof -
  obtain claim c where parts: "safe_text 2000 False (dn_normalized_claim r) = Some claim" "make_criterion_definition (dn_criterion r) = Some c"
    using assms by (auto simp: make_definition_receipt_def split: option.split_asm)
  then have n: "n = r\<lparr>dn_normalized_claim := claim, dn_criterion := c\<rparr>" using assms by (simp add: make_definition_receipt_def Let_def split: if_split_asm)
  have "safe_text 2000 False (dn_normalized_claim n) = Some claim" "make_criterion_definition (dn_criterion n) = Some c"
    using parts n by (simp_all add: safe_text_idem make_criterion_idem)
  then show ?thesis using assms parts n by (simp add: make_definition_receipt_def Let_def split: if_split_asm)
qed

lemma make_receipt_keeps:
  assumes "make_definition_receipt h (draft_receipt h poc i c now) = Some n"
  shows "dn_definition_id n = dn_definition_id (draft_receipt h poc i c now) \<and> dn_poc_id n = poc \<and> dn_proposal_id n = sp_proposal_id (ri_proposal i) \<and>
    dn_source_receipt_id n = sp_source_receipt_id (ri_proposal i) \<and> dn_source_kind n = sp_source_kind (ri_proposal i) \<and>
    dn_proposal_sha256 n = item_fingerprint h i \<and> make_criterion_definition c = Some (dn_criterion n)"
proof -
  obtain claim c' where parts: "make_criterion_definition (dn_criterion (draft_receipt h poc i c now)) = Some c'"
    "n = (draft_receipt h poc i c now)\<lparr>dn_normalized_claim := claim, dn_criterion := c'\<rparr>"
    using assms by (auto simp: make_definition_receipt_def Let_def split: option.split_asm if_split_asm)
  then show ?thesis by (simp add: draft_receipt_def Let_def)
qed

subsection \<open>The invariant\<close>

definition definition_stored :: "hasher \<Rightarrow> definition_service \<Rightarrow> string \<Rightarrow> definition_receipt \<Rightarrow> bool" where
  "definition_stored h s k n \<longleftrightarrow> dn_definition_id n = k \<and> make_definition_receipt h n = Some n \<and>
     map_of (df_definitions_by_proposal s) (dn_poc_id n, dn_proposal_id n) = Some k"

definition key_stored :: "hasher \<Rightarrow> definition_service \<Rightarrow> definition_key_record \<Rightarrow> bool" where
  "key_stored h s e \<longleftrightarrow> (\<exists>n c. map_of (df_definitions s) (xk_definition_id e) = Some n \<and> dn_poc_id n = xk_poc_id e \<and>
     dn_proposal_id n = xk_proposal_id e \<and> xk_request_sha256 e = definition_request_sha256 h (xk_poc_id e) (xk_proposal_id e) c \<and>
     make_criterion_definition c = Some (dn_criterion n))"

definition definition_inv :: "hasher \<Rightarrow> definition_service \<Rightarrow> bool" where
  "definition_inv h s \<longleftrightarrow> (\<forall>k n. map_of (df_definitions s) k = Some n \<longrightarrow> definition_stored h s k n) \<and>
     (\<forall>k e. map_of (df_idempotency s) k = Some e \<longrightarrow> key_stored h s e) \<and>
     length (df_definitions s) \<le> df_max_definitions s \<and> length (df_idempotency s) \<le> df_max_idempotency_records s"

definition same_definitions :: "definition_service \<Rightarrow> definition_service \<Rightarrow> bool" where
  "same_definitions s t \<longleftrightarrow> df_definitions t = df_definitions s \<and> df_definitions_by_proposal t = df_definitions_by_proposal s \<and>
     df_idempotency t = df_idempotency s \<and> df_max_definitions t = df_max_definitions s \<and>
     df_max_idempotency_records t = df_max_idempotency_records s"

lemma same_definitions_refl [simp]: "same_definitions s s"
  by (simp add: same_definitions_def)

lemma definition_inv_same: "same_definitions s t \<Longrightarrow> definition_inv h t = definition_inv h s"
  by (simp add: same_definitions_def definition_inv_def definition_stored_def key_stored_def)

lemma definition_reconcile_same: "definition_reconcile h poc ps s = (t, r) \<Longrightarrow> same_definitions s t"
  by (auto simp: definition_reconcile_def same_definitions_def split: sum.split_asm prod.split_asm if_split_asm)

lemma current_kept_Inr:
  assumes "current_kept s poc pid ps = Inr i"
  shows "Reviewed i \<in> set ps \<and> item_kept i \<and> sp_proposal_id (ri_proposal i) = pid"
proof -
  obtain p where p: "find (\<lambda>p. sp_proposal_id (listed_source p) = pid) ps = Some p"
    using assms by (auto simp: current_kept_def split: option.split_asm if_split_asm)
  then have "p \<in> set ps" "sp_proposal_id (listed_source p) = pid" by (auto simp: find_Some_iff)
  moreover have "p = Reviewed i \<and> item_kept i"
    using assms p by (auto simp: current_kept_def Let_def split: listed_proposal.split_asm if_split_asm)
  ultimately show ?thesis by auto
qed

lemma define_locked_cases:
  fixes h :: hasher and poc pid key :: string and c :: criterion_definition and ps :: "listed_proposal list"
    and clock :: clock_value and s :: definition_service
  obtains (refused) e where "define_locked h poc pid c key ps clock s = (s, Inl e)"
    | (replayed) prior r where "map_of (df_idempotency s) (definition_key_digest h key) = Some prior"
        "xk_request_sha256 prior = definition_request_sha256 h poc pid c" "xk_poc_id prior = poc" "xk_proposal_id prior = pid"
        "map_of (df_definitions s) (xk_definition_id prior) = Some r"
        "define_locked h poc pid c key ps clock s = (s, Inr \<lparr>dx_receipt = r, dx_disposition = DEFINITION_REPLAY\<rparr>)"
    | (created) i now n where "current_kept s poc pid ps = Inr i" "map_of (df_definitions_by_proposal s) (poc, pid) = None"
        "length (df_definitions s) < df_max_definitions s" "length (df_idempotency s) < df_max_idempotency_records s"
        "make_definition_receipt h (draft_receipt h poc i c now) = Some n" "map_of (df_definitions s) (dn_definition_id n) = None"
        "map_of (df_idempotency s) (definition_key_digest h key) = None"
        "define_locked h poc pid c key ps clock s = (s\<lparr>df_definitions := AList.update (dn_definition_id n) n (df_definitions s),
           df_definitions_by_proposal := AList.update (poc, pid) (dn_definition_id n) (df_definitions_by_proposal s),
           df_idempotency := AList.update (definition_key_digest h key) \<lparr>xk_request_sha256 = definition_request_sha256 h poc pid c,
             xk_poc_id = poc, xk_proposal_id = pid, xk_definition_id = dn_definition_id n\<rparr> (df_idempotency s)\<rparr>,
           Inr \<lparr>dx_receipt = n, dx_disposition = DEFINITION_CREATED\<rparr>)"
proof (cases "snd (define_locked h poc pid c key ps clock s)")
  case (Inl e)
  then have "define_locked h poc pid c key ps clock s = (s, Inl e)"
    by (auto simp: define_locked_def Let_def split: if_splits sum.splits option.splits clock_value.splits)
  then show ?thesis by (rule refused)
next
  case (Inr d)
  obtain i where i: "current_kept s poc pid ps = Inr i"
    using Inr by (cases "current_kept s poc pid ps") (auto simp: define_locked_def Let_def)
  show ?thesis
  proof (cases "map_of (df_idempotency s) (definition_key_digest h key)")
    case (Some prior)
    then show ?thesis using Inr i replayed [of prior]
      by (auto simp: define_locked_def Let_def split: if_split_asm option.split_asm)
  next
    case None
    have room: "map_of (df_definitions_by_proposal s) (poc, pid) = None" "length (df_definitions s) < df_max_definitions s"
        "length (df_idempotency s) < df_max_idempotency_records s"
      using Inr i None by (auto simp: define_locked_def Let_def split: if_split_asm)
    obtain now where now: "clock = ClockAt now" "dt_aware now"
      using Inr i None room by (cases clock) (auto simp: define_locked_def Let_def split: if_split_asm)
    let ?r = "draft_receipt h poc i c now"
    have fresh: "map_of (df_definitions s) (dn_definition_id ?r) = None"
      using Inr i None room now by (auto simp: define_locked_def Let_def split: if_split_asm)
    obtain n where n: "make_definition_receipt h ?r = Some n"
      using Inr i None room now fresh by (cases "make_definition_receipt h ?r") (auto simp: define_locked_def Let_def)
    then have "dn_definition_id n = dn_definition_id ?r" using make_receipt_keeps by blast
    then show ?thesis using i None room now fresh n
      by (intro created [of i now n]) (simp_all add: define_locked_def Let_def)
  qed
qed

lemma definition_inv_created:
  assumes inv: "definition_inv h s" and n: "make_definition_receipt h n = Some n" "dn_poc_id n = poc" "dn_proposal_id n = pid"
    and free: "map_of (df_definitions_by_proposal s) (poc, pid) = None" "map_of (df_definitions s) (dn_definition_id n) = None"
    and room: "length (df_definitions s) < df_max_definitions s" "length (df_idempotency s) < df_max_idempotency_records s"
    and c: "make_criterion_definition c = Some (dn_criterion n)"
  shows "definition_inv h (s\<lparr>df_definitions := AList.update (dn_definition_id n) n (df_definitions s),
      df_definitions_by_proposal := AList.update (poc, pid) (dn_definition_id n) (df_definitions_by_proposal s),
      df_idempotency := AList.update kd \<lparr>xk_request_sha256 = definition_request_sha256 h poc pid c, xk_poc_id = poc,
        xk_proposal_id = pid, xk_definition_id = dn_definition_id n\<rparr> (df_idempotency s)\<rparr>)" (is "definition_inv h ?t")
proof -
  define u where "u = ?t"
  have u: "df_definitions u = AList.update (dn_definition_id n) n (df_definitions s)"
      "df_definitions_by_proposal u = AList.update (poc, pid) (dn_definition_id n) (df_definitions_by_proposal s)"
      "df_max_definitions u = df_max_definitions s" "df_max_idempotency_records u = df_max_idempotency_records s"
      "df_idempotency u = AList.update kd \<lparr>xk_request_sha256 = definition_request_sha256 h poc pid c, xk_poc_id = poc,
        xk_proposal_id = pid, xk_definition_id = dn_definition_id n\<rparr> (df_idempotency s)"
    by (simp_all add: u_def)
  have "definition_stored h u k m" if m: "map_of (df_definitions u) k = Some m" for k m
  proof (cases "k = dn_definition_id n")
    case True
    then show ?thesis using m n u by (simp add: definition_stored_def)
  next
    case False
    then have "definition_stored h s k m" using m inv u by (simp add: definition_inv_def)
    then show ?thesis using u free(1) by (auto simp: definition_stored_def)
  qed
  moreover have "key_stored h u e" if e: "map_of (df_idempotency u) k = Some e" for k e
  proof (cases "k = kd")
    case True
    then show ?thesis using e n u c by (auto simp: key_stored_def)
  next
    case False
    then have "key_stored h s e" using e inv u by (simp add: definition_inv_def)
    then show ?thesis using u free(2) by (fastforce simp: key_stored_def)
  qed
  moreover have "length (df_definitions u) \<le> df_max_definitions u" "length (df_idempotency u) \<le> df_max_idempotency_records u"
    using u room by (simp_all add: length_update)
  ultimately have "definition_inv h u" unfolding definition_inv_def by blast
  then show ?thesis by (simp only: u_def)
qed

text \<open>What a call may do: at most known proposals change, or one definition is added.\<close>

lemma define_cases:
  fixes h :: hasher and poc pid key :: string and c :: criterion_definition and answer :: listing_answer
    and clock :: clock_value and s :: definition_service
  assumes inv: "definition_inv h s"
  obtains (refused) e t where "define_criterion h poc pid c key answer clock s = (t, Inl e)" "same_definitions s t"
    | (replayed) t n c0 where "define_criterion h poc pid c key answer clock s = (t, Inr \<lparr>dx_receipt = n, dx_disposition = DEFINITION_REPLAY\<rparr>)"
        "same_definitions s t" "map_of (df_definitions s) (dn_definition_id n) = Some n" "dn_poc_id n = poc" "dn_proposal_id n = pid"
        "definition_request_sha256 h poc pid c = definition_request_sha256 h poc pid c0" "make_criterion_definition c0 = Some (dn_criterion n)"
    | (created) ps i t n where "definition_lookup s poc answer = Inr ps" "Reviewed i \<in> set ps" "item_kept i"
        "sp_proposal_id (ri_proposal i) = pid" "dn_poc_id n = poc" "dn_proposal_id n = pid"
        "dn_source_receipt_id n = sp_source_receipt_id (ri_proposal i)" "dn_source_kind n = sp_source_kind (ri_proposal i)"
        "make_criterion_definition c = Some (dn_criterion n)"
        "map_of (df_definitions_by_proposal s) (poc, pid) = None" "map_of (df_definitions s) (dn_definition_id n) = None"
        "definition_inv h t" "df_definitions t = AList.update (dn_definition_id n) n (df_definitions s)"
        "define_criterion h poc pid c key answer clock s = (t, Inr \<lparr>dx_receipt = n, dx_disposition = DEFINITION_CREATED\<rparr>)"
proof (cases "\<exists>ps. poc_id_ok poc \<and> proposal_id_ok pid \<and> definition_key_ok key \<and> definition_lookup s poc answer = Inr ps")
  case False
  then show ?thesis
    by (intro refused [of s "case snd (define_criterion h poc pid c key answer clock s) of Inl e \<Rightarrow> e"])
       (auto simp: define_criterion_def split: sum.splits)
next
  case True
  then obtain ps where ps: "definition_lookup s poc answer = Inr ps" and
    run: "define_criterion h poc pid c key answer clock s = seq (definition_reconcile h poc ps) (\<lambda>_. define_locked h poc pid c key ps clock) s"
    by (auto simp: define_criterion_def)
  obtain t r where rec: "definition_reconcile h poc ps s = (t, r)" by (cases "definition_reconcile h poc ps s")
  have same: "same_definitions s t" using rec by (rule definition_reconcile_same)
  have invt: "definition_inv h t" using inv definition_inv_same [OF same] by simp
  show ?thesis
  proof (cases r)
    case (Inl e)
    then show ?thesis using run rec same refused by (simp add: seq_apply)
  next
    case (Inr u)
    have here: "define_criterion h poc pid c key answer clock s = define_locked h poc pid c key ps clock t"
      using run rec Inr by (simp add: seq_apply)
    show ?thesis
    proof (cases rule: define_locked_cases [of h poc pid c key ps clock t])
      case (refused e)
      then show ?thesis using here same that(1) by simp
    next
      case (replayed prior n)
      have "key_stored h t prior" using invt replayed(1) by (simp add: definition_inv_def)
      then obtain c0 where c0: "xk_request_sha256 prior = definition_request_sha256 h poc pid c0"
          "make_criterion_definition c0 = Some (dn_criterion n)" "dn_poc_id n = poc" "dn_proposal_id n = pid"
        using replayed(3-5) by (auto simp: key_stored_def)
      moreover have "dn_definition_id n = xk_definition_id prior" using invt replayed(5) by (simp add: definition_inv_def definition_stored_def)
      ultimately show ?thesis using here replayed same that(2) [of t n c0] by (simp add: same_definitions_def)
    next
      case (created i now n)
      note i = current_kept_Inr [OF created(1)]
      note n = make_receipt_keeps [OF created(5)]
      have n': "dn_poc_id n = poc" "dn_proposal_id n = pid" using n i by simp_all
      note inv' = definition_inv_created [OF invt make_receipt_idem [OF created(5)] n' created(2,6,3,4), of c "definition_key_digest h key"]
      show ?thesis
      proof (rule that(3) [OF ps])
        show "define_criterion h poc pid c key answer clock s = (t\<lparr>df_definitions := AList.update (dn_definition_id n) n (df_definitions t),
           df_definitions_by_proposal := AList.update (poc, pid) (dn_definition_id n) (df_definitions_by_proposal t),
           df_idempotency := AList.update (definition_key_digest h key) \<lparr>xk_request_sha256 = definition_request_sha256 h poc pid c,
             xk_poc_id = poc, xk_proposal_id = pid, xk_definition_id = dn_definition_id n\<rparr> (df_idempotency t)\<rparr>,
           Inr \<lparr>dx_receipt = n, dx_disposition = DEFINITION_CREATED\<rparr>)" using here created(8) by simp
      qed (use i n n' inv' created same in \<open>simp_all add: same_definitions_def\<close>)
    qed
  qed
qed

lemma define_inv:
  assumes "definition_inv h s"
  shows "definition_inv h (fst (define_criterion h poc pid c key answer clock s))"
  using assms by (cases rule: define_cases [of h s poc pid c key answer clock]) (simp_all add: definition_inv_same assms)

subsection \<open>Histories\<close>

datatype definition_op = Define string string criterion_definition string listing_answer clock_value

fun definition_step :: "hasher \<Rightarrow> definition_op \<Rightarrow> definition_service \<Rightarrow> definition_service" where
  "definition_step h (Define poc pid c key answer clock) s = fst (define_criterion h poc pid c key answer clock s)"

interpretation definitions: invariant_system "definition_step h" "definition_inv h" for h
proof
  fix s o' assume "definition_inv h s"
  then show "definition_inv h (definition_step h o' s)" by (cases o') (simp add: define_inv)
qed

lemma definition_inv_new: "definition_service_new a b c d = Inr s \<Longrightarrow> definition_inv h s"
  by (auto simp: definition_service_new_def definition_inv_def split: if_split_asm)

lemma definition_kept:
  assumes "definition_inv h s" and "map_of (df_definitions s) k = Some n"
  shows "map_of (df_definitions (fst (define_criterion h poc pid c key answer clock s))) k = Some n"
  using assms(1)
  by (cases rule: define_cases [of h s poc pid c key answer clock]) (use assms(2) in \<open>auto simp: same_definitions_def\<close>)

lemma definition_kept_run:
  assumes "definition_inv h s" and "map_of (df_definitions s) k = Some n"
  shows "map_of (df_definitions (fold (definition_step h) ops s)) k = Some n"
proof (rule definitions.run_keeps [where P = "\<lambda>t. map_of (df_definitions t) k = Some n"])
  show "map_of (df_definitions (definition_step h o' t)) k = Some n" if "definition_inv h t" "map_of (df_definitions t) k = Some n" for t o'
    using definition_kept [OF that] by (cases o') simp
qed (use assms in auto)

text \<open>A proposal has one definition.\<close>

lemma one_definition:
  assumes "definition_inv h s" and "map_of (df_definitions s) k = Some n" "map_of (df_definitions s) k' = Some n'"
    and "dn_poc_id n = dn_poc_id n'" "dn_proposal_id n = dn_proposal_id n'"
  shows "n = n' \<and> k = k'"
proof -
  have "definition_stored h s k n" "definition_stored h s k' n'" using assms(1-3) by (simp_all add: definition_inv_def)
  then have "k = k'" using assms(4,5) by (simp add: definition_stored_def)
  then show ?thesis using assms(2,3) by simp
qed

lemma definition_accepted:
  assumes "definition_inv h s" and "define_criterion h poc pid c key answer clock s = (t, Inr d)"
  shows "definition_inv h t \<and> map_of (df_definitions t) (dn_definition_id (dx_receipt d)) = Some (dx_receipt d) \<and>
    dn_poc_id (dx_receipt d) = poc \<and> dn_proposal_id (dx_receipt d) = pid \<and>
    (\<exists>c0. definition_request_sha256 h poc pid c = definition_request_sha256 h poc pid c0 \<and>
       make_criterion_definition c0 = Some (dn_criterion (dx_receipt d))) \<and>
    (dx_disposition d = DEFINITION_CREATED \<longrightarrow> map_of (df_definitions_by_proposal s) (poc, pid) = None)"
  using assms(1)
proof (cases rule: define_cases [of h s poc pid c key answer clock])
  case (refused e t)
  then show ?thesis using assms(2) by simp
next
  case (replayed t' n c0)
  then show ?thesis using assms definition_inv_same [OF replayed(2)] by (auto simp: same_definitions_def)
next
  case (created ps i t' n)
  then show ?thesis using assms(2) by auto
qed

lemma metric_value_inj: "metric_value a = metric_value b \<longleftrightarrow> a = b" by (cases a; cases b) simp_all

lemma definition_operator_value_inj: "definition_operator_value a = definition_operator_value b \<longleftrightarrow> a = b"
  by (cases a; cases b) simp_all

lemma criterion_definition_json_inj: "criterion_definition_json a = criterion_definition_json b \<longleftrightarrow> a = b"
  by (cases a; cases b) (auto simp: criterion_definition_json_def metric_value_inj definition_operator_value_inj)

lemma make_receipt_valid:
  assumes "make_definition_receipt h r = Some n"
  shows "definition_id_ok (dn_definition_id n) \<and> make_criterion_definition (dn_criterion n) = Some (dn_criterion n)"
proof -
  obtain claim c where "make_criterion_definition (dn_criterion r) = Some c" "n = r\<lparr>dn_normalized_claim := claim, dn_criterion := c\<rparr>"
    "definition_id_ok (dn_definition_id n)"
    using assms by (auto simp: make_definition_receipt_def Let_def split: option.split_asm if_split_asm)
  then show ?thesis using make_criterion_idem by simp
qed

text \<open>
  A criterion definition is immutable and the only one of its proposal: whatever calls follow, the
  receipt can be read as it was returned, its criterion is valid, and every later accepted call on
  that proposal, under any key, is a replay of that receipt, for a request that makes the same
  criterion or has the digest of one that does.
\<close>

theorem definition_final:
  assumes "definition_service_new a b c e = Inr s0"
    and "define_criterion h poc pid q key answer clock (fold (definition_step h) ops s0) = (s1, Inr d)"
    and "s2 = fold (definition_step h) ops' s1"
  shows "get_definition (dn_definition_id (dx_receipt d)) s2 = Inr (dx_receipt d) \<and>
    make_criterion_definition (dn_criterion (dx_receipt d)) = Some (dn_criterion (dx_receipt d)) \<and>
    (define_criterion h poc pid q' key' answer' clock' s2 = (s3, Inr d') \<longrightarrow>
      d' = \<lparr>dx_receipt = dx_receipt d, dx_disposition = DEFINITION_REPLAY\<rparr> \<and>
      (\<exists>c0. make_criterion_definition c0 = Some (dn_criterion (dx_receipt d)) \<and> (q' = c0 \<or> criterion_definition_json q' \<noteq> criterion_definition_json c0 \<and>
        definition_request_sha256 h poc pid q' = definition_request_sha256 h poc pid c0)))"
proof -
  let ?s = "fold (definition_step h) ops s0" and ?n = "dx_receipt d"
  have inv: "definition_inv h ?s" using definitions.inv_run [OF definition_inv_new [OF assms(1)]] .
  note d = definition_accepted [OF inv assms(2)]
  have inv2: "definition_inv h s2" using d definitions.inv_run assms(3) by blast
  have here: "map_of (df_definitions s2) (dn_definition_id ?n) = Some ?n" using d definition_kept_run assms(3) by blast
  then have "definition_stored h s2 (dn_definition_id ?n) ?n" using inv2 by (simp add: definition_inv_def)
  then have valid: "make_definition_receipt h ?n = Some ?n" "map_of (df_definitions_by_proposal s2) (poc, pid) = Some (dn_definition_id ?n)"
    using d by (simp_all add: definition_stored_def)
  have "definition_id_ok (dn_definition_id ?n)" "make_criterion_definition (dn_criterion ?n) = Some (dn_criterion ?n)"
    using make_receipt_valid [OF valid(1)] by simp_all
  moreover have "d' = \<lparr>dx_receipt = ?n, dx_disposition = DEFINITION_REPLAY\<rparr> \<and>
      (\<exists>c0. make_criterion_definition c0 = Some (dn_criterion ?n) \<and> (q' = c0 \<or> criterion_definition_json q' \<noteq> criterion_definition_json c0 \<and>
        definition_request_sha256 h poc pid q' = definition_request_sha256 h poc pid c0))"
    if again: "define_criterion h poc pid q' key' answer' clock' s2 = (s3, Inr d')"
    using inv2
  proof (cases rule: define_cases [of h s2 poc pid q' key' answer' clock'])
    case (refused e t)
    then show ?thesis using again by simp
  next
    case (replayed t n c0)
    have "n = ?n" using one_definition [OF inv2 replayed(3) here] replayed(4,5) d by simp
    then show ?thesis using again replayed criterion_definition_json_inj [of q' c0] by auto
  next
    case (created ps i t n)
    then show ?thesis using valid(2) by simp
  qed
  ultimately show ?thesis using here by (simp add: get_definition_def)
qed

subsection \<open>Over the triage\<close>

text \<open>A history of the two services as they are composed: triage, and definitions over its listing.\<close>

datatype authoring_op = Triage review_op | DefineKept string string criterion_definition string proposals_answer clock_value

fun authoring_step :: "hasher \<Rightarrow> authoring_op \<Rightarrow> review_service \<times> definition_service \<Rightarrow> review_service \<times> definition_service" where
  "authoring_step h (Triage c) s = (review_step h c (fst s), snd s)"
| "authoring_step h (DefineKept poc pid c key answer clock) s = fst (define_over_review h poc pid c key answer clock s)"

text \<open>The decision a definition rests on.\<close>

definition backed :: "review_service \<Rightarrow> definition_receipt \<Rightarrow> bool" where
  "backed rv n \<longleftrightarrow> (\<exists>r. map_of (rv_decisions rv) (dn_poc_id n, dn_proposal_id n) = Some r \<and> rc_decision r = KEEP_FOR_CONTRACT \<and>
     rc_source_receipt_id r = dn_source_receipt_id n \<and> rc_source_kind r = dn_source_kind n)"

definition authoring_inv :: "hasher \<Rightarrow> review_service \<times> definition_service \<Rightarrow> bool" where
  "authoring_inv h s \<longleftrightarrow> review_inv h (fst s) \<and> definition_inv h (snd s) \<and>
     (\<forall>k n. map_of (df_definitions (snd s)) k = Some n \<longrightarrow> backed (fst s) n)"

lemma backed_step: "review_inv h rv \<Longrightarrow> backed rv n \<Longrightarrow> backed (review_step h c rv) n"
  using decisions_step unfolding backed_def by blast

lemma listed_kept_backed:
  assumes "review_inv h rv" and "review_list h poc a rv = (rv', Inr items)" and "i \<in> set items" and "item_kept i"
  shows "\<exists>r. map_of (rv_decisions rv') (poc, sp_proposal_id (ri_proposal i)) = Some r \<and> rc_decision r = KEEP_FOR_CONTRACT \<and>
    rc_source_receipt_id r = sp_source_receipt_id (ri_proposal i) \<and> rc_source_kind r = sp_source_kind (ri_proposal i)"
  using listed [OF assms(1-3)] assms(4) by (auto simp: item_kept_def review_item_ok_def split: option.split_asm)

lemma authoring_inv_define:
  assumes inv: "authoring_inv h (rv, df)"
  shows "authoring_inv h (fst (define_over_review h poc pid c key answer clock (rv, df)))"
proof (cases "\<not> poc_id_ok poc \<or> \<not> proposal_id_ok pid \<or> \<not> definition_key_ok key")
  case True
  then show ?thesis using inv by (auto simp: define_over_review_def)
next
  case False
  obtain rv' r where list: "review_list h poc answer rv = (rv', r)" by (cases "review_list h poc answer rv")
  define shown where "shown = (case r of Inl e \<Rightarrow> ListingFails | Inr items \<Rightarrow> Listing (map (\<lambda>i. Some (Reviewed i)) items))"
  obtain df' d where run: "define_criterion h poc pid c key shown clock df = (df', d)" by (cases "define_criterion h poc pid c key shown clock df")
  have res: "fst (define_over_review h poc pid c key answer clock (rv, df)) = (rv', df')"
    using False list run by (simp add: define_over_review_def shown_def)
  have invs: "review_inv h rv" "definition_inv h df" "\<And>k n. map_of (df_definitions df) k = Some n \<Longrightarrow> backed rv n"
    using inv by (auto simp: authoring_inv_def)
  have step: "rv' = review_step h (ListProposals poc answer) rv" using list by simp
  have older: "backed rv' n" if "map_of (df_definitions df) k = Some n" for k n
    using backed_step [OF invs(1) invs(3) [OF that], of "ListProposals poc answer"] unfolding step .
  have "backed rv' n" if n: "map_of (df_definitions df') k = Some n" for k n
    using invs(2)
  proof (cases rule: define_cases [of h df poc pid c key shown clock])
    case (refused e t)
    then show ?thesis using n run older by (simp add: same_definitions_def)
  next
    case (replayed t m c0)
    then show ?thesis using n run older by (simp add: same_definitions_def)
  next
    case (created ps i t m)
    show ?thesis
    proof (cases "k = dn_definition_id m")
      case False
      then show ?thesis using n run older created(13,14) by simp
    next
      case True
      then have "n = m" using n run created(13,14) by simp
      obtain items where items: "r = Inr items" "ps = map Reviewed items"
        using created(1) by (cases r) (auto simp: shown_def definition_lookup_def comp_def split: if_split_asm)
      then have "i \<in> set items" using created(2) by auto
      then show ?thesis using listed_kept_backed [OF invs(1) _ _ created(3)] list items(1) created(4-8) \<open>n = m\<close>
        by (fastforce simp: backed_def)
    qed
  qed
  moreover have "review_inv h rv'" using review_inv_step [OF invs(1), of "ListProposals poc answer"] unfolding step .
  moreover have "definition_inv h df'" using define_inv [OF invs(2), of poc pid c key shown clock] run by simp
  ultimately show ?thesis using res by (simp add: authoring_inv_def)
qed

interpretation authored: invariant_system "authoring_step h" "authoring_inv h" for h
proof
  fix s o' assume inv: "authoring_inv h s"
  obtain rv df where s: "s = (rv, df)" by (cases s)
  show "authoring_inv h (authoring_step h o' s)"
  proof (cases o')
    case (Triage c)
    then show ?thesis using inv by (auto simp: authoring_inv_def intro: backed_step review_inv_step)
  next
    case (DefineKept poc pid c key answer clock)
    then show ?thesis using inv authoring_inv_define s by simp
  qed
qed

text \<open>
  C22. In the two services as they are composed, every criterion definition that can be read rests on a
  human decision to keep its proposal, for the same source, which still stands after any further
  operations of either service.
\<close>

theorem definition_of_kept_proposal:
  assumes "review_service_new a b c e = Inr rv0" and "definition_service_new a' b' c' e' = Inr df0"
    and "fold (authoring_step h) ops (rv0, df0) = (rv, df)" and "get_definition i df = Inr n"
  shows "\<exists>r. map_of (rv_decisions (fst (fold (authoring_step h) ops' (rv, df)))) (dn_poc_id n, dn_proposal_id n) = Some r \<and>
    rc_decision r = KEEP_FOR_CONTRACT \<and> rc_source_receipt_id r = dn_source_receipt_id n \<and> rc_source_kind r = dn_source_kind n"
proof -
  have "authoring_inv h (rv0, df0)" using review_inv_new [OF assms(1)] definition_inv_new [OF assms(2)] assms(2)
    by (auto simp: authoring_inv_def definition_service_new_def split: if_split_asm)
  then have inv: "authoring_inv h (rv, df)" using authored.inv_run assms(3) by metis
  have "map_of (df_definitions df) i = Some n" using assms(4) by (auto simp: get_definition_def split: if_split_asm option.split_asm)
  then have "backed rv n" using inv by (auto simp: authoring_inv_def)
  then have "backed (fst (fold (authoring_step h) ops' (rv, df))) n"
  proof (intro authored.run_keeps [where P = "\<lambda>s. backed (fst s) n"])
    show "backed (fst (authoring_step h o' t)) n" if "authoring_inv h t" "backed (fst t) n" for t o'
    proof (cases o')
      case (Triage c)
      then show ?thesis using that by (auto simp: authoring_inv_def intro: backed_step)
    next
      case (DefineKept poc pid c key answer clock)
      obtain rv df where t: "t = (rv, df)" by (cases t)
      have "fst (fst (define_over_review h poc pid c key answer clock (rv, df))) = rv \<or>
          fst (fst (define_over_review h poc pid c key answer clock (rv, df))) = review_step h (ListProposals poc answer) rv"
        by (auto simp: define_over_review_def split: prod.splits)
      then show ?thesis using that DefineKept t backed_step [of h rv n "ListProposals poc answer"] by (auto simp: authoring_inv_def)
    qed
  qed (use inv in auto)
  then show ?thesis by (simp add: backed_def)
qed

subsection \<open>A sample definition\<close>

text \<open>The proposal of the sample triage, kept, gets a criterion.\<close>

definition sample_criterion :: criterion_definition where
  "sample_criterion = \<lparr>qd_metric = TTFT_P95_MS, qd_operator = DEF_LT, qd_threshold = 500, qd_minimum_samples = 20, qd_concurrency = 2,
     qd_prompt_tokens_min = 1, qd_prompt_tokens_max = 2, qd_output_tokens_min = 1, qd_output_tokens_max = 2,
     qd_reviewer = ''r'', qd_rationale = ''y''\<rparr>"

definition fresh_definitions :: definition_service where
  "fresh_definitions = \<lparr>df_max_proposals_per_poc = 2, df_max_known_proposals = 2, df_max_definitions = 2, df_max_idempotency_records = 2,
     df_definitions = [], df_definitions_by_proposal = [], df_fingerprints = [], df_proposal_owners = [], df_idempotency = []\<rparr>"

definition sample_item :: review_item where
  "sample_item = \<lparr>ri_proposal = sample_proposal, ri_review_state = PROPOSAL_KEPT, ri_decision = Some sample_receipt\<rparr>"

definition sample_definition :: definition_receipt where
  "sample_definition = draft_receipt flat_hasher ''poc_00000001'' sample_item sample_criterion (Aware 0 0)"

definition one_defined :: definition_service where
  "one_defined = fresh_definitions\<lparr>df_definitions := [(dn_definition_id sample_definition, sample_definition)],
     df_definitions_by_proposal := [((''poc_00000001'', ''prop_00000001''), dn_definition_id sample_definition)],
     df_fingerprints := [((''poc_00000001'', ''prop_00000001''), replicate 64 (CHR ''0''))],
     df_proposal_owners := [(''prop_00000001'', ''poc_00000001'')],
     df_idempotency := [(replicate 64 (CHR ''0''), \<lparr>xk_request_sha256 = replicate 64 (CHR ''0''), xk_poc_id = ''poc_00000001'',
       xk_proposal_id = ''prop_00000001'', xk_definition_id = dn_definition_id sample_definition\<rparr>)]\<rparr>"

lemma sample_criterion_ok: "make_criterion_definition sample_criterion = Some sample_criterion"
  by (simp add: make_criterion_definition_def sample_criterion_def safe_sample criterion_bounds_ok_def int_within_def
      metric_bounds_ok_def worst_case_seconds_def ceil_div_def)

lemma sample_definition_facts: "dn_definition_id sample_definition = ''cdef_'' @ replicate 32 (CHR ''0'')" "dn_poc_id sample_definition = ''poc_00000001''"
    "dn_proposal_id sample_definition = ''prop_00000001''" "dn_criterion sample_definition = sample_criterion"
    "dn_normalized_claim sample_definition = ''c''"
  by (simp_all add: sample_definition_def draft_receipt_def Let_def flat_hasher_def definition_id_of_def definition_content_sha256_def
      sample_item_def sample_proposal_def)

lemma sample_definition_made: "make_definition_receipt flat_hasher sample_definition = Some sample_definition"
proof -
  have "definition_id_ok (''cdef_'' @ replicate 32 (CHR ''0''))" "is_sha256 (replicate 64 (CHR ''0''))" by code_simp+
  then have "definition_id_ok (dn_definition_id sample_definition)" "is_sha256 (dn_definition_sha256 sample_definition)"
      "is_sha256 (dn_proposal_sha256 sample_definition)"
    unfolding sample_definition_facts
    by (simp_all add: sample_definition_def draft_receipt_def Let_def flat_hasher_def definition_receipt_sha256_def item_fingerprint_def)
  moreover have "dn_definition_sha256 sample_definition = definition_receipt_sha256 flat_hasher sample_definition"
      "dn_definition_id sample_definition = definition_id_of (definition_content_sha256 flat_hasher sample_definition)"
      "receipt_id_ok (dn_source_receipt_id sample_definition)" "dn_unit sample_definition = unit_for (qd_metric sample_criterion)"
      "dt_aware (dn_defined_at sample_definition)"
    by (simp_all add: sample_definition_def draft_receipt_def Let_def flat_hasher_def definition_receipt_sha256_def definition_id_of_def
        definition_content_sha256_def sample_item_def sample_proposal_def ids_sample)
  moreover have "safe_text 2000 False (dn_normalized_claim sample_definition) = Some (dn_normalized_claim sample_definition)"
    using safe_sample by (simp add: sample_definition_facts)
  ultimately show ?thesis
    by (simp add: make_definition_receipt_def Let_def sample_definition_facts sample_criterion_ok ids_sample
        definition_content_sha256_def definition_receipt_sha256_def flat_hasher_def)
qed

lemma sample_define: "define_criterion flat_hasher ''poc_00000001'' ''prop_00000001'' sample_criterion ''k'' (Listing [Some (Reviewed sample_item)])
    (ClockAt (Aware 0 0)) fresh_definitions = (one_defined, Inr \<lparr>dx_receipt = sample_definition, dx_disposition = DEFINITION_CREATED\<rparr>)"
proof -
  have key: "definition_key_ok ''k''" by code_simp
  have item: "item_kept sample_item" "sp_proposal_id (ri_proposal sample_item) = ''prop_00000001''" "sp_poc_id (ri_proposal sample_item) = ''poc_00000001''"
      "item_fingerprint flat_hasher sample_item = replicate 64 (CHR ''0'')"
    by (simp_all add: item_kept_def sample_item_def sample_proposal_def sample_receipt_def decision_of_def item_fingerprint_def flat_hasher_def)
  have "definition_key_digest flat_hasher ''k'' = replicate 64 (CHR ''0'')"
      "definition_request_sha256 flat_hasher ''poc_00000001'' ''prop_00000001'' sample_criterion = replicate 64 (CHR ''0'')"
    by (simp_all add: definition_key_digest_def definition_request_sha256_def flat_hasher_def)
  then show ?thesis using key item sample_definition_made
    by (simp add: define_criterion_def definition_lookup_def definition_reconcile_def fresh_definitions_def seq_apply Let_def
        define_locked_def current_kept_def one_defined_def ids_sample sample_definition_def [symmetric])
qed

lemma sample_definitions_new: "definition_service_new 2 2 2 2 = Inr fresh_definitions"
  by (simp add: definition_service_new_def fresh_definitions_def)

lemma sample_define_again: "define_criterion flat_hasher ''poc_00000001'' ''prop_00000001'' sample_criterion ''k'' (Listing [Some (Reviewed sample_item)])
    ClockRaises one_defined = (one_defined, Inr \<lparr>dx_receipt = sample_definition, dx_disposition = DEFINITION_REPLAY\<rparr>)"
proof -
  have key: "definition_key_ok ''k''" by code_simp
  have item: "item_kept sample_item" "sp_proposal_id (ri_proposal sample_item) = ''prop_00000001''" "sp_poc_id (ri_proposal sample_item) = ''poc_00000001''"
      "item_fingerprint flat_hasher sample_item = replicate 64 (CHR ''0'')"
    by (simp_all add: item_kept_def sample_item_def sample_proposal_def sample_receipt_def decision_of_def item_fingerprint_def flat_hasher_def)
  have "definition_key_digest flat_hasher ''k'' = replicate 64 (CHR ''0'')"
      "definition_request_sha256 flat_hasher ''poc_00000001'' ''prop_00000001'' sample_criterion = replicate 64 (CHR ''0'')"
    by (simp_all add: definition_key_digest_def definition_request_sha256_def flat_hasher_def)
  then show ?thesis using key item
    by (simp add: define_criterion_def definition_lookup_def definition_reconcile_def fresh_definitions_def seq_apply Let_def
        define_locked_def current_kept_def one_defined_def ids_sample)
qed

theorem definition_final_witness:
  "get_definition (dn_definition_id sample_definition) one_defined = Inr sample_definition"
  using definition_final [OF sample_definitions_new, of flat_hasher "''poc_00000001''" "''prop_00000001''" sample_criterion "''k''"
      "Listing [Some (Reviewed sample_item)]" "ClockAt (Aware 0 0)" "[]" one_defined
      "\<lparr>dx_receipt = sample_definition, dx_disposition = DEFINITION_CREATED\<rparr>" one_defined "[]"] sample_define by simp

theorem definition_of_kept_proposal_witness:
  "\<exists>r. map_of (rv_decisions decided_service) (''poc_00000001'', ''prop_00000001'') = Some r \<and> rc_decision r = KEEP_FOR_CONTRACT"
proof -
  have key: "definition_key_ok ''k''" "definition_id_ok (''cdef_'' @ replicate 32 (CHR ''0''))" by code_simp+
  have "authoring_step flat_hasher (DefineKept ''poc_00000001'' ''prop_00000001'' sample_criterion ''k'' (Proposals [Some sample_proposal])
      (ClockAt (Aware 0 0))) (decided_service, fresh_definitions) = (decided_service, one_defined)"
    using key sample_define by (simp add: define_over_review_def ids_sample sample_again sample_item_def)
  moreover have "authoring_step flat_hasher (Triage (Decide sample_decision ''key_0000000000000'' (Proposals [Some sample_proposal]) (ClockAt (Aware 0 0))))
      (sample_service, fresh_definitions) = (decided_service, fresh_definitions)" by (simp add: sample_decide)
  moreover have "get_definition (''cdef_'' @ replicate 32 (CHR ''0'')) one_defined = Inr sample_definition"
    using key by (simp add: get_definition_def one_defined_def sample_definition_facts)
  ultimately show ?thesis
    using definition_of_kept_proposal [OF sample_new sample_definitions_new, of flat_hasher
      "[Triage (Decide sample_decision ''key_0000000000000'' (Proposals [Some sample_proposal]) (ClockAt (Aware 0 0))),
        DefineKept ''poc_00000001'' ''prop_00000001'' sample_criterion ''k'' (Proposals [Some sample_proposal]) (ClockAt (Aware 0 0))]"
      decided_service one_defined "''cdef_'' @ replicate 32 (CHR ''0'')" sample_definition "[]"]
    by (auto simp: sample_definition_facts)
qed

end
