(* ===== verification/Agreement_Assembly.thy ===== *)
theory Agreement_Assembly
  imports Capability_Planner Contracts Draft_Pocs
begin

section \<open>Assembling an agreement (poc_agreement.py)\<close>

text \<open>
  A capability plan that is ready becomes a contract: one capability criterion per planning record,
  with the evidence policy a supported record hands on, the limitations of the others, approved and
  ready for the customer. An exception of the models is a value of its own, so that it can be told
  from the refusals of the service.
\<close>

datatype agreement_error = AgreementInvalid | AgreementNotFound | AgreementConflict | AgreementStale
  | AgreementCapacityExceeded | ReviewLinkExpired | ReviewLinkInvalid | AgreementValidationError | AgreementAttributeError
  | AgreementValueError | AgreementTypeError | AgreementCallbackError | AgreementKeyError

subsection \<open>Texts and digests\<close>

text \<open>Control characters below a space, but line breaks and tabs, and DEL are refused.\<close>

definition agreement_text :: "nat \<Rightarrow> bool \<Rightarrow> string \<Rightarrow> string option" where
  "agreement_text maximum single_line v = (let n = py_strip v in
     if n = [] \<or> maximum < length n \<or> single_line \<and> (CHR 10 \<in> set n \<or> CHR 13 \<in> set n) \<or>
       list_ex (\<lambda>c. (of_char c :: nat) < 32 \<and> c \<notin> {CHR 10, CHR 13, CHR 9} \<or> (of_char c :: nat) = 127) n
     then None else Some n)"

definition agreement_key_digest :: "hasher \<Rightarrow> string \<Rightarrow> string option" where
  "agreement_key_digest h key = (case agreement_text 200 True key of None \<Rightarrow> None
     | Some n \<Rightarrow> Some (text_sha h (''exitspec-generic-agreement-idempotency-v1'' @ [CHR 0x00]) n))"

definition agreement_request_digest :: "hasher \<Rightarrow> json \<Rightarrow> string" where
  "agreement_request_digest h payload = json_sha h (''exitspec-generic-agreement-request-v1'' @ [CHR 0x00]) payload"

fun route_value :: "next_intake_route \<Rightarrow> string" where
  "route_value ROUTE_EMAIL = ''email''"
| "route_value ROUTE_MEETING = ''meeting''"
| "route_value ROUTE_DOCUMENT = ''document''"
| "route_value ROUTE_EXISTING_CONTRACT = ''existing_contract''"

definition draft_snapshot_json :: "draft_snapshot \<Rightarrow> json" where
  "draft_snapshot_json d = JObj [(''poc_id'', JStr (dp_poc_id d)), (''display_name'', JStr (dp_display_name d)),
     (''customer_label'', JStr (dp_customer_label d)), (''use_case'', JStr (dp_use_case d)), (''owner'', JStr (dp_owner d)),
     (''first_source_choice'', JStr (choice_value (dp_first_source_choice d))),
     (''next_intake_route'', JStr (route_value (dp_next_intake_route d))), (''source_ingestion_state'', JStr ''NOT_STARTED''),
     (''created_at'', Contracts.datetime_json (dp_created_at d)), (''updated_at'', Contracts.datetime_json (dp_updated_at d)),
     (''archive_state'', JStr (case dp_archive_state d of DRAFT_ACTIVE \<Rightarrow> ''ACTIVE'' | DRAFT_ARCHIVED \<Rightarrow> ''ARCHIVED'')),
     (''archived_at'', json_opt Contracts.datetime_json (dp_archived_at d))]"

definition capability_plan_json :: "capability_plan \<Rightarrow> json" where
  "capability_plan_json p = JObj [(''schema_version'', JStr ''exitspec.capability-plan.v1''), (''plan_id'', JStr (cp_plan_id p)),
     (''poc_id'', JStr (cp_poc_id p)), (''plan_version'', JInt (int (cp_plan_version p))),
     (''created_at'', Contracts.datetime_json (cp_created_at p)), (''records'', JArr (map planning_record_json (cp_records p))),
     (''ready_for_agreement'', JBool (cp_ready_for_agreement p)), (''authority_scope'', JStr ''PLANNING_ONLY''),
     (''may_confirm'', JBool False), (''may_freeze'', JBool False), (''may_execute'', JBool False),
     (''may_import_evidence'', JBool False), (''may_issue_verdict'', JBool False), (''may_authorize_deployment'', JBool False)]"

definition agreement_inputs_json :: "draft_snapshot \<Rightarrow> retained_proposal list \<Rightarrow> capability_plan \<Rightarrow> json" where
  "agreement_inputs_json d xs p = JObj [(''poc'', draft_snapshot_json d),
     (''retained_proposals'', JArr (map retained_json (sort_key rp_proposal_id xs))), (''capability_plan'', capability_plan_json p)]"

definition agreement_inputs_fingerprint :: "hasher \<Rightarrow> draft_snapshot \<times> retained_proposal list \<times> capability_plan \<Rightarrow> string" where
  "agreement_inputs_fingerprint h q = (case q of (d, xs, p) \<Rightarrow>
     json_sha h (''exitspec-generic-agreement-inputs-v1'' @ [CHR 0x00]) (agreement_inputs_json d xs p))"

definition plan_digest :: "hasher \<Rightarrow> capability_plan \<Rightarrow> string" where
  "plan_digest h p = json_sha h (''exitspec-a4-capability-plan-agreement-binding-v1'' @ [CHR 0x00]) (capability_plan_json p)"

definition upper_hex :: "string \<Rightarrow> string" where
  "upper_hex s = map (\<lambda>c. if is_lower c then char_of (of_char c - 32 :: nat) else c) s"

definition agreement_criterion_id :: "hasher \<Rightarrow> string \<Rightarrow> string" where
  "agreement_criterion_id h pid = ''CAP-'' @ upper_hex (take 24 (text_sha h (''exitspec-generic-agreement-criterion-v1'' @ [CHR 0x00]) pid))"

definition agreement_contract_id :: "hasher \<Rightarrow> string \<Rightarrow> capability_plan \<Rightarrow> string" where
  "agreement_contract_id h poc p = ''agreement-'' @ take 24 (json_sha h (''exitspec-generic-agreement-contract-id-v1'' @ [CHR 0x00])
     (JObj [(''poc_id'', JStr poc), (''plan_id'', JStr (cp_plan_id p))]))"

text \<open>The fixed policy of this stage: it executes and imports nothing.\<close>

definition A5_EXECUTION_POLICY :: json where
  "A5_EXECUTION_POLICY = JObj [(''schema_version'', JStr ''exitspec.a5.execution-policy.v1''),
     (''policy_id'', JStr ''exitspec.a5.freeze-only.v1''), (''execution_available'', JBool False),
     (''evidence_import_available'', JBool False), (''evidence_pack_available'', JBool False), (''verdict_available'', JBool False),
     (''generated_fixture'', JNull), (''authority'', JStr ''A6_REQUIRED'')]"

definition A5_EXECUTION_POLICY_SHA256 :: "hasher \<Rightarrow> string" where
  "A5_EXECUTION_POLICY_SHA256 h = json_sha h (''exitspec-a5-execution-policy-v1'' @ [CHR 0x00]) A5_EXECUTION_POLICY"

subsection \<open>Evidence policies\<close>

text \<open>
  The fields of a policy that are copied from the criterion are literals of its model; the
  threshold has the bounds of the model.
\<close>

definition tool_policy_ok :: "planner_criterion \<Rightarrow> bool" where
  "tool_policy_ok c \<longleftrightarrow> cri_rule c = Some ''exact_tool_selection_rate'' \<and> cri_operator c = Some ''GTE'' \<and>
     (case cri_threshold c of None \<Rightarrow> False | Some t \<Rightarrow> 0 \<le> t \<and> t \<le> 1) \<and> cri_unit c = Some ''PROPORTION'' \<and>
     cri_measurement_population c = Some ''approved_synthetic_cases'' \<and> cri_evidence_method c = Some ''EXIT_SPEC_STREAMING_PROBE'' \<and>
     cri_adapter c = Some ''deterministic_tool_selection'' \<and> cri_adapter_version c = Some ''1.0.0''"

definition ttft_policy_ok :: "planner_criterion \<Rightarrow> bool" where
  "ttft_policy_ok c \<longleftrightarrow> cri_rule c = Some ''ttft_p95'' \<and> cri_operator c = Some ''LT'' \<and>
     (case cri_threshold c of None \<Rightarrow> False | Some t \<Rightarrow> 0 < t) \<and> cri_unit c = Some ''MILLISECONDS'' \<and>
     cri_measurement_population c = Some ''successful_measured_requests_with_observed_ttft'' \<and>
     cri_evidence_method c = Some ''EXTERNAL_EVIDENCE_BUNDLE'' \<and> cri_adapter c = Some ''vllm_bench_serve'' \<and>
     cri_adapter_version c = Some ''1.0.0''"

definition criterion_policy_fields :: "planner_criterion \<Rightarrow> (string \<times> json) list" where
  "criterion_policy_fields c = [(''rule'', json_opt JStr (cri_rule c)), (''operator'', json_opt JStr (cri_operator c)),
     (''threshold'', json_opt JFloat (cri_threshold c)), (''unit'', json_opt JStr (cri_unit c)),
     (''measurement_population'', json_opt JStr (cri_measurement_population c)),
     (''evidence_method'', json_opt JStr (cri_evidence_method c)), (''adapter'', json_opt JStr (cri_adapter c)),
     (''adapter_version'', json_opt JStr (cri_adapter_version c))]"

definition tool_policy_json :: "planner_criterion \<Rightarrow> json" where
  "tool_policy_json c = JObj (criterion_policy_fields c @ [
     (''schema_version'', JStr ''exitspec.capability-evidence-policy.v1''), (''policy_id'', JStr ''support-tool-selection-v1''),
     (''capability_key'', JStr ''exact_tool_selection''),
     (''workload_path'', JStr ''examples/support-agent/fixtures/tool-selection-200.json''),
     (''workload_sha256'', JStr ''75ef6f83450de100a920e9489a0b5966464f1dba2e3d339c4b57e64fb95d8271''),
     (''workload_slice'', JStr ''support-tool-selection-v1''), (''minimum_samples'', JInt 200), (''confidence_level'', JFloat (95 / 100)),
     (''confidence_method'', JStr ''wilson_two_sided_lower_bound''), (''calculator_id'', JStr ''exitspec.statistics.wilson_lower_bound''),
     (''calculator_version'', JStr ''wilson-two-sided-v1''), (''verifier_id'', JStr ''exitspec.verdicts.evaluate_proportion_criterion''),
     (''reducer_id'', JStr ''exitspec.verdicts.aggregate_overall_verdict'')])"

definition managed_identity_json :: "planner_criterion \<Rightarrow> json" where
  "managed_identity_json c = JObj [
     (''schema_version'', JStr ''exitspec.managed-ttft-evidence-identity.v1''), (''evidence_schema_version'', JStr ''inferdrome.evidence.v1''),
     (''sequence_requirement'', JStr ''OPERATOR_MUST_FREEZE_BEFORE_MEASUREMENT''), (''chronology_assurance'', JStr ''UNAVAILABLE''),
     (''producer_name'', JStr ''vllm''), (''producer_version'', JStr ''0.26.0''), (''adapter_id'', json_opt JStr (cri_adapter c)),
     (''adapter_version'', json_opt JStr (cri_adapter_version c)),
     (''native_schema_fingerprint'', JStr ''sha256:3a4fdee6fe9b45ce5b42c41fd3bfc6614245a36ecfe6f94de92b59717a136abb''),
     (''managed_profile_id'', JStr ''inferdrome.managed-vllm-0.26-evidence-profile.v1''),
     (''managed_profile_sha256'', JStr ''sha256:9d03b5d0822ed829ddbfa4c87c75530885b9ad51ee2c0cb7c5e31a075996fe34''),
     (''local_gpu_proof_schema_id'', JStr ''urn:inferdrome:local-gpu-proof:v1''),
     (''local_gpu_proof_schema_sha256'', JStr ''sha256:cf83bbdea2bba4c30b8f0e2c5f34f34a4077501207881fdbdab021571d665547''),
     (''target_engine'', JStr ''vllm''), (''target_engine_version'', JStr ''0.26.0''), (''target_api'', JStr ''openai_chat_completions''),
     (''target_model'', JStr ''Qwen/Qwen2.5-0.5B-Instruct''), (''target_model_revision'', JStr ''7ae557604adf67be50417f59c2c2f167def9a775''),
     (''target_tokenizer_revision'', JStr ''7ae557604adf67be50417f59c2c2f167def9a775''), (''target_endpoint'', JStr ''http://127.0.0.1:18080/''),
     (''workload_id'', JStr ''inferdrome.qwen2.5-real-gpu-workload.v1''),
     (''workload_digest'', JStr ''sha256:22bf3389cc29ee946ae567870d7f8d7b458594224542a796e8990c15b1cfcd63''),
     (''source_schema_version'', JStr ''inferdrome.source-experiment.v1''),
     (''traffic'', JObj [(''schema_version'', JStr ''exitspec.inferdrome-traffic.v1''), (''policy_id'', JStr ''inferdrome.concurrent.vllm.v1''),
        (''kind'', JStr ''concurrent''), (''configured_concurrency'', JInt 4), (''warmup_requests'', JInt 10), (''measured_requests'', JInt 100)]),
     (''sampling'', JObj [(''schema_version'', JStr ''exitspec.inferdrome-sampling.v1''), (''policy_id'', JStr ''inferdrome.qwen2.5-deterministic.v1''),
        (''prompt_content_policy'', JStr ''include''), (''requested_output_tokens'', JInt 32), (''temperature'', JInt 0), (''seed'', JInt 42)]),
     (''execution_mode'', JStr ''attached_endpoint''), (''max_runtime_seconds'', JInt 900), (''max_measured_requests'', JInt 100),
     (''measurement_streaming'', JBool True), (''produced_evidence_metric_definition_id'', JStr ''vllm_first_choices_event_v0_26''),
     (''choices_span_definition_id'', JStr ''last_choices_event_span_v1''), (''metric_definitions_version'', JStr ''1.0.0''),
     (''reducer_version'', JStr ''1.0.0''), (''native_output_sensitivity'', JStr ''RESPONSE_CONTENT''), (''canonical_response_content'', JStr ''omit''),
     (''include_request_plan'', JBool True),
     (''expected_execution_fingerprint'', JStr ''sha256:76d984ea57a0e7cb00520255a6e362f22885d713a875195a7397771937060edd''),
     (''requested_criterion_metric_definition_id'', JStr ''vllm_first_choices_event_v0_26''),
     (''run_aggregation_policy'', JStr ''independent_single_run_no_pooling''), (''reducer_id'', JStr ''nearest_rank_v1''),
     (''latency_population'', JStr ''successful_measured_requests_with_observed_ttft''),
     (''reliability_population'', JObj [(''schema_version'', JStr ''exitspec.inferdrome-reliability-population.v1''),
        (''population_id'', JStr ''exitspec.inferdrome-reliability.v1''), (''operator'', JStr ''lt''), (''threshold_basis_points'', JInt 100),
        (''numerator'', JStr ''failed_or_anomalous_native_measured_requests''), (''denominator'', JStr ''all_measured_requests''), (''exact_attempts'', JInt 100)]),
     (''claims_assurance'', JStr ''INTERNAL_CONSISTENCY_ONLY''),
     (''canonicalization'', JObj [(''canonicalization_scheme_id'', JStr ''rfc8785_jcs_v1''), (''canonical_bytes_encoding'', JStr ''utf-8_rfc8785_jcs''),
        (''hash_algorithm_id'', JStr ''sha256_v1''), (''hash_encoding_id'', JStr ''lowercase_hex_without_prefix''),
        (''link_derivation_policy_id'', JStr ''exitspec.producer_link.sha256_canonical_hash.v1''),
        (''link_derivation_input'', JStr ''bare_canonical_hash''), (''link_derivation_operation'', JStr ''prefix_sha256_no_second_hash'')])]"

definition ttft_policy_json :: "planner_criterion \<Rightarrow> json" where
  "ttft_policy_json c = JObj (criterion_policy_fields c @ [
     (''schema_version'', JStr ''exitspec.capability-evidence-policy.v1''),
     (''policy_id'', JStr ''inferdrome.managed-vllm-0.26-evidence-profile.v1''), (''capability_key'', JStr ''inference_performance_external''),
     (''workload_id'', JStr ''inferdrome.qwen2.5-real-gpu-workload.v1''),
     (''workload_digest'', JStr ''sha256:22bf3389cc29ee946ae567870d7f8d7b458594224542a796e8990c15b1cfcd63''),
     (''profile_id'', JStr ''inferdrome.managed-vllm-0.26-evidence-profile.v1''),
     (''profile_digest'', JStr ''sha256:9d03b5d0822ed829ddbfa4c87c75530885b9ad51ee2c0cb7c5e31a075996fe34''),
     (''native_metric'', JStr ''vllm_first_choices_event_v0_26''), (''configured_concurrency'', JInt 4), (''warmup_requests'', JInt 10),
     (''attempts'', JInt 100), (''minimum_successful_samples'', JInt 100), (''sampling_seed'', JInt 42), (''sampling_temperature'', JInt 0),
     (''requested_output_tokens'', JInt 32), (''reducer_id'', JStr ''nearest_rank_v1''), (''reducer_version'', JStr ''1.0.0''),
     (''aggregation_policy'', JStr ''independent_single_run_no_pooling''),
     (''bundle_verifier_id'', JStr ''exitspec.inferdrome_bundle.verify_inferdrome_bundle''), (''bundle_verifier_version'', JStr ''1.0.0''),
     (''invocation_profile_validator_id'', JStr ''exitspec.inferdrome_managed_profile.validate_managed_invocation_profile''),
     (''local_gpu_proof_validator_id'', JStr ''exitspec.inferdrome_managed_profile.validate_managed_local_gpu_proof''),
     (''recalculation_id'', JStr ''exitspec.inferdrome-recalculation.v1''),
     (''importer_calculation_id'', JStr ''exitspec.inferdrome-managed-importer.v1''), (''identity'', managed_identity_json c)])"

definition evidence_policy_digest :: "hasher \<Rightarrow> json \<Rightarrow> string" where
  "evidence_policy_digest h policy = json_sha h (''exitspec-capability-evidence-policy-v1'' @ [CHR 0x00]) policy"

definition binding_json :: "hasher \<Rightarrow> planning_disposition \<Rightarrow> json \<Rightarrow> json" where
  "binding_json h d policy = JObj [(''schema_version'', JStr ''exitspec.capability-evidence-binding.v1''),
     (''binding_type'', JStr (disposition_value d)), (''policy'', policy), (''policy_sha256'', JStr (evidence_policy_digest h policy))]"

text \<open>\<open>_evidence_binding\<close> for a supported record: None where a model refuses the policy.\<close>

definition capability_binding :: "hasher \<Rightarrow> planning_disposition \<Rightarrow> planner_criterion \<Rightarrow> json option" where
  "capability_binding h d c = (if d = EXECUTABLE then if tool_policy_ok c then Some (binding_json h d (tool_policy_json c)) else None
     else if d = EVIDENCE_IMPORT then if ttft_policy_ok c then Some (binding_json h d (ttft_policy_json c)) else None
     else None)"

subsection \<open>Criteria\<close>

definition bounded_text :: "nat \<Rightarrow> string \<Rightarrow> bool" where
  "bounded_text n s \<longleftrightarrow> 1 \<le> length s \<and> length s \<le> n"

definition optional_text_ok :: "string option \<Rightarrow> bool" where
  "optional_text_ok v \<longleftrightarrow> v \<noteq> Some []"

definition plan_id_ok :: "string \<Rightarrow> bool" where
  "plan_id_ok s \<longleftrightarrow> starts_with ''cplan_'' s \<and> hex_text 32 (drop 6 s)"

definition item_id_ok :: "string \<Rightarrow> bool" where
  "item_id_ok s \<longleftrightarrow> starts_with ''cpitem_'' s \<and> hex_text 32 (drop 7 s)"

text \<open>
  The field constraints of \<open>CapabilityCriterion\<close>, its source reference included, on the values the
  assembly passes; the constant ones hold.
\<close>

definition criterion_fields_ok :: "hasher \<Rightarrow> planning_record \<Rightarrow> draft_snapshot \<Rightarrow> retained_proposal \<Rightarrow> capability_plan \<Rightarrow> string \<Rightarrow> string \<Rightarrow> string \<Rightarrow> bool" where
  "criterion_fields_ok h r d x p sha reviewer rationale \<longleftrightarrow>
     criterion_id_ok (agreement_criterion_id h (pn_proposal_id r)) \<and> pn_normalized_claim r \<noteq> [] \<and> pn_source_quote r \<noteq> [] \<and>
     poc_id_ok (dp_poc_id d) \<and> bounded_text 160 (pn_capability_key r) \<and> item_id_ok (pn_planning_item_id r) \<and>
     proposal_id_ok (pn_proposal_id r) \<and> bounded_text 160 (rp_proposal_key x) \<and> receipt_id_ok (pn_source_receipt_id r) \<and>
     source_id_ok (pn_source_id r) \<and> is_sha256 (pn_source_content_sha256 r) \<and> 1 \<le> pn_source_revision r \<and>
     bounded_text 64 (rp_source_adapter_name x) \<and> bounded_text 64 (rp_source_adapter_version x) \<and>
     bounded_text 64 (rp_redaction_policy_version x) \<and> bounded_text 160 (pn_authoring_receipt_id r) \<and>
     bounded_text 160 (pn_authoring_result_id r) \<and> plan_id_ok (cp_plan_id p) \<and> 1 \<le> cp_plan_version p \<and> is_sha256 sha \<and>
     bounded_text 160 (pn_reviewer r) \<and> bounded_text 2000 (pn_rationale r) \<and> bounded_text 2000 (pn_reason r) \<and>
     bounded_text 2000 (pn_next_action r) \<and> bounded_text 160 reviewer \<and> bounded_text 2000 rationale \<and> dp_owner d \<noteq> [] \<and>
     (case pn_criterion r of None \<Rightarrow> True | Some c \<Rightarrow> list_all optional_text_ok [cri_rule c, cri_operator c, cri_unit c,
        cri_measurement_population c, cri_evidence_method c, cri_adapter c, cri_adapter_version c])"

text \<open>The keys and profiles of the two evidence policies.\<close>

definition policy_capability_key :: "planning_disposition \<Rightarrow> string" where
  "policy_capability_key d = (if d = EXECUTABLE then ''exact_tool_selection'' else ''inference_performance_external'')"

definition MANAGED_PROFILE :: string where
  "MANAGED_PROFILE = ''inferdrome.managed-vllm-0.26-evidence-profile.v1''"

text \<open>
  \<open>require_traceable_origin\<close>: a supported criterion is complete and matches its binding, whose other
  fields are copies; any other carries none of its fields.
\<close>

definition criterion_shape_ok :: "planning_record \<Rightarrow> json option \<Rightarrow> bool" where
  "criterion_shape_ok r binding = (if pn_disposition r \<in> {EXECUTABLE, EVIDENCE_IMPORT}
     then (case pn_criterion r of None \<Rightarrow> False | Some c \<Rightarrow>
       \<not> pn_explicit_exclusion r \<and> missing_fields (Some c) = [] \<and> binding \<noteq> None \<and>
       pn_capability_key r = policy_capability_key (pn_disposition r) \<and>
       cri_evidence_profile c = (if pn_disposition r = EVIDENCE_IMPORT then Some MANAGED_PROFILE else None))
     else (case pn_criterion r of None \<Rightarrow> True | Some c \<Rightarrow> criterion_blank c) \<and> binding = None \<and>
       \<not> (pn_explicit_exclusion r \<and> pn_disposition r \<noteq> UNSUPPORTED))"

definition record_source :: "planning_record \<Rightarrow> source_reference" where
  "record_source r = \<lparr>src_speaker = ''customer_source'', src_quote = pn_source_quote r,
     src_location = pn_source_id r @ '':'' @ pn_source_receipt_id r @ ''/'' @ pn_proposal_id r\<rparr>"

definition criterion_other_fields :: "planning_record \<Rightarrow> draft_snapshot \<Rightarrow> retained_proposal \<Rightarrow> json option \<Rightarrow> string \<Rightarrow> string \<Rightarrow> (string \<times> json) list" where
  "criterion_other_fields r d x binding reviewer rationale = (let opt = (\<lambda>f. case pn_criterion r of None \<Rightarrow> JNull | Some c \<Rightarrow> f c) in [
     (''schema_version'', JStr ''exitspec.capability-criterion.v1''), (''title'', JStr (take 2000 (pn_normalized_claim r))),
     (''source'', source_json (record_source r)), (''human_added'', JBool False), (''normalized_claim'', JStr (pn_normalized_claim r)),
     (''capability_key'', JStr (pn_capability_key r)), (''planning_scope'', JStr (scope_value (pn_scope r))),
     (''planning_disposition'', JStr (disposition_value (pn_disposition r))),
     (''provenance'', opt (\<lambda>c. json_opt (\<lambda>v. JStr (provenance_value v)) (cri_provenance c))),
     (''proposal_key'', JStr (rp_proposal_key x)), (''source_receipt_id'', JStr (pn_source_receipt_id r)),
     (''source_id'', JStr (pn_source_id r)), (''source_kind'', JStr (source_kind_value (pn_source_kind r))),
     (''source_content_sha256'', JStr (pn_source_content_sha256 r)), (''source_revision'', JInt (int (pn_source_revision r))),
     (''source_adapter_name'', JStr (rp_source_adapter_name x)), (''source_adapter_version'', JStr (rp_source_adapter_version x)),
     (''redaction_policy_version'', JStr (rp_redaction_policy_version x)), (''authoring_receipt_id'', JStr (pn_authoring_receipt_id r)),
     (''authoring_result_id'', JStr (pn_authoring_result_id r)), (''planner_reviewer'', JStr (pn_reviewer r)),
     (''planner_rationale'', JStr (pn_rationale r)), (''planning_reason'', JStr (pn_reason r)),
     (''planning_next_action'', JStr (pn_next_action r)), (''explicit_exclusion'', JBool (pn_explicit_exclusion r)),
     (''assembly_reviewer'', JStr reviewer), (''assembly_rationale'', JStr rationale), (''rule'', opt (\<lambda>c. json_opt JStr (cri_rule c))),
     (''operator'', opt (\<lambda>c. json_opt JStr (cri_operator c))), (''threshold'', opt (\<lambda>c. json_opt JFloat (cri_threshold c))),
     (''unit'', opt (\<lambda>c. json_opt JStr (cri_unit c))), (''measurement_population'', opt (\<lambda>c. json_opt JStr (cri_measurement_population c))),
     (''evidence_method'', opt (\<lambda>c. json_opt JStr (cri_evidence_method c))), (''adapter'', opt (\<lambda>c. json_opt JStr (cri_adapter c))),
     (''adapter_version'', opt (\<lambda>c. json_opt JStr (cri_adapter_version c))),
     (''evidence_profile'', opt (\<lambda>c. json_opt JStr (cri_evidence_profile c))), (''evidence_binding'', json_opt (\<lambda>b. b) binding),
     (''execution_available'', JBool False), (''owner'', JStr (dp_owner d)),
     (''evidence_policy'', opt (\<lambda>c. JStr (''A5 freezes the customer agreement only; a later approved A6 '' @
        ''measurement/import boundary must supply evidence.'')))])"

text \<open>
  \<open>_build_criterion\<close>. A criterion without a provenance has no \<open>.value\<close> to read, whatever the
  disposition; a policy that refuses the criterion does so before the model of the criterion.
\<close>

definition build_criterion :: "hasher \<Rightarrow> planning_record \<Rightarrow> draft_snapshot \<Rightarrow> retained_proposal \<Rightarrow> capability_plan \<Rightarrow> string \<Rightarrow> string \<Rightarrow> string \<Rightarrow>
    agreement_error + contract_criterion" where
  "build_criterion h r d x p sha reviewer rationale = (
     let supported = pn_disposition r \<in> {EXECUTABLE, EVIDENCE_IMPORT};
         binding = (case pn_criterion r of None \<Rightarrow> None | Some c \<Rightarrow> capability_binding h (pn_disposition r) c) in
     if supported \<and> pn_criterion r = None then Inl AgreementInvalid
     else if (case pn_criterion r of None \<Rightarrow> False | Some c \<Rightarrow> cri_provenance c = None) then Inl AgreementAttributeError
     else if supported \<and> binding = None then Inl AgreementValidationError
     else if \<not> criterion_fields_ok h r d x p sha reviewer rationale \<or> \<not> criterion_shape_ok r binding then Inl AgreementValidationError
     else Inr (Capability \<lparr>cap_id = agreement_criterion_id h (pn_proposal_id r), cap_must_have = (pn_scope r = MUST_HAVE),
       cap_poc_id = dp_poc_id d, cap_planning_item_id = pn_planning_item_id r, cap_proposal_id = pn_proposal_id r,
       cap_a4_plan_id = cp_plan_id p, cap_a4_plan_version = int (cp_plan_version p), cap_a4_plan_sha256 = sha, cap_approved = True,
       cap_other_fields = criterion_other_fields r d x binding reviewer rationale\<rparr>))"

subsection \<open>The contract\<close>

fun scope_lower :: "planning_scope \<Rightarrow> string" where
  "scope_lower MUST_HAVE = ''must_have''"
| "scope_lower ADVISORY = ''advisory''"

definition limitation_text :: "planning_record \<Rightarrow> string" where
  "limitation_text r = (if pn_explicit_exclusion r
     then ''Excluded claim '' @ pn_proposal_id r @ '' remains visible and non-executable: '' @ pn_reason r
     else ''Nonblocking '' @ scope_lower (pn_scope r) @ '' limitation for '' @ pn_proposal_id r @ '' ('' @
       disposition_value (pn_disposition r) @ ''): '' @ pn_reason r)"

definition base_limitations :: "hasher \<Rightarrow> capability_plan \<Rightarrow> string list" where
  "base_limitations h p = [
     ''Bound A4 capability plan '' @ cp_plan_id p @ '', version '' @ show_nat (cp_plan_version p) @ '', fingerprint sha256:'' @ plan_digest h p @ ''.'',
     ''A5 execution policy exitspec.a5.freeze-only.v1, fingerprint sha256:'' @ A5_EXECUTION_POLICY_SHA256 h @
       ''; no generated fixture or executable workload is created by A5.'',
     ''A5 stops after an immutable customer-confirmed freeze; it does not execute or import evidence, issue an Evidence Pack, or issue a verdict.'']"

text \<open>The later of two retained proposals of one identifier is the one the dict has.\<close>

definition proposal_of :: "retained_proposal list \<Rightarrow> string \<Rightarrow> retained_proposal option" where
  "proposal_of xs i = find (\<lambda>x. rp_proposal_id x = i) (List.rev xs)"

definition unresolved_must_have :: "planning_record \<Rightarrow> bool" where
  "unresolved_must_have r \<longleftrightarrow> pn_scope r = MUST_HAVE \<and> pn_disposition r \<in> {CLARIFICATION_REQUIRED, UNSUPPORTED} \<and> \<not> pn_explicit_exclusion r"

fun assemble_criteria :: "hasher \<Rightarrow> draft_snapshot \<Rightarrow> retained_proposal list \<Rightarrow> capability_plan \<Rightarrow> string \<Rightarrow> string \<Rightarrow> string \<Rightarrow> planning_record list \<Rightarrow>
    agreement_error + contract_criterion list \<times> string list" where
  "assemble_criteria h d xs p sha reviewer rationale [] = Inr ([], [])"
| "assemble_criteria h d xs p sha reviewer rationale (r # rs) = (if unresolved_must_have r then Inl AgreementInvalid
     else case proposal_of xs (pn_proposal_id r) of None \<Rightarrow> Inl AgreementInvalid
     | Some x \<Rightarrow> (case build_criterion h r d x p sha reviewer rationale of Inl e \<Rightarrow> Inl e
       | Inr c \<Rightarrow> (case assemble_criteria h d xs p sha reviewer rationale rs of Inl e \<Rightarrow> Inl e
         | Inr (cs, ls) \<Rightarrow> Inr (c # cs,
             if pn_disposition r \<in> {EXECUTABLE, EVIDENCE_IMPORT} then ls else limitation_text r # ls))))"

text \<open>A validation that fails is the exception of the models, a refused transition a plain one.\<close>

definition model_result :: "contract_error + 'a \<Rightarrow> agreement_error + 'a" where
  "model_result v = (case v of Inr c \<Rightarrow> Inr c | Inl ContractInvalid \<Rightarrow> Inl AgreementValidationError
   | Inl ConfirmationInvalid \<Rightarrow> Inl AgreementValidationError | Inl e \<Rightarrow> Inl AgreementValueError)"

definition draft_contract :: "hasher \<Rightarrow> draft_snapshot \<Rightarrow> string \<Rightarrow> string \<Rightarrow> string option \<Rightarrow> py_datetime \<Rightarrow> contract_criterion list \<Rightarrow> string list \<Rightarrow> poc_contract" where
  "draft_contract h d version cid parent now cs ls = \<lparr>pc_id = cid, pc_version = version, pc_status = C_DRAFT, pc_created_at = now,
     pc_approved_at = None, pc_frozen_at = None, pc_customer = dp_customer_label d, pc_use_case = dp_use_case d,
     pc_target_system = \<lparr>ts_provider = ''ExitSpec'', ts_endpoint_class = ''process-local-capability-agreement'',
       ts_model = ''customer-confirmed-A4-plan''\<rparr>,
     pc_workload = \<lparr>wl_fixture_path = ''policy://exitspec.a5.freeze-only.v1'', wl_sha256 = A5_EXECUTION_POLICY_SHA256 h\<rparr>,
     pc_criteria = cs, pc_owners = [dp_owner d], pc_non_goals = ls,
     pc_evidence_retention_policy = ''No evidence is created by A5. A later A6 boundary must be explicitly approved.'',
     pc_parent_version = parent, pc_confirmation_id = None, pc_canonical_hash = None\<rparr>"

definition approve_draft :: "poc_contract \<Rightarrow> py_datetime \<Rightarrow> contract_error + poc_contract" where
  "approve_draft c now = (case validated c of Inl e \<Rightarrow> Inl e
   | Inr c0 \<Rightarrow> (case transition_contract c0 C_IN_REVIEW now of Inl e \<Rightarrow> Inl e
     | Inr c1 \<Rightarrow> (case validated (c1\<lparr>pc_criteria := map (with_approved True) (pc_criteria c1)\<rparr>) of Inl e \<Rightarrow> Inl e
       | Inr c2 \<Rightarrow> transition_contract c2 C_APPROVED now)))"

definition assemble_contract :: "hasher \<Rightarrow> draft_snapshot \<Rightarrow> retained_proposal list \<Rightarrow> capability_plan \<Rightarrow> string \<Rightarrow> string \<Rightarrow> string option \<Rightarrow>
    py_datetime \<Rightarrow> string \<Rightarrow> string \<Rightarrow> agreement_error + poc_contract \<times> string list" where
  "assemble_contract h d xs p version cid parent now reviewer rationale = (
     if dp_archive_state d \<noteq> DRAFT_ACTIVE then Inl AgreementInvalid
     else if \<not> dt_aware now then Inl AgreementInvalid
     else case assemble_criteria h d xs p (plan_digest h p) reviewer rationale (cp_records p) of Inl e \<Rightarrow> Inl e
     | Inr (cs, ls) \<Rightarrow> (let limits = base_limitations h p @ ls in
         case model_result (approve_draft (draft_contract h d version cid parent now cs limits) now) of Inl e \<Rightarrow> Inl e
         | Inr c \<Rightarrow> Inr (c, limits)))"

record agreement_preparation =
  ap_poc :: draft_snapshot
  ap_contract :: poc_contract
  ap_plan :: capability_plan
  ap_retained :: "retained_proposal list"
  ap_limitations :: "string list"
  ap_prepared_at :: py_datetime
  ap_input_fingerprint :: string
  ap_draft_sha256 :: string
  ap_reviewer :: string
  ap_rationale :: string

definition agreement_draft_sha256 :: "hasher \<Rightarrow> draft_snapshot \<Rightarrow> poc_contract \<Rightarrow> capability_plan \<Rightarrow> string \<Rightarrow> py_datetime \<Rightarrow> string \<Rightarrow> string \<Rightarrow> string" where
  "agreement_draft_sha256 h d c p fp now reviewer rationale = json_sha h (''exitspec-generic-agreement-draft-v1'' @ [CHR 0x00])
     (JObj [(''poc_id'', JStr (dp_poc_id d)), (''contract_id'', JStr (pc_id c)), (''contract_version'', JStr (pc_version c)),
       (''contract_fingerprint'', JStr (contract_confirmation_fingerprint h c)), (''input_fingerprint'', JStr fp),
       (''plan_id'', JStr (cp_plan_id p)), (''plan_version'', JInt (int (cp_plan_version p))), (''assembly_reviewer'', JStr reviewer),
       (''assembly_rationale'', JStr rationale), (''created_at'', Contracts.datetime_json now)])"

type_synonym agreement_inputs = "draft_snapshot \<times> retained_proposal list \<times> capability_plan"

definition prepare_from_inputs :: "hasher \<Rightarrow> agreement_inputs \<Rightarrow> string \<Rightarrow> string \<Rightarrow> string option \<Rightarrow> py_datetime \<Rightarrow> string \<Rightarrow> string \<Rightarrow>
    agreement_error + agreement_preparation" where
  "prepare_from_inputs h q version cid parent now reviewer rationale = (case q of (d, xs, p) \<Rightarrow>
     (case assemble_contract h d xs p version cid parent now reviewer rationale of Inl e \<Rightarrow> Inl e
     | Inr (c, ls) \<Rightarrow> (let fp = agreement_inputs_fingerprint h q in
         Inr \<lparr>ap_poc = d, ap_contract = c, ap_plan = p, ap_retained = xs, ap_limitations = ls, ap_prepared_at = now,
           ap_input_fingerprint = fp, ap_draft_sha256 = agreement_draft_sha256 h d c p fp now reviewer rationale,
           ap_reviewer = reviewer, ap_rationale = rationale\<rparr>)))"

end
