(* ===== verification/Agreement.thy ===== *)
theory Agreement
  imports Agreement_Assembly
begin

section \<open>The customer-confirmed agreement (poc_agreement.py, review_links.py, poc_agreement_web_api.py)\<close>

text \<open>
  The service prepares an agreement from the current draft, retained proposals and plan, sends the
  customer a link, records the decision, revises after a request for changes and freezes after a
  confirmation. The inputs are read twice by every operation that needs them, and rebuilt from
  before the contract is relied on. What the injected lookups and clock yield are arguments, as are
  the keyed token \<open>mac\<close> and the random part of an identifier; the guard that lets one operation
  per POC run at a time makes each operation one step.
\<close>

subsection \<open>Review links\<close>

record review_link =
  lk_invitation_id :: string
  lk_contract_id :: string
  lk_contract_version :: string
  lk_confirmation_fingerprint :: string
  lk_token_digest :: string
  lk_created_at :: py_datetime
  lk_expires_at :: py_datetime

definition review_link_ok :: "review_link \<Rightarrow> bool" where
  "review_link_ok l \<longleftrightarrow> py_strip (lk_invitation_id l) \<noteq> [] \<and> py_strip (lk_contract_id l) \<noteq> [] \<and>
     py_strip (lk_contract_version l) \<noteq> [] \<and> length (lk_confirmation_fingerprint l) = 64 \<and> length (lk_token_digest l) = 64 \<and>
     dt_aware (lk_created_at l) \<and> dt_aware (lk_expires_at l) \<and> instant (lk_created_at l) < instant (lk_expires_at l)"

definition make_review_link :: "review_link \<Rightarrow> agreement_error + review_link" where
  "make_review_link l = (if review_link_ok l then Inr l else Inl AgreementValueError)"

definition DEFAULT_REVIEW_TTL :: int where
  "DEFAULT_REVIEW_TTL = 7200000000"

definition token_digest_text :: "hasher \<Rightarrow> string \<Rightarrow> string" where
  "token_digest_text h token = text_sha h [] token"

fun dt_plus :: "py_datetime \<Rightarrow> int \<Rightarrow> py_datetime" where
  "dt_plus (Naive t) d = Naive (t + d)"
| "dt_plus (Aware t off) d = Aware (t + d) off"

text \<open>Called with the time, the token and the identifier: no default is needed.\<close>

definition issue_review_link :: "hasher \<Rightarrow> string \<Rightarrow> string \<Rightarrow> string \<Rightarrow> py_datetime \<Rightarrow> int \<Rightarrow> string \<Rightarrow> string \<Rightarrow> agreement_error + review_link" where
  "issue_review_link h cid version fp created ttl token lid = (
     if \<not> dt_aware created then Inl AgreementValueError
     else if ttl \<le> 0 then Inl AgreementValueError
     else if py_strip token = [] then Inl AgreementValueError
     else make_review_link \<lparr>lk_invitation_id = lid, lk_contract_id = cid, lk_contract_version = version,
       lk_confirmation_fingerprint = fp, lk_token_digest = token_digest_text h token, lk_created_at = created,
       lk_expires_at = dt_plus created ttl\<rparr>)"

definition link_accepts :: "hasher \<Rightarrow> review_link \<Rightarrow> string \<Rightarrow> py_datetime \<Rightarrow> agreement_error + bool" where
  "link_accepts h l token now = (if \<not> dt_aware now then Inl AgreementValueError
     else if instant (lk_expires_at l) \<le> instant now then Inr False
     else Inr (token \<noteq> [] \<and> lk_token_digest l = token_digest_text h token))"

definition link_require_valid :: "hasher \<Rightarrow> review_link \<Rightarrow> string \<Rightarrow> py_datetime \<Rightarrow> agreement_error option" where
  "link_require_valid h l token now = first_error [
     (\<not> dt_aware now, AgreementValueError),
     (instant (lk_expires_at l) \<le> instant now, ReviewLinkExpired),
     (token = [], ReviewLinkInvalid),
     (lk_token_digest l \<noteq> token_digest_text h token, ReviewLinkInvalid)]"

subsection \<open>Current inputs\<close>

text \<open>What a lookup yields; an exception that is not of the service's own is a conflict.\<close>

datatype 'a agreement_answer = AnswerRaises agreement_error | AnswerStale | AnswerOther | Answer 'a

record agreement_reading =
  an_poc :: "draft_snapshot agreement_answer"
  an_retained :: "retained_proposal option list agreement_answer"
  an_plan :: "capability_plan agreement_answer"

definition agreement_family :: "agreement_error \<Rightarrow> bool" where
  "agreement_family e \<longleftrightarrow> e \<in> {AgreementInvalid, AgreementNotFound, AgreementConflict, AgreementStale, AgreementCapacityExceeded}"

fun read_answer :: "'a agreement_answer \<Rightarrow> agreement_error + 'a option" where
  "read_answer (AnswerRaises e) = Inl (if agreement_family e then e else AgreementConflict)"
| "read_answer AnswerStale = Inl AgreementStale"
| "read_answer AnswerOther = Inr None"
| "read_answer (Answer x) = Inr (Some x)"

text \<open>The field constraints of \<open>RetainedProposalProjection\<close>; its numeric facts are valid.\<close>

definition retained_key_ok :: "string \<Rightarrow> bool" where
  "retained_key_ok s \<longleftrightarrow> (case s of [] \<Rightarrow> False | c # cs \<Rightarrow> lower_alnum c \<and> length cs \<le> 63 \<and>
     list_all (\<lambda>c. lower_alnum c \<or> c \<in> {CHR ''_'', CHR ''.'', CHR ''-''}) cs)"

definition retained_ok :: "retained_proposal \<Rightarrow> bool" where
  "retained_ok x \<longleftrightarrow> poc_id_ok (rp_poc_id x) \<and> proposal_id_ok (rp_proposal_id x) \<and>
     starts_with ''arcp_'' (rp_authoring_receipt_id x) \<and> hex_text 32 (drop 5 (rp_authoring_receipt_id x)) \<and>
     starts_with ''ares_'' (rp_authoring_result_id x) \<and> hex_text 32 (drop 5 (rp_authoring_result_id x)) \<and>
     receipt_id_ok (rp_source_receipt_id x) \<and> source_id_ok (rp_source_id x) \<and> is_sha256 (rp_source_content_sha256 x) \<and>
     1 \<le> rp_source_revision x \<and> bounded_text 64 (rp_source_adapter_name x) \<and> bounded_text 64 (rp_source_adapter_version x) \<and>
     bounded_text 64 (rp_redaction_policy_version x) \<and> retained_key_ok (rp_proposal_key x) \<and>
     bounded_text 4000 (rp_source_quote x) \<and> bounded_text 2000 (rp_normalized_claim x) \<and> bounded_text 160 (rp_reviewer x) \<and>
     bounded_text 2000 (rp_rationale x)"

text \<open>A plan is validated again, its records and their criteria with it, and must come out as it was.\<close>

definition plan_revalidates :: "hasher \<Rightarrow> capability_plan \<Rightarrow> bool" where
  "plan_revalidates h p \<longleftrightarrow> list_all (\<lambda>r. (case pn_criterion r of None \<Rightarrow> True | Some c \<Rightarrow> make_planner_criterion c = Some c) \<and>
     make_planning_record r = Some r) (cp_records p) \<and> capability_plan_ok h p"

fun scan_retained :: "string \<Rightarrow> string list \<Rightarrow> retained_proposal option list \<Rightarrow> agreement_error + retained_proposal list" where
  "scan_retained poc seen [] = Inr []"
| "scan_retained poc seen (None # xs) = Inl AgreementConflict"
| "scan_retained poc seen (Some x # xs) = (if rp_poc_id x \<noteq> poc \<or> \<not> retained_ok x \<or> rp_proposal_id x \<in> set seen then Inl AgreementConflict
     else case scan_retained poc (rp_proposal_id x # seen) xs of Inl e \<Rightarrow> Inl e | Inr ys \<Rightarrow> Inr (x # ys))"

definition binding_matches :: "planning_record \<Rightarrow> retained_proposal \<Rightarrow> bool" where
  "binding_matches r x \<longleftrightarrow> pn_source_receipt_id r = rp_source_receipt_id x \<and> pn_source_kind r = rp_source_kind x \<and>
     pn_authoring_receipt_id r = rp_authoring_receipt_id x \<and> pn_authoring_result_id r = rp_authoring_result_id x \<and>
     pn_source_id r = rp_source_id x \<and> pn_source_content_sha256 r = rp_source_content_sha256 x \<and>
     pn_source_revision r = rp_source_revision x \<and> pn_source_quote r = rp_source_quote x \<and>
     pn_normalized_claim r = rp_normalized_claim x"

fun bind_records :: "string \<Rightarrow> retained_proposal list \<Rightarrow> string list \<Rightarrow> planning_record list \<Rightarrow> agreement_error option" where
  "bind_records poc xs seen [] = None"
| "bind_records poc xs seen (r # rs) = (if pn_proposal_id r \<in> set seen then Some AgreementConflict
     else if pn_poc_id r \<noteq> poc then Some AgreementConflict
     else case proposal_of xs (pn_proposal_id r) of None \<Rightarrow> Some AgreementConflict
     | Some x \<Rightarrow> if \<not> binding_matches r x then Some AgreementStale else bind_records poc xs (pn_proposal_id r # seen) rs)"

definition check_inputs :: "hasher \<Rightarrow> string \<Rightarrow> draft_snapshot option \<Rightarrow> retained_proposal option list option \<Rightarrow> capability_plan option \<Rightarrow>
    agreement_error + agreement_inputs" where
  "check_inputs h poc draft raw plan = (case draft of None \<Rightarrow> Inl AgreementConflict
   | Some d \<Rightarrow> if dp_poc_id d \<noteq> poc then Inl AgreementConflict
     else if dp_archive_state d \<noteq> DRAFT_ACTIVE then Inl AgreementNotFound
     else (case plan of None \<Rightarrow> Inl AgreementConflict
     | Some p \<Rightarrow> if cp_poc_id p \<noteq> poc then Inl AgreementConflict
       else if \<not> plan_revalidates h p \<or> \<not> cp_ready_for_agreement p then Inl AgreementConflict
       else (case raw of None \<Rightarrow> Inl AgreementConflict
       | Some ys \<Rightarrow> (case scan_retained poc [] ys of Inl e \<Rightarrow> Inl e
         | Inr xs \<Rightarrow> if xs = [] then Inl AgreementInvalid
           else (case bind_records poc xs [] (cp_records p) of Some e \<Rightarrow> Inl e
           | None \<Rightarrow> if set (map pn_proposal_id (cp_records p)) \<noteq> set (map rp_proposal_id xs) then Inl AgreementConflict
             else Inr (d, sort_key rp_proposal_id xs, p))))))"

definition current_inputs :: "hasher \<Rightarrow> string \<Rightarrow> agreement_reading \<Rightarrow> agreement_error + agreement_inputs" where
  "current_inputs h poc n = (case read_answer (an_poc n) of Inl e \<Rightarrow> Inl e
   | Inr d \<Rightarrow> (case read_answer (an_retained n) of Inl e \<Rightarrow> Inl e
     | Inr xs \<Rightarrow> (case read_answer (an_plan n) of Inl e \<Rightarrow> Inl e
       | Inr p \<Rightarrow> check_inputs h poc d xs p)))"

definition stable_inputs :: "hasher \<Rightarrow> string \<Rightarrow> agreement_reading \<times> agreement_reading \<Rightarrow> agreement_error + agreement_inputs" where
  "stable_inputs h poc two = (case current_inputs h poc (fst two) of Inl e \<Rightarrow> Inl e
   | Inr a \<Rightarrow> (case current_inputs h poc (snd two) of Inl e \<Rightarrow> Inl e
     | Inr b \<Rightarrow> if agreement_inputs_fingerprint h a \<noteq> agreement_inputs_fingerprint h b then Inl AgreementStale else Inr b))"

subsection \<open>The state\<close>

record agreement_revision =
  av_revision_id :: string
  av_revision_number :: nat
  av_parent_contract_id :: string
  av_parent_contract_version :: string
  av_parent_draft_sha256 :: string
  av_requested_at :: py_datetime
  av_request_rationale :: string
  av_assembly_reviewer :: string
  av_assembly_rationale :: string
  av_successor_input_fingerprint :: string
  av_successor_draft_sha256 :: string
  av_successor_contract_fingerprint :: string

record agreement_version =
  ah_preparation :: agreement_preparation
  ah_review_invitation :: review_link
  ah_confirmation :: contract_confirmation
  ah_superseded_at :: py_datetime

text \<open>Each table of keys is of one operation, whose name its keys leave out.\<close>

type_synonym agreement_keys = "((string \<times> string) \<times> string) list"

record agreement_service =
  ag_max_agreements :: nat
  ag_preparations :: "(string \<times> agreement_preparation) list"
  ag_invitations :: "(string \<times> review_link) list"
  ag_confirmations :: "(string \<times> contract_confirmation) list"
  ag_frozen :: "(string \<times> poc_contract) list"
  ag_history :: "(string \<times> agreement_version list) list"
  ag_revisions :: "(string \<times> agreement_revision) list"
  ag_prepare_keys :: agreement_keys
  ag_decision_keys :: agreement_keys
  ag_freeze_keys :: agreement_keys
  ag_revision_keys :: agreement_keys
  ag_review_keys :: agreement_keys
  ag_revision_results :: "((string \<times> string) \<times> agreement_revision) list"

type_synonym 'a agreement_act = "(agreement_service, agreement_error, 'a) action"

definition agreement_service_new :: "nat \<Rightarrow> agreement_error + agreement_service" where
  "agreement_service_new n = (if \<not> (1 \<le> n \<and> n \<le> 10000) then Inl AgreementValueError
     else Inr \<lparr>ag_max_agreements = n, ag_preparations = [], ag_invitations = [], ag_confirmations = [], ag_frozen = [],
       ag_history = [], ag_revisions = [], ag_prepare_keys = [], ag_decision_keys = [], ag_freeze_keys = [],
       ag_revision_keys = [], ag_review_keys = [], ag_revision_results = []\<rparr>)"

definition history_of :: "agreement_service \<Rightarrow> string \<Rightarrow> agreement_version list" where
  "history_of s poc = (case map_of (ag_history s) poc of None \<Rightarrow> [] | Some l \<Rightarrow> l)"

definition agreement_count :: "agreement_service \<Rightarrow> nat" where
  "agreement_count s = length (remdups (map fst (ag_preparations s) @ map fst (ag_history s)))"

subsection \<open>Preparing and the review link\<close>

text \<open>
  The preparation an operation relies on: it exists, the inputs it was made from are the current
  ones, and assembling them again gives its contract and its receipt.
\<close>

definition contract_dump :: "poc_contract \<Rightarrow> json \<times> string option" where
  "contract_dump c = (canonical_contract_payload c, pc_canonical_hash c)"

definition rebuild_preparation :: "hasher \<Rightarrow> agreement_inputs \<Rightarrow> agreement_preparation \<Rightarrow> agreement_error + agreement_preparation" where
  "rebuild_preparation h q a = prepare_from_inputs h q (pc_version (ap_contract a)) (pc_id (ap_contract a)) (pc_parent_version (ap_contract a))
     (ap_prepared_at a) (ap_reviewer a) (ap_rationale a)"

definition require_current_preparation :: "hasher \<Rightarrow> string \<Rightarrow> agreement_reading \<times> agreement_reading \<Rightarrow> agreement_service \<Rightarrow>
    agreement_error + agreement_preparation" where
  "require_current_preparation h poc two s = (case map_of (ag_preparations s) poc of None \<Rightarrow> Inl AgreementNotFound
   | Some a \<Rightarrow> (case stable_inputs h poc two of Inl e \<Rightarrow> Inl e
     | Inr q \<Rightarrow> if agreement_inputs_fingerprint h q \<noteq> ap_input_fingerprint a then Inl AgreementStale
       else (case rebuild_preparation h q a of Inl e \<Rightarrow> Inl e
       | Inr b \<Rightarrow> if contract_dump (ap_contract b) \<noteq> contract_dump (ap_contract a) \<or> ap_draft_sha256 b \<noteq> ap_draft_sha256 a
         then Inl AgreementStale else Inr a)))"

definition link_token :: "(json \<Rightarrow> string) \<Rightarrow> string \<Rightarrow> string \<Rightarrow> string \<Rightarrow> string \<Rightarrow> string" where
  "link_token mac lid cid version fp = mac (JObj [(''invitation_id'', JStr lid), (''contract_id'', JStr cid),
     (''contract_version'', JStr version), (''confirmation_fingerprint'', JStr fp)])"

definition token_for :: "(json \<Rightarrow> string) \<Rightarrow> review_link \<Rightarrow> string" where
  "token_for mac l = link_token mac (lk_invitation_id l) (lk_contract_id l) (lk_contract_version l) (lk_confirmation_fingerprint l)"

text \<open>A first link, with a digest of zeros, is made only to derive the token from.\<close>

definition issue_agreement_link :: "hasher \<Rightarrow> (json \<Rightarrow> string) \<Rightarrow> string \<Rightarrow> agreement_preparation \<Rightarrow> py_datetime \<Rightarrow> agreement_error + review_link" where
  "issue_agreement_link h mac rid a now = (let c = ap_contract a; lid = ''review-'' @ rid; fp = contract_confirmation_fingerprint h c in
     case make_review_link \<lparr>lk_invitation_id = lid, lk_contract_id = pc_id c, lk_contract_version = pc_version c,
       lk_confirmation_fingerprint = fp, lk_token_digest = replicate 64 (CHR ''0''), lk_created_at = now,
       lk_expires_at = dt_plus now DEFAULT_REVIEW_TTL\<rparr> of Inl e \<Rightarrow> Inl e
     | Inr l \<Rightarrow> issue_review_link h (pc_id c) (pc_version c) fp now DEFAULT_REVIEW_TTL (token_for mac l) lid)"

definition prepare_digest :: "hasher \<Rightarrow> string \<Rightarrow> string \<Rightarrow> agreement_inputs \<Rightarrow> string \<Rightarrow> string \<Rightarrow> string" where
  "prepare_digest h poc cid q reviewer rationale = (case q of (d, xs, p) \<Rightarrow> agreement_request_digest h (JObj [
     (''operation'', JStr ''PREPARE''), (''poc_id'', JStr poc), (''contract_id'', JStr cid), (''plan_id'', JStr (cp_plan_id p)),
     (''reviewer'', JStr reviewer), (''rationale'', JStr rationale), (''input_fingerprint'', JStr (agreement_inputs_fingerprint h q)),
     (''plan_version'', JInt (int (cp_plan_version p))), (''plan_sha256'', JStr (plan_digest h p))]))"

text \<open>The clock is read after the checks; None is a clock that raises.\<close>

definition prepare_current :: "hasher \<Rightarrow> (json \<Rightarrow> string) \<Rightarrow> string \<Rightarrow> agreement_inputs \<Rightarrow> py_datetime option \<Rightarrow> string \<Rightarrow> string \<Rightarrow> string \<Rightarrow> string \<Rightarrow>
    (agreement_preparation \<times> bool) agreement_act" where
  "prepare_current h mac rid q clock poc reviewer rationale kd = (\<lambda>s.
     let cid = agreement_contract_id h poc (snd (snd q)); digest = prepare_digest h poc cid q reviewer rationale in
     case map_of (ag_prepare_keys s) (poc, kd) of
       Some prior \<Rightarrow> if prior \<noteq> digest then (s, Inl AgreementConflict)
         else (case map_of (ag_preparations s) poc of None \<Rightarrow> (s, Inl AgreementKeyError) | Some a \<Rightarrow> (s, Inr (a, True)))
     | None \<Rightarrow>
       if map_of (ag_preparations s) poc \<noteq> None then (s, Inl AgreementConflict)
       else if map_of (ag_history s) poc = None \<and> ag_max_agreements s \<le> agreement_count s then (s, Inl AgreementCapacityExceeded)
       else (case clock of None \<Rightarrow> (s, Inl AgreementCallbackError)
       | Some now \<Rightarrow> (case prepare_from_inputs h q ''1'' cid None now reviewer rationale of Inl e \<Rightarrow> (s, Inl e)
         | Inr a \<Rightarrow> (case issue_agreement_link h mac rid a now of Inl e \<Rightarrow> (s, Inl e)
           | Inr l \<Rightarrow> (s\<lparr>ag_preparations := AList.update poc a (ag_preparations s),
               ag_invitations := AList.update poc l (ag_invitations s),
               ag_prepare_keys := AList.update (poc, kd) digest (ag_prepare_keys s)\<rparr>, Inr (a, False))))))"

definition prepare_agreement :: "hasher \<Rightarrow> (json \<Rightarrow> string) \<Rightarrow> string \<Rightarrow> agreement_reading \<times> agreement_reading \<Rightarrow> py_datetime option \<Rightarrow>
    string \<Rightarrow> string \<Rightarrow> string \<Rightarrow> string \<Rightarrow> (agreement_preparation \<times> bool) agreement_act" where
  "prepare_agreement h mac rid two clock poc reviewer rationale key = (\<lambda>s. if \<not> poc_id_ok poc then (s, Inl AgreementInvalid)
     else case agreement_text 160 True reviewer of None \<Rightarrow> (s, Inl AgreementInvalid)
     | Some rv \<Rightarrow> (case agreement_text 2000 False rationale of None \<Rightarrow> (s, Inl AgreementInvalid)
       | Some ra \<Rightarrow> (case agreement_key_digest h key of None \<Rightarrow> (s, Inl AgreementInvalid)
         | Some kd \<Rightarrow> (case stable_inputs h poc two of Inl e \<Rightarrow> (s, Inl e)
           | Inr q \<Rightarrow> prepare_current h mac rid q clock poc rv ra kd s))))"

text \<open>
  \<open>compare_digest\<close> raises for text beyond ASCII, and the links are compared in the order they were
  first issued.
\<close>

definition review_poc_id :: "(json \<Rightarrow> string) \<Rightarrow> string \<Rightarrow> agreement_service \<Rightarrow> agreement_error + string option" where
  "review_poc_id mac token s = (if token = [] then Inr None
     else if ag_invitations s \<noteq> [] \<and> list_ex (\<lambda>c. 128 \<le> (of_char c :: nat)) token then Inl AgreementTypeError
     else Inr (map_option fst (find (\<lambda>(poc, l). token_for mac l = token) (ag_invitations s))))"

definition require_review_link :: "hasher \<Rightarrow> (json \<Rightarrow> string) \<Rightarrow> agreement_reading \<times> agreement_reading \<Rightarrow> string \<Rightarrow> py_datetime option \<Rightarrow>
    agreement_service \<Rightarrow> agreement_error + string \<times> agreement_preparation \<times> review_link" where
  "require_review_link h mac two token clock s = (case review_poc_id mac token s of Inl e \<Rightarrow> Inl e
   | Inr None \<Rightarrow> Inl ReviewLinkInvalid
   | Inr (Some poc) \<Rightarrow> (case (map_of (ag_preparations s) poc, map_of (ag_invitations s) poc) of
       (Some a0, Some l) \<Rightarrow> (case require_current_preparation h poc two s of Inl e \<Rightarrow> Inl e
         | Inr a \<Rightarrow> (case clock of None \<Rightarrow> Inl AgreementCallbackError
           | Some now \<Rightarrow> (case link_require_valid h l token now of Some e \<Rightarrow> Inl e
             | None \<Rightarrow> if lk_contract_id l \<noteq> pc_id (ap_contract a) \<or> lk_contract_version l \<noteq> pc_version (ap_contract a) \<or>
                 lk_confirmation_fingerprint l \<noteq> contract_confirmation_fingerprint h (ap_contract a)
               then Inl ReviewLinkInvalid else Inr (poc, a, l))))
     | _ \<Rightarrow> Inl ReviewLinkInvalid))"

subsection \<open>The customer decides\<close>

definition REVIEW_CONFIRMER :: string where
  "REVIEW_CONFIRMER = ''Customer approver '' @ [CHR 0xB7] @ '' capability review''"

definition customer_decision_value :: "confirmation_decision \<Rightarrow> string" where
  "customer_decision_value d = (case d of CONFIRM \<Rightarrow> ''CONFIRM'' | REQUEST_CHANGES \<Rightarrow> ''REQUEST_CHANGES'')"

definition decision_digest :: "hasher \<Rightarrow> string \<Rightarrow> poc_contract \<Rightarrow> confirmation_decision \<Rightarrow> string \<Rightarrow> string" where
  "decision_digest h poc c d rationale = agreement_request_digest h (JObj [(''operation'', JStr ''CUSTOMER_REVIEW_DECISION''),
     (''poc_id'', JStr poc), (''contract_id'', JStr (pc_id c)), (''contract_version'', JStr (pc_version c)),
     (''confirmation_fingerprint'', JStr (contract_confirmation_fingerprint h c)), (''decision'', JStr (customer_decision_value d)),
     (''agreement_acknowledged'', JBool True), (''rationale'', JStr rationale)])"

definition other_binding :: "string option \<Rightarrow> string \<Rightarrow> bool" where
  "other_binding supplied current \<longleftrightarrow> supplied \<noteq> None \<and> supplied \<noteq> Some current"

definition decide_current :: "hasher \<Rightarrow> string \<Rightarrow> poc_contract \<Rightarrow> confirmation_decision \<Rightarrow> string \<Rightarrow> string \<Rightarrow> py_datetime option \<Rightarrow>
    (contract_confirmation \<times> bool) agreement_act" where
  "decide_current h poc c d rationale kd clock = (\<lambda>s. case map_of (ag_decision_keys s) (poc, kd) of
       Some prior \<Rightarrow> if prior \<noteq> decision_digest h poc c d rationale then (s, Inl AgreementConflict)
         else (case map_of (ag_confirmations s) poc of None \<Rightarrow> (s, Inl AgreementKeyError) | Some r \<Rightarrow> (s, Inr (r, True)))
     | None \<Rightarrow> if map_of (ag_confirmations s) poc \<noteq> None then (s, Inl AgreementConflict)
       else (case clock of None \<Rightarrow> (s, Inl AgreementCallbackError)
       | Some now \<Rightarrow> (case model_result (record_confirmation h c REVIEW_CONFIRMER d True rationale kd now None) of Inl e \<Rightarrow> (s, Inl e)
         | Inr r \<Rightarrow> (s\<lparr>ag_confirmations := AList.update poc r (ag_confirmations s),
             ag_decision_keys := AList.update (poc, kd) (decision_digest h poc c d rationale) (ag_decision_keys s)\<rparr>, Inr (r, False)))))"

text \<open>The clock is read for the validity of the link and again for the decision.\<close>

definition record_customer_decision :: "hasher \<Rightarrow> (json \<Rightarrow> string) \<Rightarrow> agreement_reading \<times> agreement_reading \<Rightarrow> py_datetime option \<Rightarrow>
    py_datetime option \<Rightarrow> string \<Rightarrow> confirmation_decision option \<Rightarrow> bool \<Rightarrow> string \<Rightarrow> string \<Rightarrow> string option \<Rightarrow> string option \<Rightarrow> string option \<Rightarrow>
    (contract_confirmation \<times> bool) agreement_act" where
  "record_customer_decision h mac two clock decided token decision ack rationale key cid version fp = (\<lambda>s. case decision of
       None \<Rightarrow> (s, Inl AgreementInvalid)
     | Some d \<Rightarrow> if \<not> ack then (s, Inl AgreementInvalid)
       else (case (agreement_text 2000 False rationale, agreement_key_digest h key) of
         (Some ra, Some kd) \<Rightarrow> (case require_review_link h mac two token clock s of Inl e \<Rightarrow> (s, Inl e)
           | Inr (poc, a, l) \<Rightarrow> (let c = ap_contract a in
               if other_binding cid (pc_id c) \<or> other_binding version (pc_version c) \<or>
                 other_binding fp (contract_confirmation_fingerprint h c) then (s, Inl AgreementConflict)
               else decide_current h poc c d ra kd decided s))
       | _ \<Rightarrow> (s, Inl AgreementInvalid)))"

subsection \<open>Revisions\<close>

text \<open>Contract versions are decimal numbers; \<open>int\<close> would read other spellings of them too.\<close>

fun decimal_value :: "nat \<Rightarrow> string \<Rightarrow> nat option" where
  "decimal_value n [] = Some n"
| "decimal_value n (c # cs) = (if is_digit c then decimal_value (10 * n + (of_char c - 48)) cs else None)"

definition version_number :: "string \<Rightarrow> nat option" where
  "version_number s = (if s = [] then None else decimal_value 0 s)"

definition revision_digest :: "hasher \<Rightarrow> string \<Rightarrow> string \<Rightarrow> agreement_inputs \<Rightarrow> string \<Rightarrow> string \<Rightarrow> string" where
  "revision_digest h poc parent q reviewer rationale = (case q of (d, xs, p) \<Rightarrow> agreement_request_digest h (JObj [
     (''operation'', JStr ''START_REVISION''), (''poc_id'', JStr poc), (''parent_draft_sha256'', JStr parent),
     (''successor_input_fingerprint'', JStr (agreement_inputs_fingerprint h q)), (''plan_id'', JStr (cp_plan_id p)),
     (''plan_version'', JInt (int (cp_plan_version p))), (''plan_sha256'', JStr (plan_digest h p)),
     (''reviewer'', JStr reviewer), (''rationale'', JStr rationale)]))"

definition agreement_revision_id :: "hasher \<Rightarrow> string \<Rightarrow> agreement_preparation \<Rightarrow> agreement_preparation \<Rightarrow> string \<Rightarrow> py_datetime \<Rightarrow> string" where
  "agreement_revision_id h poc a b request now = ''agrrev_'' @ take 32 (json_sha h (''exitspec-generic-agreement-revision-v1'' @ [CHR 0x00])
     (JObj [(''poc_id'', JStr poc), (''parent_contract_id'', JStr (pc_id (ap_contract a))),
       (''parent_contract_version'', JStr (pc_version (ap_contract a))), (''parent_draft_sha256'', JStr (ap_draft_sha256 a)),
       (''successor_draft_sha256'', JStr (ap_draft_sha256 b)),
       (''successor_contract_fingerprint'', JStr (contract_confirmation_fingerprint h (ap_contract b))),
       (''successor_input_fingerprint'', JStr (ap_input_fingerprint b)), (''request_rationale'', JStr request),
       (''assembly_reviewer'', JStr (ap_reviewer b)), (''assembly_rationale'', JStr (ap_rationale b)),
       (''requested_at'', Contracts.datetime_json now)]))"

definition make_revision :: "hasher \<Rightarrow> string \<Rightarrow> nat \<Rightarrow> agreement_preparation \<Rightarrow> agreement_preparation \<Rightarrow> string \<Rightarrow> py_datetime \<Rightarrow> agreement_revision" where
  "make_revision h poc n a b request now = \<lparr>av_revision_id = agreement_revision_id h poc a b request now, av_revision_number = n,
     av_parent_contract_id = pc_id (ap_contract a), av_parent_contract_version = pc_version (ap_contract a),
     av_parent_draft_sha256 = ap_draft_sha256 a, av_requested_at = now, av_request_rationale = request,
     av_assembly_reviewer = ap_reviewer b, av_assembly_rationale = ap_rationale b,
     av_successor_input_fingerprint = ap_input_fingerprint b, av_successor_draft_sha256 = ap_draft_sha256 b,
     av_successor_contract_fingerprint = contract_confirmation_fingerprint h (ap_contract b)\<rparr>"

definition publish_revision :: "string \<Rightarrow> string \<Rightarrow> string \<Rightarrow> agreement_preparation \<Rightarrow> review_link \<Rightarrow> contract_confirmation \<Rightarrow> agreement_preparation \<Rightarrow>
    review_link \<Rightarrow> agreement_revision \<Rightarrow> py_datetime \<Rightarrow> agreement_service \<Rightarrow> agreement_service" where
  "publish_revision poc kd digest a l r b link v now s = s\<lparr>
     ag_history := AList.update poc (history_of s poc @ [\<lparr>ah_preparation = a, ah_review_invitation = l, ah_confirmation = r,
       ah_superseded_at = now\<rparr>]) (ag_history s),
     ag_revisions := AList.update poc v (ag_revisions s), ag_preparations := AList.update poc b (ag_preparations s),
     ag_invitations := AList.update poc link (ag_invitations s), ag_confirmations := AList.delete poc (ag_confirmations s),
     ag_frozen := AList.delete poc (ag_frozen s), ag_revision_keys := AList.update (poc, kd) digest (ag_revision_keys s),
     ag_revision_results := AList.update (poc, kd) v (ag_revision_results s)\<rparr>"

definition revise_current :: "hasher \<Rightarrow> (json \<Rightarrow> string) \<Rightarrow> string \<Rightarrow> agreement_inputs \<Rightarrow> py_datetime option \<Rightarrow> string \<Rightarrow> string \<Rightarrow> string \<Rightarrow> string \<Rightarrow>
    agreement_preparation \<Rightarrow> (agreement_revision \<times> bool) agreement_act" where
  "revise_current h mac rid q clock poc reviewer rationale kd a = (\<lambda>s.
     case (map_of (ag_confirmations s) poc, map_of (ag_invitations s) poc) of
       (Some r, Some l) \<Rightarrow> if cc_decision r \<noteq> REQUEST_CHANGES then (s, Inl AgreementConflict)
         else (case version_number (pc_version (ap_contract a)) of None \<Rightarrow> (s, Inl AgreementConflict)
         | Some n \<Rightarrow> if 32 \<le> length (history_of s poc) then (s, Inl AgreementCapacityExceeded)
           else if agreement_inputs_fingerprint h q = ap_input_fingerprint a then (s, Inl AgreementConflict)
           else (case clock of None \<Rightarrow> (s, Inl AgreementCallbackError)
           | Some now \<Rightarrow> (case prepare_from_inputs h q (show_nat (n + 1)) (pc_id (ap_contract a))
                 (Some (pc_id (ap_contract a) @ ''@'' @ pc_version (ap_contract a))) now reviewer rationale of Inl e \<Rightarrow> (s, Inl e)
             | Inr b \<Rightarrow> (case issue_agreement_link h mac rid b now of Inl e \<Rightarrow> (s, Inl e)
               | Inr link \<Rightarrow> (let v = make_revision h poc n a b (cc_rationale r) now in
                   (publish_revision poc kd (revision_digest h poc (ap_draft_sha256 a) q reviewer rationale) a l r b link v now s,
                    Inr (v, False)))))))
     | _ \<Rightarrow> (s, Inl AgreementConflict))"

definition start_revision :: "hasher \<Rightarrow> (json \<Rightarrow> string) \<Rightarrow> string \<Rightarrow> agreement_reading \<times> agreement_reading \<Rightarrow> py_datetime option \<Rightarrow>
    string \<Rightarrow> string \<Rightarrow> string \<Rightarrow> string \<Rightarrow> (agreement_revision \<times> bool) agreement_act" where
  "start_revision h mac rid two clock poc reviewer rationale key = (\<lambda>s. if \<not> poc_id_ok poc then (s, Inl AgreementInvalid)
     else case agreement_text 160 True reviewer of None \<Rightarrow> (s, Inl AgreementInvalid)
     | Some rv \<Rightarrow> (case agreement_text 2000 False rationale of None \<Rightarrow> (s, Inl AgreementInvalid)
       | Some ra \<Rightarrow> (case agreement_key_digest h key of None \<Rightarrow> (s, Inl AgreementInvalid)
         | Some kd \<Rightarrow> (case map_of (ag_preparations s) poc of None \<Rightarrow> (s, Inl AgreementNotFound)
           | Some a \<Rightarrow> (case stable_inputs h poc two of Inl e \<Rightarrow> (s, Inl e)
             | Inr q \<Rightarrow> (case (map_of (ag_revision_keys s) (poc, kd), map_of (ag_revision_results s) (poc, kd)) of
                 (Some prior, Some v) \<Rightarrow>
                   if prior \<noteq> revision_digest h poc (av_parent_draft_sha256 v) q rv ra then (s, Inl AgreementConflict)
                   else if agreement_inputs_fingerprint h q \<noteq> av_successor_input_fingerprint v then (s, Inl AgreementConflict)
                   else (s, Inr (v, True))
               | _ \<Rightarrow> revise_current h mac rid q clock poc rv ra kd a s))))))"

subsection \<open>A new link, the freeze\<close>

definition reissue_digest :: "hasher \<Rightarrow> string \<Rightarrow> poc_contract \<Rightarrow> string" where
  "reissue_digest h poc c = agreement_request_digest h (JObj [(''operation'', JStr ''REISSUE_REVIEW''), (''poc_id'', JStr poc),
     (''contract'', JStr (contract_confirmation_fingerprint h c))])"

text \<open>Comparing a naive reading of the clock with the expiry raises.\<close>

definition reissue_customer_review :: "hasher \<Rightarrow> (json \<Rightarrow> string) \<Rightarrow> string \<Rightarrow> agreement_reading \<times> agreement_reading \<Rightarrow> py_datetime option \<Rightarrow>
    string \<Rightarrow> string \<Rightarrow> (review_link \<times> bool) agreement_act" where
  "reissue_customer_review h mac rid two clock poc key = (\<lambda>s. if \<not> poc_id_ok poc then (s, Inl AgreementInvalid)
     else case agreement_key_digest h key of None \<Rightarrow> (s, Inl AgreementInvalid)
     | Some kd \<Rightarrow> (case require_current_preparation h poc two s of Inl e \<Rightarrow> (s, Inl e)
       | Inr a \<Rightarrow> (case map_of (ag_invitations s) poc of None \<Rightarrow> (s, Inl AgreementKeyError)
         | Some l \<Rightarrow> if map_of (ag_confirmations s) poc \<noteq> None then (s, Inl AgreementConflict)
           else (case clock of None \<Rightarrow> (s, Inl AgreementCallbackError)
           | Some now \<Rightarrow> if \<not> dt_aware now then (s, Inl AgreementTypeError)
             else if instant now < instant (lk_expires_at l) then (s, Inl AgreementConflict)
             else (let digest = reissue_digest h poc (ap_contract a) in
               case map_of (ag_review_keys s) (poc, kd) of
                 Some prior \<Rightarrow> if prior \<noteq> digest then (s, Inl AgreementConflict) else (s, Inr (l, True))
               | None \<Rightarrow> (case issue_agreement_link h mac rid a now of Inl e \<Rightarrow> (s, Inl e)
                 | Inr link \<Rightarrow> (s\<lparr>ag_invitations := AList.update poc link (ag_invitations s),
                     ag_review_keys := AList.update (poc, kd) digest (ag_review_keys s)\<rparr>, Inr (link, False))))))))"

definition freeze_digest :: "hasher \<Rightarrow> string \<Rightarrow> agreement_preparation \<Rightarrow> string" where
  "freeze_digest h poc a = agreement_request_digest h (JObj [(''operation'', JStr ''FREEZE''), (''poc_id'', JStr poc),
     (''draft_sha256'', JStr (ap_draft_sha256 a)), (''contract_version'', JStr (pc_version (ap_contract a)))])"

definition freeze_current :: "hasher \<Rightarrow> py_datetime option \<Rightarrow> string \<Rightarrow> string \<Rightarrow> agreement_preparation \<Rightarrow> contract_confirmation \<Rightarrow>
    (poc_contract \<times> bool) agreement_act" where
  "freeze_current h clock poc kd a r = (\<lambda>s. case map_of (ag_freeze_keys s) (poc, kd) of
       Some prior \<Rightarrow> if prior \<noteq> freeze_digest h poc a then (s, Inl AgreementConflict)
         else (case map_of (ag_frozen s) poc of None \<Rightarrow> (s, Inl AgreementKeyError) | Some f \<Rightarrow> (s, Inr (f, True)))
     | None \<Rightarrow> if map_of (ag_frozen s) poc \<noteq> None then (s, Inl AgreementConflict)
       else if \<not> confirmation_matches_contract h (ap_contract a) r then (s, Inl AgreementConflict)
       else (case clock of None \<Rightarrow> (s, Inl AgreementCallbackError)
       | Some now \<Rightarrow> (case freeze_confirmed_contract h (ap_contract a) (Some r) now of Inl e \<Rightarrow> (s, Inl AgreementConflict)
         | Inr f \<Rightarrow> if pc_confirmation_id f \<noteq> Some (cc_confirmation_id r) \<or> Some (contract_digest h f) \<noteq> pc_canonical_hash f
             then (s, Inl AgreementConflict)
             else (s\<lparr>ag_frozen := AList.update poc f (ag_frozen s),
               ag_freeze_keys := AList.update (poc, kd) (freeze_digest h poc a) (ag_freeze_keys s)\<rparr>, Inr (f, False)))))"

definition freeze_agreement :: "hasher \<Rightarrow> agreement_reading \<times> agreement_reading \<Rightarrow> py_datetime option \<Rightarrow> string \<Rightarrow> string \<Rightarrow>
    (poc_contract \<times> bool) agreement_act" where
  "freeze_agreement h two clock poc key = (\<lambda>s. if \<not> poc_id_ok poc then (s, Inl AgreementInvalid)
     else case agreement_key_digest h key of None \<Rightarrow> (s, Inl AgreementInvalid)
     | Some kd \<Rightarrow> (case require_current_preparation h poc two s of Inl e \<Rightarrow> (s, Inl e)
       | Inr a \<Rightarrow> (case map_of (ag_confirmations s) poc of None \<Rightarrow> (s, Inl AgreementConflict)
         | Some r \<Rightarrow> freeze_current h clock poc kd a r s)))"

subsection \<open>Reading\<close>

record agreement_snapshot =
  asn_preparation :: "agreement_preparation option"
  asn_review_invitation :: "review_link option"
  asn_review_expired :: bool
  asn_confirmation :: "contract_confirmation option"
  asn_frozen_contract :: "poc_contract option"
  asn_revision :: "agreement_revision option"
  asn_superseded_version_count :: nat
  asn_current_inputs_stale :: bool

text \<open>Inputs that cannot be read are stale.\<close>

definition agreement_snapshot_of :: "hasher \<Rightarrow> agreement_reading \<times> agreement_reading \<Rightarrow> py_datetime option \<Rightarrow> bool \<Rightarrow> string \<Rightarrow> agreement_service \<Rightarrow>
    agreement_error + agreement_snapshot" where
  "agreement_snapshot_of h two clock allow_empty poc s = (if \<not> poc_id_ok poc then Inl AgreementInvalid
     else case map_of (ag_preparations s) poc of
       None \<Rightarrow> if \<not> allow_empty then Inl AgreementNotFound
         else Inr \<lparr>asn_preparation = None, asn_review_invitation = None, asn_review_expired = False, asn_confirmation = None,
           asn_frozen_contract = None, asn_revision = map_of (ag_revisions s) poc,
           asn_superseded_version_count = length (history_of s poc), asn_current_inputs_stale = False\<rparr>
     | Some a \<Rightarrow> (case clock of None \<Rightarrow> Inl AgreementCallbackError
       | Some now \<Rightarrow> (let link = map_of (ag_invitations s) poc in
           if link \<noteq> None \<and> \<not> dt_aware now then Inl AgreementTypeError
           else Inr \<lparr>asn_preparation = Some a, asn_review_invitation = link,
             asn_review_expired = (case link of None \<Rightarrow> False | Some l \<Rightarrow> instant (lk_expires_at l) \<le> instant now),
             asn_confirmation = map_of (ag_confirmations s) poc, asn_frozen_contract = map_of (ag_frozen s) poc,
             asn_revision = map_of (ag_revisions s) poc, asn_superseded_version_count = length (history_of s poc),
             asn_current_inputs_stale = (case stable_inputs h poc two of Inl e \<Rightarrow> True
               | Inr q \<Rightarrow> agreement_inputs_fingerprint h q \<noteq> ap_input_fingerprint a)\<rparr>)))"

definition agreement_review_status :: "agreement_snapshot \<Rightarrow> string" where
  "agreement_review_status n = (if asn_current_inputs_stale n then ''STALE'' else if asn_review_expired n then ''EXPIRED''
     else case asn_confirmation n of None \<Rightarrow> ''PENDING''
     | Some r \<Rightarrow> if cc_decision r = CONFIRM then ''CONFIRMED'' else ''CHANGES_REQUESTED'')"

definition customer_review_status :: "hasher \<Rightarrow> (json \<Rightarrow> string) \<Rightarrow> agreement_reading \<times> agreement_reading \<Rightarrow> string \<Rightarrow> py_datetime option \<Rightarrow>
    agreement_service \<Rightarrow> agreement_error + string" where
  "customer_review_status h mac two token clock s = (case require_review_link h mac two token clock s of Inl e \<Rightarrow> Inl e
   | Inr (poc, a, l) \<Rightarrow> Inr (case map_of (ag_confirmations s) poc of None \<Rightarrow> ''PENDING''
       | Some r \<Rightarrow> if cc_decision r = CONFIRM then ''CONFIRMED'' else ''CHANGES_REQUESTED''))"

subsection \<open>The web API\<close>

text \<open>The status of an exception, by the handlers' \<open>except\<close> clauses; None escapes them.\<close>

fun operator_status :: "agreement_error \<Rightarrow> nat option" where
  "operator_status AgreementNotFound = Some 404"
| "operator_status AgreementStale = Some 409"
| "operator_status AgreementConflict = Some 409"
| "operator_status AgreementCapacityExceeded = Some 503"
| "operator_status AgreementAttributeError = None"
| "operator_status AgreementCallbackError = None"
| "operator_status AgreementKeyError = None"
| "operator_status e = Some 400"

fun customer_status :: "agreement_error \<Rightarrow> nat option" where
  "customer_status ReviewLinkExpired = Some 410"
| "customer_status ReviewLinkInvalid = Some 404"
| "customer_status e = operator_status e"

definition write_status :: "agreement_error + 'a \<times> bool \<Rightarrow> nat option" where
  "write_status v = (case v of Inl e \<Rightarrow> operator_status e | Inr (x, replayed) \<Rightarrow> Some (if replayed then 200 else 201))"

end
