(* ===== verification/Agreement_Lemmas.thy ===== *)
theory Agreement_Lemmas
  imports Agreement Capability_Planner_Laws Draft_Pocs_Laws Contracts_Laws
begin

section \<open>Lemmas of the agreement service\<close>

text \<open>
  What the inputs, the assembly and the five operations of the service yield when they succeed, and
  the invariant of the services they reach. Every operation either changes nothing or makes one of
  five changes to one POC (\<open>agreement_change\<close>), so that the invariant is proved of the changes.
\<close>

subsection \<open>Inputs\<close>

lemma stable_inputs_Inr:
  assumes "stable_inputs h poc two = Inr q"
  shows "current_inputs h poc (snd two) = Inr q"
    and "\<exists>a. current_inputs h poc (fst two) = Inr a \<and> agreement_inputs_fingerprint h a = agreement_inputs_fingerprint h q"
  using assms by (auto simp: stable_inputs_def split: sum.split_asm if_split_asm)

lemma current_inputs_Inr:
  assumes "current_inputs h poc n = Inr q"
  obtains d xs p where "an_poc n = Answer d" "an_retained n = Answer xs" "an_plan n = Answer p"
    "check_inputs h poc (Some d) (Some xs) (Some p) = Inr q"
proof -
  have ans: "read_answer v = Inr (Some x) \<Longrightarrow> v = Answer x" for v :: "'b agreement_answer" and x
    by (cases v) auto
  obtain a b c where r: "read_answer (an_poc n) = Inr a" "read_answer (an_retained n) = Inr b" "read_answer (an_plan n) = Inr c"
    and c: "check_inputs h poc a b c = Inr q"
    using assms by (simp add: current_inputs_def split: sum.split_asm)
  have "a \<noteq> None" "b \<noteq> None" "c \<noteq> None" using c by (auto simp: check_inputs_def split: option.split_asm if_split_asm)
  then show ?thesis using that r c by (auto dest!: ans)
qed

lemma scan_retained_Inr:
  "scan_retained poc seen ys = Inr xs \<Longrightarrow> ys = map Some xs \<and> distinct (map rp_proposal_id xs) \<and>
     set (map rp_proposal_id xs) \<inter> set seen = {} \<and> (\<forall>x \<in> set xs. rp_poc_id x = poc \<and> retained_ok x)"
proof (induction ys arbitrary: seen xs)
  case (Cons y ys)
  obtain x where x: "y = Some x" using Cons.prems by (cases y) simp_all
  then have g: "rp_poc_id x = poc" "retained_ok x" "rp_proposal_id x \<notin> set seen"
    using Cons.prems by (simp_all split: if_split_asm)
  obtain zs where z: "scan_retained poc (rp_proposal_id x # seen) ys = Inr zs" "xs = x # zs"
    using Cons.prems g x by (simp split: sum.split_asm)
  show ?case using Cons.IH [OF z(1)] g x z(2) by auto
qed simp

lemma proposal_of_Some: "proposal_of xs i = Some x \<Longrightarrow> x \<in> set xs \<and> rp_proposal_id x = i"
  unfolding proposal_of_def using find_Some_iff [of "\<lambda>x. rp_proposal_id x = i" "List.rev xs" x] nth_mem [of _ "List.rev xs"] by force

lemma bind_records_None:
  "bind_records poc xs seen rs = None \<Longrightarrow> distinct (map pn_proposal_id rs) \<and> set (map pn_proposal_id rs) \<inter> set seen = {} \<and>
     (\<forall>r \<in> set rs. pn_poc_id r = poc \<and> (\<exists>x \<in> set xs. rp_proposal_id x = pn_proposal_id r \<and> binding_matches r x))"
proof (induction rs arbitrary: seen)
  case (Cons r rs)
  then have g: "pn_proposal_id r \<notin> set seen" "pn_poc_id r = poc" by (simp_all split: if_split_asm)
  obtain x where x: "proposal_of xs (pn_proposal_id r) = Some x" "binding_matches r x"
    "bind_records poc xs (pn_proposal_id r # seen) rs = None"
    using Cons.prems g by (simp split: option.split_asm if_split_asm)
  have "\<exists>x \<in> set xs. rp_proposal_id x = pn_proposal_id r \<and> binding_matches r x"
    using proposal_of_Some [OF x(1)] x(2) by blast
  then show ?case using Cons.IH [OF x(3)] g by auto
qed simp

text \<open>What is known of current inputs.\<close>

lemma check_inputs_Inr:
  assumes "check_inputs h poc (Some d') (Some ys) (Some p') = Inr (d, xs, p)"
  shows "d = d'" "p = p'" "dp_poc_id d = poc" "dp_archive_state d = DRAFT_ACTIVE" "cp_poc_id p = poc" "plan_revalidates h p"
    "cp_ready_for_agreement p" "set ys = Some ` set xs" "xs \<noteq> []" "distinct (map rp_proposal_id xs)"
    "\<forall>x \<in> set xs. rp_poc_id x = poc \<and> retained_ok x" "distinct (map pn_proposal_id (cp_records p))"
    "set (map pn_proposal_id (cp_records p)) = set (map rp_proposal_id xs)"
    "\<forall>r \<in> set (cp_records p). pn_poc_id r = poc \<and> (\<exists>x \<in> set xs. rp_proposal_id x = pn_proposal_id r \<and> binding_matches r x)"
proof -
  obtain zs where z: "scan_retained poc [] ys = Inr zs" "zs \<noteq> []" "bind_records poc zs [] (cp_records p') = None"
    "set (map pn_proposal_id (cp_records p')) = set (map rp_proposal_id zs)" "xs = sort_key rp_proposal_id zs" "d = d'" "p = p'"
    "dp_poc_id d = poc" "dp_archive_state d = DRAFT_ACTIVE" "cp_poc_id p = poc" "plan_revalidates h p" "cp_ready_for_agreement p"
    using assms by (auto simp: check_inputs_def split: sum.split_asm option.split_asm if_split_asm)
  note s = scan_retained_Inr [OF z(1)] and b = bind_records_None [OF z(3)]
  have "distinct (map rp_proposal_id xs) \<longleftrightarrow> distinct (map rp_proposal_id zs)"
    by (simp add: z(5) distinct_map card_set)
  moreover have "set xs = set zs" by (simp add: z(5))
  moreover from this have "xs \<noteq> []" using z(2) by auto
  ultimately show "d = d'" "p = p'" "dp_poc_id d = poc" "dp_archive_state d = DRAFT_ACTIVE" "cp_poc_id p = poc" "plan_revalidates h p"
    "cp_ready_for_agreement p" "set ys = Some ` set xs" "xs \<noteq> []" "distinct (map rp_proposal_id xs)"
    "\<forall>x \<in> set xs. rp_poc_id x = poc \<and> retained_ok x" "distinct (map pn_proposal_id (cp_records p))"
    "set (map pn_proposal_id (cp_records p)) = set (map rp_proposal_id xs)"
    "\<forall>r \<in> set (cp_records p). pn_poc_id r = poc \<and> (\<exists>x \<in> set xs. rp_proposal_id x = pn_proposal_id r \<and> binding_matches r x)"
    using z s b by auto
qed

subsection \<open>Assembly\<close>

lemma build_criterion_Inr:
  assumes "build_criterion h r d x p sha reviewer rationale = Inr c"
  obtains k where "c = Capability k" "cap_id k = agreement_criterion_id h (pn_proposal_id r)" "cap_must_have k = (pn_scope r = MUST_HAVE)"
    "cap_poc_id k = dp_poc_id d" "cap_planning_item_id k = pn_planning_item_id r" "cap_proposal_id k = pn_proposal_id r"
    "plan_binding k = (cp_plan_id p, int (cp_plan_version p), sha)" "cap_approved k"
    "pn_disposition r \<in> {EXECUTABLE, EVIDENCE_IMPORT} \<Longrightarrow> \<exists>c'. pn_criterion r = Some c' \<and> cri_provenance c' \<noteq> None \<and>
      (pn_disposition r = EXECUTABLE \<longrightarrow> tool_policy_ok c') \<and> (pn_disposition r = EVIDENCE_IMPORT \<longrightarrow> ttft_policy_ok c')"
    "pn_disposition r \<notin> {EXECUTABLE, EVIDENCE_IMPORT} \<Longrightarrow> pn_criterion r = None"
proof -
  define b where "b = (case pn_criterion r of None \<Rightarrow> None | Some c \<Rightarrow> capability_binding h (pn_disposition r) c)"
  let ?s = "pn_disposition r \<in> {EXECUTABLE, EVIDENCE_IMPORT}"
  have g: "\<not> (?s \<and> pn_criterion r = None)" "\<not> (case pn_criterion r of None \<Rightarrow> False | Some c \<Rightarrow> cri_provenance c = None)"
    "\<not> (?s \<and> b = None)" "criterion_fields_ok h r d x p sha reviewer rationale" "criterion_shape_ok r b"
    "c = Capability \<lparr>cap_id = agreement_criterion_id h (pn_proposal_id r), cap_must_have = (pn_scope r = MUST_HAVE),
       cap_poc_id = dp_poc_id d, cap_planning_item_id = pn_planning_item_id r, cap_proposal_id = pn_proposal_id r,
       cap_a4_plan_id = cp_plan_id p, cap_a4_plan_version = int (cp_plan_version p), cap_a4_plan_sha256 = sha, cap_approved = True,
       cap_other_fields = criterion_other_fields r d x b reviewer rationale\<rparr>"
    using assms unfolding build_criterion_def Let_def b_def [symmetric] by (auto split: if_split_asm)
  have "?s \<Longrightarrow> \<exists>c'. pn_criterion r = Some c' \<and> cri_provenance c' \<noteq> None \<and>
      (pn_disposition r = EXECUTABLE \<longrightarrow> tool_policy_ok c') \<and> (pn_disposition r = EVIDENCE_IMPORT \<longrightarrow> ttft_policy_ok c')"
    using g(1,2,3) by (cases "pn_criterion r") (auto simp: b_def capability_binding_def split: if_split_asm)
  moreover have "\<not> ?s \<Longrightarrow> pn_criterion r = None"
    using g(2,5) by (cases "pn_criterion r") (auto simp: criterion_shape_ok_def criterion_blank_def)
  ultimately show ?thesis using that g(6) by (simp add: plan_binding_def)
qed

text \<open>The criterion a record becomes.\<close>

definition criterion_for :: "hasher \<Rightarrow> draft_snapshot \<Rightarrow> capability_plan \<Rightarrow> planning_record \<Rightarrow> contract_criterion \<Rightarrow> bool" where
  "criterion_for h d p r c \<longleftrightarrow> (case c of Capability k \<Rightarrow>
       cap_id k = agreement_criterion_id h (pn_proposal_id r) \<and> cap_must_have k = (pn_scope r = MUST_HAVE) \<and>
       cap_poc_id k = dp_poc_id d \<and> cap_planning_item_id k = pn_planning_item_id r \<and> cap_proposal_id k = pn_proposal_id r \<and>
       plan_binding k = (cp_plan_id p, int (cp_plan_version p), plan_digest h p) \<and> cap_approved k
     | _ \<Rightarrow> False) \<and> \<not> unresolved_must_have r \<and>
     (if pn_disposition r \<in> {EXECUTABLE, EVIDENCE_IMPORT}
      then \<exists>c'. pn_criterion r = Some c' \<and> cri_provenance c' \<noteq> None \<and>
        (if pn_disposition r = EXECUTABLE then tool_policy_ok c' else ttft_policy_ok c')
      else pn_criterion r = None)"

lemma build_criterion_for:
  assumes "build_criterion h r d x p (plan_digest h p) reviewer rationale = Inr c" and "\<not> unresolved_must_have r"
  shows "criterion_for h d p r c"
proof (rule build_criterion_Inr [OF assms(1)])
  fix k
  assume k: "c = Capability k" "cap_id k = agreement_criterion_id h (pn_proposal_id r)" "cap_must_have k = (pn_scope r = MUST_HAVE)"
    "cap_poc_id k = dp_poc_id d" "cap_planning_item_id k = pn_planning_item_id r" "cap_proposal_id k = pn_proposal_id r"
    "plan_binding k = (cp_plan_id p, int (cp_plan_version p), plan_digest h p)" "cap_approved k"
    "pn_disposition r \<in> {EXECUTABLE, EVIDENCE_IMPORT} \<Longrightarrow> \<exists>c'. pn_criterion r = Some c' \<and> cri_provenance c' \<noteq> None \<and>
      (pn_disposition r = EXECUTABLE \<longrightarrow> tool_policy_ok c') \<and> (pn_disposition r = EVIDENCE_IMPORT \<longrightarrow> ttft_policy_ok c')"
    "pn_disposition r \<notin> {EXECUTABLE, EVIDENCE_IMPORT} \<Longrightarrow> pn_criterion r = None"
  show ?thesis using k(9,10) assms(2) unfolding criterion_for_def by (simp add: k(1-8)) blast
qed

lemma assemble_criteria_Inr:
  "assemble_criteria h d xs p (plan_digest h p) reviewer rationale rs = Inr (cs, ls) \<Longrightarrow> list_all2 (criterion_for h d p) rs cs"
proof (induction rs arbitrary: cs ls)
  case (Cons r rs)
  then have u: "\<not> unresolved_must_have r" by (simp split: if_split_asm)
  obtain x where x: "proposal_of xs (pn_proposal_id r) = Some x" using Cons.prems u by (simp split: option.split_asm)
  obtain c where c: "build_criterion h r d x p (plan_digest h p) reviewer rationale = Inr c"
    using Cons.prems u x by (simp split: sum.split_asm)
  obtain cs' ls' where r: "assemble_criteria h d xs p (plan_digest h p) reviewer rationale rs = Inr (cs', ls')" "cs = c # cs'"
    using Cons.prems u x c by (simp split: sum.split_asm prod.split_asm)
  show ?case using Cons.IH [OF r(1)] build_criterion_for [OF c u] r(2) by simp
qed simp

lemma transition_Inr:
  assumes "transition_contract c t now = Inr c'"
  shows "contract_ok c' \<and> c' = (if t = C_APPROVED then c\<lparr>pc_status := t, pc_approved_at := Some now\<rparr> else c\<lparr>pc_status := t\<rparr>)"
  using assms by (simp add: transition_contract_def validated_Inr split: if_split_asm)

lemma approve_draft_Inr:
  assumes "approve_draft c now = Inr c'"
  shows "contract_ok c' \<and> c' = c\<lparr>pc_status := C_APPROVED, pc_approved_at := Some now, pc_criteria := map (with_approved True) (pc_criteria c)\<rparr>"
proof -
  obtain c1 c2 where t: "transition_contract c C_IN_REVIEW now = Inr c1" "c2 = c1\<lparr>pc_criteria := map (with_approved True) (pc_criteria c1)\<rparr>"
    "transition_contract c2 C_APPROVED now = Inr c'"
    using assms by (auto simp: approve_draft_def validated_Inr split: sum.split_asm)
  have "contract_ok c'" using transition_Inr [OF t(3)] by blast
  moreover have "c' = c2\<lparr>pc_status := C_APPROVED, pc_approved_at := Some now\<rparr>" using transition_Inr [OF t(3)] by simp
  moreover have "c1 = c\<lparr>pc_status := C_IN_REVIEW\<rparr>" using transition_Inr [OF t(1)] by simp
  ultimately show ?thesis by (simp add: t(2))
qed

lemma criterion_for_approved: "criterion_for h d p r c \<Longrightarrow> with_approved True c = c"
  by (cases c) (auto simp: criterion_for_def)

lemma criteria_approved: "list_all2 (criterion_for h d p) rs cs \<Longrightarrow> map (with_approved True) cs = cs"
  by (induction rs cs rule: list_all2_induct) (auto simp: criterion_for_approved)

lemma model_result_Inr [simp]: "model_result v = Inr c \<longleftrightarrow> v = Inr c"
  by (cases v) (auto simp: model_result_def split: contract_error.splits)

lemma model_result_of_Inr [simp]: "model_result (Inr c) = Inr c"
  by simp

text \<open>What a preparation is, of its inputs.\<close>

definition prepared_from :: "hasher \<Rightarrow> agreement_inputs \<Rightarrow> agreement_preparation \<Rightarrow> bool" where
  "prepared_from h q a \<longleftrightarrow> (ap_poc a, ap_retained a, ap_plan a) = q \<and> ap_input_fingerprint a = agreement_inputs_fingerprint h q \<and>
     contract_ok (ap_contract a) \<and> pc_status (ap_contract a) = C_APPROVED \<and> pc_confirmation_id (ap_contract a) = None \<and>
     pc_canonical_hash (ap_contract a) = None \<and> dt_aware (ap_prepared_at a) \<and>
     list_all2 (criterion_for h (ap_poc a) (ap_plan a)) (cp_records (ap_plan a)) (pc_criteria (ap_contract a))"

lemma prepare_from_inputs_Inr:
  assumes "prepare_from_inputs h q version cid parent now reviewer rationale = Inr a"
  shows "prepared_from h q a" "pc_version (ap_contract a) = version" "pc_id (ap_contract a) = cid" "pc_parent_version (ap_contract a) = parent"
    "ap_prepared_at a = now" "ap_reviewer a = reviewer" "ap_rationale a = rationale"
proof -
  obtain d xs p where q: "q = (d, xs, p)" by (cases q) auto
  obtain c ls where c: "assemble_contract h d xs p version cid parent now reviewer rationale = Inr (c, ls)"
    and a: "a = \<lparr>ap_poc = d, ap_contract = c, ap_plan = p, ap_retained = xs, ap_limitations = ls, ap_prepared_at = now,
           ap_input_fingerprint = agreement_inputs_fingerprint h q,
           ap_draft_sha256 = agreement_draft_sha256 h d c p (agreement_inputs_fingerprint h q) now reviewer rationale,
           ap_reviewer = reviewer, ap_rationale = rationale\<rparr>"
    using assms by (auto simp: prepare_from_inputs_def q Let_def split: sum.split_asm)
  obtain cs ls' where g: "dt_aware now" "assemble_criteria h d xs p (plan_digest h p) reviewer rationale (cp_records p) = Inr (cs, ls')"
    "approve_draft (draft_contract h d version cid parent now cs ls) now = Inr c"
    using c by (auto simp: assemble_contract_def Let_def split: if_split_asm sum.split_asm)
  have ok: "contract_ok c" using approve_draft_Inr [OF g(3)] by (rule conjunct1)
  note e = conjunct2 [OF approve_draft_Inr [OF g(3)]] and l = assemble_criteria_Inr [OF g(2)]
  define c0 where "c0 = draft_contract h d version cid parent now cs ls"
  have c0: "pc_id c0 = cid" "pc_version c0 = version" "pc_parent_version c0 = parent" "pc_confirmation_id c0 = None"
    "pc_canonical_hash c0 = None" "pc_criteria c0 = cs" by (simp_all add: c0_def draft_contract_def)
  have k: "contract_ok c" "pc_id c = cid" "pc_version c = version" "pc_parent_version c = parent" "pc_confirmation_id c = None"
    "pc_canonical_hash c = None" "pc_criteria c = cs" "pc_status c = C_APPROVED"
    using ok e criteria_approved [OF l] c0 unfolding c0_def [symmetric] by simp_all
  show "prepared_from h q a" "pc_version (ap_contract a) = version" "pc_id (ap_contract a) = cid" "pc_parent_version (ap_contract a) = parent"
    "ap_prepared_at a = now" "ap_reviewer a = reviewer" "ap_rationale a = rationale"
    using k l g(1) by (simp_all add: prepared_from_def a q)
qed

subsection \<open>What an operation changes\<close>

text \<open>The five changes, the tables of keys left open.\<close>

definition decided_on :: "hasher \<Rightarrow> agreement_preparation \<Rightarrow> contract_confirmation \<Rightarrow> bool" where
  "decided_on h a r \<longleftrightarrow> cc_contract_id r = pc_id (ap_contract a) \<and> cc_contract_version r = pc_version (ap_contract a) \<and>
     cc_contract_fingerprint r = contract_confirmation_fingerprint h (ap_contract a) \<and> cc_agreement_acknowledged r \<and>
     cc_confirmer_identity r = REVIEW_CONFIRMER \<and> contract_confirmation_ok r"

definition frozen_from :: "hasher \<Rightarrow> agreement_preparation \<Rightarrow> contract_confirmation \<Rightarrow> poc_contract \<Rightarrow> bool" where
  "frozen_from h a r f \<longleftrightarrow> confirmation_matches_contract h (ap_contract a) r \<and>
     (\<exists>now. freeze_with h (ap_contract a) (Some (cc_confirmation_id r)) now = Inr f)"

definition succeeds :: "hasher \<Rightarrow> agreement_preparation \<Rightarrow> agreement_preparation \<Rightarrow> bool" where
  "succeeds h a b \<longleftrightarrow> pc_id (ap_contract b) = pc_id (ap_contract a) \<and>
     pc_parent_version (ap_contract b) = Some (pc_id (ap_contract a) @ ''@'' @ pc_version (ap_contract a)) \<and>
     (\<exists>n. version_number (pc_version (ap_contract a)) = Some n \<and> pc_version (ap_contract b) = show_nat (n + 1)) \<and>
     ap_input_fingerprint b \<noteq> ap_input_fingerprint a"

inductive agreement_change :: "hasher \<Rightarrow> agreement_service \<Rightarrow> agreement_service \<Rightarrow> bool" for h where
  change_prepare: "map_of (ag_preparations s) poc = None \<Longrightarrow> prepared_from h q a \<Longrightarrow> pc_version (ap_contract a) = ''1'' \<Longrightarrow>
    pc_parent_version (ap_contract a) = None \<Longrightarrow>
    agreement_change h s (s\<lparr>ag_preparations := AList.update poc a (ag_preparations s),
      ag_invitations := AList.update poc l (ag_invitations s), ag_prepare_keys := k\<rparr>)"
| change_decide: "map_of (ag_preparations s) poc = Some a \<Longrightarrow> map_of (ag_confirmations s) poc = None \<Longrightarrow> decided_on h a r \<Longrightarrow>
    agreement_change h s (s\<lparr>ag_confirmations := AList.update poc r (ag_confirmations s), ag_decision_keys := k\<rparr>)"
| change_revise: "map_of (ag_preparations s) poc = Some a \<Longrightarrow> map_of (ag_confirmations s) poc = Some r \<Longrightarrow> cc_decision r = REQUEST_CHANGES \<Longrightarrow>
    length (history_of s poc) < 32 \<Longrightarrow> prepared_from h q b \<Longrightarrow> succeeds h a b \<Longrightarrow> ah_preparation v = a \<Longrightarrow> ah_confirmation v = r \<Longrightarrow>
    agreement_change h s (s\<lparr>ag_history := AList.update poc (history_of s poc @ [v]) (ag_history s),
      ag_revisions := AList.update poc w (ag_revisions s), ag_preparations := AList.update poc b (ag_preparations s),
      ag_invitations := AList.update poc l (ag_invitations s), ag_confirmations := AList.delete poc (ag_confirmations s),
      ag_frozen := AList.delete poc (ag_frozen s), ag_revision_keys := k, ag_revision_results := m\<rparr>)"
| change_reissue: "map_of (ag_preparations s) poc = Some a \<Longrightarrow> map_of (ag_confirmations s) poc = None \<Longrightarrow>
    agreement_change h s (s\<lparr>ag_invitations := AList.update poc l (ag_invitations s), ag_review_keys := k\<rparr>)"
| change_freeze: "map_of (ag_preparations s) poc = Some a \<Longrightarrow> map_of (ag_confirmations s) poc = Some r \<Longrightarrow> map_of (ag_frozen s) poc = None \<Longrightarrow>
    frozen_from h a r f \<Longrightarrow>
    agreement_change h s (s\<lparr>ag_frozen := AList.update poc f (ag_frozen s), ag_freeze_keys := k\<rparr>)"

lemma prepare_fresh:
  assumes "prepare_agreement h mac rid two clock poc reviewer rationale key s = (t, Inr (a, False))"
  obtains q now rv ra l kd where "stable_inputs h poc two = Inr q" "map_of (ag_preparations s) poc = None" "clock = Some now"
    "prepare_from_inputs h q ''1'' (agreement_contract_id h poc (snd (snd q))) None now rv ra = Inr a"
    "issue_agreement_link h mac rid a now = Inr l"
    "t = s\<lparr>ag_preparations := AList.update poc a (ag_preparations s), ag_invitations := AList.update poc l (ag_invitations s),
      ag_prepare_keys := AList.update (poc, kd) (prepare_digest h poc (agreement_contract_id h poc (snd (snd q))) q rv ra) (ag_prepare_keys s)\<rparr>"
proof -
  obtain q kd rv ra where q: "stable_inputs h poc two = Inr q" "prepare_current h mac rid q clock poc rv ra kd s = (t, Inr (a, False))"
    using assms by (simp add: prepare_agreement_def split: if_split_asm option.split_asm sum.split_asm)
  then have n: "map_of (ag_prepare_keys s) (poc, kd) = None" "map_of (ag_preparations s) poc = None"
    by (simp_all add: prepare_current_def Let_def split: if_split_asm option.split_asm)
  obtain now where now: "clock = Some now" using q(2) n by (simp add: prepare_current_def Let_def split: if_split_asm option.split_asm)
  obtain a' where a: "prepare_from_inputs h q ''1'' (agreement_contract_id h poc (snd (snd q))) None now rv ra = Inr a'"
    using q(2) n now by (simp add: prepare_current_def Let_def split: if_split_asm sum.split_asm)
  obtain l where l: "issue_agreement_link h mac rid a' now = Inr l"
    using q(2) n now a by (simp add: prepare_current_def Let_def split: if_split_asm sum.split_asm)
  have "a' = a" "t = s\<lparr>ag_preparations := AList.update poc a' (ag_preparations s), ag_invitations := AList.update poc l (ag_invitations s),
      ag_prepare_keys := AList.update (poc, kd) (prepare_digest h poc (agreement_contract_id h poc (snd (snd q))) q rv ra) (ag_prepare_keys s)\<rparr>"
    using q(2) n now a l by (auto simp: prepare_current_def Let_def split: if_split_asm)
  then show ?thesis using that q(1) n(2) now a l by blast
qed

lemma prepare_same:
  assumes "prepare_agreement h mac rid two clock poc reviewer rationale key s = (t, v)" and "\<And>a. v \<noteq> Inr (a, False)"
  shows "t = s"
proof (cases "stable_inputs h poc two")
  case (Inr q)
  have "prepare_current h mac rid q clock poc rv ra kd s = (t, v) \<Longrightarrow> t = s" for rv ra kd
    using assms(2) by (simp add: prepare_current_def Let_def split: option.split_asm if_split_asm sum.split_asm) metis
  with Inr assms(1) show ?thesis by (simp add: prepare_agreement_def split: if_split_asm option.split_asm)
qed (use assms(1) in \<open>simp add: prepare_agreement_def split: if_split_asm option.split_asm\<close>)

lemma require_current_Inr:
  assumes "require_current_preparation h poc two s = Inr a"
  obtains q b where "map_of (ag_preparations s) poc = Some a" "stable_inputs h poc two = Inr q"
    "agreement_inputs_fingerprint h q = ap_input_fingerprint a" "rebuild_preparation h q a = Inr b"
    "contract_dump (ap_contract b) = contract_dump (ap_contract a)" "ap_draft_sha256 b = ap_draft_sha256 a"
  using assms by (simp add: require_current_preparation_def split: option.split_asm sum.split_asm if_split_asm)

lemma require_link_Inr:
  assumes "require_review_link h mac two token clock s = Inr (poc, a, l)"
  shows "require_current_preparation h poc two s = Inr a" "map_of (ag_invitations s) poc = Some l"
    "\<exists>now. clock = Some now \<and> link_require_valid h l token now = None"
    "lk_contract_id l = pc_id (ap_contract a)" "lk_contract_version l = pc_version (ap_contract a)"
    "lk_confirmation_fingerprint l = contract_confirmation_fingerprint h (ap_contract a)"
  using assms by (auto simp: require_review_link_def split: option.split_asm sum.split_asm if_split_asm)

lemma record_confirmation_Inr:
  assumes "record_confirmation h c identity d True rationale key now None = Inr r"
  shows "r = expected_confirmation h c identity d True rationale key now" "pc_status c = C_APPROVED" "contract_confirmation_ok r"
  using assms by (auto simp: record_confirmation_def Let_def split: if_split_asm)

lemma decide_fresh:
  assumes "record_customer_decision h mac two clock decided token decision ack rationale key cid version fp s = (t, Inr (r, False))"
  obtains poc a l d ra kd now where "require_review_link h mac two token clock s = Inr (poc, a, l)" "decision = Some d" "ack"
    "map_of (ag_confirmations s) poc = None" "decided = Some now"
    "record_confirmation h (ap_contract a) REVIEW_CONFIRMER d True ra kd now None = Inr r"
    "t = s\<lparr>ag_confirmations := AList.update poc r (ag_confirmations s),
      ag_decision_keys := AList.update (poc, kd) (decision_digest h poc (ap_contract a) d ra) (ag_decision_keys s)\<rparr>"
proof -
  obtain d where d: "decision = Some d" "ack" using assms by (simp add: record_customer_decision_def split: option.split_asm if_split_asm)
  obtain ra kd where k: "agreement_text 2000 False rationale = Some ra" "agreement_key_digest h key = Some kd"
    using assms d by (auto simp: record_customer_decision_def split: option.split_asm)
  obtain poc a l where l: "require_review_link h mac two token clock s = Inr (poc, a, l)"
    using assms d k by (auto simp: record_customer_decision_def split: sum.split_asm)
  have "decide_current h poc (ap_contract a) d ra kd decided s = (t, Inr (r, False))"
    using assms d k l by (simp add: record_customer_decision_def Let_def split: if_split_asm)
  then have n: "map_of (ag_decision_keys s) (poc, kd) = None" "map_of (ag_confirmations s) poc = None"
    and e: "decide_current h poc (ap_contract a) d ra kd decided s = (t, Inr (r, False))"
    by (simp_all add: decide_current_def split: if_split_asm option.split_asm)
  obtain now where now: "decided = Some now" using e n by (simp add: decide_current_def split: option.split_asm)
  have "record_confirmation h (ap_contract a) REVIEW_CONFIRMER d True ra kd now None = Inr r \<and>
    t = s\<lparr>ag_confirmations := AList.update poc r (ag_confirmations s),
      ag_decision_keys := AList.update (poc, kd) (decision_digest h poc (ap_contract a) d ra) (ag_decision_keys s)\<rparr>"
    using e n now by (auto simp: decide_current_def split: sum.split_asm)
  then show ?thesis using that l d n(2) now by blast
qed

lemma decide_same:
  assumes "record_customer_decision h mac two clock decided token decision ack rationale key cid version fp s = (t, v)"
    and "\<And>r. v \<noteq> Inr (r, False)"
  shows "t = s"
proof -
  have "decide_current h poc c d ra kd decided s = (t, v) \<Longrightarrow> t = s" for poc c d ra kd
    using assms(2) by (simp add: decide_current_def split: option.split_asm if_split_asm sum.split_asm) metis
  with assms(1) show ?thesis
    by (simp add: record_customer_decision_def Let_def split: option.split_asm if_split_asm sum.split_asm prod.split_asm)
qed


lemma revise_fresh:
  assumes "start_revision h mac rid two clock poc reviewer rationale key s = (t, Inr (w, False))"
  obtains q now rv ra kd a b r l link n where "stable_inputs h poc two = Inr q" "clock = Some now"
    "map_of (ag_preparations s) poc = Some a" "map_of (ag_confirmations s) poc = Some r" "cc_decision r = REQUEST_CHANGES"
    "length (history_of s poc) < 32" "version_number (pc_version (ap_contract a)) = Some n"
    "agreement_inputs_fingerprint h q \<noteq> ap_input_fingerprint a"
    "prepare_from_inputs h q (show_nat (n + 1)) (pc_id (ap_contract a))
      (Some (pc_id (ap_contract a) @ ''@'' @ pc_version (ap_contract a))) now rv ra = Inr b"
    "w = make_revision h poc n a b (cc_rationale r) now"
    "t = publish_revision poc kd (revision_digest h poc (ap_draft_sha256 a) q rv ra) a l r b link w now s"
proof -
  obtain rv where rv: "agreement_text 160 True reviewer = Some rv" using assms by (simp add: start_revision_def split: if_split_asm option.split_asm)
  obtain ra where ra: "agreement_text 2000 False rationale = Some ra" using assms rv by (simp add: start_revision_def split: if_split_asm option.split_asm)
  obtain kd where kd: "agreement_key_digest h key = Some kd" using assms rv ra by (simp add: start_revision_def split: if_split_asm option.split_asm)
  obtain a where a: "map_of (ag_preparations s) poc = Some a" using assms rv ra kd by (simp add: start_revision_def split: if_split_asm option.split_asm)
  obtain q where q: "stable_inputs h poc two = Inr q" using assms rv ra kd a by (simp add: start_revision_def split: if_split_asm sum.split_asm)
  have c: "revise_current h mac rid q clock poc rv ra kd a s = (t, Inr (w, False))"
    using assms rv ra kd a q by (simp add: start_revision_def split: if_split_asm option.split_asm)
  obtain r l where r: "map_of (ag_confirmations s) poc = Some r" "map_of (ag_invitations s) poc = Some l" "cc_decision r = REQUEST_CHANGES"
    using c by (simp add: revise_current_def split: option.split_asm if_split_asm)
  obtain n where n: "version_number (pc_version (ap_contract a)) = Some n" using c r by (simp add: revise_current_def split: option.split_asm)
  have g: "length (history_of s poc) < 32" "agreement_inputs_fingerprint h q \<noteq> ap_input_fingerprint a"
    using c r n by (simp_all add: revise_current_def split: if_split_asm)
  obtain now where now: "clock = Some now" using c r n g by (simp add: revise_current_def split: option.split_asm)
  obtain b where b: "prepare_from_inputs h q (show_nat (n + 1)) (pc_id (ap_contract a))
      (Some (pc_id (ap_contract a) @ ''@'' @ pc_version (ap_contract a))) now rv ra = Inr b"
    using c r n g now by (simp add: revise_current_def split: sum.split_asm)
  obtain link where link: "issue_agreement_link h mac rid b now = Inr link" using c r n g now b by (simp add: revise_current_def split: sum.split_asm)
  have "w = make_revision h poc n a b (cc_rationale r) now \<and>
    t = publish_revision poc kd (revision_digest h poc (ap_draft_sha256 a) q rv ra) a l r b link w now s"
    using c r n g now b link by (auto simp: revise_current_def Let_def)
  then show ?thesis using that q now a r g n b by blast
qed

lemma revise_same:
  assumes "start_revision h mac rid two clock poc reviewer rationale key s = (t, v)" and "\<And>w. v \<noteq> Inr (w, False)"
  shows "t = s"
proof -
  have "revise_current h mac rid q clock poc rv ra kd a s = (t, v) \<Longrightarrow> t = s" for q rv ra kd a
    using assms(2) by (simp add: revise_current_def Let_def split: option.split_asm if_split_asm sum.split_asm) metis
  with assms(1) show ?thesis
    by (simp add: start_revision_def split: option.split_asm if_split_asm sum.split_asm)
qed

lemma reissue_fresh:
  assumes "reissue_customer_review h mac rid two clock poc key s = (t, Inr (l, False))"
  obtains a old now kd where "require_current_preparation h poc two s = Inr a" "map_of (ag_invitations s) poc = Some old"
    "map_of (ag_confirmations s) poc = None" "clock = Some now" "dt_aware now" "instant (lk_expires_at old) \<le> instant now"
    "issue_agreement_link h mac rid a now = Inr l"
    "t = s\<lparr>ag_invitations := AList.update poc l (ag_invitations s),
      ag_review_keys := AList.update (poc, kd) (reissue_digest h poc (ap_contract a)) (ag_review_keys s)\<rparr>"
  using assms
  by (auto simp: reissue_customer_review_def Let_def not_less split: option.split_asm if_split_asm sum.split_asm)

lemma reissue_same:
  assumes "reissue_customer_review h mac rid two clock poc key s = (t, v)" and "\<And>l. v \<noteq> Inr (l, False)"
  shows "t = s"
  using assms by (simp add: reissue_customer_review_def Let_def split: option.split_asm if_split_asm sum.split_asm) metis

lemma freeze_fresh:
  assumes "freeze_agreement h two clock poc key s = (t, Inr (f, False))"
  obtains a r now kd where "require_current_preparation h poc two s = Inr a" "map_of (ag_confirmations s) poc = Some r"
    "map_of (ag_frozen s) poc = None" "clock = Some now" "confirmation_matches_contract h (ap_contract a) r"
    "freeze_confirmed_contract h (ap_contract a) (Some r) now = Inr f"
    "t = s\<lparr>ag_frozen := AList.update poc f (ag_frozen s),
      ag_freeze_keys := AList.update (poc, kd) (freeze_digest h poc a) (ag_freeze_keys s)\<rparr>"
proof -
  obtain kd a r where k: "require_current_preparation h poc two s = Inr a" "map_of (ag_confirmations s) poc = Some r"
    "freeze_current h clock poc kd a r s = (t, Inr (f, False))"
    using assms by (simp add: freeze_agreement_def split: option.split_asm if_split_asm sum.split_asm)
  show ?thesis using that k
    by (auto simp: freeze_current_def split: option.split_asm if_split_asm sum.split_asm)
qed

lemma freeze_same:
  assumes "freeze_agreement h two clock poc key s = (t, v)" and "\<And>f. v \<noteq> Inr (f, False)"
  shows "t = s"
proof -
  have "freeze_current h clock poc kd a r s = (t, v) \<Longrightarrow> t = s" for kd a r
    using assms(2) by (simp add: freeze_current_def split: option.split_asm if_split_asm sum.split_asm) metis
  with assms(1) show ?thesis by (simp add: freeze_agreement_def split: option.split_asm if_split_asm sum.split_asm)
qed

subsection \<open>Version numbers\<close>

lemma decimal_value_append:
  "decimal_value n (xs @ ys) = (case decimal_value n xs of None \<Rightarrow> None | Some m \<Rightarrow> decimal_value m ys)"
  by (induction n xs rule: decimal_value.induct) auto

lemma decimal_value_digit: "d < 10 \<Longrightarrow> decimal_value m [char_of (48 + d)] = Some (10 * m + d)"
proof -
  assume "d < 10"
  then have "is_digit (char_of (48 + d))" "(of_char (char_of (48 + d) :: char) :: nat) = 48 + d"
    by (simp_all add: is_digit_def less_eq_char_def)
  then show ?thesis by simp
qed

lemma decimal_value_show: "decimal_value 0 (show_nat n) = Some n"
proof (induction n rule: show_nat.induct)
  case (1 n)
  show ?case
  proof (cases "n < 10")
    case True
    then show ?thesis using decimal_value_digit [OF True, of 0] by (subst show_nat.simps) simp
  next
    case False
    then have "decimal_value 0 (show_nat (n div 10)) = Some (n div 10)" using 1 by blast
    then show ?thesis using False decimal_value_digit [of "n mod 10" "n div 10"]
      by (subst show_nat.simps) (simp del: decimal_value.simps add: decimal_value_append)
  qed
qed

lemma version_number_show [simp]: "version_number (show_nat n) = Some n"
proof -
  have "show_nat n \<noteq> []" by (subst show_nat.simps) simp
  then show ?thesis by (simp add: version_number_def decimal_value_show)
qed

subsection \<open>Reachable services\<close>

inductive agreement_step :: "hasher \<Rightarrow> (json \<Rightarrow> string) \<Rightarrow> agreement_service \<Rightarrow> agreement_service \<Rightarrow> bool" for h mac where
  step_prepare: "agreement_step h mac s (fst (prepare_agreement h mac rid two clock poc reviewer rationale key s))"
| step_decide: "agreement_step h mac s (fst (record_customer_decision h mac two clock decided token decision ack rationale key cid version fp s))"
| step_revise: "agreement_step h mac s (fst (start_revision h mac rid two clock poc reviewer rationale key s))"
| step_reissue: "agreement_step h mac s (fst (reissue_customer_review h mac rid two clock poc key s))"
| step_freeze: "agreement_step h mac s (fst (freeze_agreement h two clock poc key s))"

inductive agreement_reachable :: "hasher \<Rightarrow> (json \<Rightarrow> string) \<Rightarrow> agreement_service \<Rightarrow> bool" for h mac where
  reachable_new: "agreement_service_new n = Inr s \<Longrightarrow> agreement_reachable h mac s"
| reachable_step: "agreement_reachable h mac s \<Longrightarrow> agreement_step h mac s t \<Longrightarrow> agreement_reachable h mac t"

lemma prepare_change:
  assumes "prepare_agreement h mac rid two clock poc reviewer rationale key s = (t, Inr (a, False))"
  shows "agreement_change h s t"
proof (rule prepare_fresh [OF assms])
  fix q now rv ra l kd
  assume n: "map_of (ag_preparations s) poc = None"
    and a: "prepare_from_inputs h q ''1'' (agreement_contract_id h poc (snd (snd q))) None now rv ra = Inr a"
    and t: "t = s\<lparr>ag_preparations := AList.update poc a (ag_preparations s), ag_invitations := AList.update poc l (ag_invitations s),
      ag_prepare_keys := AList.update (poc, kd) (prepare_digest h poc (agreement_contract_id h poc (snd (snd q))) q rv ra) (ag_prepare_keys s)\<rparr>"
  show ?thesis unfolding t by (rule change_prepare [OF n prepare_from_inputs_Inr(1,2,4) [OF a]])
qed

lemma decide_change:
  assumes "record_customer_decision h mac two clock decided token decision ack rationale key cid version fp s = (t, Inr (r, False))"
  shows "agreement_change h s t"
proof (rule decide_fresh [OF assms])
  fix poc a l d ra kd now
  assume l: "require_review_link h mac two token clock s = Inr (poc, a, l)" and n: "map_of (ag_confirmations s) poc = None"
    and r: "record_confirmation h (ap_contract a) REVIEW_CONFIRMER d True ra kd now None = Inr r"
    and t: "t = s\<lparr>ag_confirmations := AList.update poc r (ag_confirmations s),
      ag_decision_keys := AList.update (poc, kd) (decision_digest h poc (ap_contract a) d ra) (ag_decision_keys s)\<rparr>"
  have "map_of (ag_preparations s) poc = Some a"
    by (rule require_current_Inr [OF require_link_Inr(1) [OF l]])
  moreover have "decided_on h a r"
    using record_confirmation_Inr(3) [OF r] by (simp add: record_confirmation_Inr(1) [OF r] decided_on_def expected_confirmation_def)
  ultimately show ?thesis unfolding t by (rule change_decide [OF _ n])
qed

lemma revise_change:
  assumes "start_revision h mac rid two clock poc reviewer rationale key s = (t, Inr (w, False))"
  shows "agreement_change h s t"
proof (rule revise_fresh [OF assms])
  fix q now rv ra kd a b r l link n
  assume g: "map_of (ag_preparations s) poc = Some a" "map_of (ag_confirmations s) poc = Some r" "cc_decision r = REQUEST_CHANGES"
      "length (history_of s poc) < 32"
    and n: "version_number (pc_version (ap_contract a)) = Some n" and f: "agreement_inputs_fingerprint h q \<noteq> ap_input_fingerprint a"
    and b: "prepare_from_inputs h q (show_nat (n + 1)) (pc_id (ap_contract a))
      (Some (pc_id (ap_contract a) @ ''@'' @ pc_version (ap_contract a))) now rv ra = Inr b"
    and t: "t = publish_revision poc kd (revision_digest h poc (ap_draft_sha256 a) q rv ra) a l r b link w now s"
  note p = prepare_from_inputs_Inr [OF b]
  have "succeeds h a b" using p(1-4) n f by (simp add: succeeds_def prepared_from_def)
  then show ?thesis unfolding t publish_revision_def by (rule change_revise [OF g p(1)]) simp_all
qed

lemma reissue_change:
  assumes "reissue_customer_review h mac rid two clock poc key s = (t, Inr (l, False))"
  shows "agreement_change h s t"
proof (rule reissue_fresh [OF assms])
  fix a kd
  assume a: "require_current_preparation h poc two s = Inr a" and n: "map_of (ag_confirmations s) poc = None"
    and t: "t = s\<lparr>ag_invitations := AList.update poc l (ag_invitations s),
      ag_review_keys := AList.update (poc, kd) (reissue_digest h poc (ap_contract a)) (ag_review_keys s)\<rparr>"
  have "map_of (ag_preparations s) poc = Some a" by (rule require_current_Inr [OF a])
  then show ?thesis unfolding t by (rule change_reissue [OF _ n])
qed

lemma freeze_change:
  assumes "freeze_agreement h two clock poc key s = (t, Inr (f, False))"
  shows "agreement_change h s t"
proof (rule freeze_fresh [OF assms])
  fix a r now kd
  assume a: "require_current_preparation h poc two s = Inr a" and r: "map_of (ag_confirmations s) poc = Some r"
    and n: "map_of (ag_frozen s) poc = None" and m: "confirmation_matches_contract h (ap_contract a) r"
    and f: "freeze_confirmed_contract h (ap_contract a) (Some r) now = Inr f"
    and t: "t = s\<lparr>ag_frozen := AList.update poc f (ag_frozen s),
      ag_freeze_keys := AList.update (poc, kd) (freeze_digest h poc a) (ag_freeze_keys s)\<rparr>"
  have p: "map_of (ag_preparations s) poc = Some a" by (rule require_current_Inr [OF a])
  have "frozen_from h a r f" using f m by (auto simp: frozen_from_def elim!: freeze_confirmed_Inr)
  then show ?thesis unfolding t by (rule change_freeze [OF p r n])
qed

text \<open>A step that is not a fresh success changes nothing.\<close>

lemma agreement_step_change:
  assumes "agreement_step h mac s t"
  shows "t = s \<or> agreement_change h s t"
proof -
  have pair: "\<exists>v. m = (fst m, v)" for m :: "agreement_service \<times> (agreement_error + 'x \<times> bool)" by (metis prod.collapse)
  show ?thesis using assms
  proof cases
    case (step_prepare rid two clock poc reviewer rationale key)
    then obtain v where v: "prepare_agreement h mac rid two clock poc reviewer rationale key s = (t, v)" using pair by metis
    show ?thesis using prepare_same [OF v] prepare_change v by metis
  next
    case (step_decide two clock decided token decision ack rationale key cid version fp)
    then obtain v where v: "record_customer_decision h mac two clock decided token decision ack rationale key cid version fp s = (t, v)"
      using pair by metis
    show ?thesis using decide_same [OF v] decide_change v by metis
  next
    case (step_revise rid two clock poc reviewer rationale key)
    then obtain v where v: "start_revision h mac rid two clock poc reviewer rationale key s = (t, v)" using pair by metis
    show ?thesis using revise_same [OF v] revise_change v by metis
  next
    case (step_reissue rid two clock poc key)
    then obtain v where v: "reissue_customer_review h mac rid two clock poc key s = (t, v)" using pair by metis
    show ?thesis using reissue_same [OF v] reissue_change v by metis
  next
    case (step_freeze two clock poc key)
    then obtain v where v: "freeze_agreement h two clock poc key s = (t, v)" using pair by metis
    show ?thesis using freeze_same [OF v] freeze_change v by metis
  qed
qed

text \<open>
  A lineage: version numbers from 1, one contract identifier, each but the first naming the one
  before as its parent.
\<close>

definition lineage_ok :: "agreement_preparation list \<Rightarrow> bool" where
  "lineage_ok xs \<longleftrightarrow> (\<forall>i < length xs. pc_version (ap_contract (xs ! i)) = show_nat (i + 1) \<and>
     pc_id (ap_contract (xs ! i)) = pc_id (ap_contract (xs ! 0)) \<and>
     pc_parent_version (ap_contract (xs ! i)) = (if i = 0 then None else Some (pc_id (ap_contract (xs ! 0)) @ ''@'' @ show_nat i)))"

lemma lineage_first: "pc_version (ap_contract a) = ''1'' \<Longrightarrow> pc_parent_version (ap_contract a) = None \<Longrightarrow> lineage_ok [a]"
proof -
  assume "pc_version (ap_contract a) = ''1''" and "pc_parent_version (ap_contract a) = None"
  moreover have "show_nat 1 = ''1''" by code_simp
  ultimately show ?thesis by (simp add: lineage_ok_def)
qed

lemma lineage_next:
  assumes "lineage_ok (xs @ [a])" and "succeeds h a b"
  shows "lineage_ok (xs @ [a, b])"
proof -
  let ?n = "length xs"
  have a: "pc_version (ap_contract a) = show_nat (?n + 1)" "pc_id (ap_contract a) = pc_id (ap_contract ((xs @ [a]) ! 0))"
    using assms(1) [unfolded lineage_ok_def, rule_format, of ?n] by simp_all
  have b: "pc_id (ap_contract b) = pc_id (ap_contract a)" "pc_version (ap_contract b) = show_nat (?n + 2)"
    "pc_parent_version (ap_contract b) = Some (pc_id (ap_contract a) @ ''@'' @ show_nat (?n + 1))"
    using assms(2) a(1) by (auto simp: succeeds_def)
  have h: "(xs @ [a, b]) ! 0 = (xs @ [a]) ! 0" by (cases xs) simp_all
  show ?thesis unfolding lineage_ok_def
  proof (intro allI impI)
    fix i
    assume "i < length (xs @ [a, b])"
    then consider "i < ?n + 1" | "i = ?n + 1" by fastforce
    then show "pc_version (ap_contract ((xs @ [a, b]) ! i)) = show_nat (i + 1) \<and>
      pc_id (ap_contract ((xs @ [a, b]) ! i)) = pc_id (ap_contract ((xs @ [a, b]) ! 0)) \<and>
      pc_parent_version (ap_contract ((xs @ [a, b]) ! i)) =
        (if i = 0 then None else Some (pc_id (ap_contract ((xs @ [a, b]) ! 0)) @ ''@'' @ show_nat i))"
    proof cases
      case 1
      then have e: "(xs @ [a, b]) ! i = (xs @ [a]) ! i" by (simp add: nth_append)
      from 1 have "i < length (xs @ [a])" by simp
      then show ?thesis unfolding e h using assms(1) [unfolded lineage_ok_def] by blast
    next
      case 2
      then have e: "(xs @ [a, b]) ! i = b" by (simp add: nth_append)
      show ?thesis unfolding e h using 2 b a(2) by simp
    qed
  qed
qed

definition poc_consistent :: "hasher \<Rightarrow> agreement_service \<Rightarrow> string \<Rightarrow> bool" where
  "poc_consistent h s poc \<longleftrightarrow> (case map_of (ag_preparations s) poc of
     None \<Rightarrow> history_of s poc = [] \<and> map_of (ag_confirmations s) poc = None \<and> map_of (ag_frozen s) poc = None
   | Some a \<Rightarrow> (\<exists>q. prepared_from h q a) \<and> length (history_of s poc) \<le> 32 \<and>
       lineage_ok (map ah_preparation (history_of s poc) @ [a]) \<and>
       (\<forall>v \<in> set (history_of s poc). cc_decision (ah_confirmation v) = REQUEST_CHANGES \<and> decided_on h (ah_preparation v) (ah_confirmation v)) \<and>
       (\<forall>r. map_of (ag_confirmations s) poc = Some r \<longrightarrow> decided_on h a r) \<and>
       (\<forall>f. map_of (ag_frozen s) poc = Some f \<longrightarrow> (\<exists>r. map_of (ag_confirmations s) poc = Some r \<and> frozen_from h a r f)))"

definition agreement_inv :: "hasher \<Rightarrow> agreement_service \<Rightarrow> bool" where
  "agreement_inv h s \<longleftrightarrow> (\<forall>poc. poc_consistent h s poc)"

lemma history_update: "history_of (s\<lparr>ag_history := AList.update poc l x\<rparr>) p = (if p = poc then l else case map_of x p of None \<Rightarrow> [] | Some l \<Rightarrow> l)"
  by (simp add: history_of_def)

lemma map_of_delete: "map_of (AList.delete k d) i = (if i = k then None else map_of d i)"
  by (simp add: delete_conv')

text \<open>A change concerns one POC.\<close>

lemma poc_consistent_same:
  assumes "poc_consistent h s p" and "map_of (ag_preparations t) p = map_of (ag_preparations s) p" and "history_of t p = history_of s p"
    and "map_of (ag_confirmations t) p = map_of (ag_confirmations s) p" and "map_of (ag_frozen t) p = map_of (ag_frozen s) p"
  shows "poc_consistent h t p"
  using assms(1) unfolding poc_consistent_def assms(2-5) .

lemma agreement_change_inv:
  assumes "agreement_change h s t" and inv: "agreement_inv h s"
  shows "agreement_inv h t"
  using assms(1)
proof cases
  case (change_prepare poc q a l k)
  have "poc_consistent h t p" for p
  proof (cases "p = poc")
    case True
    have "history_of s poc = []" "map_of (ag_confirmations s) poc = None" "map_of (ag_frozen s) poc = None"
      using inv [unfolded agreement_inv_def, rule_format, of poc] change_prepare(2) by (simp_all add: poc_consistent_def)
    then show ?thesis using True change_prepare(3) lineage_first [OF change_prepare(4,5)]
      by (auto simp: change_prepare(1) poc_consistent_def history_of_def simp del: split_paired_Ex)
  next
    case False
    have "poc_consistent h s p" using inv by (simp add: agreement_inv_def)
    then show ?thesis by (rule poc_consistent_same) (use False in \<open>simp_all add: change_prepare(1) history_of_def map_of_delete\<close>)
  qed
  then show ?thesis by (simp add: agreement_inv_def)
next
  case (change_decide poc a r k)
  have "poc_consistent h t p" for p
  proof (cases "p = poc")
    case True
    have "poc_consistent h s poc" using inv by (simp add: agreement_inv_def)
    then show ?thesis using True change_decide(2-4) by (auto simp: change_decide(1) poc_consistent_def history_of_def)
  next
    case False
    have "poc_consistent h s p" using inv by (simp add: agreement_inv_def)
    then show ?thesis by (rule poc_consistent_same) (use False in \<open>simp_all add: change_decide(1) history_of_def map_of_delete\<close>)
  qed
  then show ?thesis by (simp add: agreement_inv_def)
next
  case (change_revise poc a r q b v w l k m)
  have "poc_consistent h t p" for p
  proof (cases "p = poc")
    case True
    have c: "poc_consistent h s poc" using inv by (simp add: agreement_inv_def)
    then have l: "lineage_ok (map ah_preparation (history_of s poc) @ [a])" "decided_on h a r"
      and o: "\<forall>v \<in> set (history_of s poc). cc_decision (ah_confirmation v) = REQUEST_CHANGES \<and> decided_on h (ah_preparation v) (ah_confirmation v)"
      using change_revise(2,3) by (simp_all add: poc_consistent_def)
    have t: "map_of (ag_preparations t) poc = Some b" "history_of t poc = history_of s poc @ [v]" "map_of (ag_confirmations t) poc = None"
      "map_of (ag_frozen t) poc = None"
      by (simp_all add: change_revise(1) history_of_def map_of_delete)
    have "lineage_ok (map ah_preparation (history_of t poc) @ [b])" using lineage_next [OF l(1) change_revise(7)] change_revise(8) by (simp add: t)
    then show ?thesis using True t o l(2) change_revise(4,5,6,8,9) by (auto simp: poc_consistent_def simp del: split_paired_Ex)
  next
    case False
    have "poc_consistent h s p" using inv by (simp add: agreement_inv_def)
    then show ?thesis by (rule poc_consistent_same) (use False in \<open>simp_all add: change_revise(1) history_of_def map_of_delete\<close>)
  qed
  then show ?thesis by (simp add: agreement_inv_def)
next
  case (change_reissue poc a l k)
  have "poc_consistent h t p" for p
  proof -
    have "poc_consistent h s p" using inv by (simp add: agreement_inv_def)
    then show ?thesis by (rule poc_consistent_same) (simp_all add: change_reissue(1) history_of_def)
  qed
  then show ?thesis by (simp add: agreement_inv_def)
next
  case (change_freeze poc a r f k)
  have "poc_consistent h t p" for p
  proof (cases "p = poc")
    case True
    have "poc_consistent h s poc" using inv by (simp add: agreement_inv_def)
    then show ?thesis using True change_freeze(2-5) by (auto simp: change_freeze(1) poc_consistent_def history_of_def)
  next
    case False
    have "poc_consistent h s p" using inv by (simp add: agreement_inv_def)
    then show ?thesis by (rule poc_consistent_same) (use False in \<open>simp_all add: change_freeze(1) history_of_def map_of_delete\<close>)
  qed
  then show ?thesis by (simp add: agreement_inv_def)
qed

lemma agreement_reachable_inv: "agreement_reachable h mac s \<Longrightarrow> agreement_inv h s"
proof (induction rule: agreement_reachable.induct)
  case (reachable_new n s)
  then show ?case
    by (auto simp: agreement_service_new_def agreement_inv_def poc_consistent_def history_of_def split: if_split_asm)
next
  case (reachable_step s t)
  then show ?case using agreement_step_change agreement_change_inv by blast
qed

end
