(* ===== verification/Agreement_Laws.thy ===== *)
theory Agreement_Laws
  imports Agreement_Lemmas
begin

section \<open>Laws of the agreement service\<close>

text \<open>
  What a prepared, a confirmed, a revised and a frozen agreement guarantee, and two behaviours of the
  code that work against its users. The witnesses follow one sample agreement from its preparation
  over a decision to its freeze, a revision, and a new link.
\<close>

subsection \<open>What a frozen agreement is\<close>

lemma frozen_from_facts:
  assumes "frozen_from h a r f"
  shows "pc_status f = C_FROZEN" "pc_canonical_hash f = Some (contract_digest h f)" "pc_confirmation_id f = Some (cc_confirmation_id r)"
    "same_agreement f (ap_contract a)" "confirmation_matches_contract h (ap_contract a) r"
  using assms freeze_with_frozen by (auto simp: frozen_from_def)

lemma criterion_proposal: "criterion_for h d p r c \<Longrightarrow> \<exists>k. c = Capability k \<and> cap_proposal_id k = pn_proposal_id r \<and> cap_must_have k = (pn_scope r = MUST_HAVE)"
  by (cases c) (auto simp: criterion_for_def)

lemma criteria_proposals:
  "list_all2 (criterion_for h d p) rs cs \<Longrightarrow> length (capability_criteria cs) = length cs \<and>
    map cap_proposal_id (capability_criteria cs) = map pn_proposal_id rs"
proof (induction rs cs rule: list_all2_induct)
  case (Cons r rs c cs)
  then obtain k where "c = Capability k" "cap_proposal_id k = pn_proposal_id r" using criterion_proposal by blast
  then show ?case using Cons by simp
qed simp

text \<open>
  C3. A frozen contract of a reachable service rests on the customer's acknowledged CONFIRM decision of exactly
  this agreement, which is the one of the current preparation; it carries a verifying digest, has one criterion per record of the plan,
  and no must-have record of that plan is left open.
\<close>

theorem frozen_agreement_confirmed:
  assumes "agreement_reachable h mac s" and "map_of (ag_frozen s) poc = Some f"
  shows "\<exists>a r. map_of (ag_preparations s) poc = Some a \<and> map_of (ag_confirmations s) poc = Some r \<and>
    cc_decision r = CONFIRM \<and> cc_agreement_acknowledged r \<and> cc_contract_fingerprint r = contract_confirmation_fingerprint h f \<and>
    pc_confirmation_id f = Some (cc_confirmation_id r) \<and> pc_status f = C_FROZEN \<and> pc_canonical_hash f = Some (contract_digest h f) \<and>
    canonical_confirmation_payload f = canonical_confirmation_payload (ap_contract a) \<and>
    map cap_proposal_id (capability_criteria (pc_criteria f)) = map pn_proposal_id (cp_records (ap_plan a)) \<and>
    (\<forall>k \<in> set (cp_records (ap_plan a)). \<not> unresolved_must_have k)"
proof -
  have c: "poc_consistent h s poc" using agreement_reachable_inv [OF assms(1)] by (simp add: agreement_inv_def)
  obtain a where a: "map_of (ag_preparations s) poc = Some a" using c assms(2) by (auto simp: poc_consistent_def split: option.split_asm)
  obtain q r where r: "prepared_from h q a" "map_of (ag_confirmations s) poc = Some r" "frozen_from h a r f"
    using c a assms(2) by (auto simp: poc_consistent_def)
  note f = frozen_from_facts [OF r(3)]
  have l: "list_all2 (criterion_for h (ap_poc a) (ap_plan a)) (cp_records (ap_plan a)) (pc_criteria (ap_contract a))"
    using r(1) by (simp add: prepared_from_def)
  have "pc_criteria f = pc_criteria (ap_contract a)" using f(4) by (simp add: same_agreement_def)
  moreover have "\<forall>k \<in> set (cp_records (ap_plan a)). \<not> unresolved_must_have k"
    using l by (auto simp: list_all2_conv_all_nth in_set_conv_nth criterion_for_def)
  ultimately show ?thesis using a r(2) f criteria_proposals [OF l] same_agreement_fields [OF f(4)] same_agreement_fingerprint [OF f(4)]
    by (auto simp: confirmation_matches_contract_def canonical_confirmation_payload_def)
qed

text \<open>
  C34. The superseded versions of an agreement and the current one are a lineage: numbered from 1, of one contract identifier,
  each naming its predecessor as parent; every superseded version was sent back by the customer, and there are at most 32 of them.
\<close>

theorem revision_lineage:
  assumes "agreement_reachable h mac s" and "map_of (ag_preparations s) poc = Some a"
  shows "lineage_ok (map ah_preparation (history_of s poc) @ [a]) \<and> length (history_of s poc) \<le> 32 \<and>
    (\<forall>v \<in> set (history_of s poc). cc_decision (ah_confirmation v) = REQUEST_CHANGES \<and>
      cc_contract_fingerprint (ah_confirmation v) = contract_confirmation_fingerprint h (ap_contract (ah_preparation v)))"
  using agreement_reachable_inv [OF assms(1)] assms(2)
  by (auto simp: agreement_inv_def poc_consistent_def decided_on_def dest!: spec [of _ poc])

text \<open>What a confirmation ends.\<close>

definition settled :: "agreement_service \<Rightarrow> string \<Rightarrow> agreement_preparation \<Rightarrow> contract_confirmation \<Rightarrow> agreement_version list \<Rightarrow> bool" where
  "settled s poc a r l \<longleftrightarrow> map_of (ag_preparations s) poc = Some a \<and> map_of (ag_confirmations s) poc = Some r \<and> history_of s poc = l"

lemma settled_change:
  assumes "agreement_change h s t" and "settled s poc a r l" and "cc_decision r = CONFIRM"
  shows "settled t poc a r l \<and> (map_of (ag_frozen s) poc = Some f \<longrightarrow> map_of (ag_frozen t) poc = Some f)"
  using assms by cases (auto simp: settled_def history_of_def map_of_delete)

text \<open>
  C4. Once the customer confirmed an agreement, no sequence of operations replaces its preparation, its decision or
  its history, nor a contract frozen from it.
\<close>

theorem confirmed_agreement_final:
  assumes "(agreement_step h mac)\<^sup>*\<^sup>* s t" and "settled s poc a r l" and "cc_decision r = CONFIRM"
  shows "settled t poc a r l \<and> (\<forall>f. map_of (ag_frozen s) poc = Some f \<longrightarrow> map_of (ag_frozen t) poc = Some f)"
  using assms
proof (induction rule: rtranclp_induct)
  case (step t u)
  then have i: "settled t poc a r l \<and> (\<forall>f. map_of (ag_frozen s) poc = Some f \<longrightarrow> map_of (ag_frozen t) poc = Some f)" by blast
  show ?case using agreement_step_change [OF step.hyps(2)] i settled_change [OF _ conjunct1 [OF i] step.prems(2)] by metis
qed simp

text \<open>
  C5. A new freeze read the current draft, retained proposals and plan, found them to be those the agreement was prepared
  from, and froze what assembling them again gives, under the customer's matching confirmation.
\<close>

theorem freeze_rechecks_inputs:
  assumes "freeze_agreement h two clock poc key s = (t, Inr (f, False))"
  shows "\<exists>a q b r. map_of (ag_preparations s) poc = Some a \<and> current_inputs h poc (snd two) = Inr q \<and>
    agreement_inputs_fingerprint h q = ap_input_fingerprint a \<and> rebuild_preparation h q a = Inr b \<and>
    canonical_confirmation_payload f = canonical_confirmation_payload (ap_contract b) \<and>
    map_of (ag_confirmations s) poc = Some r \<and> confirmation_matches_contract h f r \<and> map_of (ag_frozen t) poc = Some f \<and>
    map_of (ag_preparations t) poc = Some a \<and> map_of (ag_confirmations t) poc = Some r"
proof (rule freeze_fresh [OF assms])
  fix a r now kd
  assume a: "require_current_preparation h poc two s = Inr a" and r: "map_of (ag_confirmations s) poc = Some r"
    and m: "confirmation_matches_contract h (ap_contract a) r" and f: "freeze_confirmed_contract h (ap_contract a) (Some r) now = Inr f"
    and t: "t = s\<lparr>ag_frozen := AList.update poc f (ag_frozen s),
      ag_freeze_keys := AList.update (poc, kd) (freeze_digest h poc a) (ag_freeze_keys s)\<rparr>"
  obtain q b where q: "map_of (ag_preparations s) poc = Some a" "stable_inputs h poc two = Inr q"
    "agreement_inputs_fingerprint h q = ap_input_fingerprint a" "rebuild_preparation h q a = Inr b"
    "contract_dump (ap_contract b) = contract_dump (ap_contract a)"
    by (rule require_current_Inr [OF a])
  have "same_agreement f (ap_contract a)" using f by (auto elim!: freeze_confirmed_Inr dest!: freeze_with_frozen(5))
  moreover have "agreement_fields (ap_contract b) = agreement_fields (ap_contract a)"
    using q(5) by (simp add: contract_dump_def canonical_contract_payload_def)
  ultimately have "canonical_confirmation_payload f = canonical_confirmation_payload (ap_contract b)" "confirmation_matches_contract h f r"
    using m same_agreement_fields same_agreement_matches by (simp_all add: canonical_confirmation_payload_def)
  then show ?thesis using q r stable_inputs_Inr(1) [OF q(2)] by (auto simp: t)
qed

text \<open>A prepared contract covers the retained proposals, each as its record disposes of it.\<close>


subsection \<open>A sample agreement\<close>

definition agreed_draft :: draft_snapshot where
  "agreed_draft = \<lparr>dp_poc_id = ''poc_00000001'', dp_display_name = ''n'', dp_customer_label = ''c'', dp_use_case = ''u'', dp_owner = ''o'',
     dp_first_source_choice = CHOICE_EMAIL, dp_next_intake_route = ROUTE_EMAIL, dp_source_ingestion_state = INGESTION_NOT_STARTED,
     dp_created_at = Aware 0 0, dp_updated_at = Aware 0 0, dp_archive_state = DRAFT_ACTIVE, dp_archived_at = None\<rparr>"

definition agreed_retained :: retained_proposal where
  "agreed_retained = sample_retained\<lparr>rp_authoring_receipt_id := ''arcp_'' @ replicate 32 (CHR ''0''),
     rp_authoring_result_id := ''ares_'' @ replicate 32 (CHR ''0''), rp_source_id := ''src_0001''\<rparr>"

definition agreed_record :: planning_record where
  "agreed_record = tool_record\<lparr>pn_authoring_receipt_id := ''arcp_'' @ replicate 32 (CHR ''0''),
     pn_authoring_result_id := ''ares_'' @ replicate 32 (CHR ''0''), pn_source_id := ''src_0001''\<rparr>"

definition agreed_plan :: "planning_record \<Rightarrow> capability_plan" where
  "agreed_plan r = tool_plan\<lparr>cp_records := [r]\<rparr>"

definition agreed_reading :: "draft_snapshot \<Rightarrow> planning_record \<Rightarrow> agreement_reading" where
  "agreed_reading d r = \<lparr>an_poc = Answer d, an_retained = Answer [Some agreed_retained], an_plan = Answer (agreed_plan r)\<rparr>"

abbreviation "agreed_twice d r \<equiv> (agreed_reading d r, agreed_reading d r)"

text \<open>A hasher that tells the inputs of a draft that was edited from those of the draft as created.\<close>

definition edit_hasher :: hasher where
  "edit_hasher = \<lparr>json_sha = (\<lambda>d p. case p of JObj ((k, JObj fs) # _) \<Rightarrow>
       if k = ''poc'' \<and> map_of fs ''updated_at'' \<noteq> Some (JArr [JInt 0, JInt 0]) then replicate 64 (CHR ''1'') else replicate 64 (CHR ''0'')
     | _ \<Rightarrow> replicate 64 (CHR ''0'')), text_sha = (\<lambda>d t. replicate 64 (CHR ''0''))\<rparr>"

lemma hex_edit_hasher: "hex_hasher edit_hasher"
  by (simp add: hex_hasher_def edit_hasher_def is_sha256_def hex_text_def list_all_iff lower_hex_def split: json.split list.split)

text \<open>A record of the sample proposal, whatever its disposition, is current.\<close>

lemma agreed_inputs:
  assumes "make_planning_record r = Some r" and "case pn_criterion r of None \<Rightarrow> True | Some c \<Rightarrow> make_planner_criterion c = Some c"
    and "binding_matches r agreed_retained" and "pn_poc_id r = ''poc_00000001''" "pn_proposal_id r = ''prop_00000001''"
    and "pn_planning_item_id r = ''cpitem_'' @ replicate 32 (CHR ''0'')" and "record_ready r"
    and "dp_poc_id d = ''poc_00000001''" and "dp_archive_state d = DRAFT_ACTIVE"
  shows "stable_inputs edit_hasher ''poc_00000001'' (agreed_twice d r) = Inr (d, [agreed_retained], agreed_plan r)"
proof -
  have x: "rp_poc_id agreed_retained = ''poc_00000001''" "rp_proposal_id agreed_retained = ''prop_00000001''" "retained_ok agreed_retained"
    by code_simp+
  have p: "poc_id_ok ''poc_00000001''" "starts_with ''cplan_'' (''cplan_'' @ replicate 32 (CHR ''0''))"
    "hex_text 32 (drop 6 (''cplan_'' @ replicate 32 (CHR ''0'')))" by code_simp+
  have "capability_plan_ok edit_hasher (agreed_plan r)"
    using p assms(4-7) by (simp add: capability_plan_ok_def agreed_plan_def tool_plan_def planning_item_id_def capability_plan_id_def edit_hasher_def)
  then have "plan_revalidates edit_hasher (agreed_plan r)" using assms(1,2) by (simp add: plan_revalidates_def agreed_plan_def)
  moreover have "cp_poc_id (agreed_plan r) = ''poc_00000001''" "cp_ready_for_agreement (agreed_plan r)" "cp_records (agreed_plan r) = [r]"
    by (simp_all add: agreed_plan_def tool_plan_def)
  ultimately have "check_inputs edit_hasher ''poc_00000001'' (Some d) (Some [Some agreed_retained]) (Some (agreed_plan r)) =
      Inr (d, [agreed_retained], agreed_plan r)"
    using x assms(3-5,8,9) by (simp add: check_inputs_def proposal_of_def)
  then show ?thesis by (simp add: stable_inputs_def current_inputs_def agreed_reading_def)
qed

lemma agreed_made: "make_planning_record agreed_record = Some agreed_record"
  using tool_made by (simp add: make_planning_record_def Let_def agreed_record_def tool_record_def record_disposition_ok_def supported_record_ok_def
      split: option.split_asm if_split_asm)

definition edited_draft :: draft_snapshot where
  "edited_draft = agreed_draft\<lparr>dp_updated_at := Aware 1 0\<rparr>"

lemma agreed_current:
  assumes "d \<in> {agreed_draft, edited_draft}"
  shows "stable_inputs edit_hasher ''poc_00000001'' (agreed_twice d agreed_record) = Inr (d, [agreed_retained], agreed_plan agreed_record)"
proof (rule agreed_inputs [OF agreed_made])
  show "case pn_criterion agreed_record of None \<Rightarrow> True | Some c \<Rightarrow> make_planner_criterion c = Some c" by code_simp
  show "binding_matches agreed_record agreed_retained" by code_simp
qed (use assms in \<open>auto simp: agreed_draft_def edited_draft_def agreed_record_def tool_record_def record_ready_def\<close>)

abbreviation agreement_id_1 :: string where "agreement_id_1 \<equiv> ''agreement-'' @ replicate 24 (CHR ''0'')"

definition agreed_preparation :: agreement_preparation where
  "agreed_preparation = projr (prepare_from_inputs edit_hasher (agreed_draft, [agreed_retained], agreed_plan agreed_record) ''1''
     agreement_id_1 None (Aware 0 0) ''r'' ''y'')"

definition revised_preparation :: agreement_preparation where
  "revised_preparation = projr (prepare_from_inputs edit_hasher (edited_draft, [agreed_retained], agreed_plan agreed_record) ''2''
     agreement_id_1 (Some (agreement_id_1 @ ''@1'')) (Aware 1 0) ''r'' ''y'')"

lemma agreed_prepared: "prepare_from_inputs edit_hasher (agreed_draft, [agreed_retained], agreed_plan agreed_record) ''1''
     agreement_id_1 None (Aware 0 0) ''r'' ''y'' = Inr agreed_preparation"
proof -
  have "\<not> isl (prepare_from_inputs edit_hasher (agreed_draft, [agreed_retained], agreed_plan agreed_record) ''1''
     agreement_id_1 None (Aware 0 0) ''r'' ''y'')" by code_simp
  then show ?thesis by (simp add: agreed_preparation_def)
qed

lemma revised_prepared: "prepare_from_inputs edit_hasher (edited_draft, [agreed_retained], agreed_plan agreed_record) ''2''
     agreement_id_1 (Some (agreement_id_1 @ ''@1'')) (Aware 1 0) ''r'' ''y'' = Inr revised_preparation"
proof -
  have "\<not> isl (prepare_from_inputs edit_hasher (edited_draft, [agreed_retained], agreed_plan agreed_record) ''2''
     agreement_id_1 (Some (agreement_id_1 @ ''@1'')) (Aware 1 0) ''r'' ''y'')" by code_simp
  then show ?thesis by (simp add: revised_preparation_def)
qed

abbreviation zeros :: string where "zeros \<equiv> replicate 64 (CHR ''0'')"
abbreviation poc_1 :: string where "poc_1 \<equiv> ''poc_00000001''"

definition agreed_mac :: "json \<Rightarrow> string" where
  "agreed_mac = (\<lambda>j. replicate 43 (CHR ''A''))"

definition agreed_link :: "string \<Rightarrow> int \<Rightarrow> review_link" where
  "agreed_link version t = \<lparr>lk_invitation_id = ''review-1'', lk_contract_id = agreement_id_1, lk_contract_version = version,
     lk_confirmation_fingerprint = zeros, lk_token_digest = zeros, lk_created_at = Aware t 0, lk_expires_at = Aware (t + 7200000000) 0\<rparr>"

lemma edit_fingerprint: "contract_confirmation_fingerprint edit_hasher c = zeros"
  by (simp add: contract_confirmation_fingerprint_def canonical_confirmation_payload_def agreement_fields_def edit_hasher_def)

lemma edit_text_sha: "text_sha edit_hasher d t = zeros" by (simp add: edit_hasher_def)

lemma edit_request: "agreement_request_digest edit_hasher (JObj ((k, JStr v) # fs)) = zeros"
  by (simp add: agreement_request_digest_def edit_hasher_def)

lemma edit_inputs:
  "agreement_inputs_fingerprint edit_hasher (agreed_draft, xs, p) = zeros"
  "agreement_inputs_fingerprint edit_hasher (edited_draft, xs, p) = replicate 64 (CHR ''1'')"
  by (simp_all add: agreement_inputs_fingerprint_def agreement_inputs_json_def draft_snapshot_json_def edit_hasher_def agreed_draft_def
      edited_draft_def Contracts.datetime_json_def)

lemma agreed_link_issued:
  assumes "pc_id (ap_contract a) = agreement_id_1" and "pc_version (ap_contract a) = v" and "v \<in> {''1'', ''2''}"
  shows "issue_agreement_link edit_hasher agreed_mac ''1'' a (Aware t 0) = Inr (agreed_link v t)"
proof -
  have s: "py_strip agreement_id_1 \<noteq> []" "py_strip v \<noteq> []" "py_strip ''review-1'' \<noteq> []" "py_strip (replicate 43 (CHR ''A'')) \<noteq> []"
    using assms(3) by (auto simp: py_strip_def py_space_def)
  have ok: "review_link_ok (agreed_link v t)"
    unfolding review_link_ok_def agreed_link_def using s by simp
  have ok': "review_link_ok ((agreed_link v t)\<lparr>lk_token_digest := zeros\<rparr>)" using ok by (simp add: agreed_link_def)
  show ?thesis
    using ok s assms(1,2)
    by (simp add: issue_agreement_link_def Let_def edit_fingerprint make_review_link_def DEFAULT_REVIEW_TTL_def issue_review_link_def
        agreed_link_def token_for_def link_token_def agreed_mac_def token_digest_text_def edit_text_sha)
qed

definition no_agreements :: agreement_service where
  "no_agreements = \<lparr>ag_max_agreements = 2, ag_preparations = [], ag_invitations = [], ag_confirmations = [], ag_frozen = [],
       ag_history = [], ag_revisions = [], ag_prepare_keys = [], ag_decision_keys = [], ag_freeze_keys = [],
       ag_revision_keys = [], ag_review_keys = [], ag_revision_results = []\<rparr>"

definition prepared_service :: agreement_service where
  "prepared_service = no_agreements\<lparr>ag_preparations := [(poc_1, agreed_preparation)], ag_invitations := [(poc_1, agreed_link ''1'' 0)],
     ag_prepare_keys := [((poc_1, zeros), zeros)]\<rparr>"

lemma agreed_texts: "agreement_text 160 True ''r'' = Some ''r''" "agreement_text 2000 False ''y'' = Some ''y''"
  "agreement_key_digest edit_hasher ''k'' = Some zeros" "poc_id_ok poc_1" "REVIEW_CONFIRMER \<noteq> []"
  by code_simp+

lemma agreed_contract_id: "agreement_contract_id edit_hasher poc p = agreement_id_1"
  by (simp add: agreement_contract_id_def edit_hasher_def)

lemma agreed_prepare: "prepare_agreement edit_hasher agreed_mac ''1'' (agreed_twice agreed_draft agreed_record) (Some (Aware 0 0)) poc_1 ''r'' ''y'' ''k''
    no_agreements = (prepared_service, Inr (agreed_preparation, False))"
proof -
  note c = prepare_from_inputs_Inr [OF agreed_prepared]
  have "prepare_digest edit_hasher poc cid q r y = zeros" for poc cid q r y
    by (cases q) (simp add: prepare_digest_def edit_request)
  then show ?thesis
    using agreed_current [of agreed_draft] agreed_texts agreed_prepared agreed_link_issued [OF c(3) c(2)]
    by (simp add: prepare_agreement_def prepare_current_def Let_def agreed_contract_id no_agreements_def agreement_count_def prepared_service_def)
qed

lemma rebuilt:
  assumes "prepare_from_inputs h q version cid parent now reviewer rationale = Inr a"
  shows "rebuild_preparation h q a = Inr a"
  using assms prepare_from_inputs_Inr [OF assms] by (simp add: rebuild_preparation_def)

lemma agreed_required:
  assumes "map_of (ag_preparations s) poc_1 = Some agreed_preparation"
  shows "require_current_preparation edit_hasher poc_1 (agreed_twice agreed_draft agreed_record) s = Inr agreed_preparation"
proof -
  have "agreement_inputs_fingerprint edit_hasher (agreed_draft, [agreed_retained], agreed_plan agreed_record) = ap_input_fingerprint agreed_preparation"
    using prepare_from_inputs_Inr(1) [OF agreed_prepared] by (simp add: prepared_from_def)
  then show ?thesis using assms agreed_current [of agreed_draft] rebuilt [OF agreed_prepared] by (simp add: require_current_preparation_def)
qed

definition agreed_decision :: "confirmation_decision \<Rightarrow> contract_confirmation" where
  "agreed_decision d = expected_confirmation edit_hasher (ap_contract agreed_preparation) REVIEW_CONFIRMER d True ''y'' zeros (Aware 1 0)"

definition reviewed_service :: "confirmation_decision \<Rightarrow> agreement_service" where
  "reviewed_service d = prepared_service\<lparr>ag_confirmations := [(poc_1, agreed_decision d)], ag_decision_keys := [((poc_1, zeros), zeros)]\<rparr>"

lemma agreed_recorded: "record_confirmation edit_hasher (ap_contract agreed_preparation) REVIEW_CONFIRMER d True ''y'' zeros (Aware 1 0) None = Inr (agreed_decision d)"
proof -
  note c = prepare_from_inputs_Inr [OF agreed_prepared]
  have "contract_id_ok agreement_id_1" "is_sha256 zeros" by code_simp+
  then have "contract_confirmation_ok (agreed_decision d)"
    using c operation_id_ok [OF hex_edit_hasher] agreed_texts(5)
    by (simp add: contract_confirmation_ok_def agreed_decision_def expected_confirmation_def edit_fingerprint)
  moreover have "pc_status (ap_contract agreed_preparation) = C_APPROVED" using c(1) by (simp add: prepared_from_def)
  ultimately show ?thesis by (simp add: record_confirmation_def agreed_decision_def)
qed

lemma agreed_decide: "record_customer_decision edit_hasher agreed_mac (agreed_twice agreed_draft agreed_record) (Some (Aware 1 0)) (Some (Aware 1 0))
    (replicate 43 (CHR ''A'')) (Some d) True ''y'' ''k'' None None None prepared_service = (reviewed_service d, Inr (agreed_decision d, False))"
proof -
  note c = prepare_from_inputs_Inr [OF agreed_prepared]
  have p: "map_of (ag_preparations prepared_service) poc_1 = Some agreed_preparation" "map_of (ag_invitations prepared_service) poc_1 = Some (agreed_link ''1'' 0)"
    "ag_invitations prepared_service = [(poc_1, agreed_link ''1'' 0)]" "map_of (ag_confirmations prepared_service) poc_1 = None"
    "map_of (ag_decision_keys prepared_service) x = None" for x
    by (simp_all add: prepared_service_def no_agreements_def)
  have "review_poc_id agreed_mac (replicate 43 (CHR ''A'')) prepared_service = Inr (Some poc_1)"
    by (simp add: review_poc_id_def p token_for_def link_token_def agreed_mac_def list_ex_iff)
  moreover have "link_require_valid edit_hasher (agreed_link ''1'' 0) (replicate 43 (CHR ''A'')) (Aware 1 0) = None"
    by (simp add: link_require_valid_def agreed_link_def token_digest_text_def edit_text_sha)
  ultimately have "require_review_link edit_hasher agreed_mac (agreed_twice agreed_draft agreed_record) (replicate 43 (CHR ''A'')) (Some (Aware 1 0))
      prepared_service = Inr (poc_1, agreed_preparation, agreed_link ''1'' 0)"
    using p agreed_required [OF p(1)] c by (simp add: require_review_link_def agreed_link_def edit_fingerprint)
  moreover have "decision_digest edit_hasher poc_1 x d ''y'' = zeros" for x by (simp add: decision_digest_def edit_request)
  ultimately show ?thesis using agreed_texts p(4,5) agreed_recorded
    by (simp add: record_customer_decision_def Let_def other_binding_def decide_current_def reviewed_service_def prepared_service_def no_agreements_def)
qed

lemma agreed_freeze: "\<exists>f. freeze_agreement edit_hasher (agreed_twice agreed_draft agreed_record) (Some (Aware 2 0)) poc_1 ''k'' (reviewed_service CONFIRM) =
    ((reviewed_service CONFIRM)\<lparr>ag_frozen := [(poc_1, f)], ag_freeze_keys := [((poc_1, zeros), zeros)]\<rparr>, Inr (f, False))"
proof -
  let ?c = "ap_contract agreed_preparation" and ?r = "agreed_decision CONFIRM"
  have a: "contract_ok ?c" "pc_status ?c = C_APPROVED" using prepare_from_inputs_Inr(1) [OF agreed_prepared] by (simp_all add: prepared_from_def)
  have m: "confirmation_matches_contract edit_hasher ?c ?r" by (simp add: confirmation_matches_contract_def agreed_decision_def expected_confirmation_def)
  have "confirmation_id_ok (cc_confirmation_id ?r)" using operation_id_ok [OF hex_edit_hasher] by (simp add: agreed_decision_def expected_confirmation_def)
  then obtain f where f: "freeze_with edit_hasher ?c (Some (cc_confirmation_id ?r)) (Aware 2 0) = Inr f"
    using freeze_with_succeeds [OF a _ hex_edit_hasher] by blast
  have p: "map_of (ag_preparations (reviewed_service CONFIRM)) poc_1 = Some agreed_preparation" "map_of (ag_confirmations (reviewed_service CONFIRM)) poc_1 = Some ?r"
    "ag_frozen (reviewed_service CONFIRM) = []" "ag_freeze_keys (reviewed_service CONFIRM) = []"
    by (simp_all add: reviewed_service_def prepared_service_def no_agreements_def)
  have "freeze_digest edit_hasher poc_1 x = zeros" for x by (simp add: freeze_digest_def edit_request)
  then have "freeze_agreement edit_hasher (agreed_twice agreed_draft agreed_record) (Some (Aware 2 0)) poc_1 ''k'' (reviewed_service CONFIRM) =
    ((reviewed_service CONFIRM)\<lparr>ag_frozen := [(poc_1, f)], ag_freeze_keys := [((poc_1, zeros), zeros)]\<rparr>, Inr (f, False))"
    using p m f a(2) agreed_texts agreed_required [OF p(1)] freeze_with_frozen [OF f] require_affirmative_iff [THEN iffD2, OF m]
    by (simp add: freeze_agreement_def freeze_current_def freeze_confirmed_contract_def)
  then show ?thesis by blast
qed

text \<open>A link that was issued lasts two hours.\<close>

lemma issued_link_expiry:
  assumes "issue_agreement_link h mac rid a now = Inr l"
  shows "lk_created_at l = now" "instant (lk_expires_at l) = instant now + 7200000000"
proof -
  have "lk_created_at l = now \<and> lk_expires_at l = dt_plus now DEFAULT_REVIEW_TTL"
    using assms by (auto simp: issue_agreement_link_def Let_def issue_review_link_def make_review_link_def split: sum.split_asm if_split_asm)
  then show "lk_created_at l = now" "instant (lk_expires_at l) = instant now + 7200000000"
    by (cases now; simp add: DEFAULT_REVIEW_TTL_def)+
qed

lemma require_current_same:
  "ag_preparations t = ag_preparations s \<Longrightarrow> require_current_preparation h poc two t = require_current_preparation h poc two s"
  by (simp add: require_current_preparation_def)

text \<open>
  C37. Asking for a new review link works only when the old one has expired, so a replay answers a link that has expired
  already, and repeating the request within two hours of its success is refused as a conflict.
\<close>

theorem reissue_replay_expired:
  assumes "reissue_customer_review h mac rid two clock poc key s = (t, Inr (l, replayed))"
  shows "(\<exists>now old. clock = Some now \<and> map_of (ag_invitations s) poc = Some old \<and> instant (lk_expires_at old) \<le> instant now \<and>
      (replayed \<longrightarrow> l = old)) \<and>
    (\<not> replayed \<longrightarrow> (\<forall>now. dt_aware now \<and> instant now < instant (lk_created_at l) + 7200000000 \<longrightarrow>
      reissue_customer_review h mac rid' two (Some now) poc key t = (t, Inl AgreementConflict)))"
proof (cases replayed)
  case True
  then show ?thesis using assms
    by (auto simp: reissue_customer_review_def Let_def not_less split: option.split_asm if_split_asm sum.split_asm)
next
  case False
  then have "reissue_customer_review h mac rid two clock poc key s = (t, Inr (l, False))" using assms by simp
  then obtain a old now kd where g: "require_current_preparation h poc two s = Inr a" "map_of (ag_invitations s) poc = Some old"
    "map_of (ag_confirmations s) poc = None" "clock = Some now" "instant (lk_expires_at old) \<le> instant now"
    "issue_agreement_link h mac rid a now = Inr l"
    and t: "t = s\<lparr>ag_invitations := AList.update poc l (ag_invitations s),
      ag_review_keys := AList.update (poc, kd) (reissue_digest h poc (ap_contract a)) (ag_review_keys s)\<rparr>"
    by (rule reissue_fresh)
  have "poc_id_ok poc" "agreement_key_digest h key \<noteq> None"
    using assms by (auto simp: reissue_customer_review_def split: if_split_asm option.split_asm)
  moreover have "require_current_preparation h poc two t = Inr a" "map_of (ag_invitations t) poc = Some l" "map_of (ag_confirmations t) poc = None"
    using g(1-3) require_current_same [of t s] by (simp_all add: t)
  ultimately have "reissue_customer_review h mac rid' two (Some now') poc key t = (t, Inl AgreementConflict)"
    if "dt_aware now'" "instant now' < instant (lk_created_at l) + 7200000000" for now'
    using that issued_link_expiry [OF g(6)] by (auto simp: reissue_customer_review_def)
  then show ?thesis using False g by auto
qed

text \<open>Plans that are ready and yet cannot be prepared.\<close>

definition unassemblable :: "planning_record \<Rightarrow> bool" where
  "unassemblable r \<longleftrightarrow> (case pn_criterion r of None \<Rightarrow> False | Some c \<Rightarrow>
     pn_disposition r = CLARIFICATION_REQUIRED \<or>
     pn_disposition r = EXECUTABLE \<and> (case cri_threshold c of None \<Rightarrow> False | Some x \<Rightarrow> x < 0 \<or> 1 < x) \<or>
     pn_disposition r = EVIDENCE_IMPORT \<and> (case cri_threshold c of None \<Rightarrow> False | Some x \<Rightarrow> x \<le> 0))"

lemma criterion_for_assemblable: "criterion_for h d p r c \<Longrightarrow> \<not> unassemblable r"
  by (cases "pn_disposition r") (auto simp: criterion_for_def unassemblable_def tool_policy_ok_def ttft_policy_ok_def split: option.splits)

text \<open>
  C36. A plan that is ready for agreement but has an advisory claim with a partial criterion, or a supported claim whose threshold
  its evidence policy refuses, can never be prepared, whatever the other arguments are, and leaves the service as it was.
\<close>

theorem ready_plan_not_preparable:
  assumes "stable_inputs h poc two = Inr (d, xs, p)" and "r \<in> set (cp_records p)" and "unassemblable r"
  shows "cp_ready_for_agreement p \<and> fst (prepare_agreement h mac rid two clock poc reviewer rationale key s) = s \<and>
    (\<forall>a. snd (prepare_agreement h mac rid two clock poc reviewer rationale key s) \<noteq> Inr (a, False))"
proof -
  obtain t v where e: "prepare_agreement h mac rid two clock poc reviewer rationale key s = (t, v)" by fastforce
  have "v \<noteq> Inr (a, False)" for a
  proof
    assume "v = Inr (a, False)"
    then have "prepare_agreement h mac rid two clock poc reviewer rationale key s = (t, Inr (a, False))" using e by simp
    then obtain q now rv ra where q: "stable_inputs h poc two = Inr q"
      "prepare_from_inputs h q ''1'' (agreement_contract_id h poc (snd (snd q))) None now rv ra = Inr a" by (rule prepare_fresh)
    have "q = (d, xs, p)" using q(1) assms(1) by simp
    then have e: "ap_poc a = d" "ap_plan a = p"
      using prepare_from_inputs_Inr(1) [OF q(2)] unfolding prepared_from_def by simp_all
    have l: "list_all2 (criterion_for h (ap_poc a) (ap_plan a)) (cp_records (ap_plan a)) (pc_criteria (ap_contract a))"
      using prepare_from_inputs_Inr(1) [OF q(2)] unfolding prepared_from_def by blast
    have "list_all2 (criterion_for h d p) (cp_records p) (pc_criteria (ap_contract a))" using l unfolding e .
    then show False using assms(2,3) criterion_for_assemblable by (fastforce simp: list_all2_conv_all_nth in_set_conv_nth)
  qed
  moreover have "cp_ready_for_agreement p"
    by (rule current_inputs_Inr [OF stable_inputs_Inr(1) [OF assms(1)]]) (rule check_inputs_Inr(7))
  ultimately show ?thesis using e prepare_same [OF e] by simp
qed

text \<open>
  C35. In a reachable service a confirmed agreement whose inputs are current can be frozen: a well-formed request under a new key
  returns the frozen contract at the time of the clock.
\<close>

theorem freeze_succeeds:
  assumes "agreement_reachable h mac s" and "hex_hasher h" and "require_current_preparation h poc two s = Inr a"
    and "map_of (ag_confirmations s) poc = Some r" and "cc_decision r = CONFIRM" and "map_of (ag_frozen s) poc = None"
    and "poc_id_ok poc" and "agreement_key_digest h key = Some kd" and "map_of (ag_freeze_keys s) (poc, kd) = None"
  shows "\<exists>f t. freeze_agreement h two (Some now) poc key s = (t, Inr (f, False)) \<and> pc_status f = C_FROZEN \<and> pc_frozen_at f = Some now \<and>
    map_of (ag_frozen t) poc = Some f"
proof -
  have p: "map_of (ag_preparations s) poc = Some a" by (rule require_current_Inr [OF assms(3)])
  have "poc_consistent h s poc" using agreement_reachable_inv [OF assms(1)] by (simp add: agreement_inv_def)
  then obtain q where c: "prepared_from h q a" "decided_on h a r" using p assms(4) by (auto simp: poc_consistent_def)
  have m: "confirmation_matches_contract h (ap_contract a) r" using c(2) assms(5) by (simp add: decided_on_def confirmation_matches_contract_def)
  have ok: "contract_ok (ap_contract a)" "pc_status (ap_contract a) = C_APPROVED" using c(1) by (simp_all add: prepared_from_def)
  have "confirmation_id_ok (cc_confirmation_id r)" using c(2) by (simp add: decided_on_def contract_confirmation_ok_def)
  then obtain f where f: "freeze_with h (ap_contract a) (Some (cc_confirmation_id r)) now = Inr f"
    using freeze_with_succeeds [OF ok _ assms(2)] by blast
  have "freeze_agreement h two (Some now) poc key s =
    (s\<lparr>ag_frozen := AList.update poc f (ag_frozen s), ag_freeze_keys := AList.update (poc, kd) (freeze_digest h poc a) (ag_freeze_keys s)\<rparr>, Inr (f, False))"
    using assms(3,4,6-9) m f ok(2) freeze_with_frozen [OF f] require_affirmative_iff [THEN iffD2, OF m]
    by (simp add: freeze_agreement_def freeze_current_def freeze_confirmed_contract_def)
  then show ?thesis using freeze_with_frozen [OF f] by simp
qed

subsection \<open>Witnesses\<close>

lemma agreed_start: "agreement_reachable edit_hasher agreed_mac no_agreements"
  by (rule reachable_new [of 2]) (simp add: agreement_service_new_def no_agreements_def)

lemma prepared_reachable: "agreement_reachable edit_hasher agreed_mac prepared_service"
  using reachable_step [OF agreed_start step_prepare] agreed_prepare by (metis fst_conv)

lemma decided_reachable: "agreement_reachable edit_hasher agreed_mac (reviewed_service d)"
  using reachable_step [OF prepared_reachable step_decide] agreed_decide by (metis fst_conv)


theorem freeze_rechecks_inputs_witness:
  "\<exists>t f q. freeze_agreement edit_hasher (agreed_twice agreed_draft agreed_record) (Some (Aware 2 0)) poc_1 ''k'' (reviewed_service CONFIRM) =
      (t, Inr (f, False)) \<and> agreement_inputs_fingerprint edit_hasher q = ap_input_fingerprint agreed_preparation \<and>
    confirmation_matches_contract edit_hasher f (agreed_decision CONFIRM)"
proof -
  obtain f t where f: "freeze_agreement edit_hasher (agreed_twice agreed_draft agreed_record) (Some (Aware 2 0)) poc_1 ''k'' (reviewed_service CONFIRM) =
      (t, Inr (f, False))" using agreed_freeze by blast
  have "map_of (ag_preparations (reviewed_service CONFIRM)) poc_1 = Some agreed_preparation"
    "map_of (ag_confirmations (reviewed_service CONFIRM)) poc_1 = Some (agreed_decision CONFIRM)"
    by (simp_all add: reviewed_service_def prepared_service_def no_agreements_def)
  then show ?thesis using f freeze_rechecks_inputs [OF f] by auto
qed

theorem frozen_agreement_confirmed_witness:
  "\<exists>s f. agreement_reachable edit_hasher agreed_mac s \<and> map_of (ag_frozen s) poc_1 = Some f \<and> pc_status f = C_FROZEN \<and>
    pc_confirmation_id f = Some (cc_confirmation_id (agreed_decision CONFIRM))"
proof -
  obtain f t where f: "freeze_agreement edit_hasher (agreed_twice agreed_draft agreed_record) (Some (Aware 2 0)) poc_1 ''k'' (reviewed_service CONFIRM) =
      (t, Inr (f, False))" "t = (reviewed_service CONFIRM)\<lparr>ag_frozen := [(poc_1, f)], ag_freeze_keys := [((poc_1, zeros), zeros)]\<rparr>"
    using agreed_freeze by blast
  have r: "agreement_reachable edit_hasher agreed_mac t" using reachable_step [OF decided_reachable step_freeze] f(1) by (metis fst_conv)
  have m: "map_of (ag_frozen t) poc_1 = Some f" "map_of (ag_confirmations t) poc_1 = Some (agreed_decision CONFIRM)"
    by (simp_all add: f(2) reviewed_service_def prepared_service_def no_agreements_def)
  show ?thesis using frozen_agreement_confirmed [OF r m(1)] r m by auto
qed

theorem confirmed_agreement_final_witness:
  "settled (fst (start_revision edit_hasher agreed_mac ''1'' (agreed_twice edited_draft agreed_record) (Some (Aware 2 0)) poc_1 ''r'' ''y'' ''k''
     (reviewed_service CONFIRM))) poc_1 agreed_preparation (agreed_decision CONFIRM) []"
proof -
  have "settled (reviewed_service CONFIRM) poc_1 agreed_preparation (agreed_decision CONFIRM) []"
    by (simp add: settled_def reviewed_service_def prepared_service_def no_agreements_def history_of_def)
  moreover have "cc_decision (agreed_decision CONFIRM) = CONFIRM" by (simp add: agreed_decision_def expected_confirmation_def)
  ultimately show ?thesis using confirmed_agreement_final [OF r_into_rtranclp [of "agreement_step edit_hasher agreed_mac", OF step_revise]] by blast
qed

theorem freeze_succeeds_witness:
  "\<exists>f t. freeze_agreement edit_hasher (agreed_twice agreed_draft agreed_record) (Some (Aware 2 0)) poc_1 ''k'' (reviewed_service CONFIRM) = (t, Inr (f, False)) \<and>
    pc_status f = C_FROZEN"
proof -
  have p: "map_of (ag_preparations (reviewed_service CONFIRM)) poc_1 = Some agreed_preparation"
    "map_of (ag_confirmations (reviewed_service CONFIRM)) poc_1 = Some (agreed_decision CONFIRM)" "map_of (ag_frozen (reviewed_service CONFIRM)) poc_1 = None"
    "map_of (ag_freeze_keys (reviewed_service CONFIRM)) (poc_1, zeros) = None" "cc_decision (agreed_decision CONFIRM) = CONFIRM"
    by (simp_all add: reviewed_service_def prepared_service_def no_agreements_def agreed_decision_def expected_confirmation_def)
  show ?thesis
    using freeze_succeeds [OF decided_reachable hex_edit_hasher agreed_required [OF p(1)] p(2) p(5) p(3) agreed_texts(4,3) p(4)] by blast
qed

text \<open>A customer asked for changes, the draft was edited, and a revision was published.\<close>

definition revised_service :: "agreement_service" where
  "revised_service = publish_revision poc_1 zeros zeros agreed_preparation (agreed_link ''1'' 0) (agreed_decision REQUEST_CHANGES) revised_preparation
     (agreed_link ''2'' 1) (make_revision edit_hasher poc_1 1 agreed_preparation revised_preparation ''y'' (Aware 1 0)) (Aware 1 0) (reviewed_service REQUEST_CHANGES)"

lemma agreed_revise: "start_revision edit_hasher agreed_mac ''1'' (agreed_twice edited_draft agreed_record) (Some (Aware 1 0)) poc_1 ''r'' ''y'' ''k''
    (reviewed_service REQUEST_CHANGES) =
    (revised_service, Inr (make_revision edit_hasher poc_1 1 agreed_preparation revised_preparation ''y'' (Aware 1 0), False))"
proof -
  note a = prepare_from_inputs_Inr [OF agreed_prepared] and b = prepare_from_inputs_Inr [OF revised_prepared]
  have fp: "ap_input_fingerprint agreed_preparation = zeros" using a(1) by (simp add: prepared_from_def edit_inputs)
  have n: "version_number ''1'' = Some (Suc 0)" "show_nat (Suc (Suc 0)) = ''2''" by code_simp+
  have "revision_digest edit_hasher poc_1 x q y z = zeros" for x q y z by (cases q) (simp add: revision_digest_def edit_request)
  moreover have "cc_decision (agreed_decision REQUEST_CHANGES) = REQUEST_CHANGES" "cc_rationale (agreed_decision REQUEST_CHANGES) = ''y''"
    by (simp_all add: agreed_decision_def expected_confirmation_def)
  moreover have "map_of (ag_preparations (reviewed_service d)) poc_1 = Some agreed_preparation" "map_of (ag_confirmations (reviewed_service d)) poc_1 = Some (agreed_decision d)"
    "map_of (ag_invitations (reviewed_service d)) poc_1 = Some (agreed_link ''1'' 0)" "history_of (reviewed_service d) poc_1 = []"
    "map_of (ag_revision_keys (reviewed_service d)) (poc_1, zeros) = None" for d
    by (simp_all add: reviewed_service_def prepared_service_def no_agreements_def history_of_def)
  moreover have "zeros \<noteq> replicate 64 (CHR ''1'')" by simp
  ultimately show ?thesis
    using agreed_current [of edited_draft] agreed_texts revised_prepared agreed_link_issued [OF b(3) b(2)] a(2,3) n fp edit_inputs(2)
    by (simp add: start_revision_def revise_current_def Let_def revised_service_def)
qed

theorem revision_lineage_witness:
  "agreement_reachable edit_hasher agreed_mac revised_service \<and> lineage_ok [agreed_preparation, revised_preparation]"
proof -
  have r: "agreement_reachable edit_hasher agreed_mac revised_service"
    using reachable_step [OF decided_reachable step_revise] agreed_revise by (metis fst_conv)
  have "map_of (ag_preparations revised_service) poc_1 = Some revised_preparation" "map ah_preparation (history_of revised_service poc_1) = [agreed_preparation]"
    by (simp_all add: revised_service_def publish_revision_def history_of_def reviewed_service_def prepared_service_def no_agreements_def)
  then show ?thesis using revision_lineage [OF r] r by fastforce
qed

text \<open>The link expired, and the operator asks for another.\<close>

lemma agreed_reissue: "reissue_customer_review edit_hasher agreed_mac ''1'' (agreed_twice agreed_draft agreed_record) (Some (Aware 7200000000 0)) poc_1 ''k''
    prepared_service = (prepared_service\<lparr>ag_invitations := [(poc_1, agreed_link ''1'' 7200000000)], ag_review_keys := [((poc_1, zeros), zeros)]\<rparr>,
    Inr (agreed_link ''1'' 7200000000, False))"
proof -
  note a = prepare_from_inputs_Inr [OF agreed_prepared]
  have p: "map_of (ag_preparations prepared_service) poc_1 = Some agreed_preparation" "ag_invitations prepared_service = [(poc_1, agreed_link ''1'' 0)]"
    "map_of (ag_confirmations prepared_service) poc_1 = None" "ag_review_keys prepared_service = []"
    by (simp_all add: prepared_service_def no_agreements_def)
  have "reissue_digest edit_hasher poc_1 c = zeros" for c by (simp add: reissue_digest_def edit_request)
  moreover have "instant (lk_expires_at (agreed_link ''1'' 0)) = 7200000000" by (simp add: agreed_link_def)
  ultimately show ?thesis using p agreed_texts agreed_required [OF p(1)] agreed_link_issued [OF a(3) a(2)]
    by (simp add: reissue_customer_review_def)
qed

theorem reissue_replay_expired_witness:
  "\<exists>t. snd (reissue_customer_review edit_hasher agreed_mac ''1'' (agreed_twice agreed_draft agreed_record) (Some (Aware 7200000000 0)) poc_1 ''k'' prepared_service) =
      Inr (agreed_link ''1'' 7200000000, False) \<and>
    reissue_customer_review edit_hasher agreed_mac ''2'' (agreed_twice agreed_draft agreed_record) (Some (Aware 7200000001 0)) poc_1 ''k'' t = (t, Inl AgreementConflict)"
proof -
  define t where "t = prepared_service\<lparr>ag_invitations := [(poc_1, agreed_link ''1'' 7200000000)], ag_review_keys := [((poc_1, zeros), zeros)]\<rparr>"
  have "instant (lk_created_at (agreed_link ''1'' 7200000000)) = 7200000000" by (simp add: agreed_link_def)
  then have "reissue_customer_review edit_hasher agreed_mac ''2'' (agreed_twice agreed_draft agreed_record) (Some (Aware 7200000001 0)) poc_1 ''k'' t =
      (t, Inl AgreementConflict)"
    using conjunct2 [OF reissue_replay_expired [OF agreed_reissue, of "''2''"]] unfolding t_def by simp
  then show ?thesis using agreed_reissue by auto
qed

text \<open>An advisory claim whose criterion still lacks its threshold and provenance.\<close>

definition partial_item :: planner_item where
  "partial_item = tool_item\<lparr>it_scope := ADVISORY, it_criterion := Some (planned_criterion\<lparr>cri_threshold := None, cri_provenance := None\<rparr>)\<rparr>"

definition partial_record :: planning_record where
  "partial_record = agreed_record\<lparr>pn_scope := ADVISORY, pn_disposition := CLARIFICATION_REQUIRED, pn_criterion := it_criterion partial_item,
     pn_reason := ''Missing named-human planning input: threshold, provenance.'',
     pn_next_action := ''Provide each named field from the server-owned capability registry; do not infer it from source text.''\<rparr>"

lemma partial_classified: "planner_classify agreed_retained partial_item = Inr \<lparr>cl_disposition = CLARIFICATION_REQUIRED, cl_criterion = it_criterion partial_item,
    cl_reason = pn_reason partial_record, cl_next_action = pn_next_action partial_record\<rparr>"
  by (simp add: planner_classify_def registry_lookup_def default_capability_registry_def partial_item_def tool_item_def planned_criterion_def clashes_def
      missing_fields_def required_fields_def Let_def partial_record_def join_str.simps)

lemma partial_made: "make_planning_record partial_record = Some partial_record"
proof -
  have "safe_text 2000 False (pn_reason partial_record) = Some (pn_reason partial_record)"
    "safe_text 2000 False (pn_next_action partial_record) = Some (pn_next_action partial_record)" by (rule safe_when_clean; code_simp)+
  moreover have "record_disposition_ok partial_record" by code_simp
  ultimately show ?thesis using agreed_made tool_texts
    by (simp add: make_planning_record_def Let_def partial_record_def agreed_record_def tool_record_def split: if_split_asm)
qed

lemma partial_current: "stable_inputs edit_hasher poc_1 (agreed_twice agreed_draft partial_record) = Inr (agreed_draft, [agreed_retained], agreed_plan partial_record)"
proof (rule agreed_inputs [OF partial_made])
  show "case pn_criterion partial_record of None \<Rightarrow> True | Some c \<Rightarrow> make_planner_criterion c = Some c" by code_simp
  show "binding_matches partial_record agreed_retained" by code_simp
  show "record_ready partial_record" by code_simp
qed (simp_all add: agreed_draft_def partial_record_def agreed_record_def tool_record_def)

lemma partial_built: "prepare_from_inputs edit_hasher (agreed_draft, [agreed_retained], agreed_plan partial_record) ''1'' cid None (Aware 0 0) ''r'' ''y'' =
    Inl AgreementAttributeError"
proof -
  have "rp_proposal_id agreed_retained = ''prop_00000001''" by code_simp
  then have "assemble_criteria edit_hasher agreed_draft [agreed_retained] (agreed_plan partial_record) sha ''r'' ''y'' [partial_record] = Inl AgreementAttributeError" for sha
    by (simp add: unresolved_must_have_def proposal_of_def build_criterion_def Let_def partial_record_def agreed_record_def tool_record_def
        partial_item_def tool_item_def planned_criterion_def)
  then show ?thesis by (simp add: prepare_from_inputs_def assemble_contract_def agreed_draft_def agreed_plan_def tool_plan_def)
qed

theorem ready_plan_not_preparable_witness:
  "cp_ready_for_agreement (agreed_plan partial_record) \<and>
    prepare_agreement edit_hasher agreed_mac ''1'' (agreed_twice agreed_draft partial_record) (Some (Aware 0 0)) poc_1 ''r'' ''y'' ''k'' no_agreements =
      (no_agreements, Inl AgreementAttributeError) \<and> operator_status AgreementAttributeError = None"
proof -
  have r: "partial_record \<in> set (cp_records (agreed_plan partial_record))" "unassemblable partial_record"
    by (simp_all add: agreed_plan_def unassemblable_def partial_record_def partial_item_def)
  have "prepare_agreement edit_hasher agreed_mac ''1'' (agreed_twice agreed_draft partial_record) (Some (Aware 0 0)) poc_1 ''r'' ''y'' ''k'' no_agreements =
      (no_agreements, Inl AgreementAttributeError)"
    using partial_current partial_built agreed_texts
    by (simp add: prepare_agreement_def prepare_current_def Let_def no_agreements_def agreement_count_def agreed_contract_id)
  then show ?thesis using ready_plan_not_preparable [OF partial_current r] by simp
qed

end
