(* ===== verification/Artifact_Json.thy ===== *)
theory Artifact_Json
  imports Event_Stream Regex
begin

section \<open>Reading an identity artifact (serving_subject.py, qualification_scope.py)\<close>

text \<open>
  The artifacts of a qualification share one way in: a dict is canonicalised, its size and shape are
  bounded, and a strict model validates its fields. The first section is \<open>_load_object\<close> for a dict;
  bytes are not modelled. The second one is what the modules use of pydantic: the errors of a strict
  model in the order in which pydantic lists them, as \<open>_classify_validation_error\<close> reads them.
  \<open>rfc8785\<close> and \<open>sha256\<close> are the parameters of \<open>codec\<close>; that decoding canonical bytes gives back the
  value, its members in key order and its numbers in their shortest form, is what RFC 8785 defines.
\<close>

text \<open>\<open>ServingSubjectValidationCode\<close> and \<open>QualificationScopeValidationCode\<close>, which have the same values.\<close>

datatype artifact_code = DUPLICATE_FIELD | EXTRA_FIELD | MISSING_FIELD | WRONG_VERSION | WRONG_TYPE | OVERSIZED
  | INVALID_DIGEST | INVALID_VALUE | NON_CANONICAL | SEMANTIC_INCONSISTENCY

subsection \<open>Bounds of a JSON object\<close>

record json_limits =
  jl_bytes :: nat
  jl_depth :: nat
  jl_nodes :: nat
  jl_object_keys :: nat
  jl_array_items :: nat
  jl_string_length :: nat
  jl_integer :: int

definition bounded_integer :: "int \<Rightarrow> int \<Rightarrow> artifact_code + json" where
  "bounded_integer maximum n = (if \<bar>n\<bar> > maximum then Inl OVERSIZED else Inr (JInt n))"

text \<open>
  A number of the canonical bytes: a float with an integral value below \<open>10\<^sup>2\<^sup>1\<close> is written without
  fraction and exponent, so \<open>json.loads\<close> reads an int; any other one goes to \<open>parse_float\<close>.
\<close>

definition decoded_float :: "int \<Rightarrow> real \<Rightarrow> artifact_code + json" where
  "decoded_float maximum x = (if real_of_int \<lfloor>x\<rfloor> = x \<and> \<bar>x\<bar> < 10 ^ 21 then bounded_integer maximum \<lfloor>x\<rfloor> else Inl INVALID_VALUE)"

fun first_refusal :: "('k \<times> ('e + 'a)) list \<Rightarrow> 'e + ('k \<times> 'a) list" where
  "first_refusal [] = Inr []"
| "first_refusal ((k, Inl e) # xs) = Inl e"
| "first_refusal ((k, Inr v) # xs) = (case first_refusal xs of Inl e \<Rightarrow> Inl e | Inr vs \<Rightarrow> Inr ((k, v) # vs))"

fun decode_canonical :: "int \<Rightarrow> json \<Rightarrow> artifact_code + json"
  and decode_items :: "int \<Rightarrow> json list \<Rightarrow> (unit \<times> (artifact_code + json)) list"
  and decode_members :: "int \<Rightarrow> (string \<times> json) list \<Rightarrow> (string \<times> (artifact_code + json)) list" where
  "decode_canonical m JNull = Inr JNull"
| "decode_canonical m (JBool b) = Inr (JBool b)"
| "decode_canonical m (JStr s) = Inr (JStr s)"
| "decode_canonical m (JInt n) = bounded_integer m n"
| "decode_canonical m (JFloat x) = decoded_float m x"
| "decode_canonical m (JArr xs) = (case first_refusal (decode_items m xs) of Inl e \<Rightarrow> Inl e | Inr vs \<Rightarrow> Inr (JArr (map snd vs)))"
| "decode_canonical m (JObj kvs) = (case first_refusal (sort_key fst (decode_members m kvs)) of Inl e \<Rightarrow> Inl e | Inr vs \<Rightarrow> Inr (JObj vs))"
| "decode_items m [] = []"
| "decode_items m (x # xs) = ((), decode_canonical m x) # decode_items m xs"
| "decode_members m [] = []"
| "decode_members m ((k, v) # kvs) = (k, decode_canonical m v) # decode_members m kvs"

text \<open>\<open>_walk_bounded_json\<close>: the number of nodes visited so far goes in and comes out.\<close>

fun walk_bounded_json :: "json_limits \<Rightarrow> nat \<Rightarrow> nat \<Rightarrow> json \<Rightarrow> artifact_code + nat"
  and walk_items :: "json_limits \<Rightarrow> nat \<Rightarrow> nat \<Rightarrow> json list \<Rightarrow> artifact_code + nat"
  and walk_members :: "json_limits \<Rightarrow> nat \<Rightarrow> nat \<Rightarrow> (string \<times> json) list \<Rightarrow> artifact_code + nat" where
  "walk_bounded_json l depth n value = (let n' = Suc n in
     if n' > jl_nodes l \<or> depth > jl_depth l then Inl OVERSIZED
     else (case value of
         JStr s \<Rightarrow> if length s > jl_string_length l then Inl OVERSIZED else Inr n'
       | JNull \<Rightarrow> Inr n'
       | JBool b \<Rightarrow> Inr n'
       | JInt i \<Rightarrow> Inr n'
       | JObj kvs \<Rightarrow> if length kvs > jl_object_keys l then Inl OVERSIZED else walk_members l (Suc depth) n' kvs
       | JArr xs \<Rightarrow> if length xs > jl_array_items l then Inl OVERSIZED else walk_items l (Suc depth) n' xs
       | JFloat x \<Rightarrow> Inl WRONG_TYPE))"
| "walk_items l depth n [] = Inr n"
| "walk_items l depth n (x # xs) = (case walk_bounded_json l depth n x of Inl e \<Rightarrow> Inl e | Inr n' \<Rightarrow> walk_items l depth n' xs)"
| "walk_members l depth n [] = Inr n"
| "walk_members l depth n ((k, v) # kvs) = (if length k > jl_string_length l then Inl OVERSIZED
     else (case walk_bounded_json l depth n v of Inl e \<Rightarrow> Inl e | Inr n' \<Rightarrow> walk_members l depth n' kvs))"

text \<open>\<open>_load_object\<close> of a dict, with \<open>_decode_object(require_canonical=False)\<close>.\<close>

definition load_object :: "codec \<Rightarrow> json_limits \<Rightarrow> json \<Rightarrow> artifact_code + json" where
  "load_object k l value = (case value of
     JObj kvs \<Rightarrow> (case canonical_json k value of None \<Rightarrow> Inl INVALID_VALUE
       | Some content \<Rightarrow> if length content > jl_bytes l then Inl OVERSIZED
           else (case decode_canonical (jl_integer l) value of Inl e \<Rightarrow> Inl e
             | Inr payload \<Rightarrow> (case walk_bounded_json l 0 0 payload of Inl e \<Rightarrow> Inl e
               | Inr n \<Rightarrow> if canonical_json k payload = None then Inl INVALID_VALUE else Inr payload)))
   | _ \<Rightarrow> Inl WRONG_TYPE)"

subsection \<open>The errors of a strict model\<close>

text \<open>One entry of \<open>error.errors()\<close>: its \<open>loc\<close>, its \<open>type\<close> and the text of \<open>ctx["error"]\<close> if there is one.\<close>

record error_detail =
  de_loc :: "string list"
  de_type :: string
  de_error :: "string option"

type_synonym check = "string list \<Rightarrow> json \<Rightarrow> error_detail list"

definition detail :: "string list \<Rightarrow> string \<Rightarrow> error_detail" where
  "detail loc type = \<lparr>de_loc = loc, de_type = type, de_error = None\<rparr>"

definition value_error :: "string list \<Rightarrow> string \<Rightarrow> error_detail" where
  "value_error loc message = \<lparr>de_loc = loc, de_type = ''value_error'', de_error = Some message\<rparr>"

text \<open>A strict \<open>str\<close> with its lengths and its pattern, then the field validator: the message it raises, if any.\<close>

definition str_check :: "nat \<Rightarrow> nat option \<Rightarrow> (string \<Rightarrow> bool) \<Rightarrow> (string \<Rightarrow> string option) \<Rightarrow> check" where
  "str_check least most pattern raises loc value = (case value of
     JStr s \<Rightarrow> (if (case most of None \<Rightarrow> False | Some n \<Rightarrow> length s > n) then [detail loc ''string_too_long'']
       else if length s < least then [detail loc ''string_too_short'']
       else if \<not> pattern s then [detail loc ''string_pattern_mismatch'']
       else (case raises s of None \<Rightarrow> [] | Some m \<Rightarrow> [value_error loc m]))
   | _ \<Rightarrow> [detail loc ''string_type''])"

definition optional_check :: "check \<Rightarrow> check" where
  "optional_check c loc value = (if value = JNull then [] else c loc value)"

definition literal_check :: "string list \<Rightarrow> check" where
  "literal_check options loc value = (case value of
     JStr s \<Rightarrow> if s \<in> set options then [] else [detail loc ''literal_error'']
   | _ \<Rightarrow> [detail loc ''literal_error''])"

definition int_check :: "int \<Rightarrow> int \<Rightarrow> check" where
  "int_check low high loc value = (case value of
     JInt n \<Rightarrow> if n < low then [detail loc ''greater_than_equal''] else if n > high then [detail loc ''less_than_equal''] else []
   | _ \<Rightarrow> [detail loc ''int_type''])"

text \<open>
  A model with \<open>extra="forbid"\<close>: the fields in the order of the class, all required, then the unknown
  members; the model validators run, in order, only when every field is in order.
\<close>

fun field_details :: "(string \<times> check) list \<Rightarrow> string list \<Rightarrow> (string \<times> json) list \<Rightarrow> error_detail list" where
  "field_details [] loc kvs = []"
| "field_details ((f, c) # fs) loc kvs = (case map_of kvs f of None \<Rightarrow> [detail (loc @ [f]) ''missing''] | Some v \<Rightarrow> c (loc @ [f]) v)
     @ field_details fs loc kvs"

definition model_check :: "(string \<times> check) list \<Rightarrow> ((string \<times> json) list \<Rightarrow> (bool \<times> string) list) \<Rightarrow> check" where
  "model_check schema validators loc value = (case value of
     JObj kvs \<Rightarrow> (let found = field_details schema loc kvs @
           map (\<lambda>kv. detail (loc @ [fst kv]) ''extra_forbidden'') (filter (\<lambda>kv. fst kv \<notin> set (map fst schema)) kvs) in
         if found \<noteq> [] then found
         else (case first_error (validators kvs) of None \<Rightarrow> [] | Some m \<Rightarrow> [value_error loc m]))
   | _ \<Rightarrow> [detail loc ''model_type''])"

text \<open>Reading the members of a validated object.\<close>

definition text_at :: "string \<Rightarrow> (string \<times> json) list \<Rightarrow> string" where
  "text_at f kvs = (case map_of kvs f of Some (JStr s) \<Rightarrow> s | _ \<Rightarrow> [])"

definition optional_text_at :: "string \<Rightarrow> (string \<times> json) list \<Rightarrow> string option" where
  "optional_text_at f kvs = (case map_of kvs f of Some (JStr s) \<Rightarrow> Some s | _ \<Rightarrow> None)"

definition int_at :: "string \<Rightarrow> (string \<times> json) list \<Rightarrow> int" where
  "int_at f kvs = (case map_of kvs f of Some (JInt n) \<Rightarrow> n | _ \<Rightarrow> 0)"

definition members_at :: "string \<Rightarrow> (string \<times> json) list \<Rightarrow> (string \<times> json) list" where
  "members_at f kvs = (case map_of kvs f of Some (JObj ms) \<Rightarrow> ms | _ \<Rightarrow> [])"

text \<open>\<open>needle in text\<close>.\<close>

fun mentions :: "string \<Rightarrow> string \<Rightarrow> bool" where
  "mentions needle [] = (needle = [])"
| "mentions needle (c # cs) = (starts_with needle (c # cs) \<or> mentions needle cs)"

definition too_long_types :: "string list" where
  "too_long_types = [''too_long'', ''string_too_long'', ''too_short'']"

subsection \<open>Patterns\<close>

text \<open>\<open>^[A-Za-z0-9][...]{low,high}$\<close>, where the class adds the given characters to the alphanumerics.\<close>

definition plain_id :: "string \<Rightarrow> nat \<Rightarrow> nat \<Rightarrow> string \<Rightarrow> bool" where
  "plain_id extra low high s = (case s of [] \<Rightarrow> False
     | c # cs \<Rightarrow> alnum c \<and> low \<le> length cs \<and> length cs \<le> high \<and> list_all (\<lambda>d. alnum d \<or> one_of extra d) cs)"

definition identifier_ok :: "string \<Rightarrow> bool" where
  "identifier_ok s = plain_id ''._/-'' 0 127 s"

definition digest_ok :: "string \<Rightarrow> bool" where
  "digest_ok s \<longleftrightarrow> starts_with ''sha256:'' s \<and> is_sha256 (drop 7 s)"

text \<open>The whole text matches an expression.\<close>

definition whole_match :: "rx \<Rightarrow> string \<Rightarrow> bool" where
  "whole_match r s = list_ex (\<lambda>p. snd p = []) (ends r (None, s))"

definition version_tail :: "char \<Rightarrow> rx" where
  "version_tail c = Opt (cats [lit c, Cls alnum, Rep 0 (Some 63) (Cls (\<lambda>d. alnum d \<or> one_of ''.-'' d))])"

definition exact_version_rx :: rx where
  "exact_version_rx = cats [Opt (lit (CHR ''v'')), Rep 1 None (Cls is_digit),
     Rep 0 (Some 2) (Cat (lit (CHR ''.'')) (Rep 1 None (Cls is_digit))), version_tail (CHR ''-''), version_tail (CHR ''+'')]"

definition exact_version_ok :: "string \<Rightarrow> bool" where
  "exact_version_ok s = whole_match exact_version_rx s"

text \<open>The names a pinned revision or version must not have; the text is ASCII by its pattern.\<close>

definition unpinned_names :: "string list" where
  "unpinned_names = [''latest'', ''main'', ''master'', ''head'', ''default'', ''stable'']"

definition unpinned :: "string \<Rightarrow> string \<Rightarrow> string option" where
  "unpinned message s = (if map lower_char s \<in> set unpinned_names then Some message else None)"

text \<open>\<open>"sha256:" + sha256(domain + canonical_json_bytes(projection)).hexdigest()\<close>\<close>

definition domain_digest :: "codec \<Rightarrow> string \<Rightarrow> json \<Rightarrow> string option" where
  "domain_digest k domain projection = map_option (\<lambda>content. ''sha256:'' @ sha256_hex k (domain @ [CHR 0x00] @ content)) (canonical_json k projection)"

end
