(* ===== verification/Serving_Subject.thy ===== *)
theory Serving_Subject
  imports Artifact_Json
begin

section \<open>The identity of a serving subject (serving_subject.py)\<close>

text \<open>
  A manifest names a model, a tokenizer, an engine, a runtime configuration, hardware and adapter
  exactly, and is bound to them by its digest. The runtime configuration is a text of canonical
  JSON: it is parsed with the JSON parser of Event_Stream, walked within bounds, and refused when
  the path of keys to any value spells a credential or an authority. Constructing a manifest, and
  checking one that was handed over, both go through the same strict validation.
\<close>

definition SERVING_SUBJECT_SCHEMA_VERSION :: string where
  "SERVING_SUBJECT_SCHEMA_VERSION = ''exitspec.serving-subject-manifest.v1''"

definition SERVING_SUBJECT_DIGEST_DOMAIN :: string where
  "SERVING_SUBJECT_DIGEST_DOMAIN = ''exitspec-serving-subject-manifest-v1''"

definition subject_limits :: json_limits where
  "subject_limits = \<lparr>jl_bytes = 16384, jl_depth = 16, jl_nodes = 512, jl_object_keys = 32, jl_array_items = 64,
     jl_string_length = 8192, jl_integer = 2147483647\<rparr>"

subsection \<open>The runtime configuration\<close>

definition runtime_limits :: json_limits where
  "runtime_limits = \<lparr>jl_bytes = 8192, jl_depth = 8, jl_nodes = 256, jl_object_keys = 32, jl_array_items = 32,
     jl_string_length = 512, jl_integer = 2147483647\<rparr>"

definition denied_segments :: "string list" where
  "denied_segments = [''authorization'', ''authorisation'', ''credential'', ''credentials'', ''deploy'', ''deployment'',
     ''execution'', ''executions'', ''password'', ''passwords'', ''provider'', ''providers'', ''run'', ''runs'', ''secret'',
     ''secrets'', ''token'', ''tokens'', ''traffic'']"

definition denied_pairs :: "(string \<times> string) list" where
  "denied_pairs = [(''api'', ''key''), (''gpu'', ''reservation''), (''private'', ''key'')]"

text \<open>\<open>^[A-Za-z][A-Za-z0-9_.-]{0,63}$\<close>\<close>

definition runtime_key_ok :: "string \<Rightarrow> bool" where
  "runtime_key_ok s = (case s of [] \<Rightarrow> False
     | c # cs \<Rightarrow> (is_upper c \<or> is_lower c) \<and> length cs \<le> 63 \<and> list_all (\<lambda>d. alnum d \<or> one_of ''_.-'' d) cs)"

text \<open>The two substitutions of \<open>_runtime_key_segments\<close>: a dot between \<open>[a-z0-9]\<close> and \<open>[A-Z]\<close>, and before the last capital of an acronym.\<close>

fun split_camel :: "string \<Rightarrow> string" where
  "split_camel (c # d # cs) = (if (is_lower c \<or> is_digit c) \<and> is_upper d then c # CHR ''.'' # split_camel (d # cs)
     else c # split_camel (d # cs))"
| "split_camel s = s"

fun split_acronym :: "string \<Rightarrow> string" where
  "split_acronym (c # d # e # cs) = (if is_upper c \<and> is_upper d \<and> is_lower e then c # CHR ''.'' # split_acronym (d # e # cs)
     else c # split_acronym (d # e # cs))"
| "split_acronym s = s"

text \<open>The non-empty pieces of \<open>re.split("[_.-]+")\<close>.\<close>

fun key_pieces :: "string \<Rightarrow> string list" where
  "key_pieces [] = [[]]"
| "key_pieces (c # cs) = (if one_of ''_.-'' c then [] # key_pieces cs
     else (case key_pieces cs of [] \<Rightarrow> [[c]] | p # ps \<Rightarrow> (c # p) # ps))"

definition runtime_key_segments :: "string \<Rightarrow> string list" where
  "runtime_key_segments key = map (map lower_char) (filter (\<lambda>s. s \<noteq> []) (key_pieces (split_acronym (split_camel key))))"

fun has_pair :: "(string \<times> string) list \<Rightarrow> string list \<Rightarrow> bool" where
  "has_pair pairs (a # b # xs) = ((a, b) \<in> set pairs \<or> has_pair pairs (b # xs))"
| "has_pair pairs xs = False"

definition is_prohibited_runtime_path :: "string list \<Rightarrow> string list \<Rightarrow> bool" where
  "is_prohibited_runtime_path path key_segments \<longleftrightarrow> list_ex (\<lambda>s. s \<in> set denied_segments) path \<or> has_pair denied_pairs path \<or>
     concat key_segments \<in> set [''apikey'', ''gpureservation'', ''privatekey'']"

text \<open>
  What \<open>json.loads\<close> with its hooks makes of a parsed text: no float, no integer out of bounds, no
  duplicate key. A character from code point 256 on has no value here: it cannot stem from a text
  that is the canonical form of what it denotes.
\<close>

definition decimal_digits :: "int list \<Rightarrow> int" where
  "decimal_digits ds = foldl (\<lambda>n d. 10 * n + (d - 48)) 0 ds"

definition integer_literal :: "int list \<Rightarrow> int option" where
  "integer_literal literal = (case literal of [] \<Rightarrow> None
     | c # cs \<Rightarrow> (let ds = (if c = 45 then cs else literal) in
         if list_all json_digit ds then Some (if c = 45 then - decimal_digits ds else decimal_digits ds) else None))"

definition char_text :: "int list \<Rightarrow> string option" where
  "char_text t = (if list_all (\<lambda>p. p < 256) t then Some (map (\<lambda>p. char_of (nat p)) t) else None)"

fun runtime_value :: "py_json \<Rightarrow> json option"
  and runtime_items :: "py_json list \<Rightarrow> json list option"
  and runtime_members :: "(int list \<times> py_json) list \<Rightarrow> (string \<times> json) list option" where
  "runtime_value PyNull = Some JNull"
| "runtime_value (PyBool b) = Some (JBool b)"
| "runtime_value (PyNumber literal) = (case integer_literal literal of None \<Rightarrow> None
     | Some n \<Rightarrow> if \<bar>n\<bar> > jl_integer runtime_limits then None else Some (JInt n))"
| "runtime_value (PyText t) = map_option JStr (char_text t)"
| "runtime_value (PyList xs) = map_option JArr (runtime_items xs)"
| "runtime_value (PyDict kvs) = (if distinct (map fst kvs) then map_option JObj (runtime_members kvs) else None)"
| "runtime_items [] = Some []"
| "runtime_items (x # xs) = (case (runtime_value x, runtime_items xs) of (Some v, Some vs) \<Rightarrow> Some (v # vs) | _ \<Rightarrow> None)"
| "runtime_members [] = Some []"
| "runtime_members ((key, x) # kvs) = (case (char_text key, runtime_value x, runtime_members kvs) of
     (Some name, Some v, Some vs) \<Rightarrow> Some ((name, v) # vs) | _ \<Rightarrow> None)"

text \<open>\<open>walk\<close>: the nodes visited so far go in and come out; None is the \<open>ValueError\<close>.\<close>

fun walk_runtime :: "nat \<Rightarrow> string list \<Rightarrow> nat \<Rightarrow> json \<Rightarrow> nat option"
  and walk_runtime_items :: "nat \<Rightarrow> string list \<Rightarrow> nat \<Rightarrow> json list \<Rightarrow> nat option"
  and walk_runtime_members :: "nat \<Rightarrow> string list \<Rightarrow> nat \<Rightarrow> (string \<times> json) list \<Rightarrow> nat option" where
  "walk_runtime depth path n current = (let n' = Suc n in
     if n' > jl_nodes runtime_limits \<or> depth > jl_depth runtime_limits then None
     else (case current of
         JStr s \<Rightarrow> if length s > jl_string_length runtime_limits then None else Some n'
       | JNull \<Rightarrow> Some n'
       | JBool b \<Rightarrow> Some n'
       | JInt i \<Rightarrow> if \<bar>i\<bar> > jl_integer runtime_limits then None else Some n'
       | JObj kvs \<Rightarrow> if length kvs > jl_object_keys runtime_limits then None else walk_runtime_members depth path n' kvs
       | JArr xs \<Rightarrow> if length xs > jl_array_items runtime_limits then None else walk_runtime_items depth path n' xs
       | JFloat x \<Rightarrow> None))"
| "walk_runtime_items depth path n [] = Some n"
| "walk_runtime_items depth path n (x # xs) = (case walk_runtime (Suc depth) path n x of None \<Rightarrow> None
     | Some n' \<Rightarrow> walk_runtime_items depth path n' xs)"
| "walk_runtime_members depth path n [] = Some n"
| "walk_runtime_members depth path n ((key, v) # kvs) = (if \<not> runtime_key_ok key then None
     else (let segments = runtime_key_segments key; child_path = path @ segments in
       if is_prohibited_runtime_path child_path segments then None
       else (case walk_runtime (Suc depth) child_path n v of None \<Rightarrow> None
         | Some n' \<Rightarrow> walk_runtime_members depth path n' kvs)))"

text \<open>\<open>value.encode("utf-8")\<close> below code point 256.\<close>

definition utf8_encode :: "string \<Rightarrow> string" where
  "utf8_encode s = concat (map (\<lambda>c. let n = (of_char c :: nat) in
     if n < 128 then [c] else [char_of (192 + n div 64), char_of (128 + n mod 64)]) s)"

definition parse_runtime_configuration :: "codec \<Rightarrow> string \<Rightarrow> json option" where
  "parse_runtime_configuration k value = (let content = utf8_encode value in
     if \<not> (0 < length content \<and> length content \<le> jl_bytes runtime_limits) then None
     else (case json_loads (points value) of None \<Rightarrow> None
       | Some tree \<Rightarrow> (case runtime_value tree of
           Some (JObj kvs) \<Rightarrow> (if walk_runtime 0 [] 0 (JObj kvs) = None then None
             else if canonical_json k (JObj kvs) = Some content then Some (JObj kvs) else None)
         | _ \<Rightarrow> None)))"

subsection \<open>The models\<close>

record pinned_component =
  pk_component_id :: string
  pk_revision :: string

record serving_engine =
  se_engine_id :: string
  se_engine_version :: string

record hardware_identity =
  hw_hardware_class :: string
  hw_topology :: string

record profile_adapter =
  pa_profile_id :: string
  pa_profile_version :: string
  pa_adapter_id :: string
  pa_adapter_version :: string

record subject_unsigned =
  sj_schema_version :: string
  sj_model :: pinned_component
  sj_tokenizer :: pinned_component
  sj_engine :: serving_engine
  sj_runtime_artifact_digest :: "string option"
  sj_runtime_configuration_json :: string
  sj_launch_arguments_digest :: string
  sj_hardware :: hardware_identity
  sj_profile :: profile_adapter
  sj_routing_policy_id :: "string option"
  sj_routing_policy_digest :: "string option"

record serving_subject = subject_unsigned +
  sj_subject_digest :: string

definition no_validator :: "string \<Rightarrow> string option" where
  "no_validator s = None"

definition identifier_check :: check where
  "identifier_check = str_check 0 (Some 128) identifier_ok no_validator"

definition digest_check :: check where
  "digest_check = str_check 0 None digest_ok no_validator"

definition version_check :: "string \<Rightarrow> check" where
  "version_check message = str_check 0 (Some 128) exact_version_ok (unpinned message)"

definition exact_check :: "string \<Rightarrow> check" where
  "exact_check text = str_check 0 (Some (length text)) (\<lambda>s. s = text) no_validator"

definition no_validators :: "(string \<times> json) list \<Rightarrow> (bool \<times> string) list" where
  "no_validators kvs = []"

definition component_check :: check where
  "component_check = model_check [(''component_id'', identifier_check),
     (''revision'', str_check 0 (Some 128) (plain_id ''._:+-'' 6 127) (unpinned ''Revision must be pinned.''))] no_validators"

definition engine_check :: check where
  "engine_check = model_check [(''engine_id'', identifier_check), (''engine_version'', version_check ''Engine version must be pinned.'')] no_validators"

definition hardware_check :: check where
  "hardware_check = model_check [(''hardware_class'', str_check 0 (Some 128) (plain_id ''._:+/-'' 1 127) no_validator),
     (''topology'', str_check 0 (Some 128) (plain_id ''._:+x/-'' 1 127) no_validator)] no_validators"

definition profile_check :: check where
  "profile_check = (let pinned = version_check ''Profile and adapter versions must be pinned.'' in
     model_check [(''profile_id'', identifier_check), (''profile_version'', pinned), (''adapter_id'', identifier_check), (''adapter_version'', pinned)] no_validators)"

text \<open>Every message of \<open>_parse_runtime_configuration\<close> starts with these words; no other part of one is looked at.\<close>

definition runtime_error :: "codec \<Rightarrow> string \<Rightarrow> string option" where
  "runtime_error k s = (if parse_runtime_configuration k s = None then Some ''Runtime configuration'' else None)"

definition subject_fields :: "codec \<Rightarrow> (string \<times> check) list" where
  "subject_fields k = [(''schema_version'', exact_check SERVING_SUBJECT_SCHEMA_VERSION), (''model'', component_check),
     (''tokenizer'', component_check), (''engine'', engine_check), (''runtime_artifact_digest'', optional_check digest_check),
     (''runtime_configuration_json'', str_check 2 (Some 8192) (\<lambda>s. True) (runtime_error k)),
     (''launch_arguments_digest'', digest_check), (''hardware'', hardware_check), (''profile'', profile_check),
     (''routing_policy_id'', optional_check identifier_check), (''routing_policy_digest'', optional_check digest_check)]"

definition routing_pair :: "(string \<times> json) list \<Rightarrow> (bool \<times> string)" where
  "routing_pair kvs = ((optional_text_at ''routing_policy_id'' kvs = None) \<noteq> (optional_text_at ''routing_policy_digest'' kvs = None),
     ''Routing policy identity and digest must be all-or-none.'')"

definition unsigned_subject_check :: "codec \<Rightarrow> check" where
  "unsigned_subject_check k = model_check (subject_fields k) (\<lambda>kvs. [routing_pair kvs])"

text \<open>Dumps and reads of the typed models.\<close>

definition component_json :: "pinned_component \<Rightarrow> json" where
  "component_json c = JObj [(''component_id'', JStr (pk_component_id c)), (''revision'', JStr (pk_revision c))]"

definition engine_json :: "serving_engine \<Rightarrow> json" where
  "engine_json e = JObj [(''engine_id'', JStr (se_engine_id e)), (''engine_version'', JStr (se_engine_version e))]"

definition hardware_json :: "hardware_identity \<Rightarrow> json" where
  "hardware_json h = JObj [(''hardware_class'', JStr (hw_hardware_class h)), (''topology'', JStr (hw_topology h))]"

definition profile_json :: "profile_adapter \<Rightarrow> json" where
  "profile_json p = JObj [(''profile_id'', JStr (pa_profile_id p)), (''profile_version'', JStr (pa_profile_version p)),
     (''adapter_id'', JStr (pa_adapter_id p)), (''adapter_version'', JStr (pa_adapter_version p))]"

definition subject_projection :: "'a subject_unsigned_scheme \<Rightarrow> (string \<times> json) list" where
  "subject_projection s = [(''schema_version'', JStr (sj_schema_version s)), (''model'', component_json (sj_model s)),
     (''tokenizer'', component_json (sj_tokenizer s)), (''engine'', engine_json (sj_engine s)),
     (''runtime_artifact_digest'', json_opt JStr (sj_runtime_artifact_digest s)),
     (''runtime_configuration_json'', JStr (sj_runtime_configuration_json s)),
     (''launch_arguments_digest'', JStr (sj_launch_arguments_digest s)), (''hardware'', hardware_json (sj_hardware s)),
     (''profile'', profile_json (sj_profile s)), (''routing_policy_id'', json_opt JStr (sj_routing_policy_id s)),
     (''routing_policy_digest'', json_opt JStr (sj_routing_policy_digest s))]"

definition subject_dump :: "serving_subject \<Rightarrow> json" where
  "subject_dump s = JObj (subject_projection s @ [(''subject_digest'', JStr (sj_subject_digest s))])"

definition read_component :: "(string \<times> json) list \<Rightarrow> pinned_component" where
  "read_component kvs = \<lparr>pk_component_id = text_at ''component_id'' kvs, pk_revision = text_at ''revision'' kvs\<rparr>"

definition read_engine :: "(string \<times> json) list \<Rightarrow> serving_engine" where
  "read_engine kvs = \<lparr>se_engine_id = text_at ''engine_id'' kvs, se_engine_version = text_at ''engine_version'' kvs\<rparr>"

definition read_hardware :: "(string \<times> json) list \<Rightarrow> hardware_identity" where
  "read_hardware kvs = \<lparr>hw_hardware_class = text_at ''hardware_class'' kvs, hw_topology = text_at ''topology'' kvs\<rparr>"

definition read_profile :: "(string \<times> json) list \<Rightarrow> profile_adapter" where
  "read_profile kvs = \<lparr>pa_profile_id = text_at ''profile_id'' kvs, pa_profile_version = text_at ''profile_version'' kvs,
     pa_adapter_id = text_at ''adapter_id'' kvs, pa_adapter_version = text_at ''adapter_version'' kvs\<rparr>"

definition read_subject :: "(string \<times> json) list \<Rightarrow> subject_unsigned" where
  "read_subject kvs = \<lparr>sj_schema_version = text_at ''schema_version'' kvs, sj_model = read_component (members_at ''model'' kvs),
     sj_tokenizer = read_component (members_at ''tokenizer'' kvs), sj_engine = read_engine (members_at ''engine'' kvs),
     sj_runtime_artifact_digest = optional_text_at ''runtime_artifact_digest'' kvs,
     sj_runtime_configuration_json = text_at ''runtime_configuration_json'' kvs,
     sj_launch_arguments_digest = text_at ''launch_arguments_digest'' kvs, sj_hardware = read_hardware (members_at ''hardware'' kvs),
     sj_profile = read_profile (members_at ''profile'' kvs), sj_routing_policy_id = optional_text_at ''routing_policy_id'' kvs,
     sj_routing_policy_digest = optional_text_at ''routing_policy_digest'' kvs\<rparr>"

subsection \<open>Digest and validation\<close>

definition subject_digest_from_projection :: "codec \<Rightarrow> json \<Rightarrow> string option" where
  "subject_digest_from_projection k projection = domain_digest k SERVING_SUBJECT_DIGEST_DOMAIN projection"

text \<open>The message of the digest validator; a projection that is not canonical raises another one.\<close>

definition subject_digest_error :: "codec \<Rightarrow> (string \<times> json) list \<Rightarrow> (bool \<times> string)" where
  "subject_digest_error k kvs = (case subject_digest_from_projection k (JObj (subject_projection (read_subject kvs))) of
     None \<Rightarrow> (True, ''Serving subject projection is outside the canonical JSON domain.'')
   | Some expected \<Rightarrow> (text_at ''subject_digest'' kvs \<noteq> expected, ''subject_digest does not match the unsigned projection.''))"

definition subject_check :: "codec \<Rightarrow> check" where
  "subject_check k = model_check (subject_fields k @ [(''subject_digest'', digest_check)]) (\<lambda>kvs. [routing_pair kvs, subject_digest_error k kvs])"

text \<open>\<open>_classify_validation_error\<close>: the first entry that says something decides.\<close>

definition is_type_error :: "string \<Rightarrow> bool" where
  "is_type_error type = ends_with ''_type'' type"

fun classify_subject_error :: "error_detail list \<Rightarrow> artifact_code" where
  "classify_subject_error [] = INVALID_VALUE"
| "classify_subject_error (d # ds) = (
     if de_type d = ''extra_forbidden'' then EXTRA_FIELD
     else if de_type d = ''missing'' then MISSING_FIELD
     else if de_loc d \<noteq> [] \<and> hd (de_loc d) = ''schema_version'' then WRONG_VERSION
     else if de_loc d \<noteq> [] \<and> hd (de_loc d) = ''subject_digest'' then INVALID_DIGEST
     else if de_type d \<in> set too_long_types then OVERSIZED
     else if is_type_error (de_type d) then WRONG_TYPE
     else (case de_error d of None \<Rightarrow> classify_subject_error ds
       | Some m \<Rightarrow> if mentions ''subject_digest'' m then INVALID_DIGEST
           else if mentions ''all-or-none'' m then SEMANTIC_INCONSISTENCY
           else classify_subject_error ds))"

definition validate_unsigned_subject :: "codec \<Rightarrow> json \<Rightarrow> artifact_code + subject_unsigned" where
  "validate_unsigned_subject k payload = (if canonical_json k payload = None then Inl INVALID_VALUE
     else (case unsigned_subject_check k [] payload of
         [] \<Rightarrow> Inr (read_subject (case payload of JObj kvs \<Rightarrow> kvs | _ \<Rightarrow> []))
       | d # ds \<Rightarrow> Inl (classify_subject_error (d # ds))))"

definition signed_subject :: "(string \<times> json) list \<Rightarrow> serving_subject" where
  "signed_subject kvs = subject_unsigned.extend (read_subject kvs) (serving_subject.fields (text_at ''subject_digest'' kvs))"

definition validate_subject :: "codec \<Rightarrow> json \<Rightarrow> artifact_code + serving_subject" where
  "validate_subject k payload = (if canonical_json k payload = None then Inl INVALID_VALUE
     else (case subject_check k [] payload of
         [] \<Rightarrow> Inr (signed_subject (case payload of JObj kvs \<Rightarrow> kvs | _ \<Rightarrow> []))
       | d # ds \<Rightarrow> Inl (classify_subject_error (d # ds))))"

text \<open>\<open>_validated_manifest\<close> of a typed manifest.\<close>

definition validated_manifest :: "codec \<Rightarrow> serving_subject \<Rightarrow> artifact_code + serving_subject" where
  "validated_manifest k s = validate_subject k (subject_dump s)"

definition create_serving_subject_manifest :: "codec \<Rightarrow> json \<Rightarrow> artifact_code + serving_subject" where
  "create_serving_subject_manifest k value = (case value of
     JObj kvs \<Rightarrow> if map_of kvs ''subject_digest'' \<noteq> None then Inl EXTRA_FIELD
       else (case load_object k subject_limits value of Inl e \<Rightarrow> Inl e
         | Inr payload \<Rightarrow> (case validate_unsigned_subject k payload of Inl e \<Rightarrow> Inl e
           | Inr unsigned \<Rightarrow> (let projection = subject_projection unsigned in
               case subject_digest_from_projection k (JObj projection) of None \<Rightarrow> Inl INVALID_VALUE
               | Some digest \<Rightarrow> validate_subject k (JObj (projection @ [(''subject_digest'', JStr digest)])))))
   | _ \<Rightarrow> Inl WRONG_TYPE)"

definition parse_serving_subject_manifest :: "codec \<Rightarrow> json \<Rightarrow> artifact_code + serving_subject" where
  "parse_serving_subject_manifest k value = (case load_object k subject_limits value of Inl e \<Rightarrow> Inl e
     | Inr payload \<Rightarrow> validate_subject k payload)"

definition serving_subject_digest :: "codec \<Rightarrow> serving_subject \<Rightarrow> artifact_code + string" where
  "serving_subject_digest k s = (case validated_manifest k s of Inl e \<Rightarrow> Inl e
     | Inr validated \<Rightarrow> (case subject_digest_from_projection k (JObj (subject_projection validated)) of None \<Rightarrow> Inl INVALID_VALUE
         | Some digest \<Rightarrow> Inr digest))"

definition verify_serving_subject_manifest :: "codec \<Rightarrow> serving_subject \<Rightarrow> bool" where
  "verify_serving_subject_manifest k s = (case validated_manifest k s of Inl e \<Rightarrow> False
     | Inr validated \<Rightarrow> (case serving_subject_digest k validated of Inl e \<Rightarrow> False
         | Inr digest \<Rightarrow> sj_subject_digest validated = digest))"

end
