(* ===== verification/Qualification_Scope.thy ===== *)
theory Qualification_Scope
  imports Serving_Subject
begin

section \<open>The question and its context (qualification_scope.py)\<close>

text \<open>
  A scope is the question a qualification answers: a frozen contract, a workload, a measurement
  profile, the maximum use considered and how old evidence may be. A context binds one subject, one
  scope and one protocol version. Both are bound to their fields by a digest and validated the way
  a serving subject is, with their own limits and their own reading of the errors.
\<close>

definition QUALIFICATION_SCOPE_SCHEMA_VERSION :: string where
  "QUALIFICATION_SCOPE_SCHEMA_VERSION = ''exitspec.qualification-scope.v1''"

definition QUALIFICATION_CONTEXT_SCHEMA_VERSION :: string where
  "QUALIFICATION_CONTEXT_SCHEMA_VERSION = ''exitspec.qualification-context.v1''"

definition QUALIFICATION_SCOPE_DIGEST_DOMAIN :: string where
  "QUALIFICATION_SCOPE_DIGEST_DOMAIN = ''exitspec-qualification-scope-v1''"

definition QUALIFICATION_CONTEXT_DIGEST_DOMAIN :: string where
  "QUALIFICATION_CONTEXT_DIGEST_DOMAIN = ''exitspec-qualification-context-v1''"

text \<open>The limits of both artifacts; only the number of bytes differs.\<close>

definition qualification_limits :: "nat \<Rightarrow> json_limits" where
  "qualification_limits bytes = \<lparr>jl_bytes = bytes, jl_depth = 16, jl_nodes = 256, jl_object_keys = 32, jl_array_items = 32,
     jl_string_length = 512, jl_integer = 2147483647\<rparr>"

definition MAX_SCOPE_BYTES :: nat where
  "MAX_SCOPE_BYTES = 16384"

definition MAX_CONTEXT_BYTES :: nat where
  "MAX_CONTEXT_BYTES = 4096"

definition MAX_POLICY_SECONDS :: int where
  "MAX_POLICY_SECONDS = 31536000"

text \<open>\<open>_classify_validation_error\<close> of this module.\<close>

fun classify_qualification_error :: "error_detail list \<Rightarrow> artifact_code" where
  "classify_qualification_error [] = INVALID_VALUE"
| "classify_qualification_error (d # ds) = (
     if de_type d = ''extra_forbidden'' then EXTRA_FIELD
     else if de_type d = ''missing'' then MISSING_FIELD
     else if de_loc d \<noteq> [] \<and> hd (de_loc d) = ''schema_version'' then WRONG_VERSION
     else if list_ex (ends_with ''digest'') (de_loc d) then INVALID_DIGEST
     else if de_type d \<in> set too_long_types then OVERSIZED
     else if is_type_error (de_type d) then WRONG_TYPE
     else (case de_error d of None \<Rightarrow> classify_qualification_error ds
       | Some m \<Rightarrow> if mentions ''must agree'' m then SEMANTIC_INCONSISTENCY
           else if mentions ''digest'' m then INVALID_DIGEST
           else classify_qualification_error ds))"

subsection \<open>The scope\<close>

record frozen_contract_identity =
  fi_contract_id :: string
  fi_contract_canonical_digest :: string

record workload_identity =
  wi_workload_id :: string
  wi_workload_digest :: string

record measurement_profile =
  me_environment_id :: string
  me_environment_digest :: string
  me_profile_id :: string
  me_profile_version :: string
  me_profile_digest :: string

text \<open>The age basis has one value, and the maximum use one field.\<close>

record freshness_policy =
  fp_age_basis :: string
  fp_maximum_evidence_age_seconds :: int

record scope_unsigned =
  qs_schema_version :: string
  qs_frozen_contract :: frozen_contract_identity
  qs_workload :: workload_identity
  qs_measurement_profile :: measurement_profile
  qs_evaluated_use :: string
  qs_maximum_traffic_percent :: int
  qs_freshness_policy :: "freshness_policy option"
  qs_reference_subject_requirement :: string
  qs_reference_subject_digest :: "string option"

record qualification_scope = scope_unsigned +
  qs_scope_digest :: string

definition contract_identity_check :: check where
  "contract_identity_check = model_check [(''contract_id'', identifier_check), (''contract_canonical_digest'', digest_check)] no_validators"

definition workload_identity_check :: check where
  "workload_identity_check = model_check [(''workload_id'', identifier_check), (''workload_digest'', digest_check)] no_validators"

definition measurement_profile_check :: check where
  "measurement_profile_check = model_check [(''environment_id'', identifier_check), (''environment_digest'', digest_check),
     (''profile_id'', identifier_check), (''profile_version'', version_check ''Measurement profile version must be pinned.''),
     (''profile_digest'', digest_check)] no_validators"

definition maximum_use_check :: check where
  "maximum_use_check = model_check [(''maximum_traffic_percent'', int_check 1 5)] no_validators"

definition freshness_check :: check where
  "freshness_check = model_check [(''age_basis'', literal_check [''EVIDENCE_CAPTURED_AT'']),
     (''maximum_evidence_age_seconds'', int_check 1 MAX_POLICY_SECONDS)] no_validators"

definition scope_fields :: "(string \<times> check) list" where
  "scope_fields = [(''schema_version'', exact_check QUALIFICATION_SCOPE_SCHEMA_VERSION),
     (''frozen_contract'', contract_identity_check), (''workload'', workload_identity_check),
     (''measurement_profile'', measurement_profile_check), (''evaluated_use'', literal_check [''CANARY_CONSIDERATION'']),
     (''maximum_use'', maximum_use_check), (''freshness_policy'', optional_check freshness_check),
     (''reference_subject_requirement'', literal_check [''NOT_REQUIRED'', ''REQUIRED'']),
     (''reference_subject_digest'', optional_check digest_check)]"

definition reference_agrees :: "(string \<times> json) list \<Rightarrow> (bool \<times> string)" where
  "reference_agrees kvs = ((text_at ''reference_subject_requirement'' kvs = ''REQUIRED'') \<noteq> (optional_text_at ''reference_subject_digest'' kvs \<noteq> None),
     ''Reference subject requirement and digest must agree.'')"

definition unsigned_scope_check :: check where
  "unsigned_scope_check = model_check scope_fields (\<lambda>kvs. [reference_agrees kvs])"

definition freshness_json :: "freshness_policy \<Rightarrow> json" where
  "freshness_json p = JObj [(''age_basis'', JStr (fp_age_basis p)), (''maximum_evidence_age_seconds'', JInt (fp_maximum_evidence_age_seconds p))]"

definition contract_identity_json :: "frozen_contract_identity \<Rightarrow> json" where
  "contract_identity_json c = JObj [(''contract_id'', JStr (fi_contract_id c)), (''contract_canonical_digest'', JStr (fi_contract_canonical_digest c))]"

definition workload_identity_json :: "workload_identity \<Rightarrow> json" where
  "workload_identity_json w = JObj [(''workload_id'', JStr (wi_workload_id w)), (''workload_digest'', JStr (wi_workload_digest w))]"

definition measurement_profile_json :: "measurement_profile \<Rightarrow> json" where
  "measurement_profile_json p = JObj [(''environment_id'', JStr (me_environment_id p)), (''environment_digest'', JStr (me_environment_digest p)),
     (''profile_id'', JStr (me_profile_id p)), (''profile_version'', JStr (me_profile_version p)), (''profile_digest'', JStr (me_profile_digest p))]"

definition scope_projection :: "'a scope_unsigned_scheme \<Rightarrow> (string \<times> json) list" where
  "scope_projection s = [(''schema_version'', JStr (qs_schema_version s)), (''frozen_contract'', contract_identity_json (qs_frozen_contract s)),
     (''workload'', workload_identity_json (qs_workload s)), (''measurement_profile'', measurement_profile_json (qs_measurement_profile s)),
     (''evaluated_use'', JStr (qs_evaluated_use s)), (''maximum_use'', JObj [(''maximum_traffic_percent'', JInt (qs_maximum_traffic_percent s))]),
     (''freshness_policy'', json_opt freshness_json (qs_freshness_policy s)),
     (''reference_subject_requirement'', JStr (qs_reference_subject_requirement s)),
     (''reference_subject_digest'', json_opt JStr (qs_reference_subject_digest s))]"

definition scope_dump :: "qualification_scope \<Rightarrow> json" where
  "scope_dump s = JObj (scope_projection s @ [(''scope_digest'', JStr (qs_scope_digest s))])"

definition read_contract_identity :: "(string \<times> json) list \<Rightarrow> frozen_contract_identity" where
  "read_contract_identity kvs = \<lparr>fi_contract_id = text_at ''contract_id'' kvs, fi_contract_canonical_digest = text_at ''contract_canonical_digest'' kvs\<rparr>"

definition read_workload_identity :: "(string \<times> json) list \<Rightarrow> workload_identity" where
  "read_workload_identity kvs = \<lparr>wi_workload_id = text_at ''workload_id'' kvs, wi_workload_digest = text_at ''workload_digest'' kvs\<rparr>"

definition read_measurement_profile :: "(string \<times> json) list \<Rightarrow> measurement_profile" where
  "read_measurement_profile kvs = \<lparr>me_environment_id = text_at ''environment_id'' kvs, me_environment_digest = text_at ''environment_digest'' kvs,
     me_profile_id = text_at ''profile_id'' kvs, me_profile_version = text_at ''profile_version'' kvs, me_profile_digest = text_at ''profile_digest'' kvs\<rparr>"

definition read_freshness :: "(string \<times> json) list \<Rightarrow> freshness_policy option" where
  "read_freshness kvs = (case map_of kvs ''freshness_policy'' of
     Some (JObj ms) \<Rightarrow> Some \<lparr>fp_age_basis = text_at ''age_basis'' ms, fp_maximum_evidence_age_seconds = int_at ''maximum_evidence_age_seconds'' ms\<rparr>
   | _ \<Rightarrow> None)"

definition read_scope :: "(string \<times> json) list \<Rightarrow> scope_unsigned" where
  "read_scope kvs = \<lparr>qs_schema_version = text_at ''schema_version'' kvs,
     qs_frozen_contract = read_contract_identity (members_at ''frozen_contract'' kvs),
     qs_workload = read_workload_identity (members_at ''workload'' kvs),
     qs_measurement_profile = read_measurement_profile (members_at ''measurement_profile'' kvs),
     qs_evaluated_use = text_at ''evaluated_use'' kvs,
     qs_maximum_traffic_percent = int_at ''maximum_traffic_percent'' (members_at ''maximum_use'' kvs),
     qs_freshness_policy = read_freshness kvs,
     qs_reference_subject_requirement = text_at ''reference_subject_requirement'' kvs,
     qs_reference_subject_digest = optional_text_at ''reference_subject_digest'' kvs\<rparr>"

definition scope_digest_from_projection :: "codec \<Rightarrow> json \<Rightarrow> string option" where
  "scope_digest_from_projection k projection = domain_digest k QUALIFICATION_SCOPE_DIGEST_DOMAIN projection"

definition scope_digest_error :: "codec \<Rightarrow> (string \<times> json) list \<Rightarrow> (bool \<times> string)" where
  "scope_digest_error k kvs = (case scope_digest_from_projection k (JObj (scope_projection (read_scope kvs))) of
     None \<Rightarrow> (True, ''Qualification scope projection is outside the canonical JSON domain.'')
   | Some expected \<Rightarrow> (text_at ''scope_digest'' kvs \<noteq> expected, ''scope_digest does not match the unsigned projection.''))"

definition scope_check :: "codec \<Rightarrow> check" where
  "scope_check k = model_check (scope_fields @ [(''scope_digest'', digest_check)]) (\<lambda>kvs. [reference_agrees kvs, scope_digest_error k kvs])"

text \<open>\<open>_validate_model\<close>: the model, given by its check and its reader, on a payload.\<close>

definition validate_model :: "codec \<Rightarrow> check \<Rightarrow> ((string \<times> json) list \<Rightarrow> 'a) \<Rightarrow> json \<Rightarrow> artifact_code + 'a" where
  "validate_model k check reader payload = (if canonical_json k payload = None then Inl INVALID_VALUE
     else (case check [] payload of
         [] \<Rightarrow> Inr (reader (case payload of JObj kvs \<Rightarrow> kvs | _ \<Rightarrow> []))
       | d # ds \<Rightarrow> Inl (classify_qualification_error (d # ds))))"

definition signed_scope :: "(string \<times> json) list \<Rightarrow> qualification_scope" where
  "signed_scope kvs = scope_unsigned.extend (read_scope kvs) (qualification_scope.fields (text_at ''scope_digest'' kvs))"

definition validate_scope :: "codec \<Rightarrow> json \<Rightarrow> artifact_code + qualification_scope" where
  "validate_scope k payload = validate_model k (scope_check k) signed_scope payload"

definition validated_scope :: "codec \<Rightarrow> qualification_scope \<Rightarrow> artifact_code + qualification_scope" where
  "validated_scope k s = validate_scope k (scope_dump s)"

definition create_qualification_scope :: "codec \<Rightarrow> json \<Rightarrow> artifact_code + qualification_scope" where
  "create_qualification_scope k value = (case value of
     JObj kvs \<Rightarrow> if map_of kvs ''scope_digest'' \<noteq> None then Inl EXTRA_FIELD
       else (case load_object k (qualification_limits MAX_SCOPE_BYTES) value of Inl e \<Rightarrow> Inl e
         | Inr payload \<Rightarrow> (case validate_model k unsigned_scope_check read_scope payload of Inl e \<Rightarrow> Inl e
           | Inr unsigned \<Rightarrow> (let projection = scope_projection unsigned in
               case scope_digest_from_projection k (JObj projection) of None \<Rightarrow> Inl INVALID_VALUE
               | Some digest \<Rightarrow> validate_scope k (JObj (projection @ [(''scope_digest'', JStr digest)])))))
   | _ \<Rightarrow> Inl WRONG_TYPE)"

definition parse_qualification_scope :: "codec \<Rightarrow> json \<Rightarrow> artifact_code + qualification_scope" where
  "parse_qualification_scope k value = (case load_object k (qualification_limits MAX_SCOPE_BYTES) value of Inl e \<Rightarrow> Inl e
     | Inr payload \<Rightarrow> validate_scope k payload)"

definition qualification_scope_digest :: "codec \<Rightarrow> qualification_scope \<Rightarrow> artifact_code + string" where
  "qualification_scope_digest k s = (case validated_scope k s of Inl e \<Rightarrow> Inl e
     | Inr validated \<Rightarrow> (case scope_digest_from_projection k (JObj (scope_projection validated)) of None \<Rightarrow> Inl INVALID_VALUE
         | Some digest \<Rightarrow> Inr digest))"

definition verify_qualification_scope :: "codec \<Rightarrow> qualification_scope \<Rightarrow> bool" where
  "verify_qualification_scope k s = (case validated_scope k s of Inl e \<Rightarrow> False
     | Inr validated \<Rightarrow> (case qualification_scope_digest k validated of Inl e \<Rightarrow> False
         | Inr digest \<Rightarrow> qs_scope_digest validated = digest))"

subsection \<open>The context\<close>

record context_unsigned =
  qc_schema_version :: string
  qc_subject_digest :: string
  qc_scope_digest :: string
  qc_protocol_id :: string
  qc_protocol_version :: string

record qualification_context = context_unsigned +
  qc_qualification_context_digest :: string

definition context_fields :: "(string \<times> check) list" where
  "context_fields = [(''schema_version'', exact_check QUALIFICATION_CONTEXT_SCHEMA_VERSION), (''subject_digest'', digest_check),
     (''scope_digest'', digest_check), (''protocol_id'', identifier_check), (''protocol_version'', version_check ''Protocol version must be pinned.'')]"

definition unsigned_context_check :: check where
  "unsigned_context_check = model_check context_fields no_validators"

definition context_projection :: "'a context_unsigned_scheme \<Rightarrow> (string \<times> json) list" where
  "context_projection c = [(''schema_version'', JStr (qc_schema_version c)), (''subject_digest'', JStr (qc_subject_digest c)),
     (''scope_digest'', JStr (qc_scope_digest c)), (''protocol_id'', JStr (qc_protocol_id c)), (''protocol_version'', JStr (qc_protocol_version c))]"

definition context_dump :: "qualification_context \<Rightarrow> json" where
  "context_dump c = JObj (context_projection c @ [(''qualification_context_digest'', JStr (qc_qualification_context_digest c))])"

definition read_context :: "(string \<times> json) list \<Rightarrow> context_unsigned" where
  "read_context kvs = \<lparr>qc_schema_version = text_at ''schema_version'' kvs, qc_subject_digest = text_at ''subject_digest'' kvs,
     qc_scope_digest = text_at ''scope_digest'' kvs, qc_protocol_id = text_at ''protocol_id'' kvs, qc_protocol_version = text_at ''protocol_version'' kvs\<rparr>"

definition context_digest_from_projection :: "codec \<Rightarrow> json \<Rightarrow> string option" where
  "context_digest_from_projection k projection = domain_digest k QUALIFICATION_CONTEXT_DIGEST_DOMAIN projection"

definition context_digest_error :: "codec \<Rightarrow> (string \<times> json) list \<Rightarrow> (bool \<times> string)" where
  "context_digest_error k kvs = (case context_digest_from_projection k (JObj (context_projection (read_context kvs))) of
     None \<Rightarrow> (True, ''Qualification context projection is outside the canonical JSON domain.'')
   | Some expected \<Rightarrow> (text_at ''qualification_context_digest'' kvs \<noteq> expected,
       ''qualification_context_digest does not match the unsigned projection.''))"

definition context_check :: "codec \<Rightarrow> check" where
  "context_check k = model_check (context_fields @ [(''qualification_context_digest'', digest_check)]) (\<lambda>kvs. [context_digest_error k kvs])"

definition signed_context :: "(string \<times> json) list \<Rightarrow> qualification_context" where
  "signed_context kvs = context_unsigned.extend (read_context kvs) (qualification_context.fields (text_at ''qualification_context_digest'' kvs))"

definition validate_context :: "codec \<Rightarrow> json \<Rightarrow> artifact_code + qualification_context" where
  "validate_context k payload = validate_model k (context_check k) signed_context payload"

definition validated_context :: "codec \<Rightarrow> qualification_context \<Rightarrow> artifact_code + qualification_context" where
  "validated_context k c = validate_context k (context_dump c)"

definition qualification_context_digest :: "codec \<Rightarrow> qualification_context \<Rightarrow> artifact_code + string" where
  "qualification_context_digest k c = (case validated_context k c of Inl e \<Rightarrow> Inl e
     | Inr validated \<Rightarrow> (case context_digest_from_projection k (JObj (context_projection validated)) of None \<Rightarrow> Inl INVALID_VALUE
         | Some digest \<Rightarrow> Inr digest))"

definition verify_qualification_context :: "codec \<Rightarrow> qualification_context \<Rightarrow> bool" where
  "verify_qualification_context k c = (case validated_context k c of Inl e \<Rightarrow> False
     | Inr validated \<Rightarrow> (case qualification_context_digest k validated of Inl e \<Rightarrow> False
         | Inr digest \<Rightarrow> qc_qualification_context_digest validated = digest))"

text \<open>
  \<open>create_qualification_context\<close>. After both checks the two digests are those of the artifacts; the
  exception of \<open>serving_subject_digest\<close> is the code of that module.
\<close>

definition create_qualification_context ::
  "codec \<Rightarrow> serving_subject \<Rightarrow> qualification_scope \<Rightarrow> string \<Rightarrow> string \<Rightarrow> artifact_code + qualification_context" where
  "create_qualification_context k subject scope protocol_id protocol_version = (
     if \<not> verify_serving_subject_manifest k subject then Inl INVALID_VALUE
     else if \<not> verify_qualification_scope k scope then Inl INVALID_VALUE
     else (case serving_subject_digest k subject of Inl e \<Rightarrow> Inl e
       | Inr subject_digest \<Rightarrow> (case qualification_scope_digest k scope of Inl e \<Rightarrow> Inl e
         | Inr scope_digest \<Rightarrow> (case validate_model k unsigned_context_check read_context
               (JObj [(''schema_version'', JStr QUALIFICATION_CONTEXT_SCHEMA_VERSION), (''subject_digest'', JStr subject_digest),
                 (''scope_digest'', JStr scope_digest), (''protocol_id'', JStr protocol_id), (''protocol_version'', JStr protocol_version)]) of
             Inl e \<Rightarrow> Inl e
           | Inr unsigned \<Rightarrow> (let projection = context_projection unsigned in
               case context_digest_from_projection k (JObj projection) of None \<Rightarrow> Inl INVALID_VALUE
               | Some digest \<Rightarrow> validate_context k (JObj (projection @ [(''qualification_context_digest'', JStr digest)])))))))"

definition parse_qualification_context :: "codec \<Rightarrow> json \<Rightarrow> artifact_code + qualification_context" where
  "parse_qualification_context k value = (case load_object k (qualification_limits MAX_CONTEXT_BYTES) value of Inl e \<Rightarrow> Inl e
     | Inr payload \<Rightarrow> validate_context k payload)"

end
