(* ===== verification/Qualification.thy ===== *)
theory Qualification
  imports Qualification_Scope
begin

section \<open>Receipts and their assessment (qualification_receipts.py, qualification_assessment.py)\<close>

text \<open>
  A receipt states a verdict over admitted evidence of one exact subject, scope and context; its id
  binds all its fields. An assessment says whether a receipt still applies to what is asked now. It
  is computed from the receipt, the three artifacts and the instant of the assessment, nothing else.
  The verification of the handoff and the admission of the evidence bundle stay outside: issuing is
  modelled from the admitted facts on, and those facts as inferdrome_bundle.py recalculates them.
\<close>

subsection \<open>Instants\<close>

text \<open>
  Instants of this theory are microseconds since \<open>0001-01-01T00:00Z\<close>. \<open>astimezone(UTC)\<close> raises an
  \<open>OverflowError\<close> where the instant is outside the years 1 to 9999.
\<close>

definition DATETIME_LIMIT :: int where
  "DATETIME_LIMIT = 3652059 * 86400000000"

definition in_range :: "int \<Rightarrow> bool" where
  "in_range t \<longleftrightarrow> 0 \<le> t \<and> t < DATETIME_LIMIT"

datatype time_reading = NotAware | OutOfRange | Utc int

fun timestamp :: "py_datetime \<Rightarrow> time_reading" where
  "timestamp (Naive t) = NotAware"
| "timestamp (Aware t off) = (if in_range t then Utc t else OutOfRange)"

text \<open>\<open>isoformat\<close> of a UTC datetime with \<open>Z\<close> for the offset, by the civil calendar; the year starts in March.\<close>

definition padded :: "nat \<Rightarrow> nat \<Rightarrow> string" where
  "padded w n = replicate (w - length (show_nat n)) (CHR ''0'') @ show_nat n"

definition civil_date :: "nat \<Rightarrow> nat \<times> nat \<times> nat" where
  "civil_date days = (let z = days + 306; era = z div 146097; doe = z mod 146097;
       yoe = (doe - doe div 1460 + doe div 36524 - doe div 146096) div 365;
       doy = doe - (365 * yoe + yoe div 4 - yoe div 100); mp = (5 * doy + 2) div 153;
       d = doy - (153 * mp + 2) div 5 + 1; m = (if mp < 10 then mp + 3 else mp - 9)
     in (yoe + era * 400 + (if m \<le> 2 then 1 else 0), m, d))"

definition timestamp_text :: "int \<Rightarrow> string" where
  "timestamp_text t = (let us = nat t; secs = us div 1000000; frac = us mod 1000000; s = secs mod 86400;
       (y, m, d) = civil_date (secs div 86400)
     in padded 4 y @ ''-'' @ padded 2 m @ ''-'' @ padded 2 d @ ''T'' @ padded 2 (s div 3600) @ '':'' @ padded 2 (s div 60 mod 60) @ '':'' @
       padded 2 (s mod 60) @ (if frac = 0 then [] else ''.'' @ padded 6 frac) @ ''Z'')"

subsection \<open>The facts (inferdrome_bundle.py)\<close>

record request_record =
  rr_status :: string
  rr_ttft_ns :: "int option"

record recalculated_measurements =
  rm_attempted_count :: int
  rm_successful_count :: int
  rm_failed_count :: int
  rm_anomalous_count :: int
  rm_p95_ttft_ns :: "int option"
  rm_ttft_definition :: string
  rm_records_sha256 :: string
  rm_recalculation_sha256 :: string

definition nearest_rank :: "int list \<Rightarrow> nat \<Rightarrow> int" where
  "nearest_rank values percentile = (let ordered = sort values; rank = (percentile * length ordered + 99) div 100 in ordered ! (rank - 1))"

text \<open>
  \<open>format(Decimal(a) / Decimal(b), "f")\<close> of counts \<open>a \<le> b < 10\<^sup>8\<close>: 28 significant
  digits, half to even, and an exact quotient without trailing zeros.
\<close>

fun quotient_scale :: "nat \<Rightarrow> nat \<Rightarrow> nat \<Rightarrow> nat \<Rightarrow> nat" where
  "quotient_scale 0 a b s = s"
| "quotient_scale (Suc n) a b s = (if 10 ^ 27 \<le> a * 10 ^ s div b then s else quotient_scale n a b (Suc s))"

fun trim_zeros :: "nat \<Rightarrow> nat \<Rightarrow> nat \<times> nat" where
  "trim_zeros c 0 = (c, 0)"
| "trim_zeros c (Suc s) = (if c mod 10 = 0 then trim_zeros (c div 10) s else (c, Suc s))"

definition decimal_text :: "nat \<Rightarrow> nat \<Rightarrow> string" where
  "decimal_text c s = show_nat (c div 10 ^ s) @ (if s = 0 then [] else ''.'' @ padded s (c mod 10 ^ s))"

definition error_rate_text :: "nat \<Rightarrow> nat \<Rightarrow> string" where
  "error_rate_text a b = (if a = 0 then ''0'' else
     let s = quotient_scale 8 a b 27; q = a * 10 ^ s div b; r = a * 10 ^ s mod b;
       up = (2 * r > b \<or> 2 * r = b \<and> q mod 2 = 1);
       (c, s') = (if r = 0 then trim_zeros q s else (if up then q + 1 else q, s))
     in decimal_text c s')"

text \<open>
  The facts \<open>_recalculate_and_compare\<close> returns. Its comparison with the summary of the bundle, which
  can only refuse, is left out. A record without status SUCCESS counts as failed; a successful one has
  a TTFT (\<open>_validate_record_observations\<close>). The two digests are written as \<open>hexdigest\<close> gives them.
\<close>

definition recalculation_payload :: "request_record list \<Rightarrow> string \<Rightarrow> json" where
  "recalculation_payload records records_digest = (let successful = filter (\<lambda>r. rr_status r = ''SUCCESS'') records;
       failed = filter (\<lambda>r. rr_status r \<noteq> ''SUCCESS'') records;
       anomalous = filter (\<lambda>r. rr_status r = ''ANOMALOUS_EMPTY_STREAM'') records;
       ttfts = map (\<lambda>r. the (rr_ttft_ns r)) successful
     in JObj [(''anomalous_count'', JInt (int (length anomalous))), (''attempted_count'', JInt (int (length records))),
       (''calculation_version'', JStr ''exitspec.inferdrome-recalculation.v1''),
       (''error_rate'', JStr (error_rate_text (length failed) (length records))),
       (''failed_count'', JInt (int (length failed))), (''p95_ttft_ns'', if ttfts = [] then JNull else JInt (nearest_rank ttfts 95)),
       (''records_sha256'', JStr records_digest), (''successful_count'', JInt (int (length successful))),
       (''ttft_definition'', JStr ''vllm_first_choices_event_v0_26'')])"

definition recalculate :: "codec \<Rightarrow> request_record list \<Rightarrow> string \<Rightarrow> recalculated_measurements option" where
  "recalculate k records records_bytes = (let successful = filter (\<lambda>r. rr_status r = ''SUCCESS'') records;
       failed = filter (\<lambda>r. rr_status r \<noteq> ''SUCCESS'') records;
       anomalous = filter (\<lambda>r. rr_status r = ''ANOMALOUS_EMPTY_STREAM'') records;
       ttfts = map (\<lambda>r. the (rr_ttft_ns r)) successful; records_digest = sha256_hex k records_bytes
     in case canonical_json k (recalculation_payload records records_digest) of None \<Rightarrow> None
     | Some content \<Rightarrow> Some \<lparr>rm_attempted_count = int (length records), rm_successful_count = int (length successful),
         rm_failed_count = int (length failed), rm_anomalous_count = int (length anomalous),
         rm_p95_ttft_ns = (if ttfts = [] then None else Some (nearest_rank ttfts 95)),
         rm_ttft_definition = ''vllm_first_choices_event_v0_26'', rm_records_sha256 = records_digest,
         rm_recalculation_sha256 = sha256_hex k (''exitspec:inferdrome-recalculation-v1'' @ [CHR 0x00] @ content)\<rparr>)"

subsection \<open>The criterion and the verdict\<close>

datatype latency_kind = NATIVE_TTFT_P95 | SEMANTIC_FIRST_NONEMPTY_TTFT_P95

record latency_requirement =
  lr_requirement_kind :: latency_kind
  lr_threshold_ns :: int
  lr_minimum_successful_samples :: int

record reliability_requirement =
  rq_threshold_basis_points :: int
  rq_exact_attempts :: int

record inference_qualification_criterion =
  iq_id :: string
  iq_latency_requirement :: latency_requirement
  iq_reliability_requirement :: reliability_requirement

text \<open>The bounds of the criterion that the verdict rests on; its texts and its origin are not part of the model.\<close>

definition qualification_criterion_ok :: "inference_qualification_criterion \<Rightarrow> bool" where
  "qualification_criterion_ok c \<longleftrightarrow> (let l = iq_latency_requirement c; r = iq_reliability_requirement c in
     0 < lr_threshold_ns l \<and> lr_threshold_ns l \<le> 60000000000 \<and>
     0 < lr_minimum_successful_samples l \<and> lr_minimum_successful_samples l \<le> 1000 \<and>
     0 < rq_threshold_basis_points r \<and> rq_threshold_basis_points r < 10000 \<and>
     0 < rq_exact_attempts r \<and> rq_exact_attempts r \<le> 1000 \<and> lr_minimum_successful_samples l \<le> rq_exact_attempts r)"

datatype qualification_verdict = PASS | FAIL | NOT_PROVEN

fun qualification_verdict_value :: "qualification_verdict \<Rightarrow> string" where
  "qualification_verdict_value PASS = ''PASS''"
| "qualification_verdict_value FAIL = ''FAIL''"
| "qualification_verdict_value NOT_PROVEN = ''NOT_PROVEN''"

definition calculate_verdict :: "recalculated_measurements \<Rightarrow> inference_qualification_criterion \<Rightarrow> qualification_verdict" where
  "calculate_verdict facts criterion = (let latency = iq_latency_requirement criterion; reliability = iq_reliability_requirement criterion in
     if rm_attempted_count facts \<noteq> rq_exact_attempts reliability then NOT_PROVEN
     else if rm_ttft_definition facts \<noteq> ''vllm_first_choices_event_v0_26'' then NOT_PROVEN
     else (let latency_proven = (rm_successful_count facts \<ge> lr_minimum_successful_samples latency);
         latency_failed = (latency_proven \<and> (case rm_p95_ttft_ns facts of None \<Rightarrow> False | Some p \<Rightarrow> \<not> p < lr_threshold_ns latency));
         reliability_failed = (rm_failed_count facts * 10000 \<ge> rq_threshold_basis_points reliability * rm_attempted_count facts)
       in if reliability_failed then FAIL
          else if \<not> latency_proven \<or> rm_p95_ttft_ns facts = None then NOT_PROVEN
          else if latency_failed then FAIL
          else PASS))"

subsection \<open>The receipt\<close>

record qualification_receipt =
  rt_schema_version :: string
  rt_canonicalization_version :: string
  rt_hash_version :: string
  rt_receipt_id :: string
  rt_subject_digest :: string
  rt_scope_digest :: string
  rt_qualification_context_digest :: string
  rt_contract_id :: string
  rt_contract_canonical_digest :: string
  rt_workload_id :: string
  rt_workload_digest :: string
  rt_measurement_profile_id :: string
  rt_measurement_profile_version :: string
  rt_measurement_profile_digest :: string
  rt_capability_profile_id :: string
  rt_capability_profile_version :: string
  rt_capability_digest :: string
  rt_proofability_report_digest :: string
  rt_evidence_package_digest :: string
  rt_evidence_set_id :: string
  rt_evidence_class :: string
  rt_verifier_version :: string
  rt_recalculation_sha256 :: string
  rt_proofability :: string
  rt_verdict :: qualification_verdict
  rt_attempted_count :: int
  rt_successful_count :: int
  rt_failed_count :: int
  rt_p95_ttft_ns :: "int option"
  rt_ttft_definition :: string
  rt_evidence_captured_at :: py_datetime
  rt_issued_at :: py_datetime
  rt_limitations :: "string list"
  rt_deployment_authorized :: bool
  rt_production_traffic_authorized :: bool
  rt_traffic_expansion_authorized :: bool
  rt_external_authorization_required :: bool

definition RECEIPT_LIMITATIONS :: "string list" where
  "RECEIPT_LIMITATIONS = [''A qualification receipt is not deployment or production-traffic authorization.'',
     ''Evidence integrity is not producer-authorship proof.'',
     ''Native first-event TTFT does not establish first-nonempty-content TTFT.'']"

text \<open>\<open>^v?[0-9]+(?:\.[0-9]+){0,2}$\<close> and \<open>^v?[0-9]+$\<close>\<close>

definition profile_version_ok :: "string \<Rightarrow> bool" where
  "profile_version_ok s = whole_match (cats [Opt (lit (CHR ''v'')), Rep 1 None (Cls is_digit),
     Rep 0 (Some 2) (Cat (lit (CHR ''.'')) (Rep 1 None (Cls is_digit)))]) s"

definition capability_version_ok :: "string \<Rightarrow> bool" where
  "capability_version_ok s = whole_match (cats [Opt (lit (CHR ''v'')), Rep 1 None (Cls is_digit)]) s"

definition prefixed_id_ok :: "string \<Rightarrow> string \<Rightarrow> bool" where
  "prefixed_id_ok tag s \<longleftrightarrow> starts_with tag s \<and> is_sha256 (drop (length tag) s)"

definition count_ok :: "int \<Rightarrow> bool" where
  "count_ok n \<longleftrightarrow> 0 \<le> n \<and> n \<le> 1000000"

definition receipt_texts_ok :: "qualification_receipt \<Rightarrow> bool" where
  "receipt_texts_ok r \<longleftrightarrow> rt_schema_version r = ''exitspec.inference-performance-qualification-receipt.v1'' \<and>
     rt_canonicalization_version r = ''rfc8785_jcs_v1'' \<and> rt_hash_version r = ''sha256_v1'' \<and> prefixed_id_ok ''qrc_'' (rt_receipt_id r) \<and>
     list_all digest_ok [rt_subject_digest r, rt_scope_digest r, rt_qualification_context_digest r, rt_contract_canonical_digest r,
       rt_workload_digest r, rt_measurement_profile_digest r, rt_capability_digest r, rt_proofability_report_digest r,
       rt_evidence_package_digest r, rt_recalculation_sha256 r] \<and>
     list_all identifier_ok [rt_contract_id r, rt_workload_id r, rt_measurement_profile_id r, rt_capability_profile_id r, rt_evidence_set_id r] \<and>
     profile_version_ok (rt_measurement_profile_version r) \<and> capability_version_ok (rt_capability_profile_version r) \<and>
     rt_evidence_class r \<in> set [''EXTERNAL_INFERDROME_V1'', ''SYNTHETIC_CI_INFERDROME_V1''] \<and>
     rt_verifier_version r = ''1.0.0'' \<and> rt_proofability r = ''PROVABLE'' \<and> rt_ttft_definition r = ''vllm_first_choices_event_v0_26'' \<and>
     rt_limitations r = RECEIPT_LIMITATIONS"

definition receipt_values_ok :: "qualification_receipt \<Rightarrow> bool" where
  "receipt_values_ok r \<longleftrightarrow> count_ok (rt_attempted_count r) \<and> count_ok (rt_successful_count r) \<and> count_ok (rt_failed_count r) \<and>
     (case rt_p95_ttft_ns r of None \<Rightarrow> True | Some p \<Rightarrow> 0 \<le> p \<and> p \<le> 60000000000) \<and>
     \<not> rt_deployment_authorized r \<and> \<not> rt_production_traffic_authorized r \<and> \<not> rt_traffic_expansion_authorized r \<and>
     rt_external_authorization_required r"

definition time_json :: "py_datetime \<Rightarrow> json" where
  "time_json d = JStr (timestamp_text (instant d))"

definition receipt_projection :: "qualification_receipt \<Rightarrow> json" where
  "receipt_projection r = JObj [(''schema_version'', JStr (rt_schema_version r)), (''canonicalization_version'', JStr (rt_canonicalization_version r)),
     (''hash_version'', JStr (rt_hash_version r)), (''subject_digest'', JStr (rt_subject_digest r)), (''scope_digest'', JStr (rt_scope_digest r)),
     (''qualification_context_digest'', JStr (rt_qualification_context_digest r)), (''contract_id'', JStr (rt_contract_id r)),
     (''contract_canonical_digest'', JStr (rt_contract_canonical_digest r)), (''workload_id'', JStr (rt_workload_id r)),
     (''workload_digest'', JStr (rt_workload_digest r)), (''measurement_profile_id'', JStr (rt_measurement_profile_id r)),
     (''measurement_profile_version'', JStr (rt_measurement_profile_version r)), (''measurement_profile_digest'', JStr (rt_measurement_profile_digest r)),
     (''capability_profile_id'', JStr (rt_capability_profile_id r)), (''capability_profile_version'', JStr (rt_capability_profile_version r)),
     (''capability_digest'', JStr (rt_capability_digest r)), (''proofability_report_digest'', JStr (rt_proofability_report_digest r)),
     (''evidence_package_digest'', JStr (rt_evidence_package_digest r)), (''evidence_set_id'', JStr (rt_evidence_set_id r)),
     (''evidence_class'', JStr (rt_evidence_class r)), (''verifier_version'', JStr (rt_verifier_version r)),
     (''recalculation_sha256'', JStr (rt_recalculation_sha256 r)), (''proofability'', JStr (rt_proofability r)),
     (''verdict'', JStr (qualification_verdict_value (rt_verdict r))), (''attempted_count'', JInt (rt_attempted_count r)),
     (''successful_count'', JInt (rt_successful_count r)), (''failed_count'', JInt (rt_failed_count r)),
     (''p95_ttft_ns'', json_opt JInt (rt_p95_ttft_ns r)), (''ttft_definition'', JStr (rt_ttft_definition r)),
     (''evidence_captured_at'', time_json (rt_evidence_captured_at r)), (''issued_at'', time_json (rt_issued_at r)),
     (''limitations'', JArr (map JStr (rt_limitations r))), (''deployment_authorized'', JBool (rt_deployment_authorized r)),
     (''production_traffic_authorized'', JBool (rt_production_traffic_authorized r)),
     (''traffic_expansion_authorized'', JBool (rt_traffic_expansion_authorized r)),
     (''external_authorization_required'', JBool (rt_external_authorization_required r))]"

definition receipt_id_from_projection :: "codec \<Rightarrow> json \<Rightarrow> string option" where
  "receipt_id_from_projection k projection = map_option (\<lambda>content. ''qrc_'' @
     sha256_hex k (''exitspec-inference-performance-qualification-receipt-v1'' @ [CHR 0x00] @ content)) (canonical_json k projection)"

text \<open>
  \<open>model_validate(..., strict=True)\<close> of a receipt with typed values: the datetimes become UTC, where an
  overflow is no \<open>ValueError\<close> and leaves the validation, and the id binds what results.
\<close>

datatype 'a validation = Valid 'a | Refused | Overflows

definition receipt_utc :: "int \<Rightarrow> int \<Rightarrow> qualification_receipt \<Rightarrow> qualification_receipt" where
  "receipt_utc captured issued r = r\<lparr>rt_evidence_captured_at := Aware captured 0, rt_issued_at := Aware issued 0\<rparr>"

definition validate_receipt :: "codec \<Rightarrow> qualification_receipt \<Rightarrow> qualification_receipt validation" where
  "validate_receipt k r = (case (timestamp (rt_evidence_captured_at r), timestamp (rt_issued_at r)) of
     (OutOfRange, _) \<Rightarrow> Overflows
   | (_, OutOfRange) \<Rightarrow> Overflows
   | (Utc captured, Utc issued) \<Rightarrow> (let n = receipt_utc captured issued r in
       if \<not> receipt_texts_ok n \<or> \<not> receipt_values_ok n then Refused
       else if receipt_id_from_projection k (receipt_projection n) \<noteq> Some (rt_receipt_id n) then Refused
       else if rt_successful_count n + rt_failed_count n > rt_attempted_count n then Refused
       else Valid n)
   | _ \<Rightarrow> Refused)"

subsection \<open>Issuing from admitted evidence\<close>

text \<open>What issuing reads of the handoff, of the evidence package and of the admission.\<close>

record handoff_identity =
  hf_subject_digest :: string
  hf_scope_digest :: string
  hf_qualification_context_digest :: string
  hf_contract_id :: string
  hf_contract_canonical_digest :: string
  hf_workload_id :: string
  hf_workload_digest :: string
  hf_measurement_profile_id :: string
  hf_measurement_profile_version :: string
  hf_measurement_profile_digest :: string

record package_identity =
  ep_profile_id :: string
  ep_profile_version :: string
  ep_capability_digest :: string
  ep_proofability_report_digest :: string
  ep_package_digest :: string

record admitted_evidence =
  ad_evidence_set_id :: string
  ad_evidence_class :: string
  ad_verifier_version :: string
  ad_recalculated :: recalculated_measurements

datatype qualified_criterion = QualificationCriterion inference_qualification_criterion | OtherCriterion string

fun qualified_criterion_id :: "qualified_criterion \<Rightarrow> string" where
  "qualified_criterion_id (QualificationCriterion c) = iq_id c"
| "qualified_criterion_id (OtherCriterion i) = i"

datatype receipt_code = INVALID_INPUT | CONTEXT_MISMATCH | INSUFFICIENT_EVIDENCE | UNSUPPORTED_CRITERION

text \<open>What leaves \<open>issue_...\<close>: a \<open>QualificationReceiptRejected\<close>, a \<open>ValueError\<close> or an \<open>OverflowError\<close> of a timestamp.\<close>

datatype issue_error = ReceiptRejected receipt_code | TimestampError | TimestampOverflow

definition criterion_of :: "qualified_criterion list \<Rightarrow> string \<Rightarrow> issue_error + inference_qualification_criterion" where
  "criterion_of criteria criterion_id = (case filter (\<lambda>c. qualified_criterion_id c = criterion_id) criteria of
     [QualificationCriterion c] \<Rightarrow> Inr c
   | _ \<Rightarrow> Inl (ReceiptRejected UNSUPPORTED_CRITERION))"

definition receipt_values :: "handoff_identity \<Rightarrow> package_identity \<Rightarrow> admitted_evidence \<Rightarrow> qualification_verdict \<Rightarrow> int \<Rightarrow> int \<Rightarrow> string \<Rightarrow> qualification_receipt" where
  "receipt_values handoff package admitted verdict captured issued receipt_id = (let facts = ad_recalculated admitted in
     \<lparr>rt_schema_version = ''exitspec.inference-performance-qualification-receipt.v1'', rt_canonicalization_version = ''rfc8785_jcs_v1'',
      rt_hash_version = ''sha256_v1'', rt_receipt_id = receipt_id, rt_subject_digest = hf_subject_digest handoff,
      rt_scope_digest = hf_scope_digest handoff, rt_qualification_context_digest = hf_qualification_context_digest handoff,
      rt_contract_id = hf_contract_id handoff, rt_contract_canonical_digest = hf_contract_canonical_digest handoff,
      rt_workload_id = hf_workload_id handoff, rt_workload_digest = hf_workload_digest handoff,
      rt_measurement_profile_id = hf_measurement_profile_id handoff, rt_measurement_profile_version = hf_measurement_profile_version handoff,
      rt_measurement_profile_digest = hf_measurement_profile_digest handoff, rt_capability_profile_id = ep_profile_id package,
      rt_capability_profile_version = ep_profile_version package, rt_capability_digest = ep_capability_digest package,
      rt_proofability_report_digest = ep_proofability_report_digest package, rt_evidence_package_digest = ep_package_digest package,
      rt_evidence_set_id = ad_evidence_set_id admitted, rt_evidence_class = ad_evidence_class admitted,
      rt_verifier_version = ad_verifier_version admitted, rt_recalculation_sha256 = rm_recalculation_sha256 facts,
      rt_proofability = ''PROVABLE'', rt_verdict = verdict, rt_attempted_count = rm_attempted_count facts,
      rt_successful_count = rm_successful_count facts, rt_failed_count = rm_failed_count facts, rt_p95_ttft_ns = rm_p95_ttft_ns facts,
      rt_ttft_definition = rm_ttft_definition facts, rt_evidence_captured_at = Aware captured 0, rt_issued_at = Aware issued 0,
      rt_limitations = RECEIPT_LIMITATIONS, rt_deployment_authorized = False, rt_production_traffic_authorized = False,
      rt_traffic_expansion_authorized = False, rt_external_authorization_required = True\<rparr>)"

text \<open>\<open>issue_inference_performance_qualification_receipt\<close> once the handoff is verified and the evidence admitted.\<close>

definition issue_from_admitted :: "codec \<Rightarrow> handoff_identity \<Rightarrow> package_identity \<Rightarrow> admitted_evidence \<Rightarrow> qualified_criterion list \<Rightarrow>
    string option \<Rightarrow> string \<Rightarrow> py_datetime \<Rightarrow> py_datetime \<Rightarrow> issue_error + qualification_receipt" where
  "issue_from_admitted k handoff package admitted criteria canonical_hash criterion_id evidence_captured_at issued_at = (
     case criterion_of criteria criterion_id of Inl e \<Rightarrow> Inl e
   | Inr criterion \<Rightarrow> (let verdict = calculate_verdict (ad_recalculated admitted) criterion in
       if canonical_hash = None then Inl (ReceiptRejected CONTEXT_MISMATCH)
       else (case timestamp evidence_captured_at of NotAware \<Rightarrow> Inl TimestampError | OutOfRange \<Rightarrow> Inl TimestampOverflow
         | Utc captured \<Rightarrow> (case timestamp issued_at of NotAware \<Rightarrow> Inl TimestampError | OutOfRange \<Rightarrow> Inl TimestampOverflow
           | Utc issued \<Rightarrow> (let values = receipt_values handoff package admitted verdict captured issued in
               case receipt_id_from_projection k (receipt_projection (values [])) of None \<Rightarrow> Inl (ReceiptRejected INVALID_INPUT)
               | Some receipt_id \<Rightarrow> (case validate_receipt k (values receipt_id) of Valid r \<Rightarrow> Inr r
                   | Refused \<Rightarrow> Inl (ReceiptRejected INVALID_INPUT)
                   | Overflows \<Rightarrow> Inl TimestampOverflow))))))"

subsection \<open>The assessment\<close>

datatype qualification_validity = CURRENT | STALE | EXPIRED | INVALID

datatype assessment_reason = REASON_CURRENT | SUBJECT_CHANGED | SCOPE_CHANGED | CONTEXT_CHANGED | REASON_EXPIRED
  | INVALID_RECEIPT | INVALID_CONTEXT | INVALID_EXPIRY | UNSUPPORTED_PROTOCOL

fun validity_value :: "qualification_validity \<Rightarrow> string" where
  "validity_value CURRENT = ''CURRENT''"
| "validity_value STALE = ''STALE''"
| "validity_value EXPIRED = ''EXPIRED''"
| "validity_value INVALID = ''INVALID''"

fun reason_value :: "assessment_reason \<Rightarrow> string" where
  "reason_value REASON_CURRENT = ''CURRENT''"
| "reason_value SUBJECT_CHANGED = ''SUBJECT_CHANGED''"
| "reason_value SCOPE_CHANGED = ''SCOPE_CHANGED''"
| "reason_value CONTEXT_CHANGED = ''CONTEXT_CHANGED''"
| "reason_value REASON_EXPIRED = ''EXPIRED''"
| "reason_value INVALID_RECEIPT = ''INVALID_RECEIPT''"
| "reason_value INVALID_CONTEXT = ''INVALID_CONTEXT''"
| "reason_value INVALID_EXPIRY = ''INVALID_EXPIRY''"
| "reason_value UNSUPPORTED_PROTOCOL = ''UNSUPPORTED_PROTOCOL''"

definition QUALIFICATION_PROTOCOL_ID :: string where
  "QUALIFICATION_PROTOCOL_ID = ''inference-performance-qualification''"

definition QUALIFICATION_PROTOCOL_VERSION :: string where
  "QUALIFICATION_PROTOCOL_VERSION = ''1.0.0''"

definition ASSESSMENT_LIMITATIONS :: "string list" where
  "ASSESSMENT_LIMITATIONS = [''A current receipt remains bounded by its evidence, verifier, and authority limitations.'',
     ''A validity assessment is not deployment or production-traffic authorization.'',
     ''Receipt timestamps are declared facts; this assessment does not attest chronology.'']"

record qualification_assessment =
  qa_schema_version :: string
  qa_canonicalization_version :: string
  qa_hash_version :: string
  qa_assessment_id :: string
  qa_receipt_id :: "string option"
  qa_subject_digest :: "string option"
  qa_scope_digest :: "string option"
  qa_qualification_context_digest :: "string option"
  qa_purpose :: "string option"
  qa_proofability :: "string option"
  qa_verdict :: "qualification_verdict option"
  qa_validity :: qualification_validity
  qa_reason :: assessment_reason
  qa_evidence_captured_at :: "int option"
  qa_expires_at :: "int option"
  qa_assessed_at :: int
  qa_limitations :: "string list"
  qa_deployment_authorized :: bool
  qa_production_traffic_authorized :: bool
  qa_traffic_expansion_authorized :: bool
  qa_external_authorization_required :: bool

definition utc_json :: "int \<Rightarrow> json" where
  "utc_json t = JStr (timestamp_text t)"

definition assessment_projection :: "qualification_assessment \<Rightarrow> json" where
  "assessment_projection a = JObj [(''schema_version'', JStr (qa_schema_version a)), (''canonicalization_version'', JStr (qa_canonicalization_version a)),
     (''hash_version'', JStr (qa_hash_version a)), (''receipt_id'', json_opt JStr (qa_receipt_id a)),
     (''subject_digest'', json_opt JStr (qa_subject_digest a)), (''scope_digest'', json_opt JStr (qa_scope_digest a)),
     (''qualification_context_digest'', json_opt JStr (qa_qualification_context_digest a)), (''purpose'', json_opt JStr (qa_purpose a)),
     (''proofability'', json_opt JStr (qa_proofability a)), (''verdict'', json_opt (\<lambda>v. JStr (qualification_verdict_value v)) (qa_verdict a)),
     (''validity'', JStr (validity_value (qa_validity a))), (''reason'', JStr (reason_value (qa_reason a))),
     (''evidence_captured_at'', json_opt utc_json (qa_evidence_captured_at a)), (''expires_at'', json_opt utc_json (qa_expires_at a)),
     (''assessed_at'', utc_json (qa_assessed_at a)), (''limitations'', JArr (map JStr (qa_limitations a))),
     (''deployment_authorized'', JBool (qa_deployment_authorized a)), (''production_traffic_authorized'', JBool (qa_production_traffic_authorized a)),
     (''traffic_expansion_authorized'', JBool (qa_traffic_expansion_authorized a)),
     (''external_authorization_required'', JBool (qa_external_authorization_required a))]"

definition assessment_id_from_projection :: "codec \<Rightarrow> json \<Rightarrow> string option" where
  "assessment_id_from_projection k projection = map_option (\<lambda>content. ''qaa_'' @
     sha256_hex k (''exitspec-qualification-assessment-v1'' @ [CHR 0x00] @ content)) (canonical_json k projection)"

text \<open>The fields of \<open>QualificationAssessmentV1\<close> and its validators; its datetimes are in UTC.\<close>

definition optional_ok :: "('a \<Rightarrow> bool) \<Rightarrow> 'a option \<Rightarrow> bool" where
  "optional_ok P x = (case x of None \<Rightarrow> True | Some v \<Rightarrow> P v)"

definition assessment_fields_ok :: "qualification_assessment \<Rightarrow> bool" where
  "assessment_fields_ok a \<longleftrightarrow> qa_schema_version a = ''exitspec.qualification-assessment.v1'' \<and>
     qa_canonicalization_version a = ''rfc8785_jcs_v1'' \<and> qa_hash_version a = ''sha256_v1'' \<and> prefixed_id_ok ''qaa_'' (qa_assessment_id a) \<and>
     optional_ok (prefixed_id_ok ''qrc_'') (qa_receipt_id a) \<and>
     list_all (optional_ok digest_ok) [qa_subject_digest a, qa_scope_digest a, qa_qualification_context_digest a] \<and>
     optional_ok (\<lambda>p. p = ''CANARY_CONSIDERATION'') (qa_purpose a) \<and> optional_ok (\<lambda>p. p = ''PROVABLE'') (qa_proofability a) \<and>
     qa_limitations a = ASSESSMENT_LIMITATIONS \<and> \<not> qa_deployment_authorized a \<and> \<not> qa_production_traffic_authorized a \<and>
     \<not> qa_traffic_expansion_authorized a \<and> qa_external_authorization_required a"

definition assessment_binding_ok :: "codec \<Rightarrow> qualification_assessment \<Rightarrow> bool" where
  "assessment_binding_ok k a \<longleftrightarrow> assessment_id_from_projection k (assessment_projection a) = Some (qa_assessment_id a) \<and>
     (if qa_validity a = INVALID
      then qa_receipt_id a = None \<and> qa_subject_digest a = None \<and> qa_scope_digest a = None \<and> qa_qualification_context_digest a = None \<and>
        qa_purpose a = None \<and> qa_proofability a = None \<and> qa_verdict a = None \<and> qa_evidence_captured_at a = None \<and> qa_expires_at a = None
      else qa_receipt_id a \<noteq> None \<and> qa_subject_digest a \<noteq> None)"

text \<open>\<open>QualificationAssessmentRejected\<close>, or the \<open>OverflowError\<close> of a datetime.\<close>

datatype assessment_error = AssessmentRejected | AssessmentOverflow

text \<open>The common end of both constructors: the id of the projection, then the model.\<close>

definition make_assessment :: "codec \<Rightarrow> qualification_assessment \<Rightarrow> assessment_error + qualification_assessment" where
  "make_assessment k a = (case assessment_id_from_projection k (assessment_projection a) of None \<Rightarrow> Inl AssessmentRejected
     | Some i \<Rightarrow> (let n = a\<lparr>qa_assessment_id := i\<rparr> in
         if assessment_fields_ok n \<and> assessment_binding_ok k n then Inr n else Inl AssessmentRejected))"

definition invalid_values :: "int \<Rightarrow> assessment_reason \<Rightarrow> qualification_assessment" where
  "invalid_values assessed_at reason = \<lparr>qa_schema_version = ''exitspec.qualification-assessment.v1'',
     qa_canonicalization_version = ''rfc8785_jcs_v1'', qa_hash_version = ''sha256_v1'', qa_assessment_id = [], qa_receipt_id = None,
     qa_subject_digest = None, qa_scope_digest = None, qa_qualification_context_digest = None, qa_purpose = None, qa_proofability = None,
     qa_verdict = None, qa_validity = INVALID, qa_reason = reason, qa_evidence_captured_at = None, qa_expires_at = None,
     qa_assessed_at = assessed_at, qa_limitations = ASSESSMENT_LIMITATIONS, qa_deployment_authorized = False,
     qa_production_traffic_authorized = False, qa_traffic_expansion_authorized = False, qa_external_authorization_required = True\<rparr>"

definition invalid_assessment :: "codec \<Rightarrow> int \<Rightarrow> assessment_reason \<Rightarrow> assessment_error + qualification_assessment" where
  "invalid_assessment k assessed_at reason = make_assessment k (invalid_values assessed_at reason)"

definition applicable_values :: "qualification_receipt \<Rightarrow> string \<Rightarrow> string \<Rightarrow> string \<Rightarrow> string \<Rightarrow> qualification_validity \<Rightarrow>
    assessment_reason \<Rightarrow> int \<Rightarrow> int option \<Rightarrow> qualification_assessment" where
  "applicable_values receipt subject_digest scope_digest context_digest purpose validity reason assessed_at expires_at =
     (invalid_values assessed_at reason)\<lparr>qa_receipt_id := Some (rt_receipt_id receipt), qa_subject_digest := Some subject_digest,
       qa_scope_digest := Some scope_digest, qa_qualification_context_digest := Some context_digest, qa_purpose := Some purpose,
       qa_proofability := Some (rt_proofability receipt), qa_verdict := Some (rt_verdict receipt), qa_validity := validity,
       qa_evidence_captured_at := Some (instant (rt_evidence_captured_at receipt)), qa_expires_at := expires_at\<rparr>"

definition applicable_assessment :: "codec \<Rightarrow> qualification_receipt \<Rightarrow> string \<Rightarrow> string \<Rightarrow> string \<Rightarrow> string \<Rightarrow> qualification_validity \<Rightarrow>
    assessment_reason \<Rightarrow> int \<Rightarrow> int option \<Rightarrow> assessment_error + qualification_assessment" where
  "applicable_assessment k receipt subject_digest scope_digest context_digest purpose validity reason assessed_at expires_at =
     make_assessment k (applicable_values receipt subject_digest scope_digest context_digest purpose validity reason assessed_at expires_at)"

text \<open>
  The receipt argument: a typed receipt, or content that does not parse to one. Content that parses
  is treated as the receipt it denotes. The other arguments may be of a foreign type (None).
\<close>

datatype receipt_argument = TypedReceipt qualification_receipt | UnreadableReceipt

definition read_receipt :: "codec \<Rightarrow> receipt_argument \<Rightarrow> qualification_receipt validation" where
  "read_receipt k x = (case x of TypedReceipt r \<Rightarrow> validate_receipt k r | UnreadableReceipt \<Rightarrow> Refused)"

definition artifacts_verify :: "codec \<Rightarrow> serving_subject option \<Rightarrow> qualification_scope option \<Rightarrow> qualification_context option \<Rightarrow> bool" where
  "artifacts_verify k subject scope context = (case (subject, scope, context) of
     (Some s, Some q, Some c) \<Rightarrow> verify_serving_subject_manifest k s \<and> verify_qualification_scope k q \<and> verify_qualification_context k c
   | _ \<Rightarrow> False)"

text \<open>The comparison of the receipt with the current digests, in the order of the code.\<close>

definition applicability :: "qualification_receipt \<Rightarrow> string \<Rightarrow> string \<Rightarrow> string \<Rightarrow> qualification_validity \<times> assessment_reason" where
  "applicability receipt subject_digest scope_digest context_digest = (
     if subject_digest \<noteq> rt_subject_digest receipt then (STALE, SUBJECT_CHANGED)
     else if scope_digest \<noteq> rt_scope_digest receipt then (STALE, SCOPE_CHANGED)
     else if context_digest \<noteq> rt_qualification_context_digest receipt then (STALE, CONTEXT_CHANGED)
     else (CURRENT, REASON_CURRENT))"

definition expiry :: "qualification_receipt \<Rightarrow> freshness_policy \<Rightarrow> int" where
  "expiry receipt policy = instant (rt_evidence_captured_at receipt) + fp_maximum_evidence_age_seconds policy * 1000000"

definition assess_current :: "codec \<Rightarrow> qualification_receipt \<Rightarrow> qualification_scope \<Rightarrow> string \<Rightarrow> string \<Rightarrow> string \<Rightarrow> int \<Rightarrow> assessment_error + qualification_assessment" where
  "assess_current k receipt scope subject_digest scope_digest context_digest assessed_at = (
     let (validity, reason) = applicability receipt subject_digest scope_digest context_digest;
       applicable = applicable_assessment k receipt subject_digest scope_digest context_digest (qs_evaluated_use scope)
     in case qs_freshness_policy scope of
         Some policy \<Rightarrow> if validity \<noteq> CURRENT then applicable validity reason assessed_at None
           else if expiry receipt policy \<ge> DATETIME_LIMIT then invalid_assessment k assessed_at INVALID_EXPIRY
           else if assessed_at \<ge> expiry receipt policy then applicable EXPIRED REASON_EXPIRED assessed_at (Some (expiry receipt policy))
           else applicable validity reason assessed_at (Some (expiry receipt policy))
       | None \<Rightarrow> applicable validity reason assessed_at None)"

definition assess_artifacts :: "codec \<Rightarrow> qualification_receipt \<Rightarrow> serving_subject \<Rightarrow> qualification_scope \<Rightarrow> qualification_context \<Rightarrow> int \<Rightarrow> assessment_error + qualification_assessment" where
  "assess_artifacts k receipt subject scope context assessed_at = (
     case (serving_subject_digest k subject, qualification_scope_digest k scope, qualification_context_digest k context) of
       (Inr subject_digest, Inr scope_digest, Inr context_digest) \<Rightarrow>
         if qc_subject_digest context \<noteq> subject_digest \<or> qc_scope_digest context \<noteq> scope_digest then invalid_assessment k assessed_at INVALID_CONTEXT
         else if qc_protocol_id context \<noteq> QUALIFICATION_PROTOCOL_ID \<or> qc_protocol_version context \<noteq> QUALIFICATION_PROTOCOL_VERSION
           then invalid_assessment k assessed_at UNSUPPORTED_PROTOCOL
         else assess_current k receipt scope subject_digest scope_digest context_digest assessed_at
     | _ \<Rightarrow> Inl AssessmentRejected)"

definition assess_inference_qualification :: "codec \<Rightarrow> receipt_argument \<Rightarrow> serving_subject option \<Rightarrow> qualification_scope option \<Rightarrow>
    qualification_context option \<Rightarrow> py_datetime \<Rightarrow> assessment_error + qualification_assessment" where
  "assess_inference_qualification k receipt subject scope context assessed_at = (case timestamp assessed_at of
     NotAware \<Rightarrow> Inl AssessmentRejected
   | OutOfRange \<Rightarrow> Inl AssessmentOverflow
   | Utc now \<Rightarrow> (case read_receipt k receipt of
       Overflows \<Rightarrow> Inl AssessmentOverflow
     | Refused \<Rightarrow> invalid_assessment k now INVALID_RECEIPT
     | Valid validated \<Rightarrow>
         if \<not> artifacts_verify k subject scope context then invalid_assessment k now INVALID_CONTEXT
         else assess_artifacts k validated (the subject) (the scope) (the context) now))"

end
