(* ===== verification/Qualification_Laws.thy ===== *)
theory Qualification_Laws
  imports Qualification
begin

text \<open>
  Laws of the qualification chain. Subject, scope and context satisfy one contract,
  \<open>bound_artifact\<close>: validation changes nothing, and two verified artifacts with one digest are
  the same artifact or their own two projections collide. On it rest the laws of the assessment: when a receipt is CURRENT, that an expired one
  stays expired, what a current one binds, and that an assessment always has a result. The runtime
  configuration of a verified subject is free of denied key paths; the verdict of a receipt has an
  exact meaning over the request records; and the facts recalculated from a bundle never make a
  receipt, as their digest lacks the tag that the receipt demands.
\<close>

section \<open>Artifacts bound by a digest\<close>

text \<open>
  The contract that subject, scope and context share: validation is the identity where it succeeds,
  what it accepts carries the digest of its projection, and projection and digest determine the artifact.
\<close>

locale bound_artifact =
  fixes validated :: "codec \<Rightarrow> 'a \<Rightarrow> artifact_code + 'a"
    and claim :: "'a \<Rightarrow> string"
    and projection :: "'a \<Rightarrow> json"
    and domain :: string
    and digest_of :: "codec \<Rightarrow> 'a \<Rightarrow> artifact_code + string"
    and verify :: "codec \<Rightarrow> 'a \<Rightarrow> bool"
  assumes validated_same: "validated k s = Inr s' \<Longrightarrow> s' = s"
    and validated_bound: "validated k s = Inr s \<Longrightarrow> domain_digest k domain (projection s) = Some (claim s)"
    and determined: "projection s = projection t \<Longrightarrow> claim s = claim t \<Longrightarrow> s = t"
    and digest_of_eq: "digest_of k s = (case validated k s of Inl e \<Rightarrow> Inl e
      | Inr v \<Rightarrow> (case domain_digest k domain (projection v) of None \<Rightarrow> Inl INVALID_VALUE | Some d \<Rightarrow> Inr d))"
    and verify_eq: "verify k s = (case validated k s of Inl e \<Rightarrow> False
      | Inr v \<Rightarrow> (case digest_of k v of Inl e \<Rightarrow> False | Inr d \<Rightarrow> claim v = d))"
begin

lemma verify_iff: "verify k s \<longleftrightarrow> validated k s = Inr s"
proof
  assume "verify k s"
  then obtain v where "validated k s = Inr v" by (auto simp: verify_eq split: sum.splits)
  then show "validated k s = Inr s" using validated_same by blast
next
  assume v: "validated k s = Inr s"
  then have "digest_of k s = Inr (claim s)" by (simp add: digest_of_eq validated_bound)
  with v show "verify k s" by (simp add: verify_eq)
qed

lemma digest_of_verified: "verify k s \<Longrightarrow> digest_of k s = Inr (claim s)"
  by (simp add: verify_iff digest_of_eq validated_bound)

lemma verified_digest: "verify k s \<Longrightarrow> domain_digest k domain (projection s) = Some (claim s)"
  by (simp add: verify_iff validated_bound)

lemma same_digest:
  assumes "verify k s" "verify k t" "claim s = claim t"
  shows "s = t \<or> projection s \<noteq> projection t \<and> domain_digest k domain (projection s) = domain_digest k domain (projection t)"
  using verified_digest [OF assms(1)] verified_digest [OF assms(2)] determined [of s t] assms(3) by auto

end

lemma model_check_Nil: "model_check schema validators loc (JObj kvs) = [] \<longleftrightarrow>
  field_details schema loc kvs = [] \<and> filter (\<lambda>kv. fst kv \<notin> set (map fst schema)) kvs = [] \<and> first_error (validators kvs) = None"
  by (auto simp: model_check_def Let_def split: option.splits)

lemma text_at_simps [simp]: "text_at f ((g, v) # kvs) = (if g = f then (case v of JStr s \<Rightarrow> s | _ \<Rightarrow> []) else text_at f kvs)"
  by (simp add: text_at_def)

lemma optional_text_at_simps [simp]: "optional_text_at f ((g, v) # kvs) = (if g = f then (case v of JStr s \<Rightarrow> Some s | _ \<Rightarrow> None) else optional_text_at f kvs)"
  by (simp add: optional_text_at_def)

lemma int_at_simps [simp]: "int_at f ((g, v) # kvs) = (if g = f then (case v of JInt n \<Rightarrow> n | _ \<Rightarrow> 0) else int_at f kvs)"
  by (simp add: int_at_def)

lemma members_at_simps [simp]: "members_at f ((g, v) # kvs) = (if g = f then (case v of JObj ms \<Rightarrow> ms | _ \<Rightarrow> []) else members_at f kvs)"
  by (simp add: members_at_def)

lemma text_of_optional [simp]: "(case json_opt JStr x of JStr s \<Rightarrow> Some s | _ \<Rightarrow> None) = x"
  by (cases x) (simp_all add: json_opt_def)

subsection \<open>The serving subject\<close>

lemma read_parts [simp]:
  "read_component [(''component_id'', JStr a), (''revision'', JStr b)] = \<lparr>pk_component_id = a, pk_revision = b\<rparr>"
  "read_engine [(''engine_id'', JStr a), (''engine_version'', JStr b)] = \<lparr>se_engine_id = a, se_engine_version = b\<rparr>"
  "read_hardware [(''hardware_class'', JStr a), (''topology'', JStr b)] = \<lparr>hw_hardware_class = a, hw_topology = b\<rparr>"
  "read_profile [(''profile_id'', JStr a), (''profile_version'', JStr b), (''adapter_id'', JStr c), (''adapter_version'', JStr d)] =
     \<lparr>pa_profile_id = a, pa_profile_version = b, pa_adapter_id = c, pa_adapter_version = d\<rparr>"
  by (simp_all add: read_component_def read_engine_def read_hardware_def read_profile_def)

lemma read_subject_projection: "read_subject (subject_projection s @ more') = subject_unsigned.truncate s"
  by (simp add: read_subject_def subject_projection_def component_json_def engine_json_def hardware_json_def profile_json_def
      subject_unsigned.truncate_def)

lemma text_at_subject_digest: "text_at ''subject_digest'' (subject_projection s @ [(''subject_digest'', JStr d)]) = d"
  by (simp add: subject_projection_def)

lemma signed_subject_dump: "signed_subject (subject_projection s @ [(''subject_digest'', JStr (sj_subject_digest s))]) = s"
  by (simp add: signed_subject_def read_subject_projection text_at_subject_digest subject_unsigned.truncate_def subject_unsigned.extend_def
      serving_subject.fields_def)

lemma subject_projection_truncate: "subject_projection (subject_unsigned.truncate s) = subject_projection s"
  by (simp add: subject_projection_def subject_unsigned.truncate_def)

lemma validated_manifest_same: "validated_manifest k s = Inr s' \<Longrightarrow> s' = s"
  by (auto simp: validated_manifest_def validate_subject_def subject_dump_def signed_subject_dump split: if_splits list.splits)

lemma validated_manifest_bound:
  assumes "validated_manifest k s = Inr s"
  shows "domain_digest k SERVING_SUBJECT_DIGEST_DOMAIN (JObj (subject_projection s)) = Some (sj_subject_digest s)"
proof -
  have "subject_check k [] (subject_dump s) = []"
    using assms by (auto simp: validated_manifest_def validate_subject_def split: if_splits list.splits)
  then have "\<not> fst (subject_digest_error k (subject_projection s @ [(''subject_digest'', JStr (sj_subject_digest s))]))"
    by (simp add: subject_check_def subject_dump_def model_check_Nil first_error_None_iff)
  then show ?thesis
    by (simp add: subject_digest_error_def read_subject_projection subject_projection_truncate text_at_subject_digest
        subject_digest_from_projection_def split: option.splits)
qed

lemma subject_determined: "JObj (subject_projection (s :: serving_subject)) = JObj (subject_projection t) \<Longrightarrow> sj_subject_digest s = sj_subject_digest t \<Longrightarrow> s = t"
  by (metis json.inject(6) signed_subject_dump)

interpretation subject_artifact: bound_artifact validated_manifest sj_subject_digest "\<lambda>s. JObj (subject_projection s)"
  SERVING_SUBJECT_DIGEST_DOMAIN serving_subject_digest verify_serving_subject_manifest
  proof (unfold_locales, goal_cases)
  case 1 then show ?case by (rule validated_manifest_same)
next
  case 2 then show ?case by (rule validated_manifest_bound)
next
  case 3 then show ?case by (rule subject_determined)
next
  case 4 show ?case unfolding serving_subject_digest_def subject_digest_from_projection_def ..
next
  case 5 show ?case unfolding verify_serving_subject_manifest_def ..
qed

lemma validate_subject_verifies:
  assumes "validate_subject k (JObj (subject_projection u @ [(''subject_digest'', JStr d)])) = Inr s"
  shows "verify_serving_subject_manifest k s \<and> subject_projection s = subject_projection u"
proof -
  have s: "s = signed_subject (subject_projection u @ [(''subject_digest'', JStr d)])"
    using assms by (auto simp: validate_subject_def split: if_splits list.splits)
  then have e: "s = subject_unsigned.extend (subject_unsigned.truncate u) (serving_subject.fields d)"
    by (simp add: signed_subject_def read_subject_projection text_at_subject_digest)
  have p: "subject_projection s = subject_projection u" and d: "sj_subject_digest s = d"
    by (simp_all add: e subject_unsigned.extend_def serving_subject.fields_def subject_unsigned.truncate_def subject_projection_def)
  have "validated_manifest k s = Inr s" using assms by (simp add: p d validated_manifest_def subject_dump_def)
  with p show ?thesis by (simp add: subject_artifact.verify_iff)
qed

subsection \<open>The scope\<close>

lemma read_scope_parts [simp]:
  "read_contract_identity [(''contract_id'', JStr a), (''contract_canonical_digest'', JStr b)] = \<lparr>fi_contract_id = a, fi_contract_canonical_digest = b\<rparr>"
  "read_workload_identity [(''workload_id'', JStr a), (''workload_digest'', JStr b)] = \<lparr>wi_workload_id = a, wi_workload_digest = b\<rparr>"
  "read_measurement_profile [(''environment_id'', JStr a), (''environment_digest'', JStr b), (''profile_id'', JStr c), (''profile_version'', JStr d), (''profile_digest'', JStr e)] =
     \<lparr>me_environment_id = a, me_environment_digest = b, me_profile_id = c, me_profile_version = d, me_profile_digest = e\<rparr>"
  by (simp_all add: read_contract_identity_def read_workload_identity_def read_measurement_profile_def)

lemma read_freshness_projection: "read_freshness (scope_projection s @ more') = qs_freshness_policy s"
  by (cases "qs_freshness_policy s") (simp_all add: read_freshness_def scope_projection_def json_opt_def freshness_json_def)

lemma read_scope_projection: "read_scope (scope_projection s @ more') = scope_unsigned.truncate s"
  by (simp add: read_scope_def read_freshness_projection, simp add: scope_projection_def contract_identity_json_def workload_identity_json_def
      measurement_profile_json_def scope_unsigned.truncate_def)

lemma text_at_scope_digest: "text_at ''scope_digest'' (scope_projection s @ [(''scope_digest'', JStr d)]) = d"
  by (simp add: scope_projection_def)

lemma signed_scope_dump: "signed_scope (scope_projection s @ [(''scope_digest'', JStr (qs_scope_digest s))]) = s"
  by (simp add: signed_scope_def read_scope_projection text_at_scope_digest scope_unsigned.truncate_def scope_unsigned.extend_def
      qualification_scope.fields_def)

lemma scope_projection_truncate: "scope_projection (scope_unsigned.truncate s) = scope_projection s"
  by (simp add: scope_projection_def scope_unsigned.truncate_def)

lemma validate_model_Inr: "validate_model k check reader (JObj kvs) = Inr x \<longleftrightarrow>
  canonical_json k (JObj kvs) \<noteq> None \<and> check [] (JObj kvs) = [] \<and> x = reader kvs"
  by (auto simp: validate_model_def split: list.splits)

lemma validated_scope_same: "validated_scope k s = Inr s' \<Longrightarrow> s' = s"
  by (simp add: validated_scope_def validate_scope_def scope_dump_def validate_model_Inr signed_scope_dump)

lemma validated_scope_bound:
  assumes "validated_scope k s = Inr s"
  shows "domain_digest k QUALIFICATION_SCOPE_DIGEST_DOMAIN (JObj (scope_projection s)) = Some (qs_scope_digest s)"
proof -
  have "\<not> fst (scope_digest_error k (scope_projection s @ [(''scope_digest'', JStr (qs_scope_digest s))]))"
    using assms by (simp add: validated_scope_def validate_scope_def scope_dump_def validate_model_Inr scope_check_def model_check_Nil first_error_None_iff)
  then show ?thesis
    by (simp add: scope_digest_error_def read_scope_projection scope_projection_truncate text_at_scope_digest
        scope_digest_from_projection_def split: option.splits)
qed

lemma scope_determined: "JObj (scope_projection (s :: qualification_scope)) = JObj (scope_projection t) \<Longrightarrow> qs_scope_digest s = qs_scope_digest t \<Longrightarrow> s = t"
  by (metis json.inject(6) signed_scope_dump)

interpretation scope_artifact: bound_artifact validated_scope qs_scope_digest "\<lambda>s. JObj (scope_projection s)"
  QUALIFICATION_SCOPE_DIGEST_DOMAIN qualification_scope_digest verify_qualification_scope
  proof (unfold_locales, goal_cases)
  case 1 then show ?case by (rule validated_scope_same)
next
  case 2 then show ?case by (rule validated_scope_bound)
next
  case 3 then show ?case by (rule scope_determined)
next
  case 4 show ?case unfolding qualification_scope_digest_def scope_digest_from_projection_def ..
next
  case 5 show ?case unfolding verify_qualification_scope_def ..
qed

lemma validate_scope_verifies:
  assumes "validate_scope k (JObj (scope_projection u @ [(''scope_digest'', JStr d)])) = Inr s"
  shows "verify_qualification_scope k s \<and> scope_projection s = scope_projection u"
proof -
  have s: "s = signed_scope (scope_projection u @ [(''scope_digest'', JStr d)])"
    using assms by (simp add: validate_scope_def validate_model_Inr)
  then have e: "s = scope_unsigned.extend (scope_unsigned.truncate u) (qualification_scope.fields d)"
    by (simp add: signed_scope_def read_scope_projection text_at_scope_digest)
  have p: "scope_projection s = scope_projection u" and d: "qs_scope_digest s = d"
    by (simp_all add: e scope_unsigned.extend_def qualification_scope.fields_def scope_unsigned.truncate_def scope_projection_def)
  have "validated_scope k s = Inr s" using assms by (simp add: p d validated_scope_def scope_dump_def)
  with p show ?thesis by (simp add: scope_artifact.verify_iff)
qed

subsection \<open>The context\<close>

lemma read_context_projection: "read_context (context_projection c @ more') = context_unsigned.truncate c"
  by (simp add: read_context_def context_projection_def context_unsigned.truncate_def)

lemma text_at_context_digest:
  "text_at ''qualification_context_digest'' (context_projection c @ [(''qualification_context_digest'', JStr d)]) = d"
  by (simp add: context_projection_def)

lemma signed_context_dump:
  "signed_context (context_projection c @ [(''qualification_context_digest'', JStr (qc_qualification_context_digest c))]) = c"
  by (simp add: signed_context_def read_context_projection text_at_context_digest context_unsigned.truncate_def context_unsigned.extend_def
      qualification_context.fields_def)

lemma context_projection_truncate: "context_projection (context_unsigned.truncate c) = context_projection c"
  by (simp add: context_projection_def context_unsigned.truncate_def)

lemma validated_context_same: "validated_context k c = Inr c' \<Longrightarrow> c' = c"
  by (simp add: validated_context_def validate_context_def context_dump_def validate_model_Inr signed_context_dump)

lemma validated_context_bound:
  assumes "validated_context k c = Inr c"
  shows "domain_digest k QUALIFICATION_CONTEXT_DIGEST_DOMAIN (JObj (context_projection c)) = Some (qc_qualification_context_digest c)"
proof -
  have "\<not> fst (context_digest_error k (context_projection c @ [(''qualification_context_digest'', JStr (qc_qualification_context_digest c))]))"
    using assms by (simp add: validated_context_def validate_context_def context_dump_def validate_model_Inr context_check_def model_check_Nil first_error_None_iff)
  then show ?thesis
    by (simp add: context_digest_error_def read_context_projection context_projection_truncate text_at_context_digest
        context_digest_from_projection_def split: option.splits)
qed

lemma context_determined: "JObj (context_projection (c :: qualification_context)) = JObj (context_projection d) \<Longrightarrow>
    qc_qualification_context_digest c = qc_qualification_context_digest d \<Longrightarrow> c = d"
  by (metis json.inject(6) signed_context_dump)

interpretation context_artifact: bound_artifact validated_context qc_qualification_context_digest "\<lambda>c. JObj (context_projection c)"
  QUALIFICATION_CONTEXT_DIGEST_DOMAIN qualification_context_digest verify_qualification_context
  proof (unfold_locales, goal_cases)
  case 1 then show ?case by (rule validated_context_same)
next
  case 2 then show ?case by (rule validated_context_bound)
next
  case 3 then show ?case by (rule context_determined)
next
  case 4 show ?case unfolding qualification_context_digest_def context_digest_from_projection_def ..
next
  case 5 show ?case unfolding verify_qualification_context_def ..
qed

lemma validate_context_verifies:
  assumes "validate_context k (JObj (context_projection u @ [(''qualification_context_digest'', JStr d)])) = Inr c"
  shows "verify_qualification_context k c \<and> context_projection c = context_projection u"
proof -
  have c: "c = signed_context (context_projection u @ [(''qualification_context_digest'', JStr d)])"
    using assms by (simp add: validate_context_def validate_model_Inr)
  then have e: "c = context_unsigned.extend (context_unsigned.truncate u) (qualification_context.fields d)"
    by (simp add: signed_context_def read_context_projection text_at_context_digest)
  have p: "context_projection c = context_projection u" and d: "qc_qualification_context_digest c = d"
    by (simp_all add: e context_unsigned.extend_def qualification_context.fields_def context_unsigned.truncate_def context_projection_def)
  have "validated_context k c = Inr c" using assms by (simp add: p d validated_context_def context_dump_def)
  with p show ?thesis by (simp add: context_artifact.verify_iff)
qed

subsection \<open>Creation\<close>

lemma create_subject_verifies: "create_serving_subject_manifest k v = Inr s \<Longrightarrow> verify_serving_subject_manifest k s"
  unfolding create_serving_subject_manifest_def
  by (auto simp: Let_def dest: validate_subject_verifies split: json.splits if_splits sum.splits option.splits)

lemma create_scope_verifies: "create_qualification_scope k v = Inr q \<Longrightarrow> verify_qualification_scope k q"
  unfolding create_qualification_scope_def
  by (auto simp: Let_def dest: validate_scope_verifies split: json.splits if_splits sum.splits option.splits)

lemma read_new_context: "context_projection (read_context [(''schema_version'', JStr a), (''subject_digest'', JStr b), (''scope_digest'', JStr c),
    (''protocol_id'', JStr d), (''protocol_version'', JStr e)]) = [(''schema_version'', JStr a), (''subject_digest'', JStr b), (''scope_digest'', JStr c),
    (''protocol_id'', JStr d), (''protocol_version'', JStr e)]"
  by (simp add: read_context_def context_projection_def)

lemma create_context_facts:
  assumes "create_qualification_context k s q i v = Inr c"
  shows "verify_serving_subject_manifest k s" "verify_qualification_scope k q" "verify_qualification_context k c"
    "qc_subject_digest c = sj_subject_digest s" "qc_scope_digest c = qs_scope_digest q" "qc_protocol_id c = i" "qc_protocol_version c = v"
proof -
  show s: "verify_serving_subject_manifest k s" and q: "verify_qualification_scope k q"
    using assms by (auto simp: create_qualification_context_def split: if_splits)
  let ?kvs = "[(''schema_version'', JStr QUALIFICATION_CONTEXT_SCHEMA_VERSION), (''subject_digest'', JStr (sj_subject_digest s)),
    (''scope_digest'', JStr (qs_scope_digest q)), (''protocol_id'', JStr i), (''protocol_version'', JStr v)]"
  have e: "create_qualification_context k s q i v = (case validate_model k unsigned_context_check read_context (JObj ?kvs) of Inl e \<Rightarrow> Inl e
      | Inr unsigned \<Rightarrow> (let projection = context_projection unsigned in
          case context_digest_from_projection k (JObj projection) of None \<Rightarrow> Inl INVALID_VALUE
          | Some digest \<Rightarrow> validate_context k (JObj (projection @ [(''qualification_context_digest'', JStr digest)]))))"
    by (simp only: create_qualification_context_def s q subject_artifact.digest_of_verified scope_artifact.digest_of_verified
        not_True_eq_False if_False sum.case)
  obtain u where u: "validate_model k unsigned_context_check read_context (JObj ?kvs) = Inr u"
    using assms unfolding e by (cases "validate_model k unsigned_context_check read_context (JObj ?kvs)") simp_all
  then have "u = read_context ?kvs" unfolding validate_model_Inr by blast
  with assms u obtain d where "validate_context k (JObj (context_projection (read_context ?kvs) @ [(''qualification_context_digest'', JStr d)])) = Inr c"
    unfolding e by (auto simp: Let_def simp del: append.simps split: option.splits)
  then have "verify_qualification_context k c \<and> context_projection c = ?kvs"
    using validate_context_verifies read_new_context by metis
  then show "verify_qualification_context k c" "qc_subject_digest c = sj_subject_digest s" "qc_scope_digest c = qs_scope_digest q"
    "qc_protocol_id c = i" "qc_protocol_version c = v"
    by (simp_all add: context_projection_def)
qed

subsection \<open>The runtime configuration\<close>

text \<open>The nodes of a value, and the path of key segments to every member of an object in it.\<close>

fun json_nodes :: "json \<Rightarrow> nat"
  and item_nodes :: "json list \<Rightarrow> nat"
  and member_nodes :: "(string \<times> json) list \<Rightarrow> nat" where
  "json_nodes (JArr xs) = Suc (item_nodes xs)"
| "json_nodes (JObj kvs) = Suc (member_nodes kvs)"
| "json_nodes v = 1"
| "item_nodes [] = 0"
| "item_nodes (x # xs) = json_nodes x + item_nodes xs"
| "member_nodes [] = 0"
| "member_nodes ((k, v) # kvs) = json_nodes v + member_nodes kvs"

fun key_paths :: "string list \<Rightarrow> json \<Rightarrow> string list list"
  and item_paths :: "string list \<Rightarrow> json list \<Rightarrow> string list list"
  and member_paths :: "string list \<Rightarrow> (string \<times> json) list \<Rightarrow> string list list" where
  "key_paths path (JArr xs) = item_paths path xs"
| "key_paths path (JObj kvs) = member_paths path kvs"
| "key_paths path v = []"
| "item_paths path [] = []"
| "item_paths path (x # xs) = key_paths path x @ item_paths path xs"
| "member_paths path [] = []"
| "member_paths path ((k, v) # kvs) = (path @ runtime_key_segments k) # key_paths (path @ runtime_key_segments k) v @ member_paths path kvs"

definition harmless_path :: "string list \<Rightarrow> bool" where
  "harmless_path path \<longleftrightarrow> (\<forall>s \<in> set path. s \<notin> set denied_segments) \<and>
     (\<forall>i. Suc i < length path \<longrightarrow> (path ! i, path ! Suc i) \<notin> set denied_pairs)"

lemma has_pair_iff: "has_pair pairs xs \<longleftrightarrow> (\<exists>i. Suc i < length xs \<and> (xs ! i, xs ! Suc i) \<in> set pairs)"
proof (induction pairs xs rule: has_pair.induct)
  case (1 pairs a b xs)
  have "(\<exists>i. Suc i < length (a # b # xs) \<and> ((a # b # xs) ! i, (a # b # xs) ! Suc i) \<in> set pairs) \<longleftrightarrow>
    (a, b) \<in> set pairs \<or> (\<exists>i. Suc i < length (b # xs) \<and> ((b # xs) ! i, (b # xs) ! Suc i) \<in> set pairs)"
    (is "?l \<longleftrightarrow> ?r")
  proof
    assume ?l
    then obtain i where "Suc i < length (a # b # xs)" "((a # b # xs) ! i, (a # b # xs) ! Suc i) \<in> set pairs" by blast
    then show ?r by (cases i) auto
  next
    assume ?r
    then show ?l by (elim disjE exE conjE) (auto intro: exI [of _ 0] exI [of _ "Suc i" for i])
  qed
  with 1 show ?case by simp
qed auto

lemma allowed_path: "\<not> is_prohibited_runtime_path path segments \<Longrightarrow> harmless_path path"
  by (auto simp: is_prohibited_runtime_path_def harmless_path_def has_pair_iff list_ex_iff)

lemma walk_runtime_sound:
  "walk_runtime depth path n v = Some n' \<Longrightarrow> n' = n + json_nodes v \<and> n' \<le> 256 \<and> list_all harmless_path (key_paths path v)"
  "walk_runtime_items depth path n xs = Some n' \<Longrightarrow> n' = n + item_nodes xs \<and> (n \<le> 256 \<longrightarrow> n' \<le> 256) \<and> list_all harmless_path (item_paths path xs)"
  "walk_runtime_members depth path n kvs = Some n' \<Longrightarrow> n' = n + member_nodes kvs \<and> (n \<le> 256 \<longrightarrow> n' \<le> 256) \<and> list_all harmless_path (member_paths path kvs)"
proof (induction depth path n v and depth path n xs and depth path n kvs arbitrary: n' and n' and n'
    rule: walk_runtime_walk_runtime_items_walk_runtime_members.induct)
  case (1 depth path n v)
  from 1(3) have n: "\<not> (jl_nodes runtime_limits < Suc n \<or> jl_depth runtime_limits < depth)" "Suc n \<le> 256"
    by (auto simp: Let_def runtime_limits_def split: if_splits)
  show ?case
  proof (cases v)
    case (JArr xs)
    then have "\<not> jl_array_items runtime_limits < length xs" "walk_runtime_items depth path (Suc n) xs = Some n'"
      using 1(3) by (auto simp: Let_def split: if_splits)
    with 1(1) [OF refl n(1) JArr] n(2) JArr show ?thesis by simp
  next
    case (JObj kvs)
    then have "\<not> jl_object_keys runtime_limits < length kvs" "walk_runtime_members depth path (Suc n) kvs = Some n'"
      using 1(3) by (auto simp: Let_def split: if_splits)
    with 1(2) [OF refl n(1) JObj] n(2) JObj show ?thesis by simp
  qed (use 1(3) n in \<open>auto simp: Let_def split: if_splits\<close>)
next
  case (3 depth path n x xs)
  from 3(3) obtain m where m: "walk_runtime (Suc depth) path n x = Some m" "walk_runtime_items depth path m xs = Some n'"
    by (auto split: option.splits)
  from 3(1) [OF m(1)] 3(2) [OF m] show ?case by simp
next
  case (5 depth path n key v kvs)
  let ?p = "path @ runtime_key_segments key"
  from 5(3) obtain m where ok: "runtime_key_ok key" "\<not> is_prohibited_runtime_path ?p (runtime_key_segments key)"
    and m: "walk_runtime (Suc depth) ?p n v = Some m" "walk_runtime_members depth path m kvs = Some n'"
    by (auto simp: Let_def split: if_splits option.splits)
  have "m = n + json_nodes v \<and> m \<le> 256 \<and> list_all harmless_path (key_paths ?p v)"
    using 5(1) ok m(1) by simp
  moreover have "n' = m + member_nodes kvs \<and> (m \<le> 256 \<longrightarrow> n' \<le> 256) \<and> list_all harmless_path (member_paths path kvs)"
    using 5(2) ok m by simp
  ultimately show ?case using allowed_path [OF ok(2)] by simp
qed simp_all

lemma field_details_Nil: "field_details schema loc kvs = [] \<Longrightarrow> (f, c) \<in> set schema \<Longrightarrow> \<exists>v. map_of kvs f = Some v \<and> c (loc @ [f]) v = []"
  by (induction schema loc kvs rule: field_details.induct) (auto split: option.splits)

lemma verified_subject_field:
  assumes "verify_serving_subject_manifest k s" and "(f, c) \<in> set (subject_fields k)"
  obtains v where "map_of (subject_projection s @ [(''subject_digest'', JStr (sj_subject_digest s))]) f = Some v" "c [f] v = []"
proof -
  have "validated_manifest k s = Inr s" using assms(1) by (simp add: subject_artifact.verify_iff)
  then have "field_details (subject_fields k @ [(''subject_digest'', digest_check)]) [] (subject_projection s @ [(''subject_digest'', JStr (sj_subject_digest s))]) = []"
    by (auto simp: validated_manifest_def validate_subject_def subject_check_def subject_dump_def model_check_Nil split: if_splits list.splits)
  from field_details_Nil [OF this, of f c] assms(2) that show thesis by (auto simp del: map_of_append)
qed

lemma str_check_Nil: "str_check least most pattern raises loc (JStr s) = [] \<longleftrightarrow>
  (case most of None \<Rightarrow> True | Some n \<Rightarrow> length s \<le> n) \<and> least \<le> length s \<and> pattern s \<and> raises s = None"
  by (auto simp: str_check_def split: option.splits)

text \<open>
  C12. The runtime configuration of a verified subject is the canonical form of an object with at most 256
  nodes, and no path of keys in it, through any nesting, has a denied segment or a denied pair of
  neighbouring segments, however the segments are spread over the keys.
\<close>

theorem runtime_configuration_clean:
  assumes "verify_serving_subject_manifest k s"
  shows "\<exists>payload. parse_runtime_configuration k (sj_runtime_configuration_json s) = Some payload \<and>
     canonical_json k payload = Some (utf8_encode (sj_runtime_configuration_json s)) \<and>
     json_nodes payload \<le> 256 \<and> list_all harmless_path (key_paths [] payload)"
proof -
  obtain v where v: "map_of (subject_projection s @ [(''subject_digest'', JStr (sj_subject_digest s))]) ''runtime_configuration_json'' = Some v"
    "str_check 2 (Some 8192) (\<lambda>s. True) (runtime_error k) [''runtime_configuration_json''] v = []"
    by (rule verified_subject_field [OF assms, of "''runtime_configuration_json''"]) (auto simp: subject_fields_def)
  have "v = JStr (sj_runtime_configuration_json s)" using v(1) by (simp add: subject_projection_def)
  with v(2) obtain payload where p: "parse_runtime_configuration k (sj_runtime_configuration_json s) = Some payload"
    by (auto simp: str_check_Nil runtime_error_def split: if_splits)
  then obtain n where "walk_runtime 0 [] 0 payload = Some n" "canonical_json k payload = Some (utf8_encode (sj_runtime_configuration_json s))"
    by (auto simp: parse_runtime_configuration_def Let_def split: if_splits option.splits json.splits)
  with walk_runtime_sound(1) p show ?thesis by fastforce
qed

section \<open>Verdict and receipt\<close>

lemma sorted_nth_less: "sorted ys \<Longrightarrow> m < length ys \<Longrightarrow> ys ! m < T \<longleftrightarrow> m < length (filter (\<lambda>x. x < T) ys)" for ys :: "int list"
proof (induction ys arbitrary: m)
  case Nil
  then show ?case by simp
next
  case (Cons y ys)
  show ?case
  proof (cases "y < T")
    case True
    with Cons show ?thesis by (cases m) simp_all
  next
    case False
    then have "filter (\<lambda>x. x < T) ys = []" using Cons.prems(1) by (auto simp: filter_empty_conv)
    moreover have "y \<le> (y # ys) ! m" using Cons.prems by (cases m) simp_all
    ultimately show ?thesis using False by simp
  qed
qed

text \<open>The 95th percentile by nearest rank is below a bound exactly when 95 percent of the values are.\<close>

lemma nearest_rank_less:
  assumes "xs \<noteq> []"
  shows "nearest_rank xs 95 < T \<longleftrightarrow> 95 * length xs \<le> 100 * length (filter (\<lambda>x. x < T) xs)"
proof -
  let ?n = "length xs" and ?m = "(95 * length xs + 99) div 100 - 1"
  have n: "0 < ?n" using assms by simp
  then have "?m < length (sort xs)" by (simp; linarith)
  then have "nearest_rank xs 95 < T \<longleftrightarrow> ?m < length (filter (\<lambda>x. x < T) (sort xs))"
    by (simp only: nearest_rank_def Let_def length_sort sorted_nth_less [OF sorted_sort])
  also have "length (filter (\<lambda>x. x < T) (sort xs)) = length (filter (\<lambda>x. x < T) xs)"
    by (simp add: filter_sort)
  finally show ?thesis using n by linarith
qed

text \<open>
  C10. Over the facts recalculated from request records the verdict is PASS exactly when the records are
  as many as agreed, enough of them succeeded, 95 percent of the successful ones had their first
  token before the threshold, and the failed ones are a smaller share than the agreed basis points.
\<close>

theorem qualification_pass_exact:
  assumes "recalculate k records records_bytes = Some facts" and "qualification_criterion_ok criterion"
    and "\<forall>r \<in> set records. rr_status r = ''SUCCESS'' \<longrightarrow> rr_ttft_ns r \<noteq> None"
  shows "calculate_verdict facts criterion = PASS \<longleftrightarrow>
    (let successful = filter (\<lambda>r. rr_status r = ''SUCCESS'') records;
         fast = filter (\<lambda>r. \<exists>t. rr_ttft_ns r = Some t \<and> t < lr_threshold_ns (iq_latency_requirement criterion)) successful;
         failed = length records - length successful
     in int (length records) = rq_exact_attempts (iq_reliability_requirement criterion) \<and>
        lr_minimum_successful_samples (iq_latency_requirement criterion) \<le> int (length successful) \<and>
        95 * length successful \<le> 100 * length fast \<and>
        int failed * 10000 < rq_threshold_basis_points (iq_reliability_requirement criterion) * int (length records))"
proof -
  let ?s = "filter (\<lambda>r. rr_status r = ''SUCCESS'') records"
  let ?T = "lr_threshold_ns (iq_latency_requirement criterion)"
  let ?ttfts = "map (\<lambda>r. the (rr_ttft_ns r)) ?s"
  have split: "length records - length ?s = length (filter (\<lambda>r. rr_status r \<noteq> ''SUCCESS'') records)"
    using sum_length_filter_compl [of "\<lambda>r. rr_status r = ''SUCCESS''" records] by linarith
  have "filter (\<lambda>r. \<exists>t. rr_ttft_ns r = Some t \<and> t < ?T) ?s = filter (\<lambda>r. the (rr_ttft_ns r) < ?T) ?s"
    using assms(3) by (intro filter_cong) auto
  then have fast: "length (filter (\<lambda>x. x < ?T) ?ttfts) = length (filter (\<lambda>r. \<exists>t. rr_ttft_ns r = Some t \<and> t < ?T) ?s)"
    by (simp only: filter_map length_map o_def)
  have rank: "?s \<noteq> [] \<Longrightarrow> nearest_rank ?ttfts 95 < ?T \<longleftrightarrow> 95 * length ?s \<le> 100 * length (filter (\<lambda>r. \<exists>t. rr_ttft_ns r = Some t \<and> t < ?T) ?s)"
    using nearest_rank_less [of ?ttfts ?T] by (simp only: fast length_map map_is_Nil_conv not_False_eq_True simp_thms)
  have facts: "rm_attempted_count facts = int (length records)" "rm_successful_count facts = int (length ?s)"
    "rm_failed_count facts = int (length records - length ?s)" "rm_ttft_definition facts = ''vllm_first_choices_event_v0_26''"
    "rm_p95_ttft_ns facts = (if ?s = [] then None else Some (nearest_rank ?ttfts 95))"
    using assms(1) by (auto simp: recalculate_def Let_def split split: option.splits)
  have "0 < lr_minimum_successful_samples (iq_latency_requirement criterion)"
    using assms(2) by (simp add: qualification_criterion_ok_def Let_def)
  then show ?thesis
    unfolding calculate_verdict_def Let_def facts using rank by (cases "?s = []") (auto simp: not_le)
qed

text \<open>\<open>hexdigest\<close> gives 64 lower-case hexadecimal digits.\<close>

definition hex_codec :: "codec \<Rightarrow> bool" where
  "hex_codec k \<longleftrightarrow> (\<forall>t. is_sha256 (sha256_hex k t))"

lemma hex_not_tagged: "is_sha256 d \<Longrightarrow> \<not> digest_ok d"
  by (cases d) (auto simp: digest_ok_def is_sha256_def hex_text_def starts_with_def lower_hex_def less_eq_char_def)

lemma validate_receipt_Valid:
  "validate_receipt k r = Valid n \<Longrightarrow> receipt_texts_ok n \<and> receipt_values_ok n \<and>
     (\<exists>captured issued. n = receipt_utc captured issued r \<and> in_range captured \<and> in_range issued)"
  by (cases "rt_evidence_captured_at r"; cases "rt_issued_at r") (auto simp: validate_receipt_def Let_def split: if_splits)

lemma receipt_digest_tagged: "validate_receipt k r = Valid n \<Longrightarrow> digest_ok (rt_recalculation_sha256 r)"
  using validate_receipt_Valid [of k r n] by (auto simp: receipt_texts_ok_def receipt_utc_def)

lemma issue_from_admitted_Inr:
  assumes "issue_from_admitted k handoff package admitted criteria canonical_hash criterion_id captured_at issued_at = Inr r"
  shows "\<exists>verdict captured issued i. validate_receipt k (receipt_values handoff package admitted verdict captured issued i) = Valid r"
  using assms unfolding issue_from_admitted_def
  by (auto simp: Let_def split: sum.splits if_splits time_reading.splits option.splits validation.splits)

lemma recalculation_digest: "recalculate k records records_bytes = Some facts \<Longrightarrow> \<exists>t. rm_recalculation_sha256 facts = sha256_hex k t"
  by (auto simp: recalculate_def Let_def split: option.splits)

text \<open>
  C11. Evidence whose facts come from the recalculation of inferdrome_bundle.py never gets a receipt: the
  recalculation digest is a bare \<open>hexdigest\<close>, the receipt demands the tag sha256 before it.
\<close>

theorem recalculated_evidence_never_receipted:
  assumes "hex_codec k" and "recalculate k records records_bytes = Some (ad_recalculated admitted)"
  shows "issue_from_admitted k handoff package admitted criteria canonical_hash criterion_id captured_at issued_at \<noteq> Inr r"
proof
  assume "issue_from_admitted k handoff package admitted criteria canonical_hash criterion_id captured_at issued_at = Inr r"
  then obtain verdict captured issued i where
    "validate_receipt k (receipt_values handoff package admitted verdict captured issued i) = Valid r"
    using issue_from_admitted_Inr by blast
  then have "digest_ok (rm_recalculation_sha256 (ad_recalculated admitted))"
    using receipt_digest_tagged by (fastforce simp: receipt_values_def Let_def)
  moreover have "is_sha256 (rm_recalculation_sha256 (ad_recalculated admitted))"
    using recalculation_digest [OF assms(2)] assms(1) by (auto simp: hex_codec_def)
  ultimately show False using hex_not_tagged by blast
qed

lemma profile_version_plain: "profile_version_ok v \<Longrightarrow> list_all (\<lambda>c. is_digit c \<or> one_of ''v.'' c) v"
proof -
  let ?r = "cats [Opt (lit (CHR ''v'')), Rep 1 None (Cls is_digit), Rep 0 (Some 2) (Cat (lit (CHR ''.'')) (Rep 1 None (Cls is_digit)))]"
  assume "profile_version_ok v"
  then obtain p where p: "p \<in> set (ends ?r (None, v))" "snd p = []"
    unfolding profile_version_ok_def whole_match_def list_ex_iff by blast
  have "rx_all (\<lambda>c. is_digit c \<or> one_of ''v.'' c) ?r" by (simp add: lit_def one_of_def)
  from ends_consumes [OF this p(1)] p(2) show ?thesis by (auto simp: consumes_def)
qed

lemma prerelease_profile_never_receipted:
  assumes "CHR ''-'' \<in> set (hf_measurement_profile_version handoff) \<or> CHR ''+'' \<in> set (hf_measurement_profile_version handoff)"
  shows "issue_from_admitted k handoff package admitted criteria canonical_hash criterion_id captured_at issued_at \<noteq> Inr r"
proof
  assume "issue_from_admitted k handoff package admitted criteria canonical_hash criterion_id captured_at issued_at = Inr r"
  then obtain verdict captured issued i where
    "validate_receipt k (receipt_values handoff package admitted verdict captured issued i) = Valid r"
    using issue_from_admitted_Inr by blast
  from validate_receipt_Valid [OF this] have "profile_version_ok (hf_measurement_profile_version handoff)"
    by (auto simp: receipt_texts_ok_def receipt_utc_def receipt_values_def Let_def)
  from profile_version_plain [OF this] assms show False
    by (auto simp: list_all_iff one_of_def is_digit_def less_eq_char_def)
qed

section \<open>The assessment\<close>

lemma make_assessment_Inr: "make_assessment k v = Inr a \<Longrightarrow>
  (\<exists>i. a = v\<lparr>qa_assessment_id := i\<rparr>) \<and> assessment_fields_ok a \<and> assessment_binding_ok k a"
  by (auto simp: make_assessment_def Let_def split: option.splits if_splits)

lemma invalid_assessment_Inr: "invalid_assessment k now reason = Inr a \<Longrightarrow> qa_validity a = INVALID \<and> qa_reason a = reason \<and> qa_assessed_at a = now"
  by (auto simp: invalid_assessment_def invalid_values_def dest: make_assessment_Inr)

lemma applicable_assessment_Inr: "applicable_assessment k r ds dq dc purpose validity reason now expires = Inr a \<Longrightarrow>
  qa_validity a = validity \<and> qa_reason a = reason \<and> qa_assessed_at a = now \<and> qa_expires_at a = expires \<and>
  qa_receipt_id a = Some (rt_receipt_id r) \<and> qa_verdict a = Some (rt_verdict r) \<and> qa_subject_digest a = Some ds \<and>
  qa_scope_digest a = Some dq \<and> qa_qualification_context_digest a = Some dc"
  by (auto simp: applicable_assessment_def applicable_values_def invalid_values_def dest!: make_assessment_Inr)

text \<open>Whether the digests of a receipt are the current ones, and whether the freshness policy lets it apply.\<close>

definition same_digests :: "qualification_receipt \<Rightarrow> string \<Rightarrow> string \<Rightarrow> string \<Rightarrow> bool" where
  "same_digests r ds dq dc \<longleftrightarrow> rt_subject_digest r = ds \<and> rt_scope_digest r = dq \<and> rt_qualification_context_digest r = dc"

definition fresh_at :: "qualification_receipt \<Rightarrow> qualification_scope \<Rightarrow> int \<Rightarrow> bool" where
  "fresh_at r q now \<longleftrightarrow> (case qs_freshness_policy q of None \<Rightarrow> True | Some p \<Rightarrow> expiry r p < DATETIME_LIMIT \<and> now < expiry r p)"

lemma applicability_same: "fst (applicability r ds dq dc) = (if same_digests r ds dq dc then CURRENT else STALE)"
  "same_digests r ds dq dc \<Longrightarrow> applicability r ds dq dc = (CURRENT, REASON_CURRENT)"
  by (auto simp: applicability_def same_digests_def)

text \<open>The outcome of \<open>assess_current\<close>, with the facts of the receipt unless it is invalid.\<close>

lemma assess_current_stale:
  assumes "assess_current k r q ds dq dc now = Inr a" and "\<not> same_digests r ds dq dc"
  shows "qa_validity a = STALE \<and> qa_receipt_id a = Some (rt_receipt_id r) \<and> qa_reason a \<in> {SUBJECT_CHANGED, SCOPE_CHANGED, CONTEXT_CHANGED}"
  using assms by (auto simp: assess_current_def applicability_def same_digests_def Let_def split: option.splits if_splits dest!: applicable_assessment_Inr)

lemma assess_current_same:
  assumes "assess_current k r q ds dq dc now = Inr a" and "same_digests r ds dq dc"
  shows "case qs_freshness_policy q of
      None \<Rightarrow> qa_validity a = CURRENT \<and> qa_reason a = REASON_CURRENT \<and> qa_receipt_id a = Some (rt_receipt_id r) \<and> qa_verdict a = Some (rt_verdict r)
    | Some p \<Rightarrow> if expiry r p \<ge> DATETIME_LIMIT then qa_validity a = INVALID \<and> qa_reason a = INVALID_EXPIRY
        else qa_validity a = (if now \<ge> expiry r p then EXPIRED else CURRENT) \<and> qa_reason a = (if now \<ge> expiry r p then REASON_EXPIRED else REASON_CURRENT) \<and>
          qa_expires_at a = Some (expiry r p) \<and> qa_receipt_id a = Some (rt_receipt_id r) \<and> qa_verdict a = Some (rt_verdict r)"
  using assms by (auto simp: assess_current_def applicability_same(2) Let_def split: option.splits if_splits
      dest!: applicable_assessment_Inr invalid_assessment_Inr)

text \<open>What an assessment rests on when it gets past the artifacts.\<close>

definition assessed_on :: "codec \<Rightarrow> receipt_argument \<Rightarrow> serving_subject option \<Rightarrow> qualification_scope option \<Rightarrow> qualification_context option \<Rightarrow>
    qualification_receipt \<Rightarrow> serving_subject \<Rightarrow> qualification_scope \<Rightarrow> qualification_context \<Rightarrow> bool" where
  "assessed_on k x subject scope context r s q c \<longleftrightarrow> read_receipt k x = Valid r \<and> subject = Some s \<and> scope = Some q \<and> context = Some c \<and>
     verify_serving_subject_manifest k s \<and> verify_qualification_scope k q \<and> verify_qualification_context k c \<and>
     qc_subject_digest c = sj_subject_digest s \<and> qc_scope_digest c = qs_scope_digest q \<and>
     qc_protocol_id c = QUALIFICATION_PROTOCOL_ID \<and> qc_protocol_version c = QUALIFICATION_PROTOCOL_VERSION"

abbreviation (input) assess_digests :: "codec \<Rightarrow> qualification_receipt \<Rightarrow> serving_subject \<Rightarrow> qualification_scope \<Rightarrow> qualification_context \<Rightarrow> int \<Rightarrow> assessment_error + qualification_assessment" where
  "assess_digests k r s q c now \<equiv> assess_current k r q (sj_subject_digest s) (qs_scope_digest q) (qc_qualification_context_digest c) now"

lemma timestamp_Utc: "timestamp t = Utc now \<longleftrightarrow> dt_aware t \<and> now = instant t \<and> in_range now"
  by (cases t) auto

lemma assess_on:
  assumes "assessed_on k x subject scope context r s q c" and "timestamp t = Utc now"
  shows "assess_inference_qualification k x subject scope context t = assess_digests k r s q c now"
proof -
  have a: "read_receipt k x = Valid r" "artifacts_verify k subject scope context" "the subject = s" "the scope = q" "the context = c"
    using assms(1) by (simp_all add: assessed_on_def artifacts_verify_def)
  have "serving_subject_digest k s = Inr (sj_subject_digest s)" "qualification_scope_digest k q = Inr (qs_scope_digest q)"
    "qualification_context_digest k c = Inr (qc_qualification_context_digest c)"
    using assms(1) by (simp_all add: assessed_on_def subject_artifact.digest_of_verified scope_artifact.digest_of_verified
        context_artifact.digest_of_verified)
  with assms(1) show ?thesis
    by (simp add: assess_inference_qualification_def assms(2) a assess_artifacts_def assessed_on_def artifacts_verify_def)
qed

lemma assess_not_on:
  assumes "assess_inference_qualification k x subject scope context t = Inr a" and "\<nexists>r s q c. assessed_on k x subject scope context r s q c"
  shows "qa_validity a = INVALID \<and> qa_reason a \<in> {INVALID_RECEIPT, INVALID_CONTEXT, UNSUPPORTED_PROTOCOL}"
proof -
  obtain now where now: "timestamp t = Utc now"
    using assms(1) by (auto simp: assess_inference_qualification_def split: time_reading.splits)
  show ?thesis
  proof (cases "\<exists>r. read_receipt k x = Valid r \<and> artifacts_verify k subject scope context")
    case True
    then obtain r s q c where r: "read_receipt k x = Valid r" and sqc: "subject = Some s" "scope = Some q" "context = Some c"
      and v: "verify_serving_subject_manifest k s" "verify_qualification_scope k q" "verify_qualification_context k c"
      by (auto simp: artifacts_verify_def split: option.splits)
    have "assess_artifacts k r s q c now = Inr a"
      using assms(1) by (simp add: assess_inference_qualification_def now r sqc artifacts_verify_def v)
    moreover have "\<not> (qc_subject_digest c = sj_subject_digest s \<and> qc_scope_digest c = qs_scope_digest q \<and>
        qc_protocol_id c = QUALIFICATION_PROTOCOL_ID \<and> qc_protocol_version c = QUALIFICATION_PROTOCOL_VERSION)"
      using assms(2) r sqc v by (auto simp: assessed_on_def)
    ultimately show ?thesis
      by (auto simp: assess_artifacts_def subject_artifact.digest_of_verified v scope_artifact.digest_of_verified
          context_artifact.digest_of_verified split: if_splits dest!: invalid_assessment_Inr)
  next
    case False
    with assms(1) show ?thesis
      by (auto simp: assess_inference_qualification_def now split: validation.splits if_splits dest!: invalid_assessment_Inr)
  qed
qed

lemma assess_aware: "assess_inference_qualification k x subject scope context t = Inr a \<Longrightarrow> timestamp t = Utc (instant t)"
  by (cases t) (auto simp: assess_inference_qualification_def split: if_splits)

text \<open>
  C8. An assessment is CURRENT exactly when the receipt is valid, the artifacts verify, the context binds
  this subject and scope under the supported protocol, the digests of the receipt are theirs, and the
  freshness policy, if any, still holds; it then carries the id and the verdict of that receipt.
\<close>

theorem assessment_current_iff:
  assumes "assess_inference_qualification k x subject scope context t = Inr a"
  shows "qa_validity a = CURRENT \<longleftrightarrow> (\<exists>r s q c. assessed_on k x subject scope context r s q c \<and>
     same_digests r (sj_subject_digest s) (qs_scope_digest q) (qc_qualification_context_digest c) \<and> fresh_at r q (instant t) \<and>
     qa_receipt_id a = Some (rt_receipt_id r) \<and> qa_verdict a = Some (rt_verdict r))"
proof (cases "\<exists>r s q c. assessed_on k x subject scope context r s q c")
  case True
  then obtain r s q c where on: "assessed_on k x subject scope context r s q c" by blast
  have uniq: "assessed_on k x subject scope context r' s' q' c' \<Longrightarrow> r' = r \<and> s' = s \<and> q' = q \<and> c' = c" for r' s' q' c'
    using on by (simp add: assessed_on_def)
  have a: "assess_digests k r s q c (instant t) = Inr a" using assess_on [OF on assess_aware [OF assms]] assms by simp
  let ?same = "same_digests r (sj_subject_digest s) (qs_scope_digest q) (qc_qualification_context_digest c)"
  have "qa_validity a = CURRENT \<longleftrightarrow> ?same \<and> fresh_at r q (instant t) \<and> qa_receipt_id a = Some (rt_receipt_id r) \<and> qa_verdict a = Some (rt_verdict r)"
  proof (cases ?same)
    case True
    from assess_current_same [OF a True] True show ?thesis by (auto simp: fresh_at_def split: option.splits if_splits)
  next
    case False
    from assess_current_stale [OF a False] False show ?thesis by simp
  qed
  with on uniq show ?thesis by blast
next
  case False
  with assess_not_on [OF assms] show ?thesis by auto
qed

text \<open>
  C38. A receipt that expired stays expired: any later assessment of the same request is EXPIRED too, with
  the same expiry, which lies in the past.
\<close>

theorem expired_stays_expired:
  assumes "assess_inference_qualification k x subject scope context t = Inr a" and "qa_validity a = EXPIRED"
    and "assess_inference_qualification k x subject scope context t' = Inr b" and "instant t \<le> instant t'"
  shows "qa_validity b = EXPIRED \<and> qa_receipt_id b = qa_receipt_id a \<and> qa_expires_at b = qa_expires_at a \<and>
     (\<exists>e. qa_expires_at a = Some e \<and> e \<le> instant t)"
proof -
  obtain r s q c where on: "assessed_on k x subject scope context r s q c"
    using assess_not_on [OF assms(1)] assms(2) by auto
  have a: "assess_digests k r s q c (instant t) = Inr a" using assess_on [OF on assess_aware [OF assms(1)]] assms(1) by simp
  have b: "assess_digests k r s q c (instant t') = Inr b" using assess_on [OF on assess_aware [OF assms(3)]] assms(3) by simp
  have same: "same_digests r (sj_subject_digest s) (qs_scope_digest q) (qc_qualification_context_digest c)"
    using assess_current_stale [OF a] assms(2) by fastforce
  from assess_current_same [OF a same] assess_current_same [OF b same] assms(2,4) show ?thesis
    by (auto split: option.splits if_splits)
qed

text \<open>
  C9. One receipt is CURRENT for one subject, one scope and one context only: in any two assessments
  of it that come out CURRENT, at whatever instants, each of the three artifacts is the same in both,
  unless the projections of exactly those two artifacts differ and have the same digest.
\<close>

theorem current_receipt_binds:
  assumes "assess_inference_qualification k x (Some s) (Some q) (Some c) t = Inr a" and "qa_validity a = CURRENT"
    and "assess_inference_qualification k x (Some s') (Some q') (Some c') t' = Inr b" and "qa_validity b = CURRENT"
  shows "(s' = s \<or> subject_projection s' \<noteq> subject_projection s \<and>
       subject_digest_from_projection k (JObj (subject_projection s')) = subject_digest_from_projection k (JObj (subject_projection s))) \<and>
     (q' = q \<or> scope_projection q' \<noteq> scope_projection q \<and>
       scope_digest_from_projection k (JObj (scope_projection q')) = scope_digest_from_projection k (JObj (scope_projection q))) \<and>
     (c' = c \<or> context_projection c' \<noteq> context_projection c \<and>
       context_digest_from_projection k (JObj (context_projection c')) = context_digest_from_projection k (JObj (context_projection c)))"
proof -
  obtain r where r: "assessed_on k x (Some s) (Some q) (Some c) r s q c"
      "same_digests r (sj_subject_digest s) (qs_scope_digest q) (qc_qualification_context_digest c)"
    using assms(2) unfolding assessment_current_iff [OF assms(1)] by (auto simp: assessed_on_def)
  obtain r' where r': "assessed_on k x (Some s') (Some q') (Some c') r' s' q' c'"
      "same_digests r' (sj_subject_digest s') (qs_scope_digest q') (qc_qualification_context_digest c')"
    using assms(4) unfolding assessment_current_iff [OF assms(3)] by (auto simp: assessed_on_def)
  have "r' = r" using r(1) r'(1) by (simp add: assessed_on_def)
  then have same: "sj_subject_digest s' = sj_subject_digest s" "qs_scope_digest q' = qs_scope_digest q"
    "qc_qualification_context_digest c' = qc_qualification_context_digest c"
    using r(2) r'(2) by (simp_all add: same_digests_def)
  have verified: "verify_serving_subject_manifest k s" "verify_serving_subject_manifest k s'" "verify_qualification_scope k q"
    "verify_qualification_scope k q'" "verify_qualification_context k c" "verify_qualification_context k c'"
    using r(1) r'(1) by (simp_all add: assessed_on_def)
  from subject_artifact.same_digest [OF verified(2,1) same(1)] scope_artifact.same_digest [OF verified(4,3) same(2)]
    context_artifact.same_digest [OF verified(6,5) same(3)]
  show ?thesis
    by (simp only: json.inject subject_digest_from_projection_def scope_digest_from_projection_def context_digest_from_projection_def)
qed

text \<open>Artifacts that were created for the protocol are never the reason of an invalid assessment.\<close>

text \<open>
  C39. Artifacts created from any input for the supported protocol verify, and an assessment of a valid
  receipt against them can only be invalid because the expiry is not representable.
\<close>

theorem created_question_assessable:
  assumes "create_serving_subject_manifest k v = Inr s" and "create_qualification_scope k w = Inr q"
    and "create_qualification_context k s q QUALIFICATION_PROTOCOL_ID QUALIFICATION_PROTOCOL_VERSION = Inr c"
    and "read_receipt k x = Valid r"
    and "assess_inference_qualification k x (Some s) (Some q) (Some c) t = Inr a"
  shows "verify_serving_subject_manifest k s \<and> verify_qualification_scope k q \<and> verify_qualification_context k c \<and>
    (qa_validity a = INVALID \<longrightarrow> qa_reason a = INVALID_EXPIRY)"
proof -
  have v: "verify_serving_subject_manifest k s" "verify_qualification_scope k q"
    using create_subject_verifies [OF assms(1)] create_scope_verifies [OF assms(2)] by simp_all
  have on: "assessed_on k x (Some s) (Some q) (Some c) r s q c"
    using create_context_facts [OF assms(3)] assms(4) by (simp add: assessed_on_def)
  have a: "assess_digests k r s q c (instant t) = Inr a" using assess_on [OF on assess_aware [OF assms(5)]] assms(5) by simp
  have "qa_validity a = INVALID \<longrightarrow> qa_reason a = INVALID_EXPIRY"
    using assess_current_stale [OF a] assess_current_same [OF a] by (fastforce split: option.splits if_splits)
  with v create_context_facts(3) [OF assms(3)] show ?thesis by simp
qed

subsection \<open>An assessment always has a result\<close>

lemma prefixed_hex: "hex_codec k \<Longrightarrow> prefixed_id_ok tag (tag @ sha256_hex k t)"
  by (simp add: prefixed_id_ok_def hex_codec_def starts_with_def)

lemma domain_digest_ok: "hex_codec k \<Longrightarrow> domain_digest k d p = Some e \<Longrightarrow> digest_ok e"
  by (auto simp: domain_digest_def digest_ok_def hex_codec_def starts_with_def)

lemma verified_scope_use:
  assumes "verify_qualification_scope k q"
  shows "qs_evaluated_use q = ''CANARY_CONSIDERATION''"
proof -
  have "validated_scope k q = Inr q" using assms by (simp add: scope_artifact.verify_iff)
  then have "field_details (scope_fields @ [(''scope_digest'', digest_check)]) [] (scope_projection q @ [(''scope_digest'', JStr (qs_scope_digest q))]) = []"
    by (simp add: validated_scope_def validate_scope_def scope_dump_def validate_model_Inr scope_check_def model_check_Nil)
  from field_details_Nil [OF this, of "''evaluated_use''" "literal_check [''CANARY_CONSIDERATION'']"] show ?thesis
    by (auto simp: scope_fields_def scope_projection_def literal_check_def split: if_splits)
qed

lemma projection_without_id [simp]: "assessment_projection (v\<lparr>qa_assessment_id := i\<rparr>) = assessment_projection v"
  by (simp add: assessment_projection_def)

lemma make_assessment_total:
  assumes "hex_codec k" and "\<forall>v. canonical_json k (assessment_projection v) \<noteq> None"
    and "\<And>i. prefixed_id_ok ''qaa_'' i \<Longrightarrow> assessment_fields_ok (v\<lparr>qa_assessment_id := i\<rparr>)"
    and "\<And>i. assessment_id_from_projection k (assessment_projection v) = Some i \<Longrightarrow> assessment_binding_ok k (v\<lparr>qa_assessment_id := i\<rparr>)"
  shows "\<exists>a. make_assessment k v = Inr a"
proof -
  obtain content where "canonical_json k (assessment_projection v) = Some content" using assms(2) by blast
  then have "\<exists>t. assessment_id_from_projection k (assessment_projection v) = Some (''qaa_'' @ sha256_hex k t)"
    unfolding assessment_id_from_projection_def by (simp only: option.map) blast
  then obtain i where i: "assessment_id_from_projection k (assessment_projection v) = Some i" "prefixed_id_ok ''qaa_'' i"
    using prefixed_hex [OF assms(1)] by blast
  with assms(3,4) show ?thesis by (simp add: make_assessment_def Let_def)
qed

lemma invalid_assessment_total:
  assumes "hex_codec k" and "\<forall>v. canonical_json k (assessment_projection v) \<noteq> None"
  shows "\<exists>a. invalid_assessment k now reason = Inr a"
  unfolding invalid_assessment_def
  by (rule make_assessment_total [OF assms], simp add: invalid_values_def assessment_fields_ok_def optional_ok_def)
    (simp only: assessment_binding_ok_def projection_without_id, simp add: invalid_values_def)

lemma applicable_assessment_total:
  assumes "hex_codec k" and "\<forall>v. canonical_json k (assessment_projection v) \<noteq> None"
    and "prefixed_id_ok ''qrc_'' (rt_receipt_id r)" and "rt_proofability r = ''PROVABLE''" and "list_all digest_ok [ds, dq, dc]"
    and "purpose = ''CANARY_CONSIDERATION''" and "validity \<noteq> INVALID"
  shows "\<exists>a. applicable_assessment k r ds dq dc purpose validity reason now expires = Inr a"
  unfolding applicable_assessment_def
proof (rule make_assessment_total [OF assms(1,2)], goal_cases)
  case (1 i)
  with assms(3-7) show ?case by (simp add: applicable_values_def invalid_values_def assessment_fields_ok_def optional_ok_def)
next
  case (2 i)
  with assms(7) show ?case by (simp only: assessment_binding_ok_def projection_without_id) (simp add: applicable_values_def)
qed

text \<open>
  C40. With an aware representable instant an assessment always has a result, whatever the receipt and the
  artifacts are, unless a timestamp of the receipt overflows; documented are the form of \<open>hexdigest\<close> and
  that RFC 8785 serialises objects of texts, booleans and null.
\<close>

theorem assessment_total:
  assumes "hex_codec k" and "\<forall>v. canonical_json k (assessment_projection v) \<noteq> None"
    and "dt_aware t" and "in_range (instant t)" and "read_receipt k x \<noteq> Overflows"
  shows "\<exists>a. assess_inference_qualification k x subject scope context t = Inr a"
proof (cases "\<exists>r s q c. assessed_on k x subject scope context r s q c")
  case True
  then obtain r s q c where on: "assessed_on k x subject scope context r s q c" by blast
  have "timestamp t = Utc (instant t)" using assms(3,4) by (simp add: timestamp_Utc)
  note e = assess_on [OF on this]
  have "receipt_texts_ok r"
    using on validate_receipt_Valid by (auto simp: assessed_on_def read_receipt_def split: receipt_argument.splits)
  then have r: "prefixed_id_ok ''qrc_'' (rt_receipt_id r)" "rt_proofability r = ''PROVABLE''" by (simp_all add: receipt_texts_ok_def)
  have d: "list_all digest_ok [sj_subject_digest s, qs_scope_digest q, qc_qualification_context_digest c]"
    using on subject_artifact.verified_digest scope_artifact.verified_digest context_artifact.verified_digest domain_digest_ok [OF assms(1)]
    unfolding assessed_on_def by (simp, blast)
  have u: "qs_evaluated_use q = ''CANARY_CONSIDERATION''" using on verified_scope_use unfolding assessed_on_def by blast
  note total = applicable_assessment_total [OF assms(1,2) r d u] invalid_assessment_total [OF assms(1,2)]
  have "fst (applicability r (sj_subject_digest s) (qs_scope_digest q) (qc_qualification_context_digest c)) \<noteq> INVALID"
    by (simp add: applicability_same(1))
  then show ?thesis
    unfolding e assess_current_def Let_def by (auto intro: total simp: prod.case_eq_if split: option.split)
next
  case False
  have "timestamp t = Utc (instant t)" using assms(3,4) by (simp add: timestamp_Utc)
  show ?thesis
  proof (cases "\<exists>r s q c. read_receipt k x = Valid r \<and> subject = Some s \<and> scope = Some q \<and> context = Some c \<and> artifacts_verify k subject scope context")
    case True
    then obtain r s q c where r: "read_receipt k x = Valid r" "subject = Some s" "scope = Some q" "context = Some c"
      "verify_serving_subject_manifest k s" "verify_qualification_scope k q" "verify_qualification_context k c"
      by (auto simp: artifacts_verify_def)
    with False show ?thesis
      by (auto simp: assess_inference_qualification_def \<open>timestamp t = _\<close> artifacts_verify_def assess_artifacts_def assessed_on_def
          subject_artifact.digest_of_verified scope_artifact.digest_of_verified context_artifact.digest_of_verified
          intro: invalid_assessment_total [OF assms(1,2)])
  next
    case False
    with assms(5) show ?thesis
      by (auto simp: assess_inference_qualification_def \<open>timestamp t = _\<close> artifacts_verify_def split: validation.splits option.splits
          intro: invalid_assessment_total [OF assms(1,2)])
  qed
qed

section \<open>Examples\<close>

text \<open>A codec whose digests are all alike, and artifacts created with it.\<close>

definition plain_codec :: codec where
  "plain_codec = \<lparr>canonical_json = (\<lambda>j. Some (case j of JObj [] \<Rightarrow> ''{}'' | _ \<Rightarrow> ''[]'')), sha256_hex = (\<lambda>t. replicate 64 (CHR ''0'')), url_split = (\<lambda>t. None)\<rparr>"

definition zero_digest :: string where
  "zero_digest = ''sha256:'' @ replicate 64 (CHR ''0'')"

definition example_subject_json :: json where
  "example_subject_json = JObj [(''engine'', JObj [(''engine_id'', JStr ''vllm''), (''engine_version'', JStr ''0.26.0'')]), (''hardware'', JObj [(''hardware_class'', JStr ''h100''), (''topology'', JStr ''1x1'')]),
     (''launch_arguments_digest'', JStr zero_digest),
     (''model'', JObj [(''component_id'', JStr ''m/1''), (''revision'', JStr ''abcdef1'')]),
     (''profile'', JObj [(''adapter_id'', JStr ''a''), (''adapter_version'', JStr ''1''), (''profile_id'', JStr ''p''), (''profile_version'', JStr ''1'')]), (''routing_policy_digest'', JNull), (''routing_policy_id'', JNull), (''runtime_artifact_digest'', JNull),
     (''runtime_configuration_json'', JStr ''{}''),
     (''schema_version'', JStr ''exitspec.serving-subject-manifest.v1''),
     (''tokenizer'', JObj [(''component_id'', JStr ''t''), (''revision'', JStr ''abcdef2'')])]"

definition example_subject :: serving_subject where
  "example_subject = \<lparr>sj_schema_version = ''exitspec.serving-subject-manifest.v1'', sj_model = \<lparr>pk_component_id = ''m/1'', pk_revision = ''abcdef1''\<rparr>,
     sj_tokenizer = \<lparr>pk_component_id = ''t'', pk_revision = ''abcdef2''\<rparr>, sj_engine = \<lparr>se_engine_id = ''vllm'', se_engine_version = ''0.26.0''\<rparr>,
     sj_runtime_artifact_digest = None, sj_runtime_configuration_json = ''{}'', sj_launch_arguments_digest = zero_digest,
     sj_hardware = \<lparr>hw_hardware_class = ''h100'', hw_topology = ''1x1''\<rparr>,
     sj_profile = \<lparr>pa_profile_id = ''p'', pa_profile_version = ''1'', pa_adapter_id = ''a'', pa_adapter_version = ''1''\<rparr>,
     sj_routing_policy_id = None, sj_routing_policy_digest = None, sj_subject_digest = zero_digest\<rparr>"

definition example_scope_json :: json where
  "example_scope_json = JObj [(''evaluated_use'', JStr ''CANARY_CONSIDERATION''),
     (''freshness_policy'', JObj [(''age_basis'', JStr ''EVIDENCE_CAPTURED_AT''), (''maximum_evidence_age_seconds'', JInt 60)]),
     (''frozen_contract'', JObj [(''contract_canonical_digest'', JStr zero_digest), (''contract_id'', JStr ''c'')]), (''maximum_use'', JObj [(''maximum_traffic_percent'', JInt 5)]),
     (''measurement_profile'', JObj [(''environment_digest'', JStr zero_digest), (''environment_id'', JStr ''e''), (''profile_digest'', JStr zero_digest), (''profile_id'', JStr ''p''), (''profile_version'', JStr ''1.0.0-rc1'')]),
     (''reference_subject_digest'', JNull), (''reference_subject_requirement'', JStr ''NOT_REQUIRED''),
     (''schema_version'', JStr ''exitspec.qualification-scope.v1''),
     (''workload'', JObj [(''workload_digest'', JStr zero_digest), (''workload_id'', JStr ''w'')])]"

definition example_scope :: qualification_scope where
  "example_scope = \<lparr>qs_schema_version = ''exitspec.qualification-scope.v1'',
     qs_frozen_contract = \<lparr>fi_contract_id = ''c'', fi_contract_canonical_digest = zero_digest\<rparr>,
     qs_workload = \<lparr>wi_workload_id = ''w'', wi_workload_digest = zero_digest\<rparr>,
     qs_measurement_profile = \<lparr>me_environment_id = ''e'', me_environment_digest = zero_digest, me_profile_id = ''p'', me_profile_version = ''1.0.0-rc1'', me_profile_digest = zero_digest\<rparr>,
     qs_evaluated_use = ''CANARY_CONSIDERATION'', qs_maximum_traffic_percent = 5,
     qs_freshness_policy = Some \<lparr>fp_age_basis = ''EVIDENCE_CAPTURED_AT'', fp_maximum_evidence_age_seconds = 60\<rparr>,
     qs_reference_subject_requirement = ''NOT_REQUIRED'', qs_reference_subject_digest = None, qs_scope_digest = zero_digest\<rparr>"

definition example_context :: qualification_context where
  "example_context = \<lparr>qc_schema_version = ''exitspec.qualification-context.v1'', qc_subject_digest = zero_digest, qc_scope_digest = zero_digest,
     qc_protocol_id = QUALIFICATION_PROTOCOL_ID, qc_protocol_version = QUALIFICATION_PROTOCOL_VERSION, qc_qualification_context_digest = zero_digest\<rparr>"


lemma plain_load:
  assumes "decode_canonical (jl_integer l) j = Inr j" "walk_bounded_json l 0 0 j = Inr n" "2 \<le> jl_bytes l" "j = JObj kvs"
  shows "load_object plain_codec l j = Inr j"
proof -
  obtain content where "canonical_json plain_codec j = Some content" "length content = 2"
    by (simp add: plain_codec_def split: json.splits list.splits)
  with assms show ?thesis by (simp add: load_object_def)
qed

lemma example_subject_decoded: "decode_canonical (jl_integer subject_limits) example_subject_json = Inr example_subject_json"
  by code_simp

lemma example_subject_walked: "walk_bounded_json subject_limits 0 0 example_subject_json = Inr 24"
  by (simp add: subject_limits_def example_subject_json_def Let_def zero_digest_def)

lemma example_scope_decoded: "decode_canonical (jl_integer (qualification_limits MAX_SCOPE_BYTES)) example_scope_json = Inr example_scope_json"
  by code_simp

lemma example_scope_walked: "walk_bounded_json (qualification_limits MAX_SCOPE_BYTES) 0 0 example_scope_json = Inr 22"
  by (simp add: qualification_limits_def example_scope_json_def Let_def zero_digest_def)

lemma example_subject_unsigned: "validate_unsigned_subject plain_codec example_subject_json = Inr (subject_unsigned.truncate example_subject)"
  by code_simp

lemma example_subject_valid: "validate_subject plain_codec (subject_dump example_subject) = Inr example_subject"
  by code_simp

lemma example_scope_unsigned: "validate_model plain_codec unsigned_scope_check read_scope example_scope_json = Inr (scope_unsigned.truncate example_scope)"
  by code_simp

lemma example_scope_valid: "validate_scope plain_codec (scope_dump example_scope) = Inr example_scope"
  by code_simp

lemma example_context_valid: "validate_context plain_codec (context_dump example_context) = Inr example_context"
  by code_simp

lemma create_subject_rule:
  assumes "v = JObj kvs" "map_of kvs ''subject_digest'' = None" "load_object k subject_limits v = Inr p" "validate_unsigned_subject k p = Inr u"
    "subject_digest_from_projection k (JObj (subject_projection u)) = Some d"
    "validate_subject k (JObj (subject_projection u @ [(''subject_digest'', JStr d)])) = Inr s"
  shows "create_serving_subject_manifest k v = Inr s"
  using assms by (simp add: create_serving_subject_manifest_def Let_def)

lemma create_scope_rule:
  assumes "v = JObj kvs" "map_of kvs ''scope_digest'' = None" "load_object k (qualification_limits MAX_SCOPE_BYTES) v = Inr p"
    "validate_model k unsigned_scope_check read_scope p = Inr u" "scope_digest_from_projection k (JObj (scope_projection u)) = Some d"
    "validate_scope k (JObj (scope_projection u @ [(''scope_digest'', JStr d)])) = Inr q"
  shows "create_qualification_scope k v = Inr q"
  using assms by (simp add: create_qualification_scope_def Let_def)

lemma example_subject_created: "create_serving_subject_manifest plain_codec example_subject_json = Inr example_subject"
proof -
  have "load_object plain_codec subject_limits example_subject_json = Inr example_subject_json"
    by (rule plain_load [OF example_subject_decoded example_subject_walked _ example_subject_json_def]) (simp add: subject_limits_def)
  moreover have "subject_digest_from_projection plain_codec (JObj (subject_projection (subject_unsigned.truncate example_subject))) = Some zero_digest"
    by (simp add: subject_digest_from_projection_def domain_digest_def plain_codec_def zero_digest_def subject_projection_def)
  moreover have dump: "JObj (subject_projection (subject_unsigned.truncate example_subject) @ [(''subject_digest'', JStr zero_digest)]) = subject_dump example_subject"
    by (simp add: subject_dump_def subject_projection_truncate, simp add: example_subject_def)
  then have "validate_subject plain_codec (JObj (subject_projection (subject_unsigned.truncate example_subject) @ [(''subject_digest'', JStr zero_digest)])) = Inr example_subject"
    by (simp only: example_subject_valid)
  ultimately show ?thesis
    by (intro create_subject_rule [OF example_subject_json_def _ _ example_subject_unsigned]) (assumption | simp)+
qed

lemma example_scope_created: "create_qualification_scope plain_codec example_scope_json = Inr example_scope"
proof -
  have "load_object plain_codec (qualification_limits MAX_SCOPE_BYTES) example_scope_json = Inr example_scope_json"
    by (rule plain_load [OF example_scope_decoded example_scope_walked _ example_scope_json_def]) (simp add: qualification_limits_def MAX_SCOPE_BYTES_def)
  moreover have "scope_digest_from_projection plain_codec (JObj (scope_projection (scope_unsigned.truncate example_scope))) = Some zero_digest"
    by (simp add: scope_digest_from_projection_def domain_digest_def plain_codec_def zero_digest_def scope_projection_def)
  moreover have dump: "JObj (scope_projection (scope_unsigned.truncate example_scope) @ [(''scope_digest'', JStr zero_digest)]) = scope_dump example_scope"
    by (simp add: scope_dump_def scope_projection_truncate, simp add: example_scope_def)
  then have "validate_scope plain_codec (JObj (scope_projection (scope_unsigned.truncate example_scope) @ [(''scope_digest'', JStr zero_digest)])) = Inr example_scope"
    by (simp only: example_scope_valid)
  ultimately show ?thesis
    by (intro create_scope_rule [OF example_scope_json_def _ _ example_scope_unsigned]) (assumption | simp)+
qed

lemma example_verified: "verify_serving_subject_manifest plain_codec example_subject" "verify_qualification_scope plain_codec example_scope"
  using create_subject_verifies [OF example_subject_created] create_scope_verifies [OF example_scope_created] by simp_all

lemma example_context_created: "create_qualification_context plain_codec example_subject example_scope
    QUALIFICATION_PROTOCOL_ID QUALIFICATION_PROTOCOL_VERSION = Inr example_context"
proof -
  have d: "serving_subject_digest plain_codec example_subject = Inr zero_digest" "qualification_scope_digest plain_codec example_scope = Inr zero_digest"
    by (simp_all add: subject_artifact.digest_of_verified scope_artifact.digest_of_verified example_verified)
      (simp_all add: example_subject_def example_scope_def)
  have u: "validate_model plain_codec unsigned_context_check read_context (JObj (context_projection example_context)) = Inr (context_unsigned.truncate example_context)"
    by code_simp
  have p: "[(''schema_version'', JStr QUALIFICATION_CONTEXT_SCHEMA_VERSION), (''subject_digest'', JStr zero_digest), (''scope_digest'', JStr zero_digest),
    (''protocol_id'', JStr QUALIFICATION_PROTOCOL_ID), (''protocol_version'', JStr QUALIFICATION_PROTOCOL_VERSION)] = context_projection example_context"
    by (simp add: context_projection_def example_context_def QUALIFICATION_CONTEXT_SCHEMA_VERSION_def)
  have e: "context_digest_from_projection plain_codec (JObj (context_projection example_context)) = Some zero_digest"
    by (simp add: context_digest_from_projection_def domain_digest_def plain_codec_def zero_digest_def context_projection_def)
  have f: "JObj (context_projection example_context @ [(''qualification_context_digest'', JStr zero_digest)]) = context_dump example_context"
    by (simp add: context_dump_def) (simp add: example_context_def)
  show ?thesis
    by (simp add: create_qualification_context_def example_verified d p u context_projection_truncate e f example_context_valid Let_def)
qed

definition zero_id :: "string \<Rightarrow> string" where
  "zero_id tag = tag @ replicate 64 (CHR ''0'')"

definition example_handoff :: handoff_identity where
  "example_handoff = \<lparr>hf_subject_digest = zero_digest, hf_scope_digest = zero_digest, hf_qualification_context_digest = zero_digest,
     hf_contract_id = ''c'', hf_contract_canonical_digest = zero_digest, hf_workload_id = ''w'', hf_workload_digest = zero_digest,
     hf_measurement_profile_id = ''p'', hf_measurement_profile_version = ''1.0.0'', hf_measurement_profile_digest = zero_digest\<rparr>"

definition example_package :: package_identity where
  "example_package = \<lparr>ep_profile_id = ''p'', ep_profile_version = ''1'', ep_capability_digest = zero_digest,
     ep_proofability_report_digest = zero_digest, ep_package_digest = zero_digest\<rparr>"

definition example_records :: "request_record list" where
  "example_records = [\<lparr>rr_status = ''SUCCESS'', rr_ttft_ns = Some 5\<rparr>]"

definition example_facts :: recalculated_measurements where
  "example_facts = \<lparr>rm_attempted_count = 1, rm_successful_count = 1, rm_failed_count = 0, rm_anomalous_count = 0, rm_p95_ttft_ns = Some 5,
     rm_ttft_definition = ''vllm_first_choices_event_v0_26'', rm_records_sha256 = zero_id [], rm_recalculation_sha256 = zero_id []\<rparr>"

definition example_admitted :: admitted_evidence where
  "example_admitted = \<lparr>ad_evidence_set_id = ''set'', ad_evidence_class = ''SYNTHETIC_CI_INFERDROME_V1'', ad_verifier_version = ''1.0.0'',
     ad_recalculated = example_facts\<rparr>"

definition example_criterion :: inference_qualification_criterion where
  "example_criterion = \<lparr>iq_id = ''TTFT'', iq_latency_requirement = \<lparr>lr_requirement_kind = NATIVE_TTFT_P95, lr_threshold_ns = 10, lr_minimum_successful_samples = 1\<rparr>,
     iq_reliability_requirement = \<lparr>rq_threshold_basis_points = 100, rq_exact_attempts = 1\<rparr>\<rparr>"

text \<open>A receipt whose recalculation digest carries the tag that the model demands.\<close>

definition example_receipt :: qualification_receipt where
  "example_receipt = receipt_values example_handoff example_package
     (example_admitted\<lparr>ad_recalculated := example_facts\<lparr>rm_recalculation_sha256 := zero_digest\<rparr>\<rparr>) PASS 0 0 (zero_id ''qrc_'')"

lemma example_recalculated: "recalculate plain_codec example_records ''x'' = Some example_facts"
  by (simp add: recalculate_def example_records_def example_facts_def plain_codec_def zero_id_def nearest_rank_def recalculation_payload_def Let_def)

lemma plain_hex: "hex_codec plain_codec"
  by (simp add: hex_codec_def plain_codec_def is_sha256_def hex_text_def list_all_iff lower_hex_def)

lemma zero_ok: "digest_ok zero_digest" "prefixed_id_ok ''qrc_'' (zero_id ''qrc_'')"
  by code_simp+

lemma example_receipt_valid: "validate_receipt plain_codec example_receipt = Valid example_receipt"
proof -
  have t: "profile_version_ok ''1.0.0''" "capability_version_ok ''1''" "list_all identifier_ok [''c'', ''w'', ''p'', ''p'', ''set'']" by code_simp+
  have "receipt_texts_ok example_receipt \<and> receipt_values_ok example_receipt"
    using t zero_ok by (simp add: receipt_texts_ok_def receipt_values_ok_def example_receipt_def receipt_values_def example_handoff_def
        example_package_def example_admitted_def example_facts_def count_ok_def Let_def)
  moreover have "receipt_utc 0 0 example_receipt = example_receipt" by (simp add: receipt_utc_def example_receipt_def receipt_values_def Let_def)
  moreover have "receipt_id_from_projection plain_codec (receipt_projection example_receipt) = Some (rt_receipt_id example_receipt)"
    by (simp add: receipt_id_from_projection_def plain_codec_def receipt_projection_def)
      (simp add: example_receipt_def receipt_values_def zero_id_def Let_def)
  moreover have "rt_evidence_captured_at example_receipt = Aware 0 0" "rt_issued_at example_receipt = Aware 0 0" "in_range 0"
    "\<not> rt_successful_count example_receipt + rt_failed_count example_receipt > rt_attempted_count example_receipt"
    by (simp_all add: example_receipt_def receipt_values_def example_admitted_def example_facts_def in_range_def DATETIME_LIMIT_def Let_def)
  ultimately show ?thesis by (simp add: validate_receipt_def Let_def)
qed

abbreviation (input) assess_example :: "int \<Rightarrow> assessment_error + qualification_assessment" where
  "assess_example t \<equiv> assess_inference_qualification plain_codec (TypedReceipt example_receipt) (Some example_subject) (Some example_scope)
     (Some example_context) (Aware t 0)"

lemma example_on: "assessed_on plain_codec (TypedReceipt example_receipt) (Some example_subject) (Some example_scope) (Some example_context)
    example_receipt example_subject example_scope example_context"
  using create_context_facts [OF example_context_created] by (simp add: assessed_on_def read_receipt_def example_receipt_valid)

lemma plain_canonical: "\<forall>v. canonical_json plain_codec (assessment_projection v) \<noteq> None"
  by (simp add: plain_codec_def)

lemma example_fresh: "qs_freshness_policy example_scope = Some \<lparr>fp_age_basis = ''EVIDENCE_CAPTURED_AT'', fp_maximum_evidence_age_seconds = 60\<rparr>"
  "instant (rt_evidence_captured_at example_receipt) = 0"
  by (simp_all add: example_scope_def example_receipt_def receipt_values_def Let_def)

lemma example_assessed:
  assumes "in_range t"
  shows "\<exists>a. assess_example t = Inr a \<and> qa_validity a = (if t \<ge> 60000000 then EXPIRED else CURRENT)"
proof -
  have ids: "sj_subject_digest example_subject = zero_digest" "qs_scope_digest example_scope = zero_digest"
    "qc_qualification_context_digest example_context = zero_digest" "qs_evaluated_use example_scope = ''CANARY_CONSIDERATION''"
    by (simp_all add: example_subject_def example_scope_def example_context_def)
  have r: "prefixed_id_ok ''qrc_'' (rt_receipt_id example_receipt)" "rt_proofability example_receipt = ''PROVABLE''"
    "same_digests example_receipt zero_digest zero_digest zero_digest"
    using zero_ok by (simp_all add: example_receipt_def receipt_values_def same_digests_def example_handoff_def Let_def)
  have e: "assess_example t = assess_current plain_codec example_receipt example_scope zero_digest zero_digest zero_digest t"
    using assess_on [OF example_on, of "Aware t 0" t] assms by (simp add: ids)
  have "\<exists>a. assess_current plain_codec example_receipt example_scope zero_digest zero_digest zero_digest t = Inr a"
    unfolding assess_current_def example_fresh(1) applicability_same(2) [OF r(3)]
    using applicable_assessment_total [OF plain_hex plain_canonical r(1,2) _ ids(4)] zero_ok
    by (simp add: Let_def expiry_def example_fresh(2) DATETIME_LIMIT_def)
  then obtain a where a: "assess_current plain_codec example_receipt example_scope zero_digest zero_digest zero_digest t = Inr a" by blast
  from assess_current_same [OF a r(3)] show ?thesis
    unfolding e example_fresh(1) using a by (simp add: expiry_def example_fresh(2) DATETIME_LIMIT_def)
qed

theorem created_question_assessable_witness:
  "\<exists>a. assess_example 0 = Inr a \<and> qa_validity a = CURRENT \<and> verify_qualification_context plain_codec example_context \<and>
     (qa_validity a = INVALID \<longrightarrow> qa_reason a = INVALID_EXPIRY)"
proof -
  obtain a where a: "assess_example 0 = Inr a" "qa_validity a = CURRENT"
    using example_assessed [of 0] by (auto simp: in_range_def DATETIME_LIMIT_def)
  from created_question_assessable [OF example_subject_created example_scope_created example_context_created _ a(1), of example_receipt] a
  show ?thesis by (simp add: read_receipt_def example_receipt_valid)
qed

theorem assessment_current_iff_witness:
  "\<exists>a. assess_example 0 = Inr a \<and> (\<exists>r s q c. assessed_on plain_codec (TypedReceipt example_receipt) (Some example_subject) (Some example_scope) (Some example_context) r s q c \<and> same_digests r (sj_subject_digest s) (qs_scope_digest q) (qc_qualification_context_digest c) \<and>
     fresh_at r q 0 \<and> qa_verdict a = Some (rt_verdict r))"
proof -
  obtain a where a: "assess_example 0 = Inr a" "qa_validity a = CURRENT"
    using example_assessed [of 0] by (auto simp: in_range_def DATETIME_LIMIT_def)
  from iffD1 [OF assessment_current_iff [OF a(1)] a(2)] a(1) show ?thesis unfolding instant.simps by blast
qed

theorem expired_stays_expired_witness:
  "\<exists>a b. assess_example 60000000 = Inr a \<and> assess_example 70000000 = Inr b \<and> qa_validity b = EXPIRED \<and> qa_expires_at b = qa_expires_at a"
proof -
  obtain a b where a: "assess_example 60000000 = Inr a" "qa_validity a = EXPIRED" and b: "assess_example 70000000 = Inr b"
    using example_assessed [of 60000000] example_assessed [of 70000000] by (auto simp: in_range_def DATETIME_LIMIT_def)
  from expired_stays_expired [OF a b] a b show ?thesis by simp
qed

theorem current_receipt_binds_witness:
  "\<exists>a b. assess_example 0 = Inr a \<and> qa_validity a = CURRENT \<and> assess_example 1 = Inr b \<and> qa_validity b = CURRENT \<and>
     (example_subject = example_subject \<and> example_scope = example_scope \<and> example_context = example_context)"
proof -
  obtain a b where a: "assess_example 0 = Inr a" "qa_validity a = CURRENT" and b: "assess_example 1 = Inr b" "qa_validity b = CURRENT"
    using example_assessed [of 0] example_assessed [of 1] by (auto simp: in_range_def DATETIME_LIMIT_def)
  from current_receipt_binds [OF a b] a b show ?thesis by simp
qed

theorem assessment_total_witness: "\<exists>a. assess_example 5 = Inr a"
  by (rule assessment_total [OF plain_hex plain_canonical])
    (simp_all add: in_range_def DATETIME_LIMIT_def read_receipt_def example_receipt_valid)

theorem runtime_configuration_clean_witness:
  "\<exists>payload. parse_runtime_configuration plain_codec ''{}'' = Some payload \<and> json_nodes payload \<le> 256 \<and> list_all harmless_path (key_paths [] payload)"
  using runtime_configuration_clean [OF example_verified(1)] by (auto simp: example_subject_def)

theorem qualification_pass_exact_witness: "calculate_verdict example_facts example_criterion = PASS"
  using qualification_pass_exact [OF example_recalculated, of example_criterion]
  by (simp add: example_records_def example_criterion_def qualification_criterion_ok_def)

theorem recalculated_evidence_never_receipted_witness:
  "\<forall>r. issue_from_admitted plain_codec example_handoff example_package example_admitted [QualificationCriterion example_criterion]
     (Some (zero_id [])) ''TTFT'' (Aware 0 0) (Aware 0 0) \<noteq> Inr r"
  using recalculated_evidence_never_receipted [OF plain_hex, of example_records "''x''" example_admitted] example_recalculated
  by (simp add: example_admitted_def)

lemma prerelease_profile_never_receipted_witness:
  "verify_qualification_scope plain_codec example_scope \<and> me_profile_version (qs_measurement_profile example_scope) = ''1.0.0-rc1'' \<and>
     (\<forall>r. issue_from_admitted plain_codec (example_handoff\<lparr>hf_measurement_profile_version := ''1.0.0-rc1''\<rparr>) example_package
       (example_admitted\<lparr>ad_recalculated := example_facts\<lparr>rm_recalculation_sha256 := zero_digest\<rparr>\<rparr>)
       [QualificationCriterion example_criterion] (Some (zero_id [])) ''TTFT'' (Aware 0 0) (Aware 0 0) \<noteq> Inr r)"
  using prerelease_profile_never_receipted [of "example_handoff\<lparr>hf_measurement_profile_version := ''1.0.0-rc1''\<rparr>"]
  by (simp add: example_verified) (simp add: example_scope_def)

end
