(* ===== verification/Spec2Isabelle.thy ===== *)
theory Spec2Isabelle
  imports Zoom_Session_Laws Contracts_Laws Closure_Laws Confirmation_Store_Laws Workspace_Laws Performance_Laws Redaction_Laws Poc_Sources_Laws Proposal_Review_Laws
  Event_Stream_Laws Performance_Operations_Laws Capability_Planner_Laws Contract_Definition_Laws Agreement_Laws Qualification_Laws
begin

text \<open>
  ExitSpec turns what a customer said about a proof of concept into a contract, and a run of the
  contract into evidence and a verdict: capture, review, plan, confirm, prove, decide. Its own
  logic is Python under src/src/exitspec; this development models the parts that decide something
  and proves what makes their decisions trustworthy. Names below are files of that directory.

  Shared vocabulary.
  Prelude holds datetimes (naive or aware, compared by instant), readings of the injected clocks,
  the state-and-error combinators in which a raised exception keeps the assignments made before
  it, guard sequences, text functions, identifier patterns, JSON payloads, the digest parameter
  \<open>hasher\<close> (RFC 8785 and SHA-256 are not part of the repository) and dicts as association lists.
  Replay holds the interfaces: \<open>invariant_system\<close>, a step function that keeps an invariant;
  \<open>replay_service\<close>, the contract of an operation with an idempotency key; and
  \<open>stable_replay_service\<close>, where the remembered answer never changes. Components interpret them on
  their own state: the contract lineage, the Zoom session, the closure service, the store, the
  drafts and their sources. \<open>terminal_port\<close> and \<open>guarded_client\<close> are a port of one component that
  another one asks, whose final answers never change.

  Components.
  Verdicts and Verdicts_Laws: statistics.py, verdicts.py and their models. The Wilson interval,
  the verdict of one criterion, the overall verdict. Laws: the interval is the pair of roots of
  the score equation, so PASS has an exact meaning; every valid measurement gets a valid verdict;
  more successes never cost a PASS; the aggregate follows its precedence; an overall PASS is backed.
  Contracts and Contracts_Laws: contracts.py, confirmations.py and the contract model of models.py.
  Laws: the invariant of a lineage over all operations, when a freeze succeeds, what it preserves,
  that frozen is final, and what digests and fingerprints bind: two contracts with one digest are equal, or
  their own two payloads collide.
  Confirmation_Store and Confirmation_Store_Laws: confirmation_store.py. The store invariant ties
  its seven dicts together; laws: one decision per contract version, authority of a decision,
  replay, the life of a review capability, the canonical form of audit metadata.
  Closure and Closure_Laws: workspace_closure.py. Closure and mutation exclude each other, a
  receipt is authorised by the evidence that was reviewed, closing is idempotent.
  Zoom_Session and Zoom_Session_Laws: zoom_session_runtime.py. The invariant of the session record,
  snapshots of reachable records, replay, finalisation, absorption, checkpoint and recovery, and
  two behaviours at the edge: a refused transcript that stays stored, the 65th reconnect.
  Workspace and Workspace_Laws: workspace.py. Blockers, next action and dashboard as functions of
  the reported facts; laws: when freeze, run and handoff are asked for, and that the dashboard
  shows exactly the selected POCs in its order.
  Probe, Probe_Run and Probe_Laws: performance_probe.py. Configuration bounds, manifest, records,
  attempts and the assembly of a run, and the validator of its evidence envelope. Laws: the
  validator accepts exactly the complete evidence, one terminal record per announced request; when
  a run is assembled, in whatever order its attempts complete; an attempt that loses the run.
  Event_Stream and Event_Stream_Laws: the rest of performance_probe.py that decides, from the bytes of
  the response to the two instants of an attempt, and reference_inference.py. UTF-8 decoding and
  \<open>json.loads\<close> are written out. Laws: the fuel of the parser is enough; reading does not depend on the chunks; a
  consumed stream makes a recordable attempt; the stream of the reference server is accepted.
  Performance and Performance_Laws: performance_verdicts.py, performance_population.py and the
  criterion models. Laws: the p95 is the least value covering 95 percent; the exact meaning of
  PASS and FAIL on a run; the order of the records is irrelevant; a PASS is backed by evidence.
  Performance_Operations and Performance_Operations_Laws: performance_operations.py, the ledger in
  which an execution is reserved and ended, as its table with the constraints of the schema; steps
  are an inductive relation. Laws: one execution for a key, terminal is final, when an operation
  can be ended, replay.
  Regex, Redaction and Redaction_Laws: redaction.py. Regex is a backtracking matcher for the
  regular expressions under src/; Redaction states the detectors as its terms and models selection,
  replacement, the findings and the egress check. Laws: the spans redacted form a chain that meets
  every span proposed; the placeholders of the result are theirs, line by line, so that its
  validator never refuses it; egress hands out a text exactly when nothing is left to redact in it,
  which is exactly when redacting it again leaves it as it is.
  Draft_Pocs and Draft_Pocs_Laws: poc_creation.py. The registry of draft POCs. Laws: drafts are never
  removed and keep their identity, archived is final, a creation is replayed with the current draft.
  Poc_Sources and Poc_Sources_Laws: poc_sources.py. The append-only store of redacted sources with
  its guard. Laws: numbering and revision chains, agreement of its indexes, replay; and, through
  the interfaces \<open>terminal_port\<close> and \<open>guarded_client\<close>, that an archived draft gets no more sources
  however the two services interleave; and a text the redactor allows but the guard refuses.
  Proposal_Review and Proposal_Review_Laws: poc_proposal_review.py. Human triage of proposals that
  other services look up, and the guard under which assisted authoring replaces the proposals of a
  source. Laws: what a step may change; a decision is final; it stays on what the reviewer saw, by
  the fingerprints remembered, or the proposal shown later has the fingerprint of the one seen; no decision is left on a proposal that was replaced.
  Capability_Planner and Capability_Planner_Laws: poc_capability_planner.py. How each retained
  proposal is to be proved: the fixed registry, what a human declares, the records and plans with
  their validators, the service. Laws: what a plan that is ready for agreement guarantees of its
  must-have claims; a new plan covers the retained proposals exactly; a plan handed out as current
  describes what is retained now, or has the fingerprints of exactly what is retained now.
  Contract_Definition and Contract_Definition_Laws: poc_contract_definition.py, one bounded
  performance criterion for a proposal that was kept, and the service over the listing of the
  triage as web.py composes them. Laws: a definition is immutable and the only one of its proposal;
  in the composition it rests on a final human decision to keep.
  Agreement_Assembly, Agreement, Agreement_Lemmas and Agreement_Laws: poc_agreement.py,
  review_links.py and the statuses of poc_agreement_web_api.py. A ready plan becomes a contract of
  capability criteria with the evidence policies they are bound to; the service prepares it, sends
  the customer a link, records the decision, revises and freezes. Laws: every operation makes at
  most one of five changes to one POC; a frozen contract rests on the customer's confirmation of
  exactly what the current inputs assemble to, and can always be reached from one; a confirmed
  agreement is final; revisions form a lineage; which ready plans can never be prepared, and why a
  request for a new link cannot be retried.
  Artifact_Json, Serving_Subject, Qualification_Scope, Qualification and Qualification_Laws:
  serving_subject.py, qualification_scope.py, qualification_receipts.py, qualification_assessment.py
  and the recalculated facts of inferdrome_bundle.py. Artifact_Json is the way a JSON object becomes
  a strict model: bounds, the errors in the order pydantic lists them, patterns, digests. Subject,
  scope and context are artifacts bound by a digest, the interface \<open>bound_artifact\<close>; a receipt is
  issued over admitted facts and assessed against the artifacts of today. Laws: when a receipt is
  CURRENT, what it then binds, that expired is final, that an assessment always has a result; the
  runtime configuration is free of denied key paths; the exact meaning of PASS over the request
  records; and that facts as the bundle verifier recalculates them never get a receipt.

  Correspondence. A class is a record with a field per attribute, an enum a datatype, a method a
  definition named after it, exceptions the left side of a sum. A method that mutates returns the
  state it leaves behind also when it raises. Clock readings, generated identifiers and answers of
  injected collaborators are arguments, read at most once per call as in the code. Locks are not
  modelled: a locked section is one step, and interleavings are sequences of steps.

  Bounds. Loops are structural recursion over lists, or have a termination proof by a measure; only
  the JSON parser takes fuel, one unit per call, and twice the length of the text plus one is
  always enough (\<open>json_loads_total\<close>). Nesting that exhausts the stack of the interpreter is not modelled. Counters are natural
  numbers, as Python integers do not wrap. Floats are reals: rounding is not modelled. Text has code
  points below 256.

  The canonical encoder, the hash and the URL parser of the probe are the argument \<open>codec\<close>, and so
  are those of the qualification artifacts. Bytes as input of those artifacts are not modelled.

  Not modelled: reading and writing files, HTTP, SQL and subprocesses; the presentation layers
  (HTML, CLI, UI payloads); the Zoom and provider connectors beyond the session machine; the
  routing SLO contract kinds; proofability reports, prospective handoffs and the admission of evidence
  bundles; the confirmation ledger on SQLite, and the opening of database files.
\<close>

end
